(* ===== verification/Prelude.thy ===== *)
theory Prelude imports Complex_Main begin

text \<open>
  Shared vocabulary of the development: the result type of fallible code, Python's truth
  test and \<open>or\<close> on strings and optional strings, \<open>str.strip\<close>, running a list of fallible
  steps, and the lemma collections every component uses.

  A Python exception is a value: a function that may raise returns \<open>'e + 'a\<close>, with
  \<open>Inl\<close> for the raised error (the error's class is a datatype constructor that carries the
  message) and \<open>Inr\<close> for the returned value. A Python string is an Isabelle \<open>string\<close>, one
  \<open>char\<close> per code point; the code points are those below 256. A point in time or a duration
  (a Python \<open>float\<close> of seconds) is a \<open>real\<close>: comparisons and sums are exact, the rounding of
  doubles is not modelled.
\<close>

type_synonym time = real

named_theorems result_simps \<open>rewriting of fallible computations\<close>

named_theorems step_defs \<open>definitions of the operations of a state machine\<close>

section \<open>Fallible computations\<close>

definition rbind :: "'e + 'a \<Rightarrow> ('a \<Rightarrow> 'e + 'b) \<Rightarrow> 'e + 'b" where
  "rbind m f = (case m of Inl e \<Rightarrow> Inl e | Inr x \<Rightarrow> f x)"

lemma rbind_simps [simp]:
  "rbind (Inl e) f = Inl e"
  "rbind (Inr x) f = f x"
  by (simp_all add: rbind_def)

lemma rbind_Inr_iff [result_simps]:
  "rbind m f = Inr y \<longleftrightarrow> (\<exists>x. m = Inr x \<and> f x = Inr y)"
  by (simp add: rbind_def split: sum.splits)

lemma rbind_Inl_iff [result_simps]:
  "rbind m f = Inl e \<longleftrightarrow> m = Inl e \<or> (\<exists>x. m = Inr x \<and> f x = Inl e)"
  by (auto simp add: rbind_def split: sum.splits)

lemma if_Inl_Inr_iff [result_simps]:
  "(if b then Inl e else m) = Inr y \<longleftrightarrow> \<not> b \<and> m = Inr y"
  by simp

lemma if_Inl_Inl_iff [result_simps]:
  "(if b then Inl e else Inr y) = Inl e' \<longleftrightarrow> b \<and> e' = e"
  by auto

lemma case_option_Some_iff [result_simps]:
  "(case x of None \<Rightarrow> None | Some y \<Rightarrow> f y) = Some z \<longleftrightarrow> (\<exists>y. x = Some y \<and> f y = Some z)"
  by (cases x) simp_all

text \<open>A list of steps runs from left to right and stops at the first error.\<close>

fun run_steps :: "('s \<Rightarrow> 'a \<Rightarrow> 'e + 's) \<Rightarrow> 's \<Rightarrow> 'a list \<Rightarrow> 'e + 's" where
  "run_steps step s [] = Inr s"
| "run_steps step s (a # as) = rbind (step s a) (\<lambda>s'. run_steps step s' as)"

lemma run_steps_append:
  "run_steps step s (as @ bs) = rbind (run_steps step s as) (\<lambda>s'. run_steps step s' bs)"
  by (induction as arbitrary: s) (auto simp: rbind_def split: sum.splits)

text \<open>The two ways a property of single steps reaches a whole run.\<close>

lemma run_steps_invariant:
  assumes "run_steps step s as = Inr s'" and "P s"
    and "\<And>s a s'. P s \<Longrightarrow> a \<in> set as \<Longrightarrow> step s a = Inr s' \<Longrightarrow> P s'"
  shows "P s'"
  using assms
proof (induction as arbitrary: s)
  case Nil
  then show ?case by simp
next
  case (Cons a as)
  from Cons.prems(1) obtain t where t: "step s a = Inr t" "run_steps step t as = Inr s'"
    by (auto simp: result_simps)
  have "P t" by (rule Cons.prems(3) [OF Cons.prems(2) _ t(1)]) simp
  then show ?case by (rule Cons.IH [OF t(2)]) (rule Cons.prems(3), auto)
qed

lemma run_steps_relation:
  assumes "run_steps step s as = Inr s'"
    and "\<And>s. R s s" and "\<And>s t u. R s t \<Longrightarrow> R t u \<Longrightarrow> R s u"
    and "\<And>s a s'. a \<in> set as \<Longrightarrow> step s a = Inr s' \<Longrightarrow> R s s'"
  shows "R s s'"
  using assms(1,4)
proof (induction as arbitrary: s)
  case Nil
  then show ?case using assms(2) by simp
next
  case (Cons a as)
  from Cons.prems(1) obtain t where t: "step s a = Inr t" "run_steps step t as = Inr s'"
    by (auto simp: result_simps)
  have "R s t" by (rule Cons.prems(2) [OF _ t(1)]) simp
  moreover have "R t s'" by (rule Cons.IH [OF t(2)]) (rule Cons.prems(2), auto)
  ultimately show ?case by (rule assms(3))
qed

text \<open>Every step of a successful run succeeded in the state the steps before it reached.\<close>

lemma run_steps_member:
  assumes "run_steps step x as = Inr y" and "a \<in> set as"
  obtains u v bs where "run_steps step x bs = Inr u" "step u a = Inr v"
  using assms
proof (induction as arbitrary: x thesis)
  case Nil
  then show ?case by simp
next
  case (Cons b as)
  from Cons.prems(2) obtain t where t: "step x b = Inr t" "run_steps step t as = Inr y"
    by (auto simp: result_simps)
  show ?case
  proof (cases "a = b")
    case True
    with t(1) show ?thesis by (intro Cons.prems(1) [of "[]"]) simp_all
  next
    case False
    with Cons.prems(3) have "a \<in> set as" by simp
    from Cons.IH [OF _ t(2) this] obtain bs u v where
      "run_steps step t bs = Inr u" "step u a = Inr v" by blast
    with t(1) show ?thesis by (intro Cons.prems(1) [of "b # bs"]) simp_all
  qed
qed

text \<open>The same for histories of states, every two neighbours related.\<close>

lemma successively_invariant:
  assumes "successively R (b # h)" and "P b"
    and "\<And>x y. x \<in> set (b # h) \<Longrightarrow> y \<in> set h \<Longrightarrow> P x \<Longrightarrow> R x y \<Longrightarrow> P y"
  shows "P (last (b # h))"
  using assms
proof (induction h arbitrary: b)
  case Nil
  then show ?case by simp
next
  case (Cons c h)
  from Cons.prems(1) have step: "R b c" and rest: "successively R (c # h)" by simp_all
  have "P c" by (rule Cons.prems(3) [OF _ _ Cons.prems(2) step]) simp_all
  then have "P (last (c # h))"
    by (rule Cons.IH [OF rest]) (rule Cons.prems(3), auto)
  then show ?case by simp
qed

lemma find_append:
  "find P (xs @ ys) = (case find P xs of None \<Rightarrow> find P ys | Some x \<Rightarrow> Some x)"
  by (induction xs) auto

section \<open>Python truth values and strings\<close>

text \<open>\<open>bool(x)\<close> for a string and for an optional string.\<close>

definition truthy :: "string \<Rightarrow> bool" where
  "truthy s \<longleftrightarrow> s \<noteq> []"

fun otruthy :: "string option \<Rightarrow> bool" where
  "otruthy None = False"
| "otruthy (Some s) = truthy s"

text \<open>\<open>x or y\<close> for an optional string \<open>x\<close>.\<close>

definition or_str :: "string option \<Rightarrow> string \<Rightarrow> string" where
  "or_str x y = (case x of None \<Rightarrow> y | Some s \<Rightarrow> if truthy s then s else y)"

text \<open>\<open>x or y\<close> when both may be absent.\<close>

definition or_opt :: "string option \<Rightarrow> string option \<Rightarrow> string option" where
  "or_opt x y = (if otruthy x then x else y)"

lemma or_str_simps [simp]:
  "or_str None y = y"
  "or_str (Some []) y = y"
  "s \<noteq> [] \<Longrightarrow> or_str (Some s) y = s"
  by (simp_all add: or_str_def truthy_def)

lemma truthy_simps [simp]: "truthy [] = False" "truthy (c # cs) = True"
  by (simp_all add: truthy_def)

lemma or_opt_simps [simp]:
  "or_opt None y = y"
  "or_opt (Some []) y = y"
  "s \<noteq> [] \<Longrightarrow> or_opt (Some s) y = Some s"
  by (simp_all add: or_opt_def truthy_def)

text \<open>The white space of \<open>str.isspace\<close> below code point 256, and \<open>str.strip\<close>.\<close>

definition py_space :: "char \<Rightarrow> bool" where
  "py_space c \<longleftrightarrow> (let n = of_char c :: nat in
     (9 \<le> n \<and> n \<le> 13) \<or> (28 \<le> n \<and> n \<le> 32) \<or> n = 133 \<or> n = 160)"

definition lstrip :: "string \<Rightarrow> string" where
  "lstrip s = dropWhile py_space s"

definition strip :: "string \<Rightarrow> string" where
  "strip s = rev (dropWhile py_space (rev (lstrip s)))"

text \<open>\<open>not s.strip()\<close>: nothing but white space.\<close>

definition blank :: "string \<Rightarrow> bool" where
  "blank s \<longleftrightarrow> \<not> truthy (strip s)"

lemma blank_iff: "blank s \<longleftrightarrow> (\<forall>c \<in> set s. py_space c)"
proof -
  have drop: "(\<forall>c \<in> set (dropWhile py_space s). py_space c) \<longleftrightarrow> (\<forall>c \<in> set s. py_space c)"
    by (induction s) auto
  show ?thesis
    by (simp add: blank_def truthy_def strip_def lstrip_def dropWhile_eq_Nil_conv drop)
qed

lemma blank_Nil [simp]: "blank []"
  by (simp add: blank_iff)

lemma not_blank_truthy: "\<not> blank s \<Longrightarrow> s \<noteq> []"
  by auto

text \<open>
  \<open>repr(s)\<close> of a string (the \<open>!r\<close> of an f-string): double quotes only when the text has single
  quotes and no double ones; the quote, the backslash and the three named controls are escaped,
  any other character that is not printable is written in hexadecimal after backslash and x.
\<close>

definition quote_char :: char where
  "quote_char = char_of (39 :: nat)"

definition dquote_char :: char where
  "dquote_char = char_of (34 :: nat)"

definition backslash_char :: char where
  "backslash_char = char_of (92 :: nat)"

definition hex_digit :: "nat \<Rightarrow> char" where
  "hex_digit n = char_of (if n < 10 then 48 + n else 87 + n)"

definition repr_char :: "char \<Rightarrow> char \<Rightarrow> string" where
  "repr_char q c = (let n = of_char c :: nat in
     if c = q \<or> c = backslash_char then [backslash_char, c]
     else if n = 9 then [backslash_char, CHR ''t'']
     else if n = 10 then [backslash_char, CHR ''n'']
     else if n = 13 then [backslash_char, CHR ''r'']
     else if n < 32 \<or> (127 \<le> n \<and> n \<le> 160) \<or> n = 173
     then [backslash_char, CHR ''x'', hex_digit (n div 16), hex_digit (n mod 16)]
     else [c])"

definition py_repr :: "string \<Rightarrow> string" where
  "py_repr s = (let q = (if quote_char \<in> set s \<and> dquote_char \<notin> set s
                         then dquote_char else quote_char)
                in q # concat (map (repr_char q) s) @ [q])"

section \<open>Floats\<close>

text \<open>A Python \<open>float\<close> that is tested with \<open>math.isfinite\<close>.\<close>

datatype py_float = Finite real | PosInf | NegInf | NaN

fun is_finite :: "py_float \<Rightarrow> bool" where
  "is_finite (Finite _) = True"
| "is_finite _ = False"

section \<open>Decimal text and substrings\<close>

text \<open>\<open>str(n)\<close> of an integer, and \<open>part in s\<close> on strings.\<close>

fun show_nat :: "nat \<Rightarrow> string" where
  "show_nat n = (if n < 10 then [char_of (48 + n)]
                 else show_nat (n div 10) @ [char_of (48 + n mod 10)])"

declare show_nat.simps [simp del]

definition show_int :: "int \<Rightarrow> string" where
  "show_int i = (if i < 0 then CHR ''-'' # show_nat (nat (- i)) else show_nat (nat i))"

lemma show_nat_nonempty [simp]: "show_nat n \<noteq> []"
  by (subst show_nat.simps) simp

fun starts_with :: "string \<Rightarrow> string \<Rightarrow> bool" where
  "starts_with [] s = True"
| "starts_with (c # cs) [] = False"
| "starts_with (c # cs) (d # ds) \<longleftrightarrow> c = d \<and> starts_with cs ds"

definition strip_prefix :: "string \<Rightarrow> string \<Rightarrow> string option" where
  "strip_prefix p s = (if starts_with p s then Some (drop (length p) s) else None)"

fun is_part :: "string \<Rightarrow> string \<Rightarrow> bool" where
  "is_part p [] = (p = [])"
| "is_part p (c # s) \<longleftrightarrow> starts_with p (c # s) \<or> is_part p s"

lemma starts_with_iff: "starts_with p s \<longleftrightarrow> (\<exists>t. s = p @ t)"
proof (induction p arbitrary: s)
  case (Cons c p)
  then show ?case by (cases s) auto
qed simp

lemma is_part_iff: "is_part p s \<longleftrightarrow> (\<exists>u v. s = u @ p @ v)"
proof (induction s)
  case (Cons c s)
  have "(\<exists>u v. c # s = u @ p @ v) \<longleftrightarrow> (\<exists>v. c # s = p @ v) \<or> (\<exists>u v. s = u @ p @ v)"
    by (metis append_Cons append_Nil list.inject neq_Nil_conv)
  with Cons.IH show ?case by (simp add: starts_with_iff)
qed auto

text \<open>\<open>", ".join(xs)\<close>.\<close>

fun join_comma :: "string list \<Rightarrow> string" where
  "join_comma [] = []"
| "join_comma [x] = x"
| "join_comma (x # xs) = x @ '', '' @ join_comma xs"

section \<open>Errors of the job model\<close>

text \<open>
  \<open>JobValidationError\<close> of \<open>cursor/model.py\<close>, the \<open>ValueError\<close> of an enumeration's constructor, the
  \<open>KeyError\<close> of a table without the key, and
  catching an error to raise another.
\<close>

datatype job_error = JobValidationError string | ValueError string | KeyError string

definition map_err :: "('e \<Rightarrow> 'f) \<Rightarrow> 'e + 'a \<Rightarrow> 'f + 'a" where
  "map_err f m = (case m of Inl e \<Rightarrow> Inl (f e) | Inr x \<Rightarrow> Inr x)"

lemma map_err_simps [simp]:
  "map_err f (Inl e) = Inl (f e)"
  "map_err f (Inr x) = Inr x"
  by (simp_all add: map_err_def)

lemma map_err_Inr_iff [result_simps]: "map_err f m = Inr x \<longleftrightarrow> m = Inr x"
  by (auto simp: map_err_def split: sum.splits)

end
