(* ===== verification/Interfaces.thy ===== *)
theory Interfaces imports Prelude begin

text \<open>
  The contracts several components share, each as a locale with the lemmas its clients use:
  a machine whose state label moves along a table of legal edges only, the same machine with
  a rank that every edge lowers, and a codec between a typed value and its flat stored form.
  Every component interprets them on its own operations.
\<close>

section \<open>Machines guarded by a table of legal edges\<close>

locale guarded_machine =
  fixes label :: "'o \<Rightarrow> 's"
    and edges :: "'s \<Rightarrow> 's set"
    and step :: "'o \<Rightarrow> 'a \<Rightarrow> 'e + 'o"
  assumes step_edge: "step x a = Inr y \<Longrightarrow> label y = label x \<or> label y \<in> edges (label x)"
begin

text \<open>A run moves the label along the legal edges.\<close>

lemma run_path:
  assumes "run_steps step x as = Inr y"
  shows "(label x, label y) \<in> {(s, t). t \<in> edges s}\<^sup>*"
proof (rule run_steps_relation [OF assms])
  fix s a s' assume "step s a = Inr s'"
  from step_edge [OF this] show "(label s, label s') \<in> {(s, t). t \<in> edges s}\<^sup>*"
    by auto
qed auto

text \<open>A label without outgoing edges is never left.\<close>

lemma step_terminal:
  assumes "edges (label x) = {}" and "step x a = Inr y"
  shows "label y = label x"
  using step_edge [OF assms(2)] assms(1) by simp

lemma run_terminal:
  assumes "edges (label x) = {}" and "run_steps step x as = Inr y"
  shows "label y = label x"
  by (rule run_steps_invariant [OF assms(2), where P = "\<lambda>z. label z = label x"])
     (use assms(1) step_terminal in \<open>simp, metis\<close>)

text \<open>A set of labels closed under the edges is never left.\<close>

lemma run_closed:
  assumes "run_steps step x as = Inr y" and "label x \<in> S"
    and "\<And>s. s \<in> S \<Longrightarrow> edges s \<subseteq> S"
  shows "label y \<in> S"
  by (rule run_steps_invariant [OF assms(1), where P = "\<lambda>z. label z \<in> S"])
     (use assms(2,3) step_edge in fastforce)+

end

text \<open>When every edge lowers a rank, the label can change only so often.\<close>

locale ranked_machine = guarded_machine label edges step
  for label :: "'o \<Rightarrow> 's" and edges :: "'s \<Rightarrow> 's set" and step :: "'o \<Rightarrow> 'a \<Rightarrow> 'e + 'o" +
  fixes rank :: "'s \<Rightarrow> nat"
  assumes edge_rank: "t \<in> edges s \<Longrightarrow> rank t < rank s"
begin

lemma step_rank: "step x a = Inr y \<Longrightarrow> rank (label y) \<le> rank (label x)"
  using step_edge edge_rank by (metis le_less)

lemma run_rank:
  assumes "run_steps step x as = Inr y"
  shows "rank (label y) \<le> rank (label x)"
  by (rule run_steps_relation [OF assms, where R = "\<lambda>x y. rank (label y) \<le> rank (label x)"])
     (use step_rank in auto)

text \<open>No run comes back to a label it has left.\<close>

lemma no_return:
  assumes "run_steps step x as = Inr y" and "run_steps step y bs = Inr z"
    and "label z = label x"
  shows "label y = label x"
proof -
  have "rank (label z) \<le> rank (label y)" and "rank (label y) \<le> rank (label x)"
    using assms(1,2) by (auto intro: run_rank)
  then have eq: "rank (label y) = rank (label x)" using assms(3) by simp
  have "rank t < rank s \<or> s = t" if "(s, t) \<in> {(s, t). t \<in> edges s}\<^sup>*" for s t
    using that
  proof induction
    case (step t u)
    then have "rank u < rank t" by (simp add: edge_rank)
    with step.IH show ?case by auto
  qed simp
  from this [OF run_path [OF assms(1)]] eq show ?thesis by auto
qed

text \<open>A run in which every step changes the label is no longer than the rank it starts from.\<close>

lemma run_length:
  assumes "run_steps step x as = Inr y"
    and "\<And>x a y. step x a = Inr y \<Longrightarrow> label y \<noteq> label x"
  shows "length as + rank (label y) \<le> rank (label x)"
  using assms(1)
proof (induction as arbitrary: x)
  case Nil
  then show ?case by simp
next
  case (Cons a as)
  then obtain t where t: "step x a = Inr t" "run_steps step t as = Inr y"
    by (auto simp: result_simps)
  have "rank (label t) < rank (label x)"
    using step_edge [OF t(1)] assms(2) [OF t(1)] edge_rank by auto
  with Cons.IH [OF t(2)] show ?case by simp
qed

end

section \<open>Typed values and their flat stored form\<close>

locale flat_codec =
  fixes flatten :: "'a \<Rightarrow> 'r"
    and load :: "'r \<Rightarrow> 'e + 'a"
    and valid :: "'a \<Rightarrow> bool"
  assumes load_flatten: "valid x \<Longrightarrow> load (flatten x) = Inr x"
    and load_valid: "load r = Inr x \<Longrightarrow> valid x"
begin

text \<open>Two valid values stored the same way are the same.\<close>

lemma flatten_inj: "valid x \<Longrightarrow> valid y \<Longrightarrow> flatten x = flatten y \<Longrightarrow> x = y"
  by (metis load_flatten sum.inject(2))

text \<open>Writing back what was loaded and loading it again gives the same value.\<close>

lemma load_stable: "load r = Inr x \<Longrightarrow> load (flatten x) = Inr x"
  by (simp add: load_flatten load_valid)

lemma valid_iff: "valid x \<longleftrightarrow> (\<exists>r. load r = Inr x)"
  using load_flatten load_valid by blast

end

end
