(* ===== verification/Lifecycle.thy ===== *)
theory Lifecycle imports Interfaces begin

text \<open>
  \<open>cursor/lifecycle.py\<close>: the terminal, cleanup, announcement and delivery state of a job,
  each a union of frozen data classes. Every class that validates itself in \<open>__post_init__\<close>
  has a constructor function here (\<open>TerminalIntent_init\<close>, \<open>CleanupOwned_init\<close>), which is what
  the code's call of the class is; every function that raises \<open>LifecycleTransitionError\<close>
  returns the error with its message.
\<close>

datatype lifecycle_error = LifecycleTransitionError string

section \<open>Terminal state\<close>

record terminal_intent =
  ti_status :: string
  ti_result :: string
  ti_error :: "string option"
  ti_completed_at :: time

record materialized_outcome =
  mo_status :: string
  mo_result :: string
  mo_error :: "string option"
  mo_completed_at :: time

datatype terminal_state =
    TerminalIntentState terminal_intent
  | MaterializedState materialized_outcome
  | NoTerminalState

definition terminal_status_names :: "string set" where
  "terminal_status_names = {''completed'', ''failed'', ''cancelled''}"

definition TerminalIntent_init ::
  "string \<Rightarrow> string \<Rightarrow> string option \<Rightarrow> time \<Rightarrow> lifecycle_error + terminal_intent" where
  "TerminalIntent_init status res err completed_at =
     (if status \<notin> {''completed'', ''failed'', ''cancelled''}
      then Inl (LifecycleTransitionError ''terminal intent requires a terminal status'')
      else if status = ''failed'' \<and> \<not> otruthy err
      then Inl (LifecycleTransitionError ''failed terminal intent requires an error'')
      else Inr \<lparr>ti_status = status, ti_result = res, ti_error = err,
                ti_completed_at = completed_at\<rparr>)"

definition MaterializedTerminalOutcome_init ::
  "string \<Rightarrow> string \<Rightarrow> string option \<Rightarrow> time \<Rightarrow> lifecycle_error + materialized_outcome" where
  "MaterializedTerminalOutcome_init status res err completed_at =
     rbind (TerminalIntent_init status res err completed_at)
       (\<lambda>_. Inr \<lparr>mo_status = status, mo_result = res, mo_error = err,
                 mo_completed_at = completed_at\<rparr>)"

definition load_terminal_state ::
  "string \<Rightarrow> string option \<Rightarrow> string option \<Rightarrow> time option \<Rightarrow>
   string option \<Rightarrow> string option \<Rightarrow> string option \<Rightarrow> time option \<Rightarrow>
   lifecycle_error + terminal_state" where
  "load_terminal_state status res err completed_at
     intent_status intent_result intent_error intent_completed_at =
     (case intent_status of
        Some st \<Rightarrow>
          (case (intent_result, intent_completed_at) of
             (Some r, Some c) \<Rightarrow>
               rbind (TerminalIntent_init st r intent_error c) (\<lambda>t. Inr (TerminalIntentState t))
           | _ \<Rightarrow> Inl (LifecycleTransitionError
                     ''terminal intent requires result and completion''))
      | None \<Rightarrow>
          if status \<in> {''completed'', ''failed'', ''cancelled''} then
            (case (res, completed_at) of
               (Some r, Some c) \<Rightarrow>
                 rbind (MaterializedTerminalOutcome_init status r err c)
                   (\<lambda>t. Inr (MaterializedState t))
             | _ \<Rightarrow> Inl (LifecycleTransitionError
                       ''materialized terminal outcome requires result and completion''))
          else Inr NoTerminalState)"

definition terminal_intent_ok :: "terminal_intent \<Rightarrow> bool" where
  "terminal_intent_ok t \<longleftrightarrow>
     ti_status t \<in> terminal_status_names \<and> (ti_status t = ''failed'' \<longrightarrow> otruthy (ti_error t))"

definition materialized_ok :: "materialized_outcome \<Rightarrow> bool" where
  "materialized_ok t \<longleftrightarrow>
     mo_status t \<in> terminal_status_names \<and> (mo_status t = ''failed'' \<longrightarrow> otruthy (mo_error t))"

fun terminal_state_ok :: "terminal_state \<Rightarrow> bool" where
  "terminal_state_ok (TerminalIntentState t) = terminal_intent_ok t"
| "terminal_state_ok (MaterializedState t) = materialized_ok t"
| "terminal_state_ok NoTerminalState = True"

lemma TerminalIntent_init_ok:
  "TerminalIntent_init st r e c = Inr t \<Longrightarrow> terminal_intent_ok t"
  by (auto simp: TerminalIntent_init_def terminal_intent_ok_def terminal_status_names_def
      split: if_splits)

lemma MaterializedTerminalOutcome_init_ok:
  "MaterializedTerminalOutcome_init st r e c = Inr t \<Longrightarrow> materialized_ok t"
  by (auto simp: MaterializedTerminalOutcome_init_def TerminalIntent_init_def materialized_ok_def
      terminal_status_names_def split: if_splits)

lemma load_terminal_state_ok:
  "load_terminal_state st r e c ist ir ie ic = Inr s \<Longrightarrow> terminal_state_ok s"
  by (auto simp: load_terminal_state_def result_simps
      dest: TerminalIntent_init_ok MaterializedTerminalOutcome_init_ok
      split: option.splits if_splits)

section \<open>Cleanup state\<close>

datatype cleanup_state =
    CleanupSettled
  | CleanupReconciling
  | CleanupPending "string option" bool
  | CleanupOwned "string option" int string string bool

record cleanup_fields_row =
  target_release_pending :: bool
  target_release_token :: "string option"
  target_release_owner_pid :: "int option"
  target_release_owner_boot_id :: "string option"
  target_release_owner_start :: "string option"
  cancellation_reconciliation_pending :: bool

definition CleanupOwned_init ::
  "string option \<Rightarrow> int \<Rightarrow> string \<Rightarrow> string \<Rightarrow> bool \<Rightarrow> lifecycle_error + cleanup_state" where
  "CleanupOwned_init tok pid boot start recon =
     (if pid \<le> 0 \<or> \<not> truthy boot \<or> \<not> truthy start
      then Inl (LifecycleTransitionError ''owned cleanup requires complete ownership'')
      else Inr (CleanupOwned tok pid boot start recon))"

definition load_cleanup_state :: "cleanup_fields_row \<Rightarrow> lifecycle_error + cleanup_state" where
  "load_cleanup_state r =
     (let tok = target_release_token r;
          pid = target_release_owner_pid r;
          boot = target_release_owner_boot_id r;
          start = target_release_owner_start r;
          recon = cancellation_reconciliation_pending r;
          any_owner = (pid \<noteq> None \<or> boot \<noteq> None \<or> start \<noteq> None)
      in if \<not> target_release_pending r then
           (if otruthy tok \<or> any_owner
            then Inl (LifecycleTransitionError ''settled cleanup cannot retain release ownership'')
            else Inr (if recon then CleanupReconciling else CleanupSettled))
         else if any_owner then
           (case (pid, boot, start) of
              (Some p, Some b, Some st) \<Rightarrow> CleanupOwned_init tok p b st recon
            | _ \<Rightarrow> Inl (LifecycleTransitionError
                      ''cleanup owner PID, boot ID, and process start must be paired''))
         else Inr (CleanupPending tok recon))"

definition begin_cleanup :: "string \<Rightarrow> cleanup_state" where
  "begin_cleanup tok = CleanupPending (Some tok) True"

fun finish_cleanup_reconciliation :: "cleanup_state \<Rightarrow> lifecycle_error + cleanup_state" where
  "finish_cleanup_reconciliation CleanupReconciling = Inr CleanupSettled"
| "finish_cleanup_reconciliation (CleanupPending tok _) = Inr (CleanupPending tok False)"
| "finish_cleanup_reconciliation (CleanupOwned tok p b st _) = CleanupOwned_init tok p b st False"
| "finish_cleanup_reconciliation CleanupSettled = Inr CleanupSettled"

fun claim_cleanup ::
  "cleanup_state \<Rightarrow> string \<Rightarrow> string option \<Rightarrow> int \<Rightarrow> string \<Rightarrow> string \<Rightarrow>
   lifecycle_error + cleanup_state" where
  "claim_cleanup (CleanupPending stok recon) expected tok pid boot start =
     (if or_str stok '''' \<noteq> expected \<or> \<not> truthy (or_str tok expected)
      then Inl (LifecycleTransitionError ''cleanup claim is stale or illegal'')
      else CleanupOwned_init (Some (or_str tok expected)) pid boot start recon)"
| "claim_cleanup _ _ _ _ _ _ = Inl (LifecycleTransitionError ''cleanup claim is stale or illegal'')"

fun take_over_cleanup ::
  "cleanup_state \<Rightarrow> string \<Rightarrow> string \<Rightarrow> int \<Rightarrow> string \<Rightarrow> string \<Rightarrow>
   lifecycle_error + cleanup_state" where
  "take_over_cleanup (CleanupOwned stok _ _ _ recon) expected tok pid boot start =
     (if or_str stok '''' \<noteq> expected \<or> \<not> truthy tok
      then Inl (LifecycleTransitionError ''cleanup takeover is stale or illegal'')
      else CleanupOwned_init (Some tok) pid boot start recon)"
| "take_over_cleanup _ _ _ _ _ _ =
     Inl (LifecycleTransitionError ''cleanup takeover is stale or illegal'')"

fun abandon_cleanup_owner :: "cleanup_state \<Rightarrow> string \<Rightarrow> lifecycle_error + cleanup_state" where
  "abandon_cleanup_owner (CleanupOwned stok _ _ _ recon) tok =
     (if or_str stok '''' \<noteq> tok
      then Inl (LifecycleTransitionError ''cleanup owner release is stale or illegal'')
      else Inr (CleanupPending stok recon))"
| "abandon_cleanup_owner _ _ =
     Inl (LifecycleTransitionError ''cleanup owner release is stale or illegal'')"

fun settle_cleanup :: "cleanup_state \<Rightarrow> string \<Rightarrow> lifecycle_error + cleanup_state" where
  "settle_cleanup (CleanupPending stok _) tok =
     (if or_str stok '''' \<noteq> tok
      then Inl (LifecycleTransitionError ''cleanup settlement is stale or illegal'')
      else Inr CleanupSettled)"
| "settle_cleanup (CleanupOwned stok _ _ _ _) tok =
     (if or_str stok '''' \<noteq> tok
      then Inl (LifecycleTransitionError ''cleanup settlement is stale or illegal'')
      else Inr CleanupSettled)"
| "settle_cleanup _ _ = Inl (LifecycleTransitionError ''cleanup settlement is stale or illegal'')"

fun cleanup_fields :: "cleanup_state \<Rightarrow> cleanup_fields_row" where
  "cleanup_fields CleanupSettled =
     \<lparr>target_release_pending = False, target_release_token = None,
      target_release_owner_pid = None, target_release_owner_boot_id = None,
      target_release_owner_start = None, cancellation_reconciliation_pending = False\<rparr>"
| "cleanup_fields CleanupReconciling =
     \<lparr>target_release_pending = False, target_release_token = None,
      target_release_owner_pid = None, target_release_owner_boot_id = None,
      target_release_owner_start = None, cancellation_reconciliation_pending = True\<rparr>"
| "cleanup_fields (CleanupPending tok recon) =
     \<lparr>target_release_pending = True, target_release_token = tok,
      target_release_owner_pid = None, target_release_owner_boot_id = None,
      target_release_owner_start = None, cancellation_reconciliation_pending = recon\<rparr>"
| "cleanup_fields (CleanupOwned tok pid boot start recon) =
     \<lparr>target_release_pending = True, target_release_token = tok,
      target_release_owner_pid = Some pid, target_release_owner_boot_id = Some boot,
      target_release_owner_start = Some start, cancellation_reconciliation_pending = recon\<rparr>"


section \<open>Announcement state\<close>

datatype announcement_ack = AckPending | AckSpoken | AckDesktop | AckDeferred | AckDismissed

fun ack_value :: "announcement_ack \<Rightarrow> string" where
  "ack_value AckPending = ''pending''"
| "ack_value AckSpoken = ''spoken''"
| "ack_value AckDesktop = ''desktop''"
| "ack_value AckDeferred = ''deferred''"
| "ack_value AckDismissed = ''dismissed''"

text \<open>\<open>AnnouncementAck(value)\<close>; \<open>None\<close> is the \<open>ValueError\<close> of an unknown value.\<close>

definition parse_ack :: "string \<Rightarrow> announcement_ack option" where
  "parse_ack s =
     (if s = ''pending'' then Some AckPending
      else if s = ''spoken'' then Some AckSpoken
      else if s = ''desktop'' then Some AckDesktop
      else if s = ''deferred'' then Some AckDeferred
      else if s = ''dismissed'' then Some AckDismissed
      else None)"

record announcement_state =
  an_ack :: announcement_ack
  an_repeated :: bool

definition announcement_dismissed :: "announcement_state \<Rightarrow> bool" where
  "announcement_dismissed a \<longleftrightarrow> an_ack a = AckDismissed"

fun allowed_acks :: "announcement_ack \<Rightarrow> announcement_ack set" where
  "allowed_acks AckPending = {AckSpoken, AckDesktop, AckDeferred, AckDismissed}"
| "allowed_acks AckDesktop = {AckSpoken, AckDismissed}"
| "allowed_acks AckDeferred = {AckSpoken, AckDesktop, AckDismissed}"
| "allowed_acks AckSpoken = {}"
| "allowed_acks AckDismissed = {}"

definition acknowledge_announcement ::
  "announcement_state \<Rightarrow> announcement_ack \<Rightarrow> lifecycle_error + announcement_state" where
  "acknowledge_announcement a ack =
     (if ack = AckPending
      then Inl (LifecycleTransitionError ''announcement acknowledgement did not advance'')
      else if ack \<notin> allowed_acks (an_ack a)
      then Inl (LifecycleTransitionError ''announcement acknowledgement is already final'')
      else Inr (a\<lparr>an_ack := ack\<rparr>))"

definition dismiss_announcement :: "announcement_state \<Rightarrow> lifecycle_error + announcement_state" where
  "dismiss_announcement a =
     (if an_ack a = AckDismissed
      then Inl (LifecycleTransitionError ''announcement is already dismissed'')
      else Inr \<lparr>an_ack = AckDismissed, an_repeated = an_repeated a\<rparr>)"

definition repeat_announcement :: "announcement_state \<Rightarrow> announcement_state" where
  "repeat_announcement a = \<lparr>an_ack = AckPending, an_repeated = True\<rparr>"

section \<open>Delivery state\<close>

datatype delivery_state =
    PendingDelivery (ds_generation: int) (ds_retry_at: time) (ds_attempts: int)
      (ds_announcement: announcement_state)
  | ClaimedDelivery (ds_generation: int) (ds_token: string) (ds_claimed_at: time)
      (ds_retry_at: time) (ds_attempts: int) (ds_announcement: announcement_state)
  | Delivered (ds_generation: int) (ds_delivered_at: "time option") (ds_attempts: int)
      (ds_announcement: announcement_state)

definition final_acks :: "announcement_ack set" where
  "final_acks = {AckSpoken, AckDismissed}"

text \<open>
  The keyword arguments of \<open>load_delivery_state\<close>, and what \<open>delivery_fields\<close> writes: the key
  \<open>delivered_at\<close> is written for a delivered state only.
\<close>

record delivery_row =
  dr_delivered :: bool
  dr_generation :: int
  dr_claim_token :: "string option"
  dr_claimed_at :: "time option"
  dr_retry_at :: time
  dr_attempts :: int
  dr_delivered_at :: "time option"
  dr_acknowledgement :: string
  dr_repeated :: bool
  dr_dismissed :: "bool option"

record delivery_fields_row =
  delivery_generation :: int
  delivery_attempts :: int
  announcement_ack_field :: string
  announcement_repeated :: bool
  delivery_claim_token :: "string option"
  delivery_claimed_at :: "time option"
  delivery_retry_at :: time
  delivered :: bool
  delivered_at_key :: "time option option"

definition load_delivery_state :: "delivery_row \<Rightarrow> lifecycle_error + delivery_state" where
  "load_delivery_state r =
     (case parse_ack (dr_acknowledgement r) of
        None \<Rightarrow> Inl (LifecycleTransitionError ''announcement acknowledgement is invalid'')
      | Some ack \<Rightarrow>
          (let announcement = \<lparr>an_ack = ack, an_repeated = dr_repeated r\<rparr> in
           if (case dr_dismissed r of None \<Rightarrow> False
               | Some d \<Rightarrow> d \<noteq> announcement_dismissed announcement)
           then Inl (LifecycleTransitionError
                   ''dismissal state and acknowledgement must match'')
           else if otruthy (dr_claim_token r) \<noteq> (dr_claimed_at r \<noteq> None)
           then Inl (LifecycleTransitionError
                   ''delivery claim token and timestamp must be paired'')
           else if dr_delivered r then
             (if otruthy (dr_claim_token r)
              then Inl (LifecycleTransitionError ''delivered state cannot retain a claim'')
              else if ack \<notin> {AckSpoken, AckDismissed}
              then Inl (LifecycleTransitionError
                      ''delivered state requires spoken or dismissed acknowledgement'')
              else Inr (Delivered (dr_generation r) (dr_delivered_at r) (dr_attempts r)
                      announcement))
           else if ack \<in> {AckSpoken, AckDismissed}
           then Inl (LifecycleTransitionError
                   ''pending delivery cannot have a final acknowledgement'')
           else (case (dr_claim_token r, dr_claimed_at r) of
                   (Some tok, Some c) \<Rightarrow>
                     Inr (ClaimedDelivery (dr_generation r) tok c (dr_retry_at r)
                            (dr_attempts r) announcement)
                 | _ \<Rightarrow> Inr (PendingDelivery (dr_generation r) (dr_retry_at r) (dr_attempts r)
                            announcement))))"

definition prepare_delivery :: "delivery_state \<Rightarrow> delivery_state" where
  "prepare_delivery s =
     PendingDelivery (ds_generation s + 1) 0 0
       \<lparr>an_ack = AckPending, an_repeated = an_repeated (ds_announcement s)\<rparr>"

definition claim_delivery ::
  "delivery_state \<Rightarrow> string \<Rightarrow> time \<Rightarrow> time \<Rightarrow> lifecycle_error + delivery_state" where
  "claim_delivery s tok claimed_at lease_seconds =
     (if is_Delivered s
      then Inl (LifecycleTransitionError ''delivered state cannot be claimed'')
      else if is_ClaimedDelivery s \<and> claimed_at - ds_claimed_at s < lease_seconds
      then Inl (LifecycleTransitionError ''delivery claim is still live'')
      else if claimed_at < ds_retry_at s
      then Inl (LifecycleTransitionError ''delivery retry is not due'')
      else Inr (ClaimedDelivery (ds_generation s) tok claimed_at (ds_retry_at s)
                  (ds_attempts s + 1) (ds_announcement s)))"

fun renew_delivery ::
  "delivery_state \<Rightarrow> string \<Rightarrow> time \<Rightarrow> time \<Rightarrow> lifecycle_error + delivery_state" where
  "renew_delivery (ClaimedDelivery g stok c rt n an) tok renewed_at lease_seconds =
     (if stok \<noteq> tok \<or> renewed_at - c \<ge> lease_seconds
      then Inl (LifecycleTransitionError ''delivery renewal is stale or illegal'')
      else Inr (ClaimedDelivery g stok renewed_at rt n an))"
| "renew_delivery _ _ _ _ =
     Inl (LifecycleTransitionError ''delivery renewal is stale or illegal'')"

fun acknowledge_delivery ::
  "delivery_state \<Rightarrow> string \<Rightarrow> time option \<Rightarrow> announcement_ack \<Rightarrow> time option \<Rightarrow>
   lifecycle_error + delivery_state" where
  "acknowledge_delivery (ClaimedDelivery g stok c rt n an) tok delivered_at ack lease_seconds =
     (if stok \<noteq> tok
      then Inl (LifecycleTransitionError ''delivery acknowledgement is stale or illegal'')
      else if (case (lease_seconds, delivered_at) of
                 (Some l, Some d) \<Rightarrow> d - c \<ge> l | _ \<Rightarrow> False)
      then Inl (LifecycleTransitionError ''delivery acknowledgement claim expired'')
      else rbind (acknowledge_announcement an ack)
             (\<lambda>an'. Inr (if ack \<in> {AckSpoken, AckDismissed}
                         then Delivered g delivered_at n an'
                         else PendingDelivery g 0 n an')))"
| "acknowledge_delivery _ _ _ _ _ =
     Inl (LifecycleTransitionError ''delivery acknowledgement is stale or illegal'')"

definition acknowledge_without_claim ::
  "delivery_state \<Rightarrow> time option \<Rightarrow> announcement_ack \<Rightarrow> lifecycle_error + delivery_state" where
  "acknowledge_without_claim s delivered_at ack =
     (if is_Delivered s then
        (if an_ack (ds_announcement s) = ack then Inr s
         else Inl (LifecycleTransitionError ''delivered acknowledgement cannot change''))
      else
        (let an = ds_announcement s;
             an1 = (if an_ack an \<noteq> AckPending
                    then \<lparr>an_ack = AckPending, an_repeated = an_repeated an\<rparr> else an)
         in rbind (acknowledge_announcement an1 ack)
              (\<lambda>an2. Inr (Delivered (ds_generation s) delivered_at (ds_attempts s) an2))))"

fun release_delivery ::
  "delivery_state \<Rightarrow> string \<Rightarrow> time \<Rightarrow> lifecycle_error + delivery_state" where
  "release_delivery (ClaimedDelivery g stok c rt n an) tok retry_at =
     (if stok \<noteq> tok
      then Inl (LifecycleTransitionError ''delivery release is stale or illegal'')
      else Inr (PendingDelivery g retry_at n an))"
| "release_delivery _ _ _ =
     Inl (LifecycleTransitionError ''delivery release is stale or illegal'')"

definition delivery_fields :: "delivery_state \<Rightarrow> delivery_fields_row" where
  "delivery_fields s =
     \<lparr>delivery_generation = ds_generation s,
      delivery_attempts = ds_attempts s,
      announcement_ack_field = ack_value (an_ack (ds_announcement s)),
      announcement_repeated = an_repeated (ds_announcement s),
      delivery_claim_token = (if is_ClaimedDelivery s then Some (ds_token s) else None),
      delivery_claimed_at = (if is_ClaimedDelivery s then Some (ds_claimed_at s) else None),
      delivery_retry_at = (if is_ClaimedDelivery s \<or> is_PendingDelivery s
                           then ds_retry_at s else 0),
      delivered = is_Delivered s,
      delivered_at_key = (if is_Delivered s then Some (ds_delivered_at s) else None)\<rparr>"

end
