(* ===== verification/Cleanup_Machine.thy ===== *)
theory Cleanup_Machine imports Lifecycle begin

text \<open>
  The cleanup half of \<open>cursor/lifecycle.py\<close> as a machine: its operations as one step function,
  the ownership invariant, the codec between a cleanup state and its stored columns, and the
  token fence: who does not hold the current token changes nothing.
\<close>

section \<open>The operations as one machine\<close>

datatype cleanup_op =
    FinishReconciliation
  | ClaimCleanup string "string option" int string string
  | TakeOverCleanup string string int string string
  | AbandonCleanup string
  | SettleCleanup string

fun cleanup_step :: "cleanup_state \<Rightarrow> cleanup_op \<Rightarrow> lifecycle_error + cleanup_state" where
  "cleanup_step s FinishReconciliation = finish_cleanup_reconciliation s"
| "cleanup_step s (ClaimCleanup expected tok pid boot start) =
     claim_cleanup s expected tok pid boot start"
| "cleanup_step s (TakeOverCleanup expected tok pid boot start) =
     take_over_cleanup s expected tok pid boot start"
| "cleanup_step s (AbandonCleanup tok) = abandon_cleanup_owner s tok"
| "cleanup_step s (SettleCleanup tok) = settle_cleanup s tok"

datatype cleanup_label = KSettled | KReconciling | KPending | KOwned

fun cleanup_kind :: "cleanup_state \<Rightarrow> cleanup_label" where
  "cleanup_kind CleanupSettled = KSettled"
| "cleanup_kind CleanupReconciling = KReconciling"
| "cleanup_kind (CleanupPending _ _) = KPending"
| "cleanup_kind (CleanupOwned _ _ _ _ _) = KOwned"

fun cleanup_edges :: "cleanup_label \<Rightarrow> cleanup_label set" where
  "cleanup_edges KSettled = {}"
| "cleanup_edges KReconciling = {KSettled}"
| "cleanup_edges KPending = {KOwned, KSettled}"
| "cleanup_edges KOwned = {KPending, KSettled}"

text \<open>The current release token (\<open>state.token or ""\<close>), and the token an operation presents.\<close>

fun cleanup_token :: "cleanup_state \<Rightarrow> string" where
  "cleanup_token (CleanupPending tok _) = or_str tok ''''"
| "cleanup_token (CleanupOwned tok _ _ _ _) = or_str tok ''''"
| "cleanup_token _ = ''''"

fun presented_token :: "cleanup_op \<Rightarrow> string option" where
  "presented_token FinishReconciliation = None"
| "presented_token (ClaimCleanup expected _ _ _ _) = Some expected"
| "presented_token (TakeOverCleanup expected _ _ _ _) = Some expected"
| "presented_token (AbandonCleanup tok) = Some tok"
| "presented_token (SettleCleanup tok) = Some tok"

fun cleanup_ok :: "cleanup_state \<Rightarrow> bool" where
  "cleanup_ok (CleanupOwned _ pid boot start _) \<longleftrightarrow> 0 < pid \<and> boot \<noteq> [] \<and> start \<noteq> []"
| "cleanup_ok _ \<longleftrightarrow> True"

section \<open>Inversion of the single operations\<close>

lemma CleanupOwned_init_iff [result_simps]:
  "CleanupOwned_init tok pid boot start recon = Inr s \<longleftrightarrow>
     0 < pid \<and> boot \<noteq> [] \<and> start \<noteq> [] \<and> s = CleanupOwned tok pid boot start recon"
  by (auto simp: CleanupOwned_init_def truthy_def)

lemma finish_cleanup_iff [result_simps]:
  "finish_cleanup_reconciliation s = Inr t \<longleftrightarrow>
     (case s of
        CleanupSettled \<Rightarrow> t = CleanupSettled
      | CleanupReconciling \<Rightarrow> t = CleanupSettled
      | CleanupPending tok _ \<Rightarrow> t = CleanupPending tok False
      | CleanupOwned tok p b st _ \<Rightarrow> cleanup_ok s \<and> t = CleanupOwned tok p b st False)"
  by (cases s) (auto simp: result_simps)

lemma claim_cleanup_iff [result_simps]:
  "claim_cleanup s expected tok pid boot start = Inr t \<longleftrightarrow>
     (\<exists>stok recon. s = CleanupPending stok recon \<and> or_str stok '''' = expected
        \<and> or_str tok expected \<noteq> [] \<and> 0 < pid \<and> boot \<noteq> [] \<and> start \<noteq> []
        \<and> t = CleanupOwned (Some (or_str tok expected)) pid boot start recon)"
  by (cases s) (auto simp: result_simps truthy_def)

lemma take_over_cleanup_iff [result_simps]:
  "take_over_cleanup s expected tok pid boot start = Inr t \<longleftrightarrow>
     (\<exists>stok p b st recon. s = CleanupOwned stok p b st recon \<and> or_str stok '''' = expected
        \<and> tok \<noteq> [] \<and> 0 < pid \<and> boot \<noteq> [] \<and> start \<noteq> []
        \<and> t = CleanupOwned (Some tok) pid boot start recon)"
  by (cases s) (auto simp: result_simps truthy_def)

lemma abandon_cleanup_iff [result_simps]:
  "abandon_cleanup_owner s tok = Inr t \<longleftrightarrow>
     (\<exists>stok p b st recon. s = CleanupOwned stok p b st recon \<and> or_str stok '''' = tok
        \<and> t = CleanupPending stok recon)"
  by (cases s) auto

lemma settle_cleanup_iff [result_simps]:
  "settle_cleanup s tok = Inr t \<longleftrightarrow>
     cleanup_kind s \<in> {KPending, KOwned} \<and> cleanup_token s = tok \<and> t = CleanupSettled"
  by (cases s) auto

section \<open>Interpretations\<close>

interpretation cleanup: guarded_machine cleanup_kind cleanup_edges cleanup_step
proof
  fix s a t assume "cleanup_step s a = Inr t"
  then show "cleanup_kind t = cleanup_kind s \<or> cleanup_kind t \<in> cleanup_edges (cleanup_kind s)"
    by (cases a; cases s) (auto simp: result_simps)
qed

lemma cleanup_step_ok: "cleanup_ok s \<Longrightarrow> cleanup_step s a = Inr t \<Longrightarrow> cleanup_ok t"
  by (cases a) (auto simp: result_simps split: cleanup_state.splits)

lemma load_cleanup_state_ok: "load_cleanup_state r = Inr s \<Longrightarrow> cleanup_ok s"
  by (auto simp: load_cleanup_state_def Let_def result_simps split: if_splits option.splits)

lemma load_cleanup_fields: "cleanup_ok s \<Longrightarrow> load_cleanup_state (cleanup_fields s) = Inr s"
  by (cases s) (auto simp: load_cleanup_state_def Let_def result_simps)

interpretation cleanup_store: flat_codec cleanup_fields load_cleanup_state cleanup_ok
  by unfold_locales (simp_all add: load_cleanup_fields load_cleanup_state_ok)

section \<open>The token fence\<close>

lemma cleanup_step_presented:
  "cleanup_step s a = Inr t \<Longrightarrow> presented_token a = Some tok \<Longrightarrow> tok = cleanup_token s"
  by (cases a; cases s) (auto simp: result_simps)

lemma cleanup_step_unpresented:
  "cleanup_step s a = Inr t \<Longrightarrow> presented_token a = None \<Longrightarrow>
     a = FinishReconciliation \<and>
     (cleanup_kind s \<noteq> KReconciling \<longrightarrow> cleanup_kind t = cleanup_kind s
        \<and> cleanup_token t = cleanup_token s)"
  by (cases a; cases s) (auto simp: result_simps)

text \<open>
  The release fence: from any cleanup state, a run of operations that all present tokens
  other than the current one either fails or leaves the holder as it is. Only the owner's
  token moves the cleanup from pending to owned, back, or to settled; \<open>finish\<close> alone needs no
  token and cannot settle a cleanup that still holds a release fence.
\<close>

theorem stale_cleanup_changes_nothing:
  assumes "run_steps cleanup_step s ops = Inr t"
    and "cleanup_kind s \<in> {KPending, KOwned}"
    and "\<forall>op \<in> set ops. presented_token op \<noteq> Some (cleanup_token s)"
  shows "cleanup_kind t = cleanup_kind s \<and> cleanup_token t = cleanup_token s
         \<and> set ops \<subseteq> {FinishReconciliation}"
  using assms
proof (induction ops arbitrary: s)
  case Nil
  then show ?case by simp
next
  case (Cons op ops)
  then obtain u where u: "cleanup_step s op = Inr u" "run_steps cleanup_step u ops = Inr t"
    by (auto simp: result_simps)
  have "presented_token op = None"
    using cleanup_step_presented [OF u(1)] Cons.prems(3) by (cases "presented_token op") auto
  from cleanup_step_unpresented [OF u(1) this] Cons.prems(2)
  have "op = FinishReconciliation" "cleanup_kind u = cleanup_kind s"
    "cleanup_token u = cleanup_token s" by auto
  with Cons.IH [OF u(2)] Cons.prems(2,3) show ?case by auto
qed

text \<open>
  After a take-over with a fresh token, whatever the evicted holder still tries with the
  old token (claim again, take over, abandon, settle) raises, and the new owner's settlement
  succeeds.
\<close>

theorem takeover_evicts_previous_owner:
  assumes "take_over_cleanup s old tok pid boot start = Inr t" and "tok \<noteq> old"
  shows "(\<forall>op. presented_token op = Some old \<longrightarrow> (\<exists>e. cleanup_step t op = Inl e))
         \<and> settle_cleanup t tok = Inr CleanupSettled"
proof -
  from assms have tok: "cleanup_token t = tok" "cleanup_kind t = KOwned"
    by (auto simp: result_simps)
  have "\<exists>e. cleanup_step t op = Inl e" if "presented_token op = Some old" for op
    using cleanup_step_presented [OF _ that] tok(1) assms(2)
    by (cases "cleanup_step t op") auto
  with tok show ?thesis by (auto simp: result_simps)
qed

text \<open>
  The ownership invariant and the stored form: every cleanup state reached by any run from
  a loaded one still satisfies the constructor's check (an owner has a positive PID, a boot ID
  and a start), can be written to the job's columns and is read back unchanged.
\<close>

theorem cleanup_run_survives_storage:
  assumes "load_cleanup_state r = Inr s" and "run_steps cleanup_step s ops = Inr t"
  shows "cleanup_ok t \<and> load_cleanup_state (cleanup_fields t) = Inr t"
proof -
  have "cleanup_ok s" by (rule load_cleanup_state_ok [OF assms(1)])
  then have "cleanup_ok t"
    by (rule run_steps_invariant [OF assms(2)]) (rule cleanup_step_ok)
  then show ?thesis by (simp add: cleanup_store.load_flatten)
qed

text \<open>
  A settled cleanup is final: no operation leaves it, so a release that has been settled
  can never be claimed or owned again.
\<close>

theorem settled_cleanup_is_final:
  assumes "run_steps cleanup_step CleanupSettled ops = Inr t"
  shows "t = CleanupSettled"
proof -
  have "cleanup_kind t = KSettled"
    using cleanup.run_terminal [OF _ assms] by simp
  then show ?thesis by (cases t) simp_all
qed

section \<open>Witnesses\<close>

definition demo_owned :: cleanup_state where
  "demo_owned = CleanupOwned (Some ''t1'') 42 ''boot'' ''start'' True"

lemma stale_cleanup_changes_nothing_witness:
  "cleanup_kind demo_owned = KOwned
   \<and> run_steps cleanup_step demo_owned [FinishReconciliation]
       = Inr (CleanupOwned (Some ''t1'') 42 ''boot'' ''start'' False)
   \<and> cleanup_token (CleanupOwned (Some ''t1'') 42 ''boot'' ''start'' False)
       = cleanup_token demo_owned"
proof -
  have run: "run_steps cleanup_step demo_owned [FinishReconciliation]
      = Inr (CleanupOwned (Some ''t1'') 42 ''boot'' ''start'' False)"
    by (simp add: demo_owned_def CleanupOwned_init_def)
  show ?thesis
    using stale_cleanup_changes_nothing [OF run] run by (simp add: demo_owned_def)
qed

lemma takeover_evicts_previous_owner_witness:
  "\<exists>t. take_over_cleanup demo_owned ''t1'' ''t2'' 43 ''boot'' ''start2'' = Inr t
     \<and> settle_cleanup t ''t2'' = Inr CleanupSettled
     \<and> (\<exists>e. settle_cleanup t ''t1'' = Inl e)"
proof -
  have h: "take_over_cleanup demo_owned ''t1'' ''t2'' 43 ''boot'' ''start2''
      = Inr (CleanupOwned (Some ''t2'') 43 ''boot'' ''start2'' True)"
    by (simp add: demo_owned_def CleanupOwned_init_def)
  note f = takeover_evicts_previous_owner [OF h, simplified]
  have "\<exists>e. settle_cleanup (CleanupOwned (Some ''t2'') 43 ''boot'' ''start2'' True) ''t1'' = Inl e"
    using f [THEN spec, of "SettleCleanup ''t1''"] by simp
  with h show ?thesis by simp
qed

lemma cleanup_run_survives_storage_witness:
  "load_cleanup_state (cleanup_fields (CleanupPending (Some ''t1'') True))
     = Inr (CleanupPending (Some ''t1'') True)
   \<and> cleanup_ok demo_owned
   \<and> load_cleanup_state (cleanup_fields demo_owned) = Inr demo_owned"
proof -
  have l: "load_cleanup_state (cleanup_fields (CleanupPending (Some ''t1'') True))
      = Inr (CleanupPending (Some ''t1'') True)"
    by (simp add: load_cleanup_state_def Let_def)
  have r: "run_steps cleanup_step (CleanupPending (Some ''t1'') True)
      [ClaimCleanup ''t1'' None 42 ''boot'' ''start''] = Inr demo_owned"
    by (simp add: demo_owned_def CleanupOwned_init_def)
  show ?thesis using l cleanup_run_survives_storage [OF l r] by simp
qed

lemma settled_cleanup_is_final_witness:
  "run_steps cleanup_step CleanupSettled [FinishReconciliation, FinishReconciliation]
     = Inr CleanupSettled"
proof -
  obtain t where "run_steps cleanup_step CleanupSettled
      [FinishReconciliation, FinishReconciliation] = Inr t" by simp
  with settled_cleanup_is_final [OF this] show ?thesis by simp
qed

end
