(* ===== verification/Delivery_Machine.thy ===== *)
theory Delivery_Machine imports Lifecycle begin

text \<open>
  The delivery half of \<open>cursor/lifecycle.py\<close> as a machine, with the two wrappers of
  \<open>cursor/model.py\<close> that build a delivery state of their own (\<open>AgentJob.dismiss_announcement\<close>
  and \<open>AgentJob.repeat_announcement\<close>) and the column reader behind \<open>AgentJob.delivery_state\<close>.
  The lemmas give the delivery invariant, the storage round trip, the lease (one live claim at
  a time), the token fence and the once-only completion of a delivery generation.
\<close>

section \<open>Wrappers of the job model\<close>

text \<open>\<open>AgentJob.announcement_ack\<close> and \<open>AgentJob.delivery_state\<close>, on the stored columns.\<close>

definition announcement_ack_of_row :: "delivery_fields_row \<Rightarrow> bool \<Rightarrow> string" where
  "announcement_ack_of_row r dismissed_column =
     (if announcement_ack_field r \<in> {''pending'', ''spoken'', ''desktop'', ''deferred'', ''dismissed''}
      then announcement_ack_field r
      else if delivered r then (if dismissed_column then ''dismissed'' else ''spoken'')
      else ''pending'')"

definition delivery_state_of_row ::
  "bool \<Rightarrow> time option \<Rightarrow> delivery_fields_row \<Rightarrow> lifecycle_error + delivery_state" where
  "delivery_state_of_row dismissed_column old_delivered_at r =
     load_delivery_state
       \<lparr>dr_delivered = delivered r, dr_generation = delivery_generation r,
        dr_claim_token = delivery_claim_token r, dr_claimed_at = delivery_claimed_at r,
        dr_retry_at = delivery_retry_at r, dr_attempts = delivery_attempts r,
        dr_delivered_at = (case delivered_at_key r of None \<Rightarrow> old_delivered_at | Some d \<Rightarrow> d),
        dr_acknowledgement = announcement_ack_of_row r dismissed_column,
        dr_repeated = announcement_repeated r, dr_dismissed = None\<rparr>"

definition dismiss_delivery :: "delivery_state \<Rightarrow> time \<Rightarrow> lifecycle_error + delivery_state" where
  "dismiss_delivery s delivered_at =
     rbind (dismiss_announcement (ds_announcement s))
       (\<lambda>an. Inr (Delivered (ds_generation s) (Some delivered_at) (ds_attempts s) an))"

definition repeat_delivery :: "delivery_state \<Rightarrow> delivery_state" where
  "repeat_delivery s =
     (let p = prepare_delivery s
      in PendingDelivery (ds_generation p) (ds_retry_at p) (ds_attempts p)
           (repeat_announcement (ds_announcement p)))"

section \<open>The operations as one machine\<close>

datatype delivery_op =
    PrepareOp
  | RepeatOp
  | ClaimOp string time time
  | RenewOp string time time
  | AckOp string "time option" announcement_ack "time option"
  | MarkOp "time option"
  | DismissOp time
  | ReleaseOp string time

text \<open>\<open>AgentJob.mark_delivered\<close> acknowledges without a claim, always as spoken.\<close>

fun delivery_step :: "delivery_state \<Rightarrow> delivery_op \<Rightarrow> lifecycle_error + delivery_state" where
  "delivery_step s PrepareOp = Inr (prepare_delivery s)"
| "delivery_step s RepeatOp = Inr (repeat_delivery s)"
| "delivery_step s (ClaimOp tok now lease) = claim_delivery s tok now lease"
| "delivery_step s (RenewOp tok now lease) = renew_delivery s tok now lease"
| "delivery_step s (AckOp tok done_at ack lease) = acknowledge_delivery s tok done_at ack lease"
| "delivery_step s (MarkOp done_at) = acknowledge_without_claim s done_at AckSpoken"
| "delivery_step s (DismissOp done_at) = dismiss_delivery s done_at"
| "delivery_step s (ReleaseOp tok retry_at) = release_delivery s tok retry_at"

datatype delivery_phase = LPending | LClaimed | LDelivered

fun delivery_label :: "delivery_state \<Rightarrow> delivery_phase" where
  "delivery_label (PendingDelivery _ _ _ _) = LPending"
| "delivery_label (ClaimedDelivery _ _ _ _ _ _) = LClaimed"
| "delivery_label (Delivered _ _ _ _) = LDelivered"

text \<open>
  Columns that \<open>delivery_fields\<close> writes and \<open>delivery_state\<close> accepts: a final acknowledgement
  exactly when delivered, and a claim with a token.
\<close>

fun delivery_ok :: "delivery_state \<Rightarrow> bool" where
  "delivery_ok (PendingDelivery _ _ _ an) \<longleftrightarrow> an_ack an \<notin> final_acks"
| "delivery_ok (ClaimedDelivery _ tok _ _ _ an) \<longleftrightarrow> tok \<noteq> [] \<and> an_ack an \<notin> final_acks"
| "delivery_ok (Delivered _ _ _ an) \<longleftrightarrow> an_ack an \<in> final_acks"

text \<open>Claim tokens come from \<open>uuid4().hex\<close> and are never empty.\<close>

fun op_ok :: "delivery_op \<Rightarrow> bool" where
  "op_ok (ClaimOp tok _ _) \<longleftrightarrow> tok \<noteq> []"
| "op_ok _ \<longleftrightarrow> True"

section \<open>Inversion of the single operations\<close>

lemma final_acks_simps [simp]:
  "AckSpoken \<in> final_acks" "AckDismissed \<in> final_acks"
  "AckPending \<notin> final_acks" "AckDesktop \<notin> final_acks" "AckDeferred \<notin> final_acks"
  by (simp_all add: final_acks_def)

lemma ack_value_parse [simp]: "parse_ack (ack_value a) = Some a"
  by (cases a) (simp_all add: parse_ack_def)

lemma acknowledge_announcement_iff [result_simps]:
  "acknowledge_announcement an ack = Inr an' \<longleftrightarrow>
     ack \<noteq> AckPending \<and> ack \<in> allowed_acks (an_ack an) \<and> an' = an\<lparr>an_ack := ack\<rparr>"
  by (auto simp: acknowledge_announcement_def)

lemma allowed_acks_not_final: "ack \<in> allowed_acks a \<Longrightarrow> a \<notin> final_acks"
  by (cases a) auto

lemma claim_delivery_iff [result_simps]:
  "claim_delivery s tok now lease = Inr t \<longleftrightarrow>
     delivery_label s \<noteq> LDelivered
     \<and> (delivery_label s = LClaimed \<longrightarrow> lease \<le> now - ds_claimed_at s)
     \<and> ds_retry_at s \<le> now
     \<and> t = ClaimedDelivery (ds_generation s) tok now (ds_retry_at s) (ds_attempts s + 1)
             (ds_announcement s)"
  by (cases s) (auto simp: claim_delivery_def)

lemma renew_delivery_iff [result_simps]:
  "renew_delivery s tok now lease = Inr t \<longleftrightarrow>
     delivery_label s = LClaimed \<and> ds_token s = tok \<and> now - ds_claimed_at s < lease
     \<and> t = ClaimedDelivery (ds_generation s) tok now (ds_retry_at s) (ds_attempts s)
             (ds_announcement s)"
  by (cases s) auto

lemma acknowledge_delivery_iff [result_simps]:
  "acknowledge_delivery s tok done_at ack lease = Inr t \<longleftrightarrow>
     delivery_label s = LClaimed \<and> ds_token s = tok
     \<and> (\<forall>l d. lease = Some l \<longrightarrow> done_at = Some d \<longrightarrow> d - ds_claimed_at s < l)
     \<and> ack \<noteq> AckPending \<and> ack \<in> allowed_acks (an_ack (ds_announcement s))
     \<and> t = (if ack \<in> final_acks
            then Delivered (ds_generation s) done_at (ds_attempts s) ((ds_announcement s)\<lparr>an_ack := ack\<rparr>)
            else PendingDelivery (ds_generation s) 0 (ds_attempts s)
                   ((ds_announcement s)\<lparr>an_ack := ack\<rparr>))"
  by (cases s) (auto simp: result_simps final_acks_def split: option.splits)

lemma release_delivery_iff [result_simps]:
  "release_delivery s tok retry_at = Inr t \<longleftrightarrow>
     delivery_label s = LClaimed \<and> ds_token s = tok
     \<and> t = PendingDelivery (ds_generation s) retry_at (ds_attempts s) (ds_announcement s)"
  by (cases s) auto

lemma mark_delivery_eq:
  "acknowledge_without_claim s done_at AckSpoken =
     (if delivery_label s = LDelivered
      then (if an_ack (ds_announcement s) = AckSpoken then Inr s
            else Inl (LifecycleTransitionError ''delivered acknowledgement cannot change''))
      else Inr (Delivered (ds_generation s) done_at (ds_attempts s)
                  ((ds_announcement s)\<lparr>an_ack := AckSpoken\<rparr>)))"
  by (cases s) (auto simp: acknowledge_without_claim_def acknowledge_announcement_def Let_def)

lemma dismiss_delivery_iff [result_simps]:
  "dismiss_delivery s done_at = Inr t \<longleftrightarrow>
     an_ack (ds_announcement s) \<noteq> AckDismissed
     \<and> t = Delivered (ds_generation s) (Some done_at) (ds_attempts s)
             \<lparr>an_ack = AckDismissed, an_repeated = an_repeated (ds_announcement s)\<rparr>"
  by (auto simp: dismiss_delivery_def dismiss_announcement_def)

section \<open>Invariant and storage\<close>

lemma delivery_step_ok:
  "delivery_ok s \<Longrightarrow> op_ok a \<Longrightarrow> delivery_step s a = Inr t \<Longrightarrow> delivery_ok t"
  by (cases a; cases s)
     (auto simp: result_simps mark_delivery_eq prepare_delivery_def repeat_delivery_def
       repeat_announcement_def Let_def final_acks_def split: if_splits)

lemma load_delivery_state_ok: "load_delivery_state r = Inr s \<Longrightarrow> delivery_ok s"
  by (auto simp: load_delivery_state_def Let_def final_acks_def truthy_def
      split: option.splits if_splits)

lemma delivery_state_of_fields:
  assumes "delivery_ok s"
  shows "delivery_state_of_row b d (delivery_fields s) = Inr s"
proof -
  have "announcement_ack_of_row (delivery_fields s) b = ack_value (an_ack (ds_announcement s))"
    by (cases "an_ack (ds_announcement s)")
       (simp_all add: announcement_ack_of_row_def delivery_fields_def)
  with assms show ?thesis
    by (cases s) (auto simp: delivery_state_of_row_def load_delivery_state_def Let_def
        delivery_fields_def final_acks_def truthy_def)
qed

interpretation delivery_store: flat_codec delivery_fields "delivery_state_of_row b d" delivery_ok
  for b d
proof
  show "delivery_ok s \<Longrightarrow> delivery_state_of_row b d (delivery_fields s) = Inr s" for s
    by (rule delivery_state_of_fields)
  show "delivery_state_of_row b d r = Inr s \<Longrightarrow> delivery_ok s" for r s
    unfolding delivery_state_of_row_def by (rule load_delivery_state_ok)
qed


text \<open>
  The legal moves of a delivery. A delivered state is left by preparing or repeating only.
\<close>

fun delivery_edges :: "delivery_phase \<Rightarrow> delivery_phase set" where
  "delivery_edges LPending = {LClaimed, LDelivered}"
| "delivery_edges LClaimed = {LPending, LDelivered}"
| "delivery_edges LDelivered = {LPending}"

fun reopens :: "delivery_op \<Rightarrow> bool" where
  "reopens PrepareOp = True"
| "reopens RepeatOp = True"
| "reopens _ = False"

interpretation delivery: guarded_machine delivery_label delivery_edges delivery_step
proof
  fix s a t assume "delivery_step s a = Inr t"
  then show "delivery_label t = delivery_label s
      \<or> delivery_label t \<in> delivery_edges (delivery_label s)"
    by (cases a; cases s)
       (auto simp: result_simps mark_delivery_eq prepare_delivery_def repeat_delivery_def Let_def
         split: if_splits)
qed

lemma closed_delivery_edges:
  "\<not> reopens a \<Longrightarrow> delivery_step s a = Inr t \<Longrightarrow> delivery_label s = LDelivered \<Longrightarrow>
     delivery_label t = LDelivered \<and> ds_generation t = ds_generation s
     \<and> ds_attempts t = ds_attempts s
     \<and> (an_ack (ds_announcement s) = AckDismissed \<longrightarrow> t = s)"
  by (cases a; cases s) (auto simp: result_simps mark_delivery_eq split: if_splits)

section \<open>Interleaved clients\<close>

text \<open>
  The store applies each client's operation to the current state; an operation that raises
  leaves the state as it is (\<open>delivery.py\<close> turns the error into \<open>None\<close>, and no row is
  written). A run of clients is therefore a fold of attempts.
\<close>

definition delivery_try :: "delivery_state \<Rightarrow> delivery_op \<Rightarrow> delivery_state" where
  "delivery_try s a = (case delivery_step s a of Inl _ \<Rightarrow> s | Inr t \<Rightarrow> t)"

fun delivery_run :: "delivery_state \<Rightarrow> delivery_op list \<Rightarrow> delivery_state" where
  "delivery_run s [] = s"
| "delivery_run s (a # as) = delivery_run (delivery_try s a) as"

text \<open>How often a run completes a delivery, and how often it makes a successful claim.\<close>

fun completions :: "delivery_state \<Rightarrow> delivery_op list \<Rightarrow> nat" where
  "completions s [] = 0"
| "completions s (a # as) =
     (if delivery_label s \<noteq> LDelivered \<and> delivery_label (delivery_try s a) = LDelivered
      then 1 else 0) + completions (delivery_try s a) as"

fun is_claim :: "delivery_op \<Rightarrow> bool" where
  "is_claim (ClaimOp _ _ _) = True"
| "is_claim _ = False"

fun claims_won :: "delivery_state \<Rightarrow> delivery_op list \<Rightarrow> nat" where
  "claims_won s [] = 0"
| "claims_won s (a # as) =
     (if is_claim a \<and> \<not> isl (delivery_step s a) then 1 else 0)
     + claims_won (delivery_try s a) as"

lemma delivery_try_cases:
  obtains (kept) e where "delivery_step s a = Inl e" "delivery_try s a = s"
  | (moved) t where "delivery_step s a = Inr t" "delivery_try s a = t"
  by (cases "delivery_step s a") (auto simp: delivery_try_def)

lemma delivery_try_label:
  assumes "\<not> reopens a" and "delivery_label s = LDelivered"
  shows "delivery_label (delivery_try s a) = LDelivered"
  by (rule delivery_try_cases [of s a]) (use closed_delivery_edges assms in auto)

lemma delivery_try_ok: "delivery_ok s \<Longrightarrow> op_ok a \<Longrightarrow> delivery_ok (delivery_try s a)"
  by (rule delivery_try_cases [of s a]) (auto intro: delivery_step_ok)

lemma delivery_step_generation:
  "delivery_step s a = Inr t \<Longrightarrow>
     ds_generation t = ds_generation s + (if reopens a then 1 else 0)"
  by (cases a; cases s)
     (auto simp: result_simps mark_delivery_eq prepare_delivery_def repeat_delivery_def Let_def
       split: if_splits)

lemma delivery_step_attempts:
  "delivery_step s a = Inr t \<Longrightarrow> \<not> reopens a \<Longrightarrow>
     ds_attempts t = ds_attempts s + (if is_claim a then 1 else 0)"
  by (cases a; cases s) (auto simp: result_simps mark_delivery_eq split: if_splits)

lemma reopens_never_fails: "reopens a \<Longrightarrow> \<not> isl (delivery_step s a)"
  by (cases a) auto

text \<open>
  Storage and invariant: whatever clients do to a loaded delivery, in any interleaving, the
  state keeps the delivery invariant (final acknowledgement exactly when delivered, a claim has
  a token), and the columns written for it are read back as the same state.
\<close>

theorem delivery_run_survives_storage:
  assumes "load_delivery_state r = Inr s" and "\<forall>a \<in> set as. op_ok a"
  shows "delivery_ok (delivery_run s as)
         \<and> delivery_state_of_row b d (delivery_fields (delivery_run s as))
             = Inr (delivery_run s as)"
proof -
  have "delivery_ok s" by (rule load_delivery_state_ok [OF assms(1)])
  then have "delivery_ok (delivery_run s as)"
    using assms(2) by (induction as arbitrary: s) (auto simp: delivery_try_ok)
  then show ?thesis by (simp add: delivery_store.load_flatten)
qed

text \<open>
  Exactly one completion per generation: in any interleaving of any clients the delivery is
  completed at most once for the generation it starts in and once for each time it is prepared
  or repeated, and the generation counter counts exactly those.
\<close>

theorem one_completion_per_generation:
  "int (completions s as) + (if delivery_label s = LDelivered then 1 else 0)
     \<le> 1 + (ds_generation (delivery_run s as) - ds_generation s)
   \<and> ds_generation (delivery_run s as) = ds_generation s + int (length (filter reopens as))"
proof (induction as arbitrary: s)
  case Nil
  then show ?case by simp
next
  case (Cons a as)
  let ?t = "delivery_try s a"
  have gen: "ds_generation ?t = ds_generation s + (if reopens a then 1 else 0)"
    by (rule delivery_try_cases [of s a])
       (use delivery_step_generation reopens_never_fails [of a s] in auto)
  have stay: "\<not> reopens a \<Longrightarrow> delivery_label s = LDelivered \<Longrightarrow> delivery_label ?t = LDelivered"
    by (rule delivery_try_label)
  show ?case using Cons.IH [of ?t] gen stay by auto
qed

text \<open>
  Within a generation the attempt counter counts the claims that were granted, whatever
  else happened in between.
\<close>

theorem attempts_count_claims:
  assumes "\<forall>a \<in> set as. \<not> reopens a"
  shows "ds_attempts (delivery_run s as) = ds_attempts s + int (claims_won s as)"
  using assms
proof (induction as arbitrary: s)
  case Nil
  then show ?case by simp
next
  case (Cons a as)
  have "ds_attempts (delivery_try s a)
      = ds_attempts s + (if is_claim a \<and> \<not> isl (delivery_step s a) then 1 else 0)"
    by (rule delivery_try_cases [of s a]) (use delivery_step_attempts Cons.prems in auto)
  with Cons.IH [of "delivery_try s a"] Cons.prems show ?case by simp
qed

text \<open>The token and the clock of an operation that another client makes.\<close>

fun disturbs :: "string \<Rightarrow> time \<Rightarrow> delivery_op \<Rightarrow> bool" where
  "disturbs tok c (ClaimOp _ now lease) \<longleftrightarrow> lease \<le> now - c"
| "disturbs tok c (RenewOp tok' _ _) \<longleftrightarrow> tok' = tok"
| "disturbs tok c (AckOp tok' _ _ _) \<longleftrightarrow> tok' = tok"
| "disturbs tok c (ReleaseOp tok' _) \<longleftrightarrow> tok' = tok"
| "disturbs tok c _ \<longleftrightarrow> True"

text \<open>
  The lease: while a claim is live, other clients (claims before the lease runs out, and
  renewals, acknowledgements and releases under any other token) do not change the delivery in
  any interleaving, so its holder can still acknowledge it; two clients never hold it at once.
\<close>

theorem live_claim_is_exclusive:
  assumes "\<forall>a \<in> set as. \<not> disturbs tok c a"
  shows "delivery_run (ClaimedDelivery g tok c rt n an) as = ClaimedDelivery g tok c rt n an
         \<and> claims_won (ClaimedDelivery g tok c rt n an) as = 0"
  using assms
proof (induction as)
  case Nil
  then show ?case by simp
next
  case (Cons a as)
  have "\<exists>e. delivery_step (ClaimedDelivery g tok c rt n an) a = Inl e"
    using Cons.prems by (cases a) (auto simp: claim_delivery_def)
  then have "delivery_try (ClaimedDelivery g tok c rt n an) a = ClaimedDelivery g tok c rt n an"
    and "isl (delivery_step (ClaimedDelivery g tok c rt n an) a)"
    by (auto simp: delivery_try_def)
  with Cons show ?case by simp
qed

text \<open>
  No delivery is lost: from every state that is not delivered, at any time late enough (the
  retry is due and an abandoned claim has expired), a client that claims with a positive lease
  and acknowledges in time as spoken completes the delivery of that generation.
\<close>

theorem undelivered_can_complete:
  assumes "delivery_ok s" and "delivery_label s \<noteq> LDelivered" and "0 < lease"
    and "ds_retry_at s \<le> now"
    and "delivery_label s = LClaimed \<longrightarrow> ds_claimed_at s + lease \<le> now"
    and "now \<le> done_at" and "done_at < now + lease"
  shows "run_steps delivery_step s
           [ClaimOp tok now lease, AckOp tok (Some done_at) AckSpoken (Some lease)]
         = Inr (Delivered (ds_generation s) (Some done_at) (ds_attempts s + 1)
                  ((ds_announcement s)\<lparr>an_ack := AckSpoken\<rparr>))"
proof -
  let ?c = "ClaimedDelivery (ds_generation s) tok now (ds_retry_at s) (ds_attempts s + 1)
      (ds_announcement s)"
  have claim: "claim_delivery s tok now lease = Inr ?c"
    using assms by (auto simp add: claim_delivery_iff algebra_simps)
  have "AckSpoken \<in> allowed_acks (an_ack (ds_announcement s))"
    using assms(1,2) by (cases s; cases "an_ack (ds_announcement s)") auto
  then have "acknowledge_delivery ?c tok (Some done_at) AckSpoken (Some lease)
      = Inr (Delivered (ds_generation s) (Some done_at) (ds_attempts s + 1)
               ((ds_announcement s)\<lparr>an_ack := AckSpoken\<rparr>))"
    using assms(7) by (simp add: acknowledge_announcement_def)
  with claim show ?thesis by simp
qed


section \<open>Witnesses\<close>

definition demo_announcement :: announcement_state where
  "demo_announcement = \<lparr>an_ack = AckPending, an_repeated = False\<rparr>"

definition demo_pending :: delivery_state where
  "demo_pending = PendingDelivery 1 0 0 demo_announcement"

definition demo_row :: delivery_row where
  "demo_row =
     \<lparr>dr_delivered = False, dr_generation = 1, dr_claim_token = None, dr_claimed_at = None,
      dr_retry_at = 0, dr_attempts = 0, dr_delivered_at = None,
      dr_acknowledgement = ''pending'', dr_repeated = False, dr_dismissed = None\<rparr>"

lemma delivery_run_survives_storage_witness:
  "load_delivery_state demo_row = Inr demo_pending
   \<and> delivery_run demo_pending [ClaimOp ''a'' 10 300, AckOp ''a'' (Some 20) AckSpoken (Some 300)]
       = Delivered 1 (Some 20) 1 (demo_announcement\<lparr>an_ack := AckSpoken\<rparr>)
   \<and> delivery_ok (Delivered 1 (Some 20) 1 (demo_announcement\<lparr>an_ack := AckSpoken\<rparr>))"
proof -
  have l: "load_delivery_state demo_row = Inr demo_pending"
    by (simp add: load_delivery_state_def demo_row_def demo_pending_def demo_announcement_def
        parse_ack_def)
  have r: "delivery_run demo_pending
      [ClaimOp ''a'' 10 300, AckOp ''a'' (Some 20) AckSpoken (Some 300)]
      = Delivered 1 (Some 20) 1 (demo_announcement\<lparr>an_ack := AckSpoken\<rparr>)"
    by (simp add: demo_pending_def demo_announcement_def delivery_try_def claim_delivery_def
        acknowledge_announcement_def)
  have "\<forall>a \<in> set [ClaimOp ''a'' 10 300, AckOp ''a'' (Some 20) AckSpoken (Some 300)]. op_ok a"
    by simp
  from delivery_run_survives_storage [OF l this] l r show ?thesis by simp
qed

lemma attempts_count_claims_witness:
  "ds_attempts (delivery_run demo_pending [ClaimOp ''a'' 10 300, ClaimOp ''b'' 20 300,
      ClaimOp ''b'' 310 300]) = 2"
proof -
  have w: "claims_won demo_pending [ClaimOp ''a'' 10 300, ClaimOp ''b'' 20 300,
      ClaimOp ''b'' 310 300] = 2"
    by (simp add: demo_pending_def demo_announcement_def delivery_try_def claim_delivery_def)
  have "\<forall>a \<in> set [ClaimOp ''a'' 10 300, ClaimOp ''b'' 20 300, ClaimOp ''b'' 310 300].
      \<not> reopens a" by simp
  from attempts_count_claims [OF this, of demo_pending] w show ?thesis
    by (simp add: demo_pending_def)
qed

lemma live_claim_is_exclusive_witness:
  "delivery_run (ClaimedDelivery 1 ''a'' 10 0 1 demo_announcement)
     [ClaimOp ''b'' 200 300, AckOp ''b'' (Some 210) AckSpoken None, ReleaseOp ''b'' 0]
   = ClaimedDelivery 1 ''a'' 10 0 1 demo_announcement"
proof -
  have "\<forall>a \<in> set [ClaimOp ''b'' 200 300, AckOp ''b'' (Some 210) AckSpoken None,
      ReleaseOp ''b'' 0]. \<not> disturbs ''a'' 10 a"
    by simp
  from live_claim_is_exclusive [OF this] show ?thesis by simp
qed

lemma undelivered_can_complete_witness:
  "run_steps delivery_step (ClaimedDelivery 3 ''old'' 10 5 7 demo_announcement)
     [ClaimOp ''new'' 400 300, AckOp ''new'' (Some 410) AckSpoken (Some 300)]
   = Inr (Delivered 3 (Some 410) 8 (demo_announcement\<lparr>an_ack := AckSpoken\<rparr>))"
  using undelivered_can_complete [of "ClaimedDelivery 3 ''old'' 10 5 7 demo_announcement"
      300 400 410 "''new''"]
  by (simp add: demo_announcement_def)

end
