(* ===== verification/Operations.thy ===== *)
theory Operations imports Interfaces begin

text \<open>
  \<open>cursor/operations.py\<close>: the typed adapters of a job's durable operations (worker ownership,
  checkout, fork, agent session, participant pane). The state enumerations, the tables of legal
  transitions, the validating constructors and the conversions from and to the stored columns
  are translated one by one.
\<close>

datatype operation_error = OperationTransitionError string

section \<open>State enumerations and transition tables\<close>

datatype operation_state = OpPlanned | OpActive | OpSettled | OpUnknown | OpFailed | OpManual

fun operation_state_value :: "operation_state \<Rightarrow> string" where
  "operation_state_value OpPlanned = ''planned''"
| "operation_state_value OpActive = ''active''"
| "operation_state_value OpSettled = ''settled''"
| "operation_state_value OpUnknown = ''unknown''"
| "operation_state_value OpFailed = ''failed''"
| "operation_state_value OpManual = ''manual''"

datatype checkout_state =
    CsPlanned | CsDispatching | CsReady | CsRetained | CsQuarantined | CsAmbiguous
  | CsFailedObserving | CsConfirmedAbsent | CsManualRequired

fun checkout_state_value :: "checkout_state \<Rightarrow> string" where
  "checkout_state_value CsPlanned = ''planned''"
| "checkout_state_value CsDispatching = ''dispatching''"
| "checkout_state_value CsReady = ''ready''"
| "checkout_state_value CsRetained = ''retained''"
| "checkout_state_value CsQuarantined = ''quarantined''"
| "checkout_state_value CsAmbiguous = ''ambiguous''"
| "checkout_state_value CsFailedObserving = ''failed_observing''"
| "checkout_state_value CsConfirmedAbsent = ''confirmed_absent''"
| "checkout_state_value CsManualRequired = ''manual_required''"

definition parse_checkout_state :: "string \<Rightarrow> checkout_state option" where
  "parse_checkout_state s =
     (if s = ''planned'' then Some CsPlanned
      else if s = ''dispatching'' then Some CsDispatching
      else if s = ''ready'' then Some CsReady
      else if s = ''retained'' then Some CsRetained
      else if s = ''quarantined'' then Some CsQuarantined
      else if s = ''ambiguous'' then Some CsAmbiguous
      else if s = ''failed_observing'' then Some CsFailedObserving
      else if s = ''confirmed_absent'' then Some CsConfirmedAbsent
      else if s = ''manual_required'' then Some CsManualRequired
      else None)"

datatype session_state =
    SsDispatching | SsReady | SsRetained | SsAmbiguous | SsFailedObserving
  | SsConfirmedAbsent | SsManualRequired

fun session_state_value :: "session_state \<Rightarrow> string" where
  "session_state_value SsDispatching = ''dispatching''"
| "session_state_value SsReady = ''ready''"
| "session_state_value SsRetained = ''retained''"
| "session_state_value SsAmbiguous = ''ambiguous''"
| "session_state_value SsFailedObserving = ''failed_observing''"
| "session_state_value SsConfirmedAbsent = ''confirmed_absent''"
| "session_state_value SsManualRequired = ''manual_required''"

definition parse_session_state :: "string \<Rightarrow> session_state option" where
  "parse_session_state s =
     (if s = ''dispatching'' then Some SsDispatching
      else if s = ''ready'' then Some SsReady
      else if s = ''retained'' then Some SsRetained
      else if s = ''ambiguous'' then Some SsAmbiguous
      else if s = ''failed_observing'' then Some SsFailedObserving
      else if s = ''confirmed_absent'' then Some SsConfirmedAbsent
      else if s = ''manual_required'' then Some SsManualRequired
      else None)"

definition settled_checkout_states :: "checkout_state set" where
  "settled_checkout_states = {CsReady, CsRetained}"

definition unknown_checkout_states :: "checkout_state set" where
  "unknown_checkout_states = {CsQuarantined, CsAmbiguous, CsFailedObserving}"

definition settled_session_states :: "session_state set" where
  "settled_session_states = {SsReady, SsRetained}"

definition unknown_session_states :: "session_state set" where
  "unknown_session_states = {SsAmbiguous, SsFailedObserving}"

fun checkout_transitions :: "checkout_state \<Rightarrow> checkout_state set" where
  "checkout_transitions CsPlanned =
     {CsDispatching, CsReady, CsRetained, CsConfirmedAbsent}"
| "checkout_transitions CsDispatching =
     {CsReady, CsRetained, CsQuarantined, CsAmbiguous, CsFailedObserving, CsConfirmedAbsent,
      CsManualRequired}"
| "checkout_transitions CsQuarantined =
     {CsReady, CsRetained, CsAmbiguous, CsFailedObserving, CsConfirmedAbsent, CsManualRequired}"
| "checkout_transitions CsAmbiguous =
     {CsReady, CsRetained, CsQuarantined, CsFailedObserving, CsConfirmedAbsent, CsManualRequired}"
| "checkout_transitions CsFailedObserving =
     {CsReady, CsRetained, CsQuarantined, CsAmbiguous, CsConfirmedAbsent, CsManualRequired}"
| "checkout_transitions CsManualRequired = {CsReady, CsRetained, CsConfirmedAbsent}"
| "checkout_transitions CsReady = {CsRetained, CsConfirmedAbsent}"
| "checkout_transitions CsRetained = {CsReady, CsConfirmedAbsent}"
| "checkout_transitions CsConfirmedAbsent = {}"

fun session_transitions :: "session_state \<Rightarrow> session_state set" where
  "session_transitions SsDispatching =
     {SsReady, SsRetained, SsAmbiguous, SsFailedObserving, SsConfirmedAbsent, SsManualRequired}"
| "session_transitions SsAmbiguous =
     {SsReady, SsRetained, SsFailedObserving, SsConfirmedAbsent, SsManualRequired}"
| "session_transitions SsFailedObserving =
     {SsReady, SsRetained, SsAmbiguous, SsConfirmedAbsent, SsManualRequired}"
| "session_transitions SsManualRequired =
     {SsReady, SsRetained, SsAmbiguous, SsConfirmedAbsent}"
| "session_transitions SsReady = {SsRetained, SsConfirmedAbsent}"
| "session_transitions SsRetained = {SsReady, SsConfirmedAbsent}"
| "session_transitions SsConfirmedAbsent = {}"

fun operation_transitions :: "operation_state \<Rightarrow> operation_state set" where
  "operation_transitions OpPlanned = {OpActive, OpSettled, OpFailed}"
| "operation_transitions OpActive = {OpSettled, OpUnknown, OpFailed, OpManual}"
| "operation_transitions OpUnknown = {OpSettled, OpFailed, OpManual}"
| "operation_transitions OpManual = {OpSettled, OpFailed}"
| "operation_transitions OpSettled = {OpFailed}"
| "operation_transitions OpFailed = {}"

section \<open>Required identity fields\<close>

text \<open>A value handed to \<open>_required\<close>: text, another value that is present, or \<open>None\<close>.\<close>

datatype field_value = VText string | VPresent | VNone

fun missing :: "field_value \<Rightarrow> bool" where
  "missing (VText s) = (s = [])"
| "missing VPresent = False"
| "missing VNone = True"

definition required :: "string \<Rightarrow> (string \<times> field_value) list \<Rightarrow> operation_error + unit" where
  "required subject vals =
     (let names = map fst (filter (\<lambda>(_, v). missing v) vals)
      in if names \<noteq> []
         then Inl (OperationTransitionError
                (subject @ '' requires complete '' @ join_comma names @ '' identity''))
         else Inr ())"

lemma required_Inr_iff [result_simps]:
  "required subject vals = Inr u \<longleftrightarrow> (\<forall>(n, v) \<in> set vals. \<not> missing v)"
  by (auto simp: required_def Let_def filter_empty_conv)

section \<open>Worker ownership\<close>

record worker_ownership =
  wo_token :: string
  wo_pid :: int
  wo_boot_id :: string
  wo_process_start :: string
  wo_operation :: string
  wo_claimed_at :: time

definition WorkerOwnership_init ::
  "string \<Rightarrow> int \<Rightarrow> string \<Rightarrow> string \<Rightarrow> string \<Rightarrow> time \<Rightarrow> operation_error + worker_ownership" where
  "WorkerOwnership_init tok pid boot start oper claimed_at =
     rbind (required ''worker ownership''
              [(''token'', VText tok), (''pid'', VPresent), (''boot_id'', VText boot),
               (''process_start'', VText start), (''operation'', VText oper),
               (''claimed_at'', VPresent)])
       (\<lambda>_. if pid \<le> 0 \<or> claimed_at < 0
            then Inl (OperationTransitionError
                   ''worker ownership has invalid process identity'')
            else Inr \<lparr>wo_token = tok, wo_pid = pid, wo_boot_id = boot, wo_process_start = start,
                      wo_operation = oper, wo_claimed_at = claimed_at\<rparr>)"

definition ownership_matches :: "worker_ownership \<Rightarrow> worker_ownership option \<Rightarrow> bool" where
  "ownership_matches self other \<longleftrightarrow> other = Some self"

record worker_row =
  worker_token :: "string option"
  worker_pid :: "int option"
  worker_boot_id :: "string option"
  worker_process_start :: "string option"
  worker_claim_operation :: "string option"
  worker_claimed_at :: "time option"

fun worker_ownership_fields :: "worker_ownership option \<Rightarrow> worker_row" where
  "worker_ownership_fields None =
     \<lparr>worker_token = None, worker_pid = None, worker_boot_id = None,
      worker_process_start = None, worker_claim_operation = None, worker_claimed_at = None\<rparr>"
| "worker_ownership_fields (Some w) =
     \<lparr>worker_token = Some (wo_token w), worker_pid = Some (wo_pid w),
      worker_boot_id = Some (wo_boot_id w), worker_process_start = Some (wo_process_start w),
      worker_claim_operation = Some (wo_operation w), worker_claimed_at = Some (wo_claimed_at w)\<rparr>"

definition load_worker_ownership :: "worker_row \<Rightarrow> operation_error + worker_ownership option" where
  "load_worker_ownership r =
     (case (worker_token r, worker_pid r, worker_boot_id r, worker_process_start r,
            worker_claim_operation r, worker_claimed_at r) of
        (None, None, None, None, None, None) \<Rightarrow> Inr None
      | (Some tok, Some pid, Some boot, Some start, Some oper, Some claimed) \<Rightarrow>
          rbind (WorkerOwnership_init tok pid boot start oper claimed) (\<lambda>w. Inr (Some w))
      | _ \<Rightarrow> Inl (OperationTransitionError ''worker ownership is incomplete''))"

section \<open>Checkout\<close>

record checkout_spec =
  sp_repository :: string
  sp_branch :: string
  sp_path :: string

definition CheckoutSpec_init ::
  "string \<Rightarrow> string \<Rightarrow> string \<Rightarrow> operation_error + checkout_spec" where
  "CheckoutSpec_init repository branch path =
     rbind (required ''checkout spec''
              [(''repository'', VText repository), (''branch'', VText branch),
               (''path'', VText path)])
       (\<lambda>_. Inr \<lparr>sp_repository = repository, sp_branch = branch, sp_path = path\<rparr>)"

record checkout_operation =
  co_state :: checkout_state
  co_spec :: checkout_spec
  co_workspace_id :: "string option"
  co_root_pane_id :: "string option"

definition CheckoutOperation_init ::
  "checkout_state \<Rightarrow> checkout_spec \<Rightarrow> string option \<Rightarrow> string option \<Rightarrow>
   operation_error + checkout_operation" where
  "CheckoutOperation_init st spec ws pane =
     (if otruthy ws \<noteq> otruthy pane
      then Inl (OperationTransitionError
             ''checkout workspace and root-pane identity must be paired'')
      else if st \<in> settled_checkout_states \<and> (\<not> otruthy ws \<or> \<not> otruthy pane)
      then Inl (OperationTransitionError
             ''settled checkout requires workspace and root-pane identity'')
      else Inr \<lparr>co_state = st, co_spec = spec, co_workspace_id = ws, co_root_pane_id = pane\<rparr>)"

definition checkout_transition ::
  "checkout_operation \<Rightarrow> checkout_state \<Rightarrow> string option \<Rightarrow> string option \<Rightarrow>
   operation_error + checkout_operation" where
  "checkout_transition c st ws pane =
     (if st \<noteq> co_state c \<and> st \<notin> checkout_transitions (co_state c)
      then Inl (OperationTransitionError
             (''checkout cannot transition from '' @ checkout_state_value (co_state c)
              @ '' to '' @ checkout_state_value st))
      else CheckoutOperation_init st (co_spec c) (or_opt ws (co_workspace_id c))
             (or_opt pane (co_root_pane_id c)))"

record checkout_row =
  worktree_provision_state :: "string option"
  row_repository :: "string option"
  worktree_branch :: "string option"
  worktree_path :: "string option"
  worktree_workspace_id :: "string option"
  worktree_root_pane_id :: "string option"

definition checkout_fields :: "checkout_operation \<Rightarrow> checkout_row" where
  "checkout_fields c =
     \<lparr>worktree_provision_state = Some (checkout_state_value (co_state c)),
      row_repository = Some (sp_repository (co_spec c)),
      worktree_branch = Some (sp_branch (co_spec c)),
      worktree_path = Some (sp_path (co_spec c)),
      worktree_workspace_id = co_workspace_id c,
      worktree_root_pane_id = co_root_pane_id c\<rparr>"

definition load_checkout_operation ::
  "checkout_row \<Rightarrow> operation_error + checkout_operation option" where
  "load_checkout_operation r =
     (case worktree_provision_state r of
        None \<Rightarrow> Inr None
      | Some st \<Rightarrow>
          (case parse_checkout_state st of
             None \<Rightarrow> Inl (OperationTransitionError (''invalid checkout operation state '' @ py_repr st))
           | Some parsed \<Rightarrow>
               rbind (CheckoutSpec_init (or_str (row_repository r) '''')
                        (or_str (worktree_branch r) '''') (or_str (worktree_path r) ''''))
                 (\<lambda>spec. rbind (CheckoutOperation_init parsed spec (worktree_workspace_id r)
                                  (worktree_root_pane_id r))
                           (\<lambda>c. Inr (Some c)))))"

definition checkout_blocks_reservation :: "checkout_state option \<Rightarrow> bool" where
  "checkout_blocks_reservation st \<longleftrightarrow> st \<in> {Some CsQuarantined, Some CsManualRequired}"

definition checkout_is_usable :: "checkout_state option \<Rightarrow> bool" where
  "checkout_is_usable st \<longleftrightarrow> st \<in> Some ` settled_checkout_states"

definition uncertain_checkout_state :: "bool \<Rightarrow> checkout_state" where
  "uncertain_checkout_state ambiguous = (if ambiguous then CsAmbiguous else CsFailedObserving)"

section \<open>Fork\<close>

record fork_spec =
  fs_source :: string
  fs_source_url :: string
  fs_source_default_branch :: string
  fs_source_private :: bool
  fs_login :: string
  fs_target :: string
  fs_source_parent :: "string option"

definition ForkSpec_init ::
  "string \<Rightarrow> string \<Rightarrow> string \<Rightarrow> bool \<Rightarrow> string \<Rightarrow> string \<Rightarrow> string option \<Rightarrow>
   operation_error + fork_spec" where
  "ForkSpec_init source url branch private_repo login target parent =
     rbind (required ''fork spec''
              [(''source'', VText source), (''source_url'', VText url),
               (''source_default_branch'', VText branch), (''login'', VText login),
               (''target'', VText target)])
       (\<lambda>_. Inr \<lparr>fs_source = source, fs_source_url = url, fs_source_default_branch = branch,
                 fs_source_private = private_repo, fs_login = login, fs_target = target,
                 fs_source_parent = parent\<rparr>)"

record fork_operation =
  fo_state :: operation_state
  fo_spec :: fork_spec

definition fork_transition ::
  "fork_operation \<Rightarrow> operation_state \<Rightarrow> operation_error + fork_operation" where
  "fork_transition f st =
     (if st \<notin> operation_transitions (fo_state f)
      then Inl (OperationTransitionError
             (''fork cannot transition from '' @ operation_state_value (fo_state f)
              @ '' to '' @ operation_state_value st))
      else Inr (f\<lparr>fo_state := st\<rparr>))"

section \<open>Agent session\<close>

record session_identity =
  si_provider :: string
  si_session_id :: string
  si_target :: string
  si_state_sequence :: int

definition SessionIdentity_init ::
  "string \<Rightarrow> string \<Rightarrow> string \<Rightarrow> int \<Rightarrow> operation_error + session_identity" where
  "SessionIdentity_init provider session target sequence =
     rbind (required ''session identity''
              [(''provider'', VText provider), (''session_id'', VText session),
               (''target'', VText target)])
       (\<lambda>_. if sequence < 0
            then Inl (OperationTransitionError ''session state sequence must not be negative'')
            else Inr \<lparr>si_provider = provider, si_session_id = session, si_target = target,
                      si_state_sequence = sequence\<rparr>)"

definition session_accepts ::
  "session_identity \<Rightarrow> string \<Rightarrow> string \<Rightarrow> string \<Rightarrow> int \<Rightarrow> bool" where
  "session_accepts self provider session target sequence \<longleftrightarrow>
     provider = si_provider self \<and> session = si_session_id self \<and> target = si_target self
     \<and> sequence \<ge> si_state_sequence self"

record session_spec =
  as_target :: string
  as_checkout :: string
  as_workspace_id :: string
  as_pane_id :: string

definition AgentSessionSpec_init ::
  "string \<Rightarrow> string \<Rightarrow> string \<Rightarrow> string \<Rightarrow> operation_error + session_spec" where
  "AgentSessionSpec_init target checkout ws pane =
     rbind (required ''agent session spec''
              [(''target'', VText target), (''checkout'', VText checkout),
               (''workspace_id'', VText ws), (''pane_id'', VText pane)])
       (\<lambda>_. Inr \<lparr>as_target = target, as_checkout = checkout, as_workspace_id = ws,
                 as_pane_id = pane\<rparr>)"

record session_operation =
  ao_state :: session_state
  ao_spec :: session_spec
  ao_session :: "session_identity option"

definition AgentSessionOperation_init ::
  "session_state \<Rightarrow> session_spec \<Rightarrow> session_identity option \<Rightarrow>
   operation_error + session_operation" where
  "AgentSessionOperation_init st spec sess =
     (if (case sess of None \<Rightarrow> False | Some i \<Rightarrow> si_target i \<noteq> as_target spec)
      then Inl (OperationTransitionError ''agent session target does not match its spec'')
      else if st \<in> settled_session_states \<and> sess = None
      then Inl (OperationTransitionError
             ''settled agent operation requires provider session identity'')
      else Inr \<lparr>ao_state = st, ao_spec = spec, ao_session = sess\<rparr>)"

definition session_transition ::
  "session_operation \<Rightarrow> session_state \<Rightarrow> session_identity option \<Rightarrow>
   operation_error + session_operation" where
  "session_transition a st sess =
     (if st \<noteq> ao_state a \<and> st \<notin> session_transitions (ao_state a)
      then Inl (OperationTransitionError
             (''agent session cannot transition from '' @ session_state_value (ao_state a)
              @ '' to '' @ session_state_value st))
      else AgentSessionOperation_init st (ao_spec a)
             (case sess of None \<Rightarrow> ao_session a | Some i \<Rightarrow> Some i))"

definition accepts_observation :: "session_operation \<Rightarrow> session_identity \<Rightarrow> bool" where
  "accepts_observation a i \<longleftrightarrow>
     (case ao_session a of
        None \<Rightarrow> False
      | Some s \<Rightarrow> session_accepts s (si_provider i) (si_session_id i) (si_target i)
                   (si_state_sequence i))"

text \<open>
  The stored columns; the three provider columns are written when the operation has a session
  and are left alone otherwise.
\<close>

record session_row =
  agent_dispatch_state :: "string option"
  agent_operation_target :: "string option"
  agent_operation_checkout :: "string option"
  agent_operation_workspace_id :: "string option"
  agent_operation_pane_id :: "string option"
  agent_provider :: "string option"
  agent_provider_session_id :: "string option"
  agent_state_sequence :: "int option"

definition agent_session_fields :: "session_row \<Rightarrow> session_operation \<Rightarrow> session_row" where
  "agent_session_fields old a =
     (let r = old\<lparr>agent_dispatch_state := Some (session_state_value (ao_state a)),
                agent_operation_target := Some (as_target (ao_spec a)),
                agent_operation_checkout := Some (as_checkout (ao_spec a)),
                agent_operation_workspace_id := Some (as_workspace_id (ao_spec a)),
                agent_operation_pane_id := Some (as_pane_id (ao_spec a))\<rparr>
      in case ao_session a of
           None \<Rightarrow> r
         | Some i \<Rightarrow> r\<lparr>agent_provider := Some (si_provider i),
                       agent_provider_session_id := Some (si_session_id i),
                       agent_state_sequence := Some (si_state_sequence i)\<rparr>)"

definition load_agent_session_operation ::
  "session_row \<Rightarrow> operation_error + session_operation option" where
  "load_agent_session_operation r =
     (case agent_dispatch_state r of
        None \<Rightarrow> Inr None
      | Some st \<Rightarrow>
          (case parse_session_state st of
             None \<Rightarrow> Inl (OperationTransitionError
                        (''invalid agent session operation state '' @ py_repr st))
           | Some parsed \<Rightarrow>
               rbind (case (agent_provider r, agent_provider_session_id r, agent_state_sequence r) of
                        (None, None, None) \<Rightarrow> Inr None
                      | (Some p, Some s, Some q) \<Rightarrow>
                          rbind (SessionIdentity_init p s (or_str (agent_operation_target r) '''') q)
                            (\<lambda>i. Inr (Some i))
                      | _ \<Rightarrow> Inl (OperationTransitionError
                                ''agent provider session identity is incomplete''))
                 (\<lambda>sess.
               rbind (AgentSessionSpec_init (or_str (agent_operation_target r) '''')
                        (or_str (agent_operation_checkout r) '''')
                        (or_str (agent_operation_workspace_id r) '''')
                        (or_str (agent_operation_pane_id r) ''''))
                 (\<lambda>spec.
               rbind (AgentSessionOperation_init parsed spec sess) (\<lambda>a. Inr (Some a))))))"

definition uncertain_session_state :: "bool \<Rightarrow> session_state" where
  "uncertain_session_state ambiguous = (if ambiguous then SsAmbiguous else SsFailedObserving)"

section \<open>Participant pane\<close>

record pane_spec =
  pp_participant :: string
  pp_target :: string
  pp_label :: string
  pp_checkout :: string
  pp_workspace_id :: string

definition ParticipantPaneSpec_init ::
  "string \<Rightarrow> string \<Rightarrow> string \<Rightarrow> string \<Rightarrow> string \<Rightarrow> operation_error + pane_spec" where
  "ParticipantPaneSpec_init participant target lbl checkout ws =
     rbind (required ''participant pane spec''
              [(''participant'', VText participant), (''target'', VText target),
               (''label'', VText lbl), (''checkout'', VText checkout),
               (''workspace_id'', VText ws)])
       (\<lambda>_. Inr \<lparr>pp_participant = participant, pp_target = target, pp_label = lbl,
                 pp_checkout = checkout, pp_workspace_id = ws\<rparr>)"

record pane_operation =
  po_state :: operation_state
  po_spec :: pane_spec
  po_pane_id :: "string option"

definition ParticipantPaneOperation_init ::
  "operation_state \<Rightarrow> pane_spec \<Rightarrow> string option \<Rightarrow> operation_error + pane_operation" where
  "ParticipantPaneOperation_init st spec pane =
     (if st = OpSettled \<and> \<not> otruthy pane
      then Inl (OperationTransitionError ''settled participant pane requires pane identity'')
      else Inr \<lparr>po_state = st, po_spec = spec, po_pane_id = pane\<rparr>)"

definition pane_transition ::
  "pane_operation \<Rightarrow> operation_state \<Rightarrow> string option \<Rightarrow> operation_error + pane_operation" where
  "pane_transition p st pane =
     (if st \<notin> operation_transitions (po_state p)
      then Inl (OperationTransitionError
             (''participant pane cannot transition from '' @ operation_state_value (po_state p)
              @ '' to '' @ operation_state_value st))
      else ParticipantPaneOperation_init st (po_spec p) (or_opt pane (po_pane_id p)))"

end
