(* ===== verification/Operation_Machines.thy ===== *)
theory Operation_Machines imports Operations begin

text \<open>
  The operations of \<open>cursor/operations.py\<close> as machines: for the checkout, the agent session, the
  fork and the participant pane, the label, the table of legal edges and the step the shared
  locales ask for; the codecs with the stored columns; and the reading of the fine-grained
  states as the coarse operation states they replaced.
\<close>

section \<open>Invariants and inversion of the single operations\<close>

definition paired :: "string option \<Rightarrow> string option \<Rightarrow> bool" where
  "paired ws pane \<longleftrightarrow> otruthy ws = otruthy pane"

fun checkout_spec_ok :: "checkout_spec \<Rightarrow> bool" where
  "checkout_spec_ok s \<longleftrightarrow> sp_repository s \<noteq> [] \<and> sp_branch s \<noteq> [] \<and> sp_path s \<noteq> []"

definition checkout_ok :: "checkout_operation \<Rightarrow> bool" where
  "checkout_ok c \<longleftrightarrow> checkout_spec_ok (co_spec c)
     \<and> paired (co_workspace_id c) (co_root_pane_id c)
     \<and> (co_state c \<in> settled_checkout_states \<longrightarrow> otruthy (co_workspace_id c))"

lemma CheckoutOperation_init_iff [result_simps]:
  "CheckoutOperation_init st spec ws pane = Inr c \<longleftrightarrow>
     paired ws pane \<and> (st \<in> settled_checkout_states \<longrightarrow> otruthy ws) \<and>
     c = \<lparr>co_state = st, co_spec = spec, co_workspace_id = ws, co_root_pane_id = pane\<rparr>"
  by (auto simp: CheckoutOperation_init_def paired_def)

lemma CheckoutSpec_init_iff [result_simps]:
  "CheckoutSpec_init repo branch path = Inr s \<longleftrightarrow>
     checkout_spec_ok s \<and> s = \<lparr>sp_repository = repo, sp_branch = branch, sp_path = path\<rparr>"
  by (auto simp: CheckoutSpec_init_def result_simps)

lemma checkout_transition_iff [result_simps]:
  "checkout_transition c st ws pane = Inr d \<longleftrightarrow>
     (st = co_state c \<or> st \<in> checkout_transitions (co_state c)) \<and>
     CheckoutOperation_init st (co_spec c) (or_opt ws (co_workspace_id c))
       (or_opt pane (co_root_pane_id c)) = Inr d"
  by (auto simp: checkout_transition_def)

lemma otruthy_or_opt [simp]: "otruthy (or_opt x y) \<longleftrightarrow> otruthy x \<or> otruthy y"
  by (simp add: or_opt_def)

definition session_ok :: "session_operation \<Rightarrow> bool" where
  "session_ok a \<longleftrightarrow>
     as_target (ao_spec a) \<noteq> [] \<and> as_checkout (ao_spec a) \<noteq> []
     \<and> as_workspace_id (ao_spec a) \<noteq> [] \<and> as_pane_id (ao_spec a) \<noteq> []
     \<and> (ao_state a \<in> settled_session_states \<longrightarrow> ao_session a \<noteq> None)
     \<and> (\<forall>i. ao_session a = Some i \<longrightarrow> si_target i = as_target (ao_spec a)
          \<and> si_provider i \<noteq> [] \<and> si_session_id i \<noteq> [] \<and> 0 \<le> si_state_sequence i)"

lemma SessionIdentity_init_iff [result_simps]:
  "SessionIdentity_init p s t q = Inr i \<longleftrightarrow>
     p \<noteq> [] \<and> s \<noteq> [] \<and> t \<noteq> [] \<and> 0 \<le> q \<and>
     i = \<lparr>si_provider = p, si_session_id = s, si_target = t, si_state_sequence = q\<rparr>"
  by (auto simp: SessionIdentity_init_def result_simps)

lemma AgentSessionSpec_init_iff [result_simps]:
  "AgentSessionSpec_init t c w p = Inr s \<longleftrightarrow>
     t \<noteq> [] \<and> c \<noteq> [] \<and> w \<noteq> [] \<and> p \<noteq> [] \<and>
     s = \<lparr>as_target = t, as_checkout = c, as_workspace_id = w, as_pane_id = p\<rparr>"
  by (auto simp: AgentSessionSpec_init_def result_simps)

lemma AgentSessionOperation_init_iff [result_simps]:
  "AgentSessionOperation_init st spec sess = Inr a \<longleftrightarrow>
     (\<forall>i. sess = Some i \<longrightarrow> si_target i = as_target spec) \<and>
     (st \<in> settled_session_states \<longrightarrow> sess \<noteq> None) \<and>
     a = \<lparr>ao_state = st, ao_spec = spec, ao_session = sess\<rparr>"
  by (auto simp: AgentSessionOperation_init_def split: option.splits)

lemma session_transition_iff [result_simps]:
  "session_transition a st sess = Inr b \<longleftrightarrow>
     (st = ao_state a \<or> st \<in> session_transitions (ao_state a)) \<and>
     AgentSessionOperation_init st (ao_spec a)
       (case sess of None \<Rightarrow> ao_session a | Some i \<Rightarrow> Some i) = Inr b"
  by (auto simp: session_transition_def)

lemma fork_transition_iff [result_simps]:
  "fork_transition f st = Inr g \<longleftrightarrow>
     st \<in> operation_transitions (fo_state f) \<and> g = f\<lparr>fo_state := st\<rparr>"
  by (auto simp: fork_transition_def)

lemma pane_transition_iff [result_simps]:
  "pane_transition p st pane = Inr q \<longleftrightarrow>
     st \<in> operation_transitions (po_state p)
     \<and> (st = OpSettled \<longrightarrow> otruthy (or_opt pane (po_pane_id p)))
     \<and> q = \<lparr>po_state = st, po_spec = po_spec p, po_pane_id = or_opt pane (po_pane_id p)\<rparr>"
  by (auto simp: pane_transition_def ParticipantPaneOperation_init_def)

section \<open>Machines\<close>

fun checkout_step ::
  "checkout_operation \<Rightarrow> checkout_state \<times> string option \<times> string option \<Rightarrow>
   operation_error + checkout_operation" where
  "checkout_step c (st, ws, pane) = checkout_transition c st ws pane"

fun session_step ::
  "session_operation \<Rightarrow> session_state \<times> session_identity option \<Rightarrow>
   operation_error + session_operation" where
  "session_step a (st, sess) = session_transition a st sess"

fun pane_step ::
  "pane_operation \<Rightarrow> operation_state \<times> string option \<Rightarrow> operation_error + pane_operation" where
  "pane_step p (st, pane) = pane_transition p st pane"

fun operation_rank :: "operation_state \<Rightarrow> nat" where
  "operation_rank OpPlanned = 5"
| "operation_rank OpActive = 4"
| "operation_rank OpUnknown = 3"
| "operation_rank OpManual = 2"
| "operation_rank OpSettled = 1"
| "operation_rank OpFailed = 0"

lemma operation_rank_edge:
  "t \<in> operation_transitions s \<Longrightarrow> operation_rank t < operation_rank s"
  by (cases s) auto

lemma operation_rank_inj: "operation_rank s = operation_rank t \<longleftrightarrow> s = t"
  by (cases s; cases t) simp_all

text \<open>The order of progress on operation states: later states are the smaller ones.\<close>

instantiation operation_state :: linorder
begin

definition less_eq_operation_state :: "operation_state \<Rightarrow> operation_state \<Rightarrow> bool" where
  "s \<le> t \<longleftrightarrow> operation_rank s \<le> operation_rank t"

definition less_operation_state :: "operation_state \<Rightarrow> operation_state \<Rightarrow> bool" where
  "s < t \<longleftrightarrow> operation_rank s < operation_rank t"

instance
  by standard
     (auto simp: less_eq_operation_state_def less_operation_state_def operation_rank_inj
        simp flip: operation_rank_inj)

end

interpretation checkout: guarded_machine co_state checkout_transitions checkout_step
  by unfold_locales (auto simp: result_simps)

interpretation session: guarded_machine ao_state session_transitions session_step
  by unfold_locales (auto simp: result_simps)

interpretation fork: ranked_machine fo_state operation_transitions fork_transition operation_rank
  by unfold_locales (auto simp: result_simps operation_rank_edge)

interpretation pane: ranked_machine po_state operation_transitions pane_step operation_rank
  by unfold_locales (auto simp: result_simps operation_rank_edge)

lemma checkout_step_ok: "checkout_ok c \<Longrightarrow> checkout_step c a = Inr d \<Longrightarrow> checkout_ok d"
  by (cases a) (auto simp: result_simps checkout_ok_def)

definition session_arg_ok :: "session_state \<times> session_identity option \<Rightarrow> bool" where
  "session_arg_ok a \<longleftrightarrow> (\<forall>i. snd a = Some i \<longrightarrow>
     SessionIdentity_init (si_provider i) (si_session_id i) (si_target i) (si_state_sequence i)
       = Inr i)"

lemma session_step_ok:
  "session_ok a \<Longrightarrow> session_arg_ok x \<Longrightarrow> session_step a x = Inr b \<Longrightarrow> session_ok b"
  by (cases x) (auto simp: result_simps session_ok_def session_arg_ok_def split: option.splits)

section \<open>Codecs\<close>

lemma parse_checkout_state_value [simp]: "parse_checkout_state (checkout_state_value s) = Some s"
  by (cases s) (simp_all add: parse_checkout_state_def)

lemma parse_session_state_value [simp]: "parse_session_state (session_state_value s) = Some s"
  by (cases s) (simp_all add: parse_session_state_def)

lemma load_checkout_valid: "load_checkout_operation r = Inr (Some c) \<Longrightarrow> checkout_ok c"
  by (auto simp: load_checkout_operation_def result_simps checkout_ok_def split: option.splits)

lemma load_checkout_fields: "checkout_ok c \<Longrightarrow> load_checkout_operation (checkout_fields c) = Inr (Some c)"
  by (cases "co_spec c")
     (auto simp: load_checkout_operation_def checkout_fields_def result_simps checkout_ok_def)

definition load_checkout_present ::
  "checkout_row \<Rightarrow> operation_error option + checkout_operation" where
  "load_checkout_present r =
     (case load_checkout_operation r of
        Inl e \<Rightarrow> Inl (Some e) | Inr None \<Rightarrow> Inl None | Inr (Some c) \<Rightarrow> Inr c)"

interpretation checkout_store: flat_codec checkout_fields load_checkout_present checkout_ok
  by unfold_locales
     (auto simp: load_checkout_present_def load_checkout_fields split: sum.splits option.splits
        intro: load_checkout_valid)

definition worker_ok :: "worker_ownership option \<Rightarrow> bool" where
  "worker_ok w \<longleftrightarrow> (\<forall>x. w = Some x \<longrightarrow>
     wo_token x \<noteq> [] \<and> wo_boot_id x \<noteq> [] \<and> wo_process_start x \<noteq> [] \<and> wo_operation x \<noteq> []
     \<and> 0 < wo_pid x \<and> 0 \<le> wo_claimed_at x)"

lemma WorkerOwnership_init_iff [result_simps]:
  "WorkerOwnership_init tok pid boot start oper claimed = Inr w \<longleftrightarrow>
     tok \<noteq> [] \<and> boot \<noteq> [] \<and> start \<noteq> [] \<and> oper \<noteq> [] \<and> 0 < pid \<and> 0 \<le> claimed \<and>
     w = \<lparr>wo_token = tok, wo_pid = pid, wo_boot_id = boot, wo_process_start = start,
          wo_operation = oper, wo_claimed_at = claimed\<rparr>"
  by (auto simp: WorkerOwnership_init_def result_simps)

interpretation worker_store: flat_codec worker_ownership_fields load_worker_ownership worker_ok
proof
  fix w assume "worker_ok w"
  then show "load_worker_ownership (worker_ownership_fields w) = Inr w"
    by (cases w) (auto simp: load_worker_ownership_def worker_ok_def result_simps)
next
  fix r w assume "load_worker_ownership r = Inr w"
  then show "worker_ok w"
    by (auto simp: load_worker_ownership_def worker_ok_def result_simps split: option.splits)
qed

section \<open>Reading the fine-grained states as operation states\<close>

text \<open>
  The collapse the comment above \<open>_CHECKOUT_TRANSITIONS\<close> speaks of, from the four sets the module
  declares next to it.
\<close>

definition collapse_checkout :: "checkout_state \<Rightarrow> operation_state" where
  "collapse_checkout s =
     (if s \<in> settled_checkout_states then OpSettled
      else if s \<in> unknown_checkout_states then OpUnknown
      else if s = CsPlanned then OpPlanned
      else if s = CsDispatching then OpActive
      else if s = CsManualRequired then OpManual
      else OpFailed)"

definition collapse_session :: "session_state \<Rightarrow> operation_state" where
  "collapse_session s =
     (if s \<in> settled_session_states then OpSettled
      else if s \<in> unknown_session_states then OpUnknown
      else if s = SsDispatching then OpActive
      else if s = SsManualRequired then OpManual
      else OpFailed)"

definition collapsed_edge :: "operation_state \<Rightarrow> operation_state \<Rightarrow> bool" where
  "collapsed_edge s t \<longleftrightarrow> s = t \<or> t \<in> operation_transitions s"

lemmas collapse_defs = collapse_checkout_def collapse_session_def collapsed_edge_def
  settled_checkout_states_def unknown_checkout_states_def
  settled_session_states_def unknown_session_states_def

lemma collapsed_edge_rank: "collapsed_edge s t \<Longrightarrow> t \<le> s"
  by (auto simp: collapsed_edge_def less_eq_operation_state_def dest: operation_rank_edge)

lemma checkout_transitions_collapse:
  "s \<noteq> t \<Longrightarrow> t \<in> checkout_transitions s \<longleftrightarrow>
     collapsed_edge (collapse_checkout s) (collapse_checkout t)"
  by (cases s; cases t) (simp_all add: collapse_defs)

lemma session_transitions_collapse:
  "s \<noteq> t \<Longrightarrow> t \<in> session_transitions s \<longleftrightarrow>
     collapsed_edge (collapse_session s) (collapse_session t)
     \<or> s = SsManualRequired \<and> t = SsAmbiguous"
  by (cases s; cases t) (simp_all add: collapse_defs)

section \<open>Properties\<close>

text \<open>
  The checkout table refines the collapsed operation table exactly: between two different
  checkout states there is an edge if and only if the collapsed states are equal or joined by
  an edge of the operation table; so along any run of accepted transitions the collapsed state
  only moves forward in the order planned, active, unknown, manual, settled, failed.
\<close>

theorem checkout_refines_operation:
  "(\<forall>s t. s \<noteq> t \<longrightarrow> (t \<in> checkout_transitions s \<longleftrightarrow>
      collapsed_edge (collapse_checkout s) (collapse_checkout t)))
   \<and> (run_steps checkout_step c ops = Inr d \<longrightarrow>
        collapse_checkout (co_state d) \<le> collapse_checkout (co_state c))"
proof (intro conjI allI impI)
  fix s t :: checkout_state assume "s \<noteq> t"
  then show "t \<in> checkout_transitions s \<longleftrightarrow>
      collapsed_edge (collapse_checkout s) (collapse_checkout t)"
    by (rule checkout_transitions_collapse)
next
  assume run: "run_steps checkout_step c ops = Inr d"
  show "collapse_checkout (co_state d) \<le> collapse_checkout (co_state c)"
  proof (rule run_steps_relation [OF run])
    fix x a y assume "checkout_step x a = Inr y"
    from checkout.step_edge [OF this]
    show "collapse_checkout (co_state y) \<le> collapse_checkout (co_state x)"
      by (cases "co_state y = co_state x")
         (auto intro!: collapsed_edge_rank simp flip: checkout_transitions_collapse)
  qed auto
qed

lemma session_step_collapse:
  assumes "session_step a (st, sess) = Inr b"
  shows "collapse_session (ao_state b) \<le> collapse_session (ao_state a)
    \<or> ao_state a = SsManualRequired \<and> st = SsAmbiguous"
proof -
  have st: "ao_state b = st" using assms by (auto simp: result_simps)
  from session.step_edge [OF assms] show ?thesis
    using session_transitions_collapse [of "ao_state a" "ao_state b"] collapsed_edge_rank
    by (cases "ao_state b = ao_state a") (auto simp: st)
qed

lemma session_run_collapse:
  assumes "run_steps session_step a ops = Inr b"
  shows "collapse_session (ao_state b) \<le> collapse_session (ao_state a)
    \<or> (\<exists>before sess after c. ops = before @ (SsAmbiguous, sess) # after
         \<and> run_steps session_step a before = Inr c \<and> ao_state c = SsManualRequired)"
  using assms
proof (induction ops arbitrary: a)
  case (Cons op ops)
  obtain st sess where op: "op = (st, sess)" by (cases op)
  from Cons.prems obtain u where u: "session_step a op = Inr u" "run_steps session_step u ops = Inr b"
    by (auto simp: rbind_Inr_iff)
  show ?case
  proof (cases "ao_state a = SsManualRequired \<and> st = SsAmbiguous")
    case True
    then show ?thesis
      by (intro disjI2 exI [of _ "[]"] exI [of _ sess] exI [of _ ops] exI [of _ a]) (simp add: op)
  next
    case False
    with session_step_collapse [OF u(1) [unfolded op]]
    have le: "collapse_session (ao_state u) \<le> collapse_session (ao_state a)" by blast
    from Cons.IH [OF u(2)] show ?thesis
    proof (elim disjE exE conjE)
      fix before sess' after c
      assume "ops = before @ (SsAmbiguous, sess') # after" "run_steps session_step u before = Inr c"
        "ao_state c = SsManualRequired"
      then show ?thesis using u(1)
        by (intro disjI2 exI [of _ "op # before"] exI [of _ sess'] exI [of _ after] exI [of _ c])
           (simp del: session_step.simps)
    qed (use le in auto)
  qed
qed simp

text \<open>
  C40. The agent session table is the collapsed operation table with exactly one edge more: between
  two different session states there is an edge if and only if their collapsed states are equal or
  joined by an edge of the operation table, or a session that requires manual work becomes
  ambiguous, which the operation table does not have. So along any run of accepted transitions
  the collapsed state only moves forward (planned, active, unknown, manual, settled, failed) unless
  the run takes that one edge.
\<close>

theorem session_collapse_has_one_extra_edge:
  "(\<forall>s t. s \<noteq> t \<longrightarrow> (t \<in> session_transitions s \<longleftrightarrow>
      collapsed_edge (collapse_session s) (collapse_session t)
      \<or> s = SsManualRequired \<and> t = SsAmbiguous))
   \<and> \<not> collapsed_edge (collapse_session SsManualRequired) (collapse_session SsAmbiguous)
   \<and> (run_steps session_step a ops = Inr b \<longrightarrow>
        collapse_session (ao_state b) \<le> collapse_session (ao_state a)
        \<or> (\<exists>before sess after c. ops = before @ (SsAmbiguous, sess) # after
             \<and> run_steps session_step a before = Inr c \<and> ao_state c = SsManualRequired))"
proof (intro conjI allI impI)
  show "\<not> collapsed_edge (collapse_session SsManualRequired) (collapse_session SsAmbiguous)"
    by (simp add: collapse_defs)
qed (fact session_transitions_collapse, fact session_run_collapse)

text \<open>
  A checkout is dispatched at most once and keeps its identity: over any run of accepted
  transitions from a loaded checkout the spec stays the same, identifiers once present stay
  present, no state after planned returns to planned, none after dispatching returns to it, a
  confirmed absence is final, and the result can be stored and is read back unchanged.
\<close>

theorem checkout_dispatched_at_most_once:
  assumes "load_checkout_operation r = Inr (Some c)"
    and "run_steps checkout_step c ops = Inr d"
  shows "co_spec d = co_spec c
    \<and> (otruthy (co_workspace_id c) \<longrightarrow> otruthy (co_workspace_id d) \<and> otruthy (co_root_pane_id d))
    \<and> (co_state c \<noteq> CsPlanned \<longrightarrow> co_state d \<noteq> CsPlanned)
    \<and> (co_state c \<notin> {CsPlanned, CsDispatching} \<longrightarrow> co_state d \<notin> {CsPlanned, CsDispatching})
    \<and> (co_state c = CsConfirmedAbsent \<longrightarrow> co_state d = CsConfirmedAbsent)
    \<and> load_checkout_operation (checkout_fields d) = Inr (Some d)"
proof -
  have ok: "checkout_ok d"
    by (rule run_steps_invariant [OF assms(2), where P = checkout_ok])
       (rule load_checkout_valid [OF assms(1)], rule checkout_step_ok)
  have spec: "co_spec d = co_spec c"
    by (rule run_steps_relation [OF assms(2), where R = "\<lambda>c d. co_spec d = co_spec c"])
       (auto simp: result_simps)
  have ids: "otruthy (co_workspace_id c) \<longrightarrow> otruthy (co_workspace_id d)"
    by (rule run_steps_relation [OF assms(2),
          where R = "\<lambda>c d. otruthy (co_workspace_id c) \<longrightarrow> otruthy (co_workspace_id d)"])
       (auto simp: result_simps)
  have planned: "co_state d \<in> - {CsPlanned}" if "co_state c \<noteq> CsPlanned"
    by (rule checkout.run_closed [OF assms(2)]) (use that in simp, case_tac s, auto)
  have dispatched: "co_state d \<in> - {CsPlanned, CsDispatching}"
    if "co_state c \<notin> {CsPlanned, CsDispatching}"
    by (rule checkout.run_closed [OF assms(2)]) (use that in simp, case_tac s, auto)
  have final: "co_state d = CsConfirmedAbsent" if "co_state c = CsConfirmedAbsent"
    using checkout.run_terminal [OF _ assms(2)] that by simp
  from ids ok spec planned dispatched final show ?thesis
    by (simp add: load_checkout_fields) (simp add: checkout_ok_def paired_def)
qed

lemma fork_run_sorted:
  "run_steps fork_transition f sts = Inr g \<Longrightarrow>
   sorted_wrt (>) (fo_state f # sts) \<and> fo_state g = last (fo_state f # sts)
   \<and> fo_spec g = fo_spec f"
proof (induction sts arbitrary: f)
  case Nil
  then show ?case by simp
next
  case (Cons st sts)
  then have st: "st \<in> operation_transitions (fo_state f)"
    and run: "run_steps fork_transition (f\<lparr>fo_state := st\<rparr>) sts = Inr g"
    by (auto simp: result_simps)
  have "st < fo_state f" using operation_rank_edge [OF st] by (simp add: less_operation_state_def)
  with Cons.IH [OF run] show ?case by force
qed

text \<open>
  A fork runs forward only: the states a fork is moved to form a strictly descending chain
  in the order of progress, so no state is entered twice, a run has at most five transitions,
  and the fork's spec (source, target, login) is never rewritten.
\<close>

theorem fork_progresses:
  assumes "run_steps fork_transition f sts = Inr g"
  shows "sorted_wrt (>) (fo_state f # sts) \<and> length sts \<le> 5
    \<and> fo_state g = last (fo_state f # sts) \<and> fo_spec g = fo_spec f"
proof -
  have "fo_state y \<noteq> fo_state x" if "fork_transition x a = Inr y" for x a y
    using that operation_rank_edge by (auto simp: result_simps)
  with fork.run_length [OF assms] have "length sts \<le> operation_rank (fo_state f)" by auto
  moreover have "operation_rank (fo_state f) \<le> 5" by (cases "fo_state f") simp_all
  ultimately show ?thesis using fork_run_sorted [OF assms] by simp
qed

section \<open>Witnesses\<close>

definition demo_manual_session :: session_operation where
  "demo_manual_session =
     \<lparr>ao_state = SsManualRequired,
      ao_spec = \<lparr>as_target = ''w1:p1'', as_checkout = ''/r'', as_workspace_id = ''w1'', as_pane_id = ''p1''\<rparr>,
      ao_session = None\<rparr>"

lemma session_collapse_has_one_extra_edge_witness:
  "\<exists>b. run_steps session_step demo_manual_session [(SsAmbiguous, None)] = Inr b
     \<and> collapse_session (ao_state demo_manual_session) < collapse_session (ao_state b)
     \<and> SsAmbiguous \<in> session_transitions SsManualRequired
     \<and> SsReady \<in> session_transitions SsAmbiguous"
  using session_collapse_has_one_extra_edge [of demo_manual_session "[(SsAmbiguous, None)]"]
  by (simp add: demo_manual_session_def result_simps collapse_defs less_operation_state_def)

definition demo_checkout_row :: checkout_row where
  "demo_checkout_row =
     \<lparr>worktree_provision_state = Some ''dispatching'', row_repository = Some ''o/r'',
      worktree_branch = Some ''b'', worktree_path = Some ''/w'',
      worktree_workspace_id = None, worktree_root_pane_id = None\<rparr>"

lemma checkout_dispatched_at_most_once_witness:
  "\<exists>c d. load_checkout_operation demo_checkout_row = Inr (Some c)
     \<and> run_steps checkout_step c [(CsAmbiguous, None, None), (CsReady, Some ''w1'', Some ''p1'')]
         = Inr d
     \<and> co_state d = CsReady \<and> co_state d \<noteq> CsPlanned"
proof -
  let ?c = "\<lparr>co_state = CsDispatching,
             co_spec = \<lparr>sp_repository = ''o/r'', sp_branch = ''b'', sp_path = ''/w''\<rparr>,
             co_workspace_id = None, co_root_pane_id = None\<rparr>"
  let ?d = "?c\<lparr>co_state := CsReady, co_workspace_id := Some ''w1'', co_root_pane_id := Some ''p1''\<rparr>"
  have l: "load_checkout_operation demo_checkout_row = Inr (Some ?c)"
    by (simp add: load_checkout_operation_def demo_checkout_row_def parse_checkout_state_def
        CheckoutSpec_init_def required_def CheckoutOperation_init_def settled_checkout_states_def)
  have r: "run_steps checkout_step ?c
      [(CsAmbiguous, None, None), (CsReady, Some ''w1'', Some ''p1'')] = Inr ?d"
    by (simp add: checkout_transition_def CheckoutOperation_init_def settled_checkout_states_def)
  show ?thesis
    using checkout_dispatched_at_most_once [OF l r] l r by (intro exI [of _ ?c] exI [of _ ?d]) simp
qed

definition demo_fork :: fork_operation where
  "demo_fork = \<lparr>fo_state = OpPlanned,
     fo_spec = \<lparr>fs_source = ''o/r'', fs_source_url = ''u'', fs_source_default_branch = ''main'',
                fs_source_private = False, fs_login = ''me'', fs_target = ''me/r'',
                fs_source_parent = None\<rparr>\<rparr>"

lemma fork_progresses_witness:
  "run_steps fork_transition demo_fork [OpActive, OpUnknown, OpSettled]
     = Inr (demo_fork\<lparr>fo_state := OpSettled\<rparr>)
   \<and> sorted_wrt (>) [OpPlanned, OpActive, OpUnknown, OpSettled]"
proof -
  have r: "run_steps fork_transition demo_fork [OpActive, OpUnknown, OpSettled]
     = Inr (demo_fork\<lparr>fo_state := OpSettled\<rparr>)"
    by (simp add: demo_fork_def fork_transition_def)
  with fork_progresses [OF r] show ?thesis by (simp add: demo_fork_def)
qed

lemma checkout_refines_operation_witness:
  "\<exists>c d. run_steps checkout_step c [(CsReady, Some ''w1'', Some ''p1'')] = Inr d
     \<and> collapse_checkout (co_state d) \<le> collapse_checkout (co_state c)"
proof -
  let ?c = "\<lparr>co_state = CsDispatching,
             co_spec = \<lparr>sp_repository = ''o/r'', sp_branch = ''b'', sp_path = ''/w''\<rparr>,
             co_workspace_id = None, co_root_pane_id = None\<rparr>"
  let ?d = "?c\<lparr>co_state := CsReady, co_workspace_id := Some ''w1'', co_root_pane_id := Some ''p1''\<rparr>"
  have r: "run_steps checkout_step ?c [(CsReady, Some ''w1'', Some ''p1'')] = Inr ?d"
    by (simp add: checkout_transition_def CheckoutOperation_init_def)
  with checkout_refines_operation [THEN conjunct2, rule_format, OF r] show ?thesis by blast
qed

end
