(* ===== verification/Operation_Gate.thy ===== *)
theory Operation_Gate imports Operation_Machines begin

text \<open>
  \<open>cursor/model.py\<close> around a job's durable operations: reading the checkout and the agent session
  from the columns of current and older records (\<open>_typed_checkout_operation\<close>,
  \<open>_typed_agent_session_operation\<close> and their lenient variants), and
  \<open>_validate_operation_transitions\<close>, the gate every update of a job passes.
\<close>

section \<open>Reading the columns of current and older records\<close>

definition CURRENT_SCHEMA_VERSION :: int where
  "CURRENT_SCHEMA_VERSION = 18"

definition LEGACY_BOOT_ID :: string where
  "LEGACY_BOOT_ID = ''legacy-unknown''"

definition op_error :: "operation_error \<Rightarrow> job_error" where
  "op_error e = (case e of OperationTransitionError m \<Rightarrow> JobValidationError m)"

definition typed_checkout_operation ::
  "checkout_row \<Rightarrow> int \<Rightarrow> job_error + checkout_operation option" where
  "typed_checkout_operation r loaded_version =
     (case worktree_provision_state r of
        None \<Rightarrow> Inr None
      | Some st \<Rightarrow>
          (case parse_checkout_state st of
             None \<Rightarrow> Inl (ValueError (py_repr st @ '' is not a valid CheckoutState''))
           | Some parsed0 \<Rightarrow>
               let legacy = loaded_version < CURRENT_SCHEMA_VERSION;
                   ws0 = worktree_workspace_id r;
                   pane0 = worktree_root_pane_id r;
                   parsed = (if legacy \<and> parsed0 \<in> {CsReady, CsRetained}
                               \<and> (\<not> otruthy ws0 \<or> \<not> otruthy pane0
                                  \<or> Some LEGACY_BOOT_ID
                                      \<in> {row_repository r, worktree_branch r, worktree_path r})
                             then CsAmbiguous else parsed0);
                   unpaired = legacy \<and> otruthy ws0 \<noteq> otruthy pane0;
                   ws = (if unpaired then None else ws0);
                   pane = (if unpaired then None else pane0)
               in map_err op_error (load_checkout_operation
                    (r\<lparr>worktree_provision_state := Some (checkout_state_value parsed),
                       worktree_workspace_id := ws, worktree_root_pane_id := pane\<rparr>))))"

definition optional_typed_checkout_operation ::
  "checkout_row \<Rightarrow> int \<Rightarrow> checkout_operation option" where
  "optional_typed_checkout_operation r loaded_version =
     (case typed_checkout_operation r loaded_version of Inl e \<Rightarrow> None | Inr c \<Rightarrow> c)"

text \<open>The columns an agent session falls back to when its own are absent.\<close>

record session_fallback =
  fb_herdr_target :: "string option"
  fb_worktree_path :: "string option"
  fb_repository :: "string option"
  fb_herdr_workspace_id :: "string option"
  fb_herdr_pane_id :: "string option"

definition first_some :: "'a option \<Rightarrow> 'a option \<Rightarrow> 'a option" where
  "first_some x y = (case x of None \<Rightarrow> y | Some v \<Rightarrow> Some v)"

definition typed_agent_session_operation ::
  "session_row \<Rightarrow> session_fallback \<Rightarrow> int \<Rightarrow> job_error + session_operation option" where
  "typed_agent_session_operation r fb loaded_version =
     (case agent_dispatch_state r of
        None \<Rightarrow> Inr None
      | Some st \<Rightarrow>
          (case parse_session_state st of
             None \<Rightarrow> Inl (ValueError (py_repr st @ '' is not a valid AgentSessionState''))
           | Some parsed0 \<Rightarrow>
               let clear = (parsed0 \<in> {SsReady, SsRetained}
                            \<and> loaded_version < CURRENT_SCHEMA_VERSION
                            \<and> \<not> (agent_provider r \<noteq> None \<and> agent_provider_session_id r \<noteq> None
                                 \<and> agent_state_sequence r \<noteq> None));
                   parsed = (if clear then SsAmbiguous else parsed0)
               in map_err op_error (load_agent_session_operation
                    \<lparr>agent_dispatch_state = Some (session_state_value parsed),
                     agent_operation_target =
                       first_some (agent_operation_target r) (fb_herdr_target fb),
                     agent_operation_checkout =
                       first_some (agent_operation_checkout r)
                         (first_some (fb_worktree_path fb) (fb_repository fb)),
                     agent_operation_workspace_id =
                       first_some (agent_operation_workspace_id r) (fb_herdr_workspace_id fb),
                     agent_operation_pane_id =
                       first_some (agent_operation_pane_id r) (fb_herdr_pane_id fb),
                     agent_provider = (if clear then None else agent_provider r),
                     agent_provider_session_id =
                       (if clear then None else agent_provider_session_id r),
                     agent_state_sequence = (if clear then None else agent_state_sequence r)\<rparr>)))"

definition optional_typed_agent_session_operation ::
  "session_row \<Rightarrow> session_fallback \<Rightarrow> int \<Rightarrow> session_operation option" where
  "optional_typed_agent_session_operation r fb loaded_version =
     (case typed_agent_session_operation r fb loaded_version of Inl e \<Rightarrow> None | Inr a \<Rightarrow> a)"

section \<open>The gate on an update of a job's operations\<close>

text \<open>\<open>repr\<close> of the four specs: the gate looks for the placeholder of older records in it.\<close>

definition checkout_spec_repr :: "checkout_spec \<Rightarrow> string" where
  "checkout_spec_repr s =
     ''CheckoutSpec(repository='' @ py_repr (sp_repository s) @ '', branch='' @ py_repr (sp_branch s)
     @ '', path='' @ py_repr (sp_path s) @ '')''"

definition py_repr_option :: "string option \<Rightarrow> string" where
  "py_repr_option x = (case x of None \<Rightarrow> ''None'' | Some s \<Rightarrow> py_repr s)"

definition fork_spec_repr :: "fork_spec \<Rightarrow> string" where
  "fork_spec_repr s =
     ''ForkSpec(source='' @ py_repr (fs_source s) @ '', source_url='' @ py_repr (fs_source_url s)
     @ '', source_default_branch='' @ py_repr (fs_source_default_branch s)
     @ '', source_private='' @ (if fs_source_private s then ''True'' else ''False'')
     @ '', login='' @ py_repr (fs_login s) @ '', target='' @ py_repr (fs_target s)
     @ '', source_parent='' @ py_repr_option (fs_source_parent s) @ '')''"

definition session_spec_repr :: "session_spec \<Rightarrow> string" where
  "session_spec_repr s =
     ''AgentSessionSpec(target='' @ py_repr (as_target s) @ '', checkout='' @ py_repr (as_checkout s)
     @ '', workspace_id='' @ py_repr (as_workspace_id s)
     @ '', pane_id='' @ py_repr (as_pane_id s) @ '')''"

definition pane_spec_repr :: "pane_spec \<Rightarrow> string" where
  "pane_spec_repr s =
     ''ParticipantPaneSpec(participant='' @ py_repr (pp_participant s)
     @ '', target='' @ py_repr (pp_target s) @ '', label='' @ py_repr (pp_label s)
     @ '', checkout='' @ py_repr (pp_checkout s)
     @ '', workspace_id='' @ py_repr (pp_workspace_id s) @ '')''"

record session_owner =
  ow_provider :: string
  ow_session_id :: string
  ow_target :: string
  ow_state_sequence :: int
  ow_checkout :: string
  ow_workspace_id :: string
  ow_pane_id :: string

record job_operations =
  jo_checkout :: "checkout_operation option"
  jo_fork :: "fork_operation option"
  jo_session :: "session_operation option"
  jo_pane :: "pane_operation option"
  jo_owners :: "session_owner list"
  jo_loaded_version :: int
  jo_dispatch_state :: "string option"

definition owner_archives :: "session_operation \<Rightarrow> session_owner \<Rightarrow> bool" where
  "owner_archives a owner \<longleftrightarrow>
     (case ao_session a of
        None \<Rightarrow> False
      | Some i \<Rightarrow>
          ow_provider owner = si_provider i \<and> ow_session_id owner = si_session_id i
          \<and> ow_target owner = si_target i \<and> ow_state_sequence owner = si_state_sequence i
          \<and> ow_checkout owner = as_checkout (ao_spec a)
          \<and> ow_workspace_id owner = as_workspace_id (ao_spec a)
          \<and> ow_pane_id owner = as_pane_id (ao_spec a))"

definition checkout_replaced :: "checkout_operation \<Rightarrow> checkout_operation \<Rightarrow> bool" where
  "checkout_replaced p c \<longleftrightarrow>
     is_part LEGACY_BOOT_ID (checkout_spec_repr (co_spec p))
     \<and> co_state p \<in> {CsQuarantined, CsAmbiguous, CsFailedObserving, CsManualRequired}
     \<and> co_state c \<in> {CsReady, CsRetained}"

definition fork_replaced :: "fork_operation \<Rightarrow> fork_operation \<Rightarrow> bool" where
  "fork_replaced p c \<longleftrightarrow>
     is_part LEGACY_BOOT_ID (fork_spec_repr (fo_spec p))
     \<and> fo_state p \<in> {OpUnknown, OpManual} \<and> fo_state c = OpSettled"

definition session_replaced ::
  "session_owner list \<Rightarrow> session_operation \<Rightarrow> session_operation \<Rightarrow> bool" where
  "session_replaced owners p c \<longleftrightarrow>
     (ao_state p = SsConfirmedAbsent \<and> ao_state c \<in> {SsDispatching, SsReady, SsRetained})
     \<or> (is_part LEGACY_BOOT_ID (session_spec_repr (ao_spec p))
        \<and> ao_state p \<in> {SsAmbiguous, SsFailedObserving, SsManualRequired}
        \<and> ao_state c \<in> {SsReady, SsRetained})
     \<or> list_ex (owner_archives p) owners"

definition pane_replaced :: "pane_operation \<Rightarrow> pane_operation \<Rightarrow> bool" where
  "pane_replaced p c \<longleftrightarrow>
     (po_state p = OpFailed \<and> po_state c = OpPlanned)
     \<or> (is_part LEGACY_BOOT_ID (pane_spec_repr (po_spec p))
        \<and> po_state p \<in> {OpUnknown, OpManual} \<and> po_state c = OpSettled)"

text \<open>
  One turn of the loop over the four operations: what it does with an absent operation, with a
  rewritten spec (\<open>replaced\<close> says which rewrites are sanctioned), and with the same spec.
\<close>

definition operation_gate ::
  "string \<Rightarrow> ('o \<Rightarrow> 'spec) \<Rightarrow> ('o \<Rightarrow> 'o \<Rightarrow> bool) \<Rightarrow> ('o \<Rightarrow> 'o \<Rightarrow> operation_error + unit) \<Rightarrow>
   'o option \<Rightarrow> 'o option \<Rightarrow> job_error + unit" where
  "operation_gate name spec replaced check previous current =
     (case previous of
        None \<Rightarrow> Inr ()
      | Some p \<Rightarrow>
          (case current of
             None \<Rightarrow>
               if name = ''participant pane'' then Inr ()
               else Inl (JobValidationError (name @ '' operation identity cannot be discarded''))
           | Some c \<Rightarrow>
               if spec p \<noteq> spec c
               then (if replaced p c then Inr ()
                     else Inl (JobValidationError
                            (name @ '' operation identity cannot be rewritten'')))
               else map_err op_error (check p c)))"

definition check_checkout :: "checkout_operation \<Rightarrow> checkout_operation \<Rightarrow> operation_error + unit" where
  "check_checkout p c =
     (if co_state p \<noteq> co_state c
      then rbind (checkout_transition p (co_state c) (co_workspace_id c) (co_root_pane_id c))
             (\<lambda>_. Inr ())
      else Inr ())"

definition check_fork :: "fork_operation \<Rightarrow> fork_operation \<Rightarrow> operation_error + unit" where
  "check_fork p c =
     (if fo_state p \<noteq> fo_state c
      then rbind (fork_transition p (fo_state c)) (\<lambda>_. Inr ()) else Inr ())"

definition check_pane :: "pane_operation \<Rightarrow> pane_operation \<Rightarrow> operation_error + unit" where
  "check_pane p c =
     (if po_state p \<noteq> po_state c
      then rbind (pane_transition p (po_state c) (po_pane_id c)) (\<lambda>_. Inr ()) else Inr ())"

definition legacy_agent_materialized ::
  "job_operations \<Rightarrow> job_operations \<Rightarrow> session_operation \<Rightarrow> session_operation \<Rightarrow> bool" where
  "legacy_agent_materialized before after p c \<longleftrightarrow>
     jo_loaded_version before < CURRENT_SCHEMA_VERSION
     \<and> jo_dispatch_state before = Some ''manual_required''
     \<and> jo_dispatch_state after = Some ''retained''
     \<and> ao_state p = SsManualRequired \<and> ao_state c = SsAmbiguous \<and> ao_session c = None"

definition check_session ::
  "job_operations \<Rightarrow> job_operations \<Rightarrow> session_operation \<Rightarrow> session_operation \<Rightarrow>
   operation_error + unit" where
  "check_session before after p c =
     (if ao_state p \<noteq> ao_state c \<and> legacy_agent_materialized before after p c then Inr ()
      else rbind (if ao_state p \<noteq> ao_state c
                  then rbind (session_transition p (ao_state c) (ao_session c)) (\<lambda>_. Inr ())
                  else Inr ())
        (\<lambda>_. case ao_session p of
               None \<Rightarrow> Inr ()
             | Some i \<Rightarrow>
                 (case ao_session c of
                    None \<Rightarrow> Inl (OperationTransitionError
                              ''agent session identity cannot be discarded'')
                  | Some j \<Rightarrow>
                      if \<not> accepts_observation p j
                      then Inl (OperationTransitionError
                             ''agent session identity or sequence is stale'')
                      else Inr ())))"

definition validate_operation_transitions ::
  "job_operations \<Rightarrow> job_operations \<Rightarrow> job_error + unit" where
  "validate_operation_transitions before after =
     rbind (operation_gate ''checkout'' co_spec checkout_replaced check_checkout
              (jo_checkout before) (jo_checkout after)) (\<lambda>_.
     rbind (operation_gate ''fork'' fo_spec fork_replaced check_fork
              (jo_fork before) (jo_fork after)) (\<lambda>_.
     rbind (operation_gate ''agent session'' ao_spec (session_replaced (jo_owners after))
              (check_session before after) (jo_session before) (jo_session after)) (\<lambda>_.
     operation_gate ''participant pane'' po_spec pane_replaced check_pane
              (jo_pane before) (jo_pane after))))"

section \<open>What the gate lets through\<close>

lemma operation_gate_iff [result_simps]:
  "operation_gate name spec replaced check previous current = Inr u \<longleftrightarrow>
     (case previous of
        None \<Rightarrow> True
      | Some p \<Rightarrow>
          (case current of
             None \<Rightarrow> name = ''participant pane''
           | Some c \<Rightarrow> if spec p \<noteq> spec c then replaced p c else check p c = Inr ()))"
  by (auto simp: operation_gate_def result_simps split: option.splits)

lemma check_fork_iff [result_simps]:
  "check_fork p c = Inr u \<longleftrightarrow> collapsed_edge (fo_state p) (fo_state c)"
  by (auto simp: check_fork_def result_simps collapsed_edge_def)

lemma check_checkout_edge:
  "check_checkout p c = Inr u \<Longrightarrow>
   co_state c = co_state p \<or> co_state c \<in> checkout_transitions (co_state p)"
  by (auto simp: check_checkout_def result_simps split: if_splits)

lemma check_session_kept:
  assumes "check_session before after p c = Inr u" and "ao_session p = Some i"
    and "\<not> legacy_agent_materialized before after p c"
  shows "\<exists>j. ao_session c = Some j \<and> accepts_observation p j"
  using assms by (auto simp: check_session_def result_simps split: if_splits option.splits)

lemma validate_operation_transitions_iff:
  "validate_operation_transitions before after = Inr u \<longleftrightarrow>
     operation_gate ''checkout'' co_spec checkout_replaced check_checkout
       (jo_checkout before) (jo_checkout after) = Inr () \<and>
     operation_gate ''fork'' fo_spec fork_replaced check_fork
       (jo_fork before) (jo_fork after) = Inr () \<and>
     operation_gate ''agent session'' ao_spec (session_replaced (jo_owners after))
       (check_session before after) (jo_session before) (jo_session after) = Inr () \<and>
     operation_gate ''participant pane'' po_spec pane_replaced check_pane
       (jo_pane before) (jo_pane after) = Inr ()"
  by (simp add: validate_operation_transitions_def rbind_Inr_iff)

text \<open>A history of updates, every one of which passed the gate.\<close>

definition gated_history :: "job_operations list \<Rightarrow> bool" where
  "gated_history h \<longleftrightarrow> successively (\<lambda>b a. validate_operation_transitions b a = Inr ()) h"

lemmas gated_history_invariant = successively_invariant [where
  R = "\<lambda>b a. validate_operation_transitions b a = Inr ()", folded gated_history_def]

lemma gated_fork_step:
  assumes "validate_operation_transitions x y = Inr ()" and "jo_fork x = Some f"
    and "\<not> is_part LEGACY_BOOT_ID (fork_spec_repr (fo_spec f))"
  shows "\<exists>g. jo_fork y = Some g \<and> fo_spec g = fo_spec f \<and> fo_state g \<le> fo_state f"
  using assms
  by (auto simp: validate_operation_transitions_iff operation_gate_iff check_fork_iff fork_replaced_def
      split: option.splits if_splits dest: collapsed_edge_rank)

lemma gated_checkout_step:
  assumes "validate_operation_transitions x y = Inr ()" and "jo_checkout x = Some c"
    and "\<not> is_part LEGACY_BOOT_ID (checkout_spec_repr (co_spec c))"
  shows "\<exists>d. jo_checkout y = Some d \<and> co_spec d = co_spec c
    \<and> (co_state d = co_state c \<or> co_state d \<in> checkout_transitions (co_state c))"
  using assms
  by (auto simp: validate_operation_transitions_iff operation_gate_iff checkout_replaced_def
      split: option.splits if_splits dest: check_checkout_edge)

text \<open>
  Through any history of gated updates a fork that carries no placeholder of an older
  record is never lost, retargeted or restarted: its spec stays the same and its state only
  advances; in particular a failed fork stays failed.
\<close>

theorem gated_fork_never_restarts:
  assumes "gated_history (b # h)" and "jo_fork b = Some f"
    and "\<not> is_part LEGACY_BOOT_ID (fork_spec_repr (fo_spec f))"
  shows "\<exists>g. jo_fork (last (b # h)) = Some g \<and> fo_spec g = fo_spec f \<and> fo_state g \<le> fo_state f"
  by (rule gated_history_invariant [OF assms(1)])
     (use assms(2,3) gated_fork_step in \<open>force, fastforce\<close>)

text \<open>
  The same for the checkout, on its finer states: through any history of gated updates the
  repository, branch and path stay the same, a dispatched checkout is not planned or dispatched
  again, and a confirmed absence is final.
\<close>

theorem gated_checkout_keeps_identity:
  assumes "gated_history (b # h)" and "jo_checkout b = Some c"
    and "\<not> is_part LEGACY_BOOT_ID (checkout_spec_repr (co_spec c))"
  shows "\<exists>d. jo_checkout (last (b # h)) = Some d \<and> co_spec d = co_spec c
    \<and> (co_state c \<noteq> CsPlanned \<longrightarrow> co_state d \<noteq> CsPlanned)
    \<and> (co_state c \<notin> {CsPlanned, CsDispatching} \<longrightarrow> co_state d \<notin> {CsPlanned, CsDispatching})
    \<and> (co_state c = CsConfirmedAbsent \<longrightarrow> co_state d = CsConfirmedAbsent)"
proof -
  let ?E = "{(s, t). t \<in> checkout_transitions s}"
  have "\<exists>d. jo_checkout (last (b # h)) = Some d \<and> co_spec d = co_spec c
      \<and> (co_state c, co_state d) \<in> ?E\<^sup>*"
    by (rule gated_history_invariant [OF assms(1)])
       (use assms(2,3) gated_checkout_step in
          \<open>force, fastforce intro: rtrancl_into_rtrancl\<close>)
  then obtain d where d: "jo_checkout (last (b # h)) = Some d" "co_spec d = co_spec c"
    and path: "(co_state c, co_state d) \<in> ?E\<^sup>*" by blast
  have closed: "t \<in> S" if "(s, t) \<in> ?E\<^sup>*" "s \<in> S" "\<And>u. u \<in> S \<Longrightarrow> checkout_transitions u \<subseteq> S" for s t S
    using that by (induction rule: rtrancl_induct) auto
  have "co_state c \<noteq> CsPlanned \<longrightarrow> co_state d \<in> - {CsPlanned}"
    by (intro impI closed [OF path]) (simp, case_tac u, auto)
  moreover have "co_state c \<notin> {CsPlanned, CsDispatching} \<longrightarrow>
      co_state d \<in> - {CsPlanned, CsDispatching}"
    by (intro impI closed [OF path]) (simp, case_tac u, auto)
  moreover have "co_state c = CsConfirmedAbsent \<longrightarrow> co_state d \<in> {CsConfirmedAbsent}"
    by (intro impI closed [OF path]) auto
  ultimately show ?thesis using d by auto
qed

text \<open>
  C31. A session is fenced by its identity and sequence: in a history of gated updates of
  current records that keeps the session's spec, a known provider session stays known, with the
  same provider, session ID and target, and its state sequence never decreases.
\<close>

theorem gated_session_is_monotone:
  assumes "gated_history (b # h)"
    and "jo_session b = Some a" and "ao_session a = Some i"
    and "\<forall>x \<in> set (b # h). CURRENT_SCHEMA_VERSION \<le> jo_loaded_version x
           \<and> (\<forall>a'. jo_session x = Some a' \<longrightarrow> ao_spec a' = ao_spec a)"
  shows "\<exists>a' j. jo_session (last (b # h)) = Some a' \<and> ao_session a' = Some j
    \<and> si_provider j = si_provider i \<and> si_session_id j = si_session_id i
    \<and> si_target j = si_target i \<and> si_state_sequence i \<le> si_state_sequence j"
proof (rule gated_history_invariant [OF assms(1)])
  show "\<exists>a' j. jo_session b = Some a' \<and> ao_session a' = Some j
    \<and> si_provider j = si_provider i \<and> si_session_id j = si_session_id i
    \<and> si_target j = si_target i \<and> si_state_sequence i \<le> si_state_sequence j"
    using assms(2,3) by simp
next
  fix x y
  assume in_h: "x \<in> set (b # h)" "y \<in> set h"
    and "\<exists>a' j. jo_session x = Some a' \<and> ao_session a' = Some j
      \<and> si_provider j = si_provider i \<and> si_session_id j = si_session_id i
      \<and> si_target j = si_target i \<and> si_state_sequence i \<le> si_state_sequence j"
    and gate: "validate_operation_transitions x y = Inr ()"
  then obtain p j where p: "jo_session x = Some p" "ao_session p = Some j"
    and j: "si_provider j = si_provider i" "si_session_id j = si_session_id i"
      "si_target j = si_target i" "si_state_sequence i \<le> si_state_sequence j" by blast
  from gate p(1) obtain c where c: "jo_session y = Some c"
    by (auto simp: validate_operation_transitions_iff operation_gate_iff split: option.splits)
  have "ao_spec p = ao_spec a" using bspec [OF assms(4) in_h(1)] p(1) by blast
  moreover have "ao_spec c = ao_spec a" using assms(4) in_h(2) c by simp
  ultimately have "ao_spec p = ao_spec c" by simp
  with gate p(1) c have "check_session x y p c = Inr ()"
    by (simp add: validate_operation_transitions_iff operation_gate_iff)
  moreover have "\<not> legacy_agent_materialized x y p c"
    using bspec [OF assms(4) in_h(1)] unfolding legacy_agent_materialized_def by linarith
  ultimately obtain k where "ao_session c = Some k" "accepts_observation p k"
    using check_session_kept [OF _ p(2)] by blast
  with c p(2) j show "\<exists>a' j. jo_session y = Some a' \<and> ao_session a' = Some j
      \<and> si_provider j = si_provider i \<and> si_session_id j = si_session_id i
      \<and> si_target j = si_target i \<and> si_state_sequence i \<le> si_state_sequence j"
    by (auto simp: accepts_observation_def session_accepts_def)
qed

text \<open>
  Records older than the current schema are always readable, and never trusted beyond their
  evidence: when state, repository, branch and path are stored, reading the checkout succeeds
  with the stored spec, and the result is settled only if both identifiers are present and no
  part of the spec is the placeholder of a migration; a checkout written by this version is read
  back as it was.
\<close>

theorem old_checkout_is_readable:
  assumes "worktree_provision_state r = Some (checkout_state_value s)"
    and "row_repository r = Some repo" and "worktree_branch r = Some branch"
    and "worktree_path r = Some path" and "repo \<noteq> []" and "branch \<noteq> []" and "path \<noteq> []"
    and "v < CURRENT_SCHEMA_VERSION"
  shows "\<exists>c. typed_checkout_operation r v = Inr (Some c)
    \<and> co_spec c = \<lparr>sp_repository = repo, sp_branch = branch, sp_path = path\<rparr>
    \<and> co_state c = (if s \<in> settled_checkout_states
          \<and> (\<not> otruthy (worktree_workspace_id r) \<or> \<not> otruthy (worktree_root_pane_id r)
             \<or> LEGACY_BOOT_ID \<in> {repo, branch, path})
        then CsAmbiguous else s)
    \<and> typed_checkout_operation (checkout_fields c) CURRENT_SCHEMA_VERSION = Inr (Some c)"
proof -
  have settled: "t \<in> settled_checkout_states \<longleftrightarrow> t \<in> {CsReady, CsRetained}" for t
    by (simp add: settled_checkout_states_def)
  have amb: "CsAmbiguous \<notin> settled_checkout_states" by (simp add: settled_checkout_states_def)
  let ?un = "otruthy (worktree_workspace_id r) \<noteq> otruthy (worktree_root_pane_id r)"
  let ?st = "if s \<in> settled_checkout_states
          \<and> (\<not> otruthy (worktree_workspace_id r) \<or> \<not> otruthy (worktree_root_pane_id r)
             \<or> LEGACY_BOOT_ID \<in> {repo, branch, path})
        then CsAmbiguous else s"
  let ?c = "\<lparr>co_state = ?st,
     co_spec = \<lparr>sp_repository = repo, sp_branch = branch, sp_path = path\<rparr>,
     co_workspace_id = (if ?un then None else worktree_workspace_id r),
     co_root_pane_id = (if ?un then None else worktree_root_pane_id r)\<rparr>"
  have init: "CheckoutOperation_init ?st (co_spec ?c) (co_workspace_id ?c) (co_root_pane_id ?c) = Inr ?c"
    unfolding CheckoutOperation_init_iff using amb by (auto simp: paired_def)
  have ok: "checkout_ok ?c"
    using init assms(5-7) by (simp add: CheckoutOperation_init_iff checkout_ok_def)
  have "typed_checkout_operation r v = Inr (Some ?c)"
    using assms init
    by (simp add: typed_checkout_operation_def Let_def load_checkout_operation_def
        CheckoutSpec_init_def required_def settled insert_commute cong: if_cong)
  moreover have "typed_checkout_operation (checkout_fields ?c) CURRENT_SCHEMA_VERSION = Inr (Some ?c)"
    using load_checkout_fields [OF ok]
    by (simp add: typed_checkout_operation_def Let_def checkout_fields_def)
  ultimately show ?thesis by (intro exI [of _ ?c]) simp
qed

section \<open>Witnesses\<close>

definition empty_operations :: job_operations where
  "empty_operations = \<lparr>jo_checkout = None, jo_fork = None, jo_session = None, jo_pane = None,
     jo_owners = [], jo_loaded_version = 18, jo_dispatch_state = None\<rparr>"

definition active_fork :: fork_operation where
  "active_fork = demo_fork\<lparr>fo_state := OpActive\<rparr>"

lemma gated_fork_never_restarts_witness:
  "\<exists>g. jo_fork (last [empty_operations\<lparr>jo_fork := Some demo_fork\<rparr>,
                      empty_operations\<lparr>jo_fork := Some active_fork\<rparr>]) = Some g
     \<and> fo_spec g = fo_spec demo_fork \<and> fo_state g \<le> OpPlanned"
proof -
  have h: "gated_history [empty_operations\<lparr>jo_fork := Some demo_fork\<rparr>,
      empty_operations\<lparr>jo_fork := Some active_fork\<rparr>]"
    by (simp add: gated_history_def validate_operation_transitions_iff operation_gate_iff
        empty_operations_def active_fork_def demo_fork_def check_fork_iff collapsed_edge_def)
  have n: "\<not> is_part LEGACY_BOOT_ID (fork_spec_repr (fo_spec demo_fork))"
    by code_simp
  from gated_fork_never_restarts [OF h _ n] show ?thesis
    by (simp add: demo_fork_def)
qed

definition demo_checkout :: "checkout_state \<Rightarrow> checkout_operation" where
  "demo_checkout st = \<lparr>co_state = st,
     co_spec = \<lparr>sp_repository = ''o/r'', sp_branch = ''b'', sp_path = ''/w''\<rparr>,
     co_workspace_id = Some ''w1'', co_root_pane_id = Some ''p1''\<rparr>"

lemma gated_checkout_keeps_identity_witness:
  "\<exists>d. jo_checkout (last [empty_operations\<lparr>jo_checkout := Some (demo_checkout CsDispatching)\<rparr>,
                          empty_operations\<lparr>jo_checkout := Some (demo_checkout CsReady)\<rparr>]) = Some d
     \<and> co_spec d = co_spec (demo_checkout CsDispatching) \<and> co_state d \<noteq> CsPlanned"
proof -
  have h: "gated_history [empty_operations\<lparr>jo_checkout := Some (demo_checkout CsDispatching)\<rparr>,
      empty_operations\<lparr>jo_checkout := Some (demo_checkout CsReady)\<rparr>]"
    by (simp add: gated_history_def validate_operation_transitions_iff operation_gate_iff
        empty_operations_def demo_checkout_def check_checkout_def checkout_transition_def
        CheckoutOperation_init_def)
  have n: "\<not> is_part LEGACY_BOOT_ID (checkout_spec_repr (co_spec (demo_checkout CsDispatching)))"
    by code_simp
  have st: "co_state (demo_checkout CsDispatching) = CsDispatching" by (simp add: demo_checkout_def)
  from gated_checkout_keeps_identity [OF h _ n] st show ?thesis by auto
qed

definition demo_session :: "int \<Rightarrow> session_operation" where
  "demo_session sq = \<lparr>ao_state = SsReady,
     ao_spec = \<lparr>as_target = ''t'', as_checkout = ''/w'', as_workspace_id = ''w1'',
                as_pane_id = ''p1''\<rparr>,
     ao_session = Some \<lparr>si_provider = ''cursor'', si_session_id = ''s'', si_target = ''t'',
                        si_state_sequence = sq\<rparr>\<rparr>"

lemma gated_session_is_monotone_witness:
  "gated_history [empty_operations\<lparr>jo_session := Some (demo_session 3)\<rparr>,
                  empty_operations\<lparr>jo_session := Some (demo_session 7)\<rparr>]
   \<and> (\<exists>a' j. Some (demo_session 7) = Some a' \<and> ao_session a' = Some j
        \<and> si_state_sequence j \<ge> 3)"
proof -
  have h: "gated_history [empty_operations\<lparr>jo_session := Some (demo_session 3)\<rparr>,
      empty_operations\<lparr>jo_session := Some (demo_session 7)\<rparr>]"
    by (simp add: gated_history_def validate_operation_transitions_iff operation_gate_iff
        empty_operations_def demo_session_def check_session_def accepts_observation_def
        session_accepts_def)
  have all: "\<forall>x \<in> set [empty_operations\<lparr>jo_session := Some (demo_session 3)\<rparr>,
      empty_operations\<lparr>jo_session := Some (demo_session 7)\<rparr>].
      CURRENT_SCHEMA_VERSION \<le> jo_loaded_version x
      \<and> (\<forall>a'. jo_session x = Some a' \<longrightarrow> ao_spec a' = ao_spec (demo_session 3))"
    by (simp add: empty_operations_def CURRENT_SCHEMA_VERSION_def demo_session_def)
  obtain i where i: "ao_session (demo_session 3) = Some i" "si_state_sequence i = 3"
    by (simp add: demo_session_def)
  from gated_session_is_monotone [OF h _ i(1) all] i(2) h show ?thesis by auto
qed

lemma old_checkout_is_readable_witness:
  "\<exists>c. typed_checkout_operation
          \<lparr>worktree_provision_state = Some (checkout_state_value CsReady),
           row_repository = Some ''o/r'', worktree_branch = Some ''b'', worktree_path = Some ''/w'',
           worktree_workspace_id = Some ''w1'', worktree_root_pane_id = None\<rparr> 12 = Inr (Some c)
     \<and> co_state c = CsAmbiguous"
  using old_checkout_is_readable [of
      "\<lparr>worktree_provision_state = Some (checkout_state_value CsReady),
        row_repository = Some ''o/r'', worktree_branch = Some ''b'', worktree_path = Some ''/w'',
        worktree_workspace_id = Some ''w1'', worktree_root_pane_id = None\<rparr>"
      CsReady "''o/r''" "''b''" "''/w''" 12]
  by (auto simp: CURRENT_SCHEMA_VERSION_def settled_checkout_states_def)

end
