(* ===== verification/Prompt_Operations.thy ===== *)
theory Prompt_Operations imports Interfaces begin

text \<open>
  \<open>prompt_operations.py\<close>: the durable state machine of one prompt (planned, submitting,
  submitted, observed, ambiguous, resolved) behind an identity fence, and the two functions of
  \<open>cursor/model.py\<close> that read it from and write it to a job's columns.
\<close>

datatype prompt_error = PromptOperationError string

section \<open>Identity and operation\<close>

record prompt_identity =
  pi_job_id :: string
  pi_phase :: string
  pi_turn :: int
  pi_turn_token :: string
  pi_target :: string
  pi_agent_session :: string
  pi_baseline_sequence :: int

definition PromptIdentity_init ::
  "string \<Rightarrow> string \<Rightarrow> int \<Rightarrow> string \<Rightarrow> string \<Rightarrow> string \<Rightarrow> int \<Rightarrow> prompt_error + prompt_identity" where
  "PromptIdentity_init job_id phase turn turn_token target agent_session baseline =
     (if \<not> list_all (\<lambda>v. \<not> blank v) [job_id, phase, turn_token, target, agent_session]
      then Inl (PromptOperationError ''prompt identity fields must not be empty'')
      else if turn \<le> 0
      then Inl (PromptOperationError ''prompt turn must be positive'')
      else if baseline < 0
      then Inl (PromptOperationError ''prompt baseline sequence must not be negative'')
      else Inr \<lparr>pi_job_id = job_id, pi_phase = phase, pi_turn = turn, pi_turn_token = turn_token,
                pi_target = target, pi_agent_session = agent_session,
                pi_baseline_sequence = baseline\<rparr>)"

datatype prompt_operation =
    IdlePrompt
  | PlannedPrompt prompt_identity
  | SubmittingPrompt prompt_identity
  | SubmittedPrompt prompt_identity
  | ObservedPrompt prompt_identity
  | AmbiguousPrompt prompt_identity
  | ResolvedPrompt prompt_identity

fun prompt_operation_identity :: "prompt_operation \<Rightarrow> prompt_identity option" where
  "prompt_operation_identity IdlePrompt = None"
| "prompt_operation_identity (PlannedPrompt i) = Some i"
| "prompt_operation_identity (SubmittingPrompt i) = Some i"
| "prompt_operation_identity (SubmittedPrompt i) = Some i"
| "prompt_operation_identity (ObservedPrompt i) = Some i"
| "prompt_operation_identity (AmbiguousPrompt i) = Some i"
| "prompt_operation_identity (ResolvedPrompt i) = Some i"

datatype prompt_state =
  PsIdle | PsPlanned | PsSubmitting | PsSubmitted | PsObserved | PsAmbiguous | PsResolved

fun prompt_state_value :: "prompt_state \<Rightarrow> string" where
  "prompt_state_value PsIdle = ''none''"
| "prompt_state_value PsPlanned = ''planned''"
| "prompt_state_value PsSubmitting = ''submitting''"
| "prompt_state_value PsSubmitted = ''submitted''"
| "prompt_state_value PsObserved = ''observed''"
| "prompt_state_value PsAmbiguous = ''ambiguous''"
| "prompt_state_value PsResolved = ''resolved''"

definition parse_prompt_state :: "string \<Rightarrow> prompt_state option" where
  "parse_prompt_state s =
     (if s = ''none'' then Some PsIdle
      else if s = ''planned'' then Some PsPlanned
      else if s = ''submitting'' then Some PsSubmitting
      else if s = ''submitted'' then Some PsSubmitted
      else if s = ''observed'' then Some PsObserved
      else if s = ''ambiguous'' then Some PsAmbiguous
      else if s = ''resolved'' then Some PsResolved
      else None)"

fun prompt_operation_state :: "prompt_operation \<Rightarrow> prompt_state" where
  "prompt_operation_state IdlePrompt = PsIdle"
| "prompt_operation_state (PlannedPrompt _) = PsPlanned"
| "prompt_operation_state (SubmittingPrompt _) = PsSubmitting"
| "prompt_operation_state (SubmittedPrompt _) = PsSubmitted"
| "prompt_operation_state (ObservedPrompt _) = PsObserved"
| "prompt_operation_state (AmbiguousPrompt _) = PsAmbiguous"
| "prompt_operation_state (ResolvedPrompt _) = PsResolved"

text \<open>The table \<open>constructors\<close> of the loader.\<close>

fun prompt_constructor :: "prompt_state \<Rightarrow> prompt_identity \<Rightarrow> prompt_operation" where
  "prompt_constructor PsIdle i = IdlePrompt"
| "prompt_constructor PsPlanned i = PlannedPrompt i"
| "prompt_constructor PsSubmitting i = SubmittingPrompt i"
| "prompt_constructor PsSubmitted i = SubmittedPrompt i"
| "prompt_constructor PsObserved i = ObservedPrompt i"
| "prompt_constructor PsAmbiguous i = AmbiguousPrompt i"
| "prompt_constructor PsResolved i = ResolvedPrompt i"

definition load_prompt_operation ::
  "string \<Rightarrow> string \<Rightarrow> string option \<Rightarrow> int \<Rightarrow> string option \<Rightarrow> string option \<Rightarrow> string option \<Rightarrow>
   int option \<Rightarrow> prompt_error + prompt_operation" where
  "load_prompt_operation st job_id phase turn turn_token target agent_session baseline =
     (case parse_prompt_state st of
        None \<Rightarrow> Inl (PromptOperationError (''invalid prompt operation state '' @ py_repr st))
      | Some parsed \<Rightarrow>
          if parsed = PsIdle then Inr IdlePrompt
          else rbind (PromptIdentity_init job_id (or_str phase '''') turn (or_str turn_token '''')
                        (or_str target '''') (or_str agent_session '''')
                        (case baseline of None \<Rightarrow> - 1 | Some b \<Rightarrow> b))
                 (\<lambda>i. Inr (prompt_constructor parsed i)))"

record prompt_fields =
  prompt_operation_state_field :: string
  prompt_operation_phase :: "string option"
  prompt_operation_turn :: "int option"
  prompt_operation_target :: "string option"
  prompt_operation_agent_session :: "string option"
  prompt_baseline_sequence :: "int option"

definition legacy_prompt_fields :: "prompt_operation \<Rightarrow> prompt_fields" where
  "legacy_prompt_fields p =
     (case prompt_operation_identity p of
        None \<Rightarrow>
          \<lparr>prompt_operation_state_field = ''none'', prompt_operation_phase = None,
           prompt_operation_turn = None, prompt_operation_target = None,
           prompt_operation_agent_session = None, prompt_baseline_sequence = None\<rparr>
      | Some i \<Rightarrow>
          \<lparr>prompt_operation_state_field = prompt_state_value (prompt_operation_state p),
           prompt_operation_phase = Some (pi_phase i), prompt_operation_turn = Some (pi_turn i),
           prompt_operation_target = Some (pi_target i),
           prompt_operation_agent_session = Some (pi_agent_session i),
           prompt_baseline_sequence = Some (pi_baseline_sequence i)\<rparr>)"

section \<open>Transitions\<close>

definition require_identity :: "prompt_operation \<Rightarrow> prompt_identity \<Rightarrow> prompt_error + unit" where
  "require_identity p i =
     (if prompt_operation_identity p \<noteq> Some i
      then Inl (PromptOperationError ''stale prompt operation identity'') else Inr ())"

definition plan_prompt ::
  "prompt_operation \<Rightarrow> prompt_identity \<Rightarrow> prompt_error + prompt_operation" where
  "plan_prompt p i =
     (if p \<noteq> IdlePrompt
      then Inl (PromptOperationError ''only an idle prompt operation can be planned'')
      else Inr (PlannedPrompt i))"

definition begin_prompt_submission ::
  "prompt_operation \<Rightarrow> prompt_identity \<Rightarrow> prompt_error + prompt_operation" where
  "begin_prompt_submission p i =
     (if prompt_operation_state p \<noteq> PsPlanned
      then Inl (PromptOperationError ''only a planned prompt can begin submission'')
      else rbind (require_identity p i) (\<lambda>_. Inr (SubmittingPrompt i)))"

definition accept_prompt_submission ::
  "prompt_operation \<Rightarrow> prompt_identity \<Rightarrow> prompt_error + prompt_operation" where
  "accept_prompt_submission p i =
     (if prompt_operation_state p \<noteq> PsSubmitting
      then Inl (PromptOperationError ''only a submitting prompt can be accepted'')
      else rbind (require_identity p i) (\<lambda>_. Inr (SubmittedPrompt i)))"

definition record_prompt_submitted ::
  "prompt_operation \<Rightarrow> prompt_identity \<Rightarrow> prompt_error + prompt_operation" where
  "record_prompt_submitted p i =
     (if prompt_operation_state p \<notin> {PsPlanned, PsSubmitting}
      then Inl (PromptOperationError
             ''only a planned or submitting prompt can record submission'')
      else rbind (require_identity p i) (\<lambda>_. Inr (SubmittedPrompt i)))"

definition observe_prompt_submission ::
  "prompt_operation \<Rightarrow> prompt_identity \<Rightarrow> string \<Rightarrow> string option \<Rightarrow> int \<Rightarrow> bool \<Rightarrow> string option \<Rightarrow>
   prompt_error + prompt_operation" where
  "observe_prompt_submission p i target agent_session sequence trusted provenance =
     (if prompt_operation_state p \<noteq> PsSubmitting
      then Inl (PromptOperationError ''only a submitting prompt can be observed'')
      else rbind (require_identity p i)
        (\<lambda>_. let provenance_accepted = (provenance = Some ''harness'') in
             if target = pi_target i \<and> agent_session = Some (pi_agent_session i)
                \<and> sequence > pi_baseline_sequence i \<and> (trusted \<or> provenance_accepted)
             then Inr (SubmittedPrompt i) else Inr (AmbiguousPrompt i)))"

definition observe_accepted_prompt ::
  "prompt_operation \<Rightarrow> prompt_identity \<Rightarrow> prompt_error + prompt_operation" where
  "observe_accepted_prompt p i =
     (if prompt_operation_state p \<noteq> PsSubmitted
      then Inl (PromptOperationError ''only a submitted prompt can be observed'')
      else rbind (require_identity p i) (\<lambda>_. Inr (ObservedPrompt i)))"

definition resolve_prompt ::
  "prompt_operation \<Rightarrow> prompt_identity \<Rightarrow> prompt_error + prompt_operation" where
  "resolve_prompt p i =
     (if prompt_operation_state p \<notin> {PsPlanned, PsSubmitted, PsObserved}
      then Inl (PromptOperationError
             ''only a planned, submitted, or observed prompt can resolve'')
      else rbind (require_identity p i) (\<lambda>_. Inr (ResolvedPrompt i)))"

definition replan_unobserved_prompt ::
  "prompt_operation \<Rightarrow> prompt_identity \<Rightarrow> prompt_error + prompt_operation" where
  "replan_unobserved_prompt p i =
     (if prompt_operation_state p \<noteq> PsSubmitted
      then Inl (PromptOperationError ''only an unobserved submitted prompt can be replanned'')
      else rbind (require_identity p i) (\<lambda>_. Inr (PlannedPrompt i)))"

definition mark_prompt_ambiguous ::
  "prompt_operation \<Rightarrow> prompt_identity \<Rightarrow> prompt_error + prompt_operation" where
  "mark_prompt_ambiguous p i =
     (if prompt_operation_state p \<notin> {PsPlanned, PsSubmitting, PsSubmitted, PsObserved}
      then Inl (PromptOperationError ''prompt operation cannot become ambiguous'')
      else rbind (require_identity p i) (\<lambda>_. Inr (AmbiguousPrompt i)))"

section \<open>The columns of a job\<close>

text \<open>
  A job keeps the turn and the turn token next to the six prompt columns:
  \<open>_consume_typed_prompt_operation\<close> writes an operation into a change set and
  \<open>_typed_prompt_operation\<close> reads the columns, making up the token of a positive turn.
\<close>

record prompt_row =
  pr_turn :: "int option"
  pr_turn_token :: "string option"
  pr_fields :: prompt_fields

definition consume_typed_prompt_operation ::
  "prompt_row \<Rightarrow> prompt_operation option \<Rightarrow> string \<Rightarrow> job_error + prompt_row" where
  "consume_typed_prompt_operation r oper job_id =
     (case oper of
        None \<Rightarrow> Inr r
      | Some p \<Rightarrow>
          (case prompt_operation_identity p of
             None \<Rightarrow> Inr (r\<lparr>pr_fields := legacy_prompt_fields p\<rparr>)
           | Some i \<Rightarrow>
               if pi_job_id i \<noteq> job_id
               then Inl (JobValidationError ''prompt operation does not belong to this job'')
               else Inr (r\<lparr>pr_turn := Some (pi_turn i), pr_turn_token := Some (pi_turn_token i),
                         pr_fields := legacy_prompt_fields p\<rparr>)))"

definition typed_prompt_operation :: "prompt_row \<Rightarrow> string \<Rightarrow> job_error + prompt_operation" where
  "typed_prompt_operation r job_id =
     (let f = pr_fields r;
          turn = (case prompt_operation_turn f of None \<Rightarrow> 0 | Some t \<Rightarrow> t);
          st = (if prompt_operation_state_field f = [] then ''none''
                else prompt_operation_state_field f)
      in case load_prompt_operation st job_id (prompt_operation_phase f) turn
                (case pr_turn_token r of
                   Some t \<Rightarrow> Some t
                 | None \<Rightarrow> if turn > 0 then Some (job_id @ ''-'' @ show_int turn) else None)
                (prompt_operation_target f) (prompt_operation_agent_session f)
                (prompt_baseline_sequence f) of
           Inr p \<Rightarrow> Inr p
         | Inl (PromptOperationError m) \<Rightarrow>
             if st = ''none'' then Inr IdlePrompt else Inl (JobValidationError m))"

end
