(* ===== verification/Prompt_Machine.thy ===== *)
theory Prompt_Machine imports Prompt_Operations begin

text \<open>
  The functions of \<open>prompt_operations.py\<close> as one machine: the identity fence, the submit fence
  that is crossed once per plan, the fail-closed observation of a submission, and the round trip
  through the job's columns.
\<close>

section \<open>The operations as one machine\<close>

datatype prompt_op =
    PlanPrompt prompt_identity
  | BeginSubmission prompt_identity
  | AcceptSubmission prompt_identity
  | RecordSubmitted prompt_identity
  | ObserveSubmission prompt_identity string "string option" int bool "string option"
  | ObserveAccepted prompt_identity
  | ResolvePrompt prompt_identity
  | ReplanUnobserved prompt_identity
  | MarkAmbiguous prompt_identity

fun prompt_step :: "prompt_operation \<Rightarrow> prompt_op \<Rightarrow> prompt_error + prompt_operation" where
  "prompt_step p (PlanPrompt i) = plan_prompt p i"
| "prompt_step p (BeginSubmission i) = begin_prompt_submission p i"
| "prompt_step p (AcceptSubmission i) = accept_prompt_submission p i"
| "prompt_step p (RecordSubmitted i) = record_prompt_submitted p i"
| "prompt_step p (ObserveSubmission i target sess sq trusted prov) =
     observe_prompt_submission p i target sess sq trusted prov"
| "prompt_step p (ObserveAccepted i) = observe_accepted_prompt p i"
| "prompt_step p (ResolvePrompt i) = resolve_prompt p i"
| "prompt_step p (ReplanUnobserved i) = replan_unobserved_prompt p i"
| "prompt_step p (MarkAmbiguous i) = mark_prompt_ambiguous p i"

fun prompt_edges :: "prompt_state \<Rightarrow> prompt_state set" where
  "prompt_edges PsIdle = {PsPlanned}"
| "prompt_edges PsPlanned = {PsSubmitting, PsSubmitted, PsResolved, PsAmbiguous}"
| "prompt_edges PsSubmitting = {PsSubmitted, PsAmbiguous}"
| "prompt_edges PsSubmitted = {PsObserved, PsResolved, PsPlanned, PsAmbiguous}"
| "prompt_edges PsObserved = {PsResolved, PsAmbiguous}"
| "prompt_edges PsAmbiguous = {}"
| "prompt_edges PsResolved = {}"

fun op_identity :: "prompt_op \<Rightarrow> prompt_identity" where
  "op_identity (PlanPrompt i) = i"
| "op_identity (BeginSubmission i) = i"
| "op_identity (AcceptSubmission i) = i"
| "op_identity (RecordSubmitted i) = i"
| "op_identity (ObserveSubmission i _ _ _ _ _) = i"
| "op_identity (ObserveAccepted i) = i"
| "op_identity (ResolvePrompt i) = i"
| "op_identity (ReplanUnobserved i) = i"
| "op_identity (MarkAmbiguous i) = i"

lemmas prompt_transition_defs = plan_prompt_def begin_prompt_submission_def
  accept_prompt_submission_def record_prompt_submitted_def observe_prompt_submission_def
  observe_accepted_prompt_def resolve_prompt_def replan_unobserved_prompt_def
  mark_prompt_ambiguous_def

lemma require_identity_iff [result_simps]:
  "require_identity p i = Inr u \<longleftrightarrow> prompt_operation_identity p = Some i"
  by (simp add: require_identity_def)

lemma prompt_step_facts:
  assumes "prompt_step p a = Inr q"
  shows "prompt_operation_state q \<in> prompt_edges (prompt_operation_state p)"
    and "prompt_operation_identity q = Some (op_identity a)"
    and "p = IdlePrompt \<or> prompt_operation_identity p = Some (op_identity a)"
    and "p = IdlePrompt \<longleftrightarrow> (\<exists>i. a = PlanPrompt i)"
  using assms
  by (cases a; cases p;
      auto simp: prompt_transition_defs result_simps Let_def split: if_splits)+

interpretation prompt: guarded_machine prompt_operation_state prompt_edges prompt_step
  by unfold_locales (simp add: prompt_step_facts)

lemma prompt_state_idle [simp]: "prompt_operation_state p = PsIdle \<longleftrightarrow> p = IdlePrompt"
  by (cases p) simp_all

section \<open>The submit fence\<close>

text \<open>How often a run crosses the fence, from planned to submitting or submitted.\<close>

definition crosses_fence :: "prompt_operation \<Rightarrow> prompt_operation \<Rightarrow> bool" where
  "crosses_fence p q \<longleftrightarrow>
     prompt_operation_state p = PsPlanned \<and> prompt_operation_state q \<in> {PsSubmitting, PsSubmitted}"

fun crossings :: "prompt_operation \<Rightarrow> prompt_op list \<Rightarrow> nat" where
  "crossings p [] = 0"
| "crossings p (a # as) =
     (case prompt_step p a of
        Inl e \<Rightarrow> 0
      | Inr q \<Rightarrow> (if crosses_fence p q then 1 else 0) + crossings q as)"

fun is_replan :: "prompt_op \<Rightarrow> bool" where
  "is_replan (ReplanUnobserved i) = True"
| "is_replan _ = False"

fun fence_credit :: "prompt_state \<Rightarrow> nat" where
  "fence_credit PsIdle = 1"
| "fence_credit PsPlanned = 1"
| "fence_credit _ = 0"

lemma fence_credit_step:
  assumes "prompt_step p a = Inr q"
  shows "(if crosses_fence p q then 1 else 0) + fence_credit (prompt_operation_state q)
         \<le> (if is_replan a then 1 else 0) + fence_credit (prompt_operation_state p)"
  using assms
  by (cases a; cases p)
     (auto simp: prompt_transition_defs result_simps crosses_fence_def Let_def split: if_splits)

lemma crossings_bound:
  "crossings p as \<le> length (filter is_replan as) + fence_credit (prompt_operation_state p)"
proof (induction as arbitrary: p)
  case Nil
  then show ?case by simp
next
  case (Cons a as)
  show ?case
  proof (cases "prompt_step p a")
    case (Inl e)
    then show ?thesis by simp
  next
    case (Inr q)
    from fence_credit_step [OF Inr] Cons.IH [of q] Inr show ?thesis
      by (auto split: if_splits)
  qed
qed

section \<open>The columns\<close>

definition identity_ok :: "prompt_identity \<Rightarrow> bool" where
  "identity_ok i \<longleftrightarrow> PromptIdentity_init (pi_job_id i) (pi_phase i) (pi_turn i) (pi_turn_token i)
     (pi_target i) (pi_agent_session i) (pi_baseline_sequence i) = Inr i"

lemma PromptIdentity_init_iff [result_simps]:
  "PromptIdentity_init j p t k g s b = Inr i \<longleftrightarrow>
     \<not> blank j \<and> \<not> blank p \<and> \<not> blank k \<and> \<not> blank g \<and> \<not> blank s \<and> 0 < t \<and> 0 \<le> b \<and>
     i = \<lparr>pi_job_id = j, pi_phase = p, pi_turn = t, pi_turn_token = k, pi_target = g,
          pi_agent_session = s, pi_baseline_sequence = b\<rparr>"
  by (auto simp: PromptIdentity_init_def)

lemma parse_prompt_state_value [simp]: "parse_prompt_state (prompt_state_value s) = Some s"
  by (cases s) (simp_all add: parse_prompt_state_def)

lemma prompt_state_value_nonempty [simp]: "prompt_state_value s \<noteq> []"
  by (cases s) simp_all

lemma or_str_Some [simp]: "or_str (Some s) [] = s"
  by (cases "s = []") simp_all

lemma prompt_constructor_same:
  "prompt_operation_identity p = Some i \<Longrightarrow> prompt_constructor (prompt_operation_state p) i = p"
  by (cases p) simp_all

lemma typed_after_consume:
  assumes "consume_typed_prompt_operation r (Some p) job_id = Inr r'"
    and "\<forall>i. prompt_operation_identity p = Some i \<longrightarrow> identity_ok i"
  shows "typed_prompt_operation r' job_id = Inr p"
proof (cases "prompt_operation_identity p")
  case None
  then have "p = IdlePrompt" by (cases p) simp_all
  with assms(1) show ?thesis
    by (auto simp: consume_typed_prompt_operation_def legacy_prompt_fields_def
        typed_prompt_operation_def load_prompt_operation_def parse_prompt_state_def)
next
  case (Some i)
  have idle: "prompt_operation_state p \<noteq> PsIdle" using Some by (cases p) simp_all
  from Some assms(1) have job: "pi_job_id i = job_id"
    and r': "r' = r\<lparr>pr_turn := Some (pi_turn i), pr_turn_token := Some (pi_turn_token i),
                   pr_fields := legacy_prompt_fields p\<rparr>"
    by (auto simp: consume_typed_prompt_operation_def split: if_splits)
  from Some assms(2) have "identity_ok i" by simp
  with job idle prompt_constructor_same [OF Some] show ?thesis
    unfolding r'
    by (simp add: legacy_prompt_fields_def Some typed_prompt_operation_def
        load_prompt_operation_def identity_ok_def)
qed

section \<open>Properties\<close>

text \<open>
  The identity fence: once a prompt is planned, a run of operations that succeeds presents
  the prompt's own identity at every operation and leaves the identity as it is; an operation
  of another job, turn, token, target, session or baseline raises.
\<close>

theorem prompt_identity_fence:
  assumes "run_steps prompt_step p as = Inr q" and "prompt_operation_identity p = Some i"
  shows "(\<forall>a \<in> set as. op_identity a = i) \<and> prompt_operation_identity q = Some i"
  using assms
proof (induction as arbitrary: p)
  case Nil
  then show ?case by simp
next
  case (Cons a as)
  then obtain u where u: "prompt_step p a = Inr u" "run_steps prompt_step u as = Inr q"
    by (auto simp: result_simps)
  have "op_identity a = i" using prompt_step_facts(3) [OF u(1)] Cons.prems(2) by auto
  with Cons.IH [OF u(2)] prompt_step_facts(2) [OF u(1)] show ?case by simp
qed

text \<open>
  C32. A prompt is never replayed: whatever operations are tried, the submit fence is crossed
  at most once more than the prompt was replanned, and not at all beyond the replans when the
  prompt was submitted before; from observed, ambiguous or resolved on it is never crossed.
\<close>

theorem submit_fence_crossed_once:
  "crossings p as \<le> Suc (length (filter is_replan as))
   \<and> (prompt_operation_state p \<in> {PsSubmitting, PsSubmitted} \<longrightarrow>
        crossings p as \<le> length (filter is_replan as))
   \<and> (prompt_operation_state p \<in> {PsObserved, PsAmbiguous, PsResolved} \<longrightarrow> crossings p as = 0)"
proof (intro conjI impI)
  have "fence_credit (prompt_operation_state p) \<le> 1" by (cases "prompt_operation_state p") simp_all
  with crossings_bound [of p as] show "crossings p as \<le> Suc (length (filter is_replan as))"
    by simp
next
  assume "prompt_operation_state p \<in> {PsSubmitting, PsSubmitted}"
  with crossings_bound [of p as] show "crossings p as \<le> length (filter is_replan as)" by auto
next
  assume "prompt_operation_state p \<in> {PsObserved, PsAmbiguous, PsResolved}"
  then show "crossings p as = 0"
  proof (induction as arbitrary: p)
    case (Cons a as)
    show ?case
    proof (cases "prompt_step p a")
      case (Inr q)
      from prompt_step_facts(1) [OF Inr] Cons.prems
      have "prompt_operation_state q \<in> {PsObserved, PsAmbiguous, PsResolved}" by auto
      with Cons.IH [of q] Cons.prems Inr show ?thesis by (auto simp: crosses_fence_def)
    qed simp
  qed simp
qed

text \<open>
  Observing a submission fails closed: it is accepted exactly when target and session are
  the prompt's own, the sequence has advanced past the baseline, and the evidence is trusted or
  the input is known to be the harness's; otherwise the prompt becomes ambiguous, and no
  operation leads out of ambiguous again.
\<close>

theorem observation_fails_closed:
  assumes "observe_prompt_submission p i target sess sq trusted prov = Inr q"
  shows "(q = SubmittedPrompt i \<longleftrightarrow>
            target = pi_target i \<and> sess = Some (pi_agent_session i)
            \<and> pi_baseline_sequence i < sq \<and> (trusted \<or> prov = Some ''harness''))
       \<and> (q \<noteq> SubmittedPrompt i \<longrightarrow> q = AmbiguousPrompt i
            \<and> (\<forall>a. \<exists>e. prompt_step q a = Inl e))"
proof -
  have stuck: "\<exists>e. prompt_step (AmbiguousPrompt i) a = Inl e" for a
    using prompt_step_facts(1) [of "AmbiguousPrompt i" a]
    by (cases "prompt_step (AmbiguousPrompt i) a") auto
  from assms stuck show ?thesis
    by (auto simp: observe_prompt_submission_def result_simps Let_def split: if_splits)
qed

text \<open>
  The columns keep the operation: after any run of operations of one job with checked
  identities, the operation written to the job's columns is read back as it was, and an
  operation of another job is refused.
\<close>

theorem prompt_run_survives_columns:
  assumes "run_steps prompt_step IdlePrompt as = Inr q"
    and "\<forall>a \<in> set as. identity_ok (op_identity a)"
  shows "(\<forall>r' j. consume_typed_prompt_operation r (Some q) j = Inr r' \<longrightarrow>
            typed_prompt_operation r' j = Inr q)
       \<and> (\<forall>i. prompt_operation_identity q = Some i \<longrightarrow>
            (\<exists>r'. consume_typed_prompt_operation r (Some q) (pi_job_id i) = Inr r')
            \<and> (\<forall>j. j \<noteq> pi_job_id i \<longrightarrow>
                 (\<exists>e. consume_typed_prompt_operation r (Some q) j = Inl e)))"
proof (intro conjI allI impI)
  have ok: "\<forall>i. prompt_operation_identity q = Some i \<longrightarrow> identity_ok i"
  proof (rule run_steps_invariant [OF assms(1)])
    show "\<forall>i. prompt_operation_identity IdlePrompt = Some i \<longrightarrow> identity_ok i" by simp
  next
    fix s a s' assume "a \<in> set as" "prompt_step s a = Inr s'"
    with prompt_step_facts(2) [of s a s'] assms(2)
    show "\<forall>i. prompt_operation_identity s' = Some i \<longrightarrow> identity_ok i" by simp
  qed
  fix r' j assume "consume_typed_prompt_operation r (Some q) j = Inr r'"
  from typed_after_consume [OF this ok] show "typed_prompt_operation r' j = Inr q" .
qed (auto simp: consume_typed_prompt_operation_def)

section \<open>Witnesses\<close>

definition demo_identity :: prompt_identity where
  "demo_identity = \<lparr>pi_job_id = ''j'', pi_phase = ''plan'', pi_turn = 1, pi_turn_token = ''j-1'',
     pi_target = ''pane'', pi_agent_session = ''s'', pi_baseline_sequence = 4\<rparr>"

lemma demo_run:
  "run_steps prompt_step IdlePrompt
     [PlanPrompt demo_identity, BeginSubmission demo_identity,
      ObserveSubmission demo_identity ''pane'' (Some ''s'') 5 True None]
   = Inr (SubmittedPrompt demo_identity)"
  by (simp add: demo_identity_def prompt_transition_defs require_identity_def)

lemma prompt_identity_fence_witness:
  "run_steps prompt_step (PlannedPrompt demo_identity) [BeginSubmission demo_identity]
     = Inr (SubmittingPrompt demo_identity)
   \<and> op_identity (BeginSubmission demo_identity) = demo_identity"
proof -
  have r: "run_steps prompt_step (PlannedPrompt demo_identity) [BeginSubmission demo_identity]
     = Inr (SubmittingPrompt demo_identity)"
    by (simp add: prompt_transition_defs require_identity_def)
  from prompt_identity_fence [OF r, of demo_identity] r show ?thesis by simp
qed

lemma submit_fence_crossed_once_witness:
  "crossings IdlePrompt [PlanPrompt demo_identity, RecordSubmitted demo_identity,
      ReplanUnobserved demo_identity, RecordSubmitted demo_identity] = 2
   \<and> crossings (SubmittedPrompt demo_identity)
       [ReplanUnobserved demo_identity, RecordSubmitted demo_identity] \<le> 1"
proof -
  have c: "crossings IdlePrompt [PlanPrompt demo_identity, RecordSubmitted demo_identity,
      ReplanUnobserved demo_identity, RecordSubmitted demo_identity] = 2"
    by (simp add: prompt_transition_defs require_identity_def crosses_fence_def)
  from submit_fence_crossed_once [of "SubmittedPrompt demo_identity"
      "[ReplanUnobserved demo_identity, RecordSubmitted demo_identity]"]
  have "crossings (SubmittedPrompt demo_identity)
      [ReplanUnobserved demo_identity, RecordSubmitted demo_identity] \<le> 1"
    by (simp del: crossings.simps)
  with c show ?thesis by blast
qed

lemma observation_fails_closed_witness:
  "observe_prompt_submission (SubmittingPrompt demo_identity) demo_identity ''pane'' (Some ''s'')
     5 False None = Inr (AmbiguousPrompt demo_identity)
   \<and> (\<exists>e. prompt_step (AmbiguousPrompt demo_identity) (ReplanUnobserved demo_identity) = Inl e)"
proof -
  have h: "observe_prompt_submission (SubmittingPrompt demo_identity) demo_identity ''pane''
      (Some ''s'') 5 False None = Inr (AmbiguousPrompt demo_identity)"
    by (simp add: prompt_transition_defs require_identity_def)
  from observation_fails_closed [OF h] h show ?thesis by blast
qed

lemma prompt_run_survives_columns_witness:
  "\<exists>r'. consume_typed_prompt_operation
          \<lparr>pr_turn = None, pr_turn_token = None, pr_fields = legacy_prompt_fields IdlePrompt\<rparr>
          (Some (SubmittedPrompt demo_identity)) ''j'' = Inr r'
        \<and> typed_prompt_operation r' ''j'' = Inr (SubmittedPrompt demo_identity)"
proof -
  have ok: "identity_ok demo_identity"
    by (simp add: identity_ok_def demo_identity_def PromptIdentity_init_def blank_iff py_space_def)
  have j: "pi_job_id demo_identity = ''j''" by (simp add: demo_identity_def)
  have all: "\<forall>a \<in> set [PlanPrompt demo_identity, BeginSubmission demo_identity,
      ObserveSubmission demo_identity ''pane'' (Some ''s'') 5 True None].
      identity_ok (op_identity a)" using ok by simp
  note f = prompt_run_survives_columns [OF demo_run all,
      of "\<lparr>pr_turn = None, pr_turn_token = None, pr_fields = legacy_prompt_fields IdlePrompt\<rparr>"]
  from f [THEN conjunct2, THEN spec, of demo_identity] j f [THEN conjunct1]
  show ?thesis by auto
qed

end
