(* ===== verification/Workflow.thy ===== *)
theory Workflow imports Interfaces begin

text \<open>
  \<open>cursor/workflow.py\<close>: risk classification and phases, references to review artifacts, the
  review rounds, the plan approval gate, and the creation and admission of participants. Every
  class with a \<open>__post_init__\<close> check has its constructor \<open><Class>_init\<close>, which \<open>replace\<close> runs again.
\<close>

datatype workflow_error = WorkflowTransitionError string

section \<open>Enumerations and tables\<close>

datatype workflow_tier = TierSimple | TierMedium | TierHighRisk

fun workflow_tier_value :: "workflow_tier \<Rightarrow> string" where
  "workflow_tier_value TierSimple = ''simple''"
| "workflow_tier_value TierMedium = ''medium''"
| "workflow_tier_value TierHighRisk = ''high-risk''"

datatype workflow_phase =
  PhClassifying | PhPlanning | PhReviewing | PhRevising | PhImplementing | PhFinished

fun workflow_phase_value :: "workflow_phase \<Rightarrow> string" where
  "workflow_phase_value PhClassifying = ''classifying''"
| "workflow_phase_value PhPlanning = ''planning''"
| "workflow_phase_value PhReviewing = ''reviewing''"
| "workflow_phase_value PhRevising = ''revising''"
| "workflow_phase_value PhImplementing = ''implementing''"
| "workflow_phase_value PhFinished = ''finished''"

datatype workflow_participant = Planner | Reviewer | Implementer

datatype review_decision = DecApprove | DecRevise

datatype review_approval_source = ByReviewer | ByUser

datatype plan_approval_state =
  PaNone | PaBoundary | PaAwaiting | PaApproved | PaObserved | PaRejected

fun plan_approval_state_value :: "plan_approval_state \<Rightarrow> string" where
  "plan_approval_state_value PaNone = ''none''"
| "plan_approval_state_value PaBoundary = ''boundary''"
| "plan_approval_state_value PaAwaiting = ''awaiting''"
| "plan_approval_state_value PaApproved = ''approved''"
| "plan_approval_state_value PaObserved = ''observed''"
| "plan_approval_state_value PaRejected = ''rejected''"

datatype plan_approval_source = SrcExplicit | SrcAuto | SrcLegacy

datatype admission_state = AdmWaiting | AdmHeld | AdmReleased

datatype creation_state =
  CrNone | CrPlanned | CrSubmitting | CrCreated | CrAmbiguous | CrFailed | CrManualRequired

fun creation_state_value :: "creation_state \<Rightarrow> string" where
  "creation_state_value CrNone = ''none''"
| "creation_state_value CrPlanned = ''planned''"
| "creation_state_value CrSubmitting = ''submitting''"
| "creation_state_value CrCreated = ''created''"
| "creation_state_value CrAmbiguous = ''ambiguous''"
| "creation_state_value CrFailed = ''failed''"
| "creation_state_value CrManualRequired = ''manual_required''"

fun tier_order :: "workflow_tier \<Rightarrow> nat" where
  "tier_order TierSimple = 0"
| "tier_order TierMedium = 1"
| "tier_order TierHighRisk = 2"

fun legal_phase_edges :: "workflow_phase \<Rightarrow> workflow_phase set" where
  "legal_phase_edges PhClassifying = {PhPlanning, PhImplementing}"
| "legal_phase_edges PhPlanning = {PhReviewing}"
| "legal_phase_edges PhReviewing = {PhRevising, PhImplementing}"
| "legal_phase_edges PhRevising = {PhReviewing}"
| "legal_phase_edges PhImplementing = {PhPlanning, PhFinished}"
| "legal_phase_edges PhFinished = {}"

section \<open>Classification and phase\<close>

record workflow_classification =
  cl_tier :: workflow_tier
  cl_reason :: string

definition WorkflowClassification_init ::
  "workflow_tier \<Rightarrow> string \<Rightarrow> workflow_error + workflow_classification" where
  "WorkflowClassification_init tier reason =
     (if blank reason
      then Inl (WorkflowTransitionError
             ''classified workflow requires workflow_classification_reason'')
      else Inr \<lparr>cl_tier = tier, cl_reason = reason\<rparr>)"

definition promote_classification ::
  "workflow_classification \<Rightarrow> workflow_tier \<Rightarrow> string \<Rightarrow> workflow_error + workflow_classification" where
  "promote_classification c tier reason =
     rbind (WorkflowClassification_init tier reason) (\<lambda>promoted.
       if tier_order (cl_tier promoted) < tier_order (cl_tier c)
       then Inl (WorkflowTransitionError ''Cursor workflow tier cannot be downgraded'')
       else if tier_order (cl_tier promoted) = tier_order (cl_tier c)
       then Inl (WorkflowTransitionError ''Cursor workflow promotion must increase risk'')
       else Inr promoted)"

record workflow_state =
  ws_phase :: workflow_phase
  ws_classification :: "workflow_classification option"

definition WorkflowState_init ::
  "workflow_phase \<Rightarrow> workflow_classification option \<Rightarrow> workflow_error + workflow_state" where
  "WorkflowState_init phase cls =
     (if phase \<noteq> PhClassifying \<and> cls = None
      then Inl (WorkflowTransitionError
             (workflow_phase_value phase @ '' workflow requires workflow_tier''))
      else if (case cls of None \<Rightarrow> False | Some c \<Rightarrow> cl_tier c = TierSimple)
              \<and> phase \<in> {PhPlanning, PhReviewing, PhRevising}
      then Inl (WorkflowTransitionError ''simple workflow cannot enter planning or review'')
      else Inr \<lparr>ws_phase = phase, ws_classification = cls\<rparr>)"

definition classify_workflow ::
  "workflow_state \<Rightarrow> workflow_tier \<Rightarrow> string \<Rightarrow> workflow_error + workflow_state" where
  "classify_workflow w tier reason =
     (if ws_phase w \<noteq> PhClassifying
      then Inl (WorkflowTransitionError ''workflow is already classified'')
      else rbind (WorkflowClassification_init tier reason) (\<lambda>c.
        WorkflowState_init (if tier = TierSimple then PhImplementing else PhPlanning) (Some c)))"

definition promote_workflow ::
  "workflow_state \<Rightarrow> workflow_tier \<Rightarrow> string \<Rightarrow> workflow_error + workflow_state" where
  "promote_workflow w tier reason =
     (case ws_classification w of
        None \<Rightarrow> Inl (WorkflowTransitionError ''workflow promotion requires implementation phase'')
      | Some c \<Rightarrow>
          if ws_phase w \<noteq> PhImplementing
          then Inl (WorkflowTransitionError ''workflow promotion requires implementation phase'')
          else rbind (promote_classification c tier reason)
                 (\<lambda>p. WorkflowState_init PhPlanning (Some p)))"

definition workflow_transition ::
  "workflow_state \<Rightarrow> workflow_phase \<Rightarrow> workflow_error + workflow_state" where
  "workflow_transition w phase =
     (if phase = ws_phase w then Inr w
      else if phase \<notin> legal_phase_edges (ws_phase w)
      then Inl (WorkflowTransitionError
             (''illegal Cursor workflow transition '' @ workflow_phase_value (ws_phase w)
              @ '' -> '' @ workflow_phase_value phase))
      else WorkflowState_init phase (ws_classification w))"

section \<open>Artifact references\<close>

text \<open>
  The regular expression \<open>_ARTIFACT_REFERENCE\<close>, matched against the whole text: the groups job,
  kind and round of a match. The choice between \<open>plan\<close> and \<open>review\<close> and the optional digest are
  decided by the text at their place, so no backtracking is needed.
\<close>

definition is_lower_hex :: "char \<Rightarrow> bool" where
  "is_lower_hex c \<longleftrightarrow> (let n = of_char c :: nat in (48 \<le> n \<and> n \<le> 57) \<or> (97 \<le> n \<and> n \<le> 102))"

definition take_hex :: "nat \<Rightarrow> string \<Rightarrow> (string \<times> string) option" where
  "take_hex n s =
     (if n \<le> length s \<and> list_all is_lower_hex (take n s) then Some (take n s, drop n s) else None)"

definition round_digit :: "char \<Rightarrow> int option" where
  "round_digit c =
     (if c = CHR ''0'' then Some 0 else if c = CHR ''1'' then Some 1
      else if c = CHR ''2'' then Some 2 else None)"

definition match_tail :: "string \<Rightarrow> bool" where
  "match_tail s \<longleftrightarrow> s = ''.json''
     \<or> (case strip_prefix ''-'' s of
          None \<Rightarrow> False
        | Some t \<Rightarrow> (case take_hex 64 t of None \<Rightarrow> False | Some (_, u) \<Rightarrow> u = ''.json''))"

definition match_kind :: "string \<Rightarrow> (string \<times> string) option" where
  "match_kind s =
     (case strip_prefix ''plan'' s of
        Some t \<Rightarrow> Some (''plan'', t)
      | None \<Rightarrow> (case strip_prefix ''review'' s of
                   Some t \<Rightarrow> Some (''review'', t) | None \<Rightarrow> None))"

definition match_round :: "string \<Rightarrow> int option" where
  "match_round s =
     (case strip_prefix ''-'' s of
        Some (c # t) \<Rightarrow> if match_tail t then round_digit c else None
      | _ \<Rightarrow> None)"

definition match_artifact :: "string \<Rightarrow> (string \<times> string \<times> int) option" where
  "match_artifact s =
     (case strip_prefix ''.artifacts/'' s of
        None \<Rightarrow> None
      | Some t \<Rightarrow>
          (case take_hex 12 t of
             None \<Rightarrow> None
           | Some (job, u) \<Rightarrow>
               (case strip_prefix ''/'' u of
                  None \<Rightarrow> None
                | Some v \<Rightarrow>
                    (case match_kind v of
                       None \<Rightarrow> None
                     | Some (kind, w) \<Rightarrow>
                         (case match_round w of
                            None \<Rightarrow> None | Some r \<Rightarrow> Some (job, kind, r))))))"

record artifact_reference =
  ar_value :: string
  ar_job_id :: string
  ar_kind :: string
  ar_round :: int

definition ArtifactReference_init ::
  "string \<Rightarrow> string \<Rightarrow> string \<Rightarrow> int \<Rightarrow> workflow_error + artifact_reference" where
  "ArtifactReference_init v job_id kind rnd =
     (if match_artifact v \<noteq> Some (job_id, kind, rnd)
      then Inl (WorkflowTransitionError
             (kind @ ''_artifact has invalid workflow artifact reference''))
      else Inr \<lparr>ar_value = v, ar_job_id = job_id, ar_kind = kind, ar_round = rnd\<rparr>)"

definition parse_artifact_reference ::
  "string \<Rightarrow> string \<Rightarrow> string \<Rightarrow> workflow_error + artifact_reference" where
  "parse_artifact_reference v job_id kind =
     (let bad = Inl (WorkflowTransitionError
                  (kind @ ''_artifact has invalid workflow artifact reference''))
      in case match_artifact v of
           None \<Rightarrow> bad
         | Some (j, k, r) \<Rightarrow>
             if j \<noteq> job_id \<or> k \<noteq> kind then bad else ArtifactReference_init v job_id kind r)"

section \<open>Review rounds\<close>

record review_state =
  rs_tier :: "workflow_tier option"
  rs_round :: int
  rs_plan :: "artifact_reference option"
  rs_review :: "artifact_reference option"
  rs_decision :: "review_decision option"
  rs_source :: "review_approval_source option"

definition review_artifacts_match :: "review_state \<Rightarrow> bool" where
  "review_artifacts_match s \<longleftrightarrow>
     (case (rs_plan s, rs_review s) of
        (Some p, Some r) \<Rightarrow>
          ar_round p = rs_round s \<and> ar_round r = rs_round s \<and> ar_job_id p = ar_job_id r
      | _ \<Rightarrow> False)"

definition ReviewState_check :: "review_state \<Rightarrow> workflow_error + review_state" where
  "ReviewState_check s =
     (if rs_round s < 0 \<or> rs_round s > 2
      then Inl (WorkflowTransitionError ''review_round must be between zero and two'')
      else if rs_tier s = Some TierMedium \<and> rs_round s > 1
      then Inl (WorkflowTransitionError ''medium workflow allows only one review'')
      else if rs_source s \<noteq> None \<and> rs_review s = None
      then Inl (WorkflowTransitionError ''approved review requires a review artifact'')
      else if rs_source s = Some ByReviewer \<and> rs_decision s \<noteq> Some DecApprove
      then Inl (WorkflowTransitionError
             ''reviewer approval requires an approving review decision'')
      else if rs_source s = Some ByUser
              \<and> (rs_tier s \<noteq> Some TierHighRisk \<or> rs_decision s \<noteq> Some DecRevise \<or> rs_round s < 2)
      then Inl (WorkflowTransitionError
             ''user approval requires an exhausted high-risk rejected review'')
      else if rs_source s \<noteq> None \<and> \<not> review_artifacts_match s
      then Inl (WorkflowTransitionError
             ''approved review artifacts must match the current review round'')
      else Inr s)"

definition review_approved :: "review_state \<Rightarrow> bool" where
  "review_approved s \<longleftrightarrow> rs_source s \<noteq> None"

definition publish_plan :: "review_state \<Rightarrow> artifact_reference \<Rightarrow> workflow_error + review_state" where
  "publish_plan s a =
     (if ar_kind a \<noteq> ''plan'' \<or> ar_round a \<noteq> rs_round s
      then Inl (WorkflowTransitionError ''plan artifact must match the current review round'')
      else ReviewState_check (s\<lparr>rs_plan := Some a, rs_review := None, rs_decision := None,
                               rs_source := None\<rparr>))"

definition publish_review ::
  "review_state \<Rightarrow> artifact_reference \<Rightarrow> review_decision \<Rightarrow> workflow_error + review_state" where
  "publish_review s a decision =
     (if (case rs_plan s of None \<Rightarrow> True | Some p \<Rightarrow> ar_round p \<noteq> rs_round s)
      then Inl (WorkflowTransitionError ''review requires the current plan artifact'')
      else if ar_kind a \<noteq> ''review'' \<or> ar_round a \<noteq> rs_round s
      then Inl (WorkflowTransitionError ''review artifact must match the current review round'')
      else ReviewState_check
             (s\<lparr>rs_review := Some a, rs_decision := Some decision,
                rs_source := (if decision = DecApprove then Some ByReviewer else None)\<rparr>))"

definition approve_exhausted :: "review_state \<Rightarrow> workflow_error + review_state" where
  "approve_exhausted s = ReviewState_check (s\<lparr>rs_source := Some ByUser\<rparr>)"

definition revise_review :: "review_state \<Rightarrow> workflow_error + review_state" where
  "revise_review s =
     (if rs_decision s \<noteq> Some DecRevise
      then Inl (WorkflowTransitionError ''revision requires a revise decision'')
      else let next_round = rs_round s + 1 in
        if next_round > 2 \<or> (rs_tier s = Some TierMedium \<and> next_round > 1)
        then Inl (WorkflowTransitionError ''workflow review limit is exhausted'')
        else ReviewState_check (s\<lparr>rs_round := next_round, rs_source := None\<rparr>))"

section \<open>The plan approval gate\<close>

datatype approval_proof =
    PlanApprovalProof string string int int
  | LegacyPlanApprovalProof string string int int

definition PlanApprovalProof_init ::
  "string \<Rightarrow> string \<Rightarrow> int \<Rightarrow> int \<Rightarrow> workflow_error + approval_proof" where
  "PlanApprovalProof_init gate sess sq revision =
     (if \<not> truthy gate \<or> \<not> truthy sess \<or> sq < 0 \<or> revision < 0
      then Inl (WorkflowTransitionError
             (''active plan approval requires gate ID, agent session, and sequence; ''
              @ ''revision proof is also required''))
      else Inr (PlanApprovalProof gate sess sq revision))"

definition LegacyPlanApprovalProof_init ::
  "string \<Rightarrow> string \<Rightarrow> int \<Rightarrow> int \<Rightarrow> workflow_error + approval_proof" where
  "LegacyPlanApprovalProof_init gate sess sq revision =
     (if \<not> truthy gate \<or> \<not> truthy sess \<or> sq \<noteq> - 1 \<or> revision \<noteq> - 1
      then Inl (WorkflowTransitionError ''legacy plan approval proof is invalid'')
      else Inr (LegacyPlanApprovalProof gate sess sq revision))"

fun is_legacy_proof :: "approval_proof option \<Rightarrow> bool" where
  "is_legacy_proof (Some (LegacyPlanApprovalProof _ _ _ _)) = True"
| "is_legacy_proof _ = False"

record plan_approval =
  pa_state :: plan_approval_state
  pa_proof :: "approval_proof option"
  pa_source :: "plan_approval_source option"
  pa_counted :: bool
  pa_plan_reference :: "string option"
  pa_review_reference :: "string option"
  pa_review_accepted :: bool
  pa_question_id :: "string option"
  pa_question_turn_token :: "string option"

definition no_plan_approval :: plan_approval where
  "no_plan_approval =
     \<lparr>pa_state = PaNone, pa_proof = None, pa_source = None, pa_counted = False,
      pa_plan_reference = None, pa_review_reference = None, pa_review_accepted = False,
      pa_question_id = None, pa_question_turn_token = None\<rparr>"

definition PlanApproval_check :: "plan_approval \<Rightarrow> workflow_error + plan_approval" where
  "PlanApproval_check a =
     (if (pa_state a \<noteq> PaNone) \<noteq> (pa_proof a \<noteq> None)
      then Inl (WorkflowTransitionError
             (''active plan approval requires gate ID, agent session, and sequence; ''
              @ ''revision proof is also required''))
      else if pa_state a = PaNone \<and> pa_source a \<noteq> None
      then Inl (WorkflowTransitionError
             ''inactive plan approval cannot retain gate proof or source'')
      else if is_legacy_proof (pa_proof a) \<and> pa_source a \<noteq> Some SrcLegacy
      then Inl (WorkflowTransitionError ''legacy plan approval proof requires legacy source'')
      else if pa_source a = Some SrcLegacy \<and> \<not> is_legacy_proof (pa_proof a)
      then Inl (WorkflowTransitionError ''legacy plan approval source requires legacy proof'')
      else if pa_state a = PaBoundary \<and> pa_source a \<noteq> None
      then Inl (WorkflowTransitionError ''plan approval boundary cannot retain a source'')
      else if pa_state a = PaAwaiting
              \<and> (pa_source a \<noteq> None \<or> \<not> otruthy (pa_question_id a)
                 \<or> \<not> otruthy (pa_question_turn_token a) \<or> \<not> otruthy (pa_plan_reference a)
                 \<or> \<not> otruthy (pa_review_reference a) \<or> \<not> pa_review_accepted a)
      then Inl (WorkflowTransitionError
             ''awaiting plan approval requires current plan and question proof'')
      else if pa_state a \<in> {PaApproved, PaObserved}
              \<and> (pa_source a = None \<or> \<not> otruthy (pa_plan_reference a)
                 \<or> \<not> otruthy (pa_review_reference a) \<or> \<not> pa_review_accepted a)
      then Inl (WorkflowTransitionError ''approved plan requires a current accepted plan'')
      else if pa_counted a
              \<and> (pa_source a \<noteq> Some SrcExplicit \<or> pa_state a \<notin> {PaApproved, PaObserved}
                 \<or> \<not> otruthy (pa_plan_reference a) \<or> \<not> otruthy (pa_review_reference a)
                 \<or> \<not> pa_review_accepted a)
      then Inl (WorkflowTransitionError
             ''counted plan approval requires an accepted explicit approval'')
      else Inr a)"

definition record_boundary :: "plan_approval \<Rightarrow> approval_proof \<Rightarrow> workflow_error + plan_approval" where
  "record_boundary a proof =
     (if pa_state a \<notin> {PaNone, PaBoundary}
      then Inl (WorkflowTransitionError ''plan approval boundary is no longer available'')
      else if pa_proof a \<noteq> None \<and> pa_proof a \<noteq> Some proof
      then Inl (WorkflowTransitionError ''plan approval proof cannot be rewritten'')
      else PlanApproval_check
             (no_plan_approval\<lparr>pa_state := PaBoundary, pa_proof := Some proof\<rparr>))"

definition await_question ::
  "plan_approval \<Rightarrow> string \<Rightarrow> string \<Rightarrow> string \<Rightarrow> string \<Rightarrow> bool \<Rightarrow> workflow_error + plan_approval" where
  "await_question a question token plan review accepted =
     (if pa_state a \<noteq> PaBoundary
      then Inl (WorkflowTransitionError ''plan approval question requires a current boundary'')
      else PlanApproval_check
             (no_plan_approval\<lparr>pa_state := PaAwaiting, pa_proof := pa_proof a,
                pa_plan_reference := Some plan, pa_review_reference := Some review,
                pa_review_accepted := accepted, pa_question_id := Some question,
                pa_question_turn_token := Some token\<rparr>))"

definition approve_plan ::
  "plan_approval \<Rightarrow> plan_approval_source \<Rightarrow> string \<Rightarrow> string \<Rightarrow> bool \<Rightarrow> string option \<Rightarrow>
   string option \<Rightarrow> workflow_error + plan_approval" where
  "approve_plan a source plan review accepted question token =
     (if pa_state a = PaAwaiting
         \<and> (question \<noteq> pa_question_id a \<or> token \<noteq> pa_question_turn_token a)
      then Inl (WorkflowTransitionError ''plan approval question identity is stale'')
      else if pa_state a \<notin> {PaBoundary, PaAwaiting}
      then Inl (WorkflowTransitionError ''plan approval boundary is no longer available'')
      else if \<not> truthy plan
              \<or> (pa_plan_reference a \<noteq> None \<and> Some plan \<noteq> pa_plan_reference a)
              \<or> (pa_review_reference a \<noteq> None \<and> Some review \<noteq> pa_review_reference a)
              \<or> \<not> accepted
      then Inl (WorkflowTransitionError ''plan approval requires the current accepted plan'')
      else PlanApproval_check
             (no_plan_approval\<lparr>pa_state := PaApproved, pa_proof := pa_proof a,
                pa_source := Some source, pa_plan_reference := Some plan,
                pa_review_reference := Some review, pa_review_accepted := True\<rparr>))"

definition observe_plan :: "plan_approval \<Rightarrow> workflow_error + plan_approval" where
  "observe_plan a =
     (if pa_state a \<noteq> PaApproved
      then Inl (WorkflowTransitionError ''only an approved plan can be observed'')
      else PlanApproval_check (a\<lparr>pa_state := PaObserved\<rparr>))"

definition count_plan :: "plan_approval \<Rightarrow> workflow_error + plan_approval" where
  "count_plan a =
     (if pa_source a \<noteq> Some SrcExplicit
      then Inl (WorkflowTransitionError ''only explicit plan approval can be counted'')
      else PlanApproval_check (a\<lparr>pa_counted := True\<rparr>))"

fun plan_approval_edges :: "plan_approval_state \<Rightarrow> plan_approval_state set" where
  "plan_approval_edges PaNone = {PaNone, PaBoundary}"
| "plan_approval_edges PaBoundary = {PaBoundary, PaAwaiting, PaApproved, PaNone, PaRejected}"
| "plan_approval_edges PaAwaiting = {PaAwaiting, PaApproved, PaNone, PaRejected}"
| "plan_approval_edges PaApproved = {PaApproved, PaObserved, PaRejected}"
| "plan_approval_edges PaObserved = {PaObserved, PaNone, PaRejected}"
| "plan_approval_edges PaRejected = {PaRejected}"

definition validate_plan_approval ::
  "plan_approval \<Rightarrow> plan_approval \<Rightarrow> workflow_error + unit" where
  "validate_plan_approval before after =
     (if pa_state after \<notin> plan_approval_edges (pa_state before)
      then Inl (WorkflowTransitionError
             (''illegal plan approval transition ''
              @ plan_approval_state_value (pa_state before) @ '' -> ''
              @ plan_approval_state_value (pa_state after)))
      else if pa_proof before \<noteq> None \<and> pa_proof after \<noteq> None \<and> pa_proof before \<noteq> pa_proof after
      then Inl (WorkflowTransitionError ''plan approval proof cannot be rewritten'')
      else if pa_counted before \<and> \<not> pa_counted after
      then Inl (WorkflowTransitionError ''counted plan approval cannot be uncounted'')
      else if pa_state before \<notin> {PaNone, PaBoundary}
              \<and> (pa_plan_reference before \<noteq> pa_plan_reference after
                 \<or> pa_review_reference before \<noteq> pa_review_reference after)
      then Inl (WorkflowTransitionError ''accepted plan approval artifacts cannot be replaced'')
      else Inr ())"

section \<open>Participants\<close>

record participant_creation =
  pc_state :: creation_state
  pc_participant :: "workflow_participant option"
  pc_target :: "string option"
  pc_label :: "string option"
  pc_workspace_id :: "string option"
  pc_pane_id :: "string option"

definition no_creation :: participant_creation where
  "no_creation = \<lparr>pc_state = CrNone, pc_participant = None, pc_target = None, pc_label = None,
                  pc_workspace_id = None, pc_pane_id = None\<rparr>"

definition creation_identity ::
  "participant_creation \<Rightarrow>
   workflow_participant option \<times> string option \<times> string option \<times> string option" where
  "creation_identity c = (pc_participant c, pc_target c, pc_label c, pc_workspace_id c)"

definition ParticipantCreation_check ::
  "participant_creation \<Rightarrow> workflow_error + participant_creation" where
  "ParticipantCreation_check c =
     (if pc_state c = CrNone
      then (if pc_participant c \<noteq> None \<or> pc_target c \<noteq> None \<or> pc_label c \<noteq> None
               \<or> pc_workspace_id c \<noteq> None \<or> pc_pane_id c \<noteq> None
            then Inl (WorkflowTransitionError
                   ''inactive participant creation cannot retain identity'')
            else Inr c)
      else if \<not> (pc_participant c \<noteq> None \<and> otruthy (pc_target c) \<and> otruthy (pc_label c)
                 \<and> otruthy (pc_workspace_id c))
      then Inl (WorkflowTransitionError
             ''participant creation requires role, target, label, and workspace'')
      else if pc_state c = CrCreated \<and> \<not> otruthy (pc_pane_id c)
      then Inl (WorkflowTransitionError ''created participant requires pane and workspace'')
      else Inr c)"

definition begin_creation :: "participant_creation \<Rightarrow> workflow_error + participant_creation" where
  "begin_creation c =
     (if pc_state c \<noteq> CrPlanned
      then Inl (WorkflowTransitionError ''participant submission requires planned creation'')
      else ParticipantCreation_check (c\<lparr>pc_state := CrSubmitting\<rparr>))"

definition created_participant ::
  "participant_creation \<Rightarrow> string \<Rightarrow> string \<Rightarrow> workflow_error + participant_creation" where
  "created_participant c pane workspace =
     (if pc_state c \<notin> {CrSubmitting, CrManualRequired}
      then Inl (WorkflowTransitionError ''participant acceptance requires submitted creation'')
      else if Some workspace \<noteq> pc_workspace_id c
      then Inl (WorkflowTransitionError ''participant workspace identity is stale'')
      else ParticipantCreation_check (c\<lparr>pc_state := CrCreated, pc_pane_id := Some pane\<rparr>))"

definition require_manual :: "participant_creation \<Rightarrow> workflow_error + participant_creation" where
  "require_manual c =
     (if pc_state c \<notin> {CrPlanned, CrSubmitting, CrAmbiguous}
      then Inl (WorkflowTransitionError
             ''manual reconciliation requires uncertain participant creation'')
      else ParticipantCreation_check (c\<lparr>pc_state := CrManualRequired\<rparr>))"

fun creation_edges :: "creation_state \<Rightarrow> creation_state set" where
  "creation_edges CrNone = {CrNone, CrPlanned}"
| "creation_edges CrPlanned = {CrPlanned, CrSubmitting, CrNone, CrFailed, CrManualRequired}"
| "creation_edges CrSubmitting = {CrSubmitting, CrCreated, CrAmbiguous, CrManualRequired}"
| "creation_edges CrAmbiguous = {CrAmbiguous, CrManualRequired}"
| "creation_edges CrManualRequired = {CrManualRequired, CrCreated, CrNone}"
| "creation_edges CrCreated = {CrCreated, CrNone}"
| "creation_edges CrFailed = {CrFailed, CrNone, CrPlanned}"

definition validate_creation ::
  "participant_creation \<Rightarrow> participant_creation \<Rightarrow> workflow_error + unit" where
  "validate_creation before after =
     (if pc_state after \<notin> creation_edges (pc_state before)
      then Inl (WorkflowTransitionError
             (''illegal participant creation transition ''
              @ creation_state_value (pc_state before) @ '' -> ''
              @ creation_state_value (pc_state after)))
      else if pc_state before \<notin> {CrNone, CrFailed} \<and> pc_state after \<noteq> CrNone
              \<and> creation_identity before \<noteq> creation_identity after
      then Inl (WorkflowTransitionError ''participant creation identity cannot be rewritten'')
      else Inr ())"

record participant_lifecycle =
  pl_admission :: admission_state
  pl_creation :: participant_creation

definition admit_participant :: "participant_lifecycle \<Rightarrow> workflow_error + participant_lifecycle" where
  "admit_participant l =
     (if pl_admission l \<noteq> AdmWaiting
      then Inl (WorkflowTransitionError ''participant admission requires a waiting job'')
      else Inr (l\<lparr>pl_admission := AdmHeld\<rparr>))"

definition yield_capacity :: "participant_lifecycle \<Rightarrow> workflow_error + participant_lifecycle" where
  "yield_capacity l =
     (if pl_admission l \<noteq> AdmHeld
      then Inl (WorkflowTransitionError ''participant capacity yield requires a held admission'')
      else if pl_creation l \<noteq> no_creation
      then Inl (WorkflowTransitionError
             ''participant capacity cannot yield after creation begins'')
      else Inr (l\<lparr>pl_admission := AdmWaiting\<rparr>))"

definition release_participant ::
  "participant_lifecycle \<Rightarrow> bool \<Rightarrow> workflow_error + participant_lifecycle" where
  "release_participant l cleanup_confirmed =
     (if pl_admission l = AdmReleased then Inr l
      else if pl_admission l = AdmHeld \<and> \<not> cleanup_confirmed
      then Inl (WorkflowTransitionError
             ''held participant capacity requires confirmed terminal cleanup'')
      else Inr (l\<lparr>pl_admission := AdmReleased\<rparr>))"

end
