(* ===== verification/Workflow_Machine.thy ===== *)
theory Workflow_Machine imports Workflow begin

text \<open>
  The classes of \<open>cursor/workflow.py\<close> as machines: the phase machine with its risk tiers, the
  review rounds, the plan approval gate and the creation of participants; the language of the
  artifact references; and the refinement of the transition validators by the operations.
\<close>

section \<open>Risk tiers in order\<close>

text \<open>The order of \<open>_TIER_ORDER\<close>.\<close>

instantiation workflow_tier :: linorder
begin

definition less_eq_workflow_tier :: "workflow_tier \<Rightarrow> workflow_tier \<Rightarrow> bool" where
  "s \<le> t \<longleftrightarrow> tier_order s \<le> tier_order t"

definition less_workflow_tier :: "workflow_tier \<Rightarrow> workflow_tier \<Rightarrow> bool" where
  "s < t \<longleftrightarrow> tier_order s < tier_order t"

instance
proof
  fix s t :: workflow_tier
  show "s \<le> t \<Longrightarrow> t \<le> s \<Longrightarrow> s = t"
    by (cases s; cases t) (simp_all add: less_eq_workflow_tier_def)
qed (auto simp: less_eq_workflow_tier_def less_workflow_tier_def)

end

lemma no_tier_below_simple [simp]: "\<not> t < TierSimple"
  by (simp add: less_workflow_tier_def)

lemma no_edge_to_classifying [simp]: "PhClassifying \<notin> legal_phase_edges p"
  by (cases p) simp_all

section \<open>The phase machine\<close>

datatype workflow_op =
    Classify workflow_tier string
  | Promote workflow_tier string
  | MoveTo workflow_phase

fun workflow_step :: "workflow_state \<Rightarrow> workflow_op \<Rightarrow> workflow_error + workflow_state" where
  "workflow_step w (Classify tier reason) = classify_workflow w tier reason"
| "workflow_step w (Promote tier reason) = promote_workflow w tier reason"
| "workflow_step w (MoveTo phase) = workflow_transition w phase"

fun is_promotion :: "workflow_op \<Rightarrow> bool" where
  "is_promotion (Promote _ _) = True"
| "is_promotion _ = False"

definition initial_workflow :: workflow_state where
  "initial_workflow = \<lparr>ws_phase = PhClassifying, ws_classification = None\<rparr>"

definition workflow_ok :: "workflow_state \<Rightarrow> bool" where
  "workflow_ok w \<longleftrightarrow> WorkflowState_init (ws_phase w) (ws_classification w) = Inr w"

lemma WorkflowState_init_iff [result_simps]:
  "WorkflowState_init phase cls = Inr w \<longleftrightarrow>
     (phase \<noteq> PhClassifying \<longrightarrow> cls \<noteq> None) \<and>
     (\<forall>c. cls = Some c \<longrightarrow> cl_tier c = TierSimple \<longrightarrow> phase \<notin> {PhPlanning, PhReviewing, PhRevising})
     \<and> w = \<lparr>ws_phase = phase, ws_classification = cls\<rparr>"
  by (auto simp: WorkflowState_init_def split: option.splits)

lemma WorkflowClassification_init_iff [result_simps]:
  "WorkflowClassification_init tier reason = Inr c \<longleftrightarrow>
     \<not> blank reason \<and> c = \<lparr>cl_tier = tier, cl_reason = reason\<rparr>"
  by (auto simp: WorkflowClassification_init_def)

lemma promote_classification_iff [result_simps]:
  "promote_classification c tier reason = Inr d \<longleftrightarrow>
     cl_tier c < tier \<and> WorkflowClassification_init tier reason = Inr d"
  by (auto simp: promote_classification_def result_simps less_workflow_tier_def)

lemma classify_workflow_iff [result_simps]:
  "classify_workflow w tier reason = Inr z \<longleftrightarrow>
     ws_phase w = PhClassifying \<and> \<not> blank reason \<and>
     z = \<lparr>ws_phase = (if tier = TierSimple then PhImplementing else PhPlanning),
          ws_classification = Some \<lparr>cl_tier = tier, cl_reason = reason\<rparr>\<rparr>"
  by (auto simp: classify_workflow_def result_simps)

lemma promote_workflow_iff [result_simps]:
  "promote_workflow w tier reason = Inr z \<longleftrightarrow>
     (\<exists>c. ws_classification w = Some c \<and> ws_phase w = PhImplementing \<and> cl_tier c < tier
        \<and> \<not> blank reason \<and>
        z = \<lparr>ws_phase = PhPlanning,
             ws_classification = Some \<lparr>cl_tier = tier, cl_reason = reason\<rparr>\<rparr>)"
  by (auto simp: promote_workflow_def result_simps split: option.splits)

lemma workflow_transition_iff [result_simps]:
  "workflow_transition w phase = Inr z \<longleftrightarrow>
     (if phase = ws_phase w then z = w
      else phase \<in> legal_phase_edges (ws_phase w)
        \<and> WorkflowState_init phase (ws_classification w) = Inr z)"
  by (auto simp: workflow_transition_def)

interpretation phases: guarded_machine ws_phase legal_phase_edges workflow_step
proof
  fix w a z assume "workflow_step w a = Inr z"
  then show "ws_phase z = ws_phase w \<or> ws_phase z \<in> legal_phase_edges (ws_phase w)"
    by (cases a) (auto simp: result_simps split: if_splits)
qed

lemma workflow_step_ok: "workflow_ok w \<Longrightarrow> workflow_step w a = Inr z \<Longrightarrow> workflow_ok z"
  by (cases a) (auto simp: workflow_ok_def result_simps split: if_splits)

lemma workflow_step_tier:
  assumes "workflow_step w a = Inr z" and "ws_classification w = Some c"
    and "ws_phase w \<noteq> PhClassifying"
  shows "\<exists>d. ws_classification z = Some d \<and> ws_phase z \<noteq> PhClassifying
    \<and> (if is_promotion a then cl_tier c < cl_tier d else d = c)"
  using assms by (cases a) (auto simp: result_simps split: if_splits)

text \<open>A workflow whose implementation, if any, was never reviewed.\<close>

definition unreviewed :: "workflow_state \<Rightarrow> bool" where
  "unreviewed w \<longleftrightarrow>
     ws_phase w = PhPlanning \<or> (ws_phase w = PhClassifying \<and> ws_classification w = None)
     \<or> (\<exists>c. ws_classification w = Some c \<and> cl_tier c = TierSimple)"

lemma unreviewed_step:
  "unreviewed w \<Longrightarrow> workflow_step w a = Inr z \<Longrightarrow> unreviewed z \<or> ws_phase z = PhReviewing"
  by (cases a) (auto simp: unreviewed_def result_simps split: if_splits)

lemma reviewed_by_then:
  assumes "run_steps workflow_step w ops = Inr z" and "unreviewed w" and "\<not> unreviewed z"
  shows "\<exists>ops1 ops2 u. ops = ops1 @ ops2 \<and> run_steps workflow_step w ops1 = Inr u
    \<and> ws_phase u = PhReviewing"
  using assms
proof (induction ops arbitrary: w)
  case Nil
  then show ?case by simp
next
  case (Cons a ops)
  then obtain u where u: "workflow_step w a = Inr u" "run_steps workflow_step u ops = Inr z"
    by (auto simp: result_simps)
  show ?case
  proof (cases "ws_phase u = PhReviewing")
    case True
    with u(1) show ?thesis
      by (intro exI [of _ "[a]"] exI [of _ ops] exI [of _ u]) simp
  next
    case False
    with unreviewed_step [OF Cons.prems(2) u(1)] have "unreviewed u" by simp
    from Cons.IH [OF u(2) this Cons.prems(3)] obtain ops1 ops2 v where
      "ops = ops1 @ ops2" "run_steps workflow_step u ops1 = Inr v" "ws_phase v = PhReviewing"
      by blast
    with u(1) show ?thesis
      by (intro exI [of _ "a # ops1"] exI [of _ ops2] exI [of _ v]) simp
  qed
qed

text \<open>
  No implementation without review: when a run from the initial workflow ends in the
  implementing or finished phase with a tier above simple, then a part of the run reached the
  review phase; this includes workflows classified as simple and promoted later.
\<close>

theorem risky_work_is_reviewed:
  assumes "run_steps workflow_step initial_workflow ops = Inr w"
    and "ws_phase w \<in> {PhImplementing, PhFinished}"
    and "ws_classification w = Some c" and "TierSimple < cl_tier c"
  shows "\<exists>ops1 ops2 u. ops = ops1 @ ops2 \<and> run_steps workflow_step initial_workflow ops1 = Inr u
    \<and> ws_phase u = PhReviewing"
proof (rule reviewed_by_then [OF assms(1)])
  show "unreviewed initial_workflow" by (simp add: unreviewed_def initial_workflow_def)
  show "\<not> unreviewed w" using assms(2-4) by (auto simp: unreviewed_def)
qed

text \<open>
  Risk only grows: along any run from a classified workflow the tier never falls, every
  promotion raises it (so there are at most two), a run without promotion keeps tier and reason,
  and the constructor's check (a simple workflow is never planned or reviewed) holds throughout.
\<close>

theorem workflow_risk_only_grows:
  assumes "run_steps workflow_step w ops = Inr z" and "ws_classification w = Some c"
    and "ws_phase w \<noteq> PhClassifying" and "workflow_ok w"
  shows "workflow_ok z \<and> (\<exists>d. ws_classification z = Some d
    \<and> tier_order (cl_tier c) + length (filter is_promotion ops) \<le> tier_order (cl_tier d)
    \<and> (filter is_promotion ops = [] \<longrightarrow> d = c))"
  using assms
proof (induction ops arbitrary: w c)
  case Nil
  then show ?case by simp
next
  case (Cons a ops)
  then obtain u where u: "workflow_step w a = Inr u" "run_steps workflow_step u ops = Inr z"
    by (auto simp: result_simps)
  from workflow_step_tier [OF u(1) Cons.prems(2,3)] obtain d where
    d: "ws_classification u = Some d" "ws_phase u \<noteq> PhClassifying"
      "if is_promotion a then cl_tier c < cl_tier d else d = c" by blast
  from Cons.IH [OF u(2) d(1,2) workflow_step_ok [OF Cons.prems(4) u(1)]] d(3)
  show ?case by (auto simp: less_workflow_tier_def split: if_splits)
qed

section \<open>Review rounds\<close>

datatype review_op =
    PublishPlan artifact_reference
  | PublishReview artifact_reference review_decision
  | ApproveExhausted
  | Revise

fun review_step :: "review_state \<Rightarrow> review_op \<Rightarrow> workflow_error + review_state" where
  "review_step s (PublishPlan a) = publish_plan s a"
| "review_step s (PublishReview a d) = publish_review s a d"
| "review_step s ApproveExhausted = approve_exhausted s"
| "review_step s Revise = revise_review s"

definition review_ok :: "review_state \<Rightarrow> bool" where
  "review_ok s \<longleftrightarrow> ReviewState_check s = Inr s"

lemma ReviewState_check_Inr: "ReviewState_check s = Inr t \<Longrightarrow> t = s \<and> review_ok s"
  by (auto simp: ReviewState_check_def review_ok_def split: if_splits)

lemma ReviewState_check_iff [result_simps]:
  "ReviewState_check s = Inr t \<longleftrightarrow> t = s \<and> 0 \<le> rs_round s \<and> rs_round s \<le> 2
     \<and> (rs_tier s = Some TierMedium \<longrightarrow> rs_round s \<le> 1)
     \<and> (rs_source s = Some ByReviewer \<longrightarrow> rs_decision s = Some DecApprove)
     \<and> (rs_source s = Some ByUser \<longrightarrow>
          rs_tier s = Some TierHighRisk \<and> rs_decision s = Some DecRevise \<and> 2 \<le> rs_round s)
     \<and> (rs_source s \<noteq> None \<longrightarrow> review_artifacts_match s)"
proof -
  have "review_artifacts_match s \<Longrightarrow> rs_review s \<noteq> None"
    by (auto simp: review_artifacts_match_def split: option.splits)
  then show ?thesis
    unfolding ReviewState_check_def if_Inl_Inr_iff by (cases "rs_source s") (auto simp: not_less)
qed

lemma review_step_facts:
  assumes "review_step s op = Inr t"
  shows "review_ok t" and "rs_tier t = rs_tier s"
    and "rs_round t = rs_round s + (if op = Revise then 1 else 0)"
  using assms
  by (cases op;
      auto simp: publish_plan_def publish_review_def approve_exhausted_def revise_review_def Let_def
        split: if_splits dest!: ReviewState_check_Inr)+

lemma review_ok_facts:
  assumes "review_ok s"
  shows "0 \<le> rs_round s" and "rs_round s \<le> (if rs_tier s = Some TierMedium then 1 else 2)"
    and "review_approved s \<Longrightarrow> review_artifacts_match s"
  using assms by (auto simp: review_ok_def result_simps review_approved_def)

text \<open>
  What an approval needs after a revision: the artifacts of the round in progress. The state
  keeps the artifacts of the previous round until new ones are published.
\<close>

definition stale_plan :: "review_state \<Rightarrow> bool" where
  "stale_plan s \<longleftrightarrow> rs_source s = None \<and> (\<forall>p. rs_plan s = Some p \<longrightarrow> ar_round p \<noteq> rs_round s)"

definition stale_review :: "review_state \<Rightarrow> bool" where
  "stale_review s \<longleftrightarrow> rs_source s = None \<and> (\<forall>r. rs_review s = Some r \<longrightarrow> ar_round r \<noteq> rs_round s)"

lemma approve_exhausted_matches:
  "approve_exhausted s = Inr t \<Longrightarrow> review_artifacts_match s \<and> rs_source t \<noteq> None"
  by (auto simp: approve_exhausted_def result_simps review_artifacts_match_def split: option.splits)

lemma stale_plan_step:
  assumes "stale_plan s" "review_step s op = Inr t" "op \<noteq> Revise" "\<forall>a. op \<noteq> PublishPlan a"
  shows "stale_plan t"
proof (cases op)
  case (PublishReview a d)
  with assms(1,2) show ?thesis
    by (cases "rs_plan s") (simp_all add: stale_plan_def publish_review_def)
next
  case ApproveExhausted
  with assms(1,2) approve_exhausted_matches [of s t] show ?thesis
    by (cases "rs_plan s") (auto simp: stale_plan_def review_artifacts_match_def split: option.splits)
qed (use assms in simp_all)

lemma stale_review_step:
  assumes "stale_review s" "review_step s op = Inr t" "op \<noteq> Revise"
    "\<forall>a d. op \<noteq> PublishReview a d"
  shows "stale_review t"
proof (cases op)
  case (PublishPlan a)
  with assms(1,2) show ?thesis
    by (auto simp: stale_review_def publish_plan_def result_simps)
next
  case ApproveExhausted
  with assms(1,2) approve_exhausted_matches [of s t] show ?thesis
    by (cases "rs_review s") (auto simp: stale_review_def review_artifacts_match_def split: option.splits)
qed (use assms in simp_all)

lemma stale_after_revise:
  assumes "revise_review s = Inr t" and "review_ok s"
    and "\<forall>p. rs_plan s = Some p \<longrightarrow> ar_round p \<le> rs_round s"
    and "\<forall>r. rs_review s = Some r \<longrightarrow> ar_round r \<le> rs_round s"
  shows "stale_plan t" and "stale_review t"
  using assms
  by (auto simp: revise_review_def Let_def stale_plan_def stale_review_def split: if_splits
      dest!: ReviewState_check_Inr)

text \<open>
  Reviews are bounded: over any run of review operations from a valid state the round
  counts the revisions, a medium workflow is revised at most once and any other at most twice,
  the tier stays, the state stays valid, and whenever the review is approved its plan and review
  are of one job and of the round in progress.
\<close>

theorem review_rounds_bounded:
  assumes "run_steps review_step s ops = Inr t" and "review_ok s"
  shows "review_ok t \<and> rs_tier t = rs_tier s
    \<and> rs_round t = rs_round s + int (count_list ops Revise)
    \<and> count_list ops Revise \<le> (if rs_tier s = Some TierMedium then 1 else 2)
    \<and> (review_approved t \<longrightarrow> review_artifacts_match t)"
proof -
  have run: "review_ok t \<and> rs_tier t = rs_tier s
      \<and> rs_round t = rs_round s + int (count_list ops Revise)"
    using assms
  proof (induction ops arbitrary: s)
    case Nil
    then show ?case by simp
  next
    case (Cons op ops)
    then obtain u where u: "review_step s op = Inr u" "run_steps review_step u ops = Inr t"
      by (auto simp: result_simps)
    from Cons.IH [OF u(2) review_step_facts(1) [OF u(1)]] review_step_facts(2,3) [OF u(1)]
    show ?case by auto
  qed
  moreover have "count_list ops Revise \<le> (if rs_tier s = Some TierMedium then 1 else 2)"
    using run review_ok_facts(1) [OF assms(2)] review_ok_facts(2) [of t] by (auto split: if_splits)
  ultimately show ?thesis using review_ok_facts(3) by blast
qed

text \<open>
  A revision withdraws every approval: after it, no run without a further revision reaches
  an approved state unless it publishes both a new plan and a new review.
\<close>

theorem revision_needs_fresh_artifacts:
  assumes "revise_review s = Inr t" and "review_ok s"
    and "\<forall>p. rs_plan s = Some p \<longrightarrow> ar_round p \<le> rs_round s"
    and "\<forall>r. rs_review s = Some r \<longrightarrow> ar_round r \<le> rs_round s"
    and "run_steps review_step t ops = Inr u" and "Revise \<notin> set ops" and "review_approved u"
  shows "(\<exists>a. PublishPlan a \<in> set ops) \<and> (\<exists>a d. PublishReview a d \<in> set ops)"
proof (intro conjI; rule ccontr)
  assume none: "\<not> (\<exists>a. PublishPlan a \<in> set ops)"
  have "stale_plan u"
  proof (rule run_steps_invariant [OF assms(5), where P = stale_plan])
    show "stale_plan t" by (rule stale_after_revise(1) [OF assms(1-4)])
    show "stale_plan x'" if "stale_plan x" "a \<in> set ops" "review_step x a = Inr x'" for x a x'
      by (rule stale_plan_step [OF that(1,3)]) (use that(2) assms(6) none in metis)+
  qed
  with assms(7) show False by (simp add: stale_plan_def review_approved_def)
next
  assume none: "\<not> (\<exists>a d. PublishReview a d \<in> set ops)"
  have "stale_review u"
  proof (rule run_steps_invariant [OF assms(5), where P = stale_review])
    show "stale_review t" by (rule stale_after_revise(2) [OF assms(1-4)])
    show "stale_review x'" if "stale_review x" "a \<in> set ops" "review_step x a = Inr x'" for x a x'
      by (rule stale_review_step [OF that(1,3)]) (use that(2) assms(6) none in metis)+
  qed
  with assms(7) show False by (simp add: stale_review_def review_approved_def)
qed

section \<open>The language of the artifact references\<close>

definition artifact_text :: "string \<Rightarrow> string \<Rightarrow> char \<Rightarrow> string option \<Rightarrow> string" where
  "artifact_text job kind digit digest =
     ''.artifacts/'' @ job @ ''/'' @ kind @ ''-'' @ digit
     # (case digest of None \<Rightarrow> '''' | Some d \<Rightarrow> ''-'' @ d) @ ''.json''"

definition artifact_parts_ok :: "string \<Rightarrow> string \<Rightarrow> char \<Rightarrow> string option \<Rightarrow> bool" where
  "artifact_parts_ok job kind digit digest \<longleftrightarrow>
     length job = 12 \<and> list_all is_lower_hex job \<and> kind \<in> {''plan'', ''review''}
     \<and> digit \<in> {CHR ''0'', CHR ''1'', CHR ''2''}
     \<and> (\<forall>d. digest = Some d \<longrightarrow> length d = 64 \<and> list_all is_lower_hex d)"

lemma strip_prefix_iff [simp]: "strip_prefix p s = Some t \<longleftrightarrow> s = p @ t"
  by (auto simp: strip_prefix_def starts_with_iff)

lemma strip_prefix_append: "strip_prefix p (p @ t) = Some t"
  by simp

lemma take_hex_iff [simp]:
  "take_hex n s = Some (h, t) \<longleftrightarrow> s = h @ t \<and> length h = n \<and> list_all is_lower_hex h"
  by (auto simp: take_hex_def)

lemma match_tail_iff:
  "match_tail s \<longleftrightarrow> s = ''.json''
     \<or> (\<exists>d. s = ''-'' @ d @ ''.json'' \<and> length d = 64 \<and> list_all is_lower_hex d)"
  unfolding match_tail_def
  by (auto split: option.splits simp del: append_Cons)
     (auto simp: take_hex_def strip_prefix_def)

lemma match_kind_iff [simp]:
  "match_kind s = Some (k, t) \<longleftrightarrow> s = k @ t \<and> k \<in> {''plan'', ''review''}"
  by (auto simp: match_kind_def strip_prefix_def starts_with_iff split: option.splits if_splits)

lemma match_round_iff [simp]:
  "match_round s = Some r \<longleftrightarrow> (\<exists>c t. s = CHR ''-'' # c # t \<and> match_tail t \<and> round_digit c = Some r)"
  by (auto simp: match_round_def strip_prefix_def starts_with_iff neq_Nil_conv
      split: option.splits list.splits if_splits)

lemma round_digit_iff: "(\<exists>r. round_digit c = Some r) \<longleftrightarrow> c \<in> {CHR ''0'', CHR ''1'', CHR ''2''}"
  by (auto simp: round_digit_def)

lemma match_artifact_iff:
  "match_artifact s = Some (job, kind, r) \<longleftrightarrow>
     (\<exists>c t. s = ''.artifacts/'' @ job @ ''/'' @ kind @ ''-'' @ c # t \<and> length job = 12
        \<and> list_all is_lower_hex job \<and> kind \<in> {''plan'', ''review''} \<and> match_tail t
        \<and> round_digit c = Some r)"
  (is "?l \<longleftrightarrow> ?r")
proof
  assume ?l
  then show ?r by (auto simp: match_artifact_def case_option_Some_iff)
next
  assume ?r
  then obtain c t where s: "s = ''.artifacts/'' @ job @ ''/'' @ kind @ ''-'' @ c # t"
    and job: "length job = 12" "list_all is_lower_hex job" "kind \<in> {''plan'', ''review''}"
    and round: "match_tail t" "round_digit c = Some r" by blast
  have e1: "take_hex 12 (job @ ''/'' @ kind @ ''-'' @ c # t) = Some (job, ''/'' @ kind @ ''-'' @ c # t)"
    using job by (simp del: append_Cons)
  have e2: "match_kind (kind @ ''-'' @ c # t) = Some (kind, ''-'' @ c # t)"
    using job(3) by (simp del: append_Cons)
  have e3: "match_round (''-'' @ c # t) = Some r" using round by simp
  show ?l
    unfolding s match_artifact_def
    by (simp only: e1 e2 e3 strip_prefix_append option.case prod.case)
qed

lemma match_tail_digest:
  "match_tail t \<longleftrightarrow> (\<exists>digest. t = (case digest of None \<Rightarrow> '''' | Some d \<Rightarrow> ''-'' @ d) @ ''.json''
     \<and> (\<forall>d. digest = Some d \<longrightarrow> length d = 64 \<and> list_all is_lower_hex d))"
  unfolding match_tail_iff by (simp add: split_option_ex)

lemma match_artifact_text:
  "match_artifact s = Some (job, kind, r) \<longleftrightarrow>
     (\<exists>c digest. artifact_parts_ok job kind c digest \<and> s = artifact_text job kind c digest
        \<and> round_digit c = Some r)"
proof
  assume "match_artifact s = Some (job, kind, r)"
  then obtain c t where s: "s = ''.artifacts/'' @ job @ ''/'' @ kind @ ''-'' @ c # t"
    and parts: "length job = 12" "list_all is_lower_hex job" "kind \<in> {''plan'', ''review''}"
    and t: "match_tail t" and c: "round_digit c = Some r"
    unfolding match_artifact_iff by blast
  from t obtain digest where d: "t = (case digest of None \<Rightarrow> '''' | Some d \<Rightarrow> ''-'' @ d) @ ''.json''"
    "\<forall>d. digest = Some d \<longrightarrow> length d = 64 \<and> list_all is_lower_hex d"
    unfolding match_tail_digest by blast
  have "c \<in> {CHR ''0'', CHR ''1'', CHR ''2''}" using c round_digit_iff by blast
  with parts d(2) have "artifact_parts_ok job kind c digest"
    unfolding artifact_parts_ok_def by blast
  moreover have "s = artifact_text job kind c digest"
    unfolding s artifact_text_def d(1) by (rule refl)
  ultimately show "\<exists>c digest. artifact_parts_ok job kind c digest
      \<and> s = artifact_text job kind c digest \<and> round_digit c = Some r"
    using c by blast
next
  assume "\<exists>c digest. artifact_parts_ok job kind c digest
      \<and> s = artifact_text job kind c digest \<and> round_digit c = Some r"
  then obtain c digest where ok: "artifact_parts_ok job kind c digest"
    and s: "s = artifact_text job kind c digest" and c: "round_digit c = Some r" by blast
  have "match_tail ((case digest of None \<Rightarrow> '''' | Some d \<Rightarrow> ''-'' @ d) @ ''.json'')"
    unfolding match_tail_digest using ok [unfolded artifact_parts_ok_def] by blast
  with ok c show "match_artifact s = Some (job, kind, r)"
    unfolding match_artifact_iff s artifact_text_def artifact_parts_ok_def by blast
qed

text \<open>
  The reference parser accepts exactly the documented file names: a text parses for a job
  and kind if and only if it is the path of that job, kind, a round from 0 to 2 and an optional
  digest of 64 lower-case hexadecimal digits, and the parsed reference carries the text, the
  job, the kind and the number of the round digit.
\<close>

theorem artifact_reference_language:
  "parse_artifact_reference s job kind = Inr a \<longleftrightarrow>
     (\<exists>c digest. artifact_parts_ok job kind c digest \<and> s = artifact_text job kind c digest
        \<and> round_digit c = Some (ar_round a)
        \<and> a = \<lparr>ar_value = s, ar_job_id = job, ar_kind = kind, ar_round = ar_round a\<rparr>)"
proof -
  have "parse_artifact_reference s job kind = Inr a \<longleftrightarrow>
      match_artifact s = Some (job, kind, ar_round a)
      \<and> a = \<lparr>ar_value = s, ar_job_id = job, ar_kind = kind, ar_round = ar_round a\<rparr>"
    by (cases a)
       (auto simp: parse_artifact_reference_def ArtifactReference_init_def Let_def
          split: option.splits)
  then show ?thesis unfolding match_artifact_text by blast
qed

section \<open>The plan approval gate\<close>

datatype approval_op =
    RecordBoundary approval_proof
  | AwaitQuestion string string string string bool
  | ApprovePlan plan_approval_source string string bool "string option" "string option"
  | ObservePlan
  | CountPlan

fun approval_step :: "plan_approval \<Rightarrow> approval_op \<Rightarrow> workflow_error + plan_approval" where
  "approval_step a (RecordBoundary p) = record_boundary a p"
| "approval_step a (AwaitQuestion q t p r acc) = await_question a q t p r acc"
| "approval_step a (ApprovePlan s p r acc q t) = approve_plan a s p r acc q t"
| "approval_step a ObservePlan = observe_plan a"
| "approval_step a CountPlan = count_plan a"

definition approval_ok :: "plan_approval \<Rightarrow> bool" where
  "approval_ok a \<longleftrightarrow> PlanApproval_check a = Inr a"

definition accepted_plan :: "plan_approval \<Rightarrow> bool" where
  "accepted_plan a \<longleftrightarrow> otruthy (pa_plan_reference a) \<and> otruthy (pa_review_reference a)
     \<and> pa_review_accepted a"

lemma PlanApproval_check_iff [result_simps]:
  "PlanApproval_check a = Inr b \<longleftrightarrow> b = a
     \<and> (pa_state a = PaNone \<longleftrightarrow> pa_proof a = None)
     \<and> (pa_state a \<in> {PaNone, PaBoundary, PaAwaiting} \<longrightarrow> pa_source a = None)
     \<and> (is_legacy_proof (pa_proof a) \<longleftrightarrow> pa_source a = Some SrcLegacy)
     \<and> (pa_state a = PaAwaiting \<longrightarrow> otruthy (pa_question_id a)
          \<and> otruthy (pa_question_turn_token a) \<and> accepted_plan a)
     \<and> (pa_state a \<in> {PaApproved, PaObserved} \<longrightarrow> pa_source a \<noteq> None \<and> accepted_plan a)
     \<and> (pa_counted a \<longrightarrow> pa_source a = Some SrcExplicit \<and> pa_state a \<in> {PaApproved, PaObserved})"
  unfolding PlanApproval_check_def if_Inl_Inr_iff accepted_plan_def
  by (cases "pa_state a"; simp) blast+

lemma approval_step_ok: "approval_step a op = Inr b \<Longrightarrow> approval_ok b"
  by (cases op)
     (auto simp: approval_ok_def record_boundary_def await_question_def approve_plan_def
        observe_plan_def count_plan_def PlanApproval_check_iff split: if_splits)

lemma validate_plan_approval_iff [result_simps]:
  "validate_plan_approval a b = Inr u \<longleftrightarrow>
     pa_state b \<in> plan_approval_edges (pa_state a)
     \<and> (pa_proof a \<noteq> None \<and> pa_proof b \<noteq> None \<longrightarrow> pa_proof a = pa_proof b)
     \<and> (pa_counted a \<longrightarrow> pa_counted b)
     \<and> (pa_state a \<notin> {PaNone, PaBoundary} \<longrightarrow>
          pa_plan_reference a = pa_plan_reference b \<and> pa_review_reference a = pa_review_reference b)"
  unfolding validate_plan_approval_def if_Inl_Inr_iff by auto

lemma approval_step_passes_gate:
  assumes "approval_ok a" and "approval_step a op = Inr b"
  shows "validate_plan_approval a b = Inr ()"
proof -
  have counted: "pa_counted a \<Longrightarrow> pa_state a \<in> {PaApproved, PaObserved}"
    and awaiting: "pa_state a = PaAwaiting \<Longrightarrow> accepted_plan a"
    and source: "pa_source a = Some SrcExplicit \<Longrightarrow> pa_state a \<in> {PaApproved, PaObserved, PaRejected}"
    using assms(1) unfolding approval_ok_def PlanApproval_check_iff
    by (blast, blast, cases "pa_state a", simp_all)
  show ?thesis
  proof (cases op)
    case (RecordBoundary p)
    with assms(2) have "pa_state a \<in> {PaNone, PaBoundary}" "pa_proof a \<in> {None, Some p}"
      "b = no_plan_approval\<lparr>pa_state := PaBoundary, pa_proof := Some p\<rparr>"
      by (auto simp: record_boundary_def PlanApproval_check_iff split: if_splits)
    with counted show ?thesis by (auto simp: validate_plan_approval_iff)
  next
    case (AwaitQuestion q t p r acc)
    with assms(2) have "pa_state a = PaBoundary" "pa_proof b = pa_proof a" "pa_state b = PaAwaiting"
      by (auto simp: await_question_def PlanApproval_check_iff split: if_splits)
    with counted show ?thesis by (auto simp: validate_plan_approval_iff)
  next
    case (ApprovePlan src p r acc q t)
    with assms(2) have b: "pa_state a \<in> {PaBoundary, PaAwaiting}" "pa_proof b = pa_proof a"
      "pa_state b = PaApproved" "pa_plan_reference b = Some p" "pa_review_reference b = Some r"
      "pa_plan_reference a \<in> {None, Some p}" "pa_review_reference a \<in> {None, Some r}"
      by (auto simp: approve_plan_def PlanApproval_check_iff split: if_splits)
    have "pa_state a = PaAwaiting \<Longrightarrow> pa_plan_reference a \<noteq> None \<and> pa_review_reference a \<noteq> None"
      using awaiting
      by (cases "pa_plan_reference a"; cases "pa_review_reference a") (auto simp: accepted_plan_def)
    with b counted show ?thesis by (auto simp: validate_plan_approval_iff)
  next
    case ObservePlan
    with assms(2) have "pa_state a = PaApproved" "b = a\<lparr>pa_state := PaObserved\<rparr>"
      by (auto simp: observe_plan_def PlanApproval_check_iff split: if_splits)
    then show ?thesis by (simp add: validate_plan_approval_iff)
  next
    case CountPlan
    with assms(2) have "pa_source a = Some SrcExplicit" "b = a\<lparr>pa_counted := True\<rparr>"
      by (auto simp: count_plan_def PlanApproval_check_iff split: if_splits)
    with source show ?thesis by (auto simp: validate_plan_approval_iff)
  qed
qed

text \<open>
  The operations of the plan approval refine its transition gate: from a valid approval,
  every run of boundary, question, approval, observation and counting that succeeds yields valid
  approvals, and each of its steps is a transition the gate of the job model accepts, so an
  approved plan keeps its proof and its artifacts.
\<close>

theorem approval_operations_pass_gate:
  assumes "approval_ok a" and "run_steps approval_step a (ops @ [op]) = Inr c"
  shows "\<exists>b. run_steps approval_step a ops = Inr b \<and> approval_ok b \<and> approval_ok c
    \<and> validate_plan_approval b c = Inr ()"
proof -
  from assms(2) obtain b where b: "run_steps approval_step a ops = Inr b"
    "approval_step b op = Inr c"
    by (auto simp: run_steps_append result_simps)
  have "approval_ok b"
    by (rule run_steps_invariant [OF b(1), where P = approval_ok]) (use assms(1) approval_step_ok in blast)+
  with b approval_step_ok [OF b(2)] approval_step_passes_gate show ?thesis by blast
qed

text \<open>
  A counted approval is permanent: in every history of valid approvals whose neighbours
  pass the gate, once an approval is counted it stays counted, explicit, approved or observed,
  and keeps its proof and its plan and review references.
\<close>

theorem counted_approval_is_permanent:
  assumes "successively (\<lambda>x y. validate_plan_approval x y = Inr ()) (a # h)"
    and "\<forall>x \<in> set (a # h). approval_ok x" and "pa_counted a"
  shows "pa_counted (last (a # h)) \<and> pa_source (last (a # h)) = Some SrcExplicit
    \<and> pa_state (last (a # h)) \<in> {PaApproved, PaObserved}
    \<and> pa_proof (last (a # h)) = pa_proof a
    \<and> pa_plan_reference (last (a # h)) = pa_plan_reference a
    \<and> pa_review_reference (last (a # h)) = pa_review_reference a"
proof -
  have counted: "pa_source x = Some SrcExplicit \<and> pa_state x \<in> {PaApproved, PaObserved}
      \<and> pa_proof x \<noteq> None" if "x \<in> set (a # h)" "pa_counted x" for x
  proof -
    have "PlanApproval_check x = Inr x" using assms(2) that(1) unfolding approval_ok_def by blast
    with that(2) show ?thesis unfolding PlanApproval_check_iff by auto
  qed
  have "pa_counted (last (a # h)) \<and> pa_proof (last (a # h)) = pa_proof a
      \<and> pa_plan_reference (last (a # h)) = pa_plan_reference a
      \<and> pa_review_reference (last (a # h)) = pa_review_reference a"
  proof (rule successively_invariant [OF assms(1)])
    fix x y
    assume x: "x \<in> set (a # h)" "y \<in> set h" "pa_counted x \<and> pa_proof x = pa_proof a
        \<and> pa_plan_reference x = pa_plan_reference a \<and> pa_review_reference x = pa_review_reference a"
      and gate: "validate_plan_approval x y = Inr ()"
    then have "pa_counted y" unfolding validate_plan_approval_iff by blast
    with counted [of x] counted [of y] x gate
    show "pa_counted y \<and> pa_proof y = pa_proof a
        \<and> pa_plan_reference y = pa_plan_reference a \<and> pa_review_reference y = pa_review_reference a"
      unfolding validate_plan_approval_iff by auto
  qed (use assms(3) in simp)
  with counted [of "last (a # h)"] show ?thesis by simp
qed

section \<open>Participants\<close>

lemma ParticipantCreation_check_Inr: "ParticipantCreation_check c = Inr d \<Longrightarrow> d = c"
  by (auto simp: ParticipantCreation_check_def split: if_splits)

lemma validate_creation_iff [result_simps]:
  "validate_creation a b = Inr u \<longleftrightarrow>
     pc_state b \<in> creation_edges (pc_state a)
     \<and> (pc_state a \<notin> {CrNone, CrFailed} \<and> pc_state b \<noteq> CrNone \<longrightarrow>
          creation_identity a = creation_identity b)"
  unfolding validate_creation_def if_Inl_Inr_iff by auto

lemma creation_steps_pass_gate:
  "begin_creation c = Inr d \<Longrightarrow> validate_creation c d = Inr ()"
  "created_participant c pane ws = Inr d \<Longrightarrow> validate_creation c d = Inr ()"
  "require_manual c = Inr d \<Longrightarrow> validate_creation c d = Inr ()"
  by (auto simp: begin_creation_def created_participant_def require_manual_def
      validate_creation_iff creation_identity_def split: if_splits
      dest!: ParticipantCreation_check_Inr)

text \<open>
  A participant whose creation became uncertain is never submitted a second time: in every
  history of creations that passes the gate and never gives the creation up, a creation that is
  ambiguous, created or handed to manual reconciliation is not planned or submitted again, and
  role, target, label and workspace stay the same.
\<close>

theorem creation_not_resubmitted:
  assumes "successively (\<lambda>x y. validate_creation x y = Inr ()) (a # h)"
    and "pc_state a \<in> {CrAmbiguous, CrCreated, CrManualRequired}"
    and "CrNone \<notin> pc_state ` set h"
  shows "pc_state (last (a # h)) \<in> {CrAmbiguous, CrCreated, CrManualRequired}
    \<and> creation_identity (last (a # h)) = creation_identity a"
proof (rule successively_invariant [OF assms(1)])
  fix x y
  assume "y \<in> set h" and x: "pc_state x \<in> {CrAmbiguous, CrCreated, CrManualRequired}
      \<and> creation_identity x = creation_identity a"
    and gate: "validate_creation x y = Inr ()"
  then have "pc_state y \<noteq> CrNone" using assms(3) by (metis imageI)
  with x gate show "pc_state y \<in> {CrAmbiguous, CrCreated, CrManualRequired}
      \<and> creation_identity y = creation_identity a"
    by (auto simp: validate_creation_iff)
qed (use assms(2) in simp)

section \<open>Witnesses\<close>

definition reviewed_run :: "workflow_op list" where
  "reviewed_run = [Classify TierSimple ''small'', Promote TierMedium ''grew'', MoveTo PhReviewing,
                   MoveTo PhImplementing]"

definition reviewed_workflow :: workflow_state where
  "reviewed_workflow =
     \<lparr>ws_phase = PhImplementing, ws_classification = Some \<lparr>cl_tier = TierMedium, cl_reason = ''grew''\<rparr>\<rparr>"

lemma reviewed_run_result: "run_steps workflow_step initial_workflow reviewed_run = Inr reviewed_workflow"
  by (simp add: reviewed_run_def initial_workflow_def reviewed_workflow_def classify_workflow_def
      promote_workflow_def promote_classification_def workflow_transition_def
      WorkflowClassification_init_def WorkflowState_init_def blank_iff py_space_def)

lemma risky_work_is_reviewed_witness:
  "\<exists>ops1 ops2 u. reviewed_run = ops1 @ ops2
     \<and> run_steps workflow_step initial_workflow ops1 = Inr u \<and> ws_phase u = PhReviewing"
  by (rule risky_work_is_reviewed [OF reviewed_run_result,
        where c = "\<lparr>cl_tier = TierMedium, cl_reason = ''grew''\<rparr>"])
     (simp_all add: reviewed_workflow_def less_workflow_tier_def)

lemma workflow_risk_only_grows_witness:
  "\<exists>w z d. run_steps workflow_step w [Promote TierHighRisk ''worse''] = Inr z
     \<and> ws_classification z = Some d \<and> tier_order (cl_tier d) \<ge> 2"
proof -
  let ?z = "\<lparr>ws_phase = PhPlanning,
             ws_classification = Some \<lparr>cl_tier = TierHighRisk, cl_reason = ''worse''\<rparr>\<rparr>"
  have r: "run_steps workflow_step reviewed_workflow [Promote TierHighRisk ''worse''] = Inr ?z"
    by (simp add: reviewed_workflow_def promote_workflow_def promote_classification_def
        WorkflowClassification_init_def WorkflowState_init_def blank_iff py_space_def)
  have ok: "workflow_ok reviewed_workflow"
    by (simp add: workflow_ok_def reviewed_workflow_def WorkflowState_init_def)
  from workflow_risk_only_grows [OF r _ _ ok] r show ?thesis
    by (fastforce simp: reviewed_workflow_def)
qed

definition demo_artifact :: "string \<Rightarrow> int \<Rightarrow> artifact_reference" where
  "demo_artifact kind r = \<lparr>ar_value = ''v'', ar_job_id = ''j'', ar_kind = kind, ar_round = r\<rparr>"

definition demo_review :: review_state where
  "demo_review = \<lparr>rs_tier = Some TierMedium, rs_round = 0,
     rs_plan = Some (demo_artifact ''plan'' 0), rs_review = Some (demo_artifact ''review'' 0),
     rs_decision = Some DecRevise, rs_source = None\<rparr>"

lemmas review_eval = publish_plan_def publish_review_def revise_review_def ReviewState_check_def
  review_artifacts_match_def demo_artifact_def demo_review_def

lemma review_rounds_bounded_witness:
  "\<exists>t. run_steps review_step demo_review [Revise, PublishPlan (demo_artifact ''plan'' 1),
         PublishReview (demo_artifact ''review'' 1) DecApprove] = Inr t
     \<and> rs_round t = 1 \<and> review_artifacts_match t"
proof -
  have "\<exists>t. run_steps review_step demo_review [Revise, PublishPlan (demo_artifact ''plan'' 1),
         PublishReview (demo_artifact ''review'' 1) DecApprove] = Inr t \<and> review_approved t"
    by (simp add: review_eval review_approved_def)
  then obtain t where t: "run_steps review_step demo_review [Revise,
      PublishPlan (demo_artifact ''plan'' 1),
      PublishReview (demo_artifact ''review'' 1) DecApprove] = Inr t" "review_approved t" by blast
  have "review_ok demo_review" by (simp add: review_ok_def review_eval)
  from review_rounds_bounded [OF t(1) this] t show ?thesis by (auto simp: demo_review_def)
qed

lemma revision_needs_fresh_artifacts_witness:
  "\<exists>t u ops. revise_review demo_review = Inr t \<and> run_steps review_step t ops = Inr u
     \<and> (\<exists>a. PublishPlan a \<in> set ops)"
proof -
  let ?t = "demo_review\<lparr>rs_round := 1\<rparr>"
  let ?ops = "[PublishPlan (demo_artifact ''plan'' 1),
         PublishReview (demo_artifact ''review'' 1) DecApprove]"
  have t: "revise_review demo_review = Inr ?t" by (simp add: review_eval)
  have "\<exists>u. run_steps review_step ?t ?ops = Inr u \<and> review_approved u"
    by (simp add: review_eval review_approved_def)
  then obtain u where u: "run_steps review_step ?t ?ops = Inr u" "review_approved u" by blast
  have ok: "review_ok demo_review" by (simp add: review_ok_def review_eval)
  from revision_needs_fresh_artifacts [OF t ok _ _ u(1) _ u(2)] t u(1) show ?thesis
    by (intro exI [of _ ?t] exI [of _ u] exI [of _ ?ops]) (simp add: demo_review_def demo_artifact_def)
qed

definition boundary_approval :: plan_approval where
  "boundary_approval = no_plan_approval\<lparr>pa_state := PaBoundary,
     pa_proof := Some (PlanApprovalProof ''g'' ''s'' 3 1)\<rparr>"

definition counted_approval :: plan_approval where
  "counted_approval = boundary_approval\<lparr>pa_state := PaApproved, pa_source := Some SrcExplicit,
     pa_plan_reference := Some ''p'', pa_review_reference := Some ''r'', pa_review_accepted := True,
     pa_counted := True\<rparr>"

lemma approval_ok_demo: "approval_ok boundary_approval" "approval_ok counted_approval"
  "approval_ok (counted_approval\<lparr>pa_state := PaObserved\<rparr>)"
  by (simp_all add: approval_ok_def boundary_approval_def counted_approval_def
      PlanApproval_check_def no_plan_approval_def)

lemma approval_operations_pass_gate_witness:
  "run_steps approval_step boundary_approval
     [ApprovePlan SrcExplicit ''p'' ''r'' True None None, CountPlan] = Inr counted_approval
   \<and> (\<exists>b. validate_plan_approval b counted_approval = Inr ())"
proof -
  have r: "run_steps approval_step boundary_approval
      ([ApprovePlan SrcExplicit ''p'' ''r'' True None None] @ [CountPlan]) = Inr counted_approval"
    by (simp add: boundary_approval_def counted_approval_def approve_plan_def count_plan_def
        PlanApproval_check_def no_plan_approval_def)
  from approval_operations_pass_gate [OF approval_ok_demo(1) r] r show ?thesis by auto
qed

lemma counted_approval_is_permanent_witness:
  "validate_plan_approval counted_approval (counted_approval\<lparr>pa_state := PaObserved\<rparr>) = Inr ()
   \<and> pa_counted (counted_approval\<lparr>pa_state := PaObserved\<rparr>)"
proof -
  have v: "validate_plan_approval counted_approval (counted_approval\<lparr>pa_state := PaObserved\<rparr>) = Inr ()"
    by (simp add: validate_plan_approval_def counted_approval_def)
  have c: "pa_counted counted_approval" by (simp add: counted_approval_def)
  from counted_approval_is_permanent [of counted_approval
      "[counted_approval\<lparr>pa_state := PaObserved\<rparr>]"] v c approval_ok_demo
  show ?thesis by simp
qed

definition demo_creation :: "creation_state \<Rightarrow> participant_creation" where
  "demo_creation st = \<lparr>pc_state = st, pc_participant = Some Planner, pc_target = Some ''t'',
     pc_label = Some ''l'', pc_workspace_id = Some ''w'', pc_pane_id = Some ''p''\<rparr>"

lemma creation_not_resubmitted_witness:
  "creation_identity (last [demo_creation CrAmbiguous, demo_creation CrManualRequired,
     demo_creation CrCreated]) = creation_identity (demo_creation CrAmbiguous)"
  using creation_not_resubmitted [of "demo_creation CrAmbiguous"
      "[demo_creation CrManualRequired, demo_creation CrCreated]"]
  by (simp add: validate_creation_def demo_creation_def creation_identity_def)

end
