(* ===== verification/Job_Lifecycle.thy ===== *)
theory Job_Lifecycle imports Lifecycle Operation_Machines Prompt_Machine Workflow_Machine begin

text \<open>
  \<open>job_lifecycle.py\<close>: the agent-neutral lifecycle of a durable job. The job is a union of one
  class per state group, an event carries the revision it expects and the complete next value,
  and \<open>apply_event\<close> is the only way from one to the other. Session control and follow-up jobs are
  the two further state machines of the module.
\<close>

datatype lifecycle_violation = JobLifecycleError string

section \<open>States and identity\<close>

datatype job_state =
    JsQueued | JsRouting | JsRunning | JsAwaitingUser | JsBlocked | JsReconciling
  | JsCompleted | JsFailed | JsCancelled

fun job_state_value :: "job_state \<Rightarrow> string" where
  "job_state_value JsQueued = ''queued''"
| "job_state_value JsRouting = ''routing''"
| "job_state_value JsRunning = ''running''"
| "job_state_value JsAwaitingUser = ''awaiting_user''"
| "job_state_value JsBlocked = ''blocked''"
| "job_state_value JsReconciling = ''reconciling''"
| "job_state_value JsCompleted = ''completed''"
| "job_state_value JsFailed = ''failed''"
| "job_state_value JsCancelled = ''cancelled''"

datatype session_control_mode = Automated | UserOwned

record session_control =
  sc_mode :: session_control_mode
  sc_generation :: int

definition SessionControlState_init ::
  "session_control_mode \<Rightarrow> int \<Rightarrow> lifecycle_violation + session_control" where
  "SessionControlState_init mode generation =
     (if generation < 0
      then Inl (JobLifecycleError ''session control generation must not be negative'')
      else Inr \<lparr>sc_mode = mode, sc_generation = generation\<rparr>)"

definition relinquish :: "session_control \<Rightarrow> lifecycle_violation + session_control" where
  "relinquish s =
     (if sc_mode s \<noteq> Automated
      then Inl (JobLifecycleError ''session control is already user-owned'')
      else SessionControlState_init UserOwned (sc_generation s + 1))"

definition resume :: "session_control \<Rightarrow> lifecycle_violation + session_control" where
  "resume s =
     (if sc_mode s \<noteq> UserOwned
      then Inl (JobLifecycleError ''session control is not user-owned'')
      else SessionControlState_init Automated (sc_generation s + 1))"

record job_identity =
  ji_id :: string
  ji_created_at :: py_float
  ji_parent_id :: "string option"
  ji_request :: string
  ji_harness :: string
  ji_provider :: "string option"
  ji_revision :: int

text \<open>The two regular expressions: twelve lower-case hexadecimal digits, and a provider name.\<close>

definition is_job_id :: "string \<Rightarrow> bool" where
  "is_job_id s \<longleftrightarrow> length s = 12 \<and> list_all is_lower_hex s"

definition is_lower_letter :: "char \<Rightarrow> bool" where
  "is_lower_letter c \<longleftrightarrow> (let n = of_char c :: nat in 97 \<le> n \<and> n \<le> 122)"

definition is_digit_char :: "char \<Rightarrow> bool" where
  "is_digit_char c \<longleftrightarrow> (let n = of_char c :: nat in 48 \<le> n \<and> n \<le> 57)"

fun is_provider_name :: "string \<Rightarrow> bool" where
  "is_provider_name [] = False"
| "is_provider_name (c # s) \<longleftrightarrow> is_lower_letter c
     \<and> list_all (\<lambda>d. is_lower_letter d \<or> is_digit_char d \<or> d = CHR ''-'') s"

definition JobIdentity_check :: "job_identity \<Rightarrow> lifecycle_violation + job_identity" where
  "JobIdentity_check i =
     (if \<not> is_job_id (ji_id i)
      then Inl (JobLifecycleError ''job id must be 12 lowercase hexadecimal characters'')
      else if (case ji_parent_id i of
                 None \<Rightarrow> False | Some p \<Rightarrow> \<not> is_job_id p \<or> p = ji_id i)
      then Inl (JobLifecycleError ''job parent identity is invalid'')
      else if blank (ji_harness i)
      then Inl (JobLifecycleError ''job harness identity must not be empty'')
      else if (case ji_provider i of None \<Rightarrow> False | Some p \<Rightarrow> \<not> is_provider_name p)
      then Inl (JobLifecycleError ''job provider identity is invalid'')
      else if \<not> is_finite (ji_created_at i)
      then Inl (JobLifecycleError ''job creation time must be finite'')
      else if ji_revision i < 0
      then Inl (JobLifecycleError ''job revision must not be negative'')
      else Inr i)"

definition next_revision :: "job_identity \<Rightarrow> lifecycle_violation + job_identity" where
  "next_revision i = JobIdentity_check (i\<lparr>ji_revision := ji_revision i + 1\<rparr>)"

section \<open>The job as a union\<close>

record execution_components =
  ec_prompt :: "prompt_operation option"
  ec_workflow :: workflow_state

datatype job_lifecycle =
    QueuedJob job_identity py_float execution_components "worker_ownership option"
  | RoutingProvisioningJob job_identity worker_ownership execution_components
  | RunningJob job_identity worker_ownership execution_components
  | AwaitingUserJob job_identity string string execution_components
  | BlockedJob job_identity string py_float execution_components
  | ReconcilingJob job_identity execution_components cleanup_state "terminal_intent option"
      "worker_ownership option"
  | TerminalJob job_identity execution_components materialized_outcome

text \<open>
  The constructors' own checks; the checks that a field has its declared class are the types of
  the union.
\<close>

definition QueuedJob_init ::
  "job_identity \<Rightarrow> py_float \<Rightarrow> execution_components \<Rightarrow> worker_ownership option \<Rightarrow>
   lifecycle_violation + job_lifecycle" where
  "QueuedJob_init i queued_at ex w =
     (if \<not> is_finite queued_at
      then Inl (JobLifecycleError ''queued job requires a finite queued time'')
      else Inr (QueuedJob i queued_at ex w))"

definition AwaitingUserJob_init ::
  "job_identity \<Rightarrow> string \<Rightarrow> string \<Rightarrow> execution_components \<Rightarrow>
   lifecycle_violation + job_lifecycle" where
  "AwaitingUserJob_init i question res ex =
     (if blank question \<or> blank res
      then Inl (JobLifecycleError ''awaiting-user job requires question and result'')
      else Inr (AwaitingUserJob i question res ex))"

definition BlockedJob_init ::
  "job_identity \<Rightarrow> string \<Rightarrow> py_float \<Rightarrow> execution_components \<Rightarrow>
   lifecycle_violation + job_lifecycle" where
  "BlockedJob_init i res blocked_at ex =
     (if blank res \<or> \<not> is_finite blocked_at
      then Inl (JobLifecycleError ''blocked job requires result and blocked time'')
      else Inr (BlockedJob i res blocked_at ex))"

fun has_release_fence :: "cleanup_state \<Rightarrow> bool" where
  "has_release_fence (CleanupPending _ _) = True"
| "has_release_fence (CleanupOwned _ _ _ _ _) = True"
| "has_release_fence _ = False"

definition ReconcilingJob_init ::
  "job_identity \<Rightarrow> execution_components \<Rightarrow> cleanup_state \<Rightarrow> terminal_intent option \<Rightarrow>
   worker_ownership option \<Rightarrow> lifecycle_violation + job_lifecycle" where
  "ReconcilingJob_init i ex cleanup intent w =
     (if intent \<noteq> None \<and> \<not> has_release_fence cleanup
      then Inl (JobLifecycleError ''terminal intent requires a pending cleanup release fence'')
      else Inr (ReconcilingJob i ex cleanup intent w))"

fun job_identity_of :: "job_lifecycle \<Rightarrow> job_identity" where
  "job_identity_of (QueuedJob i _ _ _) = i"
| "job_identity_of (RoutingProvisioningJob i _ _) = i"
| "job_identity_of (RunningJob i _ _) = i"
| "job_identity_of (AwaitingUserJob i _ _ _) = i"
| "job_identity_of (BlockedJob i _ _ _) = i"
| "job_identity_of (ReconcilingJob i _ _ _ _) = i"
| "job_identity_of (TerminalJob i _ _) = i"

text \<open>\<open>getattr(current, "worker", None)\<close>.\<close>

fun job_worker :: "job_lifecycle \<Rightarrow> worker_ownership option" where
  "job_worker (QueuedJob _ _ _ w) = w"
| "job_worker (RoutingProvisioningJob _ w _) = Some w"
| "job_worker (RunningJob _ w _) = Some w"
| "job_worker (ReconcilingJob _ _ _ _ w) = w"
| "job_worker _ = None"

text \<open>
  The \<open>state\<close> of a terminal job is its outcome's status, which the outcome's constructor limits
  to the three terminal names.
\<close>

definition outcome_state :: "materialized_outcome \<Rightarrow> job_state" where
  "outcome_state o' =
     (if mo_status o' = ''completed'' then JsCompleted
      else if mo_status o' = ''failed'' then JsFailed else JsCancelled)"

fun lifecycle_state :: "job_lifecycle \<Rightarrow> job_state" where
  "lifecycle_state (QueuedJob _ _ _ _) = JsQueued"
| "lifecycle_state (RoutingProvisioningJob _ _ _) = JsRouting"
| "lifecycle_state (RunningJob _ _ _) = JsRunning"
| "lifecycle_state (AwaitingUserJob _ _ _ _) = JsAwaitingUser"
| "lifecycle_state (BlockedJob _ _ _ _) = JsBlocked"
| "lifecycle_state (ReconcilingJob _ _ _ _ _) = JsReconciling"
| "lifecycle_state (TerminalJob _ _ out) = outcome_state out"

fun legal_edges :: "job_state \<Rightarrow> job_state set" where
  "legal_edges JsQueued = {JsRouting, JsReconciling, JsFailed, JsCancelled}"
| "legal_edges JsRouting =
     {JsQueued, JsRunning, JsReconciling, JsAwaitingUser, JsFailed, JsCancelled}"
| "legal_edges JsRunning =
     {JsQueued, JsAwaitingUser, JsBlocked, JsReconciling, JsCompleted, JsFailed, JsCancelled}"
| "legal_edges JsReconciling =
     {JsQueued, JsAwaitingUser, JsBlocked, JsCompleted, JsFailed, JsCancelled}"
| "legal_edges JsAwaitingUser = {JsQueued, JsReconciling, JsCompleted, JsCancelled}"
| "legal_edges JsBlocked = {JsQueued, JsReconciling, JsCancelled}"
| "legal_edges JsCompleted = {}"
| "legal_edges JsFailed = {}"
| "legal_edges JsCancelled = {}"

section \<open>Events\<close>

datatype job_event =
    LifecycleEvent int job_lifecycle
  | RecoveryEvent int job_lifecycle
  | CancellationEvent int job_lifecycle
  | WorkerCallbackEvent int job_lifecycle worker_ownership

fun expected_revision :: "job_event \<Rightarrow> int" where
  "expected_revision (LifecycleEvent r _) = r"
| "expected_revision (RecoveryEvent r _) = r"
| "expected_revision (CancellationEvent r _) = r"
| "expected_revision (WorkerCallbackEvent r _ _) = r"

fun event_next_state :: "job_event \<Rightarrow> job_lifecycle" where
  "event_next_state (LifecycleEvent _ j) = j"
| "event_next_state (RecoveryEvent _ j) = j"
| "event_next_state (CancellationEvent _ j) = j"
| "event_next_state (WorkerCallbackEvent _ j _) = j"

fun callback_worker :: "job_event \<Rightarrow> worker_ownership option" where
  "callback_worker (WorkerCallbackEvent _ _ w) = Some w"
| "callback_worker _ = None"

fun is_recovery :: "job_event \<Rightarrow> bool" where
  "is_recovery (RecoveryEvent _ _) = True"
| "is_recovery _ = False"

fun terminal_outcome :: "job_lifecycle \<Rightarrow> materialized_outcome option" where
  "terminal_outcome (TerminalJob _ _ out) = Some out"
| "terminal_outcome _ = None"

definition apply_event :: "job_lifecycle \<Rightarrow> job_event \<Rightarrow> lifecycle_violation + job_lifecycle" where
  "apply_event current ev =
     (if expected_revision ev \<noteq> ji_revision (job_identity_of current)
      then Inl (JobLifecycleError ''stale job lifecycle event revision'')
      else let after = event_next_state ev in
        rbind (next_revision (job_identity_of current)) (\<lambda>expected.
          if job_identity_of after \<noteq> expected
          then Inl (JobLifecycleError
                 (''job identity, creation, parent, request, harness, provider, ''
                  @ ''or revision changed outside a transition''))
          else if callback_worker ev \<noteq> None \<and> job_worker current \<noteq> callback_worker ev
          then Inl (JobLifecycleError ''stale worker callback identity'')
          else if lifecycle_state current = lifecycle_state after
          then (case (terminal_outcome current, terminal_outcome after) of
                  (Some o1, Some o2) \<Rightarrow>
                    if o1 \<noteq> o2
                    then Inl (JobLifecycleError ''materialized terminal outcome is immutable'')
                    else Inr after
                | _ \<Rightarrow> Inr after)
          else if is_recovery ev \<and> lifecycle_state current = JsQueued
                  \<and> lifecycle_state after \<in> {JsCompleted, JsBlocked}
          then Inr after
          else if lifecycle_state after \<notin> legal_edges (lifecycle_state current)
          then Inl (JobLifecycleError
                 (''illegal job lifecycle transition ''
                  @ job_state_value (lifecycle_state current) @ '' -> ''
                  @ job_state_value (lifecycle_state after)))
          else Inr after))"

text \<open>A follow-up: the revision and completion time of the parent, and the queued child.\<close>

record follow_up_event =
  fu_parent_revision :: int
  fu_parent_completed_at :: time
  fu_child :: job_lifecycle

definition apply_follow_up ::
  "job_lifecycle \<Rightarrow> follow_up_event \<Rightarrow> lifecycle_violation + job_lifecycle" where
  "apply_follow_up parent ev =
     (if fu_parent_revision ev \<noteq> ji_revision (job_identity_of parent)
      then Inl (JobLifecycleError ''stale follow-up parent revision'')
      else case terminal_outcome parent of
             None \<Rightarrow> Inl (JobLifecycleError ''follow-up requires a completed parent'')
           | Some out \<Rightarrow>
               if lifecycle_state parent \<noteq> JsCompleted
               then Inl (JobLifecycleError ''follow-up requires a completed parent'')
               else if mo_completed_at out \<noteq> fu_parent_completed_at ev
               then Inl (JobLifecycleError ''stale follow-up completion identity'')
               else let child = job_identity_of (fu_child ev); p = job_identity_of parent in
                 if ji_parent_id child \<noteq> Some (ji_id p) \<or> ji_harness child \<noteq> ji_harness p
                    \<or> ji_provider child \<noteq> ji_provider p \<or> ji_revision child \<noteq> 0
                 then Inl (JobLifecycleError
                        ''follow-up must inherit parent, harness, and provider identity'')
                 else Inr (fu_child ev))"

end
