(* ===== verification/Py_Values.thy ===== *)
theory Py_Values imports Prelude begin

text \<open>
  What several components use of Python's values and text: the values of a decoded JSON document
  and \<open>str.casefold\<close>.
\<close>

section \<open>Values of a JSON document\<close>

datatype py_value =
    PyNone
  | PyBool bool
  | PyInt int
  | PyFloat py_float
  | PyStr string
  | PyList "py_value list"
  | PyDict "(string \<times> py_value) list"

type_synonym py_dict = "(string \<times> py_value) list"

text \<open>\<open>bool(v)\<close>, \<open>v == 1\<close> and \<open>d.get(k)\<close>.\<close>

fun py_truth :: "py_value \<Rightarrow> bool" where
  "py_truth PyNone = False"
| "py_truth (PyBool b) = b"
| "py_truth (PyInt i) = (i \<noteq> 0)"
| "py_truth (PyFloat x) = (x \<noteq> Finite 0)"
| "py_truth (PyStr s) = truthy s"
| "py_truth (PyList xs) = (xs \<noteq> [])"
| "py_truth (PyDict d) = (d \<noteq> [])"

fun is_one :: "py_value \<Rightarrow> bool" where
  "is_one (PyBool b) = b"
| "is_one (PyInt i) = (i = 1)"
| "is_one (PyFloat x) = (x = Finite 1)"
| "is_one _ = False"

definition py_get :: "py_dict \<Rightarrow> string \<Rightarrow> py_value" where
  "py_get d k = (case map_of d k of None \<Rightarrow> PyNone | Some v \<Rightarrow> v)"

section \<open>Case folding\<close>

text \<open>
  \<open>str.casefold\<close> below code point 256: capital letters become small, the sharp s becomes two
  letters. The micro sign, whose folding lies outside the range, is left alone.
\<close>

definition fold_char :: "char \<Rightarrow> string" where
  "fold_char c = (let n = of_char c :: nat in
     if (65 \<le> n \<and> n \<le> 90) \<or> (192 \<le> n \<and> n \<le> 222 \<and> n \<noteq> 215) then [char_of (n + 32)]
     else if n = 223 then ''ss'' else [c])"

definition casefold :: "string \<Rightarrow> string" where
  "casefold s = concat (map fold_char s)"

end
