(* ===== verification/Questions.thy ===== *)
theory Questions imports Prompt_Operations Py_Values begin

text \<open>
  \<open>questions/__init__.py\<close>: the contract of a question an agent asks the user. A question is a
  checked value with an identity fence, moved along a table of legal states; its JSON envelope
  is written and read back; an answer is resolved against the question's controls and choices by
  exact comparison of normalised text; and the prompt that carries the answer to the agent is
  kept in the question's own fields, as an operation of \<open>Prompt_Operations\<close>.

  An error is a \<open>QuestionError\<close>; the two messages that Python's library composes from an
  arbitrary value (an unknown member of an enumeration) are kept as the enumeration's name and
  the value. An error of the prompt machine passes through unchanged.
\<close>

section \<open>Enumerations\<close>

datatype question_error =
    QuestionError string
  | QuestionValueError string py_value
  | QuestionPromptError prompt_error

datatype question_kind = FreeText | MultipleChoice

fun question_kind_value :: "question_kind \<Rightarrow> string" where
  "question_kind_value FreeText = ''free_text''"
| "question_kind_value MultipleChoice = ''multiple_choice''"

definition parse_question_kind :: "string \<Rightarrow> question_kind option" where
  "parse_question_kind s =
     (if s = ''free_text'' then Some FreeText
      else if s = ''multiple_choice'' then Some MultipleChoice else None)"

datatype question_sensitivity =
  SenUnspecified | SenRoutine | SenSecurity | SenDestructive | SenArchitecture | SenProduct

fun question_sensitivity_value :: "question_sensitivity \<Rightarrow> string" where
  "question_sensitivity_value SenUnspecified = ''unspecified''"
| "question_sensitivity_value SenRoutine = ''routine''"
| "question_sensitivity_value SenSecurity = ''security''"
| "question_sensitivity_value SenDestructive = ''destructive''"
| "question_sensitivity_value SenArchitecture = ''architecture''"
| "question_sensitivity_value SenProduct = ''product''"

definition parse_question_sensitivity :: "string \<Rightarrow> question_sensitivity option" where
  "parse_question_sensitivity s =
     (if s = ''unspecified'' then Some SenUnspecified
      else if s = ''routine'' then Some SenRoutine
      else if s = ''security'' then Some SenSecurity
      else if s = ''destructive'' then Some SenDestructive
      else if s = ''architecture'' then Some SenArchitecture
      else if s = ''product'' then Some SenProduct else None)"

datatype question_state =
  QsPending | QsDeferred | QsAnswered | QsDispatching | QsResolved | QsCancelled

fun question_state_value :: "question_state \<Rightarrow> string" where
  "question_state_value QsPending = ''pending''"
| "question_state_value QsDeferred = ''deferred''"
| "question_state_value QsAnswered = ''answered''"
| "question_state_value QsDispatching = ''dispatching''"
| "question_state_value QsResolved = ''resolved''"
| "question_state_value QsCancelled = ''cancelled''"

definition parse_question_state :: "string \<Rightarrow> question_state option" where
  "parse_question_state s =
     (if s = ''pending'' then Some QsPending
      else if s = ''deferred'' then Some QsDeferred
      else if s = ''answered'' then Some QsAnswered
      else if s = ''dispatching'' then Some QsDispatching
      else if s = ''resolved'' then Some QsResolved
      else if s = ''cancelled'' then Some QsCancelled else None)"

datatype answer_outcome = AnsAccepted | AnsRejected | AnsAmbiguous | AnsRepeat | AnsDeferred

datatype answer_provenance = UserVoice | UserText | Automation

section \<open>Questions and their check\<close>

record question_identity =
  qi_job_id :: string
  qi_question_id :: string
  qi_turn_token :: string

record choice =
  ch_id :: string
  ch_label :: string

record question_origin =
  qo_provider :: string
  qo_job_id :: string
  qo_turn_token :: string

record question =
  qu_id :: string
  qu_text :: string
  qu_kind :: question_kind
  qu_sensitivity :: question_sensitivity
  qu_origin :: question_origin
  qu_choices :: "choice list"
  qu_owner :: string
  qu_state :: question_state
  qu_asked_at :: py_float
  qu_answer :: "string option"
  qu_trusted_answer :: "string option"
  qu_answered_at :: "py_float option"
  qu_dispatch_token :: "string option"
  qu_prompt_state :: "prompt_state option"
  qu_prompt_turn :: "int option"
  qu_prompt_target :: "string option"
  qu_prompt_agent_session :: "string option"
  qu_prompt_baseline_seq :: "int option"
  qu_prompt_submitted_at :: "py_float option"
  qu_prompt_absent_observations :: int

record question_spec =
  qp_text :: string
  qp_kind :: question_kind
  qp_choices :: "choice list"
  qp_sensitivity :: question_sensitivity

text \<open>The loop over the choices: the checks of one choice, then the next.\<close>

fun check_choices :: "choice list \<Rightarrow> question_error + string list" where
  "check_choices [] = Inr []"
| "check_choices (c # cs) =
     (let choice_id = strip (ch_id c); label = strip (ch_label c) in
      if choice_id = [] \<or> length choice_id > 80
      then Inl (QuestionError ''question choice id must contain 1 to 80 characters'')
      else if label = [] \<or> length label > 200
      then Inl (QuestionError ''question choice label must contain 1 to 200 characters'')
      else rbind (check_choices cs) (\<lambda>ids. Inr (casefold choice_id # ids)))"

definition validate_spec :: "question_spec \<Rightarrow> question_error + unit" where
  "validate_spec s =
     (if strip (qp_text s) = [] \<or> length (qp_text s) > 500
      then Inl (QuestionError ''question text must contain 1 to 500 characters'')
      else if qp_kind s = MultipleChoice \<and> length (qp_choices s) < 2
      then Inl (QuestionError ''multiple-choice question requires at least two choices'')
      else if length (qp_choices s) > 10
      then Inl (QuestionError ''question must not define more than ten choices'')
      else if qp_kind s = FreeText \<and> qp_choices s \<noteq> []
      then Inl (QuestionError ''free-text question must not define choices'')
      else rbind (check_choices (qp_choices s)) (\<lambda>ids.
        if \<not> distinct ids
        then Inl (QuestionError ''question choice ids must be unique'') else Inr ()))"

definition QuestionSpec_init :: "question_spec \<Rightarrow> question_error + question_spec" where
  "QuestionSpec_init s = rbind (validate_spec s) (\<lambda>_. Inr s)"

definition spec_of_question :: "question \<Rightarrow> question_spec" where
  "spec_of_question q =
     \<lparr>qp_text = qu_text q, qp_kind = qu_kind q, qp_choices = qu_choices q,
      qp_sensitivity = qu_sensitivity q\<rparr>"

definition validate_question :: "question \<Rightarrow> question_error + unit" where
  "validate_question q =
     rbind (QuestionSpec_init (spec_of_question q)) (\<lambda>_.
     if \<not> list_all (\<lambda>v. \<not> blank v)
           [qu_id q, qu_owner q, qo_provider (qu_origin q), qo_job_id (qu_origin q),
            qo_turn_token (qu_origin q)]
     then Inl (QuestionError ''question identity fields must not be empty'')
     else if qu_prompt_absent_observations q < 0
     then Inl (QuestionError ''prompt absent observations must not be negative'')
     else if (qu_prompt_turn q \<noteq> None \<or> qu_prompt_target q \<noteq> None
              \<or> qu_prompt_agent_session q \<noteq> None)
             \<and> \<not> (qu_prompt_turn q \<noteq> None \<and> qu_prompt_target q \<noteq> None
                  \<and> qu_prompt_agent_session q \<noteq> None)
     then Inl (QuestionError ''question prompt identity is incomplete'')
     else if qu_state q = QsAnswered \<and> (\<not> otruthy (qu_answer q) \<or> qu_answered_at q = None)
     then Inl (QuestionError ''answered question requires an answer and answered_at'')
     else if qu_state q = QsDispatching
             \<and> (\<not> otruthy (qu_dispatch_token q) \<or> qu_prompt_state q = None)
     then Inl (QuestionError
            ''dispatching question requires a token and prompt operation state'')
     else if qu_state q = QsDispatching
             \<and> qu_prompt_state q \<notin> Some ` {PsPlanned, PsSubmitted, PsObserved, PsResolved}
     then Inl (QuestionError ''dispatching question has an invalid prompt operation state'')
     else Inr ())"

text \<open>Every construction and every \<open>replace\<close> runs the check.\<close>

definition Question_check :: "question \<Rightarrow> question_error + question" where
  "Question_check q = rbind (validate_question q) (\<lambda>_. Inr q)"

section \<open>Transitions\<close>

fun question_edges :: "question_state \<Rightarrow> question_state set" where
  "question_edges QsPending = {QsDeferred, QsAnswered, QsResolved, QsCancelled}"
| "question_edges QsDeferred = {QsDeferred, QsAnswered, QsResolved, QsCancelled}"
| "question_edges QsAnswered = {QsDispatching, QsResolved, QsCancelled}"
| "question_edges QsDispatching = {QsDispatching, QsResolved, QsCancelled}"
| "question_edges QsResolved = {}"
| "question_edges QsCancelled = {}"

definition question_identity_of :: "question \<Rightarrow> question_identity" where
  "question_identity_of q =
     \<lparr>qi_job_id = qo_job_id (qu_origin q), qi_question_id = qu_id q,
      qi_turn_token = qo_turn_token (qu_origin q)\<rparr>"

definition validate_question_identity ::
  "question \<Rightarrow> question_identity \<Rightarrow> question_error + unit" where
  "validate_question_identity q i =
     (if i \<noteq> question_identity_of q then Inl (QuestionError ''stale question identity'')
      else Inr ())"

text \<open>
  The keyword arguments \<open>**changes\<close> of a transition: one constructor per field that may be
  passed, the eight immutable ones included, in the alphabetic order of the error message.
\<close>

datatype question_change =
    ChAskedAt py_float
  | ChChoices "choice list"
  | ChId string
  | ChKind question_kind
  | ChOrigin question_origin
  | ChOwner string
  | ChSensitivity question_sensitivity
  | ChText string
  | ChAnswer "string option"
  | ChTrustedAnswer "string option"
  | ChAnsweredAt "py_float option"
  | ChDispatchToken "string option"
  | ChPromptState "prompt_state option"
  | ChPromptTurn "int option"
  | ChPromptTarget "string option"
  | ChPromptAgentSession "string option"
  | ChPromptBaselineSeq "int option"
  | ChPromptSubmittedAt "py_float option"
  | ChPromptAbsentObservations int

fun change_name :: "question_change \<Rightarrow> string" where
  "change_name (ChAskedAt _) = ''asked_at''"
| "change_name (ChChoices _) = ''choices''"
| "change_name (ChId _) = ''id''"
| "change_name (ChKind _) = ''kind''"
| "change_name (ChOrigin _) = ''origin''"
| "change_name (ChOwner _) = ''owner''"
| "change_name (ChSensitivity _) = ''sensitivity''"
| "change_name (ChText _) = ''text''"
| "change_name (ChAnswer _) = ''answer''"
| "change_name (ChTrustedAnswer _) = ''trusted_answer''"
| "change_name (ChAnsweredAt _) = ''answered_at''"
| "change_name (ChDispatchToken _) = ''dispatch_token''"
| "change_name (ChPromptState _) = ''prompt_state''"
| "change_name (ChPromptTurn _) = ''prompt_turn''"
| "change_name (ChPromptTarget _) = ''prompt_target''"
| "change_name (ChPromptAgentSession _) = ''prompt_agent_session''"
| "change_name (ChPromptBaselineSeq _) = ''prompt_baseline_seq''"
| "change_name (ChPromptSubmittedAt _) = ''prompt_submitted_at''"
| "change_name (ChPromptAbsentObservations _) = ''prompt_absent_observations''"

definition immutable_question_fields :: "string list" where
  "immutable_question_fields =
     [''asked_at'', ''choices'', ''id'', ''kind'', ''origin'', ''owner'', ''sensitivity'', ''text'']"

fun apply_change :: "question_change \<Rightarrow> question \<Rightarrow> question" where
  "apply_change (ChAskedAt v) q = q\<lparr>qu_asked_at := v\<rparr>"
| "apply_change (ChChoices v) q = q\<lparr>qu_choices := v\<rparr>"
| "apply_change (ChId v) q = q\<lparr>qu_id := v\<rparr>"
| "apply_change (ChKind v) q = q\<lparr>qu_kind := v\<rparr>"
| "apply_change (ChOrigin v) q = q\<lparr>qu_origin := v\<rparr>"
| "apply_change (ChOwner v) q = q\<lparr>qu_owner := v\<rparr>"
| "apply_change (ChSensitivity v) q = q\<lparr>qu_sensitivity := v\<rparr>"
| "apply_change (ChText v) q = q\<lparr>qu_text := v\<rparr>"
| "apply_change (ChAnswer v) q = q\<lparr>qu_answer := v\<rparr>"
| "apply_change (ChTrustedAnswer v) q = q\<lparr>qu_trusted_answer := v\<rparr>"
| "apply_change (ChAnsweredAt v) q = q\<lparr>qu_answered_at := v\<rparr>"
| "apply_change (ChDispatchToken v) q = q\<lparr>qu_dispatch_token := v\<rparr>"
| "apply_change (ChPromptState v) q = q\<lparr>qu_prompt_state := v\<rparr>"
| "apply_change (ChPromptTurn v) q = q\<lparr>qu_prompt_turn := v\<rparr>"
| "apply_change (ChPromptTarget v) q = q\<lparr>qu_prompt_target := v\<rparr>"
| "apply_change (ChPromptAgentSession v) q = q\<lparr>qu_prompt_agent_session := v\<rparr>"
| "apply_change (ChPromptBaselineSeq v) q = q\<lparr>qu_prompt_baseline_seq := v\<rparr>"
| "apply_change (ChPromptSubmittedAt v) q = q\<lparr>qu_prompt_submitted_at := v\<rparr>"
| "apply_change (ChPromptAbsentObservations v) q = q\<lparr>qu_prompt_absent_observations := v\<rparr>"

definition transition_question ::
  "question \<Rightarrow> question_state \<Rightarrow> question_identity \<Rightarrow> question_change list \<Rightarrow>
   question_error + question" where
  "transition_question q st i changes =
     rbind (validate_question_identity q i) (\<lambda>_.
     let immutable = filter (\<lambda>f. f \<in> change_name ` set changes) immutable_question_fields in
     if immutable \<noteq> []
     then Inl (QuestionError
            (''question transition cannot change identity fields: '' @ join_comma immutable))
     else if st \<notin> question_edges (qu_state q)
     then Inl (QuestionError
            (''illegal question transition '' @ question_state_value (qu_state q) @ '' -> ''
             @ question_state_value st))
     else if st = QsDispatching \<and> (\<not> otruthy (qu_answer q) \<or> qu_answered_at q = None)
     then Inl (QuestionError ''dispatching question requires an answer and answered_at'')
     else Question_check (fold apply_change changes (q\<lparr>qu_state := st\<rparr>)))"

section \<open>The JSON envelope\<close>

fun of_opt_str :: "string option \<Rightarrow> py_value" where
  "of_opt_str None = PyNone"
| "of_opt_str (Some s) = PyStr s"

fun of_opt_int :: "int option \<Rightarrow> py_value" where
  "of_opt_int None = PyNone"
| "of_opt_int (Some i) = PyInt i"

fun of_opt_float :: "py_float option \<Rightarrow> py_value" where
  "of_opt_float None = PyNone"
| "of_opt_float (Some x) = PyFloat x"

definition choice_to_dict :: "choice \<Rightarrow> py_dict" where
  "choice_to_dict c = [(''id'', PyStr (ch_id c)), (''label'', PyStr (ch_label c))]"

definition origin_to_dict :: "question_origin \<Rightarrow> py_dict" where
  "origin_to_dict o' =
     [(''provider'', PyStr (qo_provider o')), (''job_id'', PyStr (qo_job_id o')),
      (''turn_token'', PyStr (qo_turn_token o'))]"

definition question_to_dict :: "question \<Rightarrow> py_dict" where
  "question_to_dict q =
     [(''version'', PyInt 1),
      (''id'', PyStr (qu_id q)),
      (''text'', PyStr (qu_text q)),
      (''kind'', PyStr (question_kind_value (qu_kind q))),
      (''sensitivity'', PyStr (question_sensitivity_value (qu_sensitivity q))),
      (''origin'', PyDict (origin_to_dict (qu_origin q))),
      (''choices'', PyList (map (\<lambda>c. PyDict (choice_to_dict c)) (qu_choices q))),
      (''owner'', PyStr (qu_owner q)),
      (''state'', PyStr (question_state_value (qu_state q))),
      (''asked_at'', PyFloat (qu_asked_at q)),
      (''answer'', of_opt_str (qu_answer q)),
      (''trusted_answer'', of_opt_str (qu_trusted_answer q)),
      (''answered_at'', of_opt_float (qu_answered_at q)),
      (''dispatch_token'', of_opt_str (qu_dispatch_token q)),
      (''prompt_state'', of_opt_str (map_option prompt_state_value (qu_prompt_state q))),
      (''prompt_turn'', of_opt_int (qu_prompt_turn q)),
      (''prompt_target'', of_opt_str (qu_prompt_target q)),
      (''prompt_agent_session'', of_opt_str (qu_prompt_agent_session q)),
      (''prompt_baseline_seq'', of_opt_int (qu_prompt_baseline_seq q)),
      (''prompt_submitted_at'', of_opt_float (qu_prompt_submitted_at q)),
      (''prompt_absent_observations'', PyInt (qu_prompt_absent_observations q))]"

definition required_string :: "py_dict \<Rightarrow> string \<Rightarrow> question_error + string" where
  "required_string d field =
     (case py_get d field of
        PyStr s \<Rightarrow>
          if strip s = []
          then Inl (QuestionError (''question '' @ field @ '' must be non-empty text''))
          else Inr (strip s)
      | _ \<Rightarrow> Inl (QuestionError (''question '' @ field @ '' must be non-empty text'')))"

definition optional_string :: "py_value \<Rightarrow> string \<Rightarrow> question_error + string option" where
  "optional_string v field =
     (case v of
        PyNone \<Rightarrow> Inr None
      | PyStr s \<Rightarrow> Inr (Some s)
      | _ \<Rightarrow> Inl (QuestionError (''question '' @ field @ '' must be text'')))"

text \<open>A boolean is an integer in Python, hence a number.\<close>

definition number_value :: "py_value \<Rightarrow> string \<Rightarrow> question_error + py_float" where
  "number_value v field =
     (case v of
        PyFloat x \<Rightarrow> Inr x
      | PyInt i \<Rightarrow> Inr (Finite (of_int i))
      | PyBool b \<Rightarrow> Inr (Finite (if b then 1 else 0))
      | _ \<Rightarrow> Inl (QuestionError (''question '' @ field @ '' must be a number'')))"

definition optional_number :: "py_value \<Rightarrow> string \<Rightarrow> question_error + py_float option" where
  "optional_number v field =
     (if v = PyNone then Inr None else rbind (number_value v field) (\<lambda>x. Inr (Some x)))"

definition integer_value :: "py_value \<Rightarrow> string \<Rightarrow> question_error + int" where
  "integer_value v field =
     (case v of
        PyInt i \<Rightarrow> Inr i
      | _ \<Rightarrow> Inl (QuestionError (''question '' @ field @ '' must be an integer'')))"

definition optional_int :: "py_value \<Rightarrow> string \<Rightarrow> question_error + int option" where
  "optional_int v field =
     (if v = PyNone then Inr None else rbind (integer_value v field) (\<lambda>x. Inr (Some x)))"

text \<open>
  \<open>E(str(v or default))\<close>: only a text is the value of a member, every other value is an
  unknown member.
\<close>

definition enum_member ::
  "string \<Rightarrow> (string \<Rightarrow> 'e option) \<Rightarrow> string \<Rightarrow> py_value \<Rightarrow> question_error + 'e" where
  "enum_member name parse dflt v =
     (let w = (if py_truth v then v else PyStr dflt) in
      case w of
        PyStr s \<Rightarrow> (case parse s of Some e \<Rightarrow> Inr e | None \<Rightarrow> Inl (QuestionValueError name w))
      | _ \<Rightarrow> Inl (QuestionValueError name w))"

fun choices_from_dicts :: "py_value list \<Rightarrow> question_error + choice list" where
  "choices_from_dicts [] = Inr []"
| "choices_from_dicts (PyDict d # vs) =
     rbind (required_string d ''id'') (\<lambda>i.
     rbind (required_string d ''label'') (\<lambda>l.
     rbind (choices_from_dicts vs) (\<lambda>cs. Inr (\<lparr>ch_id = i, ch_label = l\<rparr> # cs))))"
| "choices_from_dicts (_ # vs) = choices_from_dicts vs"

definition choices_from_value :: "py_value \<Rightarrow> question_error + choice list" where
  "choices_from_value v =
     (case v of
        PyList vs \<Rightarrow>
          rbind (choices_from_dicts vs) (\<lambda>cs.
            if length cs \<noteq> length vs
            then Inl (QuestionError ''question choice must be an object'') else Inr cs)
      | _ \<Rightarrow> Inl (QuestionError ''question choices must be a list''))"

definition origin_from_dict :: "py_dict \<Rightarrow> question_error + question_origin" where
  "origin_from_dict d =
     rbind (required_string d ''provider'') (\<lambda>p.
     rbind (required_string d ''job_id'') (\<lambda>j.
     rbind (required_string d ''turn_token'') (\<lambda>t.
       Inr \<lparr>qo_provider = p, qo_job_id = j, qo_turn_token = t\<rparr>)))"

definition prompt_state_from_value :: "py_value \<Rightarrow> question_error + prompt_state option" where
  "prompt_state_from_value v =
     (case v of
        PyNone \<Rightarrow> Inr None
      | PyStr s \<Rightarrow> (case parse_prompt_state s of
                     Some e \<Rightarrow> Inr (Some e)
                   | None \<Rightarrow> Inl (QuestionValueError ''PromptOperationState'' v))
      | _ \<Rightarrow> Inl (QuestionValueError ''PromptOperationState'' v))"

definition question_from_fields ::
  "py_dict \<Rightarrow> question_origin \<Rightarrow> choice list \<Rightarrow> question_error + question" where
  "question_from_fields d origin choices =
     rbind (required_string d ''id'') (\<lambda>i.
     rbind (required_string d ''text'') (\<lambda>t.
     rbind (enum_member ''QuestionKind'' parse_question_kind '''' (py_get d ''kind'')) (\<lambda>k.
     rbind (enum_member ''QuestionSensitivity'' parse_question_sensitivity ''unspecified''
              (py_get d ''sensitivity'')) (\<lambda>sen.
     rbind (required_string d ''owner'') (\<lambda>ow.
     rbind (enum_member ''QuestionState'' parse_question_state '''' (py_get d ''state'')) (\<lambda>st.
     rbind (number_value (py_get d ''asked_at'') ''asked_at'') (\<lambda>asked.
     rbind (optional_string (py_get d ''answer'') ''answer'') (\<lambda>ans.
     rbind (optional_string (py_get d ''trusted_answer'') ''trusted_answer'') (\<lambda>tans.
     rbind (optional_number (py_get d ''answered_at'') ''answered_at'') (\<lambda>ansat.
     rbind (optional_string (py_get d ''dispatch_token'') ''dispatch_token'') (\<lambda>dt.
     rbind (prompt_state_from_value (py_get d ''prompt_state'')) (\<lambda>ps.
     rbind (optional_int (py_get d ''prompt_turn'') ''prompt_turn'') (\<lambda>pt.
     rbind (optional_string (py_get d ''prompt_target'') ''prompt_target'') (\<lambda>ptar.
     rbind (optional_string (py_get d ''prompt_agent_session'') ''prompt_agent_session'') (\<lambda>pas.
     rbind (optional_int (py_get d ''prompt_baseline_seq'') ''prompt_baseline_seq'') (\<lambda>pbs.
     rbind (optional_number (py_get d ''prompt_submitted_at'') ''prompt_submitted_at'') (\<lambda>psa.
     rbind (integer_value (case map_of d ''prompt_absent_observations'' of
                             None \<Rightarrow> PyInt 0 | Some v \<Rightarrow> v) ''prompt_absent_observations'') (\<lambda>pao.
       Question_check
         \<lparr>qu_id = i, qu_text = t, qu_kind = k, qu_sensitivity = sen, qu_origin = origin,
          qu_choices = choices, qu_owner = ow, qu_state = st, qu_asked_at = asked,
          qu_answer = ans, qu_trusted_answer = tans, qu_answered_at = ansat,
          qu_dispatch_token = dt, qu_prompt_state = ps, qu_prompt_turn = pt,
          qu_prompt_target = ptar, qu_prompt_agent_session = pas,
          qu_prompt_baseline_seq = pbs, qu_prompt_submitted_at = psa,
          qu_prompt_absent_observations = pao\<rparr>))))))))))))))))))"

definition question_from_dict :: "py_value \<Rightarrow> question_error + question" where
  "question_from_dict raw =
     (case raw of
        PyDict d \<Rightarrow>
          if \<not> is_one (py_get d ''version'')
          then Inl (QuestionError ''unsupported question envelope'')
          else (case py_get d ''origin'' of
                  PyDict o' \<Rightarrow>
                    rbind (origin_from_dict o') (\<lambda>origin.
                    rbind (choices_from_value (case map_of d ''choices'' of
                                                 None \<Rightarrow> PyList [] | Some v \<Rightarrow> v)) (\<lambda>choices.
                      question_from_fields d origin choices))
                | _ \<Rightarrow> Inl (QuestionError ''question requires an origin''))
      | _ \<Rightarrow> Inl (QuestionError ''unsupported question envelope''))"

section \<open>Asking\<close>

text \<open>The structured marker of an agent, after \<open>json.loads\<close> gave the dictionary.\<close>

fun marker_choices :: "nat \<Rightarrow> py_value list \<Rightarrow> question_error + choice list" where
  "marker_choices n [] = Inr []"
| "marker_choices n (PyStr s # vs) =
     rbind (marker_choices (n + 1) vs)
       (\<lambda>cs. Inr (\<lparr>ch_id = show_nat (n + 1), ch_label = strip s\<rparr> # cs))"
| "marker_choices n (PyDict d # vs) =
     rbind (required_string d ''id'') (\<lambda>i.
     rbind (required_string d ''label'') (\<lambda>l.
     rbind (marker_choices (n + 1) vs) (\<lambda>cs. Inr (\<lparr>ch_id = i, ch_label = l\<rparr> # cs))))"
| "marker_choices n (_ # vs) =
     Inl (QuestionError ''question choice must be text or an object'')"

definition question_spec_of_marker :: "py_value \<Rightarrow> question_error + question_spec" where
  "question_spec_of_marker raw =
     (case raw of
        PyDict d \<Rightarrow>
          if \<not> is_one (py_get d ''version'')
          then Inl (QuestionError ''structured question requires version 1'')
          else
            rbind (required_string d ''text'') (\<lambda>t.
            rbind (enum_member ''QuestionKind'' parse_question_kind ''free_text''
                     (py_get d ''kind'')) (\<lambda>k.
            case map_of d ''sensitivity'' of
              None \<Rightarrow> Inl (QuestionError ''structured question requires sensitivity'')
            | Some v \<Rightarrow>
                rbind (case v of
                         PyStr s \<Rightarrow> (case parse_question_sensitivity s of
                                        Some e \<Rightarrow> Inr e
                                      | None \<Rightarrow> Inl (QuestionValueError ''QuestionSensitivity'' v))
                       | _ \<Rightarrow> Inl (QuestionValueError ''QuestionSensitivity'' v)) (\<lambda>sen.
                case (case map_of d ''choices'' of None \<Rightarrow> PyList [] | Some c \<Rightarrow> c) of
                  PyList vs \<Rightarrow>
                    rbind (marker_choices 0 vs) (\<lambda>cs.
                      QuestionSpec_init \<lparr>qp_text = t, qp_kind = k, qp_choices = cs,
                                         qp_sensitivity = sen\<rparr>)
                | _ \<Rightarrow> Inl (QuestionError ''question choices must be a list''))))
      | _ \<Rightarrow> Inl (QuestionError ''structured question requires version 1''))"

text \<open>
  \<open>parse_question_spec\<close>: \<open>loads\<close> is \<open>json.loads\<close> (no value for a document that does not parse).
\<close>

definition parse_question_spec ::
  "(string \<Rightarrow> py_value option) \<Rightarrow> string \<Rightarrow> question_error + question_spec" where
  "parse_question_spec loads v =
     (let t = strip v in
      if t = [] then Inl (QuestionError ''question text must not be empty'')
      else if \<not> starts_with ''{'' t
      then QuestionSpec_init \<lparr>qp_text = t, qp_kind = FreeText, qp_choices = [],
                              qp_sensitivity = SenUnspecified\<rparr>
      else (case loads t of
              None \<Rightarrow> Inl (QuestionError ''structured question is invalid JSON'')
            | Some raw \<Rightarrow> question_spec_of_marker raw))"

text \<open>What the user hears.\<close>

fun option_texts :: "nat \<Rightarrow> choice list \<Rightarrow> string list" where
  "option_texts n [] = []"
| "option_texts n (c # cs) =
     (''Option '' @ show_nat n @ '' is '' @ ch_label c @ ''.'') # option_texts (n + 1) cs"

fun join_space :: "string list \<Rightarrow> string" where
  "join_space [] = []"
| "join_space [x] = x"
| "join_space (x # xs) = x @ '' '' @ join_space xs"

definition choices_prompt :: "question \<Rightarrow> string" where
  "choices_prompt q = join_space (option_texts 1 (qu_choices q)) @ '' Please choose one.''"

definition question_prompt :: "question \<Rightarrow> string" where
  "question_prompt q =
     (if qu_choices q = [] then qu_text q else qu_text q @ '' '' @ choices_prompt q)"

section \<open>Normalised text\<close>

text \<open>
  The class \<open>\w\<close> of a regular expression on text, below code point 256: letters, digits, the
  other numerals and the underscore.
\<close>

definition word_char :: "char \<Rightarrow> bool" where
  "word_char c \<longleftrightarrow> (let n = of_char c :: nat in
     (48 \<le> n \<and> n \<le> 57) \<or> (65 \<le> n \<and> n \<le> 90) \<or> n = 95 \<or> (97 \<le> n \<and> n \<le> 122)
     \<or> n \<in> {170, 178, 179, 181, 185, 186, 188, 189, 190}
     \<or> (192 \<le> n \<and> n \<noteq> 215 \<and> n \<noteq> 247))"

definition head_is_word :: "string \<Rightarrow> bool" where
  "head_is_word s = (case s of [] \<Rightarrow> False | c # _ \<Rightarrow> word_char c)"

text \<open>
  \<open>re.sub\<close> of a whole word (a word boundary, the word, a word boundary): \<open>prev\<close> says whether the
  character before the rest is a word character.
\<close>

function replace_word :: "string \<Rightarrow> string \<Rightarrow> bool \<Rightarrow> string \<Rightarrow> string" where
  "replace_word w v prev [] = []"
| "replace_word w v prev (c # s) =
     (if w \<noteq> [] \<and> starts_with w (c # s) \<and> \<not> prev \<and> \<not> head_is_word (drop (length w) (c # s))
      then v @ replace_word w v True (drop (length w) (c # s))
      else c # replace_word w v (word_char c) s)"
  by pat_completeness auto
termination
  by (relation "measure (\<lambda>(w, v, prev, s). length s)") auto

text \<open>\<open>re.sub\<close> of a run of white space by one blank.\<close>

fun squeeze_spaces :: "bool \<Rightarrow> string \<Rightarrow> string" where
  "squeeze_spaces prev [] = []"
| "squeeze_spaces prev (c # s) =
     (if py_space c then (if prev then squeeze_spaces True s else CHR '' '' # squeeze_spaces True s)
      else c # squeeze_spaces False s)"

definition kept_char :: "char \<Rightarrow> bool" where
  "kept_char c \<longleftrightarrow> word_char c \<or> py_space c \<or> c = quote_char \<or> c = CHR ''-''"

definition normalize :: "string \<Rightarrow> string" where
  "normalize v =
     strip (squeeze_spaces False
       (replace_word ''acknowledgement'' ''acknowledgment'' False
         (filter kept_char (casefold v))))"

section \<open>Resolving an answer\<close>

definition repeat_phrases :: "string set" where
  "repeat_phrases = {''repeat'', ''repeat that'', ''say that again'', ''what was that''}"

definition defer_phrases :: "string set" where
  "defer_phrases =
     {''answer later'', ''i'' @ [quote_char] @ ''ll answer later'', ''ill answer later'',
      ''ask me later'', ''later''}"

definition question_control :: "string \<Rightarrow> answer_outcome option" where
  "question_control v =
     (let n = normalize v in
      if n \<in> repeat_phrases then Some AnsRepeat
      else if n \<in> defer_phrases then Some AnsDeferred else None)"

definition ordinals :: "(string \<times> nat) list" where
  "ordinals =
     [(''first'', 0), (''one'', 0), (''1'', 0), (''second'', 1), (''two'', 1), (''2'', 1),
      (''third'', 2), (''three'', 2), (''3'', 2), (''fourth'', 3), (''four'', 3), (''4'', 3),
      (''fifth'', 4), (''five'', 4), (''5'', 4)]"

text \<open>
  One match of an ordinal word at the head of the text: the ordinal and the text after it, for
  the words that satisfy \<open>after\<close> with their rest. No two ordinal words can both be followed by a
  word boundary or a blank, so the order of the alternatives does not matter.
\<close>

definition match_ordinal :: "(string \<Rightarrow> bool) \<Rightarrow> string \<Rightarrow> (nat \<times> string) option" where
  "match_ordinal after s =
     map_option (\<lambda>(w, n). (n, drop (length w) s))
       (find (\<lambda>(w, n). starts_with w s \<and> after (drop (length w) s)) ordinals)"

text \<open>The first word of a list at the head of the text, and what follows it.\<close>

definition match_one_of :: "string list \<Rightarrow> string \<Rightarrow> string option" where
  "match_one_of ws s =
     (case find (\<lambda>w. starts_with w s) ws of None \<Rightarrow> None | Some w \<Rightarrow> Some (drop (length w) s))"

text \<open>The pattern "option" or "choice", an optional "number", a blank, an ordinal word.\<close>

definition match_option_first :: "string \<Rightarrow> (nat \<times> string) option" where
  "match_option_first s =
     (case match_one_of [''option'', ''choice''] s of
        None \<Rightarrow> None
      | Some t \<Rightarrow>
          let ordinal = (\<lambda>u. case strip_prefix '' '' u of
                           None \<Rightarrow> None
                         | Some x \<Rightarrow> match_ordinal (\<lambda>r. \<not> head_is_word r) x)
          in case strip_prefix '' number'' t of
               None \<Rightarrow> ordinal t
             | Some u \<Rightarrow> (case ordinal u of Some m \<Rightarrow> Some m | None \<Rightarrow> ordinal t))"

text \<open>The pattern ordinal word, blank, "option", "choice" or "one", and a word boundary.\<close>

definition choice_tail :: "string \<Rightarrow> string option" where
  "choice_tail r =
     (case strip_prefix '' '' r of
        None \<Rightarrow> None
      | Some x \<Rightarrow>
          (case match_one_of [''option'', ''choice'', ''one''] x of
             None \<Rightarrow> None
           | Some y \<Rightarrow> if head_is_word y then None else Some y))"

definition match_ordinal_first :: "string \<Rightarrow> (nat \<times> string) option" where
  "match_ordinal_first s =
     (case match_ordinal (\<lambda>r. choice_tail r \<noteq> None) s of
        None \<Rightarrow> None
      | Some (n, r) \<Rightarrow> (case choice_tail r of None \<Rightarrow> None | Some y \<Rightarrow> Some (n, y)))"

text \<open>
  \<open>finditer\<close>: the non-overlapping matches from left to right, each starting at a word boundary
  before a word character. The remaining length bounds the scan.
\<close>

fun find_ordinals ::
  "(string \<Rightarrow> (nat \<times> string) option) \<Rightarrow> nat \<Rightarrow> bool \<Rightarrow> string \<Rightarrow> nat list" where
  "find_ordinals p 0 prev s = []"
| "find_ordinals p (Suc k) prev [] = []"
| "find_ordinals p (Suc k) prev (c # s) =
     (case (if prev then None else p (c # s)) of
        Some (n, rest) \<Rightarrow> n # find_ordinals p k True rest
      | None \<Rightarrow> find_ordinals p k (word_char c) s)"

definition choice_ordinals :: "string \<Rightarrow> nat list" where
  "choice_ordinals v =
     (case map_of ordinals v of
        Some n \<Rightarrow> [n]
      | None \<Rightarrow> remdups (find_ordinals match_option_first (length v) False v
                  @ find_ordinals match_ordinal_first (length v) False v))"

record answer_resolution =
  rn_outcome :: answer_outcome
  rn_answer :: "string option"
  rn_trusted_answer :: "string option"
  rn_choice_label :: "string option"

definition only_outcome :: "answer_outcome \<Rightarrow> answer_resolution" where
  "only_outcome o' =
     \<lparr>rn_outcome = o', rn_answer = None, rn_trusted_answer = None, rn_choice_label = None\<rparr>"

definition choice_matches :: "string \<Rightarrow> choice \<Rightarrow> bool" where
  "choice_matches n c \<longleftrightarrow> n = normalize (ch_id c) \<or> n = normalize (ch_label c)"

text \<open>
  The choices an answer names: by identifier or label, and by its single ordinal (absent when
  the ordinals contradict each other or point past the choices).
\<close>

definition named_choices :: "question \<Rightarrow> string \<Rightarrow> choice list option" where
  "named_choices q n =
     (let matches = filter (choice_matches n) (qu_choices q) in
      case choice_ordinals n of
        [] \<Rightarrow> Some matches
      | [k] \<Rightarrow>
          if k \<ge> length (qu_choices q) then None
          else let c = qu_choices q ! k in Some (if c \<in> set matches then matches else matches @ [c])
      | _ \<Rightarrow> None)"

definition resolve_answer ::
  "question \<Rightarrow> string \<Rightarrow> string option \<Rightarrow> answer_provenance \<Rightarrow> answer_resolution" where
  "resolve_answer q answer trusted_answer provenance =
     (let text = or_str trusted_answer answer in
      case question_control text of
        Some o' \<Rightarrow> only_outcome o'
      | None \<Rightarrow>
          if qu_sensitivity q \<noteq> SenRoutine \<and> provenance \<notin> {UserVoice, UserText}
          then only_outcome AnsRejected
          else if qu_kind q = FreeText
          then (let v = strip text in
                if v = [] then only_outcome AnsAmbiguous
                else \<lparr>rn_outcome = AnsAccepted, rn_answer = Some v, rn_trusted_answer = Some v,
                      rn_choice_label = None\<rparr>)
          else (case named_choices q (normalize text) of
                  Some [c] \<Rightarrow>
                    \<lparr>rn_outcome = AnsAccepted, rn_answer = Some (ch_id c),
                     rn_trusted_answer = Some (strip text), rn_choice_label = Some (ch_label c)\<rparr>
                | _ \<Rightarrow> only_outcome AnsAmbiguous))"

section \<open>The prompt that carries an answer\<close>

definition question_prompt_identity ::
  "question \<Rightarrow> string \<Rightarrow> int \<Rightarrow> string \<Rightarrow> string \<Rightarrow> prompt_error + prompt_identity" where
  "question_prompt_identity q job_id turn target agent_session =
     PromptIdentity_init job_id ''question'' turn
       (or_str (qu_dispatch_token q) (qo_turn_token (qu_origin q))) target agent_session
       (case qu_prompt_baseline_seq q of None \<Rightarrow> 0 | Some b \<Rightarrow> b)"

definition load_question_prompt ::
  "question \<Rightarrow> prompt_identity \<Rightarrow> prompt_error + prompt_operation" where
  "load_question_prompt q i =
     (case qu_prompt_state q of
        None \<Rightarrow> Inr IdlePrompt
      | Some st \<Rightarrow>
          load_prompt_operation (prompt_state_value st) (pi_job_id i) (Some (pi_phase i))
            (pi_turn i) (Some (pi_turn_token i)) (Some (pi_target i)) (Some (pi_agent_session i))
            (case qu_prompt_baseline_seq q of
               None \<Rightarrow> Some (pi_baseline_sequence i) | Some b \<Rightarrow> Some b))"

definition bind_question_prompt :: "question \<Rightarrow> prompt_operation \<Rightarrow> question_error + question" where
  "bind_question_prompt q p =
     (case prompt_operation_identity p of
        None \<Rightarrow>
          Question_check (q\<lparr>qu_prompt_state := None, qu_prompt_turn := None,
                            qu_prompt_target := None, qu_prompt_agent_session := None\<rparr>)
      | Some i \<Rightarrow>
          Question_check (q\<lparr>qu_prompt_state := Some (prompt_operation_state p),
                            qu_prompt_turn := Some (pi_turn i),
                            qu_prompt_target := Some (pi_target i),
                            qu_prompt_agent_session := Some (pi_agent_session i)\<rparr>))"

text \<open>The five operations: load, apply the operation of the prompt machine, write back.\<close>

definition on_question_prompt ::
  "(prompt_operation \<Rightarrow> prompt_identity \<Rightarrow> prompt_error + prompt_operation) \<Rightarrow>
   question \<Rightarrow> prompt_identity \<Rightarrow> question_error + question" where
  "on_question_prompt f q i =
     rbind (map_err QuestionPromptError (rbind (load_question_prompt q i) (\<lambda>p. f p i)))
       (bind_question_prompt q)"

definition plan_question_prompt :: "question \<Rightarrow> prompt_identity \<Rightarrow> question_error + question" where
  "plan_question_prompt = on_question_prompt plan_prompt"

definition submit_question_prompt :: "question \<Rightarrow> prompt_identity \<Rightarrow> question_error + question" where
  "submit_question_prompt = on_question_prompt record_prompt_submitted"

definition observe_question_prompt :: "question \<Rightarrow> prompt_identity \<Rightarrow> question_error + question" where
  "observe_question_prompt = on_question_prompt observe_accepted_prompt"

definition resolve_question_prompt :: "question \<Rightarrow> prompt_identity \<Rightarrow> question_error + question" where
  "resolve_question_prompt = on_question_prompt resolve_prompt"

definition replan_question_prompt :: "question \<Rightarrow> prompt_identity \<Rightarrow> question_error + question" where
  "replan_question_prompt = on_question_prompt replan_unobserved_prompt"

end
