(* ===== verification/Job_Record.thy ===== *)
theory Job_Record imports Operation_Gate Job_Lifecycle Questions begin

text \<open>
  The flat job record \<open>AgentJob\<close> of \<open>cursor/model.py\<close> and the typed states its properties read
  from it: worker ownership, operations, workflow, review, plan approval, participants, terminal
  and cleanup state, and the agent-neutral lifecycle. The record holds the fields and the entries
  of \<open>_values\<close> that the transition gate and the reservations look at; entries that belong to one
  component keep that component's row type.

  The record is one that \<open>from_dict\<close> has built, so its numbers are integers and finite floats, its
  texts are strings, and the typed fields are members of their enumerations.
\<close>

datatype harness_kind = HarnessCursor | HarnessOpencode

fun harness_kind_value :: "harness_kind \<Rightarrow> string" where
  "harness_kind_value HarnessCursor = ''cursor''"
| "harness_kind_value HarnessOpencode = ''opencode''"

definition ACTIVE_STATUSES :: "job_state set" where
  "ACTIVE_STATUSES = {JsQueued, JsRouting, JsRunning, JsReconciling, JsAwaitingUser, JsBlocked}"

definition TERMINAL_STATUSES :: "job_state set" where
  "TERMINAL_STATUSES = {JsCompleted, JsFailed, JsCancelled}"

section \<open>The record\<close>

record fork_row =
  fork_operation_state :: "string option"
  fork_operation_source :: "string option"
  fork_operation_source_url :: "string option"
  fork_operation_source_default_branch :: "string option"
  fork_operation_source_private :: bool
  fork_operation_login :: "string option"
  fork_operation_target :: "string option"
  fork_operation_source_parent :: "string option"

record participant_row =
  participant_admission_state :: "string option"
  participant_creation_state :: "string option"
  participant_creation_participant :: "string option"
  participant_creation_target :: "string option"
  participant_creation_label :: "string option"
  participant_creation_workspace_id :: "string option"
  participant_creation_pane_id :: "string option"
  participant_creation_checkout :: "string option"
  planner_target :: "string option"
  reviewer_target :: "string option"
  implementer_target :: "string option"

record workflow_row =
  workflow_tier :: "workflow_tier option"
  workflow_phase :: workflow_phase
  workflow_classification_reason :: "string option"
  review_round :: int
  plan_artifact :: "string option"
  review_artifact :: "string option"
  review_decision :: "string option"
  review_approval_source :: "string option"

record approval_row =
  plan_approval_state :: "string option"
  plan_approval_id :: "string option"
  plan_approval_source :: "string option"
  plan_approval_agent_session :: "string option"
  plan_approval_plan_artifact :: "string option"
  plan_approval_review_artifact :: "string option"
  plan_approval_state_change_sequence :: "int option"
  plan_approval_revision :: "int option"
  plan_approval_counted :: bool

record intent_row =
  terminal_intent_status :: "string option"
  terminal_intent_result :: "string option"
  terminal_intent_error :: "string option"
  terminal_intent_completed_at :: "time option"

record agent_job =
  aj_id :: string
  aj_created_at :: time
  aj_parent_job_id :: "string option"
  aj_request :: string
  aj_harness_kind :: harness_kind
  aj_issue_provider :: "string option"
  aj_revision :: int
  aj_loaded_schema_version :: int
  aj_status :: job_state
  aj_queued_at :: "time option"
  aj_completed_at :: "time option"
  aj_question :: "string option"
  aj_result :: "string option"
  aj_error :: "string option"
  aj_voice_question :: "py_dict option"
  aj_clarification_kind :: "string option"
  aj_herdr_target :: "string option"
  aj_active_participant :: "workflow_participant option"
  aj_worker :: worker_row
  aj_cleanup :: cleanup_fields_row
  aj_intent :: intent_row
  aj_checkout :: checkout_row
  aj_fork :: fork_row
  aj_session :: session_row
  aj_session_fallback :: session_fallback
  aj_session_owners :: "session_owner list"
  aj_prompt :: prompt_row
  aj_participant :: participant_row
  aj_workflow :: workflow_row
  aj_approval :: approval_row
  aj_checkout_typed :: "checkout_operation option"
  aj_session_typed :: "session_operation option"
  aj_prompt_typed :: "prompt_operation option"
  aj_lifecycle_event :: "job_event option"

section \<open>Typed readers\<close>

text \<open>\<open>E(value)\<close> inside a property that turns the \<open>ValueError\<close> into a \<open>JobValidationError\<close>.\<close>

definition member_or_invalid ::
  "string \<Rightarrow> (string \<Rightarrow> 'e option) \<Rightarrow> string \<Rightarrow> job_error + 'e" where
  "member_or_invalid name parse v =
     (case parse v of
        Some e \<Rightarrow> Inr e
      | None \<Rightarrow> Inl (JobValidationError (py_repr v @ '' is not a valid '' @ name)))"

definition lifecycle_failure :: "lifecycle_error \<Rightarrow> job_error" where
  "lifecycle_failure e = (case e of LifecycleTransitionError m \<Rightarrow> JobValidationError m)"

definition violation_failure :: "lifecycle_violation \<Rightarrow> job_error" where
  "violation_failure e = (case e of JobLifecycleError m \<Rightarrow> JobValidationError m)"

definition workflow_failure :: "workflow_error \<Rightarrow> job_error" where
  "workflow_failure e = (case e of WorkflowTransitionError m \<Rightarrow> JobValidationError m)"

definition parse_job_status :: "string \<Rightarrow> job_state option" where
  "parse_job_status s =
     find (\<lambda>st. job_state_value st = s)
       [JsQueued, JsRouting, JsRunning, JsAwaitingUser, JsBlocked, JsReconciling, JsCompleted,
        JsFailed, JsCancelled]"

definition job_worker_ownership :: "agent_job \<Rightarrow> job_error + worker_ownership option" where
  "job_worker_ownership j = map_err op_error (load_worker_ownership (aj_worker j))"

definition job_checkout_operation :: "agent_job \<Rightarrow> job_error + checkout_operation option" where
  "job_checkout_operation j =
     (case aj_checkout_typed j of
        Some c \<Rightarrow> Inr (Some c)
      | None \<Rightarrow>
          if worktree_provision_state (aj_checkout j) = None then Inr None
          else typed_checkout_operation (aj_checkout j) (aj_loaded_schema_version j))"

definition job_session_operation :: "agent_job \<Rightarrow> job_error + session_operation option" where
  "job_session_operation j =
     (case aj_session_typed j of
        Some a \<Rightarrow> Inr (Some a)
      | None \<Rightarrow>
          if agent_dispatch_state (aj_session j) = None then Inr None
          else typed_agent_session_operation (aj_session j) (aj_session_fallback j)
                 (aj_loaded_schema_version j))"

definition job_prompt_operation :: "agent_job \<Rightarrow> job_error + prompt_operation" where
  "job_prompt_operation j =
     (case aj_prompt_typed j of
        Some p \<Rightarrow> Inr p
      | None \<Rightarrow> typed_prompt_operation (aj_prompt j) (aj_id j))"

definition fork_state_table :: "(string \<times> operation_state) list" where
  "fork_state_table =
     [(''planned'', OpPlanned), (''submitted'', OpActive), (''exists'', OpSettled),
      (''retained'', OpSettled), (''ambiguous'', OpUnknown), (''failed_observing'', OpUnknown),
      (''failed'', OpFailed), (''confirmed_absent'', OpFailed), (''manual_required'', OpManual)]"

text \<open>\<open>text.split("/", 1)[0]\<close>.\<close>

definition before_slash :: "string \<Rightarrow> string" where
  "before_slash s = takeWhile (\<lambda>c. c \<noteq> CHR ''/'') s"

definition job_fork_operation :: "agent_job \<Rightarrow> job_error + fork_operation option" where
  "job_fork_operation j =
     (let r = aj_fork j in
      case fork_operation_state r of
        None \<Rightarrow> Inr None
      | Some st \<Rightarrow>
          (case map_of fork_state_table st of
             None \<Rightarrow> Inl (KeyError (py_repr st))
           | Some parsed \<Rightarrow>
               rbind (map_err op_error
                       (ForkSpec_init (or_str (fork_operation_source r) '''')
                          (or_str (fork_operation_source_url r) '''')
                          (or_str (fork_operation_source_default_branch r) '''')
                          (fork_operation_source_private r)
                          (or_str (fork_operation_login r)
                             (before_slash (or_str (fork_operation_target r) '''')))
                          (or_str (fork_operation_target r) '''')
                          (fork_operation_source_parent r)))
                 (\<lambda>spec. Inr (Some \<lparr>fo_state = parsed, fo_spec = spec\<rparr>))))"

definition pane_state_table :: "(string \<times> operation_state) list" where
  "pane_state_table =
     [(''planned'', OpPlanned), (''submitting'', OpActive), (''created'', OpSettled),
      (''ambiguous'', OpUnknown), (''failed'', OpFailed), (''manual_required'', OpManual)]"

fun workflow_participant_value :: "workflow_participant \<Rightarrow> string" where
  "workflow_participant_value Planner = ''planner''"
| "workflow_participant_value Reviewer = ''reviewer''"
| "workflow_participant_value Implementer = ''implementer''"

definition parse_workflow_participant :: "string \<Rightarrow> workflow_participant option" where
  "parse_workflow_participant s =
     find (\<lambda>p. workflow_participant_value p = s) [Planner, Reviewer, Implementer]"

definition creation_state_text :: "agent_job \<Rightarrow> string" where
  "creation_state_text j = or_str (participant_creation_state (aj_participant j)) ''none''"

definition admission_state_text :: "agent_job \<Rightarrow> string" where
  "admission_state_text j = or_str (participant_admission_state (aj_participant j)) ''waiting''"

definition job_creation_participant :: "agent_job \<Rightarrow> job_error + workflow_participant option" where
  "job_creation_participant j =
     (case participant_creation_participant (aj_participant j) of
        None \<Rightarrow> Inr None
      | Some v \<Rightarrow>
          (case parse_workflow_participant v of
             Some p \<Rightarrow> Inr (Some p)
           | None \<Rightarrow> Inl (JobValidationError
                           ''participant_creation_participant has invalid value'')))"

definition job_pane_operation :: "agent_job \<Rightarrow> job_error + pane_operation option" where
  "job_pane_operation j =
     (let r = aj_participant j in
      if creation_state_text j = ''none'' then Inr None
      else case map_of pane_state_table (creation_state_text j) of
             None \<Rightarrow> Inl (KeyError (py_repr (creation_state_text j)))
           | Some parsed \<Rightarrow>
               rbind (job_creation_participant j) (\<lambda>participant.
               rbind (map_err op_error
                       (ParticipantPaneSpec_init
                          (case participant of None \<Rightarrow> '''' | Some p \<Rightarrow> workflow_participant_value p)
                          (or_str (participant_creation_target r) '''')
                          (or_str (participant_creation_label r) '''')
                          (or_str (or_opt (participant_creation_checkout r)
                             (or_opt (worktree_path (aj_checkout j))
                                (row_repository (aj_checkout j)))) '''')
                          (or_str (participant_creation_workspace_id r) ''''))) (\<lambda>spec.
               rbind (map_err op_error
                       (ParticipantPaneOperation_init parsed spec
                          (participant_creation_pane_id r))) (\<lambda>p. Inr (Some p)))))"

definition operations_record ::
  "agent_job \<Rightarrow> checkout_operation option \<Rightarrow> fork_operation option \<Rightarrow> session_operation option \<Rightarrow>
   pane_operation option \<Rightarrow> job_operations" where
  "operations_record j c f a p =
     \<lparr>jo_checkout = c, jo_fork = f, jo_session = a, jo_pane = p,
      jo_owners = aj_session_owners j, jo_loaded_version = aj_loaded_schema_version j,
      jo_dispatch_state = agent_dispatch_state (aj_session j)\<rparr>"

text \<open>The tuple of the four operations before and after an update, read in its order.\<close>

definition job_operations_pair ::
  "agent_job \<Rightarrow> agent_job \<Rightarrow> job_error + job_operations \<times> job_operations" where
  "job_operations_pair before after =
     rbind (job_checkout_operation before) (\<lambda>c1.
     rbind (job_checkout_operation after) (\<lambda>c2.
     rbind (job_fork_operation before) (\<lambda>f1.
     rbind (job_fork_operation after) (\<lambda>f2.
     rbind (job_session_operation before) (\<lambda>a1.
     rbind (job_session_operation after) (\<lambda>a2.
     rbind (job_pane_operation before) (\<lambda>p1.
     rbind (job_pane_operation after) (\<lambda>p2.
       Inr (operations_record before c1 f1 a1 p1, operations_record after c2 f2 a2 p2)))))))))"

definition parse_admission :: "string \<Rightarrow> admission_state option" where
  "parse_admission s =
     (if s = ''waiting'' then Some AdmWaiting
      else if s = ''held'' then Some AdmHeld
      else if s = ''released'' then Some AdmReleased else None)"

definition parse_creation_state :: "string \<Rightarrow> creation_state option" where
  "parse_creation_state s =
     find (\<lambda>c. creation_state_value c = s)
       [CrNone, CrPlanned, CrSubmitting, CrCreated, CrAmbiguous, CrFailed, CrManualRequired]"

definition job_participant_lifecycle :: "agent_job \<Rightarrow> job_error + participant_lifecycle" where
  "job_participant_lifecycle j =
     (let r = aj_participant j in
      rbind (member_or_invalid ''ParticipantCreationState'' parse_creation_state
               (creation_state_text j)) (\<lambda>st.
      rbind (job_creation_participant j) (\<lambda>participant.
      rbind (map_err workflow_failure
               (ParticipantCreation_check
                  \<lparr>pc_state = st, pc_participant = participant,
                   pc_target = participant_creation_target r,
                   pc_label = participant_creation_label r,
                   pc_workspace_id = participant_creation_workspace_id r,
                   pc_pane_id = participant_creation_pane_id r\<rparr>)) (\<lambda>creation.
      rbind (member_or_invalid ''ParticipantAdmissionState'' parse_admission
               (admission_state_text j)) (\<lambda>adm.
        Inr \<lparr>pl_admission = adm, pl_creation = creation\<rparr>)))))"

definition job_workflow_state :: "agent_job \<Rightarrow> job_error + workflow_state" where
  "job_workflow_state j =
     (let r = aj_workflow j in
      map_err workflow_failure
        (rbind (case workflow_tier r of
                  None \<Rightarrow> Inr None
                | Some t \<Rightarrow>
                    rbind (WorkflowClassification_init t
                             (or_str (workflow_classification_reason r) ''''))
                      (\<lambda>c. Inr (Some c)))
           (WorkflowState_init (workflow_phase r))))"

definition job_terminal_intent_status :: "agent_job \<Rightarrow> job_error + job_state option" where
  "job_terminal_intent_status j =
     (case terminal_intent_status (aj_intent j) of
        None \<Rightarrow> Inr None
      | Some v \<Rightarrow>
          (case parse_job_status v of
             Some st \<Rightarrow> Inr (Some st)
           | None \<Rightarrow> Inl (JobValidationError ''terminal_intent_status has invalid value'')))"

definition job_terminal_state :: "agent_job \<Rightarrow> job_error + terminal_state" where
  "job_terminal_state j =
     rbind (job_terminal_intent_status j) (\<lambda>st.
       map_err lifecycle_failure
         (load_terminal_state (job_state_value (aj_status j)) (aj_result j) (aj_error j)
            (aj_completed_at j) (map_option job_state_value st)
            (terminal_intent_result (aj_intent j)) (terminal_intent_error (aj_intent j))
            (terminal_intent_completed_at (aj_intent j))))"

definition job_cleanup_state :: "agent_job \<Rightarrow> job_error + cleanup_state" where
  "job_cleanup_state j = map_err lifecycle_failure (load_cleanup_state (aj_cleanup j))"

section \<open>The agent-neutral lifecycle of a record\<close>

definition JobIdentity_of :: "agent_job \<Rightarrow> job_identity" where
  "JobIdentity_of j =
     \<lparr>ji_id = aj_id j, ji_created_at = Finite (aj_created_at j), ji_parent_id = aj_parent_job_id j,
      ji_request = aj_request j, ji_harness = harness_kind_value (aj_harness_kind j),
      ji_provider = aj_issue_provider j, ji_revision = aj_revision j\<rparr>"

definition lifecycle_variant ::
  "agent_job \<Rightarrow> job_identity \<Rightarrow> worker_ownership option \<Rightarrow> execution_components \<Rightarrow>
   job_error + job_lifecycle" where
  "lifecycle_variant j identity worker ex =
     (case aj_status j of
        JsQueued \<Rightarrow>
          (case aj_queued_at j of
             None \<Rightarrow> Inl (JobValidationError ''queued job requires a finite queued time'')
           | Some t \<Rightarrow> map_err violation_failure (QueuedJob_init identity (Finite t) ex worker))
      | JsRouting \<Rightarrow>
          (case worker of
             None \<Rightarrow> Inl (JobValidationError ''routing job requires worker identity'')
           | Some w \<Rightarrow> Inr (RoutingProvisioningJob identity w ex))
      | JsRunning \<Rightarrow>
          (case worker of
             None \<Rightarrow> Inl (JobValidationError ''running job requires worker identity'')
           | Some w \<Rightarrow> Inr (RunningJob identity w ex))
      | JsAwaitingUser \<Rightarrow>
          map_err violation_failure
            (AwaitingUserJob_init identity (or_str (aj_question j) '''') (or_str (aj_result j) '''') ex)
      | JsBlocked \<Rightarrow>
          (case aj_completed_at j of
             None \<Rightarrow> Inl (JobValidationError ''blocked job requires blocked time'')
           | Some t \<Rightarrow>
               map_err violation_failure
                 (BlockedJob_init identity (or_str (aj_result j) '''') (Finite t) ex))
      | JsReconciling \<Rightarrow>
          rbind (job_terminal_state j) (\<lambda>ts.
          rbind (job_cleanup_state j) (\<lambda>cleanup.
            map_err violation_failure
              (ReconcilingJob_init identity ex cleanup
                 (case ts of TerminalIntentState t \<Rightarrow> Some t | _ \<Rightarrow> None) worker)))
      | _ \<Rightarrow>
          (case aj_completed_at j of
             None \<Rightarrow> Inl (JobValidationError ''terminal job requires completion time'')
           | Some t \<Rightarrow>
               rbind (job_terminal_state j) (\<lambda>ts.
                 case ts of
                   MaterializedState out \<Rightarrow> Inr (TerminalJob identity ex out)
                 | _ \<Rightarrow> Inl (JobValidationError
                          ''terminal job requires materialized outcome''))))"

text \<open>
  \<open>AgentJob.lifecycle\<close>: a prompt whose columns do not load is left out, any other component that
  does not load is an error.
\<close>

definition job_lifecycle_of :: "agent_job \<Rightarrow> job_error + job_lifecycle" where
  "job_lifecycle_of j =
     rbind (map_err violation_failure (JobIdentity_check (JobIdentity_of j))) (\<lambda>identity.
     rbind (job_worker_ownership j) (\<lambda>worker.
     rbind (job_workflow_state j) (\<lambda>workflow.
       lifecycle_variant j identity worker
         \<lparr>ec_prompt = (case job_prompt_operation j of Inr p \<Rightarrow> Some p | Inl _ \<Rightarrow> None),
          ec_workflow = workflow\<rparr>)))"

section \<open>Review and plan approval\<close>

definition parse_review_decision :: "string \<Rightarrow> review_decision option" where
  "parse_review_decision s =
     (if s = ''approve'' then Some DecApprove else if s = ''revise'' then Some DecRevise else None)"

definition parse_review_source :: "string \<Rightarrow> review_approval_source option" where
  "parse_review_source s =
     (if s = ''reviewer'' then Some ByReviewer else if s = ''user'' then Some ByUser else None)"

definition optional_member ::
  "string \<Rightarrow> (string \<Rightarrow> 'e option) \<Rightarrow> string option \<Rightarrow> job_error + 'e option" where
  "optional_member name parse v =
     (case v of
        None \<Rightarrow> Inr None
      | Some s \<Rightarrow> rbind (member_or_invalid name parse s) (\<lambda>e. Inr (Some e)))"

definition job_review_state :: "agent_job \<Rightarrow> job_error + review_state" where
  "job_review_state j =
     (let r = aj_workflow j;
          artifact = (\<lambda>v kind.
            case v of
              None \<Rightarrow> Inr None
            | Some s \<Rightarrow> map_err workflow_failure
                (rbind (parse_artifact_reference s (aj_id j) kind) (\<lambda>a. Inr (Some a))))
      in rbind (artifact (plan_artifact r) ''plan'') (\<lambda>plan.
         rbind (artifact (review_artifact r) ''review'') (\<lambda>review.
         rbind (optional_member ''ReviewDecision'' parse_review_decision (review_decision r)) (\<lambda>d.
         rbind (optional_member ''ReviewApprovalSource'' parse_review_source
                  (review_approval_source r)) (\<lambda>src.
           map_err workflow_failure
             (ReviewState_check
                \<lparr>rs_tier = workflow_tier r, rs_round = review_round r, rs_plan = plan,
                 rs_review = review, rs_decision = d, rs_source = src\<rparr>))))))"

definition parse_approval_state :: "string \<Rightarrow> plan_approval_state option" where
  "parse_approval_state s =
     find (\<lambda>a. plan_approval_state_value a = s)
       [PaNone, PaBoundary, PaAwaiting, PaApproved, PaObserved, PaRejected]"

definition parse_approval_source :: "string \<Rightarrow> plan_approval_source option" where
  "parse_approval_source s =
     (if s = ''explicit'' then Some SrcExplicit
      else if s = ''auto'' then Some SrcAuto
      else if s = ''legacy'' then Some SrcLegacy else None)"

text \<open>\<open>str(exc)\<close> of a question error, for the three errors the reader of a question can raise.\<close>

definition question_failure :: "question_error \<Rightarrow> job_error" where
  "question_failure e =
     (case e of
        QuestionError m \<Rightarrow> JobValidationError m
      | QuestionPromptError p \<Rightarrow> (case p of PromptOperationError m \<Rightarrow> JobValidationError m)
      | QuestionValueError name v \<Rightarrow>
          JobValidationError ((case v of PyStr s \<Rightarrow> py_repr s | _ \<Rightarrow> ''value'')
            @ '' is not a valid '' @ name))"

definition job_approval_proof ::
  "agent_job \<Rightarrow> plan_approval_state \<Rightarrow> plan_approval_source option \<Rightarrow>
   workflow_error + approval_proof option" where
  "job_approval_proof j st src =
     (let r = aj_approval j in
      if st = PaNone then Inr None
      else case (plan_approval_id r, plan_approval_agent_session r,
                 plan_approval_state_change_sequence r, plan_approval_revision r) of
             (Some gate, Some sess, Some sq, Some revision) \<Rightarrow>
               rbind (if src = Some SrcLegacy
                      then LegacyPlanApprovalProof_init gate sess sq revision
                      else PlanApprovalProof_init gate sess sq revision) (\<lambda>p. Inr (Some p))
           | _ \<Rightarrow> Inl (WorkflowTransitionError
                     (''active plan approval requires gate ID, agent session, and ''
                      @ ''sequence; revision proof is also required'')))"

definition job_approval_question :: "agent_job \<Rightarrow> plan_approval_state \<Rightarrow> job_error + question option" where
  "job_approval_question j st =
     (case aj_voice_question j of
        Some d \<Rightarrow>
          if st = PaAwaiting
          then map_err question_failure
                 (rbind (question_from_dict (PyDict d)) (\<lambda>q. Inr (Some q)))
          else Inr None
      | None \<Rightarrow> Inr None)"

definition job_plan_approval :: "agent_job \<Rightarrow> job_error + plan_approval" where
  "job_plan_approval j =
     (let r = aj_approval j in
      rbind (member_or_invalid ''PlanApprovalState'' parse_approval_state
               (or_str (plan_approval_state r) ''none'')) (\<lambda>st.
      rbind (optional_member ''PlanApprovalSource'' parse_approval_source
               (plan_approval_source r)) (\<lambda>src.
      rbind (map_err workflow_failure (job_approval_proof j st src)) (\<lambda>proof.
      rbind (job_approval_question j st) (\<lambda>q.
      rbind (map_err workflow_failure
               (PlanApproval_check
                  \<lparr>pa_state = st, pa_proof = proof, pa_source = src,
                   pa_counted = plan_approval_counted r,
                   pa_plan_reference = plan_approval_plan_artifact r,
                   pa_review_reference = plan_approval_review_artifact r,
                   pa_review_accepted = (review_approval_source (aj_workflow j) \<noteq> None),
                   pa_question_id = map_option qu_id q,
                   pa_question_turn_token = map_option (\<lambda>q. qo_turn_token (qu_origin q)) q\<rparr>))
        (\<lambda>approval.
          if st \<in> {PaAwaiting, PaApproved, PaObserved}
             \<and> (pa_plan_reference approval \<noteq> plan_artifact (aj_workflow j)
                \<or> pa_review_reference approval \<noteq> review_artifact (aj_workflow j))
          then Inl (JobValidationError ''accepted plan approval artifacts cannot be replaced'')
          else Inr approval))))))"

section \<open>A concrete job\<close>

text \<open>A queued job as \<open>AgentJob.create\<close> leaves it, used by the witnesses.\<close>

definition demo_queued :: agent_job where
  "demo_queued =
     \<lparr>aj_id = ''0123456789ab'', aj_created_at = 1, aj_parent_job_id = None, aj_request = ''fix it'',
      aj_harness_kind = HarnessCursor, aj_issue_provider = None, aj_revision = 3,
      aj_loaded_schema_version = 18, aj_status = JsQueued, aj_queued_at = Some 1,
      aj_completed_at = None, aj_question = None, aj_result = None, aj_error = None,
      aj_voice_question = None, aj_clarification_kind = None, aj_herdr_target = None,
      aj_active_participant = None,
      aj_worker = \<lparr>worker_token = None, worker_pid = None, worker_boot_id = None,
        worker_process_start = None, worker_claim_operation = None, worker_claimed_at = None\<rparr>,
      aj_cleanup = \<lparr>target_release_pending = False, target_release_token = None,
        target_release_owner_pid = None, target_release_owner_boot_id = None,
        target_release_owner_start = None, cancellation_reconciliation_pending = False\<rparr>,
      aj_intent = \<lparr>terminal_intent_status = None, terminal_intent_result = None,
        terminal_intent_error = None, terminal_intent_completed_at = None\<rparr>,
      aj_checkout = \<lparr>worktree_provision_state = None, row_repository = Some ''o/r'',
        worktree_branch = None, worktree_path = None, worktree_workspace_id = None,
        worktree_root_pane_id = None\<rparr>,
      aj_fork = \<lparr>fork_operation_state = None, fork_operation_source = None,
        fork_operation_source_url = None, fork_operation_source_default_branch = None,
        fork_operation_source_private = False, fork_operation_login = None,
        fork_operation_target = None, fork_operation_source_parent = None\<rparr>,
      aj_session = \<lparr>agent_dispatch_state = None, agent_operation_target = None,
        agent_operation_checkout = None, agent_operation_workspace_id = None,
        agent_operation_pane_id = None, agent_provider = None,
        agent_provider_session_id = None, agent_state_sequence = None\<rparr>,
      aj_session_fallback = \<lparr>fb_herdr_target = None, fb_worktree_path = None,
        fb_repository = None, fb_herdr_workspace_id = None, fb_herdr_pane_id = None\<rparr>,
      aj_session_owners = [],
      aj_prompt = \<lparr>pr_turn = None, pr_turn_token = None,
        pr_fields = \<lparr>prompt_operation_state_field = ''none'', prompt_operation_phase = None,
          prompt_operation_turn = None, prompt_operation_target = None,
          prompt_operation_agent_session = None, prompt_baseline_sequence = None\<rparr>\<rparr>,
      aj_participant = \<lparr>participant_admission_state = Some ''waiting'',
        participant_creation_state = None, participant_creation_participant = None,
        participant_creation_target = None, participant_creation_label = None,
        participant_creation_workspace_id = None, participant_creation_pane_id = None,
        participant_creation_checkout = None, planner_target = None, reviewer_target = None,
        implementer_target = None\<rparr>,
      aj_workflow = \<lparr>workflow_tier = None, workflow_phase = PhClassifying,
        workflow_classification_reason = None, review_round = 0, plan_artifact = None,
        review_artifact = None, review_decision = None, review_approval_source = None\<rparr>,
      aj_approval = \<lparr>plan_approval_state = None, plan_approval_id = None,
        plan_approval_source = None, plan_approval_agent_session = None,
        plan_approval_plan_artifact = None, plan_approval_review_artifact = None,
        plan_approval_state_change_sequence = None, plan_approval_revision = None,
        plan_approval_counted = False\<rparr>,
      aj_checkout_typed = None, aj_session_typed = None, aj_prompt_typed = None,
      aj_lifecycle_event = None\<rparr>"

end
