(* ===== verification/Reservations.thy ===== *)
theory Reservations imports Job_Record begin

text \<open>
  \<open>validate_reservations\<close> of \<open>cursor/model.py\<close>: no two jobs of a store may hold the same Herdr
  target or the same worktree while they are active, uncertain or under manual inspection.
\<close>

section \<open>The columns a reservation looks at\<close>

record reserving_job = agent_job +
  rj_manual_reconcile_operation :: "string option"
  rj_manual_inspection_required :: bool
  rj_pull_request_worktree_state :: "string option"
  rj_issue_create_state :: "string option"
  rj_pr_create_state :: "string option"
  rj_pr_merge_state :: "string option"
  rj_clone_state :: "string option"
  rj_repo_create_state :: "string option"
  rj_issue_update_state :: "string option"
  rj_issue_close_state :: "string option"
  rj_linear_create_state :: "string option"
  rj_linear_update_state :: "string option"
  rj_linear_close_state :: "string option"
  rj_ticket_split_state :: "string option"
  rj_ticket_split_parent_state :: "string option"
  rj_ticket_merge_state :: "string option"
  rj_ticket_merge_survivor_state :: "string option"

definition uncertain_operation_states :: "string set" where
  "uncertain_operation_states = {''dispatching'', ''submitted'', ''ambiguous'', ''failed_observing''}"

definition one_of :: "string set \<Rightarrow> string option \<Rightarrow> bool" where
  "one_of S v \<longleftrightarrow> (case v of None \<Rightarrow> False | Some s \<Rightarrow> s \<in> S)"

definition has_uncertain_operation :: "reserving_job \<Rightarrow> bool" where
  "has_uncertain_operation j \<longleftrightarrow>
     one_of uncertain_operation_states (agent_dispatch_state (aj_session j))
     \<or> one_of uncertain_operation_states (fork_operation_state (aj_fork j))
     \<or> one_of uncertain_operation_states (worktree_provision_state (aj_checkout j))
     \<or> list_ex (one_of {''submitted'', ''ambiguous''})
         [rj_issue_create_state j, rj_pr_create_state j, rj_pr_merge_state j, rj_clone_state j,
          rj_repo_create_state j, rj_issue_update_state j, rj_issue_close_state j]
     \<or> list_ex (one_of {''submitting'', ''submitted'', ''ambiguous''})
         [rj_linear_create_state j, rj_linear_update_state j, rj_linear_close_state j,
          rj_ticket_split_state j, rj_ticket_split_parent_state j, rj_ticket_merge_state j,
          rj_ticket_merge_survivor_state j]
     \<or> prompt_operation_state_field (pr_fields (aj_prompt j)) \<in> {''submitting'', ''ambiguous''}
     \<or> creation_state_text (agent_job.truncate j)
         \<in> {''submitting'', ''ambiguous'', ''manual_required''}"

text \<open>The checkout is read only when nothing before it already makes the job reserve.\<close>

definition job_reserves :: "reserving_job \<Rightarrow> job_error + bool" where
  "job_reserves j =
     (if aj_status j \<in> ACTIVE_STATUSES
         \<or> target_release_pending (aj_cleanup j)
         \<or> cancellation_reconciliation_pending (aj_cleanup j)
         \<or> has_uncertain_operation j
         \<or> rj_manual_reconcile_operation j \<noteq> None
         \<or> rj_manual_inspection_required j
      then Inr True
      else rbind (job_checkout_operation (agent_job.truncate j)) (\<lambda>c.
        Inr (checkout_blocks_reservation (map_option co_state c)
             \<or> rj_pull_request_worktree_state j = Some ''quarantined'')))"

text \<open>
  The set of targets, as a list: the named ones that are not empty, then those of archived
  sessions. (The code iterates over a set; the order decides only which conflict is reported.)
\<close>

definition reserved_targets :: "reserving_job \<Rightarrow> string list" where
  "reserved_targets j =
     remdups (map the (filter otruthy
       [aj_herdr_target j, planner_target (aj_participant j), reviewer_target (aj_participant j),
        implementer_target (aj_participant j), participant_creation_target (aj_participant j)])
      @ map ow_target (aj_session_owners j))"

section \<open>The loop\<close>

text \<open>\<open>owner = d.setdefault(key, id)\<close> and the error when the owner is another job.\<close>

definition reserve ::
  "string \<Rightarrow> (string \<rightharpoonup> string) \<Rightarrow> string \<Rightarrow> string \<Rightarrow> job_error + (string \<rightharpoonup> string)" where
  "reserve what d job_id key =
     (case d key of
        None \<Rightarrow> Inr (d(key \<mapsto> job_id))
      | Some owner \<Rightarrow>
          if owner \<noteq> job_id
          then Inl (JobValidationError
                 (what @ key @ '' is reserved by both '' @ owner @ '' and '' @ job_id))
          else Inr d)"

definition reserve_targets ::
  "(string \<rightharpoonup> string) \<Rightarrow> string \<Rightarrow> string list \<Rightarrow> job_error + (string \<rightharpoonup> string)" where
  "reserve_targets d job_id keys =
     run_steps (\<lambda>d key. reserve ''Herdr target '' d job_id key) d keys"

text \<open>
  The keys of one job: its targets when it reserves, its worktree when it reserves or its
  checkout blocks (which already made it reserve).
\<close>

definition reserve_job ::
  "(string \<rightharpoonup> string) \<times> (string \<rightharpoonup> string) \<Rightarrow> reserving_job \<Rightarrow>
   job_error + (string \<rightharpoonup> string) \<times> (string \<rightharpoonup> string)" where
  "reserve_job s j =
     rbind (job_reserves j) (\<lambda>reserves.
     rbind (if reserves then reserve_targets (fst s) (aj_id j) (reserved_targets j)
            else Inr (fst s)) (\<lambda>targets.
     rbind (if reserves then Inr True
            else rbind (job_checkout_operation (agent_job.truncate j))
                   (\<lambda>c. Inr (checkout_blocks_reservation (map_option co_state c)))) (\<lambda>blocked.
     rbind (case worktree_path (aj_checkout j) of
              None \<Rightarrow> Inr (snd s)
            | Some path \<Rightarrow>
                if blocked \<and> truthy path then reserve ''worktree '' (snd s) (aj_id j) path
                else Inr (snd s)) (\<lambda>worktrees.
       Inr (targets, worktrees)))))"

definition validate_reservations :: "reserving_job list \<Rightarrow> job_error + unit" where
  "validate_reservations jobs =
     rbind (run_steps reserve_job (Map.empty, Map.empty) jobs) (\<lambda>_. Inr ())"

section \<open>Exclusive reservations\<close>

text \<open>Two jobs share nothing they reserve.\<close>

definition worktree_key :: "reserving_job \<Rightarrow> string option" where
  "worktree_key j =
     (case worktree_path (aj_checkout j) of
        None \<Rightarrow> None | Some p \<Rightarrow> if truthy p then Some p else None)"

definition share_reservation :: "reserving_job \<Rightarrow> reserving_job \<Rightarrow> bool" where
  "share_reservation j k \<longleftrightarrow>
     set (reserved_targets j) \<inter> set (reserved_targets k) \<noteq> {}
     \<or> (worktree_key j \<noteq> None \<and> worktree_key j = worktree_key k)"

definition reservations_exclusive :: "reserving_job list \<Rightarrow> bool" where
  "reservations_exclusive jobs \<longleftrightarrow>
     (\<forall>j \<in> set jobs. job_reserves j \<in> range Inr)
     \<and> (\<forall>j \<in> set jobs. \<forall>k \<in> set jobs.
          job_reserves j = Inr True \<and> job_reserves k = Inr True \<and> share_reservation j k
          \<longrightarrow> aj_id j = aj_id k)"

lemma reserve_iff [result_simps]:
  "reserve w d i k = Inr d' \<longleftrightarrow> d k \<in> {None, Some i} \<and> d' = d(k \<mapsto> i)"
  by (auto simp: reserve_def fun_upd_idem split: option.splits if_splits)

lemma reserve_targets_iff:
  "reserve_targets d i ks = Inr d' \<longleftrightarrow>
     (\<forall>k \<in> set ks. d k \<in> {None, Some i}) \<and> d' = (\<lambda>k. if k \<in> set ks then Some i else d k)"
proof (induction ks arbitrary: d)
  case Nil
  then show ?case by (auto simp: reserve_targets_def)
next
  case (Cons k ks)
  have "reserve_targets d i (k # ks) = Inr d'
      \<longleftrightarrow> d k \<in> {None, Some i} \<and> reserve_targets (d(k \<mapsto> i)) i ks = Inr d'"
    by (auto simp: reserve_targets_def result_simps)
  also have "\<dots> \<longleftrightarrow> d k \<in> {None, Some i} \<and> (\<forall>l \<in> set ks. (d(k \<mapsto> i)) l \<in> {None, Some i})
      \<and> d' = (\<lambda>l. if l \<in> set ks then Some i else (d(k \<mapsto> i)) l)"
    by (simp only: Cons.IH)
  also have "\<dots> \<longleftrightarrow> (\<forall>l \<in> set (k # ks). d l \<in> {None, Some i})
      \<and> d' = (\<lambda>l. if l \<in> set (k # ks) then Some i else d l)"
  proof -
    have "(\<lambda>l. if l \<in> set ks then Some i else (d(k \<mapsto> i)) l)
        = (\<lambda>l. if l \<in> set (k # ks) then Some i else d l)" by auto
    then show ?thesis by auto
  qed
  finally show ?case .
qed

lemma idle_checkout_does_not_block:
  assumes "job_reserves j = Inr False"
  shows "\<exists>c. job_checkout_operation (agent_job.truncate j) = Inr c
    \<and> \<not> checkout_blocks_reservation (map_option co_state c)"
  using assms by (auto simp: job_reserves_def result_simps split: if_splits)

lemma reserve_job_iff:
  "reserve_job (t, w) j = Inr (t', w') \<longleftrightarrow>
     job_reserves j = Inr False \<and> t' = t \<and> w' = w
     \<or> job_reserves j = Inr True \<and> reserve_targets t (aj_id j) (reserved_targets j) = Inr t'
       \<and> (case worktree_key j of
            None \<Rightarrow> w' = w | Some p \<Rightarrow> w p \<in> {None, Some (aj_id j)} \<and> w' = w(p \<mapsto> aj_id j))"
proof (cases "job_reserves j")
  case (Inr b)
  show ?thesis
  proof (cases b)
    case True
    with Inr show ?thesis
      by (auto simp: reserve_job_def worktree_key_def result_simps split: option.splits if_splits)
  next
    case False
    with Inr idle_checkout_does_not_block [of j] show ?thesis
      by (auto simp: reserve_job_def result_simps split: option.splits)
  qed
qed (simp add: reserve_job_def)

text \<open>What the two dictionaries hold after some jobs: their keys, each with its owner.\<close>

definition owners_of :: "reserving_job list \<Rightarrow> (string \<rightharpoonup> string) \<times> (string \<rightharpoonup> string) \<Rightarrow> bool" where
  "owners_of js s \<longleftrightarrow>
     (\<forall>k i. fst s k = Some i \<longleftrightarrow>
        (\<exists>j \<in> set js. job_reserves j = Inr True \<and> k \<in> set (reserved_targets j) \<and> aj_id j = i))
     \<and> (\<forall>p i. snd s p = Some i \<longleftrightarrow>
        (\<exists>j \<in> set js. job_reserves j = Inr True \<and> worktree_key j = Some p \<and> aj_id j = i))"

lemma owners_of_step:
  assumes "owners_of js (t, w)" and "reserve_job (t, w) j = Inr (t', w')"
  shows "owners_of (js @ [j]) (t', w')"
proof -
  consider (idle) "job_reserves j = Inr False" "t' = t" "w' = w"
    | (busy) "job_reserves j = Inr True" "reserve_targets t (aj_id j) (reserved_targets j) = Inr t'"
      "case worktree_key j of
         None \<Rightarrow> w' = w | Some p \<Rightarrow> w p \<in> {None, Some (aj_id j)} \<and> w' = w(p \<mapsto> aj_id j)"
    using assms(2) by (auto simp: reserve_job_iff)
  then show ?thesis
  proof cases
    case idle
    with assms(1) show ?thesis by (auto simp: owners_of_def)
  next
    case busy
    from busy(2) have t: "\<forall>k \<in> set (reserved_targets j). t k \<in> {None, Some (aj_id j)}"
      "t' = (\<lambda>k. if k \<in> set (reserved_targets j) then Some (aj_id j) else t k)"
      by (simp_all add: reserve_targets_iff)
    have targets: "t' k = Some i \<longleftrightarrow> (\<exists>l \<in> set (js @ [j]). job_reserves l = Inr True
        \<and> k \<in> set (reserved_targets l) \<and> aj_id l = i)" for k i
    proof (cases "k \<in> set (reserved_targets j)")
      case True
      have "aj_id l = aj_id j"
        if "l \<in> set js" "job_reserves l = Inr True" "k \<in> set (reserved_targets l)" for l
      proof -
        from assms(1) that have "t k = Some (aj_id l)" by (auto simp: owners_of_def)
        with t(1) True show ?thesis by force
      qed
      with True busy(1) t(2) show ?thesis by auto
    next
      case False
      with assms(1) t(2) show ?thesis by (auto simp: owners_of_def)
    qed
    have trees: "w' p = Some i \<longleftrightarrow> (\<exists>l \<in> set (js @ [j]). job_reserves l = Inr True
        \<and> worktree_key l = Some p \<and> aj_id l = i)" for p i
    proof (cases "worktree_key j = Some p")
      case True
      with busy(3) have w: "w p \<in> {None, Some (aj_id j)}" "w' p = Some (aj_id j)" by auto
      have "aj_id l = aj_id j"
        if "l \<in> set js" "job_reserves l = Inr True" "worktree_key l = Some p" for l
      proof -
        from assms(1) that have "w p = Some (aj_id l)" by (auto simp: owners_of_def)
        with w(1) show ?thesis by simp
      qed
      with True busy(1) w(2) show ?thesis by auto
    next
      case False
      with busy(3) have "w' p = w p" by (auto split: option.splits)
      with assms(1) False show ?thesis by (auto simp: owners_of_def)
    qed
    from targets trees show ?thesis by (simp add: owners_of_def)
  qed
qed

lemma share_commute: "share_reservation j k \<longleftrightarrow> share_reservation k j"
  by (auto simp: share_reservation_def)

lemma exclusive_snoc:
  "reservations_exclusive (js @ [j]) \<longleftrightarrow>
     reservations_exclusive js \<and> job_reserves j \<in> range Inr
     \<and> (job_reserves j = Inr True \<longrightarrow>
          (\<forall>l \<in> set js. job_reserves l = Inr True \<and> share_reservation j l \<longrightarrow> aj_id l = aj_id j))"
proof -
  define P where "P l k \<longleftrightarrow> (job_reserves l = Inr True \<and> job_reserves k = Inr True
    \<and> share_reservation l k \<longrightarrow> aj_id l = aj_id k)" for l k
  have sym: "P l k \<longleftrightarrow> P k l" for l k by (auto simp: P_def share_commute [of k l])
  have self: "P j j" by (simp add: P_def)
  have "reservations_exclusive (js @ [j]) \<longleftrightarrow>
      (\<forall>l \<in> set js. job_reserves l \<in> range Inr) \<and> job_reserves j \<in> range Inr
      \<and> (\<forall>l \<in> set js. \<forall>k \<in> set js. P l k) \<and> (\<forall>l \<in> set js. P j l)"
    using sym self by (simp only: reservations_exclusive_def P_def [symmetric]) auto
  also have "(\<forall>l \<in> set js. P j l) \<longleftrightarrow> (job_reserves j = Inr True \<longrightarrow>
      (\<forall>l \<in> set js. job_reserves l = Inr True \<and> share_reservation j l \<longrightarrow> aj_id l = aj_id j))"
    unfolding P_def by metis
  finally show ?thesis by (simp only: reservations_exclusive_def P_def [symmetric]) blast
qed

lemma owner_agrees:
  assumes "owners_of js (t, w)"
  shows "t k \<in> {None, Some i} \<longleftrightarrow>
      (\<forall>l \<in> set js. job_reserves l = Inr True \<and> k \<in> set (reserved_targets l) \<longrightarrow> aj_id l = i)"
    and "w p \<in> {None, Some i} \<longleftrightarrow>
      (\<forall>l \<in> set js. job_reserves l = Inr True \<and> worktree_key l = Some p \<longrightarrow> aj_id l = i)"
proof -
  have t: "t k = Some o' \<longleftrightarrow> (\<exists>j \<in> set js. job_reserves j = Inr True
      \<and> k \<in> set (reserved_targets j) \<and> aj_id j = o')" for o'
    using assms by (simp add: owners_of_def)
  have w: "w p = Some o' \<longleftrightarrow> (\<exists>j \<in> set js. job_reserves j = Inr True
      \<and> worktree_key j = Some p \<and> aj_id j = o')" for o'
    using assms by (simp add: owners_of_def)
  have option_iff: "x \<in> {None, Some i} \<longleftrightarrow> (\<forall>o'. x = Some o' \<longrightarrow> o' = i)"
    for x :: "string option"
    by (cases x) auto
  show "t k \<in> {None, Some i} \<longleftrightarrow>
      (\<forall>l \<in> set js. job_reserves l = Inr True \<and> k \<in> set (reserved_targets l) \<longrightarrow> aj_id l = i)"
    unfolding option_iff t by blast
  show "w p \<in> {None, Some i} \<longleftrightarrow>
      (\<forall>l \<in> set js. job_reserves l = Inr True \<and> worktree_key l = Some p \<longrightarrow> aj_id l = i)"
    unfolding option_iff w by blast
qed

lemma reserve_job_succeeds:
  assumes "owners_of js (t, w)"
  shows "reserve_job (t, w) j \<in> range Inr \<longleftrightarrow>
     job_reserves j \<in> range Inr
     \<and> (job_reserves j = Inr True \<longrightarrow>
          (\<forall>l \<in> set js. job_reserves l = Inr True \<and> share_reservation j l \<longrightarrow> aj_id l = aj_id j))"
proof -
  have "reserve_job (t, w) j \<in> range Inr \<longleftrightarrow>
      job_reserves j = Inr False \<or> job_reserves j = Inr True
        \<and> (\<forall>k \<in> set (reserved_targets j). t k \<in> {None, Some (aj_id j)})
        \<and> (\<forall>p. worktree_key j = Some p \<longrightarrow> w p \<in> {None, Some (aj_id j)})"
    by (cases "worktree_key j")
       (auto simp: image_iff reserve_job_iff reserve_targets_iff)
  moreover have "job_reserves j \<in> range Inr \<longleftrightarrow>
      job_reserves j = Inr False \<or> job_reserves j = Inr True"
    by auto
  moreover have "(\<forall>k \<in> set (reserved_targets j). t k \<in> {None, Some (aj_id j)})
        \<and> (\<forall>p. worktree_key j = Some p \<longrightarrow> w p \<in> {None, Some (aj_id j)}) \<longleftrightarrow>
      (\<forall>l \<in> set js. job_reserves l = Inr True \<and> share_reservation j l \<longrightarrow> aj_id l = aj_id j)"
    unfolding owner_agrees [OF assms] by (auto simp: share_reservation_def)
  ultimately show ?thesis by auto
qed

lemma reservation_run:
  "(run_steps reserve_job (Map.empty, Map.empty) js \<in> range Inr \<longleftrightarrow> reservations_exclusive js)
   \<and> (\<forall>s. run_steps reserve_job (Map.empty, Map.empty) js = Inr s \<longrightarrow> owners_of js s)"
proof (induction js rule: rev_induct)
  case Nil
  then show ?case by (simp add: reservations_exclusive_def owners_of_def)
next
  case (snoc j js)
  let ?run = "run_steps reserve_job (Map.empty, Map.empty)"
  show ?case
  proof (cases "?run js")
    case (Inl e)
    with snoc.IH have "\<not> reservations_exclusive js" by auto
    with Inl show ?thesis by (simp add: run_steps_append exclusive_snoc image_iff)
  next
    case (Inr s)
    obtain t w where s: "s = (t, w)" by fastforce
    with Inr snoc.IH have owners: "owners_of js (t, w)" and ok: "reservations_exclusive js" by auto
    have run: "?run (js @ [j]) = reserve_job (t, w) j"
      by (simp add: run_steps_append Inr s rbind_def split: sum.splits)
    have "?run (js @ [j]) \<in> range Inr \<longleftrightarrow> reservations_exclusive (js @ [j])"
      unfolding run reserve_job_succeeds [OF owners] exclusive_snoc using ok by simp
    moreover have "owners_of (js @ [j]) u" if "?run (js @ [j]) = Inr u" for u
      using owners_of_step [OF owners] that run by (cases u) simp
    ultimately show ?thesis by blast
  qed
qed

text \<open>
  C28. The check across a store's jobs accepts them exactly when the reservation of every job can be
  read and no two jobs with different identifiers that reserve share a Herdr target or a worktree.
\<close>

theorem reservations_accepted_iff_exclusive:
  "validate_reservations jobs = Inr () \<longleftrightarrow> reservations_exclusive jobs"
proof -
  have "validate_reservations jobs = Inr ()
      \<longleftrightarrow> run_steps reserve_job (Map.empty, Map.empty) jobs \<in> range Inr"
    by (auto simp: validate_reservations_def result_simps)
  with reservation_run show ?thesis by simp
qed

end
