(* ===== verification/Job_Invariants.thy ===== *)
theory Job_Invariants imports Reservations Delivery_Machine begin

text \<open>
  \<open>AgentJob.validate_invariants\<close> of \<open>cursor/model.py\<close>: the conditions between the fields of one job
  record, checked in the order of the source, the first violation raised. The record extends the
  one of \<open>Job_Record\<close> and \<open>Reservations\<close> with the columns only these checks read; the columns
  \<open>rj_..._state\<close> of \<open>Reservations\<close> are the states of the external operations.
\<close>

section \<open>Checks in order\<close>

text \<open>\<open>if bad: raise JobValidationError(message)\<close>, and a sequence of such statements.\<close>

definition refuse :: "bool \<Rightarrow> string \<Rightarrow> job_error + unit" where
  "refuse bad message = (if bad then Inl (JobValidationError message) else Inr ())"

fun in_order :: "(job_error + unit) list \<Rightarrow> job_error + unit" where
  "in_order [] = Inr ()"
| "in_order (c # cs) = rbind c (\<lambda>_. in_order cs)"

lemma refuse_Inr [simp]: "refuse bad m = Inr () \<longleftrightarrow> \<not> bad"
  by (simp add: refuse_def)

lemma in_order_Inr: "in_order cs = Inr () \<longleftrightarrow> list_all (\<lambda>c. c = Inr ()) cs"
  by (induction cs) (auto simp: result_simps)

text \<open>Reading a typed value only for its errors.\<close>

definition reads :: "job_error + 'a \<Rightarrow> job_error + unit" where
  "reads m = rbind m (\<lambda>_. Inr ())"

lemma reads_Inr [simp]: "reads m = Inr () \<longleftrightarrow> (\<exists>x. m = Inr x)"
  by (auto simp: reads_def result_simps)

section \<open>The columns\<close>

text \<open>The durable prompt fence of an operation on a Linear ticket.\<close>

record prompt_fence =
  pf_target :: "string option"
  pf_session :: "string option"
  pf_token :: "string option"
  pf_baseline_sequence :: "int option"

record full_job = reserving_job +
  clone_source :: "string option"
  github_repository :: "string option"
  github_issue :: "int option"
  issue_key :: "string option"
  github_issue_create_requested :: bool
  github_issue_create_confirmed :: bool
  github_issue_create_title :: "string option"
  github_issue_create_marker :: "string option"
  github_pr_create_requested :: bool
  github_pr_create_confirmed :: bool
  github_pr_create_title :: "string option"
  github_pr_create_marker :: "string option"
  github_pr_create_base :: "string option"
  github_pr_create_head_oid :: "string option"
  github_pr_create_head_repository :: "string option"
  github_pr_create_checkout_origin :: "string option"
  github_pr_create_status_digest :: "string option"
  github_pr_merge_requested :: bool
  github_pr_merge_confirmed :: bool
  github_pr_merge_number :: "int option"
  github_pr_merge_url :: "string option"
  github_pr_merge_marker :: "string option"
  github_pr_merge_snapshot :: "string option"
  github_pr_merge_method :: "string option"
  github_repo_create_requested :: bool
  github_repo_create_confirmed :: bool
  github_repo_create_org_requested :: bool
  github_repo_create_continue_workflow :: bool
  github_repo_create_visibility :: "string option"
  github_repo_create_marker :: "string option"
  github_issue_update_requested :: bool
  github_issue_update_confirmed :: bool
  github_issue_update_title :: "string option"
  github_issue_update_marker :: "string option"
  github_issue_close_requested :: bool
  github_issue_close_confirmed :: bool
  github_issue_close_marker :: "string option"
  linear_ticket_create_requested :: bool
  linear_ticket_create_confirmed :: bool
  linear_ticket_create_team :: "string option"
  linear_ticket_create_team_id :: "string option"
  linear_ticket_create_title :: "string option"
  linear_ticket_create_marker :: "string option"
  linear_ticket_create_prompt :: prompt_fence
  linear_ticket_update_requested :: bool
  linear_ticket_update_confirmed :: bool
  linear_ticket_update_title :: "string option"
  linear_ticket_update_marker :: "string option"
  linear_ticket_update_issue_id :: "string option"
  linear_ticket_update_prompt :: prompt_fence
  linear_ticket_close_requested :: bool
  linear_ticket_close_confirmed :: bool
  linear_ticket_close_marker :: "string option"
  linear_ticket_close_issue_id :: "string option"
  linear_ticket_close_prompt :: prompt_fence
  github_issue_split_requested :: bool
  linear_ticket_split_requested :: bool
  ticket_split_confirmed :: bool
  ticket_split_children :: "string option"
  ticket_split_parent_action :: "string option"
  ticket_split_parent_title :: "string option"
  ticket_split_parent_marker :: "string option"
  ticket_split_prompt :: prompt_fence
  github_issue_merge_requested :: bool
  linear_ticket_merge_requested :: bool
  ticket_merge_confirmed :: bool
  ticket_merge_survivor :: "string option"
  ticket_merge_closing :: "string option"
  ticket_merge_survivor_title :: "string option"
  ticket_merge_survivor_marker :: "string option"
  ticket_merge_prompt :: prompt_fence
  job_delivery :: delivery_fields_row
  announcement_dismissed :: bool
  workflow_turn_phase :: "string option"
  plan_approval_completion_pending :: bool
  job_reconcile :: bool
  manual_reconcile_token :: "string option"
  target_release_manual_required :: bool
  target_release_unverified_targets :: "string list"
  job_session_control :: "string option"
  job_session_control_generation :: "int option"

abbreviation base_job :: "full_job \<Rightarrow> agent_job" where
  "base_job j \<equiv> agent_job.truncate j"

text \<open>\<open>bool(n)\<close> of an optional integer, \<open>all((...))\<close> of optional texts.\<close>

definition truthy_int :: "int option \<Rightarrow> bool" where
  "truthy_int i \<longleftrightarrow> i \<noteq> None \<and> i \<noteq> Some 0"

definition all_given :: "string option list \<Rightarrow> bool" where
  "all_given vs \<longleftrightarrow> list_all otruthy vs"

definition fence_given :: "prompt_fence \<Rightarrow> bool" where
  "fence_given f \<longleftrightarrow> all_given [pf_target f, pf_session f, pf_token f] \<and> pf_baseline_sequence f \<noteq> None"

section \<open>The tables of operation states\<close>

definition issue_create_operation_states :: "string set" where
  "issue_create_operation_states =
     {''planned'', ''submitting'', ''submitted'', ''created'', ''ambiguous'', ''manual_required''}"

definition repo_create_operation_states :: "string set" where
  "repo_create_operation_states = issue_create_operation_states \<union> {''remote_created'', ''clone_verified''}"

definition pr_merge_operation_states :: "string set" where
  "pr_merge_operation_states =
     {''planned'', ''submitting'', ''submitted'', ''merged'', ''ambiguous'', ''manual_required''}"

definition clone_operation_states :: "string set" where
  "clone_operation_states = {''planned'', ''submitted'', ''cloned'', ''ambiguous'', ''manual_required''}"

definition agent_operation_states :: "string set" where
  "agent_operation_states =
     {''dispatching'', ''ready'', ''ambiguous'', ''failed_observing'', ''confirmed_absent'',
      ''manual_required'', ''retained''}"

definition fork_operation_states :: "string set" where
  "fork_operation_states =
     {''planned'', ''submitted'', ''exists'', ''failed'', ''ambiguous'', ''failed_observing'',
      ''confirmed_absent'', ''manual_required'', ''retained''}"

definition worktree_operation_states :: "string set" where
  "worktree_operation_states =
     {''planned'', ''dispatching'', ''ready'', ''retained'', ''quarantined'', ''ambiguous'',
      ''failed_observing'', ''confirmed_absent'', ''manual_required''}"

definition prompt_operation_states :: "string set" where
  "prompt_operation_states =
     {''none'', ''planned'', ''submitting'', ''submitted'', ''observed'', ''ambiguous'', ''resolved''}"

text \<open>A state that is given and not in its table.\<close>

definition foreign_state :: "string set \<Rightarrow> string option \<Rightarrow> bool" where
  "foreign_state allowed st \<longleftrightarrow> st \<noteq> None \<and> \<not> one_of allowed st"

definition validate_operation_state :: "string \<Rightarrow> string option \<Rightarrow> string set \<Rightarrow> job_error + unit" where
  "validate_operation_state field v allowed = refuse (foreign_state allowed v) (field @ '' has invalid value'')"

section \<open>The typed states\<close>

definition job_delivery_state :: "full_job \<Rightarrow> job_error + delivery_state" where
  "job_delivery_state j =
     map_err lifecycle_failure
       (delivery_state_of_row (announcement_dismissed j) None (job_delivery j))"

definition check_typed_states :: "full_job \<Rightarrow> job_error + unit" where
  "check_typed_states j =
     in_order
       [reads (job_terminal_state (base_job j)), reads (job_cleanup_state (base_job j)),
        reads (job_delivery_state j), reads (job_workflow_state (base_job j)),
        reads (job_review_state (base_job j)), reads (job_plan_approval (base_job j)),
        reads (job_participant_lifecycle (base_job j)),
        (if aj_loaded_schema_version j = CURRENT_SCHEMA_VERSION
            \<and> (worker_claimed_at (aj_worker j) \<noteq> None \<or> worker_claim_operation (aj_worker j) \<noteq> None)
         then reads (job_worker_ownership (base_job j)) else Inr ()),
        (if agent_provider (aj_session j) \<noteq> None \<or> agent_provider_session_id (aj_session j) \<noteq> None
            \<or> agent_state_sequence (aj_session j) \<noteq> None
         then reads (job_session_operation (base_job j)) else Inr ()),
        (if participant_creation_checkout (aj_participant j) \<noteq> None
         then reads (job_pane_operation (base_job j)) else Inr ()),
        refuse (admission_state_text (base_job j) \<notin> {''waiting'', ''held'', ''released''})
          ''participant_admission_state has invalid value'']"

section \<open>Operations on GitHub\<close>

definition check_clone :: "full_job \<Rightarrow> (job_error + unit) list" where
  "check_clone j =
     [refuse (foreign_state clone_operation_states (rj_clone_state j)) ''clone_operation_state is invalid'',
      refuse (rj_clone_state j \<noteq> None \<and> \<not> otruthy (clone_source j))
        ''clone operation requires a clone source'']"

definition check_issue_and_pr_requests :: "full_job \<Rightarrow> (job_error + unit) list" where
  "check_issue_and_pr_requests j =
     [refuse (foreign_state issue_create_operation_states (rj_issue_create_state j))
        ''github_issue_create_operation_state is invalid'',
      refuse (github_issue_create_confirmed j \<and> \<not> github_issue_create_requested j)
        ''GitHub issue creation confirmation requires a creation request'',
      refuse (foreign_state issue_create_operation_states (rj_pr_create_state j))
        ''github_pr_create_operation_state is invalid'',
      refuse (github_pr_create_confirmed j \<and> \<not> github_pr_create_requested j)
        ''GitHub pull request creation confirmation requires a creation request'']"

definition check_pr_merge :: "full_job \<Rightarrow> (job_error + unit) list" where
  "check_pr_merge j =
     [refuse (foreign_state pr_merge_operation_states (rj_pr_merge_state j))
        ''github_pr_merge_operation_state is invalid'',
      refuse (github_pr_merge_confirmed j \<and> \<not> github_pr_merge_requested j)
        ''GitHub pull request merge confirmation requires a merge request'',
      refuse (rj_pr_merge_state j \<noteq> None
              \<and> \<not> (truthy_int (github_pr_merge_number j)
                    \<and> all_given [github_repository j, github_pr_merge_url j, github_pr_merge_marker j,
                         github_pr_merge_snapshot j, github_pr_merge_method j]))
        (''GitHub pull request merge operation requires repository, number, ''
         @ ''URL, marker, immutable snapshot, and merge method''),
      refuse (foreign_state {''merge'', ''squash'', ''rebase''} (github_pr_merge_method j))
        ''github_pr_merge_method is invalid'']"

definition check_repo_create :: "full_job \<Rightarrow> (job_error + unit) list" where
  "check_repo_create j =
     [refuse (foreign_state repo_create_operation_states (rj_repo_create_state j))
        ''github_repo_create_operation_state is invalid'',
      refuse (github_repo_create_confirmed j \<and> \<not> github_repo_create_requested j)
        ''GitHub repository creation confirmation requires a creation request'',
      refuse (github_repo_create_org_requested j \<and> \<not> github_repo_create_requested j)
        ''GitHub organization repository creation requires a creation request'',
      refuse (github_repo_create_continue_workflow j \<and> \<not> github_repo_create_requested j)
        ''GitHub repository workflow continuation requires a creation request'',
      refuse (foreign_state {''private'', ''public''} (github_repo_create_visibility j))
        ''github_repo_create_visibility is invalid'',
      refuse (rj_repo_create_state j \<noteq> None
              \<and> \<not> all_given [github_repository j, github_repo_create_visibility j,
                    github_repo_create_marker j])
        (''GitHub repository creation operation requires repository, '' @ ''visibility, and marker'')]"

definition check_issue_update :: "full_job \<Rightarrow> (job_error + unit) list" where
  "check_issue_update j =
     [refuse (foreign_state issue_create_operation_states (rj_issue_update_state j))
        ''github_issue_update_operation_state is invalid'',
      refuse (github_issue_update_confirmed j \<and> \<not> github_issue_update_requested j)
        ''GitHub issue update confirmation requires an update request'',
      refuse (rj_issue_update_state j \<noteq> None
              \<and> \<not> (truthy_int (github_issue j)
                    \<and> all_given [github_repository j, github_issue_update_title j,
                         github_issue_update_marker j]))
        (''GitHub issue update operation requires repository, issue, title, '' @ ''and marker'')]"

definition check_issue_close :: "full_job \<Rightarrow> (job_error + unit) list" where
  "check_issue_close j =
     [refuse (foreign_state issue_create_operation_states (rj_issue_close_state j))
        ''github_issue_close_operation_state is invalid'',
      refuse (github_issue_close_confirmed j \<and> \<not> github_issue_close_requested j)
        ''GitHub issue close confirmation requires a close request'',
      refuse (rj_issue_close_state j \<noteq> None
              \<and> \<not> (truthy_int (github_issue j)
                    \<and> all_given [github_repository j, github_issue_close_marker j]))
        ''GitHub issue close operation requires repository, issue, and marker'']"

definition check_issue_and_pr_create :: "full_job \<Rightarrow> (job_error + unit) list" where
  "check_issue_and_pr_create j =
     [refuse (rj_issue_create_state j \<noteq> None
              \<and> \<not> all_given [github_repository j, github_issue_create_title j,
                    github_issue_create_marker j])
        ''GitHub issue creation operation requires repository, title, and marker'',
      refuse (rj_pr_create_state j \<noteq> None
              \<and> \<not> all_given [github_repository j, github_pr_create_title j, github_pr_create_marker j,
                    github_pr_create_base j, github_pr_create_head_oid j,
                    github_pr_create_head_repository j, github_pr_create_checkout_origin j,
                    github_pr_create_status_digest j])
        (''GitHub pull request creation operation requires repository, '' @ ''title, and marker'')]"

section \<open>Operations on Linear tickets, splits and merges\<close>

abbreviation submitting :: "string option \<Rightarrow> bool" where
  "submitting st \<equiv> one_of {''submitting'', ''submitted''} st"

definition check_linear_create :: "full_job \<Rightarrow> (job_error + unit) list" where
  "check_linear_create j =
     [refuse (foreign_state issue_create_operation_states (rj_linear_create_state j))
        ''linear_ticket_create_operation_state is invalid'',
      refuse (linear_ticket_create_confirmed j \<and> \<not> linear_ticket_create_requested j)
        ''Linear ticket creation confirmation requires a creation request'',
      refuse (rj_linear_create_state j \<noteq> None
              \<and> \<not> all_given [linear_ticket_create_team j, linear_ticket_create_team_id j,
                    linear_ticket_create_title j, linear_ticket_create_marker j])
        ''Linear ticket creation operation requires team, title, and marker'',
      refuse (submitting (rj_linear_create_state j) \<and> \<not> fence_given (linear_ticket_create_prompt j))
        ''Linear ticket submission requires a durable prompt fence'']"

definition check_linear_update :: "full_job \<Rightarrow> (job_error + unit) list" where
  "check_linear_update j =
     [refuse (foreign_state issue_create_operation_states (rj_linear_update_state j))
        ''linear_ticket_update_operation_state is invalid'',
      refuse (linear_ticket_update_confirmed j \<and> \<not> linear_ticket_update_requested j)
        ''Linear ticket update confirmation requires an update request'',
      refuse (rj_linear_update_state j \<noteq> None
              \<and> \<not> all_given [issue_key j, linear_ticket_update_title j, linear_ticket_update_marker j])
        ''Linear ticket update operation requires identifier, title, and marker'',
      refuse (submitting (rj_linear_update_state j)
              \<and> \<not> (otruthy (linear_ticket_update_issue_id j) \<and> fence_given (linear_ticket_update_prompt j)))
        ''Linear ticket update submission requires a durable prompt fence'']"

definition check_linear_close :: "full_job \<Rightarrow> (job_error + unit) list" where
  "check_linear_close j =
     [refuse (foreign_state issue_create_operation_states (rj_linear_close_state j))
        ''linear_ticket_close_operation_state is invalid'',
      refuse (linear_ticket_close_confirmed j \<and> \<not> linear_ticket_close_requested j)
        ''Linear ticket close confirmation requires a close request'',
      refuse (rj_linear_close_state j \<noteq> None
              \<and> \<not> all_given [issue_key j, linear_ticket_close_marker j])
        ''Linear ticket close operation requires identifier and marker'',
      refuse (submitting (rj_linear_close_state j)
              \<and> \<not> (otruthy (linear_ticket_close_issue_id j) \<and> fence_given (linear_ticket_close_prompt j)))
        ''Linear ticket close submission requires a durable prompt fence'']"

definition check_ticket_split :: "full_job \<Rightarrow> (job_error + unit) list" where
  "check_ticket_split j =
     [refuse (foreign_state issue_create_operation_states (rj_ticket_split_state j))
        ''ticket_split_operation_state is invalid'',
      refuse (foreign_state issue_create_operation_states (rj_ticket_split_parent_state j))
        ''ticket_split_parent_operation_state is invalid'',
      refuse (ticket_split_confirmed j
              \<and> \<not> (github_issue_split_requested j \<or> linear_ticket_split_requested j))
        ''Ticket split confirmation requires a split request'',
      refuse (rj_ticket_split_state j \<noteq> None
              \<and> \<not> all_given [ticket_split_children j, ticket_split_parent_action j])
        ''Ticket split operation requires children and a parent action'',
      refuse (ticket_split_parent_action j = Some ''update'' \<and> rj_ticket_split_state j \<noteq> None
              \<and> \<not> all_given [ticket_split_parent_title j, ticket_split_parent_marker j])
        ''Ticket split rewrite requires a parent title and marker'',
      refuse (ticket_split_parent_action j = Some ''close'' \<and> rj_ticket_split_state j \<noteq> None
              \<and> \<not> otruthy (ticket_split_parent_marker j))
        ''Ticket split close requires a parent marker'',
      refuse (submitting (rj_ticket_split_state j) \<and> linear_ticket_split_requested j
              \<and> \<not> fence_given (ticket_split_prompt j))
        ''Linear ticket split submission requires a durable prompt fence'']"

definition check_ticket_merge :: "full_job \<Rightarrow> (job_error + unit) list" where
  "check_ticket_merge j =
     [refuse (foreign_state issue_create_operation_states (rj_ticket_merge_state j))
        ''ticket_merge_operation_state is invalid'',
      refuse (foreign_state issue_create_operation_states (rj_ticket_merge_survivor_state j))
        ''ticket_merge_survivor_operation_state is invalid'',
      refuse (ticket_merge_confirmed j
              \<and> \<not> (github_issue_merge_requested j \<or> linear_ticket_merge_requested j))
        ''Ticket merge confirmation requires a merge request'',
      refuse (rj_ticket_merge_state j \<noteq> None
              \<and> \<not> all_given [ticket_merge_survivor j, ticket_merge_closing j,
                    ticket_merge_survivor_title j, ticket_merge_survivor_marker j])
        ''Ticket merge operation requires a survivor, closing set, title, and marker'',
      refuse (submitting (rj_ticket_merge_state j) \<and> linear_ticket_merge_requested j
              \<and> \<not> fence_given (ticket_merge_prompt j))
        ''Linear ticket merge submission requires a durable prompt fence'']"

section \<open>The issue provider, the worker and the delivery\<close>

definition check_issue_provider :: "full_job \<Rightarrow> (job_error + unit) list" where
  "check_issue_provider j =
     [refuse (github_issue j \<noteq> None \<and> issue_key j = None \<and> aj_issue_provider j \<noteq> Some ''github'')
        ''GitHub issue job requires github issue_provider'',
      refuse (issue_key j \<noteq> None \<and> aj_issue_provider j = None)
        ''issue-key job requires issue_provider'',
      refuse (aj_issue_provider j = Some ''github'' \<and> github_issue j = None
              \<and> \<not> github_issue_create_requested j \<and> \<not> github_repo_create_requested j
              \<and> \<not> github_pr_create_requested j \<and> \<not> github_pr_merge_requested j
              \<and> \<not> github_issue_update_requested j \<and> \<not> github_issue_close_requested j
              \<and> \<not> github_issue_split_requested j \<and> \<not> github_issue_merge_requested j)
        ''github issue_provider requires a GitHub issue identity'',
      refuse (aj_issue_provider j \<notin> {None, Some ''github''} \<and> issue_key j = None
              \<and> \<not> (aj_issue_provider j = Some ''linear''
                    \<and> (linear_ticket_create_requested j \<or> linear_ticket_update_requested j
                       \<or> linear_ticket_close_requested j \<or> linear_ticket_split_requested j
                       \<or> linear_ticket_merge_requested j)))
        ''selected issue_provider requires an issue key'']"

definition WORKER_STATUSES :: "job_state set" where
  "WORKER_STATUSES = {JsRouting, JsRunning, JsReconciling}"

text \<open>Which of the six parts of a worker claim are given.\<close>

definition worker_claim_given :: "worker_row \<Rightarrow> bool list" where
  "worker_claim_given r =
     [worker_token r \<noteq> None, worker_pid r \<noteq> None, worker_boot_id r \<noteq> None,
      worker_process_start r \<noteq> None, worker_claim_operation r \<noteq> None, worker_claimed_at r \<noteq> None]"

definition check_worker :: "bool \<Rightarrow> full_job \<Rightarrow> (job_error + unit) list" where
  "check_worker require_worker_owner j =
     (let given = worker_claim_given (aj_worker j);
          incomplete = job_state_value (aj_status j) @ '' job requires complete worker ownership'' in
     [refuse (aj_revision j < 0) ''revision must not be negative'',
      refuse (case worker_pid (aj_worker j) of None \<Rightarrow> False | Some pid \<Rightarrow> pid \<le> 0)
        ''worker_pid must be positive'',
      refuse (require_worker_owner \<and> list_ex id given \<and> \<not> list_all id given) incomplete,
      refuse (require_worker_owner \<and> terminal_intent_status (aj_intent j) = None
              \<and> aj_status j \<in> WORKER_STATUSES \<and> \<not> list_all id given) incomplete])"

definition check_delivery :: "full_job \<Rightarrow> (job_error + unit) list" where
  "check_delivery j =
     (let r = job_delivery j; ack = announcement_ack_of_row r (announcement_dismissed j) in
     [refuse (otruthy (delivery_claim_token r) \<noteq> (delivery_claimed_at r \<noteq> None))
        ''delivery claim token and timestamp must be paired'',
      refuse (delivered r \<and> otruthy (delivery_claim_token r))
        ''delivered job cannot retain a delivery claim'',
      refuse (ack \<notin> {''pending'', ''spoken'', ''desktop'', ''deferred'', ''dismissed''})
        ''announcement_ack has invalid value'',
      refuse (ack \<in> {''spoken'', ''dismissed''} \<and> \<not> delivered r)
        ''spoken or dismissed announcement requires delivered'',
      refuse (ack \<in> {''deferred'', ''desktop''} \<and> delivered r)
        ''desktop or deferred announcement cannot be marked delivered''])"

section \<open>Workflow and review\<close>

definition check_workflow_row :: "full_job \<Rightarrow> (job_error + unit) list" where
  "check_workflow_row j =
     (let r = aj_workflow j in
     [refuse (review_round r < 0 \<or> review_round r > 2) ''review_round must be between zero and two'',
      refuse (workflow_phase r \<noteq> PhClassifying \<and> workflow_tier r = None
              \<and> aj_loaded_schema_version j = CURRENT_SCHEMA_VERSION)
        (workflow_phase_value (workflow_phase r) @ '' workflow requires workflow_tier''),
      refuse (workflow_tier r \<noteq> None \<and> \<not> otruthy (workflow_classification_reason r))
        ''classified workflow requires workflow_classification_reason'',
      refuse (workflow_tier r = Some TierSimple \<and> workflow_phase r \<in> {PhPlanning, PhReviewing, PhRevising})
        ''simple workflow cannot enter planning or review'',
      refuse (workflow_tier r = Some TierMedium \<and> review_round r > 1)
        ''medium workflow allows only one review''])"

text \<open>\<open>job_review_approved\<close> is the property that asks for an approval source.\<close>

definition job_review_approved :: "full_job \<Rightarrow> bool" where
  "job_review_approved j \<longleftrightarrow> review_approval_source (aj_workflow j) \<noteq> None"

definition check_review_row :: "full_job \<Rightarrow> (job_error + unit) list" where
  "check_review_row j =
     (let r = aj_workflow j; decision = review_decision r; src = review_approval_source r in
     [refuse (foreign_state {''approve'', ''revise''} decision) ''review_decision has invalid value'',
      refuse (foreign_state {''reviewer'', ''user''} src) ''review_approval_source has invalid value'',
      refuse (job_review_approved j \<noteq> (src \<noteq> None)) ''review approval and approval source must be paired'',
      refuse (job_review_approved j \<and> \<not> otruthy (review_artifact r))
        ''approved review requires a review artifact'',
      refuse (src = Some ''reviewer'' \<and> decision \<noteq> Some ''approve'')
        ''reviewer approval requires an approving review decision'',
      refuse (src = Some ''user''
              \<and> (workflow_tier r \<noteq> Some TierHighRisk \<or> decision \<noteq> Some ''revise'' \<or> review_round r < 1))
        ''user approval requires an exhausted high-risk rejected review''])"

section \<open>Plan approval\<close>

definition approval_text :: "full_job \<Rightarrow> string" where
  "approval_text j = or_str (plan_approval_state (aj_approval j)) ''none''"

text \<open>Which of the three parts of the gate proof are given.\<close>

definition approval_proof_given :: "full_job \<Rightarrow> bool list" where
  "approval_proof_given j =
     (let r = aj_approval j in
      [plan_approval_id r \<noteq> None, plan_approval_agent_session r \<noteq> None,
       plan_approval_state_change_sequence r \<noteq> None])"

definition check_approval_proof :: "full_job \<Rightarrow> (job_error + unit) list" where
  "check_approval_proof j =
     (let st = approval_text j; src = plan_approval_source (aj_approval j);
          proof = approval_proof_given j in
     [refuse (st \<notin> plan_approval_state_value ` {PaNone, PaBoundary, PaAwaiting, PaApproved, PaObserved, PaRejected})
        ''plan_approval_state has invalid value'',
      refuse (foreign_state {''explicit'', ''auto'', ''legacy''} src) ''plan_approval_source has invalid value'',
      (if st = ''none''
       then refuse (list_ex id proof \<or> src \<noteq> None)
              ''inactive plan approval cannot retain gate proof or source''
       else refuse (\<not> list_all id proof)
              ''active plan approval requires gate ID, agent session, and sequence'')])"

definition check_approval_phase :: "full_job \<Rightarrow> (job_error + unit) list" where
  "check_approval_phase j =
     (let st = approval_text j; src = plan_approval_source (aj_approval j);
          phase = workflow_phase (aj_workflow j) in
     [refuse (st = ''boundary'' \<and> (phase \<notin> {PhPlanning, PhRevising, PhReviewing} \<or> src \<noteq> None))
        ''plan approval boundary requires a planning or review phase'',
      refuse (st = ''awaiting''
              \<and> (aj_status j \<noteq> JsAwaitingUser \<or> aj_clarification_kind j \<noteq> Some ''workflow_plan_approval''
                 \<or> phase \<noteq> PhReviewing \<or> src \<noteq> None))
        ''awaiting plan approval requires the reviewed-plan question'',
      refuse (st \<in> {''approved'', ''observed''} \<and> (src = None \<or> phase \<notin> {PhImplementing, PhFinished}))
        ''approved plan requires a source and implementation phase'',
      refuse (st = ''rejected''
              \<and> ((aj_status j \<noteq> JsCancelled
                  \<and> \<not> (aj_status j = JsReconciling
                       \<and> terminal_intent_status (aj_intent j) = Some ''cancelled''))
                 \<or> src \<noteq> None))
        ''rejected plan approval requires a cancelled job without a source'',
      refuse (plan_approval_counted (aj_approval j)
              \<and> (src \<noteq> Some ''explicit'' \<or> st \<notin> {''approved'', ''observed''}))
        ''counted plan approval requires an accepted explicit approval'',
      refuse (plan_approval_completion_pending j
              \<and> (src \<noteq> Some ''explicit'' \<or> st \<noteq> ''observed'' \<or> phase \<noteq> PhFinished
                 \<or> aj_status j \<notin> {JsQueued, JsReconciling} \<or> \<not> job_reconcile j \<or> \<not> otruthy (aj_result j)
                 \<or> aj_active_participant j \<noteq> None
                 \<or> prompt_operation_state_field (pr_fields (aj_prompt j)) \<noteq> ''none''))
        ''pending plan approval completion requires durable finished output''])"

definition planned_work :: "full_job \<Rightarrow> bool" where
  "planned_work j \<longleftrightarrow> workflow_tier (aj_workflow j) \<in> {Some TierMedium, Some TierHighRisk}
     \<and> workflow_phase (aj_workflow j) \<in> {PhImplementing, PhFinished}"

definition check_planned_work :: "full_job \<Rightarrow> (job_error + unit) list" where
  "check_planned_work j =
     [refuse (planned_work j
              \<and> (\<not> otruthy (plan_artifact (aj_workflow j)) \<or> \<not> otruthy (review_artifact (aj_workflow j))
                 \<or> \<not> job_review_approved j))
        ''planned workflow cannot implement without approved plan and review'',
      refuse (planned_work j \<and> approval_text j \<notin> {''approved'', ''observed''})
        ''planned workflow cannot implement without plan approval'']"

section \<open>Participants and durable operations\<close>

definition parse_workflow_phase :: "string \<Rightarrow> workflow_phase option" where
  "parse_workflow_phase s =
     find (\<lambda>p. workflow_phase_value p = s)
       [PhClassifying, PhPlanning, PhReviewing, PhRevising, PhImplementing, PhFinished]"

definition participant_target :: "full_job \<Rightarrow> workflow_participant \<Rightarrow> string option" where
  "participant_target j p =
     (case p of
        Planner \<Rightarrow> planner_target (aj_participant j)
      | Reviewer \<Rightarrow> reviewer_target (aj_participant j)
      | Implementer \<Rightarrow> implementer_target (aj_participant j))"

definition prompt_state_text :: "full_job \<Rightarrow> string" where
  "prompt_state_text j = prompt_operation_state_field (pr_fields (aj_prompt j))"

definition check_prompt_row :: "full_job \<Rightarrow> (job_error + unit) list" where
  "check_prompt_row j =
     (let r = pr_fields (aj_prompt j); st = prompt_state_text j in
     [refuse (workflow_turn_phase j \<noteq> None \<and> parse_workflow_phase (the (workflow_turn_phase j)) = None)
        ''workflow_turn_phase has invalid value'',
      (case aj_active_participant j of
         None \<Rightarrow> Inr ()
       | Some p \<Rightarrow> refuse (\<not> otruthy (participant_target j p) \<or> participant_target j p \<noteq> aj_herdr_target j)
                    ''active participant target must match herdr_target''),
      validate_operation_state ''prompt_operation_state'' (Some st) prompt_operation_states,
      validate_operation_state ''participant_creation_state'' (Some (creation_state_text (base_job j)))
        (creation_state_value ` {CrNone, CrPlanned, CrSubmitting, CrCreated, CrAmbiguous, CrFailed, CrManualRequired}),
      (if st = ''none'' then Inr ()
       else case prompt_operation_phase r of
         None \<Rightarrow> refuse True ''durable prompt operation requires phase, turn, and target''
       | Some ph \<Rightarrow>
           if parse_workflow_phase ph = None
           then Inl (JobValidationError ''prompt_operation_phase has invalid value'')
           else refuse ((case prompt_operation_turn r of None \<Rightarrow> 0 | Some n \<Rightarrow> n) \<le> 0
                        \<or> \<not> otruthy (prompt_operation_target r))
                  ''durable prompt operation requires phase, turn, and target''),
      refuse (st \<in> {''submitting'', ''submitted'', ''ambiguous''} \<and> prompt_baseline_sequence r = None)
        (st @ '' prompt requires baseline sequence'')])"

definition check_creation_row :: "full_job \<Rightarrow> (job_error + unit) list" where
  "check_creation_row j =
     (let r = aj_participant j; st = creation_state_text (base_job j) in
     [refuse (st \<noteq> ''none''
              \<and> \<not> all_given [participant_creation_participant r, participant_creation_target r,
                    participant_creation_label r])
        ''participant creation requires role, target, and label'',
      refuse (st = ''created''
              \<and> \<not> all_given [participant_creation_workspace_id r, participant_creation_pane_id r])
        ''created participant requires pane and workspace''])"

definition job_session_control_state :: "full_job \<Rightarrow> job_error + session_control" where
  "job_session_control_state j =
     (let generation = (case job_session_control_generation j of None \<Rightarrow> 0 | Some n \<Rightarrow> n) in
      case or_str (job_session_control j) ''automated'' of mode \<Rightarrow>
        if mode = ''automated''
        then map_err violation_failure (SessionControlState_init Automated generation)
        else if mode = ''user_owned''
        then map_err violation_failure (SessionControlState_init UserOwned generation)
        else Inl (JobValidationError ''session_control has invalid value''))"

definition check_intent_row :: "full_job \<Rightarrow> (job_error + unit) list" where
  "check_intent_row j =
     [(case terminal_intent_status (aj_intent j) of
         None \<Rightarrow> Inr ()
       | Some st \<Rightarrow>
           refuse (st \<notin> job_state_value ` TERMINAL_STATUSES \<or> aj_status j \<noteq> JsReconciling
                   \<or> \<not> target_release_pending (aj_cleanup j))
             ''terminal intent requires reconciling status and release fence''),
      reads (job_session_control_state j)]"

definition check_operation_rows :: "full_job \<Rightarrow> (job_error + unit) list" where
  "check_operation_rows j =
     (let agent = agent_dispatch_state (aj_session j); fork = fork_operation_state (aj_fork j);
          worktree = worktree_provision_state (aj_checkout j); c = aj_checkout j in
     [validate_operation_state ''agent_dispatch_state'' agent agent_operation_states,
      validate_operation_state ''fork_operation_state'' fork fork_operation_states,
      validate_operation_state ''worktree_provision_state'' worktree worktree_operation_states,
      refuse (one_of uncertain_operation_states agent \<and> \<not> otruthy (aj_herdr_target j))
        (or_str agent '''' @ '' agent operation requires herdr_target''),
      refuse (one_of {''planned'', ''submitted'', ''ambiguous'', ''failed_observing'', ''manual_required''} fork
              \<and> \<not> otruthy (fork_operation_target (aj_fork j)))
        (or_str fork '''' @ '' fork operation requires target''),
      refuse (one_of {''planned'', ''dispatching'', ''ambiguous'', ''failed_observing'', ''manual_required''} worktree
              \<and> \<not> all_given [row_repository c, worktree_branch c, worktree_path c])
        (or_str worktree '''' @ '' worktree operation requires '' @ ''repository, branch, and path'')])"

section \<open>Manual reconciliation, cancellation and release\<close>

text \<open>The states of the five operations a person can reconcile, by the name of the operation.\<close>

definition manual_states :: "full_job \<Rightarrow> (string \<times> string option) list" where
  "manual_states j =
     [(''agent'', agent_dispatch_state (aj_session j)), (''fork'', fork_operation_state (aj_fork j)),
      (''worktree'', worktree_provision_state (aj_checkout j)), (''prompt'', Some (prompt_state_text j)),
      (''pane'', Some (creation_state_text (base_job j)))]"

definition check_manual :: "full_job \<Rightarrow> (job_error + unit) list" where
  "check_manual j =
     (let oper = rj_manual_reconcile_operation j; token = manual_reconcile_token j;
          stuck = list_ex (\<lambda>(_, st). st = Some ''manual_required'') (manual_states j) in
     [refuse (stuck \<and> (\<not> otruthy oper \<or> \<not> otruthy token))
        ''manual reconciliation requires operation and token'',
      (if otruthy oper
       then in_order
         [refuse (map_of (manual_states j) (the oper) = None)
            ''manual reconciliation operation is invalid'',
          refuse (map_of (manual_states j) (the oper)
                    \<noteq> Some (Some (if the oper = ''prompt'' then ''ambiguous'' else ''manual_required''))
                  \<or> \<not> otruthy token)
            ''manual reconciliation fields do not match operation fence'']
       else refuse (otruthy token) ''manual reconciliation requires operation and token'')])"

definition check_operations_readable :: "bool \<Rightarrow> full_job \<Rightarrow> (job_error + unit) list" where
  "check_operations_readable require_worker_owner j =
     [(if require_worker_owner \<and> worktree_provision_state (aj_checkout j) \<noteq> None
       then reads (job_checkout_operation (base_job j)) else Inr ()),
      (if require_worker_owner \<and> agent_dispatch_state (aj_session j) \<noteq> None
       then reads (job_session_operation (base_job j)) else Inr ()),
      (if require_worker_owner \<and> creation_state_text (base_job j) \<noteq> ''none''
       then reads (job_pane_operation (base_job j)) else Inr ()),
      (if require_worker_owner \<and> fork_operation_state (aj_fork j) \<noteq> None
       then reads (job_fork_operation (base_job j)) else Inr ())]"

definition check_release_row :: "full_job \<Rightarrow> (job_error + unit) list" where
  "check_release_row j =
     (let r = aj_cleanup j;
          owner = [target_release_owner_pid r \<noteq> None, target_release_owner_boot_id r \<noteq> None,
                   target_release_owner_start r \<noteq> None] in
     [refuse (cancellation_reconciliation_pending r
              \<and> \<not> has_uncertain_operation (reserving_job.truncate j) \<and> \<not> target_release_pending r)
        ''cancellation reconciliation requires an operation or release fence'',
      refuse (cancellation_reconciliation_pending r \<and> aj_status j \<notin> {JsReconciling, JsCancelled, JsFailed})
        ''cancellation reconciliation is only valid for cancelled or failed jobs'',
      refuse (list_ex id owner \<and> \<not> list_all id owner)
        ''target release owner PID, boot ID, and process start must be paired'',
      refuse (\<not> target_release_pending r
              \<and> (otruthy (target_release_token r) \<or> truthy_int (target_release_owner_pid r)
                 \<or> otruthy (target_release_owner_boot_id r) \<or> otruthy (target_release_owner_start r)
                 \<or> target_release_manual_required j \<or> target_release_unverified_targets j \<noteq> []))
        ''released target cannot retain release ownership fields'',
      refuse (target_release_manual_required j \<noteq> (target_release_unverified_targets j \<noteq> []))
        ''manual target release requires unverified target identities''])"

section \<open>The whole check\<close>

definition validate_invariants :: "bool \<Rightarrow> full_job \<Rightarrow> job_error + unit" where
  "validate_invariants require_worker_owner j =
     in_order
       ([check_typed_states j] @ check_clone j @ check_issue_and_pr_requests j @ check_pr_merge j
        @ check_repo_create j @ check_issue_update j @ check_issue_close j
        @ check_issue_and_pr_create j @ check_linear_create j @ check_linear_update j
        @ check_linear_close j @ check_ticket_split j @ check_ticket_merge j
        @ check_issue_provider j @ check_worker require_worker_owner j @ check_delivery j
        @ check_workflow_row j @ check_review_row j @ check_approval_proof j
        @ check_approval_phase j @ check_planned_work j @ check_prompt_row j
        @ check_creation_row j @ check_intent_row j @ check_operation_rows j @ check_manual j
        @ check_operations_readable require_worker_owner j @ check_release_row j)"

end
