(* ===== verification/Job_Machine.thy ===== *)
theory Job_Machine imports Job_Lifecycle begin

text \<open>
  The job lifecycle as a machine: its label is the job state, its edges are \<open>_LEGAL_EDGES\<close> and the
  two edges only recovery may take, its step is \<open>apply_event\<close>. The lemmas give the revision
  fence, the finality of terminal jobs, the worker fence, follow-ups and session control.
\<close>

section \<open>Events as steps\<close>

definition recovery_edges :: "job_state \<Rightarrow> job_state set" where
  "recovery_edges s = legal_edges s \<union> (if s = JsQueued then {JsCompleted, JsBlocked} else {})"

lemma JobIdentity_check_Inr: "JobIdentity_check i = Inr j \<Longrightarrow> j = i"
  unfolding JobIdentity_check_def if_Inl_Inr_iff by simp

lemma next_revision_Inr:
  "next_revision i = Inr j \<Longrightarrow> j = i\<lparr>ji_revision := ji_revision i + 1\<rparr>"
  unfolding next_revision_def by (rule JobIdentity_check_Inr)

lemma outcome_state_terminal [simp]: "legal_edges (outcome_state out) = {}"
  by (simp add: outcome_state_def)

lemma terminal_outcome_Some: "terminal_outcome j = Some out \<Longrightarrow> lifecycle_state j = outcome_state out"
  by (cases j) simp_all

lemma terminal_state_iff:
  "lifecycle_state j \<in> {JsCompleted, JsFailed, JsCancelled} \<longleftrightarrow> terminal_outcome j \<noteq> None"
  by (cases j) (simp_all add: outcome_state_def)

lemma apply_event_cases:
  assumes "apply_event j ev = Inr k"
  shows "expected_revision ev = ji_revision (job_identity_of j)" and "k = event_next_state ev"
    and "job_identity_of k = (job_identity_of j)\<lparr>ji_revision := ji_revision (job_identity_of j) + 1\<rparr>"
    and "callback_worker ev = None \<or> job_worker j = callback_worker ev"
    and "lifecycle_state k = lifecycle_state j \<or> lifecycle_state k \<in> legal_edges (lifecycle_state j)
         \<or> is_recovery ev \<and> lifecycle_state j = JsQueued \<and> lifecycle_state k \<in> {JsCompleted, JsBlocked}"
    and "terminal_outcome j = Some out \<Longrightarrow> terminal_outcome k = Some out"
proof -
  from assms obtain i where rev: "expected_revision ev = ji_revision (job_identity_of j)"
    and i: "next_revision (job_identity_of j) = Inr i" "job_identity_of (event_next_state ev) = i"
    and w: "callback_worker ev = None \<or> job_worker j = callback_worker ev"
    and rest: "(if lifecycle_state j = lifecycle_state (event_next_state ev)
          then (case (terminal_outcome j, terminal_outcome (event_next_state ev)) of
                  (Some o1, Some o2) \<Rightarrow>
                    if o1 \<noteq> o2
                    then Inl (JobLifecycleError ''materialized terminal outcome is immutable'')
                    else Inr (event_next_state ev)
                | _ \<Rightarrow> Inr (event_next_state ev))
          else if is_recovery ev \<and> lifecycle_state j = JsQueued
                  \<and> lifecycle_state (event_next_state ev) \<in> {JsCompleted, JsBlocked}
          then Inr (event_next_state ev)
          else if lifecycle_state (event_next_state ev) \<notin> legal_edges (lifecycle_state j)
          then Inl (JobLifecycleError
                 (''illegal job lifecycle transition ''
                  @ job_state_value (lifecycle_state j) @ '' -> ''
                  @ job_state_value (lifecycle_state (event_next_state ev))))
          else Inr (event_next_state ev)) = Inr k"
    unfolding apply_event_def Let_def if_Inl_Inr_iff rbind_Inr_iff by auto
  show "expected_revision ev = ji_revision (job_identity_of j)" by (fact rev)
  show k: "k = event_next_state ev" using rest by (auto split: if_splits option.splits)
  show "job_identity_of k = (job_identity_of j)\<lparr>ji_revision := ji_revision (job_identity_of j) + 1\<rparr>"
    using next_revision_Inr [OF i(1)] i(2) k by simp
  show "callback_worker ev = None \<or> job_worker j = callback_worker ev" by (fact w)
  show "lifecycle_state k = lifecycle_state j \<or> lifecycle_state k \<in> legal_edges (lifecycle_state j)
         \<or> is_recovery ev \<and> lifecycle_state j = JsQueued \<and> lifecycle_state k \<in> {JsCompleted, JsBlocked}"
    using rest k by (auto split: if_splits)
  show "terminal_outcome k = Some out" if "terminal_outcome j = Some out"
  proof -
    have lab: "legal_edges (lifecycle_state j) = {}" "lifecycle_state j \<noteq> JsQueued"
      using terminal_outcome_Some [OF that] by (auto simp: outcome_state_def)
    then have same: "lifecycle_state j = lifecycle_state k" using rest k by (auto split: if_splits)
    with terminal_state_iff [of j] terminal_state_iff [of k] that
    obtain o2 where "terminal_outcome k = Some o2" by auto
    with rest same k that show ?thesis by (auto split: if_splits)
  qed
qed

interpretation job: guarded_machine lifecycle_state recovery_edges apply_event
proof
  fix j ev k assume "apply_event j ev = Inr k"
  from apply_event_cases(5) [OF this]
  show "lifecycle_state k = lifecycle_state j \<or> lifecycle_state k \<in> recovery_edges (lifecycle_state j)"
    by (auto simp: recovery_edges_def)
qed

lemma job_identity_run:
  assumes "run_steps apply_event j evs = Inr k"
  shows "map expected_revision evs
      = [ji_revision (job_identity_of j) ..
           ji_revision (job_identity_of j) + int (length evs) - 1]"
    and "job_identity_of k
      = (job_identity_of j)\<lparr>ji_revision := ji_revision (job_identity_of j) + int (length evs)\<rparr>"
  using assms
proof (induction evs arbitrary: j)
  case Nil
  { case 1 then show ?case by simp }
  { case 2 then show ?case by simp }
next
  case (Cons ev evs)
  { case 1
    then obtain u where u: "apply_event j ev = Inr u" "run_steps apply_event u evs = Inr k"
      by (auto simp: result_simps)
    let ?r = "ji_revision (job_identity_of j)"
    have "[?r .. ?r + int (Suc (length evs)) - 1] = ?r # [?r + 1 .. ?r + int (Suc (length evs)) - 1]"
      by (subst upto_rec1) auto
    with Cons.IH(1) [OF u(2)] apply_event_cases(1,3) [OF u(1)] show ?case
      by (simp add: algebra_simps) }
  { case 2
    then obtain u where u: "apply_event j ev = Inr u" "run_steps apply_event u evs = Inr k"
      by (auto simp: result_simps)
    with Cons.IH(2) [OF u(2)] apply_event_cases(3) [OF u(1)] show ?case
      by (simp add: algebra_simps) }
qed

text \<open>
  C25. The revision fence: in every run of accepted events each event expects exactly the
  revision it is applied to, so the expected revisions are consecutive and no two accepted
  events carry the same one; the identity keeps id, creation time, parent, request, harness and
  provider, and its revision counts the events.
\<close>

theorem job_events_are_serialized:
  assumes "run_steps apply_event j evs = Inr k"
  shows "map expected_revision evs
      = [ji_revision (job_identity_of j) ..
           ji_revision (job_identity_of j) + int (length evs) - 1]
    \<and> distinct (map expected_revision evs)
    \<and> job_identity_of k
      = (job_identity_of j)\<lparr>ji_revision := ji_revision (job_identity_of j) + int (length evs)\<rparr>"
  unfolding job_identity_run(1) [OF assms] job_identity_run(2) [OF assms]
  by (simp add: distinct_upto)

text \<open>
  A terminal job is final: whatever events are accepted after it, recovery included, the
  job stays terminal with the same outcome (status, result, error and completion time).
\<close>

theorem terminal_job_is_final:
  assumes "run_steps apply_event (TerminalJob i ex out) evs = Inr k"
  shows "\<exists>i' ex'. k = TerminalJob i' ex' out
    \<and> i' = i\<lparr>ji_revision := ji_revision i + int (length evs)\<rparr>"
proof -
  have "terminal_outcome k = Some out"
    by (rule run_steps_invariant [OF assms, where P = "\<lambda>j. terminal_outcome j = Some out"])
       (use apply_event_cases(6) in auto)
  moreover have "job_identity_of k = i\<lparr>ji_revision := ji_revision i + int (length evs)\<rparr>"
    using job_identity_run [OF assms] by simp
  ultimately show ?thesis by (cases k) auto
qed

text \<open>
  Workers are fenced: in every accepted run, a worker callback was made by the worker that
  held the job at that moment, and at the revision of that moment; a worker that lost the job to
  another, or a job without worker, cannot be advanced by a callback.
\<close>

theorem worker_callbacks_are_fenced:
  assumes "run_steps apply_event j (evs1 @ WorkerCallbackEvent r k w # evs2) = Inr z"
  shows "\<exists>u. run_steps apply_event j evs1 = Inr u \<and> job_worker u = Some w
    \<and> r = ji_revision (job_identity_of u)
    \<and> (\<forall>w' k'. w' \<noteq> w \<longrightarrow> (\<exists>e. apply_event u (WorkerCallbackEvent r k' w') = Inl e))"
proof -
  from assms obtain u v where u: "run_steps apply_event j evs1 = Inr u"
    and v: "apply_event u (WorkerCallbackEvent r k w) = Inr v"
    by (auto simp: run_steps_append result_simps)
  from apply_event_cases(1,4) [OF v] have w: "job_worker u = Some w"
    and r: "r = ji_revision (job_identity_of u)" by simp_all
  have "\<exists>e. apply_event u (WorkerCallbackEvent r k' w') = Inl e" if "w' \<noteq> w" for w' k'
  proof (cases "apply_event u (WorkerCallbackEvent r k' w')")
    case (Inr x)
    from apply_event_cases(4) [OF Inr] w that show ?thesis by simp
  qed simp
  with u w r show ?thesis by blast
qed

section \<open>Follow-ups\<close>

lemma apply_follow_up_iff [result_simps]:
  "apply_follow_up p ev = Inr c \<longleftrightarrow>
     (let i = job_identity_of p; ci = job_identity_of (fu_child ev) in
      fu_parent_revision ev = ji_revision i
      \<and> (\<exists>out. terminal_outcome p = Some out \<and> outcome_state out = JsCompleted
           \<and> mo_completed_at out = fu_parent_completed_at ev)
      \<and> ji_parent_id ci = Some (ji_id i) \<and> ji_harness ci = ji_harness i
      \<and> ji_provider ci = ji_provider i \<and> ji_revision ci = 0 \<and> c = fu_child ev)"
  unfolding apply_follow_up_def if_Inl_Inr_iff Let_def
  using terminal_outcome_Some [of p] by (auto split: option.splits)

text \<open>
  A follow-up is bound to the revision of its completed parent: after any further event of
  the parent the same follow-up is refused as stale, while the one that names the new revision
  is accepted with the same child, because a completed parent keeps identity and outcome.
\<close>

theorem follow_up_bound_to_revision:
  assumes "apply_follow_up p ev = Inr c" and "run_steps apply_event p evs = Inr q"
    and "evs \<noteq> []"
  shows "apply_follow_up q ev = Inl (JobLifecycleError ''stale follow-up parent revision'')
    \<and> apply_follow_up q (ev\<lparr>fu_parent_revision := ji_revision (job_identity_of q)\<rparr>) = Inr c"
proof -
  note f = assms(1) [unfolded apply_follow_up_iff Let_def]
  note i = job_identity_run(2) [OF assms(2)]
  from f obtain out where out: "terminal_outcome p = Some out" by blast
  have q: "terminal_outcome q = Some out"
    by (rule run_steps_invariant [OF assms(2), where P = "\<lambda>j. terminal_outcome j = Some out"])
       (use out apply_event_cases(6) in auto)
  have "fu_parent_revision ev \<noteq> ji_revision (job_identity_of q)"
    using f i assms(3) by simp
  then have "apply_follow_up q ev = Inl (JobLifecycleError ''stale follow-up parent revision'')"
    by (simp add: apply_follow_up_def)
  moreover have "apply_follow_up q (ev\<lparr>fu_parent_revision := ji_revision (job_identity_of q)\<rparr>) = Inr c"
    unfolding apply_follow_up_iff Let_def using f i out q by simp
  ultimately show ?thesis ..
qed

section \<open>Session control\<close>

datatype handover = Relinquish | Resume

fun handover_step :: "session_control \<Rightarrow> handover \<Rightarrow> lifecycle_violation + session_control" where
  "handover_step s Relinquish = relinquish s"
| "handover_step s Resume = resume s"

fun mode_edges :: "session_control_mode \<Rightarrow> session_control_mode set" where
  "mode_edges Automated = {UserOwned}"
| "mode_edges UserOwned = {Automated}"

lemma handover_iff [result_simps]:
  "handover_step s a = Inr t \<longleftrightarrow>
     sc_mode s = (case a of Relinquish \<Rightarrow> Automated | Resume \<Rightarrow> UserOwned) \<and> - 1 \<le> sc_generation s
     \<and> t = \<lparr>sc_mode = (case a of Relinquish \<Rightarrow> UserOwned | Resume \<Rightarrow> Automated),
            sc_generation = sc_generation s + 1\<rparr>"
  by (cases a) (auto simp: relinquish_def resume_def SessionControlState_init_def)

interpretation control: guarded_machine sc_mode mode_edges handover_step
  by unfold_locales (auto simp: handover_iff split: handover.splits)

lemma handover_run:
  "run_steps handover_step s as = Inr t \<Longrightarrow>
   sc_generation t = sc_generation s + int (length as)
   \<and> (sc_mode t = sc_mode s \<longleftrightarrow> even (length as))"
proof (induction as arbitrary: s)
  case Nil
  then show ?case by simp
next
  case (Cons a as)
  then obtain u where u: "handover_step s a = Inr u" "run_steps handover_step u as = Inr t"
    by (auto simp: result_simps)
  have "sc_mode u \<noteq> sc_mode s" "sc_generation u = sc_generation s + 1"
    using u(1) by (auto simp: handover_iff split: handover.splits)
  moreover from this have "sc_mode t = sc_mode s \<longleftrightarrow> sc_mode t \<noteq> sc_mode u"
    by (cases "sc_mode t"; cases "sc_mode s"; cases "sc_mode u") simp_all
  ultimately show ?case using Cons.IH [OF u(2)] by simp
qed

text \<open>
  Session control is fenced by its generation: every accepted hand-over raises it by one
  and flips the owner, so the owner after a run is told by the parity of its length, a
  generation never names two owners, and no earlier state of control comes back.
\<close>

theorem session_control_never_recurs:
  assumes "run_steps handover_step s as = Inr t"
  shows "sc_generation t = sc_generation s + int (length as)
    \<and> (sc_mode t = sc_mode s \<longleftrightarrow> even (length as))
    \<and> (\<forall>bs u. bs \<noteq> [] \<longrightarrow> run_steps handover_step t bs = Inr u \<longrightarrow>
         sc_generation u \<noteq> sc_generation s)"
proof -
  have "sc_generation u \<noteq> sc_generation s"
    if "bs \<noteq> []" "run_steps handover_step t bs = Inr u" for bs u
    using handover_run [OF assms] handover_run [OF that(2)] that(1)
    by (cases bs) auto
  with handover_run [OF assms] show ?thesis by blast
qed

section \<open>Witnesses\<close>

definition demo_job_identity :: job_identity where
  "demo_job_identity = \<lparr>ji_id = ''0123456789ab'', ji_created_at = Finite 10, ji_parent_id = None,
     ji_request = ''do it'', ji_harness = ''cursor'', ji_provider = None, ji_revision = 4\<rparr>"

definition demo_execution :: execution_components where
  "demo_execution = \<lparr>ec_prompt = None, ec_workflow = initial_workflow\<rparr>"

definition demo_worker :: worker_ownership where
  "demo_worker = \<lparr>wo_token = ''t'', wo_pid = 7, wo_boot_id = ''b'', wo_process_start = ''s'',
     wo_operation = ''prompt'', wo_claimed_at = 1\<rparr>"

definition demo_outcome :: materialized_outcome where
  "demo_outcome = \<lparr>mo_status = ''completed'', mo_result = ''done'', mo_error = None,
     mo_completed_at = 20\<rparr>"

definition demo_running :: job_lifecycle where
  "demo_running = RunningJob demo_job_identity demo_worker demo_execution"

definition demo_terminal :: "int \<Rightarrow> job_lifecycle" where
  "demo_terminal r = TerminalJob (demo_job_identity\<lparr>ji_revision := r\<rparr>) demo_execution demo_outcome"

lemma demo_next_revision:
  "next_revision (demo_job_identity\<lparr>ji_revision := 4\<rparr>) = Inr (demo_job_identity\<lparr>ji_revision := 5\<rparr>)"
  "next_revision (demo_job_identity\<lparr>ji_revision := 5\<rparr>) = Inr (demo_job_identity\<lparr>ji_revision := 6\<rparr>)"
  "demo_job_identity\<lparr>ji_revision := 4\<rparr> = demo_job_identity"
  by (simp_all add: next_revision_def JobIdentity_check_def demo_job_identity_def is_job_id_def
      is_lower_hex_def blank_iff py_space_def)

lemma demo_completes:
  "apply_event demo_running (WorkerCallbackEvent 4 (demo_terminal 5) demo_worker)
     = Inr (demo_terminal 5)"
proof -
  have "next_revision demo_job_identity = Inr (demo_job_identity\<lparr>ji_revision := 5\<rparr>)"
    using demo_next_revision(1,3) by simp
  moreover have "ji_revision demo_job_identity = 4" by (simp add: demo_job_identity_def)
  ultimately show ?thesis
    by (simp add: apply_event_def Let_def demo_running_def demo_terminal_def outcome_state_def
        demo_outcome_def)
qed

lemma demo_touch:
  "apply_event (demo_terminal 5) (LifecycleEvent 5 (demo_terminal 6)) = Inr (demo_terminal 6)"
  by (simp add: apply_event_def Let_def demo_terminal_def demo_next_revision)

lemma job_events_are_serialized_witness:
  "\<exists>k. run_steps apply_event demo_running [WorkerCallbackEvent 4 (demo_terminal 5) demo_worker,
        LifecycleEvent 5 (demo_terminal 6)] = Inr k
     \<and> ji_revision (job_identity_of k) = 6"
proof -
  have r: "run_steps apply_event demo_running [WorkerCallbackEvent 4 (demo_terminal 5) demo_worker,
      LifecycleEvent 5 (demo_terminal 6)] = Inr (demo_terminal 6)"
    by (simp add: demo_completes demo_touch)
  from job_events_are_serialized [OF r] r show ?thesis
    by (simp add: demo_running_def demo_job_identity_def)
qed

lemma terminal_job_is_final_witness:
  "\<exists>i ex. run_steps apply_event (demo_terminal 5) [LifecycleEvent 5 (demo_terminal 6)]
      = Inr (TerminalJob i ex demo_outcome) \<and> ji_revision i = 6"
proof -
  have r: "run_steps apply_event (TerminalJob (demo_job_identity\<lparr>ji_revision := 5\<rparr>) demo_execution
      demo_outcome) [LifecycleEvent 5 (demo_terminal 6)] = Inr (demo_terminal 6)"
    using demo_touch by (simp add: demo_terminal_def)
  from terminal_job_is_final [OF r] r show ?thesis by (auto simp: demo_terminal_def)
qed

lemma worker_callbacks_are_fenced_witness:
  "job_worker demo_running = Some demo_worker
   \<and> (\<exists>e. apply_event demo_running
         (WorkerCallbackEvent 4 (demo_terminal 5) (demo_worker\<lparr>wo_pid := 8\<rparr>)) = Inl e)"
proof -
  have r: "run_steps apply_event demo_running ([] @ WorkerCallbackEvent 4 (demo_terminal 5) demo_worker # [])
      = Inr (demo_terminal 5)"
    by (simp add: demo_completes)
  have "demo_worker\<lparr>wo_pid := 8\<rparr> \<noteq> demo_worker" by (simp add: demo_worker_def)
  with worker_callbacks_are_fenced [OF r] show ?thesis by auto
qed

definition demo_follow_up :: follow_up_event where
  "demo_follow_up = \<lparr>fu_parent_revision = 5, fu_parent_completed_at = 20,
     fu_child = QueuedJob \<lparr>ji_id = ''ba9876543210'', ji_created_at = Finite 30,
       ji_parent_id = Some ''0123456789ab'', ji_request = ''more'', ji_harness = ''cursor'',
       ji_provider = None, ji_revision = 0\<rparr> (Finite 30) demo_execution None\<rparr>"

lemma follow_up_bound_to_revision_witness:
  "apply_follow_up (demo_terminal 5) demo_follow_up = Inr (fu_child demo_follow_up)
   \<and> apply_follow_up (demo_terminal 6) demo_follow_up
       = Inl (JobLifecycleError ''stale follow-up parent revision'')"
proof -
  have a: "apply_follow_up (demo_terminal 5) demo_follow_up = Inr (fu_child demo_follow_up)"
    by (simp add: apply_follow_up_def Let_def demo_follow_up_def demo_terminal_def
        demo_job_identity_def outcome_state_def demo_outcome_def)
  have r: "run_steps apply_event (demo_terminal 5) [LifecycleEvent 5 (demo_terminal 6)]
      = Inr (demo_terminal 6)" by (simp add: demo_touch)
  from follow_up_bound_to_revision [OF a r] a show ?thesis by simp
qed

lemma session_control_never_recurs_witness:
  "run_steps handover_step \<lparr>sc_mode = Automated, sc_generation = 0\<rparr> [Relinquish, Resume]
     = Inr \<lparr>sc_mode = Automated, sc_generation = 2\<rparr>"
proof -
  obtain t where t: "run_steps handover_step \<lparr>sc_mode = Automated, sc_generation = 0\<rparr>
      [Relinquish, Resume] = Inr t"
    by (simp add: relinquish_def resume_def SessionControlState_init_def)
  with session_control_never_recurs [OF t] show ?thesis by (cases t) simp
qed

end
