(* ===== verification/Job_Transition.thy ===== *)
theory Job_Transition imports Job_Record Job_Machine begin

text \<open>
  \<open>validate_transition\<close> of \<open>cursor/model.py\<close>, the gate every update of the flat job record passes:
  the record's identity, its operations, its terminal outcome, an inherited checkout, revision
  and status, the participants' capacity, the plan approval, the workflow, the record's own
  invariants and the typed lifecycle event. And \<open>validate_reservations\<close>, the check across jobs.

  The record's own invariants (\<open>AgentJob.validate_invariants\<close>) constrain one record at a time;
  they are an argument of the gate, so every property here holds whatever they are.
\<close>

section \<open>The parts of the gate\<close>

definition check_job_identity :: "agent_job \<Rightarrow> agent_job \<Rightarrow> job_error + unit" where
  "check_job_identity before after =
     (if aj_id before \<noteq> aj_id after
      then Inl (JobValidationError ''Cursor job transition cannot change id'')
      else if aj_created_at before \<noteq> aj_created_at after
      then Inl (JobValidationError ''Cursor job transition cannot change created_at'')
      else if aj_parent_job_id before \<noteq> aj_parent_job_id after
      then Inl (JobValidationError ''Cursor job transition cannot change parent_job_id'')
      else if aj_request before \<noteq> aj_request after
      then Inl (JobValidationError
             ''Cursor job transition cannot change the original request'')
      else if aj_harness_kind before \<noteq> aj_harness_kind after
      then Inl (JobValidationError ''agent job transition cannot change harness_kind'')
      else if aj_issue_provider before \<noteq> aj_issue_provider after
      then Inl (JobValidationError ''agent job transition cannot change issue_provider'')
      else Inr ())"

definition check_job_operations :: "agent_job \<Rightarrow> agent_job \<Rightarrow> job_error + unit" where
  "check_job_operations before after =
     rbind (job_operations_pair before after)
       (\<lambda>(b, a). validate_operation_transitions b a)"

definition participant_targets :: "agent_job \<Rightarrow> string option list" where
  "participant_targets j =
     [aj_herdr_target j, planner_target (aj_participant j), reviewer_target (aj_participant j),
      implementer_target (aj_participant j)]"

definition holds_participant :: "agent_job \<Rightarrow> bool" where
  "holds_participant j \<longleftrightarrow> list_ex otruthy (participant_targets j)"

fun is_materialized :: "terminal_state \<Rightarrow> bool" where
  "is_materialized (MaterializedState _) = True"
| "is_materialized _ = False"

definition check_terminal_settled ::
  "agent_job \<Rightarrow> agent_job \<Rightarrow> terminal_state \<Rightarrow> terminal_state \<Rightarrow> job_error + unit" where
  "check_terminal_settled before after before_terminal after_terminal =
     rbind (job_terminal_intent_status before) (\<lambda>i.
     rbind (job_terminal_intent_status after) (\<lambda>k.
       if i \<noteq> None \<and> k \<noteq> None \<and> i \<noteq> k
       then Inl (JobValidationError ''terminal intent status cannot be rewritten'')
       else if is_materialized after_terminal \<and> \<not> is_materialized before_terminal
               \<and> (target_release_pending (aj_cleanup after)
                  \<or> cancellation_reconciliation_pending (aj_cleanup after)
                  \<or> holds_participant after)
       then Inl (JobValidationError
              ''terminal outcome cannot materialize before cleanup settles'')
       else Inr ()))"

text \<open>The five columns of an inherited checkout, in the order they are compared.\<close>

definition checkout_identity :: "agent_job \<Rightarrow> (string \<times> string option) list" where
  "checkout_identity j =
     (let r = aj_checkout j in
      [(''repository'', row_repository r), (''worktree_branch'', worktree_branch r),
       (''worktree_path'', worktree_path r), (''worktree_workspace_id'', worktree_workspace_id r),
       (''worktree_root_pane_id'', worktree_root_pane_id r)])"

definition check_inherited_checkout :: "agent_job \<Rightarrow> agent_job \<Rightarrow> job_error + unit" where
  "check_inherited_checkout before after =
     (if aj_parent_job_id after = None then Inr ()
      else case find (\<lambda>((_, v), (_, w)). v \<noteq> w)
                  (zip (checkout_identity before) (checkout_identity after)) of
             None \<Rightarrow> Inr ()
           | Some ((name, _), _) \<Rightarrow>
               Inl (JobValidationError (''follow-up child cannot change inherited '' @ name)))"

definition check_revision_and_status ::
  "agent_job \<Rightarrow> agent_job \<Rightarrow> terminal_state \<Rightarrow> terminal_state \<Rightarrow> job_error + unit" where
  "check_revision_and_status before after before_terminal after_terminal =
     (if aj_revision after \<noteq> aj_revision before + 1
      then Inl (JobValidationError
             (''Cursor job revision must increase by exactly one (''
              @ show_int (aj_revision before) @ '' -> '' @ show_int (aj_revision after) @ '')''))
      else if aj_status before \<noteq> aj_status after
              \<and> aj_status after \<notin> legal_edges (aj_status before)
              \<and> \<not> (case aj_lifecycle_event after of None \<Rightarrow> False | Some e \<Rightarrow> is_recovery e)
      then Inl (JobValidationError
             (''illegal Cursor job transition '' @ job_state_value (aj_status before)
              @ '' -> '' @ job_state_value (aj_status after)))
      else if is_materialized before_terminal \<and> after_terminal \<noteq> before_terminal
      then Inl (JobValidationError ''materialized terminal outcome is immutable'')
      else Inr ())"

section \<open>Participants, approval and workflow\<close>

definition yields_cleanly :: "agent_job \<Rightarrow> agent_job \<Rightarrow> bool" where
  "yields_cleanly before after \<longleftrightarrow>
     aj_status before \<in> {JsRouting, JsRunning} \<and> aj_status after = JsAwaitingUser
     \<and> aj_clarification_kind after = Some ''repository''
     \<and> worker_token (aj_worker after) = None \<and> aj_active_participant after = None
     \<and> \<not> list_ex otruthy
           (participant_targets after
            @ [participant_creation_target (aj_participant after),
               worktree_path (aj_checkout after)])"

definition released_cleanly :: "agent_job \<Rightarrow> bool" where
  "released_cleanly after \<longleftrightarrow>
     aj_status after \<in> TERMINAL_STATUSES \<and> \<not> target_release_pending (aj_cleanup after)
     \<and> \<not> holds_participant after"

definition check_admission ::
  "agent_job \<Rightarrow> agent_job \<Rightarrow> participant_lifecycle \<Rightarrow> participant_lifecycle \<Rightarrow>
   workflow_error + unit" where
  "check_admission before after b a =
     (if pl_admission b = pl_admission a then Inr ()
      else case pl_admission a of
             AdmHeld \<Rightarrow> rbind (admit_participant b) (\<lambda>_. Inr ())
           | AdmWaiting \<Rightarrow>
               if \<not> yields_cleanly before after
               then Inl (WorkflowTransitionError
                      (''held participant capacity can only yield for a ''
                       @ ''resource-free repository clarification''))
               else rbind (yield_capacity b) (\<lambda>_. Inr ())
           | AdmReleased \<Rightarrow>
               rbind (release_participant b (released_cleanly after)) (\<lambda>_. Inr ()))"

definition check_participants :: "agent_job \<Rightarrow> agent_job \<Rightarrow> job_error + unit" where
  "check_participants before after =
     rbind (job_participant_lifecycle before) (\<lambda>b.
     rbind (job_participant_lifecycle after) (\<lambda>a.
     rbind (map_err workflow_failure (check_admission before after b a)) (\<lambda>_.
     rbind (map_err workflow_failure (validate_creation (pl_creation b) (pl_creation a))) (\<lambda>_.
     rbind (job_plan_approval before) (\<lambda>p.
     rbind (job_plan_approval after) (\<lambda>q.
       map_err workflow_failure (validate_plan_approval p q)))))))"

definition check_held_release :: "agent_job \<Rightarrow> agent_job \<Rightarrow> job_error + unit" where
  "check_held_release before after =
     (if admission_state_text before = ''held'' \<and> admission_state_text after = ''released''
         \<and> \<not> released_cleanly after
      then Inl (JobValidationError
             ''held participant capacity requires confirmed terminal cleanup'')
      else Inr ())"

text \<open>
  The workflow of the update: the first classification must be the one the code would choose,
  later changes go through a promotion and a legal phase transition.
\<close>

definition check_workflow_states :: "workflow_state \<Rightarrow> workflow_state \<Rightarrow> workflow_error + unit" where
  "check_workflow_states b a =
     (case ws_classification b of
        None \<Rightarrow>
          (case ws_classification a of
             Some c \<Rightarrow>
               rbind (classify_workflow b (cl_tier c) (cl_reason c)) (\<lambda>expected.
                 if expected \<noteq> a
                 then Inl (WorkflowTransitionError
                        ''classification selected an invalid workflow phase'')
                 else Inr ())
           | None \<Rightarrow>
               if ws_phase b \<noteq> ws_phase a
               then rbind (workflow_transition b (ws_phase a)) (\<lambda>_. Inr ()) else Inr ())
      | Some c \<Rightarrow>
          rbind (if ws_classification a \<noteq> Some c
                 then (case ws_classification a of
                         None \<Rightarrow> Inl (WorkflowTransitionError
                                   ''classified workflow cannot discard classification'')
                       | Some d \<Rightarrow> promote_classification c (cl_tier d) (cl_reason d))
                 else Inr c) (\<lambda>cls.
          rbind (WorkflowState_init (ws_phase b) (Some cls)) (\<lambda>w.
          rbind (workflow_transition w (ws_phase a)) (\<lambda>_. Inr ()))))"

definition check_job_workflow :: "agent_job \<Rightarrow> agent_job \<Rightarrow> job_error + unit" where
  "check_job_workflow before after =
     rbind (job_workflow_state before) (\<lambda>b.
     rbind (job_workflow_state after) (\<lambda>a. map_err workflow_failure (check_workflow_states b a)))"

section \<open>The lifecycle event and the whole gate\<close>

definition validate_lifecycle_event ::
  "agent_job \<Rightarrow> agent_job \<Rightarrow> job_event \<Rightarrow> job_error + unit" where
  "validate_lifecycle_event self updated ev =
     (if aj_loaded_schema_version self \<noteq> CURRENT_SCHEMA_VERSION
         \<or> aj_loaded_schema_version updated \<noteq> CURRENT_SCHEMA_VERSION
      then Inr ()
      else
        rbind (job_lifecycle_of updated) (\<lambda>u.
          if event_next_state ev \<noteq> u
          then Inl (JobValidationError ''lifecycle event payload does not match update'')
          else
            rbind (job_lifecycle_of self) (\<lambda>s.
            rbind (map_err violation_failure (apply_event s ev)) (\<lambda>_. Inr ()))))"

definition update_event :: "agent_job \<Rightarrow> agent_job \<Rightarrow> job_error + job_event" where
  "update_event before after =
     (case aj_lifecycle_event after of
        Some ev \<Rightarrow> Inr ev
      | None \<Rightarrow> rbind (job_lifecycle_of after)
                  (\<lambda>u. Inr (LifecycleEvent (aj_revision before) u)))"

definition validate_transition ::
  "(agent_job \<Rightarrow> job_error + unit) \<Rightarrow> agent_job \<Rightarrow> agent_job \<Rightarrow> job_error + unit" where
  "validate_transition invariants before after =
     rbind (check_job_identity before after) (\<lambda>_.
     rbind (check_job_operations before after) (\<lambda>_.
     rbind (job_terminal_state before) (\<lambda>before_terminal.
     rbind (job_terminal_state after) (\<lambda>after_terminal.
     rbind (check_terminal_settled before after before_terminal after_terminal) (\<lambda>_.
     rbind (check_inherited_checkout before after) (\<lambda>_.
     rbind (check_revision_and_status before after before_terminal after_terminal) (\<lambda>_.
     rbind (check_participants before after) (\<lambda>_.
     rbind (check_held_release before after) (\<lambda>_.
     rbind (check_job_workflow before after) (\<lambda>_.
     rbind (invariants after) (\<lambda>_.
     rbind (update_event before after) (\<lambda>ev.
       validate_lifecycle_event before after ev))))))))))))"

end
