(* ===== verification/Job_Gate.thy ===== *)
theory Job_Gate imports Job_Transition begin

text \<open>
  What the gate on job updates guarantees through any history of updates: the record is the same
  job with consecutive revisions, an inherited checkout and a terminal outcome never change,
  participant capacity is given up only cleanly, the workflow's risk only grows, and every update
  of current records is a step of the agent-neutral lifecycle machine.
\<close>

section \<open>What one accepted update shows\<close>

lemma check_job_identity_iff [result_simps]:
  "check_job_identity b a = Inr u \<longleftrightarrow>
     aj_id a = aj_id b \<and> aj_created_at a = aj_created_at b
     \<and> aj_parent_job_id a = aj_parent_job_id b \<and> aj_request a = aj_request b
     \<and> aj_harness_kind a = aj_harness_kind b \<and> aj_issue_provider a = aj_issue_provider b"
  by (auto simp: check_job_identity_def if_Inl_Inr_iff)

lemma validate_transition_parts:
  assumes "validate_transition checks b a = Inr ()"
  obtains tb ta ev where
    "check_job_identity b a = Inr ()" "check_job_operations b a = Inr ()"
    "job_terminal_state b = Inr tb" "job_terminal_state a = Inr ta"
    "check_terminal_settled b a tb ta = Inr ()" "check_inherited_checkout b a = Inr ()"
    "check_revision_and_status b a tb ta = Inr ()" "check_participants b a = Inr ()"
    "check_held_release b a = Inr ()" "check_job_workflow b a = Inr ()"
    "checks a = Inr ()" "update_event b a = Inr ev" "validate_lifecycle_event b a ev = Inr ()"
  using assms by (auto simp: validate_transition_def rbind_Inr_iff)

definition gated_jobs :: "(agent_job \<Rightarrow> job_error + unit) \<Rightarrow> agent_job list \<Rightarrow> bool" where
  "gated_jobs checks h \<longleftrightarrow> successively (\<lambda>b a. validate_transition checks b a = Inr ()) h"

lemma gated_jobs_simps [simp]:
  "gated_jobs checks [j]"
  "gated_jobs checks (b # a # h) \<longleftrightarrow> validate_transition checks b a = Inr () \<and> gated_jobs checks (a # h)"
  by (simp_all add: gated_jobs_def)

lemma gated_jobs_invariant:
  assumes "gated_jobs checks (b # h)" and "P b"
    and "\<And>x y. P x \<Longrightarrow> validate_transition checks x y = Inr () \<Longrightarrow> P y"
  shows "P (last (b # h))"
  by (rule successively_invariant [OF assms(1) [unfolded gated_jobs_def]]) (use assms(2,3) in auto)

text \<open>A property that is lost between the ends of a history is lost by one update of it.\<close>

lemma gated_jobs_change:
  assumes "gated_jobs checks (b # h)" and "P b" and "\<not> P (last (b # h))"
  shows "\<exists>us x y vs. b # h = us @ x # y # vs \<and> P x \<and> \<not> P y
    \<and> validate_transition checks x y = Inr ()"
  using assms
proof (induction h arbitrary: b)
  case Nil
  then show ?case by simp
next
  case (Cons c h)
  show ?case
  proof (cases "P c")
    case True
    with Cons.IH [of c] Cons.prems obtain us x y vs where
      "c # h = us @ x # y # vs" "P x" "\<not> P y" "validate_transition checks x y = Inr ()" by auto
    then show ?thesis by (intro exI [of _ "b # us"] exI [of _ x] exI [of _ y] exI [of _ vs]) simp
  next
    case False
    with Cons.prems show ?thesis
      by (intro exI [of _ "[]"] exI [of _ b] exI [of _ c] exI [of _ h]) simp
  qed
qed

section \<open>The same job, in sequence\<close>

definition job_constants ::
  "agent_job \<Rightarrow> string \<times> time \<times> string option \<times> string \<times> harness_kind \<times> string option" where
  "job_constants j =
     (aj_id j, aj_created_at j, aj_parent_job_id j, aj_request j, aj_harness_kind j,
      aj_issue_provider j)"

definition inherited_checkout :: "agent_job \<Rightarrow> (string \<times> string option) list" where
  "inherited_checkout j = (if aj_parent_job_id j = None then [] else checkout_identity j)"

lemma check_inherited_checkout_Inr:
  assumes "check_inherited_checkout b a = Inr u" and "aj_parent_job_id a \<noteq> None"
  shows "checkout_identity a = checkout_identity b"
proof -
  have "find (\<lambda>((_, v), (_, w)). v \<noteq> w)
      (zip (checkout_identity b) (checkout_identity a)) = None"
    using assms by (auto simp: check_inherited_checkout_def split: option.splits)
  then show ?thesis by (auto simp: checkout_identity_def Let_def split: if_splits)
qed

lemma gated_step_record:
  assumes "validate_transition checks b a = Inr ()"
  shows "job_constants a = job_constants b" and "inherited_checkout a = inherited_checkout b"
    and "aj_revision a = aj_revision b + 1"
proof -
  from assms obtain tb ta where p: "check_job_identity b a = Inr ()"
    "check_inherited_checkout b a = Inr ()" "check_revision_and_status b a tb ta = Inr ()"
    by (rule validate_transition_parts) blast
  from p(1) show c: "job_constants a = job_constants b"
    by (simp add: check_job_identity_iff job_constants_def)
  from check_inherited_checkout_Inr [OF p(2)] c
  show "inherited_checkout a = inherited_checkout b"
    by (auto simp: inherited_checkout_def job_constants_def)
  from p(3) show "aj_revision a = aj_revision b + 1"
    by (simp add: check_revision_and_status_def if_Inl_Inr_iff)
qed

lemma gated_revision: "gated_jobs checks (b # h) \<Longrightarrow>
    aj_revision (last (b # h)) = aj_revision b + int (length h)"
proof (induction h arbitrary: b)
  case Nil
  then show ?case by simp
next
  case (Cons a h)
  then show ?case using gated_step_record(3) [of checks b a] by simp
qed

text \<open>
  Through any history of updates that pass the gate, a job keeps its identifier, creation time,
  parent, request, harness and issue provider, its revision counts the updates, and a follow-up
  child keeps the repository, branch, path, workspace and pane it inherited.
\<close>

theorem gated_history_keeps_job:
  assumes "gated_jobs checks (b # h)"
  shows "job_constants (last (b # h)) = job_constants b
    \<and> aj_revision (last (b # h)) = aj_revision b + int (length h)
    \<and> inherited_checkout (last (b # h)) = inherited_checkout b"
proof -
  have "job_constants (last (b # h)) = job_constants b
      \<and> inherited_checkout (last (b # h)) = inherited_checkout b"
    by (rule gated_jobs_invariant [OF assms]) (auto simp: gated_step_record)
  with gated_revision [OF assms] show ?thesis by simp
qed

section \<open>Terminal outcome\<close>

definition settled_release :: "agent_job \<Rightarrow> bool" where
  "settled_release j \<longleftrightarrow>
     \<not> target_release_pending (aj_cleanup j)
     \<and> \<not> cancellation_reconciliation_pending (aj_cleanup j) \<and> \<not> holds_participant j"

definition has_outcome :: "agent_job \<Rightarrow> bool" where
  "has_outcome j \<longleftrightarrow> (\<exists>out. job_terminal_state j = Inr (MaterializedState out))"

lemma is_materialized_iff: "is_materialized t \<longleftrightarrow> (\<exists>out. t = MaterializedState out)"
  by (cases t) simp_all

lemma gated_step_outcome:
  assumes "validate_transition checks b a = Inr ()"
  shows "job_terminal_state b = Inr (MaterializedState out) \<Longrightarrow>
      job_terminal_state a = Inr (MaterializedState out)"
    and "\<not> has_outcome b \<Longrightarrow> has_outcome a \<Longrightarrow> settled_release a"
proof -
  from assms obtain tb ta where p: "job_terminal_state b = Inr tb" "job_terminal_state a = Inr ta"
    "check_terminal_settled b a tb ta = Inr ()" "check_revision_and_status b a tb ta = Inr ()"
    by (rule validate_transition_parts) blast
  show "job_terminal_state a = Inr (MaterializedState out)"
    if "job_terminal_state b = Inr (MaterializedState out)"
    using that p by (auto simp: check_revision_and_status_def if_Inl_Inr_iff)
  show "settled_release a" if "\<not> has_outcome b" "has_outcome a"
    using that p
    by (auto simp: check_terminal_settled_def has_outcome_def settled_release_def
        is_materialized_iff rbind_Inr_iff if_Inl_Inr_iff)
qed

text \<open>
  C27. A materialised terminal outcome is never changed or withdrawn by a later update, and the update
  that materialises it leaves no participant, no pending release and no pending reconciliation.
\<close>

theorem gated_outcome_is_final:
  assumes "gated_jobs checks (b # h)"
  shows "(job_terminal_state b = Inr (MaterializedState out) \<longrightarrow>
        job_terminal_state (last (b # h)) = Inr (MaterializedState out))
    \<and> (\<not> has_outcome b \<and> has_outcome (last (b # h)) \<longrightarrow>
        (\<exists>us x y vs. b # h = us @ x # y # vs \<and> \<not> has_outcome x \<and> has_outcome y
          \<and> settled_release y))"
proof (intro conjI impI)
  assume "job_terminal_state b = Inr (MaterializedState out)"
  then show "job_terminal_state (last (b # h)) = Inr (MaterializedState out)"
    by (rule gated_jobs_invariant [OF assms]) (rule gated_step_outcome(1))
next
  assume change: "\<not> has_outcome b \<and> has_outcome (last (b # h))"
  with gated_jobs_change [OF assms, of "\<lambda>j. \<not> has_outcome j"] obtain us x y vs where
    h: "b # h = us @ x # y # vs" "\<not> has_outcome x" "has_outcome y"
    "validate_transition checks x y = Inr ()" by auto
  from gated_step_outcome(2) [OF h(4) h(2,3)] h(1-3)
  show "\<exists>us x y vs. b # h = us @ x # y # vs \<and> \<not> has_outcome x \<and> has_outcome y
      \<and> settled_release y" by blast
qed

section \<open>Participant capacity\<close>

definition has_admission :: "agent_job \<Rightarrow> admission_state \<Rightarrow> bool" where
  "has_admission j adm \<longleftrightarrow>
     (\<exists>p. job_participant_lifecycle j = Inr p \<and> pl_admission p = adm)"

lemma check_participants_Inr:
  assumes "check_participants b a = Inr u"
  obtains p q where "job_participant_lifecycle b = Inr p" "job_participant_lifecycle a = Inr q"
    "check_admission b a p q = Inr ()"
  using assms by (auto simp: check_participants_def rbind_Inr_iff map_err_Inr_iff)

lemma check_admission_Inr:
  assumes "check_admission b a p q = Inr u" and "pl_admission q \<noteq> pl_admission p"
  shows "pl_admission p = AdmWaiting \<and> pl_admission q = AdmHeld
    \<or> pl_admission p = AdmHeld \<and> pl_admission q = AdmWaiting \<and> yields_cleanly b a
      \<and> pl_creation p = no_creation
    \<or> pl_admission q = AdmReleased \<and> (pl_admission p = AdmHeld \<longrightarrow> released_cleanly a)"
  using assms
  by (auto simp: check_admission_def admit_participant_def yield_capacity_def
      release_participant_def result_simps split: admission_state.splits if_splits)

lemma gated_step_admission:
  assumes "validate_transition checks b a = Inr ()"
  shows "has_admission b AdmReleased \<Longrightarrow> has_admission a AdmReleased"
    and "has_admission b AdmHeld \<Longrightarrow> \<not> has_admission a AdmHeld \<Longrightarrow>
      has_admission a AdmWaiting \<and> yields_cleanly b a
      \<or> has_admission a AdmReleased \<and> released_cleanly a"
proof -
  from assms have "check_participants b a = Inr ()" by (rule validate_transition_parts) blast
  then obtain p q where p: "job_participant_lifecycle b = Inr p"
    "job_participant_lifecycle a = Inr q" "check_admission b a p q = Inr ()"
    by (rule check_participants_Inr)
  note change = check_admission_Inr [OF p(3)]
  show "has_admission a AdmReleased" if "has_admission b AdmReleased"
    using that p change by (cases "pl_admission q = pl_admission p") (auto simp: has_admission_def)
  show "has_admission a AdmWaiting \<and> yields_cleanly b a
      \<or> has_admission a AdmReleased \<and> released_cleanly a"
    if "has_admission b AdmHeld" "\<not> has_admission a AdmHeld"
    using that p change by (cases "pl_admission q = pl_admission p") (auto simp: has_admission_def)
qed

text \<open>
  Capacity that was released is never taken again, and capacity that a job held and no longer
  holds was given up by one update of the history: either for a repository clarification of a job
  that keeps no worker, target or worktree, or by a terminal job whose cleanup is confirmed.
\<close>

theorem gated_capacity_is_given_up_cleanly:
  assumes "gated_jobs checks (b # h)"
  shows "(has_admission b AdmReleased \<longrightarrow> has_admission (last (b # h)) AdmReleased)
    \<and> (has_admission b AdmHeld \<and> \<not> has_admission (last (b # h)) AdmHeld \<longrightarrow>
        (\<exists>us x y vs. b # h = us @ x # y # vs \<and> has_admission x AdmHeld
          \<and> (has_admission y AdmWaiting \<and> yields_cleanly x y
             \<or> has_admission y AdmReleased \<and> released_cleanly y)))"
proof (intro conjI impI)
  assume "has_admission b AdmReleased"
  then show "has_admission (last (b # h)) AdmReleased"
    by (rule gated_jobs_invariant [OF assms]) (rule gated_step_admission(1))
next
  assume "has_admission b AdmHeld \<and> \<not> has_admission (last (b # h)) AdmHeld"
  with gated_jobs_change [OF assms, of "\<lambda>j. has_admission j AdmHeld"] obtain us x y vs where
    h: "b # h = us @ x # y # vs" "has_admission x AdmHeld" "\<not> has_admission y AdmHeld"
    "validate_transition checks x y = Inr ()" by auto
  from gated_step_admission(2) [OF h(4) h(2,3)] h(1,2)
  show "\<exists>us x y vs. b # h = us @ x # y # vs \<and> has_admission x AdmHeld
      \<and> (has_admission y AdmWaiting \<and> yields_cleanly x y
         \<or> has_admission y AdmReleased \<and> released_cleanly y)" by blast
qed

section \<open>Workflow\<close>

definition workflow_risk :: "workflow_state \<Rightarrow> nat" where
  "workflow_risk w =
     (case ws_classification w of None \<Rightarrow> 0 | Some c \<Rightarrow> Suc (tier_order (cl_tier c)))"

definition workflow_grows :: "workflow_state \<Rightarrow> workflow_state \<Rightarrow> bool" where
  "workflow_grows w v \<longleftrightarrow>
     workflow_risk w \<le> workflow_risk v
     \<and> (workflow_risk w = workflow_risk v \<longrightarrow> ws_classification w = ws_classification v)
     \<and> (ws_phase w, ws_phase v) \<in> {(s, t). t \<in> legal_phase_edges s}\<^sup>*"

lemma workflow_grows_trans:
  "workflow_grows u v \<Longrightarrow> workflow_grows v w \<Longrightarrow> workflow_grows u w"
  by (auto simp: workflow_grows_def)

lemma WorkflowState_init_Inr:
  "WorkflowState_init ph c = Inr w \<Longrightarrow> ws_phase w = ph \<and> ws_classification w = c"
  by (auto simp: WorkflowState_init_def split: if_splits)

lemma workflow_transition_edge:
  "workflow_transition w ph = Inr v \<Longrightarrow> ph = ws_phase w \<or> ph \<in> legal_phase_edges (ws_phase w)"
  by (auto simp: workflow_transition_def split: if_splits)

lemma promote_classification_Inr:
  "promote_classification c t r = Inr d \<Longrightarrow>
     d = \<lparr>cl_tier = t, cl_reason = r\<rparr> \<and> tier_order (cl_tier c) < tier_order t"
  by (auto simp: promote_classification_def WorkflowClassification_init_def rbind_Inr_iff
      split: if_splits)

lemma classify_workflow_Inr:
  "classify_workflow w t r = Inr v \<Longrightarrow>
     ws_classification v \<noteq> None \<and> ws_phase v \<in> legal_phase_edges (ws_phase w)"
  by (auto simp: classify_workflow_def rbind_Inr_iff dest!: WorkflowState_init_Inr split: if_splits)

lemma check_workflow_grows:
  assumes "check_workflow_states w v = Inr u"
  shows "workflow_grows w v"
proof (cases "ws_classification w")
  case None
  show ?thesis
  proof (cases "ws_classification v")
    case none: None
    with None assms have "ws_phase v = ws_phase w \<or> ws_phase v \<in> legal_phase_edges (ws_phase w)"
      by (auto simp: check_workflow_states_def rbind_Inr_iff dest: workflow_transition_edge
          split: if_splits)
    with None none show ?thesis by (auto simp: workflow_grows_def workflow_risk_def)
  next
    case (Some c)
    with None assms have "classify_workflow w (cl_tier c) (cl_reason c) = Inr v"
      by (auto simp: check_workflow_states_def rbind_Inr_iff split: if_splits)
    from classify_workflow_Inr [OF this] None Some show ?thesis
      by (auto simp: workflow_grows_def workflow_risk_def)
  qed
next
  case (Some c)
  with assms obtain cls x y where cls:
    "(if ws_classification v \<noteq> Some c
      then (case ws_classification v of
              None \<Rightarrow> Inl (WorkflowTransitionError
                        ''classified workflow cannot discard classification'')
            | Some d \<Rightarrow> promote_classification c (cl_tier d) (cl_reason d))
      else Inr c) = Inr cls" and
    x: "WorkflowState_init (ws_phase w) (Some cls) = Inr x" and
    y: "workflow_transition x (ws_phase v) = Inr y"
    by (auto simp: check_workflow_states_def rbind_Inr_iff)
  from workflow_transition_edge [OF y] WorkflowState_init_Inr [OF x]
  have phase: "ws_phase v = ws_phase w \<or> ws_phase v \<in> legal_phase_edges (ws_phase w)" by auto
  show ?thesis
  proof (cases "ws_classification v = Some c")
    case True
    with Some phase show ?thesis by (auto simp: workflow_grows_def workflow_risk_def)
  next
    case False
    with cls obtain d where d: "ws_classification v = Some d"
      "promote_classification c (cl_tier d) (cl_reason d) = Inr cls"
      by (auto split: option.splits)
    from promote_classification_Inr [OF d(2)] d(1) Some phase show ?thesis
      by (auto simp: workflow_grows_def workflow_risk_def)
  qed
qed

text \<open>
  Through any history of gated updates the workflow's risk never falls, the classification and
  its reason change only when the risk rises, and the phase moves along the legal transitions.
\<close>

theorem gated_workflow_only_grows:
  assumes "gated_jobs checks (b # h)" and "job_workflow_state b = Inr w"
  shows "\<exists>v. job_workflow_state (last (b # h)) = Inr v \<and> workflow_grows w v"
proof (rule gated_jobs_invariant [OF assms(1)])
  show "\<exists>v. job_workflow_state b = Inr v \<and> workflow_grows w v"
    using assms(2) by (auto simp: workflow_grows_def)
next
  fix x y
  assume "\<exists>v. job_workflow_state x = Inr v \<and> workflow_grows w v"
    and "validate_transition checks x y = Inr ()"
  then obtain v where v: "job_workflow_state x = Inr v" "workflow_grows w v"
    and "check_job_workflow x y = Inr ()" by (auto elim: validate_transition_parts)
  then obtain v' where "job_workflow_state y = Inr v'" "check_workflow_states v v' = Inr ()"
    by (auto simp: check_job_workflow_def rbind_Inr_iff map_err_Inr_iff)
  with v(2) check_workflow_grows workflow_grows_trans
  show "\<exists>v. job_workflow_state y = Inr v \<and> workflow_grows w v" by blast
qed

section \<open>The lifecycle machine behind the record\<close>

lemma gated_step_lifecycle:
  assumes "validate_transition checks b a = Inr ()"
    and "aj_loaded_schema_version b = CURRENT_SCHEMA_VERSION"
    and "aj_loaded_schema_version a = CURRENT_SCHEMA_VERSION"
  shows "\<exists>s u ev. job_lifecycle_of b = Inr s \<and> job_lifecycle_of a = Inr u
    \<and> apply_event s ev = Inr u"
proof -
  from assms(1) obtain ev where "validate_lifecycle_event b a ev = Inr ()"
    by (rule validate_transition_parts) blast
  with assms(2,3) obtain s u r where *: "job_lifecycle_of b = Inr s" "job_lifecycle_of a = Inr u"
    "event_next_state ev = u" "apply_event s ev = Inr r"
    by (auto simp: validate_lifecycle_event_def rbind_Inr_iff map_err_Inr_iff split: if_splits)
  moreover have "r = u" using apply_event_cases [OF *(4)] *(3) by auto
  ultimately show ?thesis by blast
qed

text \<open>
  C26. Every history of gated updates of current-schema records is a run of the agent-neutral
  lifecycle machine, one event per update, between the lifecycles read from its ends.
\<close>

theorem gated_updates_refine_lifecycle:
  assumes "gated_jobs checks (b # h)"
    and "list_all (\<lambda>j. aj_loaded_schema_version j = CURRENT_SCHEMA_VERSION) (b # h)"
    and "job_lifecycle_of b = Inr s"
  shows "\<exists>evs u. length evs = length h \<and> job_lifecycle_of (last (b # h)) = Inr u
    \<and> run_steps apply_event s evs = Inr u"
  using assms
proof (induction h arbitrary: b s)
  case Nil
  then show ?case by simp
next
  case (Cons a h)
  from Cons.prems have step: "validate_transition checks b a = Inr ()" by simp
  from gated_step_lifecycle [OF step] Cons.prems(2,3) obtain t ev where
    t: "job_lifecycle_of a = Inr t" "apply_event s ev = Inr t" by auto
  from Cons.IH [OF _ _ t(1)] Cons.prems(1,2) obtain evs u where
    "length evs = length h" "job_lifecycle_of (last (a # h)) = Inr u"
    "run_steps apply_event t evs = Inr u" by auto
  with t(2) show ?case by (intro exI [of _ "ev # evs"] exI [of _ u]) simp
qed

section \<open>A concrete history\<close>

definition demo_routing :: agent_job where
  "demo_routing = demo_queued
     \<lparr>aj_revision := 4, aj_status := JsRouting,
      aj_worker := \<lparr>worker_token = Some ''w'', worker_pid = Some 7, worker_boot_id = Some ''b'',
        worker_process_start = Some ''s'', worker_claim_operation = Some ''route'',
        worker_claimed_at = Some 2\<rparr>,
      aj_participant := (aj_participant demo_queued)\<lparr>participant_admission_state := Some ''held''\<rparr>,
      aj_workflow := (aj_workflow demo_queued)\<lparr>workflow_tier := Some TierSimple,
        workflow_phase := PhImplementing, workflow_classification_reason := Some ''small''\<rparr>\<rparr>"

definition demo_cancelled :: agent_job where
  "demo_cancelled = demo_routing
     \<lparr>aj_revision := 5, aj_status := JsCancelled, aj_result := Some ''Cancelled.'',
      aj_completed_at := Some 4, aj_worker := aj_worker demo_queued,
      aj_participant :=
        (aj_participant demo_queued)\<lparr>participant_admission_state := Some ''released''\<rparr>\<rparr>"

lemma demo_steps:
  "validate_transition (\<lambda>_. Inr ()) demo_queued demo_routing = Inr ()"
  "validate_transition (\<lambda>_. Inr ()) demo_routing demo_cancelled = Inr ()"
  unfolding demo_cancelled_def demo_routing_def demo_queued_def by code_simp+

lemma demo_history: "gated_jobs (\<lambda>_. Inr ()) [demo_queued, demo_routing, demo_cancelled]"
  by (simp add: demo_steps)

lemma gated_history_keeps_job_witness:
  "aj_revision demo_cancelled = aj_revision demo_queued + 2
   \<and> job_constants demo_cancelled = job_constants demo_queued"
  using gated_history_keeps_job [OF demo_history] by simp

lemma demo_terminal_states:
  "job_terminal_state demo_routing = Inr NoTerminalState"
  "job_terminal_state demo_cancelled = Inr (MaterializedState
     \<lparr>mo_status = ''cancelled'', mo_result = ''Cancelled.'', mo_error = None, mo_completed_at = 4\<rparr>)"
  unfolding demo_cancelled_def demo_routing_def demo_queued_def by code_simp+

lemma demo_tail: "gated_jobs (\<lambda>_. Inr ()) [demo_routing, demo_cancelled]"
  by (simp add: demo_steps)

lemma gated_outcome_is_final_witness:
  "\<exists>us x y vs. [demo_routing, demo_cancelled] = us @ x # y # vs \<and> has_outcome y
     \<and> settled_release y"
proof -
  have "\<not> has_outcome demo_routing" and "has_outcome (last [demo_routing, demo_cancelled])"
    by (simp_all add: has_outcome_def demo_terminal_states)
  with gated_outcome_is_final [OF demo_tail] show ?thesis by metis
qed

lemma demo_admission:
  "has_admission demo_routing AdmHeld" "\<not> has_admission demo_cancelled AdmHeld"
proof -
  have "\<exists>p. job_participant_lifecycle demo_routing = Inr p \<and> pl_admission p = AdmHeld"
    and "\<exists>p. job_participant_lifecycle demo_cancelled = Inr p \<and> pl_admission p = AdmReleased"
    by (simp_all add: demo_cancelled_def demo_routing_def demo_queued_def
        job_participant_lifecycle_def creation_state_text_def admission_state_text_def
        member_or_invalid_def parse_creation_state_def parse_admission_def Let_def
        job_creation_participant_def ParticipantCreation_check_def)
  then show "has_admission demo_routing AdmHeld" "\<not> has_admission demo_cancelled AdmHeld"
    by (auto simp: has_admission_def)
qed

lemma gated_capacity_is_given_up_cleanly_witness:
  "\<exists>us x y vs. [demo_routing, demo_cancelled] = us @ x # y # vs \<and> has_admission x AdmHeld
     \<and> (yields_cleanly x y \<or> released_cleanly y)"
proof -
  have "has_admission demo_routing AdmHeld"
    and "\<not> has_admission (last [demo_routing, demo_cancelled]) AdmHeld"
    using demo_admission by simp_all
  with gated_capacity_is_given_up_cleanly [OF demo_tail] show ?thesis by metis
qed

lemma demo_workflow:
  "job_workflow_state demo_queued = Inr \<lparr>ws_phase = PhClassifying, ws_classification = None\<rparr>"
  by (simp add: demo_queued_def job_workflow_state_def WorkflowState_init_def Let_def)

lemma gated_workflow_only_grows_witness:
  "\<exists>v. job_workflow_state demo_cancelled = Inr v
     \<and> workflow_grows \<lparr>ws_phase = PhClassifying, ws_classification = None\<rparr> v"
  using gated_workflow_only_grows [OF demo_history demo_workflow] by simp

lemma demo_lifecycle:
  "job_lifecycle_of demo_queued = Inr (QueuedJob (JobIdentity_of demo_queued) (Finite 1)
     \<lparr>ec_prompt = Some IdlePrompt,
      ec_workflow = \<lparr>ws_phase = PhClassifying, ws_classification = None\<rparr>\<rparr> None)"
  unfolding demo_queued_def by code_simp

lemma gated_updates_refine_lifecycle_witness:
  "\<exists>evs u. length evs = 2 \<and> job_lifecycle_of demo_cancelled = Inr u
     \<and> run_steps apply_event (QueuedJob (JobIdentity_of demo_queued) (Finite 1)
         \<lparr>ec_prompt = Some IdlePrompt,
          ec_workflow = \<lparr>ws_phase = PhClassifying, ws_classification = None\<rparr>\<rparr> None) evs = Inr u"
proof -
  have "list_all (\<lambda>j. aj_loaded_schema_version j = CURRENT_SCHEMA_VERSION)
      [demo_queued, demo_routing, demo_cancelled]"
    by (simp add: demo_queued_def demo_routing_def demo_cancelled_def CURRENT_SCHEMA_VERSION_def)
  from gated_updates_refine_lifecycle [OF demo_history this demo_lifecycle]
  show ?thesis by (simp add: numeral_2_eq_2)
qed

end
