(* ===== verification/Job_Soundness.thy ===== *)
theory Job_Soundness imports Job_Invariants Job_Gate begin

text \<open>
  What the field invariants of a job record mean: its typed states can all be read, implemented
  plans were reviewed and approved, a stuck operation has its reconciliation handle, and, together
  with the gate, a working job always has a complete worker claim.
\<close>

section \<open>Reading the checks\<close>

abbreviation passes :: "(job_error + unit) list \<Rightarrow> bool" where
  "passes cs \<equiv> list_all (\<lambda>c. c = Inr ()) cs"

lemma validate_invariants_iff:
  "validate_invariants r j = Inr () \<longleftrightarrow>
     check_typed_states j = Inr () \<and> passes (check_clone j) \<and> passes (check_issue_and_pr_requests j)
     \<and> passes (check_pr_merge j) \<and> passes (check_repo_create j) \<and> passes (check_issue_update j)
     \<and> passes (check_issue_close j) \<and> passes (check_issue_and_pr_create j)
     \<and> passes (check_linear_create j) \<and> passes (check_linear_update j)
     \<and> passes (check_linear_close j) \<and> passes (check_ticket_split j) \<and> passes (check_ticket_merge j)
     \<and> passes (check_issue_provider j) \<and> passes (check_worker r j) \<and> passes (check_delivery j)
     \<and> passes (check_workflow_row j) \<and> passes (check_review_row j) \<and> passes (check_approval_proof j)
     \<and> passes (check_approval_phase j) \<and> passes (check_planned_work j) \<and> passes (check_prompt_row j)
     \<and> passes (check_creation_row j) \<and> passes (check_intent_row j) \<and> passes (check_operation_rows j)
     \<and> passes (check_manual j) \<and> passes (check_operations_readable r j)
     \<and> passes (check_release_row j)"
  unfolding validate_invariants_def in_order_Inr by simp

lemma typed_states_readable:
  assumes "check_typed_states j = Inr ()"
  obtains ts cs ds ws rv ap pl where
    "job_terminal_state (base_job j) = Inr ts" "job_cleanup_state (base_job j) = Inr cs"
    "job_delivery_state j = Inr ds" "job_workflow_state (base_job j) = Inr ws"
    "job_review_state (base_job j) = Inr rv" "job_plan_approval (base_job j) = Inr ap"
    "job_participant_lifecycle (base_job j) = Inr pl"
proof -
  have "passes [reads (job_terminal_state (base_job j)), reads (job_cleanup_state (base_job j)),
      reads (job_delivery_state j), reads (job_workflow_state (base_job j)),
      reads (job_review_state (base_job j)), reads (job_plan_approval (base_job j)),
      reads (job_participant_lifecycle (base_job j))]"
    using assms unfolding check_typed_states_def in_order_Inr by simp
  then show thesis by (auto intro: that)
qed

lemma base_job_sel [simp]:
  "aj_id (base_job j) = aj_id j" "aj_workflow (base_job j) = aj_workflow j"
  "aj_approval (base_job j) = aj_approval j" "aj_worker (base_job j) = aj_worker j"
  "aj_status (base_job j) = aj_status j" "aj_intent (base_job j) = aj_intent j"
  "aj_participant (base_job j) = aj_participant j"
  by (simp_all add: agent_job.defs)

section \<open>Implemented plans were reviewed\<close>

definition review_accepted :: "review_state \<Rightarrow> bool" where
  "review_accepted rv \<longleftrightarrow>
     review_artifacts_match rv
     \<and> (rs_source rv = Some ByReviewer \<and> rs_decision rv = Some DecApprove
        \<or> rs_source rv = Some ByUser \<and> rs_tier rv = Some TierHighRisk
           \<and> rs_decision rv = Some DecRevise \<and> rs_round rv = 2)"

lemma accepted_of_check:
  assumes "ReviewState_check s = Inr rv" and "rs_source s \<noteq> None"
  shows "review_accepted rv"
proof -
  have "rv = s" using assms(1) by (auto simp: ReviewState_check_def if_Inl_Inr_iff)
  moreover obtain src where "rs_source s = Some src" using assms(2) by blast
  ultimately show ?thesis
    using assms(1) by (cases src) (auto simp: ReviewState_check_def if_Inl_Inr_iff review_accepted_def)
qed

lemma optional_member_given: "optional_member name parse (Some s) = Inr v \<Longrightarrow> v \<noteq> None"
  by (auto simp: optional_member_def rbind_Inr_iff)

lemma review_read_of_row:
  assumes "job_review_state j = Inr rv" and "review_approval_source (aj_workflow j) \<noteq> None"
  shows "review_accepted rv"
proof -
  obtain s where s: "review_approval_source (aj_workflow j) = Some s" using assms(2) by blast
  from assms(1) obtain plan review d src where
    src: "optional_member ''ReviewApprovalSource'' parse_review_source (Some s) = Inr src"
    and c: "ReviewState_check \<lparr>rs_tier = workflow_tier (aj_workflow j),
      rs_round = review_round (aj_workflow j), rs_plan = plan, rs_review = review,
      rs_decision = d, rs_source = src\<rparr> = Inr rv"
    unfolding job_review_state_def Let_def rbind_Inr_iff map_err_Inr_iff s by blast
  from c show ?thesis
    by (rule accepted_of_check) (simp add: optional_member_given [OF src])
qed

lemma parsed_approval_value: "parse_approval_state s = Some st \<Longrightarrow> plan_approval_state_value st = s"
  by (auto simp: parse_approval_state_def split: if_splits)

lemma approval_read_of_row:
  assumes "job_plan_approval j = Inr ap"
  shows "plan_approval_state_value (pa_state ap) = or_str (plan_approval_state (aj_approval j)) ''none''"
    and "PlanApproval_check ap = Inr ap"
    and "pa_state ap \<in> {PaApproved, PaObserved} \<Longrightarrow>
      pa_plan_reference ap = plan_artifact (aj_workflow j)
      \<and> pa_review_reference ap = review_artifact (aj_workflow j)"
proof -
  from assms have "\<exists>st a. member_or_invalid ''PlanApprovalState'' parse_approval_state
      (or_str (plan_approval_state (aj_approval j)) ''none'') = Inr st
    \<and> (\<exists>x. PlanApproval_check x = Inr a \<and> pa_state x = st)
    \<and> (if st \<in> {PaAwaiting, PaApproved, PaObserved}
             \<and> (pa_plan_reference a \<noteq> plan_artifact (aj_workflow j)
                \<or> pa_review_reference a \<noteq> review_artifact (aj_workflow j))
          then Inl (JobValidationError ''accepted plan approval artifacts cannot be replaced'')
          else Inr a) = Inr ap"
    unfolding job_plan_approval_def Let_def rbind_Inr_iff map_err_Inr_iff
    by (elim exE conjE) (rule exI, rule exI, rule conjI, assumption, rule conjI, rule exI,
        rule conjI, assumption, simp, assumption)
  then obtain st a x where
    st: "member_or_invalid ''PlanApprovalState'' parse_approval_state
      (or_str (plan_approval_state (aj_approval j)) ''none'') = Inr st"
    and c: "PlanApproval_check x = Inr a" "pa_state x = st"
    and refs: "(if st \<in> {PaAwaiting, PaApproved, PaObserved}
             \<and> (pa_plan_reference a \<noteq> plan_artifact (aj_workflow j)
                \<or> pa_review_reference a \<noteq> review_artifact (aj_workflow j))
          then Inl (JobValidationError ''accepted plan approval artifacts cannot be replaced'')
          else Inr a) = Inr ap"
    by blast
  from refs have a: "a = ap" by (simp add: if_Inl_Inr_iff)
  from c(1) have same: "a = x" by (auto simp: PlanApproval_check_def if_Inl_Inr_iff)
  have "plan_approval_state_value st = or_str (plan_approval_state (aj_approval j)) ''none''"
    by (rule parsed_approval_value) (use st in \<open>simp add: member_or_invalid_def split: option.splits\<close>)
  with c(2) a same show "plan_approval_state_value (pa_state ap) = or_str (plan_approval_state (aj_approval j)) ''none''"
    by simp
  show "PlanApproval_check ap = Inr ap" using same c a by simp
  show "pa_state ap \<in> {PaApproved, PaObserved} \<Longrightarrow>
      pa_plan_reference ap = plan_artifact (aj_workflow j)
      \<and> pa_review_reference ap = review_artifact (aj_workflow j)"
    using refs c(2) same a by (auto simp: if_Inl_Inr_iff)
qed

lemma accepted_approval:
  assumes "PlanApproval_check ap = Inr ap" and "pa_state ap \<in> {PaApproved, PaObserved}"
  shows "pa_source ap \<noteq> None \<and> pa_proof ap \<noteq> None"
  using assms by (auto simp: PlanApproval_check_def if_Inl_Inr_iff)

text \<open>
  C29. A validated record of a medium or high-risk job that implements or has finished was reviewed:
  its plan and review artifacts belong to the job and to one round, the review was approved by
  the reviewer or by the user after an exhausted high-risk review, and the approved plan is the
  plan and review the approval refers to.
\<close>

theorem implemented_plan_was_reviewed:
  assumes "validate_invariants require_worker_owner j = Inr ()" and "planned_work j"
  shows "\<exists>rv ap. job_review_state (base_job j) = Inr rv \<and> review_accepted rv
    \<and> job_plan_approval (base_job j) = Inr ap \<and> pa_state ap \<in> {PaApproved, PaObserved}
    \<and> pa_source ap \<noteq> None \<and> pa_proof ap \<noteq> None
    \<and> pa_plan_reference ap = plan_artifact (aj_workflow j)
    \<and> pa_review_reference ap = review_artifact (aj_workflow j)"
proof -
  from assms(1) have typed: "check_typed_states j = Inr ()" and work: "passes (check_planned_work j)"
    by (simp_all add: validate_invariants_iff)
  from typed_states_readable [OF typed] obtain rv ap where
    rv: "job_review_state (base_job j) = Inr rv" and ap: "job_plan_approval (base_job j) = Inr ap" by metis
  have "review_approval_source (aj_workflow (base_job j)) \<noteq> None"
    and state: "approval_text j \<in> {''approved'', ''observed''}"
    using work assms(2) by (simp_all add: check_planned_work_def job_review_approved_def)
  from review_read_of_row [OF rv this(1)] have "review_accepted rv" .
  moreover have "pa_state ap \<in> {PaApproved, PaObserved}"
    using approval_read_of_row(1) [OF ap] state by (cases "pa_state ap") (auto simp: approval_text_def)
  ultimately show ?thesis
    using rv ap approval_read_of_row(2,3) [OF ap] accepted_approval [of ap] by auto
qed

section \<open>A validated record is well typed\<close>

text \<open>Every stored operation state is absent or in its table.\<close>

definition known :: "string set \<Rightarrow> string option \<Rightarrow> bool" where
  "known allowed st \<longleftrightarrow> (case st of None \<Rightarrow> True | Some s \<Rightarrow> s \<in> allowed)"

lemma foreign_state_known [simp]: "foreign_state allowed st \<longleftrightarrow> \<not> known allowed st"
  by (cases st) (simp_all add: foreign_state_def known_def one_of_def)

lemma validate_operation_state_Inr [simp]:
  "validate_operation_state f st allowed = Inr () \<longleftrightarrow> known allowed st"
  by (simp add: validate_operation_state_def)

definition states_known :: "full_job \<Rightarrow> bool" where
  "states_known j \<longleftrightarrow>
     known agent_operation_states (agent_dispatch_state (aj_session j))
     \<and> known fork_operation_states (fork_operation_state (aj_fork j))
     \<and> known worktree_operation_states (worktree_provision_state (aj_checkout j))
     \<and> known clone_operation_states (rj_clone_state j)
     \<and> known pr_merge_operation_states (rj_pr_merge_state j)
     \<and> known repo_create_operation_states (rj_repo_create_state j)
     \<and> list_all (known issue_create_operation_states)
         [rj_issue_create_state j, rj_pr_create_state j, rj_issue_update_state j,
          rj_issue_close_state j, rj_linear_create_state j, rj_linear_update_state j,
          rj_linear_close_state j, rj_ticket_split_state j, rj_ticket_split_parent_state j,
          rj_ticket_merge_state j, rj_ticket_merge_survivor_state j]"

text \<open>
  A record that passes the invariants is well typed: each typed view of its columns (terminal,
  cleanup, delivery, workflow, review, plan approval, participants, session control) can be read,
  and the state of every operation is one of that operation's states.
\<close>

theorem validated_record_is_well_typed:
  assumes "validate_invariants require_worker_owner j = Inr ()"
  shows "(\<exists>ts cs ds ws. job_terminal_state (base_job j) = Inr ts \<and> job_cleanup_state (base_job j) = Inr cs
      \<and> job_delivery_state j = Inr ds \<and> job_workflow_state (base_job j) = Inr ws)
    \<and> (\<exists>rv ap pl sc. job_review_state (base_job j) = Inr rv \<and> job_plan_approval (base_job j) = Inr ap
      \<and> job_participant_lifecycle (base_job j) = Inr pl \<and> job_session_control_state j = Inr sc)
    \<and> states_known j"
proof -
  note parts = assms [unfolded validate_invariants_iff]
  from parts have typed: "check_typed_states j = Inr ()" by blast
  from parts have "passes (check_intent_row j)" by blast
  then have sc: "\<exists>sc. job_session_control_state j = Inr sc" by (simp add: check_intent_row_def)
  have "states_known j"
    unfolding states_known_def
    using parts
    by (simp add: check_operation_rows_def check_clone_def check_pr_merge_def check_repo_create_def
        check_issue_and_pr_requests_def check_issue_update_def check_issue_close_def
        check_linear_create_def check_linear_update_def check_linear_close_def
        check_ticket_split_def check_ticket_merge_def Let_def)
  with typed_states_readable [OF typed] sc show ?thesis by metis
qed

section \<open>Operations that wait for a person\<close>

text \<open>
  When one of the five durable operations needs manual reconciliation, the record names an
  operation to reconcile and carries its token; a record that names one names an operation that
  is stuck (a prompt that is ambiguous, any other that requires manual action).
\<close>

theorem stuck_operation_has_a_handle:
  assumes "validate_invariants require_worker_owner j = Inr ()"
    and "(name, Some ''manual_required'') \<in> set (manual_states j) \<or> otruthy (rj_manual_reconcile_operation j)"
  shows "\<exists>oper token. rj_manual_reconcile_operation j = Some oper \<and> manual_reconcile_token j = Some token
    \<and> token \<noteq> [] \<and> map_of (manual_states j) oper
        = Some (Some (if oper = ''prompt'' then ''ambiguous'' else ''manual_required''))"
proof -
  have m: "passes (check_manual j)" using assms(1) by (simp add: validate_invariants_iff)
  have given: "otruthy (rj_manual_reconcile_operation j)"
    using m assms(2) by (force simp: check_manual_def Let_def list_ex_iff)
  then obtain oper where oper: "rj_manual_reconcile_operation j = Some oper"
    by (cases "rj_manual_reconcile_operation j") simp_all
  from m given have fence: "map_of (manual_states j) oper
      = Some (Some (if oper = ''prompt'' then ''ambiguous'' else ''manual_required''))"
    and token: "otruthy (manual_reconcile_token j)"
    unfolding check_manual_def Let_def oper by (simp_all add: rbind_Inr_iff split: if_splits)
  from token obtain t where "manual_reconcile_token j = Some t" "t \<noteq> []"
    by (cases "manual_reconcile_token j") (auto simp: truthy_def)
  with oper fence show ?thesis by blast
qed

section \<open>The gate with its invariants\<close>

text \<open>One accepted update of full records: the gate, with the invariants of the new record.\<close>

definition full_update :: "full_job \<Rightarrow> full_job \<Rightarrow> bool" where
  "full_update b a \<longleftrightarrow>
     validate_transition (\<lambda>_. validate_invariants True a) (base_job b) (base_job a) = Inr ()"

definition full_history :: "full_job list \<Rightarrow> bool" where
  "full_history h \<longleftrightarrow> successively full_update h"

lemma full_update_validates: "full_update b a \<Longrightarrow> validate_invariants True a = Inr ()"
  unfolding full_update_def by (erule validate_transition_parts) simp

lemma full_history_validates: "full_history (b # h) \<Longrightarrow> a \<in> set h \<Longrightarrow> validate_invariants True a = Inr ()"
proof (induction h arbitrary: b)
  case (Cons c h)
  then show ?case by (cases "a = c") (auto simp: full_history_def dest: full_update_validates)
qed simp

lemma full_update_gated:
  "full_update b a \<Longrightarrow> validate_transition (\<lambda>_. Inr ()) (base_job b) (base_job a) = Inr ()"
  unfolding full_update_def validate_transition_def by (auto simp: rbind_Inr_iff)

text \<open>Every history of full records is one of the histories of \<open>Job_Gate\<close>.\<close>

lemma full_history_gated: "full_history h \<Longrightarrow> gated_jobs (\<lambda>_. Inr ()) (map agent_job.truncate h)"
  unfolding full_history_def gated_jobs_def successively_map
  by (erule successively_mono) (simp add: full_update_gated)

text \<open>
  C30. Through any history of accepted updates, every job that is routing, running, or reconciling
  without a terminal intent has a complete worker claim with a positive process number, and no
  job ever has a partial one.
\<close>

theorem working_jobs_are_owned:
  assumes "full_history (b # h)" and "a \<in> set h"
  shows "(aj_status a \<in> {JsRouting, JsRunning}
        \<or> aj_status a = JsReconciling \<and> terminal_intent_status (aj_intent a) = None \<longrightarrow>
      list_all id (worker_claim_given (aj_worker a)) \<and> 0 < the (worker_pid (aj_worker a)))
    \<and> (list_ex id (worker_claim_given (aj_worker a)) \<longrightarrow> list_all id (worker_claim_given (aj_worker a)))"
proof -
  have v: "validate_invariants True a = Inr ()" by (rule full_history_validates [OF assms])
  then have w: "passes (check_worker True a)" and i: "passes (check_intent_row a)"
    by (simp_all add: validate_invariants_iff)
  have intent: "terminal_intent_status (aj_intent a) \<noteq> None \<Longrightarrow> aj_status a = JsReconciling"
    using i by (auto simp: check_intent_row_def)
  show ?thesis
    using w intent
    by (auto simp: check_worker_def Let_def WORKER_STATUSES_def worker_claim_given_def)
qed

section \<open>Witnesses\<close>

definition no_fence :: prompt_fence where
  "no_fence = \<lparr>pf_target = None, pf_session = None, pf_token = None, pf_baseline_sequence = None\<rparr>"

definition demo_delivery :: delivery_fields_row where
  "demo_delivery = \<lparr>delivery_generation = 0, delivery_attempts = 0, announcement_ack_field = ''pending'',
     announcement_repeated = False, delivery_claim_token = None, delivery_claimed_at = None,
     delivery_retry_at = 0, delivered = False, delivered_at_key = None\<rparr>"

definition full_of :: "agent_job \<Rightarrow> full_job" where
  "full_of j = reserving_job.extend
     (agent_job.extend j (reserving_job.fields None False None None None None None None None None
        None None None None None None None))
     (full_job.fields
      None None None None False False None None False False None None None None None None
      None False False None None None None None False False False False None None False
      False None None False False None False False None None None None no_fence False
      False None None None no_fence False False None None no_fence False False False None
      None None None no_fence False False False None None None None no_fence demo_delivery
      False None False False None False [] None None)"

lemmas full_of_defs = full_of_def no_fence_def demo_delivery_def agent_job.defs reserving_job.defs
  full_job.defs

text \<open>A record without external operations passes their checks, whatever its job is.\<close>

lemma full_of_sel [simp]:
  "base_job (full_of j) = j" "aj_issue_provider (full_of j) = aj_issue_provider j"
  "aj_worker (full_of j) = aj_worker j" "aj_revision (full_of j) = aj_revision j"
  "aj_status (full_of j) = aj_status j" "aj_intent (full_of j) = aj_intent j"
  "aj_workflow (full_of j) = aj_workflow j" "aj_approval (full_of j) = aj_approval j"
  "aj_session (full_of j) = aj_session j" "aj_fork (full_of j) = aj_fork j"
  "aj_checkout (full_of j) = aj_checkout j" "aj_prompt (full_of j) = aj_prompt j"
  "aj_participant (full_of j) = aj_participant j" "aj_cleanup (full_of j) = aj_cleanup j"
  "aj_active_participant (full_of j) = aj_active_participant j"
  "aj_loaded_schema_version (full_of j) = aj_loaded_schema_version j"
  "aj_clarification_kind (full_of j) = aj_clarification_kind j"
  "workflow_turn_phase (full_of j) = None" "plan_approval_completion_pending (full_of j) = False"
  "job_session_control (full_of j) = None" "job_session_control_generation (full_of j) = None"
  "rj_manual_reconcile_operation (full_of j) = None" "manual_reconcile_token (full_of j) = None"
  "target_release_manual_required (full_of j) = False" "target_release_unverified_targets (full_of j) = []"
  "job_delivery (full_of j) = demo_delivery" "announcement_dismissed (full_of j) = False"
  by (cases j; simp add: full_of_def agent_job.defs reserving_job.defs full_job.defs)+

lemma full_of_external:
  "passes (check_clone (full_of j))" "passes (check_issue_and_pr_requests (full_of j))"
  "passes (check_pr_merge (full_of j))" "passes (check_repo_create (full_of j))"
  "passes (check_issue_update (full_of j))" "passes (check_issue_close (full_of j))"
  "passes (check_issue_and_pr_create (full_of j))" "passes (check_linear_create (full_of j))"
  "passes (check_linear_update (full_of j))" "passes (check_linear_close (full_of j))"
  "passes (check_ticket_split (full_of j))" "passes (check_ticket_merge (full_of j))"
  by (simp_all add: check_clone_def check_issue_and_pr_requests_def check_pr_merge_def
      check_repo_create_def check_issue_update_def check_issue_close_def
      check_issue_and_pr_create_def check_linear_create_def check_linear_update_def
      check_linear_close_def check_ticket_split_def check_ticket_merge_def known_def one_of_def
      full_of_defs)

definition succeeds :: "'e + 'a \<Rightarrow> bool" where
  "succeeds m = (case m of Inl _ \<Rightarrow> False | Inr _ \<Rightarrow> True)"

lemma succeeds_iff: "succeeds m \<longleftrightarrow> (\<exists>x. m = Inr x)"
  by (cases m) (simp_all add: succeeds_def)

lemma demo_delivery_readable: "succeeds (delivery_state_of_row False None demo_delivery)"
  unfolding demo_delivery_def by code_simp

lemma full_of_delivery: "passes (check_delivery (full_of j))" "\<exists>ds. job_delivery_state (full_of j) = Inr ds"
proof -
  show "passes (check_delivery (full_of j))"
    by (simp add: check_delivery_def demo_delivery_def Let_def announcement_ack_of_row_def)
  show "\<exists>ds. job_delivery_state (full_of j) = Inr ds"
    using demo_delivery_readable by (simp add: succeeds_iff job_delivery_state_def map_err_Inr_iff)
qed

text \<open>What is left of the check of such a record, on the job alone.\<close>

lemma full_of_valid:
  assumes "succeeds (job_terminal_state j)" and "succeeds (job_cleanup_state j)"
    and "succeeds (job_workflow_state j)" and "succeeds (job_review_state j)"
    and "succeeds (job_plan_approval j)" and "succeeds (job_participant_lifecycle j)"
    and "succeeds (job_worker_ownership j)"
    and "aj_session j = aj_session demo_queued" and "aj_fork j = aj_fork demo_queued"
    and "aj_checkout j = aj_checkout demo_queued" and "aj_prompt j = aj_prompt demo_queued"
    and "aj_cleanup j = aj_cleanup demo_queued" and "aj_intent j = aj_intent demo_queued"
    and "aj_active_participant j = None" and "aj_issue_provider j = None"
    and "participant_creation_state (aj_participant j) \<in> {None, Some ''none''}"
    and "participant_creation_checkout (aj_participant j) = None"
    and "admission_state_text j \<in> {''waiting'', ''held'', ''released''}"
    and "passes (check_worker True (full_of j))" and "passes (check_workflow_row (full_of j))"
    and "passes (check_review_row (full_of j))" and "passes (check_approval_proof (full_of j))"
    and "passes (check_approval_phase (full_of j))" and "passes (check_planned_work (full_of j))"
  shows "validate_invariants True (full_of j) = Inr ()"
proof -
  from assms(16) have uncreated: "or_str (participant_creation_state (aj_participant j)) ''none'' = ''none''"
    by (auto simp: or_str_def)
  have typed: "check_typed_states (full_of j) = Inr ()"
    using assms(1-8,17,18) full_of_delivery(2) [of j]
    unfolding check_typed_states_def in_order_Inr succeeds_iff
    by (auto simp: demo_queued_def)
  have provider: "passes (check_issue_provider (full_of j))"
    using assms(15) by (simp add: check_issue_provider_def full_of_defs)
  have prompt: "passes (check_prompt_row (full_of j))" "passes (check_creation_row (full_of j))"
    using assms(11,14) uncreated
    by (simp_all add: check_prompt_row_def check_creation_row_def Let_def prompt_state_text_def
        demo_queued_def prompt_operation_states_def known_def creation_state_text_def)
  have rows: "passes (check_intent_row (full_of j))" "passes (check_operation_rows (full_of j))"
    "passes (check_manual (full_of j))" "passes (check_operations_readable True (full_of j))"
    "passes (check_release_row (full_of j))"
    using assms(8-13) uncreated
    by (simp_all add: check_intent_row_def check_operation_rows_def check_manual_def Let_def
        check_operations_readable_def check_release_row_def demo_queued_def known_def one_of_def
        manual_states_def prompt_state_text_def creation_state_text_def truthy_int_def
        job_session_control_state_def SessionControlState_init_def)
  from typed full_of_external [of j] provider assms(19-24) full_of_delivery(1) [of j] prompt rows
  show ?thesis unfolding validate_invariants_iff by blast
qed

definition planned_agent :: agent_job where
  "planned_agent = demo_queued
     \<lparr>aj_workflow := \<lparr>workflow_tier = Some TierMedium, workflow_phase = PhImplementing,
        workflow_classification_reason = Some ''two modules'', review_round = 0,
        plan_artifact = Some ''.artifacts/0123456789ab/plan-0.json'',
        review_artifact = Some ''.artifacts/0123456789ab/review-0.json'',
        review_decision = Some ''approve'', review_approval_source = Some ''reviewer''\<rparr>,
      aj_approval := \<lparr>plan_approval_state = Some ''approved'', plan_approval_id = Some ''g'',
        plan_approval_source = Some ''auto'', plan_approval_agent_session = Some ''s'',
        plan_approval_plan_artifact = Some ''.artifacts/0123456789ab/plan-0.json'',
        plan_approval_review_artifact = Some ''.artifacts/0123456789ab/review-0.json'',
        plan_approval_state_change_sequence = Some 4, plan_approval_revision = Some 2,
        plan_approval_counted = False\<rparr>\<rparr>"

lemmas demo_agent_defs = planned_agent_def demo_routing_def demo_queued_def

lemma planned_agent_readable:
  "succeeds (job_terminal_state planned_agent)" "succeeds (job_cleanup_state planned_agent)"
  "succeeds (job_workflow_state planned_agent)" "succeeds (job_review_state planned_agent)"
  "succeeds (job_plan_approval planned_agent)" "succeeds (job_participant_lifecycle planned_agent)"
  "succeeds (job_worker_ownership planned_agent)"
  unfolding demo_agent_defs by code_simp+

lemma routing_agent_readable:
  "succeeds (job_terminal_state demo_routing)" "succeeds (job_cleanup_state demo_routing)"
  "succeeds (job_workflow_state demo_routing)" "succeeds (job_review_state demo_routing)"
  "succeeds (job_plan_approval demo_routing)" "succeeds (job_participant_lifecycle demo_routing)"
  "succeeds (job_worker_ownership demo_routing)"
  unfolding demo_agent_defs by code_simp+

lemmas row_check_defs = check_worker_def check_workflow_row_def check_review_row_def
  check_approval_proof_def check_approval_phase_def check_planned_work_def planned_work_def
  approval_text_def approval_proof_given_def worker_claim_given_def WORKER_STATUSES_def
  job_review_approved_def known_def one_of_def admission_state_text_def

lemma planned_agent_valid: "validate_invariants True (full_of planned_agent) = Inr ()"
  by (rule full_of_valid [OF planned_agent_readable])
     (simp_all add: row_check_defs demo_agent_defs CURRENT_SCHEMA_VERSION_def Let_def)

lemma routing_agent_valid: "validate_invariants True (full_of demo_routing) = Inr ()"
  by (rule full_of_valid [OF routing_agent_readable])
     (simp_all add: row_check_defs demo_agent_defs CURRENT_SCHEMA_VERSION_def Let_def)

lemma implemented_plan_was_reviewed_witness:
  "\<exists>rv ap. job_review_state planned_agent = Inr rv \<and> review_accepted rv
    \<and> job_plan_approval planned_agent = Inr ap \<and> pa_state ap \<in> {PaApproved, PaObserved}"
proof -
  have "planned_work (full_of planned_agent)"
    by (simp add: planned_work_def planned_agent_def)
  from implemented_plan_was_reviewed [OF planned_agent_valid this] show ?thesis by auto
qed

lemma validated_record_is_well_typed_witness:
  "states_known (full_of demo_routing) \<and> (\<exists>sc. job_session_control_state (full_of demo_routing) = Inr sc)"
  using validated_record_is_well_typed [OF routing_agent_valid] by blast

lemma full_update_demo: "full_update (full_of demo_queued) (full_of demo_routing)"
  using demo_steps(1) routing_agent_valid
  by (simp add: full_update_def validate_transition_def rbind_Inr_iff)

lemma working_jobs_are_owned_witness:
  "list_all id (worker_claim_given (aj_worker (full_of demo_routing)))
   \<and> 0 < the (worker_pid (aj_worker (full_of demo_routing)))"
proof -
  have "full_history [full_of demo_queued, full_of demo_routing]"
    by (simp add: full_history_def full_update_demo)
  from working_jobs_are_owned [OF this, of "full_of demo_routing"]
  show ?thesis by (simp add: demo_routing_def)
qed

text \<open>A job whose fork was given up to a person, with its reconciliation handle.\<close>

definition forking_agent :: agent_job where
  "forking_agent = demo_queued
     \<lparr>aj_fork := \<lparr>fork_operation_state = Some ''manual_required'', fork_operation_source = Some ''o/r'',
        fork_operation_source_url = Some ''https://github.com/o/r'',
        fork_operation_source_default_branch = Some ''main'',
        fork_operation_source_private = False, fork_operation_login = Some ''me'',
        fork_operation_target = Some ''me/r'', fork_operation_source_parent = None\<rparr>\<rparr>"

definition stuck_record :: full_job where
  "stuck_record = (full_of forking_agent)
     \<lparr>rj_manual_reconcile_operation := Some ''fork'', manual_reconcile_token := Some ''t''\<rparr>"

lemma forking_agent_readable:
  "succeeds (job_terminal_state forking_agent)" "succeeds (job_cleanup_state forking_agent)"
  "succeeds (job_workflow_state forking_agent)" "succeeds (job_review_state forking_agent)"
  "succeeds (job_plan_approval forking_agent)" "succeeds (job_participant_lifecycle forking_agent)"
  "succeeds (job_fork_operation forking_agent)"
  unfolding forking_agent_def demo_queued_def by code_simp+

lemma forking_agent_sel [simp]:
  "aj_worker forking_agent = aj_worker demo_queued" "aj_revision forking_agent = 3"
  "aj_status forking_agent = JsQueued" "aj_intent forking_agent = aj_intent demo_queued"
  "aj_workflow forking_agent = aj_workflow demo_queued"
  "aj_approval forking_agent = aj_approval demo_queued"
  "aj_session forking_agent = aj_session demo_queued"
  "aj_checkout forking_agent = aj_checkout demo_queued"
  "aj_prompt forking_agent = aj_prompt demo_queued"
  "aj_participant forking_agent = aj_participant demo_queued"
  "aj_cleanup forking_agent = aj_cleanup demo_queued"
  "aj_issue_provider forking_agent = None" "aj_active_participant forking_agent = None"
  "fork_operation_state (aj_fork forking_agent) = Some ''manual_required''"
  "fork_operation_target (aj_fork forking_agent) = Some ''me/r''"
  by (simp_all add: forking_agent_def demo_queued_def)

lemma stuck_record_base [simp]: "base_job stuck_record = forking_agent"
  by (simp add: stuck_record_def full_of_def agent_job.defs reserving_job.defs full_job.defs)

lemma stuck_record_external:
  "passes (check_clone stuck_record)" "passes (check_issue_and_pr_requests stuck_record)"
  "passes (check_pr_merge stuck_record)" "passes (check_repo_create stuck_record)"
  "passes (check_issue_update stuck_record)" "passes (check_issue_close stuck_record)"
  "passes (check_issue_and_pr_create stuck_record)" "passes (check_linear_create stuck_record)"
  "passes (check_linear_update stuck_record)" "passes (check_linear_close stuck_record)"
  "passes (check_ticket_split stuck_record)" "passes (check_ticket_merge stuck_record)"
  using full_of_external [of forking_agent]
  unfolding stuck_record_def check_clone_def check_issue_and_pr_requests_def check_pr_merge_def
      check_repo_create_def check_issue_update_def check_issue_close_def
      check_issue_and_pr_create_def check_linear_create_def check_linear_update_def
      check_linear_close_def check_ticket_split_def check_ticket_merge_def
  by simp_all

lemma stuck_record_typed: "check_typed_states stuck_record = Inr ()"
proof -
  have "\<exists>ds. job_delivery_state stuck_record = Inr ds"
    using full_of_delivery(2) [of forking_agent]
    by (simp add: job_delivery_state_def stuck_record_def)
  moreover have "aj_worker stuck_record = aj_worker demo_queued"
    "aj_session stuck_record = aj_session demo_queued"
    "aj_participant stuck_record = aj_participant demo_queued"
    by (simp_all add: stuck_record_def)
  ultimately show ?thesis
    using forking_agent_readable
    unfolding check_typed_states_def in_order_Inr succeeds_iff
    by (simp add: admission_state_text_def demo_queued_def)
qed

lemma stuck_record_valid: "validate_invariants True stuck_record = Inr ()"
proof -
  have "passes (check_issue_provider stuck_record)"
    by (simp add: check_issue_provider_def stuck_record_def full_of_defs forking_agent_def demo_queued_def)
  moreover have "passes (check_worker True stuck_record)" "passes (check_workflow_row stuck_record)"
    "passes (check_review_row stuck_record)" "passes (check_approval_proof stuck_record)"
    "passes (check_approval_phase stuck_record)" "passes (check_planned_work stuck_record)"
    by (simp_all add: stuck_record_def row_check_defs demo_queued_def Let_def)
  moreover have "passes (check_delivery stuck_record)"
    using full_of_delivery(1) [of forking_agent] by (simp add: check_delivery_def stuck_record_def)
  moreover have "passes (check_prompt_row stuck_record)" "passes (check_creation_row stuck_record)"
    by (simp_all add: check_prompt_row_def check_creation_row_def Let_def prompt_state_text_def
        stuck_record_def demo_queued_def prompt_operation_states_def known_def creation_state_text_def)
  moreover have "passes (check_intent_row stuck_record)" "passes (check_operation_rows stuck_record)"
    by (simp_all add: check_intent_row_def check_operation_rows_def stuck_record_def Let_def
        demo_queued_def known_def one_of_def fork_operation_states_def
        job_session_control_state_def SessionControlState_init_def)
  moreover have "passes (check_manual stuck_record)"
    by (simp add: check_manual_def manual_states_def stuck_record_def Let_def
        demo_queued_def prompt_state_text_def creation_state_text_def refuse_def)
  moreover have "passes (check_operations_readable True stuck_record)"
  proof -
    have "worktree_provision_state (aj_checkout stuck_record) = None"
      "agent_dispatch_state (aj_session stuck_record) = None"
      by (simp_all add: stuck_record_def demo_queued_def)
    then show ?thesis
      using forking_agent_readable(7)
      by (simp add: check_operations_readable_def succeeds_iff creation_state_text_def demo_queued_def)
  qed
  moreover have "passes (check_release_row stuck_record)"
    by (simp add: check_release_row_def stuck_record_def demo_queued_def truthy_int_def Let_def)
  ultimately show ?thesis
    using stuck_record_external stuck_record_typed unfolding validate_invariants_iff by blast
qed

lemma stuck_operation_has_a_handle_witness:
  "\<exists>token. manual_reconcile_token stuck_record = Some token \<and> token \<noteq> []
     \<and> map_of (manual_states stuck_record) ''fork'' = Some (Some ''manual_required'')"
  using stuck_operation_has_a_handle [OF stuck_record_valid]
  by (simp add: stuck_record_def)

end
