(* ===== verification/Outbox.thy ===== *)
theory Outbox imports Interfaces "HOL-Library.AList" begin

text \<open>
  The durable outbox: the command and effect types of \<open>cursor/coordinator.py\<close>, the SQL statements
  of \<open>cursor/sqlite_store.py\<close> on the tables outbox, outbox_concurrency, outbox_consumptions, events
  and jobs, and the transactions of \<open>cursor/store.py\<close> built from them.

  A table is a list of rows in \<open>rowid\<close> order; an \<open>UPDATE ... WHERE\<close> is a map over the rows that
  satisfy the condition, \<open>changes()\<close> is their number. The effect's concurrency key, one row of
  outbox_concurrency per effect, is a field of the effect's row (absent for an effect without
  such a row). A job is a revision and a body whose type is arbitrary: the outbox looks at the
  revision only. The generated identifiers (\<open>uuid4\<close>) and the clock are arguments.
\<close>

section \<open>JSON dictionaries\<close>

text \<open>
  The values of payloads, details and outcomes; a value that is neither null, boolean, integer
  nor text is kept as the text \<open>str\<close> gives for it.
\<close>

datatype json = JNull | JBool bool | JInt int | JStr string | JOther string

type_synonym dict = "(string \<times> json) list"

fun json_str :: "json \<Rightarrow> string" where
  "json_str JNull = ''None''"
| "json_str (JBool b) = (if b then ''True'' else ''False'')"
| "json_str (JInt i) = show_int i"
| "json_str (JStr s) = s"
| "json_str (JOther s) = s"

definition dict_get :: "dict \<Rightarrow> string \<Rightarrow> json option" where
  "dict_get d k = map_of d k"

text \<open>The display \<open>{**d, ...}\<close>: the later entries override the earlier ones.\<close>

definition dict_merge :: "dict \<Rightarrow> dict \<Rightarrow> dict" where
  "dict_merge d e = AList.updates (map fst e) (map snd e) d"

section \<open>Commands, effects and observations\<close>

datatype coordinator_error = CoordinatorError string

datatype observation_outcome =
  Confirmed | ConfirmedAbsent | FailedOutcome | OutcomeUnknown | ManualRequired

fun outcome_value :: "observation_outcome \<Rightarrow> string" where
  "outcome_value Confirmed = ''Confirmed''"
| "outcome_value ConfirmedAbsent = ''ConfirmedAbsent''"
| "outcome_value FailedOutcome = ''Failed''"
| "outcome_value OutcomeUnknown = ''OutcomeUnknown''"
| "outcome_value ManualRequired = ''ManualRequired''"

definition OUTBOX_LEASE_SECONDS :: time where "OUTBOX_LEASE_SECONDS = 30"
definition OUTBOX_RETRY_SECONDS :: time where "OUTBOX_RETRY_SECONDS = 5"
definition OUTBOX_MAX_ATTEMPTS :: int where "OUTBOX_MAX_ATTEMPTS = 8"

record durable_effect =
  de_kind :: string
  de_idempotency_key :: string
  de_concurrency_key :: string
  de_payload :: dict

definition DurableEffect_init ::
  "string \<Rightarrow> string \<Rightarrow> string \<Rightarrow> dict \<Rightarrow> coordinator_error + durable_effect" where
  "DurableEffect_init kind key concurrency payload =
     (if blank kind \<or> blank key \<or> blank concurrency
      then Inl (CoordinatorError ''effect requires kind, idempotency_key, and concurrency_key'')
      else Inr \<lparr>de_kind = kind, de_idempotency_key = key, de_concurrency_key = concurrency,
                de_payload = payload\<rparr>)"

record coordinator_command =
  cc_job_id :: string
  cc_expected_revision :: int
  cc_command_id :: string
  cc_kind :: string

definition CoordinatorCommand_init ::
  "string \<Rightarrow> int \<Rightarrow> string \<Rightarrow> string \<Rightarrow> coordinator_error + coordinator_command" where
  "CoordinatorCommand_init job_id revision command_id kind =
     (if blank job_id \<or> blank command_id
      then Inl (CoordinatorError ''command requires job_id and command_id'')
      else if blank kind then Inl (CoordinatorError ''command requires kind'')
      else if revision < 0
      then Inl (CoordinatorError ''expected revision must not be negative'')
      else Inr \<lparr>cc_job_id = job_id, cc_expected_revision = revision, cc_command_id = command_id,
                cc_kind = kind\<rparr>)"

record 'j job_row =
  jr_revision :: int
  jr_body :: 'j

record 'j coordinator_decision =
  cd_job :: "'j job_row"
  cd_effects :: "durable_effect list"
  cd_event_kind :: string
  cd_event_payload :: dict

definition CoordinatorDecision_check ::
  "'j coordinator_decision \<Rightarrow> coordinator_error + 'j coordinator_decision" where
  "CoordinatorDecision_check d =
     (let has = (\<lambda>k. dict_get (cd_event_payload d) k \<noteq> None)
      in if has ''command_kind'' \<and> has ''effects''
         then Inl (CoordinatorError ''event payload cannot override command_kind, effects'')
         else if has ''command_kind''
         then Inl (CoordinatorError ''event payload cannot override command_kind'')
         else if has ''effects'' then Inl (CoordinatorError ''event payload cannot override effects'')
         else Inr d)"

record effect_observation =
  eo_outcome :: observation_outcome
  eo_retryable :: bool
  eo_detail :: dict

definition EffectObservation_init ::
  "observation_outcome \<Rightarrow> bool \<Rightarrow> dict \<Rightarrow> coordinator_error + effect_observation" where
  "EffectObservation_init outcome retryable detail =
     (if retryable \<and> outcome \<noteq> FailedOutcome
      then Inl (CoordinatorError ''only Failed observations may be retryable'')
      else Inr \<lparr>eo_outcome = outcome, eo_retryable = retryable, eo_detail = detail\<rparr>)"

record outbox_lease =
  ol_effect_id :: string
  ol_job_id :: string
  ol_kind :: string
  ol_idempotency_key :: string
  ol_concurrency_key :: string
  ol_payload :: dict
  ol_lease_token :: string
  ol_attempts :: int

record outbox_result =
  or_effect_id :: string
  or_job_id :: string
  or_kind :: string
  or_idempotency_key :: string
  or_payload :: dict
  or_status :: string
  or_outcome :: dict

section \<open>The tables\<close>

datatype outbox_status = Pending | Running | Succeeded | Failed | FailedRetryable | Unknown

fun outbox_status_value :: "outbox_status \<Rightarrow> string" where
  "outbox_status_value Pending = ''pending''"
| "outbox_status_value Running = ''running''"
| "outbox_status_value Succeeded = ''succeeded''"
| "outbox_status_value Failed = ''failed''"
| "outbox_status_value FailedRetryable = ''failed-retryable''"
| "outbox_status_value Unknown = ''unknown''"

definition claimable_statuses :: "outbox_status set" where
  "claimable_statuses = {Pending, FailedRetryable}"

definition terminal_statuses :: "outbox_status set" where
  "terminal_statuses = {Succeeded, Failed, Unknown}"

record outbox_row =
  ob_effect_id :: string
  ob_job_id :: string
  ob_kind :: string
  ob_idempotency_key :: string
  ob_status :: outbox_status
  ob_attempts :: int
  ob_next_at :: "time option"
  ob_lease_token :: "string option"
  ob_leased_at :: "time option"
  ob_completed_at :: "time option"
  ob_payload :: dict
  ob_outcome :: "dict option"
  ob_last_error :: "string option"
  ob_concurrency_key :: "string option"

record event_row =
  ev_event_id :: string
  ev_command_id :: string
  ev_job_id :: string
  ev_revision :: int
  ev_kind :: string
  ev_command_kind :: string
  ev_effects :: "string list"
  ev_payload :: dict
  ev_created_at :: time

record 'j database =
  db_jobs :: "string \<rightharpoonup> 'j job_row"
  db_events :: "event_row list"
  db_outbox :: "outbox_row list"
  db_consumptions :: "(string \<times> string \<times> time) list"

definition update_where ::
  "(outbox_row \<Rightarrow> bool) \<Rightarrow> (outbox_row \<Rightarrow> outbox_row) \<Rightarrow> 'j database \<Rightarrow> 'j database" where
  "update_where p f db = db\<lparr>db_outbox := map (\<lambda>r. if p r then f r else r) (db_outbox db)\<rparr>"

definition changes :: "(outbox_row \<Rightarrow> bool) \<Rightarrow> 'j database \<Rightarrow> nat" where
  "changes p db = length (filter p (db_outbox db))"

definition load_outbox :: "'j database \<Rightarrow> string \<Rightarrow> outbox_row option" where
  "load_outbox db effect_id = find (\<lambda>r. ob_effect_id r = effect_id) (db_outbox db)"

definition load_job_revision :: "'j database \<Rightarrow> string \<Rightarrow> int option" where
  "load_job_revision db job_id = map_option jr_revision (db_jobs db job_id)"

text \<open>The submit fence as it is stored, and the test for it.\<close>

definition submit_fence :: dict where
  "submit_fence = [(''fence'', JStr ''submitted'')]"

definition fence_submitted :: "dict option \<Rightarrow> bool" where
  "fence_submitted outcome \<longleftrightarrow>
     (case outcome of None \<Rightarrow> False | Some d \<Rightarrow> dict_get d ''fence'' = Some (JStr ''submitted''))"

section \<open>The statements of the SQLite store\<close>

text \<open>
  Inserting the effects of a decision: the primary key and the unique idempotency key make the
  statement fail, which rolls the transaction back.
\<close>

definition new_outbox_row :: "string \<Rightarrow> string \<Rightarrow> durable_effect \<Rightarrow> outbox_row" where
  "new_outbox_row effect_id job_id e =
     \<lparr>ob_effect_id = effect_id, ob_job_id = job_id, ob_kind = de_kind e,
      ob_idempotency_key = de_idempotency_key e, ob_status = Pending, ob_attempts = 0,
      ob_next_at = None, ob_lease_token = None, ob_leased_at = None, ob_completed_at = None,
      ob_payload = de_payload e, ob_outcome = None, ob_last_error = None,
      ob_concurrency_key = Some (de_concurrency_key e)\<rparr>"

definition outbox_conflict :: "outbox_row \<Rightarrow> outbox_row list \<Rightarrow> bool" where
  "outbox_conflict r rows \<longleftrightarrow>
     (\<exists>x \<in> set rows. ob_effect_id x = ob_effect_id r \<or> ob_idempotency_key x = ob_idempotency_key r)"

fun insert_outbox_effects ::
  "outbox_row list \<Rightarrow> string \<Rightarrow> (string \<times> durable_effect) list \<Rightarrow> job_error + outbox_row list" where
  "insert_outbox_effects rows job_id [] = Inr rows"
| "insert_outbox_effects rows job_id ((effect_id, e) # es) =
     (let r = new_outbox_row effect_id job_id e
      in if outbox_conflict r rows
         then Inl (JobValidationError ''SQLite outbox constraint failed'')
         else insert_outbox_effects (rows @ [r]) job_id es)"

definition payload_revision :: "dict \<Rightarrow> int option" where
  "payload_revision d =
     (case dict_get d ''expected_revision'' of Some (JInt i) \<Rightarrow> Some i | _ \<Rightarrow> None)"

definition stale_effect :: "'j database \<Rightarrow> string list \<Rightarrow> outbox_row \<Rightarrow> bool" where
  "stale_effect db kinds r \<longleftrightarrow>
     ob_kind r \<in> set kinds \<and> ob_lease_token r = None \<and> ob_status r \<in> claimable_statuses
     \<and> (case payload_revision (ob_payload r) of
          None \<Rightarrow> False | Some i \<Rightarrow> load_job_revision db (ob_job_id r) \<noteq> Some i)"

definition superseded_error :: string where
  "superseded_error = ''effect admission revision was superseded before dispatch''"

definition abandon_stale_outbox_effects ::
  "'j database \<Rightarrow> string list \<Rightarrow> time \<Rightarrow> 'j database" where
  "abandon_stale_outbox_effects db kinds now =
     update_where (stale_effect db kinds)
       (\<lambda>r. r\<lparr>ob_status := Failed,
              ob_outcome := Some [(''outcome'', JStr ''Failed''), (''retryable'', JBool False),
                                  (''error'', JStr superseded_error)],
              ob_completed_at := Some now, ob_next_at := None,
              ob_last_error := Some superseded_error\<rparr>) db"

definition key_is_running :: "'j database \<Rightarrow> string \<Rightarrow> bool" where
  "key_is_running db key \<longleftrightarrow>
     (\<exists>x \<in> set (db_outbox db). ob_concurrency_key x = Some key \<and> ob_status x = Running
        \<and> ob_lease_token x \<noteq> None)"

definition due_effect ::
  "'j database \<Rightarrow> string list \<Rightarrow> string list \<Rightarrow> time \<Rightarrow> outbox_row \<Rightarrow> bool" where
  "due_effect db kinds exclude now r \<longleftrightarrow>
     ob_kind r \<in> set kinds \<and> ob_effect_id r \<notin> set exclude
     \<and> ob_lease_token r = None \<and> ob_status r \<in> claimable_statuses
     \<and> (case ob_concurrency_key r of None \<Rightarrow> False | Some key \<Rightarrow> \<not> key_is_running db key)
     \<and> (case ob_next_at r of None \<Rightarrow> True | Some t \<Rightarrow> t \<le> now)"

definition claim_due_outbox ::
  "'j database \<Rightarrow> string list \<Rightarrow> time \<Rightarrow> string \<Rightarrow> string list \<Rightarrow>
   'j database \<times> outbox_row option" where
  "claim_due_outbox db kinds now token exclude =
     (case find (due_effect db kinds exclude now) (db_outbox db) of
        None \<Rightarrow> (db, None)
      | Some r \<Rightarrow>
          let p = (\<lambda>x. ob_effect_id x = ob_effect_id r \<and> ob_lease_token x = None
                       \<and> ob_status x \<in> claimable_statuses);
              db' = update_where p
                (\<lambda>x. x\<lparr>ob_status := Running, ob_lease_token := Some token,
                       ob_leased_at := Some now, ob_attempts := ob_attempts x + 1\<rparr>) db
          in if changes p db \<noteq> 1 then (db', None) else (db', load_outbox db' (ob_effect_id r)))"

definition holds_lease :: "string \<Rightarrow> string \<Rightarrow> outbox_row \<Rightarrow> bool" where
  "holds_lease effect_id token r \<longleftrightarrow>
     ob_effect_id r = effect_id \<and> ob_lease_token r = Some token \<and> ob_status r = Running"

definition sql_mark_dispatched ::
  "'j database \<Rightarrow> string \<Rightarrow> string \<Rightarrow> int option \<Rightarrow> 'j database \<times> bool" where
  "sql_mark_dispatched db effect_id token expected =
     (let p = (\<lambda>r. holds_lease effect_id token r
                   \<and> (case expected of None \<Rightarrow> True
                      | Some i \<Rightarrow> load_job_revision db (ob_job_id r) = Some i))
      in (update_where p (\<lambda>r. r\<lparr>ob_outcome := Some submit_fence\<rparr>) db, changes p db = 1))"

definition sql_renew_lease ::
  "'j database \<Rightarrow> string \<Rightarrow> string \<Rightarrow> time \<Rightarrow> 'j database \<times> bool" where
  "sql_renew_lease db effect_id token now =
     (let p = holds_lease effect_id token
      in (update_where p (\<lambda>r. r\<lparr>ob_leased_at := Some now\<rparr>) db, changes p db = 1))"

datatype observe_result = ObsMissing | ObsMismatch | ObsDuplicate | ObsStale | ObsApplied

record completion =
  cp_status :: outbox_status
  cp_outcome :: dict
  cp_now :: time
  cp_next_at :: "time option"
  cp_last_error :: "string option"

definition complete_outbox_observation ::
  "'j database \<Rightarrow> string \<Rightarrow> string \<Rightarrow> string \<Rightarrow> completion \<Rightarrow> 'j database \<times> observe_result" where
  "complete_outbox_observation db effect_id key token c =
     (case load_outbox db effect_id of
        None \<Rightarrow> (db, ObsMissing)
      | Some r \<Rightarrow>
          if ob_idempotency_key r \<noteq> key then (db, ObsMismatch)
          else if ob_status r \<in> terminal_statuses \<and> ob_lease_token r = None
          then (db, ObsDuplicate)
          else if or_str (ob_lease_token r) '''' \<noteq> token \<or> ob_status r \<noteq> Running
          then (db, ObsStale)
          else (update_where (holds_lease effect_id token)
                  (\<lambda>x. x\<lparr>ob_status := cp_status c, ob_outcome := Some (cp_outcome c),
                         ob_completed_at := (if cp_status c = FailedRetryable then None
                                             else Some (cp_now c)),
                         ob_next_at := cp_next_at c, ob_lease_token := None,
                         ob_leased_at := None, ob_last_error := cp_last_error c\<rparr>) db,
                ObsApplied))"

definition expired_outbox_leases :: "'j database \<Rightarrow> time \<Rightarrow> time \<Rightarrow> outbox_row list" where
  "expired_outbox_leases db now lease_seconds =
     filter (\<lambda>r. ob_status r = Running \<and> ob_lease_token r \<noteq> None
                 \<and> (case ob_leased_at r of None \<Rightarrow> False | Some t \<Rightarrow> t \<le> now - lease_seconds))
       (db_outbox db)"

definition has_result :: "outbox_row \<Rightarrow> bool" where
  "has_result r \<longleftrightarrow> ob_status r \<in> terminal_statuses \<and> ob_lease_token r = None \<and> ob_outcome r \<noteq> None"

definition is_consumed :: "'j database \<Rightarrow> string \<Rightarrow> bool" where
  "is_consumed db effect_id \<longleftrightarrow> effect_id \<in> fst ` set (db_consumptions db)"

definition sql_unconsumed_results :: "'j database \<Rightarrow> string list \<Rightarrow> int \<Rightarrow> outbox_row list" where
  "sql_unconsumed_results db kinds limit =
     (if limit \<le> 0 then []
      else take (nat limit)
             (filter (\<lambda>r. ob_kind r \<in> set kinds \<and> has_result r
                          \<and> \<not> is_consumed db (ob_effect_id r)) (db_outbox db)))"

definition sql_load_result :: "'j database \<Rightarrow> string \<Rightarrow> outbox_row option" where
  "sql_load_result db key =
     find (\<lambda>r. ob_idempotency_key r = key \<and> has_result r) (db_outbox db)"

definition sql_mark_consumed ::
  "'j database \<Rightarrow> string \<Rightarrow> string \<Rightarrow> time \<Rightarrow> 'j database \<times> bool" where
  "sql_mark_consumed db effect_id disposition now =
     (if is_consumed db effect_id then (db, False)
      else (db\<lparr>db_consumptions := db_consumptions db @ [(effect_id, disposition, now)]\<rparr>, True))"

section \<open>The transactions of the job store\<close>

definition claim_outbox ::
  "'j database \<Rightarrow> string list \<Rightarrow> time \<Rightarrow> string \<Rightarrow> string list \<Rightarrow>
   'j database \<times> outbox_lease option" where
  "claim_outbox db kinds now token exclude =
     (case claim_due_outbox (abandon_stale_outbox_effects db kinds now) kinds now token exclude of
        (db', None) \<Rightarrow> (db', None)
      | (db', Some r) \<Rightarrow>
          (db', Some \<lparr>ol_effect_id = ob_effect_id r, ol_job_id = ob_job_id r, ol_kind = ob_kind r,
                      ol_idempotency_key = ob_idempotency_key r,
                      ol_concurrency_key = or_str (ob_concurrency_key r) '''',
                      ol_payload = ob_payload r, ol_lease_token = token,
                      ol_attempts = ob_attempts r\<rparr>))"

definition mark_outbox_dispatched :: "'j database \<Rightarrow> outbox_lease \<Rightarrow> 'j database \<times> bool" where
  "mark_outbox_dispatched db lease =
     sql_mark_dispatched db (ol_effect_id lease) (ol_lease_token lease)
       (payload_revision (ol_payload lease))"

definition outbox_revision_stale :: "'j database \<Rightarrow> outbox_lease \<Rightarrow> bool" where
  "outbox_revision_stale db lease =
     (case payload_revision (ol_payload lease) of
        None \<Rightarrow> False
      | Some i \<Rightarrow> if i < 0 then False else load_job_revision db (ol_job_id lease) \<noteq> Some i)"

definition renew_outbox_lease ::
  "'j database \<Rightarrow> outbox_lease \<Rightarrow> time \<Rightarrow> 'j database \<times> bool" where
  "renew_outbox_lease db lease now =
     sql_renew_lease db (ol_effect_id lease) (ol_lease_token lease) now"

definition outbox_dispatched :: "'j database \<Rightarrow> outbox_lease \<Rightarrow> bool" where
  "outbox_dispatched db lease =
     (case load_outbox db (ol_effect_id lease) of
        None \<Rightarrow> False
      | Some r \<Rightarrow> or_str (ob_lease_token r) '''' = ol_lease_token lease
                  \<and> fence_submitted (ob_outcome r))"

text \<open>The detail of an observation with an error filled in when it has none.\<close>

definition with_error :: "dict \<Rightarrow> string \<Rightarrow> dict" where
  "with_error d message =
     dict_merge d [(''error'', case dict_get d ''error'' of None \<Rightarrow> JStr message | Some e \<Rightarrow> e)]"

definition effective_observation ::
  "outbox_row \<Rightarrow> outbox_lease \<Rightarrow> effect_observation \<Rightarrow> effect_observation" where
  "effective_observation r lease observation =
     (if eo_retryable observation \<and> fence_submitted (ob_outcome r)
      then \<lparr>eo_outcome = OutcomeUnknown, eo_retryable = False,
            eo_detail = with_error (eo_detail observation) ''retry requested after submit fence''\<rparr>
      else if eo_retryable observation \<and> ol_attempts lease \<ge> OUTBOX_MAX_ATTEMPTS
      then \<lparr>eo_outcome = FailedOutcome, eo_retryable = False,
            eo_detail = with_error (eo_detail observation) ''outbox retry attempts exhausted''\<rparr>
      else observation)"

definition observation_completion :: "effect_observation \<Rightarrow> time \<Rightarrow> completion" where
  "observation_completion e now =
     (let status = (if eo_outcome e \<in> {OutcomeUnknown, ManualRequired} then Unknown
                    else if eo_retryable e then FailedRetryable
                    else if eo_outcome e = FailedOutcome then Failed else Succeeded)
      in \<lparr>cp_status = status,
          cp_outcome = dict_merge [(''outcome'', JStr (outcome_value (eo_outcome e))),
                                   (''retryable'', JBool (eo_retryable e))] (eo_detail e),
          cp_now = now,
          cp_next_at = (if status = FailedRetryable then Some (now + OUTBOX_RETRY_SECONDS)
                        else None),
          cp_last_error =
            (if eo_outcome e \<in> {FailedOutcome, OutcomeUnknown, ManualRequired}
             then Some (case dict_get (eo_detail e) ''error'' of
                          None \<Rightarrow> outcome_value (eo_outcome e)
                        | Some JNull \<Rightarrow> outcome_value (eo_outcome e)
                        | Some v \<Rightarrow> json_str v)
             else None)\<rparr>)"

definition observe_outbox ::
  "'j database \<Rightarrow> outbox_lease \<Rightarrow> effect_observation \<Rightarrow> time \<Rightarrow> 'j database \<times> observe_result" where
  "observe_outbox db lease observation now =
     (case load_outbox db (ol_effect_id lease) of
        None \<Rightarrow> (db, ObsMissing)
      | Some r \<Rightarrow>
          complete_outbox_observation db (ol_effect_id lease) (ol_idempotency_key lease)
            (ol_lease_token lease)
            (observation_completion (effective_observation r lease observation) now))"

definition release_outbox_lease ::
  "'j database \<Rightarrow> outbox_lease \<Rightarrow> string option \<Rightarrow> time \<Rightarrow> 'j database \<times> bool" where
  "release_outbox_lease db lease err now =
     (case load_outbox db (ol_effect_id lease) of
        None \<Rightarrow> (db, False)
      | Some r \<Rightarrow>
          if or_str (ob_lease_token r) '''' \<noteq> ol_lease_token lease then (db, False)
          else if fence_submitted (ob_outcome r) then (db, False)
          else let retryable = (ol_attempts lease < OUTBOX_MAX_ATTEMPTS);
                   (db', res) = complete_outbox_observation db (ol_effect_id lease)
                     (ol_idempotency_key lease) (ol_lease_token lease)
                     \<lparr>cp_status = (if retryable then FailedRetryable else Failed),
                      cp_outcome = [(''outcome'', JStr ''Failed''), (''retryable'', JBool retryable),
                        (''error'', JStr (or_str err ''effect handler failed before dispatch''))],
                      cp_now = now,
                      cp_next_at = (if retryable then Some (now + OUTBOX_RETRY_SECONDS) else None),
                      cp_last_error = err\<rparr>
               in (db', res = ObsApplied))"

definition reap_completion :: "outbox_row \<Rightarrow> time \<Rightarrow> completion" where
  "reap_completion r now =
     (if fence_submitted (ob_outcome r)
      then \<lparr>cp_status = Unknown,
            cp_outcome = [(''outcome'', JStr ''OutcomeUnknown''), (''retryable'', JBool False)],
            cp_now = now, cp_next_at = None, cp_last_error = None\<rparr>
      else if ob_attempts r < OUTBOX_MAX_ATTEMPTS
      then \<lparr>cp_status = FailedRetryable,
            cp_outcome = [(''outcome'', JStr ''Failed''), (''retryable'', JBool True)],
            cp_now = now, cp_next_at = Some (now + OUTBOX_RETRY_SECONDS), cp_last_error = None\<rparr>
      else \<lparr>cp_status = Failed,
            cp_outcome = [(''outcome'', JStr ''Failed''), (''retryable'', JBool False),
                          (''error'', JStr ''outbox retry attempts exhausted'')],
            cp_now = now, cp_next_at = None,
            cp_last_error = Some ''outbox retry attempts exhausted''\<rparr>)"

fun reap_rows :: "'j database \<Rightarrow> outbox_row list \<Rightarrow> time \<Rightarrow> 'j database \<times> nat" where
  "reap_rows db [] now = (db, 0)"
| "reap_rows db (r # rs) now =
     (case complete_outbox_observation db (ob_effect_id r) (ob_idempotency_key r)
             (or_str (ob_lease_token r) '''') (reap_completion r now) of
        (db', res) \<Rightarrow>
          (case reap_rows db' rs now of
             (db'', n) \<Rightarrow> (db'', (if res = ObsApplied then 1 else 0) + n)))"

definition reap_expired_outbox_leases ::
  "'j database \<Rightarrow> time \<Rightarrow> time \<Rightarrow> 'j database \<times> nat" where
  "reap_expired_outbox_leases db now lease_seconds =
     reap_rows db (expired_outbox_leases db now lease_seconds) now"

definition result_of_row :: "outbox_row \<Rightarrow> outbox_result" where
  "result_of_row r =
     \<lparr>or_effect_id = ob_effect_id r, or_job_id = ob_job_id r, or_kind = ob_kind r,
      or_idempotency_key = ob_idempotency_key r, or_payload = ob_payload r,
      or_status = outbox_status_value (ob_status r),
      or_outcome = (case ob_outcome r of None \<Rightarrow> [] | Some d \<Rightarrow> d)\<rparr>"

definition unconsumed_outbox_results :: "'j database \<Rightarrow> string list \<Rightarrow> int \<Rightarrow> outbox_result list" where
  "unconsumed_outbox_results db kinds limit =
     map result_of_row (sql_unconsumed_results db kinds limit)"

definition outbox_result_of :: "'j database \<Rightarrow> string \<Rightarrow> outbox_result option" where
  "outbox_result_of db key = map_option result_of_row (sql_load_result db key)"

definition mark_outbox_consumed ::
  "'j database \<Rightarrow> outbox_result \<Rightarrow> string \<Rightarrow> time \<Rightarrow> 'j database \<times> bool" where
  "mark_outbox_consumed db res disposition now =
     (case load_outbox db (or_effect_id res) of
        None \<Rightarrow> (db, False)
      | Some r \<Rightarrow>
          if ob_job_id r \<noteq> or_job_id res \<or> ob_idempotency_key r \<noteq> or_idempotency_key res
             \<or> ob_status r \<notin> terminal_statuses
          then (db, False)
          else sql_mark_consumed db (or_effect_id res) disposition now)"

text \<open>Deleting a job takes its events and effects with it (the \<open>ON DELETE CASCADE\<close> of the schema).\<close>

definition delete_job :: "'j database \<Rightarrow> string \<Rightarrow> 'j database" where
  "delete_job db job_id =
     (let kept = filter (\<lambda>r. ob_job_id r \<noteq> job_id) (db_outbox db)
      in db\<lparr>db_jobs := (db_jobs db)(job_id := None),
            db_events := filter (\<lambda>e. ev_job_id e \<noteq> job_id) (db_events db),
            db_outbox := kept,
            db_consumptions :=
              filter (\<lambda>(i, _). i \<in> ob_effect_id ` set kept) (db_consumptions db)\<rparr>)"

section \<open>Committing a command\<close>

text \<open>
  \<open>_apply_on_connection\<close>. Two arguments stand for code on either side of the commit: \<open>decide\<close> is
  the caller's decision, \<open>prepare\<close> the normalization and validation of the candidate against
  the current job and the artifacts and reservations of the store. An error rolls the
  transaction back; \<open>None\<close> leaves the database as it is.
\<close>

datatype store_error =
    StoreJobError job_error
  | StoreCoordinatorError coordinator_error
  | JobFileNotFound string

definition load_command_event :: "'j database \<Rightarrow> string \<Rightarrow> event_row option" where
  "load_command_event db command_id = find (\<lambda>e. ev_command_id e = command_id) (db_events db)"

record transition_ids =
  tr_event_id :: string
  tr_effect_ids :: "nat \<Rightarrow> string"
  tr_created_at :: time

definition record_transition ::
  "'j database \<Rightarrow> coordinator_command \<Rightarrow> 'j coordinator_decision \<Rightarrow> transition_ids \<Rightarrow>
   job_error + 'j database" where
  "record_transition db c d ids =
     rbind (insert_outbox_effects (db_outbox db) (cc_job_id c)
              (zip (map (tr_effect_ids ids) [0..<length (cd_effects d)]) (cd_effects d)))
       (\<lambda>rows. Inr (db\<lparr>db_events := db_events db @
            [\<lparr>ev_event_id = tr_event_id ids, ev_command_id = cc_command_id c,
              ev_job_id = cc_job_id c, ev_revision = jr_revision (cd_job d),
              ev_kind = cd_event_kind d, ev_command_kind = cc_kind c,
              ev_effects = map de_kind (cd_effects d), ev_payload = cd_event_payload d,
              ev_created_at = tr_created_at ids\<rparr>],
          db_outbox := rows\<rparr>))"

definition apply_command ::
  "('j job_row \<Rightarrow> 'j job_row \<Rightarrow> job_error + 'j job_row) \<Rightarrow>
   ('j job_row \<Rightarrow> 'j coordinator_decision option) \<Rightarrow>
   bool \<Rightarrow> 'j database \<Rightarrow> coordinator_command \<Rightarrow> transition_ids \<Rightarrow>
   store_error + 'j database \<times> 'j job_row option" where
  "apply_command prepare decide rejected db c ids =
     (if rejected then Inr (db, None)
      else case load_command_event db (cc_command_id c) of
        Some e \<Rightarrow>
          if ev_job_id e \<noteq> cc_job_id c \<or> ev_revision e \<noteq> cc_expected_revision c + 1
             \<or> ev_command_kind e \<noteq> cc_kind c
          then Inl (StoreJobError (JobValidationError
                 (''command '' @ py_repr (cc_command_id c)
                  @ '' conflicts with a persisted command identity'')))
          else (case db_jobs db (ev_job_id e) of
                  None \<Rightarrow> Inl (JobFileNotFound (ev_job_id e))
                | Some j \<Rightarrow> Inr (db, Some j))
      | None \<Rightarrow>
          (case db_jobs db (cc_job_id c) of
             None \<Rightarrow> Inl (JobFileNotFound (cc_job_id c))
           | Some current \<Rightarrow>
               if jr_revision current \<noteq> cc_expected_revision c then Inr (db, None)
               else case decide current of
                 None \<Rightarrow> Inr (db, None)
               | Some d \<Rightarrow>
                   rbind (map_err StoreJobError (prepare current (cd_job d))) (\<lambda>candidate.
                   rbind (map_err StoreCoordinatorError
                            (CoordinatorDecision_check (d\<lparr>cd_job := candidate\<rparr>))) (\<lambda>d'.
                   rbind (map_err StoreJobError (record_transition db c d' ids)) (\<lambda>db'.
                   Inr (db'\<lparr>db_jobs := (db_jobs db')(cc_job_id c \<mapsto> candidate)\<rparr>,
                        Some candidate))))))"

end
