(* ===== verification/Outbox_Machine.thy ===== *)
theory Outbox_Machine imports Outbox begin

text \<open>
  The outbox as a transition system. A world is the database together with what its users hold:
  the leases handed out, and the tokens and effect identifiers generated so far. Every step is
  one transaction of the store by a user who presents a lease it was given; generated tokens and
  identifiers are new. The row relation says what a transaction can do to one effect; the
  invariants and the properties follow from it.
\<close>

section \<open>Worlds and steps\<close>

record 'j world =
  w_db :: "'j database"
  w_leases :: "outbox_lease set"
  w_tokens :: "string set"
  w_effects :: "string set"

definition decision_ids :: "'j coordinator_decision \<Rightarrow> transition_ids \<Rightarrow> string list" where
  "decision_ids d ids = map (tr_effect_ids ids) [0..<length (cd_effects d)]"

definition commit_decision ::
  "'j database \<Rightarrow> coordinator_command \<Rightarrow> 'j coordinator_decision \<Rightarrow> transition_ids \<Rightarrow>
   job_error + 'j database" where
  "commit_decision db c d ids =
     rbind (record_transition db c d ids)
       (\<lambda>db'. Inr (db'\<lparr>db_jobs := (db_jobs db')(cc_job_id c \<mapsto> cd_job d)\<rparr>))"

inductive outbox_step :: "'j world \<Rightarrow> 'j world \<Rightarrow> bool" where
  Commit: "commit_decision (w_db w) c d ids = Inr db' \<Longrightarrow>
     set (decision_ids d ids) \<inter> w_effects w = {} \<Longrightarrow>
     outbox_step w (w\<lparr>w_db := db', w_effects := w_effects w \<union> set (decision_ids d ids)\<rparr>)"
| Claim: "claim_outbox (w_db w) kinds now token exclude = (db', found) \<Longrightarrow>
     token \<notin> w_tokens w \<Longrightarrow> token \<noteq> [] \<Longrightarrow>
     outbox_step w (w\<lparr>w_db := db', w_leases := w_leases w \<union> set_option found,
                      w_tokens := insert token (w_tokens w)\<rparr>)"
| Mark: "l \<in> w_leases w \<Longrightarrow> mark_outbox_dispatched (w_db w) l = (db', ok) \<Longrightarrow>
     outbox_step w (w\<lparr>w_db := db'\<rparr>)"
| Renew: "l \<in> w_leases w \<Longrightarrow> renew_outbox_lease (w_db w) l now = (db', ok) \<Longrightarrow>
     outbox_step w (w\<lparr>w_db := db'\<rparr>)"
| Observe: "l \<in> w_leases w \<Longrightarrow> observe_outbox (w_db w) l obs now = (db', res) \<Longrightarrow>
     outbox_step w (w\<lparr>w_db := db'\<rparr>)"
| Release: "l \<in> w_leases w \<Longrightarrow> release_outbox_lease (w_db w) l err now = (db', ok) \<Longrightarrow>
     outbox_step w (w\<lparr>w_db := db'\<rparr>)"
| Reap: "reap_expired_outbox_leases (w_db w) now lease_seconds = (db', n) \<Longrightarrow>
     outbox_step w (w\<lparr>w_db := db'\<rparr>)"
| Consume: "mark_outbox_consumed (w_db w) res disposition now = (db', ok) \<Longrightarrow>
     outbox_step w (w\<lparr>w_db := db'\<rparr>)"
| Delete: "outbox_step w (w\<lparr>w_db := delete_job (w_db w) job_id\<rparr>)"

inductive_cases outbox_stepE: "outbox_step w w'"

definition initial_world :: "(string \<rightharpoonup> 'j job_row) \<Rightarrow> 'j world" where
  "initial_world jobs =
     \<lparr>w_db = \<lparr>db_jobs = jobs, db_events = [], db_outbox = [], db_consumptions = []\<rparr>,
      w_leases = {}, w_tokens = {}, w_effects = {}\<rparr>"

definition reachable_world :: "(string \<rightharpoonup> 'j job_row) \<Rightarrow> 'j world \<Rightarrow> bool" where
  "reachable_world jobs w \<longleftrightarrow> outbox_step\<^sup>*\<^sup>* (initial_world jobs) w"

section \<open>What a transaction does to one effect\<close>

definition same_effect :: "outbox_row \<Rightarrow> outbox_row \<Rightarrow> bool" where
  "same_effect x y \<longleftrightarrow>
     ob_effect_id y = ob_effect_id x \<and> ob_job_id y = ob_job_id x \<and> ob_kind y = ob_kind x
     \<and> ob_idempotency_key y = ob_idempotency_key x \<and> ob_payload y = ob_payload x
     \<and> ob_concurrency_key y = ob_concurrency_key x"

inductive row_step :: "string set \<Rightarrow> outbox_row \<Rightarrow> outbox_row \<Rightarrow> bool" for F where
  Same: "row_step F x x"
| Abandoned: "same_effect x y \<Longrightarrow> ob_lease_token x = None \<Longrightarrow> ob_status x \<in> claimable_statuses \<Longrightarrow>
     ob_status y = Failed \<Longrightarrow> ob_lease_token y = None \<Longrightarrow> ob_attempts y = ob_attempts x \<Longrightarrow>
     row_step F x y"
| Claimed: "same_effect x y \<Longrightarrow> ob_lease_token x = None \<Longrightarrow> ob_status x \<in> claimable_statuses \<Longrightarrow>
     ob_status y = Running \<Longrightarrow> ob_lease_token y = Some t \<Longrightarrow> t \<in> F \<Longrightarrow>
     ob_attempts y = ob_attempts x + 1 \<Longrightarrow>
     row_step F x y"
| Held: "same_effect x y \<Longrightarrow> ob_status x = Running \<Longrightarrow> ob_status y = Running \<Longrightarrow>
     ob_lease_token y = ob_lease_token x \<Longrightarrow> ob_lease_token x \<noteq> None \<Longrightarrow>
     ob_attempts y = ob_attempts x \<Longrightarrow>
     fence_submitted (ob_outcome x) \<longrightarrow> fence_submitted (ob_outcome y) \<Longrightarrow> row_step F x y"
| Completed: "same_effect x y \<Longrightarrow> ob_status x = Running \<Longrightarrow> ob_lease_token x \<noteq> None \<Longrightarrow>
     ob_status y \<in> insert FailedRetryable terminal_statuses \<Longrightarrow> ob_lease_token y = None \<Longrightarrow>
     ob_attempts y = ob_attempts x \<Longrightarrow>
     ob_status y = FailedRetryable \<longrightarrow>
       \<not> fence_submitted (ob_outcome x) \<and> ob_attempts x < OUTBOX_MAX_ATTEMPTS \<Longrightarrow> row_step F x y"

inductive_cases row_stepE: "row_step F x y"

lemma same_effect_refl [simp]: "same_effect x x"
  by (simp add: same_effect_def)

lemma row_step_same_effect: "row_step F x y \<Longrightarrow> same_effect x y"
  by (auto elim: row_stepE)

fun status_edges :: "outbox_status \<Rightarrow> outbox_status set" where
  "status_edges Pending = {Running, Failed}"
| "status_edges FailedRetryable = {Running, Failed}"
| "status_edges Running = {Succeeded, Failed, FailedRetryable, Unknown}"
| "status_edges _ = {}"

lemmas status_sets = claimable_statuses_def terminal_statuses_def

lemma row_step_status: "row_step F x y \<Longrightarrow> ob_status y = ob_status x \<or> ob_status y \<in> status_edges (ob_status x)"
  by (auto elim!: row_stepE simp: status_sets)

text \<open>
  A row relation on the tables: every effect that stays is one step of its row, every other one
  is newly admitted.
\<close>

definition rows_step :: "string set \<Rightarrow> string set \<Rightarrow> outbox_row list \<Rightarrow> outbox_row list \<Rightarrow> bool" where
  "rows_step F known xs ys \<longleftrightarrow>
     (\<forall>y \<in> set ys. (\<exists>x \<in> set xs. row_step F x y)
        \<or> (ob_effect_id y \<notin> known \<and> ob_status y = Pending \<and> ob_attempts y = 0
           \<and> ob_lease_token y = None \<and> ob_concurrency_key y \<noteq> None))"

lemma rows_step_map:
  assumes "\<And>x. x \<in> set xs \<Longrightarrow> row_step F x (f x)"
  shows "rows_step F known xs (map f xs)"
  using assms by (auto simp: rows_step_def)

lemma rows_step_update:
  "(\<And>x. x \<in> set xs \<Longrightarrow> p x \<Longrightarrow> row_step F x (f x)) \<Longrightarrow>
   rows_step F known xs (map (\<lambda>x. if p x then f x else x) xs)"
  by (rule rows_step_map) (simp add: row_step.Same)

lemma rows_step_refl: "rows_step F known xs xs"
  by (auto simp: rows_step_def intro: row_step.Same)

section \<open>The invariant\<close>

definition row_ok :: "outbox_lease set \<Rightarrow> string set \<Rightarrow> outbox_row \<Rightarrow> bool" where
  "row_ok L T r \<longleftrightarrow>
     (ob_lease_token r \<noteq> None \<longleftrightarrow> ob_status r = Running)
     \<and> 0 \<le> ob_attempts r \<and> ob_attempts r \<le> OUTBOX_MAX_ATTEMPTS
     \<and> (ob_status r \<in> claimable_statuses \<longrightarrow> ob_attempts r < OUTBOX_MAX_ATTEMPTS)
     \<and> (\<forall>t. ob_lease_token r = Some t \<longrightarrow> t \<in> T
          \<and> (\<forall>l \<in> L. ol_lease_token l = t \<longrightarrow>
               ol_effect_id l = ob_effect_id r \<and> ol_attempts l = ob_attempts r))"

definition exclusive_keys :: "outbox_row list \<Rightarrow> bool" where
  "exclusive_keys rows \<longleftrightarrow>
     (\<forall>x \<in> set rows. \<forall>y \<in> set rows. ob_status x = Running \<and> ob_status y = Running
        \<and> ob_concurrency_key x = ob_concurrency_key y \<longrightarrow> ob_effect_id x = ob_effect_id y)"

definition world_ok :: "'j world \<Rightarrow> bool" where
  "world_ok w \<longleftrightarrow>
     (let rows = db_outbox (w_db w) in
      distinct (map ob_effect_id rows) \<and> ob_effect_id ` set rows \<subseteq> w_effects w
      \<and> (\<forall>r \<in> set rows. row_ok (w_leases w) (w_tokens w) r)
      \<and> (\<forall>r \<in> set rows. ob_concurrency_key r \<noteq> None)
      \<and> exclusive_keys rows
      \<and> (\<forall>l \<in> w_leases w. ol_lease_token l \<in> w_tokens w \<and> ol_lease_token l \<noteq> []))"

section \<open>Every transaction is a step of its rows\<close>

abbreviation distinct_effects :: "'j database \<Rightarrow> bool" where
  "distinct_effects db \<equiv> distinct (map ob_effect_id (db_outbox db))"

lemma same_row:
  "distinct (map ob_effect_id rows) \<Longrightarrow> x \<in> set rows \<Longrightarrow> y \<in> set rows \<Longrightarrow>
   ob_effect_id x = ob_effect_id y \<Longrightarrow> x = y"
  by (simp add: distinct_map inj_on_def)

lemma load_outbox_Some:
  "load_outbox db e = Some r \<Longrightarrow> r \<in> set (db_outbox db) \<and> ob_effect_id r = e"
  by (auto simp: load_outbox_def find_Some_iff)

lemma load_outbox_present:
  assumes "distinct_effects db" and "r \<in> set (db_outbox db)"
  shows "load_outbox db (ob_effect_id r) = Some r"
proof (cases "load_outbox db (ob_effect_id r)")
  case None
  then show ?thesis using assms(2) by (auto simp: load_outbox_def find_None_iff)
next
  case (Some x)
  from load_outbox_Some [OF Some] same_row [OF assms(1) _ assms(2)] Some show ?thesis by blast
qed

lemma update_where_sel [simp]:
  "db_outbox (update_where p f db) = map (\<lambda>r. if p r then f r else r) (db_outbox db)"
  "db_jobs (update_where p f db) = db_jobs db"
  "db_events (update_where p f db) = db_events db"
  "db_consumptions (update_where p f db) = db_consumptions db"
  by (simp_all add: update_where_def)

definition complete_row :: "completion \<Rightarrow> outbox_row \<Rightarrow> outbox_row" where
  "complete_row c x =
     x\<lparr>ob_status := cp_status c, ob_outcome := Some (cp_outcome c),
       ob_completed_at := (if cp_status c = FailedRetryable then None else Some (cp_now c)),
       ob_next_at := cp_next_at c, ob_lease_token := None, ob_leased_at := None,
       ob_last_error := cp_last_error c\<rparr>"

lemma complete_cases:
  assumes "complete_outbox_observation db e key token c = (db', res)"
  shows "(res \<noteq> ObsApplied \<and> db' = db)
    \<or> (res = ObsApplied \<and> db' = update_where (holds_lease e token) (complete_row c) db)"
  using assms
  by (auto simp: complete_outbox_observation_def complete_row_def [abs_def] fun_eq_iff
      split: option.splits if_splits)

lemma complete_row_step:
  assumes "ob_status x = Running" and "ob_lease_token x \<noteq> None"
    and "cp_status c \<in> insert FailedRetryable terminal_statuses"
    and "cp_status c = FailedRetryable \<longrightarrow>
      \<not> fence_submitted (ob_outcome x) \<and> ob_attempts x < OUTBOX_MAX_ATTEMPTS"
  shows "row_step F x (complete_row c x)"
  by (rule row_step.Completed) (use assms in \<open>auto simp: complete_row_def same_effect_def\<close>)

lemma complete_rows_step:
  assumes "complete_outbox_observation db e key token c = (db', res)"
    and "cp_status c \<in> insert FailedRetryable terminal_statuses"
    and "\<And>x. x \<in> set (db_outbox db) \<Longrightarrow> holds_lease e token x \<Longrightarrow> cp_status c = FailedRetryable \<Longrightarrow>
      \<not> fence_submitted (ob_outcome x) \<and> ob_attempts x < OUTBOX_MAX_ATTEMPTS"
  shows "rows_step F known (db_outbox db) (db_outbox db')"
  using complete_cases [OF assms(1)]
proof (elim disjE conjE)
  assume db': "db' = update_where (holds_lease e token) (complete_row c) db"
  have "row_step F x (if holds_lease e token x then complete_row c x else x)"
    if "x \<in> set (db_outbox db)" for x
  proof (cases "holds_lease e token x")
    case True
    then have "row_step F x (complete_row c x)"
      by (intro complete_row_step assms(2)) (auto simp: holds_lease_def dest: assms(3) [OF that True])
    with True show ?thesis by simp
  qed (simp add: row_step.Same)
  then show ?thesis unfolding db' update_where_sel(1) by (rule rows_step_map)
qed (simp add: rows_step_refl)

lemma observation_status:
  "cp_status (observation_completion e now) \<in> insert FailedRetryable terminal_statuses"
  "cp_status (observation_completion e now) = FailedRetryable \<Longrightarrow> eo_retryable e"
  by (auto simp: observation_completion_def Let_def terminal_statuses_def split: if_splits)

lemma effective_retryable:
  "eo_retryable (effective_observation r l obs) \<Longrightarrow>
   \<not> fence_submitted (ob_outcome r) \<and> ol_attempts l < OUTBOX_MAX_ATTEMPTS"
  by (simp add: effective_observation_def split: if_splits)

lemma held_row_facts:
  assumes "world_ok w" and "l \<in> w_leases w" and "x \<in> set (db_outbox (w_db w))"
    and "holds_lease (ol_effect_id l) (ol_lease_token l) x"
  shows "load_outbox (w_db w) (ol_effect_id l) = Some x" and "ol_attempts l = ob_attempts x"
proof -
  have d: "distinct_effects (w_db w)" and ok: "row_ok (w_leases w) (w_tokens w) x"
    using assms(1,3) by (auto simp: world_ok_def Let_def)
  show "load_outbox (w_db w) (ol_effect_id l) = Some x"
    using load_outbox_present [OF d assms(3)] assms(4) by (simp add: holds_lease_def)
  show "ol_attempts l = ob_attempts x"
    using ok assms(2,4) unfolding row_ok_def holds_lease_def by blast
qed

lemma observe_rows:
  assumes "world_ok w" and "l \<in> w_leases w" and "observe_outbox (w_db w) l obs now = (db', res)"
  shows "rows_step F known (db_outbox (w_db w)) (db_outbox db')"
proof (cases "load_outbox (w_db w) (ol_effect_id l)")
  case None
  then show ?thesis using assms(3) by (simp add: observe_outbox_def rows_step_refl)
next
  case (Some r)
  from Some assms(3) have c: "complete_outbox_observation (w_db w) (ol_effect_id l)
      (ol_idempotency_key l) (ol_lease_token l)
      (observation_completion (effective_observation r l obs) now) = (db', res)"
    by (simp add: observe_outbox_def)
  show ?thesis
  proof (rule complete_rows_step [OF c observation_status(1)])
    fix x assume x: "x \<in> set (db_outbox (w_db w))" "holds_lease (ol_effect_id l) (ol_lease_token l) x"
      and "cp_status (observation_completion (effective_observation r l obs) now) = FailedRetryable"
    then have e: "\<not> fence_submitted (ob_outcome r) \<and> ol_attempts l < OUTBOX_MAX_ATTEMPTS"
      by (intro effective_retryable [of r l obs] observation_status(2))
    from held_row_facts [OF assms(1,2) x] Some have "r = x" "ol_attempts l = ob_attempts x"
      by simp_all
    with e show "\<not> fence_submitted (ob_outcome x) \<and> ob_attempts x < OUTBOX_MAX_ATTEMPTS" by simp
  qed
qed

lemma release_rows:
  assumes "world_ok w" and "l \<in> w_leases w" and "release_outbox_lease (w_db w) l err now = (db', ok)"
  shows "rows_step F known (db_outbox (w_db w)) (db_outbox db')"
proof (cases "load_outbox (w_db w) (ol_effect_id l)")
  case None
  then show ?thesis using assms(3) by (simp add: release_outbox_lease_def rows_step_refl)
next
  case (Some r)
  show ?thesis
  proof (cases "or_str (ob_lease_token r) '''' \<noteq> ol_lease_token l \<or> fence_submitted (ob_outcome r)")
    case True
    then have "db' = w_db w"
      using assms(3) Some by (simp add: release_outbox_lease_def split: if_splits)
    then show ?thesis by (simp add: rows_step_refl)
  next
    case False
    with Some assms(3) obtain c res where
      c: "complete_outbox_observation (w_db w) (ol_effect_id l) (ol_idempotency_key l)
            (ol_lease_token l) c = (db', res)"
      and st: "cp_status c = (if ol_attempts l < OUTBOX_MAX_ATTEMPTS then FailedRetryable else Failed)"
      unfolding release_outbox_lease_def by (auto simp: Let_def split: prod.splits)
    show ?thesis
    proof (rule complete_rows_step [OF c])
      show "cp_status c \<in> insert FailedRetryable terminal_statuses"
        by (simp add: st terminal_statuses_def)
      fix x assume x: "x \<in> set (db_outbox (w_db w))" "holds_lease (ol_effect_id l) (ol_lease_token l) x"
        and "cp_status c = FailedRetryable"
      then show "\<not> fence_submitted (ob_outcome x) \<and> ob_attempts x < OUTBOX_MAX_ATTEMPTS"
        using held_row_facts [OF assms(1,2) x] Some False st by (auto split: if_splits)
    qed
  qed
qed

lemma reap_rows_outbox:
  assumes "distinct_effects db" and "distinct rs" and "set rs \<subseteq> set (db_outbox db)"
    and "\<forall>r \<in> set rs. ob_status r = Running \<and> ob_lease_token r \<noteq> None"
  shows "db_outbox (fst (reap_rows db rs now))
    = map (\<lambda>x. if x \<in> set rs then complete_row (reap_completion x now) x else x) (db_outbox db)"
  using assms
proof (induction rs arbitrary: db)
  case Nil
  then show ?case by simp
next
  case (Cons r rs)
  then obtain t where t: "ob_lease_token r = Some t" "ob_status r = Running" "r \<in> set (db_outbox db)"
    by auto
  have tok: "or_str (ob_lease_token r) '''' = t" using t(1) by (cases t) simp_all
  have load: "load_outbox db (ob_effect_id r) = Some r"
    by (rule load_outbox_present [OF Cons.prems(1) t(3)])
  let ?db = "update_where (holds_lease (ob_effect_id r) t) (complete_row (reap_completion r now)) db"
  have c: "complete_outbox_observation db (ob_effect_id r) (ob_idempotency_key r)
      (or_str (ob_lease_token r) '''') (reap_completion r now) = (?db, ObsApplied)"
    using load t tok
    by (simp add: complete_outbox_observation_def complete_row_def [abs_def] terminal_statuses_def)
  have holds: "holds_lease (ob_effect_id r) t x \<longleftrightarrow> x = r" if "x \<in> set (db_outbox db)" for x
    using same_row [OF Cons.prems(1) that t(3)] t by (auto simp: holds_lease_def)
  have rows: "db_outbox ?db
      = map (\<lambda>x. if x = r then complete_row (reap_completion r now) r else x) (db_outbox db)"
    using holds by (auto intro!: map_cong)
  have notin: "complete_row (reap_completion r now) r \<notin> set rs"
    using Cons.prems(4) by (auto simp: complete_row_def)
  have d: "distinct_effects ?db"
  proof -
    have "map ob_effect_id (db_outbox ?db) = map ob_effect_id (db_outbox db)"
      unfolding rows by (simp add: complete_row_def)
    with Cons.prems(1) show ?thesis by (simp del: update_where_sel)
  qed
  have sub: "set rs \<subseteq> set (db_outbox ?db)"
    unfolding rows using Cons.prems(2,3) by auto
  have "db_outbox (fst (reap_rows db (r # rs) now)) = db_outbox (fst (reap_rows ?db rs now))"
    by (simp add: c split: prod.splits)
  also have "\<dots> = map (\<lambda>x. if x \<in> set rs then complete_row (reap_completion x now) x else x)
      (db_outbox ?db)"
    by (rule Cons.IH [OF d _ sub]) (use Cons.prems(2,4) in auto)
  also have "\<dots> = map (\<lambda>x. if x \<in> set (r # rs) then complete_row (reap_completion x now) x else x)
      (db_outbox db)"
    unfolding rows using notin Cons.prems(2) by auto
  finally show ?case .
qed

lemma reap_completion_status:
  "cp_status (reap_completion r now) \<in> insert FailedRetryable terminal_statuses"
  "cp_status (reap_completion r now) = FailedRetryable \<longrightarrow>
     \<not> fence_submitted (ob_outcome r) \<and> ob_attempts r < OUTBOX_MAX_ATTEMPTS"
  by (auto simp: reap_completion_def terminal_statuses_def)

lemma reap_rows_step:
  assumes "distinct_effects db"
  shows "rows_step F known (db_outbox db) (db_outbox (fst (reap_expired_outbox_leases db now secs)))"
proof -
  let ?rs = "expired_outbox_leases db now secs"
  have "distinct (db_outbox db)" using assms by (simp add: distinct_map)
  then have d: "distinct ?rs" by (simp add: expired_outbox_leases_def)
  have sub: "set ?rs \<subseteq> set (db_outbox db)"
    and run: "\<forall>r \<in> set ?rs. ob_status r = Running \<and> ob_lease_token r \<noteq> None"
    by (auto simp: expired_outbox_leases_def)
  show ?thesis
    unfolding reap_expired_outbox_leases_def reap_rows_outbox [OF assms d sub run]
    using run by (auto intro!: rows_step_map complete_row_step row_step.Same reap_completion_status)
qed

lemma mark_rows:
  assumes "mark_outbox_dispatched db l = (db', ok)"
  shows "rows_step F known (db_outbox db) (db_outbox db')"
proof -
  from assms obtain p where db': "db' = update_where p (\<lambda>r. r\<lparr>ob_outcome := Some submit_fence\<rparr>) db"
    and p: "\<And>x. p x \<Longrightarrow> holds_lease (ol_effect_id l) (ol_lease_token l) x"
    by (auto simp: mark_outbox_dispatched_def sql_mark_dispatched_def Let_def)
  show ?thesis
    unfolding db' update_where_sel
    by (rule rows_step_update, rule row_step.Held)
       (auto dest!: p simp: holds_lease_def same_effect_def submit_fence_def fence_submitted_def
          dict_get_def)
qed

lemma renew_rows:
  assumes "renew_outbox_lease db l now = (db', ok)"
  shows "rows_step F known (db_outbox db) (db_outbox db')"
proof -
  have db': "db' = update_where (holds_lease (ol_effect_id l) (ol_lease_token l))
      (\<lambda>r. r\<lparr>ob_leased_at := Some now\<rparr>) db"
    using assms by (simp add: renew_outbox_lease_def sql_renew_lease_def Let_def)
  show ?thesis
    unfolding db' update_where_sel
    by (rule rows_step_update, rule row_step.Held) (auto simp: holds_lease_def same_effect_def)
qed

lemma consume_rows:
  "mark_outbox_consumed db r disposition now = (db', ok) \<Longrightarrow> db_outbox db' = db_outbox db"
  by (auto simp: mark_outbox_consumed_def sql_mark_consumed_def split: option.splits if_splits)

lemma abandon_rows:
  "rows_step F known (db_outbox db) (db_outbox (abandon_stale_outbox_effects db kinds now))"
  unfolding abandon_stale_outbox_effects_def update_where_sel
  by (rule rows_step_update, rule row_step.Abandoned)
     (auto simp: stale_effect_def same_effect_def)

definition claim_row :: "string \<Rightarrow> time \<Rightarrow> outbox_row \<Rightarrow> outbox_row" where
  "claim_row token now x =
     x\<lparr>ob_status := Running, ob_lease_token := Some token, ob_leased_at := Some now,
       ob_attempts := ob_attempts x + 1\<rparr>"

definition lease_of :: "string \<Rightarrow> outbox_row \<Rightarrow> outbox_lease" where
  "lease_of token r =
     \<lparr>ol_effect_id = ob_effect_id r, ol_job_id = ob_job_id r, ol_kind = ob_kind r,
      ol_idempotency_key = ob_idempotency_key r,
      ol_concurrency_key = or_str (ob_concurrency_key r) '''',
      ol_payload = ob_payload r, ol_lease_token = token, ol_attempts = ob_attempts r\<rparr>"

lemma abandon_distinct [simp]:
  "distinct_effects (abandon_stale_outbox_effects db kinds now) \<longleftrightarrow> distinct_effects db"
proof -
  have "map ob_effect_id (db_outbox (abandon_stale_outbox_effects db kinds now))
      = map ob_effect_id (db_outbox db)"
    by (simp add: abandon_stale_outbox_effects_def)
  then show ?thesis by simp
qed

lemma abandon_claimable:
  "r \<in> set (db_outbox (abandon_stale_outbox_effects db kinds now)) \<Longrightarrow>
   ob_status r \<in> claimable_statuses \<Longrightarrow> r \<in> set (db_outbox db)"
  by (auto simp: abandon_stale_outbox_effects_def status_sets split: if_splits)

lemma claim_due_cases:
  assumes "claim_due_outbox db kinds now token exclude = (db', found)" and "distinct_effects db"
  shows "(found = None \<and> db' = db)
    \<or> (\<exists>r. r \<in> set (db_outbox db) \<and> due_effect db kinds exclude now r
         \<and> db_outbox db' = map (\<lambda>x. if x = r then claim_row token now r else x) (db_outbox db)
         \<and> found = Some (claim_row token now r))"
proof (cases "find (due_effect db kinds exclude now) (db_outbox db)")
  case None
  then show ?thesis using assms(1) by (simp add: claim_due_outbox_def)
next
  case (Some r)
  then have r: "r \<in> set (db_outbox db)" "due_effect db kinds exclude now r"
    by (auto simp: find_Some_iff)
  let ?p = "\<lambda>x. ob_effect_id x = ob_effect_id r \<and> ob_lease_token x = None
      \<and> ob_status x \<in> claimable_statuses"
  let ?db = "update_where ?p (claim_row token now) db"
  have p: "?p x \<longleftrightarrow> x = r" if "x \<in> set (db_outbox db)" for x
    using same_row [OF assms(2) that r(1)] r(2) by (auto simp: due_effect_def)
  have rows: "db_outbox ?db = map (\<lambda>x. if x = r then claim_row token now r else x) (db_outbox db)"
    using p by (auto intro!: map_cong)
  have dist: "distinct (db_outbox db)" using assms(2) by (simp add: distinct_map)
  have "changes ?p db = length (filter (\<lambda>x. x = r) (db_outbox db))"
    unfolding changes_def using p by (simp cong: filter_cong)
  also have "\<dots> = 1"
    using r(1) by (simp add: distinct_length_filter [OF dist] Collect_conv_if)
  finally have one: "changes ?p db = 1" .
  have d: "distinct_effects ?db"
  proof -
    have "map ob_effect_id (db_outbox ?db) = map ob_effect_id (db_outbox db)"
      unfolding rows by (simp add: claim_row_def)
    with assms(2) show ?thesis by (simp del: update_where_sel)
  qed
  have "claim_row token now r \<in> set (db_outbox ?db)" unfolding rows using r(1) by auto
  from load_outbox_present [OF d this]
  have "load_outbox ?db (ob_effect_id r) = Some (claim_row token now r)" by (simp add: claim_row_def)
  moreover have "claim_due_outbox db kinds now token exclude = (?db, load_outbox ?db (ob_effect_id r))"
    using Some one by (simp add: claim_due_outbox_def Let_def claim_row_def [abs_def])
  ultimately show ?thesis using assms(1) r rows by auto
qed

lemma claim_cases:
  assumes "claim_outbox db kinds now token exclude = (db', found)" and "distinct_effects db"
    and a: "a = abandon_stale_outbox_effects db kinds now"
  shows "(found = None \<and> db_outbox db' = db_outbox a)
    \<or> (\<exists>r. r \<in> set (db_outbox db) \<and> r \<in> set (db_outbox a) \<and> due_effect a kinds exclude now r
         \<and> db_outbox db' = map (\<lambda>x. if x = r then claim_row token now r else x) (db_outbox a)
         \<and> found = Some (lease_of token (claim_row token now r)))"
proof -
  have d: "distinct_effects a" using assms(2) by (simp add: a)
  obtain row where c: "claim_due_outbox a kinds now token exclude = (db', row)"
    and f: "found = map_option (lease_of token) row"
    using assms(1) unfolding claim_outbox_def a lease_of_def
    by (auto split: prod.splits option.splits)
  from claim_due_cases [OF c d] show ?thesis
  proof (elim disjE exE conjE)
    fix r assume r: "r \<in> set (db_outbox a)" "due_effect a kinds exclude now r"
      and rest: "db_outbox db' = map (\<lambda>x. if x = r then claim_row token now r else x) (db_outbox a)"
        "row = Some (claim_row token now r)"
    have "ob_status r \<in> claimable_statuses" using r(2) by (simp add: due_effect_def)
    with r(1) have "r \<in> set (db_outbox db)" unfolding a by (rule abandon_claimable)
    with r rest f show ?thesis by auto
  qed (use f in simp)
qed

lemma claim_rows:
  assumes "claim_outbox db kinds now token exclude = (db', found)" and "distinct_effects db"
  shows "rows_step {token} known (db_outbox db) (db_outbox db')"
  using claim_cases [OF assms refl]
proof (elim disjE exE conjE)
  fix r assume r: "r \<in> set (db_outbox db)"
    and due: "due_effect (abandon_stale_outbox_effects db kinds now) kinds exclude now r"
    and rows: "db_outbox db' = map (\<lambda>x. if x = r then claim_row token now r else x)
        (db_outbox (abandon_stale_outbox_effects db kinds now))"
  have "row_step {token} r (claim_row token now r)"
    using due by (intro row_step.Claimed [where t = token]) (auto simp: claim_row_def same_effect_def due_effect_def)
  with r abandon_rows [of "{token}" known db kinds now] show ?thesis
    unfolding rows rows_step_def by (auto split: if_splits)
qed (use abandon_rows in simp)

lemma delete_rows: "rows_step F known (db_outbox db) (db_outbox (delete_job db job_id))"
  by (auto simp: rows_step_def delete_job_def Let_def intro: row_step.Same)

lemma insert_rows:
  "insert_outbox_effects rows job_id es = Inr rows' \<Longrightarrow>
   \<exists>new. rows' = rows @ new \<and> map ob_effect_id new = map fst es
     \<and> (\<forall>r \<in> set new. ob_status r = Pending \<and> ob_attempts r = 0 \<and> ob_lease_token r = None
          \<and> ob_concurrency_key r \<noteq> None)
     \<and> (distinct (map ob_effect_id rows) \<longrightarrow> distinct (map ob_effect_id rows'))"
proof (induction rows job_id es rule: insert_outbox_effects.induct)
  case (2 rows job_id effect_id e es)
  let ?r = "new_outbox_row effect_id job_id e"
  from 2(2) have n: "\<not> outbox_conflict ?r rows"
    and i: "insert_outbox_effects (rows @ [?r]) job_id es = Inr rows'"
    by (auto simp: Let_def split: if_splits)
  from 2(1) [OF refl n i] obtain new where new: "rows' = (rows @ [?r]) @ new"
    "map ob_effect_id new = map fst es"
    "\<forall>r \<in> set new. ob_status r = Pending \<and> ob_attempts r = 0 \<and> ob_lease_token r = None
       \<and> ob_concurrency_key r \<noteq> None"
    "distinct (map ob_effect_id (rows @ [?r])) \<longrightarrow> distinct (map ob_effect_id rows')" by blast
  have "distinct (map ob_effect_id rows) \<longrightarrow> distinct (map ob_effect_id (rows @ [?r]))"
    using n by (auto simp: outbox_conflict_def)
  with new show ?case by (intro exI [of _ "?r # new"]) (auto simp: new_outbox_row_def)
qed simp

section \<open>The invariant is kept\<close>

lemma row_step_ok:
  assumes "row_step {} x y" and "row_ok L T x" and "T \<subseteq> T'"
  shows "row_ok L T' y"
  using assms
  by (auto elim!: row_stepE simp: row_ok_def same_effect_def status_sets OUTBOX_MAX_ATTEMPTS_def)

lemma row_step_running:
  "row_step {} x y \<Longrightarrow> ob_status y = Running \<Longrightarrow>
   ob_status x = Running \<and> same_effect x y \<and> ob_lease_token y = ob_lease_token x"
  by (auto elim!: row_stepE simp: status_sets)

lemma world_ok_quiet:
  assumes "world_ok w" and "rows_step {} (w_effects w) (db_outbox (w_db w)) (db_outbox (w_db w'))"
    and "distinct_effects (w_db w')" and "ob_effect_id ` set (db_outbox (w_db w')) \<subseteq> w_effects w'"
    and "w_leases w' = w_leases w" and "w_tokens w \<subseteq> w_tokens w'"
  shows "world_ok w'"
proof -
  let ?xs = "db_outbox (w_db w)" and ?ys = "db_outbox (w_db w')"
  have from_old: "(\<exists>x \<in> set ?xs. row_step {} x y)
      \<or> (ob_status y = Pending \<and> ob_attempts y = 0 \<and> ob_lease_token y = None
         \<and> ob_concurrency_key y \<noteq> None)" if "y \<in> set ?ys" for y
    using assms(2) that unfolding rows_step_def by blast
  have old: "\<forall>r \<in> set ?xs. row_ok (w_leases w) (w_tokens w) r"
    "\<forall>r \<in> set ?xs. ob_concurrency_key r \<noteq> None" "exclusive_keys ?xs"
    "\<forall>l \<in> w_leases w. ol_lease_token l \<in> w_tokens w \<and> ol_lease_token l \<noteq> []"
    using assms(1) by (simp_all add: world_ok_def Let_def)
  have rows: "row_ok (w_leases w) (w_tokens w') y" if "y \<in> set ?ys" for y
    using from_old [OF that]
  proof
    assume "ob_status y = Pending \<and> ob_attempts y = 0 \<and> ob_lease_token y = None
         \<and> ob_concurrency_key y \<noteq> None"
    then show ?thesis by (simp add: row_ok_def status_sets OUTBOX_MAX_ATTEMPTS_def)
  qed (use old(1) row_step_ok assms(6) in blast)
  have keys: "ob_concurrency_key y \<noteq> None" if "y \<in> set ?ys" for y
    using from_old [OF that] old(2) row_step_same_effect by (auto simp: same_effect_def)
  have running: "\<exists>x \<in> set ?xs. ob_status x = Running \<and> ob_effect_id x = ob_effect_id y
      \<and> ob_concurrency_key x = ob_concurrency_key y" if "y \<in> set ?ys" "ob_status y = Running" for y
  proof -
    from from_old [OF that(1)] that(2) obtain x where x: "x \<in> set ?xs" "row_step {} x y" by auto
    from row_step_running [OF x(2) that(2)] x(1) show ?thesis by (auto simp: same_effect_def)
  qed
  have "exclusive_keys ?ys"
    unfolding exclusive_keys_def
  proof (intro ballI impI)
    fix y z assume y: "y \<in> set ?ys" and z: "z \<in> set ?ys"
      and k: "ob_status y = Running \<and> ob_status z = Running
        \<and> ob_concurrency_key y = ob_concurrency_key z"
    from running [OF y] running [OF z] k obtain u v where
      "u \<in> set ?xs" "v \<in> set ?xs" "ob_status u = Running" "ob_status v = Running"
      "ob_effect_id u = ob_effect_id y" "ob_effect_id v = ob_effect_id z"
      "ob_concurrency_key u = ob_concurrency_key v" by metis
    with old(3) show "ob_effect_id y = ob_effect_id z" unfolding exclusive_keys_def by metis
  qed
  with rows keys assms(3-6) old(4) show ?thesis
    unfolding world_ok_def Let_def by auto
qed

lemma world_ok_claim_row:
  assumes "world_ok w" and r: "r \<in> set (db_outbox (w_db w))"
    and due: "due_effect (w_db w) kinds exclude now r"
    and fresh: "token \<notin> w_tokens w" "token \<noteq> []"
    and rows: "db_outbox (w_db w')
      = map (\<lambda>x. if x = r then claim_row token now r else x) (db_outbox (w_db w))"
    and rest: "w_leases w' = insert (lease_of token (claim_row token now r)) (w_leases w)"
      "w_tokens w' = insert token (w_tokens w)" "w_effects w' = w_effects w"
  shows "world_ok w'"
proof -
  let ?xs = "db_outbox (w_db w)"
  have old: "\<And>x. x \<in> set ?xs \<Longrightarrow> row_ok (w_leases w) (w_tokens w) x"
    "\<And>x. x \<in> set ?xs \<Longrightarrow> ob_concurrency_key x \<noteq> None" "exclusive_keys ?xs"
    "\<And>l. l \<in> w_leases w \<Longrightarrow> ol_lease_token l \<in> w_tokens w \<and> ol_lease_token l \<noteq> []"
    "distinct (map ob_effect_id ?xs)" "ob_effect_id ` set ?xs \<subseteq> w_effects w"
    using assms(1) by (simp_all add: world_ok_def Let_def)
  have mem: "y \<in> set (db_outbox (w_db w')) \<Longrightarrow> y = claim_row token now r \<or> (y \<in> set ?xs \<and> y \<noteq> r)" for y
    unfolding rows by (auto split: if_splits)
  have ids: "map ob_effect_id (db_outbox (w_db w')) = map ob_effect_id ?xs"
    unfolding rows by (simp add: claim_row_def)
  have claimed: "row_ok (w_leases w') (w_tokens w') (claim_row token now r)"
    using old(1) [OF r] due old(4) fresh unfolding rest
    by (auto simp: row_ok_def claim_row_def due_effect_def lease_of_def status_sets)
  have kept: "row_ok (w_leases w') (w_tokens w') x" if "x \<in> set ?xs" for x
  proof -
    have "row_ok (w_leases w) (w_tokens w) x" by (rule old(1) [OF that])
    with fresh(1) show ?thesis
      unfolding row_ok_def rest by (auto simp: lease_of_def)
  qed
  obtain key where key: "ob_concurrency_key r = Some key" "\<not> key_is_running (w_db w) key"
    using due by (auto simp: due_effect_def split: option.splits)
  have free: "ob_concurrency_key x \<noteq> Some key" if "x \<in> set ?xs" "ob_status x = Running" for x
    using key(2) that old(1) [OF that(1)] by (auto simp: key_is_running_def row_ok_def)
  have "exclusive_keys (db_outbox (w_db w'))"
    unfolding exclusive_keys_def
  proof (intro ballI impI)
    fix y z assume "y \<in> set (db_outbox (w_db w'))" "z \<in> set (db_outbox (w_db w'))"
      and k: "ob_status y = Running \<and> ob_status z = Running
        \<and> ob_concurrency_key y = ob_concurrency_key z"
    with mem have m: "y = claim_row token now r \<or> y \<in> set ?xs" "z = claim_row token now r \<or> z \<in> set ?xs"
      by blast+
    have ck: "ob_concurrency_key (claim_row token now r) = Some key" using key by (simp add: claim_row_def)
    from m k free ck old(3) show "ob_effect_id y = ob_effect_id z"
      unfolding exclusive_keys_def by metis
  qed
  moreover have "\<forall>y \<in> set (db_outbox (w_db w')). row_ok (w_leases w') (w_tokens w') y
      \<and> ob_concurrency_key y \<noteq> None"
  proof
    fix y assume "y \<in> set (db_outbox (w_db w'))"
    from mem [OF this] show "row_ok (w_leases w') (w_tokens w') y \<and> ob_concurrency_key y \<noteq> None"
    proof
      assume "y = claim_row token now r"
      with claimed key(1) show ?thesis by (simp add: claim_row_def)
    qed (use kept old(2) in blast)
  qed
  moreover have "ob_effect_id ` set (db_outbox (w_db w')) = ob_effect_id ` set ?xs"
    using ids by (metis list.set_map)
  ultimately show ?thesis
    unfolding world_ok_def Let_def
    using ids old(4-6) rest fresh by (auto simp: lease_of_def)
qed

section \<open>Every step keeps the invariant\<close>

definition same_ids :: "'j database \<Rightarrow> 'j database \<Rightarrow> bool" where
  "same_ids db db' \<longleftrightarrow> map ob_effect_id (db_outbox db') = map ob_effect_id (db_outbox db)"

lemma same_ids_update:
  "(\<And>r. ob_effect_id (f r) = ob_effect_id r) \<Longrightarrow> same_ids db (update_where p f db)"
  by (simp add: same_ids_def)

lemma same_ids_refl [simp]: "same_ids db db"
  by (simp add: same_ids_def)

lemma complete_ids: "complete_outbox_observation db e key token c = (db', res) \<Longrightarrow> same_ids db db'"
  using complete_cases [of db e key token c db' res]
  by (auto intro!: same_ids_update simp: complete_row_def)

lemma step_ids:
  "mark_outbox_dispatched db l = (db', ok) \<Longrightarrow> same_ids db db'"
  "renew_outbox_lease db l now = (db', ok) \<Longrightarrow> same_ids db db'"
  "observe_outbox db l obs now = (db', res) \<Longrightarrow> same_ids db db'"
  "release_outbox_lease db l err now = (db', ok) \<Longrightarrow> same_ids db db'"
  by (auto simp: mark_outbox_dispatched_def sql_mark_dispatched_def renew_outbox_lease_def
      sql_renew_lease_def observe_outbox_def release_outbox_lease_def Let_def
      intro!: same_ids_update dest: complete_ids split: option.splits if_splits prod.splits)

lemma reap_ids:
  assumes "distinct_effects db"
  shows "same_ids db (fst (reap_expired_outbox_leases db now secs))"
proof -
  have "distinct (db_outbox db)" using assms by (simp add: distinct_map)
  then have "distinct (expired_outbox_leases db now secs)" by (simp add: expired_outbox_leases_def)
  then show ?thesis
    unfolding same_ids_def reap_expired_outbox_leases_def
    by (subst reap_rows_outbox [OF assms])
       (auto simp: expired_outbox_leases_def complete_row_def)
qed

lemma world_ok_same_ids:
  assumes "world_ok w" and "rows_step {} (w_effects w) (db_outbox (w_db w)) (db_outbox db')"
    and "same_ids (w_db w) db'"
  shows "world_ok (w\<lparr>w_db := db'\<rparr>)"
proof (rule world_ok_quiet [OF assms(1)])
  have "ob_effect_id ` set (db_outbox db') = ob_effect_id ` set (db_outbox (w_db w))"
    using assms(3) unfolding same_ids_def by (metis list.set_map)
  then show "ob_effect_id ` set (db_outbox (w_db (w\<lparr>w_db := db'\<rparr>))) \<subseteq> w_effects (w\<lparr>w_db := db'\<rparr>)"
    using assms(1) by (simp add: world_ok_def Let_def)
  show "distinct_effects (w_db (w\<lparr>w_db := db'\<rparr>))"
    using assms(1,3) by (simp add: same_ids_def world_ok_def Let_def)
qed (use assms(2) in simp_all)

lemma commit_rows:
  assumes "commit_decision db c d ids = Inr db'" and "distinct_effects db"
    and "set (decision_ids d ids) \<inter> known = {}"
  shows "rows_step F known (db_outbox db) (db_outbox db')" and "distinct_effects db'"
    and "ob_effect_id ` set (db_outbox db')
      = ob_effect_id ` set (db_outbox db) \<union> set (decision_ids d ids)"
proof -
  from assms(1) have "insert_outbox_effects (db_outbox db) (cc_job_id c)
      (zip (decision_ids d ids) (cd_effects d)) = Inr (db_outbox db')"
    by (auto simp: commit_decision_def record_transition_def decision_ids_def result_simps)
  from insert_rows [OF this] obtain new where new: "db_outbox db' = db_outbox db @ new"
    "map ob_effect_id new = map fst (zip (decision_ids d ids) (cd_effects d))"
    "\<forall>r \<in> set new. ob_status r = Pending \<and> ob_attempts r = 0 \<and> ob_lease_token r = None
       \<and> ob_concurrency_key r \<noteq> None" "distinct_effects db'"
    using assms(2) by blast
  have ids: "map ob_effect_id new = decision_ids d ids"
    unfolding new(2) by (simp add: decision_ids_def)
  then have in_new: "ob_effect_id r \<notin> known" if "r \<in> set new" for r
    using assms(3) that by (metis disjoint_iff image_eqI list.set_map)
  show "rows_step F known (db_outbox db) (db_outbox db')"
    unfolding rows_step_def new(1) using new(3) in_new by (auto intro: row_step.Same)
  show "distinct_effects db'" by (fact new(4))
  show "ob_effect_id ` set (db_outbox db')
      = ob_effect_id ` set (db_outbox db) \<union> set (decision_ids d ids)"
    unfolding new(1) using ids by (metis image_Un list.set_map set_append)
qed

lemma world_ok_step:
  assumes "outbox_step w w'" and "world_ok w"
  shows "world_ok w'"
  using assms
proof (induction rule: outbox_step.induct)
  case (Commit w c d ids db')
  have d: "distinct_effects (w_db w)" and e: "ob_effect_id ` set (db_outbox (w_db w)) \<subseteq> w_effects w"
    using Commit.prems by (simp_all add: world_ok_def Let_def)
  note c = commit_rows [OF Commit.hyps(1) d Commit.hyps(2)]
  show ?case by (rule world_ok_quiet [OF Commit.prems]) (use c e in auto)
next
  case (Claim w kinds now token exclude db' found)
  have d: "distinct_effects (w_db w)" using Claim.prems by (simp add: world_ok_def Let_def)
  let ?a = "abandon_stale_outbox_effects (w_db w) kinds now"
  have a: "world_ok (w\<lparr>w_db := ?a\<rparr>)"
    by (rule world_ok_same_ids [OF Claim.prems abandon_rows])
       (simp add: abandon_stale_outbox_effects_def same_ids_update)
  let ?w = "w\<lparr>w_db := db', w_leases := w_leases w \<union> set_option found,
              w_tokens := insert token (w_tokens w)\<rparr>"
  show ?case
    using claim_cases [OF Claim.hyps(1) d refl]
  proof (elim disjE exE conjE)
    assume f: "found = None" "db_outbox db' = db_outbox ?a"
    show ?thesis
      by (rule world_ok_quiet [OF a])
         (use f a in \<open>auto simp: rows_step_refl world_ok_def Let_def\<close>)
  next
    fix r assume r: "r \<in> set (db_outbox ?a)" "due_effect ?a kinds exclude now r"
      and rows: "db_outbox db' = map (\<lambda>x. if x = r then claim_row token now r else x) (db_outbox ?a)"
      and f: "found = Some (lease_of token (claim_row token now r))"
    show ?thesis
      by (rule world_ok_claim_row [OF a, where r = r and token = token and now = now
            and kinds = kinds and exclude = exclude])
         (use r rows f Claim.hyps(2,3) in simp_all)
  qed
next
  case (Mark l w db' ok)
  then show ?case by (intro world_ok_same_ids) (auto intro: mark_rows step_ids)
next
  case (Renew l w now db' ok)
  then show ?case by (intro world_ok_same_ids) (auto intro: renew_rows step_ids)
next
  case (Observe l w obs now db' res)
  then show ?case by (intro world_ok_same_ids) (auto intro: observe_rows step_ids)
next
  case (Release l w err now db' ok)
  then show ?case by (intro world_ok_same_ids) (auto intro: release_rows step_ids)
next
  case (Reap w now secs db' n)
  have d: "distinct_effects (w_db w)" using Reap.prems by (simp add: world_ok_def Let_def)
  have db': "db' = fst (reap_expired_outbox_leases (w_db w) now secs)" using Reap.hyps by simp
  show ?case
    unfolding db' by (rule world_ok_same_ids [OF Reap.prems reap_rows_step [OF d] reap_ids [OF d]])
next
  case (Consume w res disposition now db' ok)
  then show ?case
    using consume_rows [OF Consume.hyps]
    by (intro world_ok_same_ids) (simp_all add: rows_step_refl same_ids_def)
next
  case (Delete w job_id)
  have d: "distinct_effects (w_db w)" and e: "ob_effect_id ` set (db_outbox (w_db w)) \<subseteq> w_effects w"
    using Delete.prems by (simp_all add: world_ok_def Let_def)
  show ?case
    by (rule world_ok_quiet [OF Delete.prems])
       (use d e in \<open>auto simp: delete_rows, auto simp: delete_job_def Let_def distinct_map_filter\<close>)
qed

lemma reachable_world_ok: "reachable_world jobs w \<Longrightarrow> world_ok w"
  unfolding reachable_world_def
proof (induction rule: rtranclp_induct)
  case base
  show ?case by (simp add: initial_world_def world_ok_def exclusive_keys_def)
qed (rule world_ok_step)

lemma outbox_step_rows:
  assumes "outbox_step w w'" and "world_ok w"
  shows "\<exists>F. F \<inter> w_tokens w = {} \<and> F \<subseteq> w_tokens w' \<and> w_tokens w \<subseteq> w_tokens w'
    \<and> w_effects w \<subseteq> w_effects w' \<and> w_leases w \<subseteq> w_leases w'
    \<and> rows_step F (w_effects w) (db_outbox (w_db w)) (db_outbox (w_db w'))"
  using assms
proof (induction rule: outbox_step.induct)
  case (Commit w c d ids db')
  then have "distinct_effects (w_db w)" by (simp add: world_ok_def Let_def)
  from commit_rows(1) [OF Commit.hyps(1) this Commit.hyps(2)] show ?case
    by (intro exI [of _ "{}"]) auto
next
  case (Claim w kinds now token exclude db' found)
  then have "distinct_effects (w_db w)" by (simp add: world_ok_def Let_def)
  from claim_rows [OF Claim.hyps(1) this] Claim.hyps(2) show ?case
    by (intro exI [of _ "{token}"]) auto
next
  case (Mark l w db' ok)
  from mark_rows [OF Mark.hyps(2)] show ?case by (intro exI [of _ "{}"]) auto
next
  case (Renew l w now db' ok)
  from renew_rows [OF Renew.hyps(2)] show ?case by (intro exI [of _ "{}"]) auto
next
  case (Observe l w obs now db' res)
  from observe_rows [OF Observe.prems Observe.hyps] show ?case by (intro exI [of _ "{}"]) auto
next
  case (Release l w err now db' ok)
  from release_rows [OF Release.prems Release.hyps] show ?case by (intro exI [of _ "{}"]) auto
next
  case (Reap w now secs db' n)
  then have "distinct_effects (w_db w)" by (simp add: world_ok_def Let_def)
  from reap_rows_step [OF this, of "{}" "w_effects w" now secs] Reap.hyps show ?case
    by (intro exI [of _ "{}"]) simp
next
  case (Consume w res disposition now db' ok)
  from consume_rows [OF Consume.hyps] show ?case by (intro exI [of _ "{}"]) (simp add: rows_step_refl)
next
  case (Delete w job_id)
  then show ?case by (intro exI [of _ "{}"]) (simp add: delete_rows)
qed

section \<open>Properties\<close>

text \<open>
  C2. In every reachable state of the outbox at most one effect of a concurrency key is
  running, an effect is running exactly when it carries a lease, and no effect has been attempted
  more than eight times; one that may still be claimed has been attempted fewer times.
\<close>

theorem outbox_is_exclusive_and_bounded:
  assumes "reachable_world jobs w" and "x \<in> set (db_outbox (w_db w))"
  shows "(\<forall>y \<in> set (db_outbox (w_db w)). ob_status x = Running \<and> ob_status y = Running
        \<and> ob_concurrency_key y = ob_concurrency_key x \<longrightarrow> y = x)
    \<and> (ob_status x = Running \<longleftrightarrow> ob_lease_token x \<noteq> None)
    \<and> ob_attempts x \<le> 8 \<and> (ob_status x \<in> {Pending, FailedRetryable} \<longrightarrow> ob_attempts x < 8)"
proof -
  have ok: "world_ok w" by (rule reachable_world_ok [OF assms(1)])
  then have row: "row_ok (w_leases w) (w_tokens w) x" and excl: "exclusive_keys (db_outbox (w_db w))"
    and d: "distinct_effects (w_db w)"
    using assms(2) by (simp_all add: world_ok_def Let_def)
  have "y = x" if "y \<in> set (db_outbox (w_db w))" "ob_status x = Running" "ob_status y = Running"
    "ob_concurrency_key y = ob_concurrency_key x" for y
  proof -
    have "ob_effect_id y = ob_effect_id x"
      using excl assms(2) that unfolding exclusive_keys_def by metis
    with same_row [OF d that(1) assms(2)] show ?thesis by blast
  qed
  with row show ?thesis
    by (auto simp: row_ok_def OUTBOX_MAX_ATTEMPTS_def claimable_statuses_def)
qed

text \<open>An effect that was dispatched: it is running behind the submit fence or has its outcome.\<close>

definition dispatched_for_good :: "string \<Rightarrow> 'j database \<Rightarrow> bool" where
  "dispatched_for_good e db \<longleftrightarrow>
     (\<forall>r \<in> set (db_outbox db). ob_effect_id r = e \<longrightarrow>
        ob_status r \<in> terminal_statuses
        \<or> (ob_status r = Running \<and> fence_submitted (ob_outcome r)))"

lemma row_step_dispatched:
  assumes "row_step F x y"
    and "ob_status x \<in> terminal_statuses \<or> (ob_status x = Running \<and> fence_submitted (ob_outcome x))"
  shows "ob_status y \<in> terminal_statuses \<or> (ob_status y = Running \<and> fence_submitted (ob_outcome y))"
  using assms by (auto elim!: row_stepE simp: status_sets)

lemma dispatched_step:
  assumes "outbox_step w w'" and "world_ok w" and "e \<in> w_effects w"
    and "dispatched_for_good e (w_db w)"
  shows "dispatched_for_good e (w_db w')"
proof -
  obtain F where F: "rows_step F (w_effects w) (db_outbox (w_db w)) (db_outbox (w_db w'))"
    using outbox_step_rows [OF assms(1,2)] by blast
  show ?thesis
    unfolding dispatched_for_good_def
  proof (intro ballI impI)
    fix y assume y: "y \<in> set (db_outbox (w_db w'))" "ob_effect_id y = e"
    with F assms(3) obtain x where x: "x \<in> set (db_outbox (w_db w))" "row_step F x y"
      unfolding rows_step_def by blast
    have "ob_effect_id x = e" using row_step_same_effect [OF x(2)] y(2) by (simp add: same_effect_def)
    with assms(4) x(1) have "ob_status x \<in> terminal_statuses
        \<or> (ob_status x = Running \<and> fence_submitted (ob_outcome x))"
      unfolding dispatched_for_good_def by blast
    then show "ob_status y \<in> terminal_statuses
        \<or> (ob_status y = Running \<and> fence_submitted (ob_outcome y))"
      by (rule row_step_dispatched [OF x(2)])
  qed
qed

lemma mark_dispatches:
  assumes "mark_outbox_dispatched db l = (db', True)" and "distinct_effects db"
  shows "dispatched_for_good (ol_effect_id l) db'"
    and "ol_effect_id l \<in> ob_effect_id ` set (db_outbox db)"
proof -
  let ?p = "\<lambda>r. holds_lease (ol_effect_id l) (ol_lease_token l) r
      \<and> (case payload_revision (ol_payload l) of None \<Rightarrow> True
         | Some i \<Rightarrow> load_job_revision db (ob_job_id r) = Some i)"
  have db': "db' = update_where ?p (\<lambda>r. r\<lparr>ob_outcome := Some submit_fence\<rparr>) db"
    and one: "changes ?p db = 1"
    using assms(1) by (simp_all add: mark_outbox_dispatched_def sql_mark_dispatched_def Let_def)
  from one obtain z where z: "z \<in> set (db_outbox db)" "?p z"
    unfolding changes_def by (metis (no_types, lifting) One_nat_def filter_False length_0_conv zero_neq_one)
  have "?p x" if "x \<in> set (db_outbox db)" "ob_effect_id x = ol_effect_id l" for x
    using same_row [OF assms(2) that(1) z(1)] that(2) z(2) by (auto simp: holds_lease_def)
  then show "dispatched_for_good (ol_effect_id l) db'"
    unfolding dispatched_for_good_def db'
    by (auto simp: submit_fence_def fence_submitted_def dict_get_def holds_lease_def split: if_splits)
  show "ol_effect_id l \<in> ob_effect_id ` set (db_outbox db)"
    using z by (auto simp: holds_lease_def intro: rev_image_eqI)
qed

lemma dispatched_not_claimed:
  assumes "claim_outbox db kinds now token exclude = (db', Some l)" and "distinct_effects db"
    and "dispatched_for_good e db"
  shows "ol_effect_id l \<noteq> e"
proof -
  from claim_cases [OF assms(1,2) refl] obtain r where r: "r \<in> set (db_outbox db)"
    "due_effect (abandon_stale_outbox_effects db kinds now) kinds exclude now r"
    "l = lease_of token (claim_row token now r)" by auto
  then have "ob_status r \<in> claimable_statuses" by (simp add: due_effect_def)
  with assms(3) r(1) have "ob_effect_id r \<noteq> e"
    unfolding dispatched_for_good_def by (auto simp: status_sets)
  with r(3) show ?thesis by (simp add: lease_of_def claim_row_def)
qed

text \<open>
  C1. An effect is never dispatched twice: once a lease has crossed the submit fence of an
  effect, then after any further transactions of any users (crashes, reaping, releases, retries,
  deletions included) no claim hands that effect out again.
\<close>

theorem dispatched_effect_never_claimed_again:
  assumes "reachable_world jobs w" and "l \<in> w_leases w"
    and "mark_outbox_dispatched (w_db w) l = (db', True)"
    and "outbox_step\<^sup>*\<^sup>* (w\<lparr>w_db := db'\<rparr>) v"
    and "claim_outbox (w_db v) kinds now token exclude = (db'', Some l')"
  shows "ol_effect_id l' \<noteq> ol_effect_id l"
proof -
  have ok: "world_ok w" by (rule reachable_world_ok [OF assms(1)])
  then have d: "distinct_effects (w_db w)" by (simp add: world_ok_def Let_def)
  note m = mark_dispatches [OF assms(3) d]
  have start: "world_ok (w\<lparr>w_db := db'\<rparr>)"
    by (rule world_ok_step [OF outbox_step.Mark [OF assms(2,3)] ok])
  have "ol_effect_id l \<in> w_effects w" using m(2) ok by (auto simp: world_ok_def Let_def)
  with m(1) start have "world_ok (w\<lparr>w_db := db'\<rparr>) \<and> ol_effect_id l \<in> w_effects (w\<lparr>w_db := db'\<rparr>)
      \<and> dispatched_for_good (ol_effect_id l) (w_db (w\<lparr>w_db := db'\<rparr>))" by simp
  with assms(4) have "world_ok v \<and> ol_effect_id l \<in> w_effects v
      \<and> dispatched_for_good (ol_effect_id l) (w_db v)"
  proof (induction rule: rtranclp_induct)
    case (step u v)
    from outbox_step_rows [OF step.hyps(2)] step.IH [OF step.prems]
      world_ok_step [OF step.hyps(2)] dispatched_step [OF step.hyps(2)]
    show ?case by blast
  qed
  then show ?thesis
    using dispatched_not_claimed [OF assms(5)] by (simp add: world_ok_def Let_def)
qed

text \<open>A lease is lost when no effect carries its token any more.\<close>

definition lease_lost :: "outbox_lease \<Rightarrow> 'j database \<Rightarrow> bool" where
  "lease_lost l db \<longleftrightarrow> (\<forall>r \<in> set (db_outbox db). ob_lease_token r \<noteq> Some (ol_lease_token l))"

lemma row_step_token:
  "row_step F x y \<Longrightarrow> ob_lease_token y = Some t \<Longrightarrow> t \<notin> F \<Longrightarrow> ob_lease_token x = Some t"
  by (auto elim!: row_stepE)

lemma lease_lost_step:
  assumes "outbox_step w w'" and "world_ok w" and "l \<in> w_leases w" and "lease_lost l (w_db w)"
  shows "lease_lost l (w_db w')"
proof -
  obtain F where F: "F \<inter> w_tokens w = {}"
    "rows_step F (w_effects w) (db_outbox (w_db w)) (db_outbox (w_db w'))"
    using outbox_step_rows [OF assms(1,2)] by blast
  have "ol_lease_token l \<in> w_tokens w" using assms(2,3) by (simp add: world_ok_def Let_def)
  with F(1) have notF: "ol_lease_token l \<notin> F" by blast
  show ?thesis
    unfolding lease_lost_def
  proof (intro ballI notI)
    fix y assume y: "y \<in> set (db_outbox (w_db w'))" "ob_lease_token y = Some (ol_lease_token l)"
    with F(2) obtain x where x: "x \<in> set (db_outbox (w_db w))" "row_step F x y"
      unfolding rows_step_def by force
    from row_step_token [OF x(2) y(2) notF] x(1) assms(4) show False
      unfolding lease_lost_def by blast
  qed
qed

lemma update_where_none: "(\<And>r. r \<in> set (db_outbox db) \<Longrightarrow> \<not> p r) \<Longrightarrow> update_where p f db = db"
  unfolding update_where_def by (simp cong: map_cong)

lemma changes_none: "(\<And>r. r \<in> set (db_outbox db) \<Longrightarrow> \<not> p r) \<Longrightarrow> changes p db = 0"
  by (simp add: changes_def filter_empty_conv)

lemma lost_lease_is_powerless:
  assumes "lease_lost l db" and "ol_lease_token l \<noteq> []"
  shows "mark_outbox_dispatched db l = (db, False)"
    and "renew_outbox_lease db l now = (db, False)"
    and "\<exists>res. observe_outbox db l obs now = (db, res) \<and> res \<noteq> ObsApplied"
    and "release_outbox_lease db l err now = (db, False)"
proof -
  have no: "\<not> holds_lease e (ol_lease_token l) r" if "r \<in> set (db_outbox db)" for e r
    using assms(1) that by (simp add: lease_lost_def holds_lease_def)
  have tok: "or_str (ob_lease_token r) '''' \<noteq> ol_lease_token l" if "r \<in> set (db_outbox db)" for r
    using assms that by (cases "ob_lease_token r") (auto simp: lease_lost_def or_str_def)
  show "mark_outbox_dispatched db l = (db, False)"
    using no by (simp add: mark_outbox_dispatched_def sql_mark_dispatched_def Let_def
        update_where_none changes_none)
  show "renew_outbox_lease db l now = (db, False)"
    using no by (simp add: renew_outbox_lease_def sql_renew_lease_def Let_def update_where_none
        changes_none)
  have comp: "\<exists>res. complete_outbox_observation db e key (ol_lease_token l) c = (db, res)
      \<and> res \<noteq> ObsApplied" for e key c
  proof (cases "load_outbox db e")
    case (Some r)
    with tok [of r] load_outbox_Some [OF Some] show ?thesis
      by (simp add: complete_outbox_observation_def)
  qed (simp add: complete_outbox_observation_def)
  then show "\<exists>res. observe_outbox db l obs now = (db, res) \<and> res \<noteq> ObsApplied"
    by (simp add: observe_outbox_def split: option.splits)
  show "release_outbox_lease db l err now = (db, False)"
    using tok load_outbox_Some [of db "ol_effect_id l"]
    by (auto simp: release_outbox_lease_def split: option.splits)
qed

text \<open>
  C3. A lost lease is powerless for ever: when an executor's lease has expired or been completed,
  then after any further transactions (the effect may be running under another lease by then)
  marking, renewing, observing and releasing with the old lease all fail and change nothing.
\<close>

theorem lost_lease_changes_nothing:
  assumes "reachable_world jobs w" and "l \<in> w_leases w" and "lease_lost l (w_db w)"
    and "outbox_step\<^sup>*\<^sup>* w v"
  shows "mark_outbox_dispatched (w_db v) l = (w_db v, False)
    \<and> renew_outbox_lease (w_db v) l now = (w_db v, False)
    \<and> (\<exists>res. observe_outbox (w_db v) l obs now = (w_db v, res) \<and> res \<noteq> ObsApplied)
    \<and> release_outbox_lease (w_db v) l err now = (w_db v, False)"
proof -
  have "world_ok w" by (rule reachable_world_ok [OF assms(1)])
  with assms(4) have "world_ok v \<and> l \<in> w_leases v \<and> lease_lost l (w_db v)"
  proof (induction rule: rtranclp_induct)
    case base
    then show ?case using assms(2,3) by simp
  next
    case (step u v)
    from outbox_step_rows [OF step.hyps(2)] step.IH [OF step.prems]
      world_ok_step [OF step.hyps(2)] lease_lost_step [OF step.hyps(2)]
    show ?case by blast
  qed
  then have "lease_lost l (w_db v)" "ol_lease_token l \<noteq> []"
    by (simp_all add: world_ok_def Let_def)
  from lost_lease_is_powerless [OF this] show ?thesis by blast
qed

text \<open>
  C4. Commands are idempotent: a command that was committed with a new revision and is delivered
  again, at any time while its job is stored, commits nothing, admits no effect and returns the
  job as it is stored; the same command identifier for another job, revision or kind is refused.
\<close>

theorem committed_command_is_idempotent:
  assumes "apply_command prepare decide rejected db c ids = Inr (db', Some j)"
    and "load_command_event db (cc_command_id c) = None"
    and "jr_revision j = cc_expected_revision c + 1"
    and "db_events later = db_events db' @ newer" and "db_jobs later (cc_job_id c) = Some k"
  shows "apply_command prepare' decide' False later c ids' = Inr (later, Some k)
    \<and> (\<forall>c'. cc_command_id c' = cc_command_id c
         \<and> (cc_job_id c' \<noteq> cc_job_id c \<or> cc_expected_revision c' \<noteq> cc_expected_revision c
            \<or> cc_kind c' \<noteq> cc_kind c) \<longrightarrow>
         (\<exists>e. apply_command prepare' decide' False later c' ids' = Inl e))"
proof -
  from assms(1,2) obtain current d d' db1 where
    d': "CoordinatorDecision_check (d\<lparr>cd_job := j\<rparr>) = Inr d'"
    and db1: "record_transition db c d' ids = Inr db1"
    and db': "db' = db1\<lparr>db_jobs := (db_jobs db1)(cc_job_id c \<mapsto> j)\<rparr>"
    unfolding apply_command_def
    by (auto simp: result_simps split: if_splits option.splits)
  have job: "cd_job d' = j"
    using d' by (auto simp: CoordinatorDecision_check_def Let_def split: if_splits)
  obtain ev where ev: "db_events db' = db_events db @ [ev]" "ev_command_id ev = cc_command_id c"
    "ev_job_id ev = cc_job_id c" "ev_revision ev = cc_expected_revision c + 1"
    "ev_command_kind ev = cc_kind c"
    using db1 job assms(3) unfolding db' record_transition_def by (auto simp: result_simps)
  have "load_command_event later (cc_command_id c) = Some ev"
    using assms(2) ev(1,2) unfolding load_command_event_def assms(4)
    by (simp add: find_append)
  then show ?thesis
    using ev(3-5) assms(5) unfolding apply_command_def by auto
qed

section \<open>Witnesses\<close>

definition demo_job_row :: "unit job_row" where
  "demo_job_row = \<lparr>jr_revision = 3, jr_body = ()\<rparr>"

definition demo_command :: coordinator_command where
  "demo_command = \<lparr>cc_job_id = ''j'', cc_expected_revision = 2, cc_command_id = ''c1'',
     cc_kind = ''submit''\<rparr>"

definition demo_effect :: durable_effect where
  "demo_effect = \<lparr>de_kind = ''prompt'', de_idempotency_key = ''k1'', de_concurrency_key = ''j'',
     de_payload = [(''expected_revision'', JInt 3)]\<rparr>"

definition demo_decision :: "unit coordinator_decision" where
  "demo_decision = \<lparr>cd_job = demo_job_row, cd_effects = [demo_effect],
     cd_event_kind = ''transition'', cd_event_payload = []\<rparr>"

definition demo_ids :: transition_ids where
  "demo_ids = \<lparr>tr_event_id = ''e'', tr_effect_ids = (\<lambda>_. ''f1''), tr_created_at = 0\<rparr>"

definition demo_jobs :: "string \<rightharpoonup> unit job_row" where
  "demo_jobs = [''j'' \<mapsto> \<lparr>jr_revision = 2, jr_body = ()\<rparr>]"

definition demo_outbox_row :: outbox_row where
  "demo_outbox_row = new_outbox_row ''f1'' ''j'' demo_effect"

definition demo_event :: event_row where
  "demo_event = \<lparr>ev_event_id = ''e'', ev_command_id = ''c1'', ev_job_id = ''j'', ev_revision = 3,
     ev_kind = ''transition'', ev_command_kind = ''submit'', ev_effects = [''prompt''],
     ev_payload = [], ev_created_at = 0\<rparr>"

definition demo_db :: "outbox_row \<Rightarrow> unit database" where
  "demo_db r = \<lparr>db_jobs = [''j'' \<mapsto> demo_job_row], db_events = [demo_event], db_outbox = [r],
     db_consumptions = []\<rparr>"

definition demo_lease :: outbox_lease where
  "demo_lease = lease_of ''t1'' (claim_row ''t1'' 10 demo_outbox_row)"

definition demo_world :: "outbox_row \<Rightarrow> unit world" where
  "demo_world r = \<lparr>w_db = demo_db r, w_leases = {demo_lease}, w_tokens = {''t1''},
     w_effects = {''f1''}\<rparr>"

lemmas demo_defs = demo_db_def demo_outbox_row_def demo_effect_def new_outbox_row_def demo_job_row_def

lemma demo_commit: "commit_decision (w_db (initial_world demo_jobs)) demo_command demo_decision demo_ids
    = Inr (demo_db demo_outbox_row)"
  by (simp add: commit_decision_def record_transition_def initial_world_def demo_decision_def
      demo_ids_def demo_jobs_def demo_command_def demo_defs demo_event_def outbox_conflict_def Let_def)

lemma demo_claim:
  "claim_outbox (demo_db demo_outbox_row) [''prompt''] 10 ''t1'' []
     = (demo_db (claim_row ''t1'' 10 demo_outbox_row), Some demo_lease)"
  by (simp add: claim_outbox_def abandon_stale_outbox_effects_def update_where_def stale_effect_def
      claim_due_outbox_def due_effect_def key_is_running_def demo_defs status_sets Let_def
      payload_revision_def dict_get_def load_job_revision_def changes_def load_outbox_def
      claim_row_def demo_lease_def lease_of_def)

lemma demo_reachable: "reachable_world demo_jobs (demo_world (claim_row ''t1'' 10 demo_outbox_row))"
proof -
  let ?w0 = "initial_world demo_jobs"
  let ?w1 = "?w0\<lparr>w_db := demo_db demo_outbox_row,
      w_effects := w_effects ?w0 \<union> set (decision_ids demo_decision demo_ids)\<rparr>"
  have s1: "outbox_step ?w0 ?w1"
    by (rule outbox_step.Commit [OF demo_commit]) (simp add: initial_world_def)
  have "outbox_step ?w1 (?w1\<lparr>w_db := demo_db (claim_row ''t1'' 10 demo_outbox_row),
      w_leases := w_leases ?w1 \<union> set_option (Some demo_lease),
      w_tokens := insert ''t1'' (w_tokens ?w1)\<rparr>)"
    by (rule outbox_step.Claim [where kinds = "[''prompt'']" and now = 10 and exclude = "[]"])
       (simp_all add: demo_claim initial_world_def)
  then have s2: "outbox_step ?w1 (demo_world (claim_row ''t1'' 10 demo_outbox_row))"
    by (simp add: initial_world_def demo_world_def decision_ids_def demo_decision_def demo_ids_def)
  from s1 s2 show ?thesis unfolding reachable_world_def by simp
qed

lemma outbox_is_exclusive_and_bounded_witness:
  "ob_status (claim_row ''t1'' 10 demo_outbox_row) = Running
   \<and> ob_attempts (claim_row ''t1'' 10 demo_outbox_row) \<le> 8"
  using outbox_is_exclusive_and_bounded [OF demo_reachable, of "claim_row ''t1'' 10 demo_outbox_row"]
  by (simp add: demo_world_def demo_db_def claim_row_def)

definition demo_fenced :: outbox_row where
  "demo_fenced = (claim_row ''t1'' 10 demo_outbox_row)\<lparr>ob_outcome := Some submit_fence\<rparr>"

lemma demo_mark:
  "mark_outbox_dispatched (demo_db (claim_row ''t1'' 10 demo_outbox_row)) demo_lease
     = (demo_db demo_fenced, True)"
  by (simp add: mark_outbox_dispatched_def sql_mark_dispatched_def update_where_def changes_def
      holds_lease_def demo_lease_def lease_of_def claim_row_def demo_defs demo_fenced_def Let_def
      payload_revision_def dict_get_def load_job_revision_def)

text \<open>After the mark another effect is admitted and claimed; the first one stays out.\<close>

definition second_effect :: durable_effect where
  "second_effect = \<lparr>de_kind = ''prompt'', de_idempotency_key = ''k2'', de_concurrency_key = ''x'',
     de_payload = []\<rparr>"

definition second_command :: coordinator_command where
  "second_command = \<lparr>cc_job_id = ''j'', cc_expected_revision = 3, cc_command_id = ''c2'',
     cc_kind = ''submit''\<rparr>"

definition second_decision :: "unit coordinator_decision" where
  "second_decision = \<lparr>cd_job = demo_job_row, cd_effects = [second_effect],
     cd_event_kind = ''transition'', cd_event_payload = []\<rparr>"

definition second_ids :: transition_ids where
  "second_ids = \<lparr>tr_event_id = ''e2'', tr_effect_ids = (\<lambda>_. ''f2''), tr_created_at = 20\<rparr>"

definition second_db :: "unit database" where
  "second_db = (demo_db demo_fenced)\<lparr>db_events := [demo_event,
       \<lparr>ev_event_id = ''e2'', ev_command_id = ''c2'', ev_job_id = ''j'', ev_revision = 3,
        ev_kind = ''transition'', ev_command_kind = ''submit'', ev_effects = [''prompt''],
        ev_payload = [], ev_created_at = 20\<rparr>],
     db_outbox := [demo_fenced, new_outbox_row ''f2'' ''j'' second_effect]\<rparr>"

lemmas second_defs = second_effect_def second_command_def second_decision_def second_ids_def
  second_db_def

lemma second_commit:
  "commit_decision (demo_db demo_fenced) second_command second_decision second_ids = Inr second_db"
  by (simp add: commit_decision_def record_transition_def second_defs demo_fenced_def claim_row_def
      demo_defs outbox_conflict_def Let_def)

lemma second_claim:
  "snd (claim_outbox second_db [''prompt''] 60 ''t2'' [])
     = Some (lease_of ''t2'' (claim_row ''t2'' 60 (new_outbox_row ''f2'' ''j'' second_effect)))"
  by (simp add: claim_outbox_def abandon_stale_outbox_effects_def update_where_def stale_effect_def
      claim_due_outbox_def due_effect_def key_is_running_def second_defs demo_fenced_def demo_defs
      status_sets Let_def payload_revision_def dict_get_def load_job_revision_def changes_def
      load_outbox_def claim_row_def lease_of_def)

lemma dispatched_effect_never_claimed_again_witness:
  "\<exists>db' l'. claim_outbox second_db [''prompt''] 60 ''t2'' [] = (db', Some l')
     \<and> ol_effect_id l' = ''f2'' \<and> ol_effect_id l' \<noteq> ol_effect_id demo_lease"
proof -
  let ?w = "demo_world (claim_row ''t1'' 10 demo_outbox_row)"
  let ?l = "lease_of ''t2'' (claim_row ''t2'' 60 (new_outbox_row ''f2'' ''j'' second_effect))"
  have l: "demo_lease \<in> w_leases ?w" by (simp add: demo_world_def)
  have m: "mark_outbox_dispatched (w_db ?w) demo_lease = (demo_db demo_fenced, True)"
    using demo_mark by (simp add: demo_world_def)
  let ?u = "?w\<lparr>w_db := demo_db demo_fenced\<rparr>"
  let ?v = "?u\<lparr>w_db := second_db,
      w_effects := w_effects ?u \<union> set (decision_ids second_decision second_ids)\<rparr>"
  have "set (decision_ids second_decision second_ids) \<inter> w_effects ?u = {}"
    by (simp add: decision_ids_def second_decision_def second_ids_def demo_world_def)
  moreover have "commit_decision (w_db ?u) second_command second_decision second_ids = Inr second_db"
    by (simp add: second_commit)
  ultimately have "outbox_step ?u ?v" by (rule outbox_step.Commit [rotated])
  then have s: "outbox_step\<^sup>*\<^sup>* ?u ?v" by (rule r_into_rtranclp)
  obtain db' where c: "claim_outbox second_db [''prompt''] 60 ''t2'' [] = (db', Some ?l)"
    using second_claim by (cases "claim_outbox second_db [''prompt''] 60 ''t2'' []") simp
  then have "claim_outbox (w_db ?v) [''prompt''] 60 ''t2'' [] = (db', Some ?l)" by simp
  from dispatched_effect_never_claimed_again [OF demo_reachable l m s this] c
  show ?thesis by (auto simp: lease_of_def claim_row_def new_outbox_row_def)
qed

lemma lost_lease_changes_nothing_witness:
  "\<exists>db' res. observe_outbox (demo_db (claim_row ''t1'' 10 demo_outbox_row)) demo_lease
      \<lparr>eo_outcome = Confirmed, eo_retryable = False, eo_detail = []\<rparr> 12 = (db', ObsApplied)
     \<and> release_outbox_lease db' demo_lease None 13 = (db', False)
     \<and> observe_outbox db' demo_lease
         \<lparr>eo_outcome = Confirmed, eo_retryable = False, eo_detail = []\<rparr> 13 = (db', res)
     \<and> res \<noteq> ObsApplied"
proof -
  let ?w = "demo_world (claim_row ''t1'' 10 demo_outbox_row)"
  let ?obs = "\<lparr>eo_outcome = Confirmed, eo_retryable = False, eo_detail = []\<rparr>"
  obtain db' res where o: "observe_outbox (demo_db (claim_row ''t1'' 10 demo_outbox_row)) demo_lease ?obs 12
      = (db', res)" by fastforce
  have "res = ObsApplied \<and> lease_lost demo_lease db'"
    using o by (auto simp: observe_outbox_def load_outbox_def complete_outbox_observation_def
        demo_lease_def lease_of_def claim_row_def demo_defs status_sets update_where_def
        holds_lease_def lease_lost_def)
  then have r: "res = ObsApplied" and lost: "lease_lost demo_lease db'" by simp_all
  have "outbox_step ?w (?w\<lparr>w_db := db'\<rparr>)"
    by (rule outbox_step.Observe [where l = demo_lease and obs = ?obs and now = 12 and res = res])
       (use o in \<open>simp_all add: demo_world_def\<close>)
  with demo_reachable have "reachable_world demo_jobs (?w\<lparr>w_db := db'\<rparr>)"
    unfolding reachable_world_def by (rule rtranclp.rtrancl_into_rtrancl)
  from lost_lease_changes_nothing [OF this, of demo_lease, OF _ _ rtranclp.rtrancl_refl] lost o r
  show ?thesis by (auto simp: demo_world_def)
qed

lemma committed_command_is_idempotent_witness:
  "\<exists>db' j. apply_command (\<lambda>_ cand. Inr cand) (\<lambda>_. Some demo_decision) False
       (w_db (initial_world demo_jobs)) demo_command demo_ids = Inr (db', Some j)
     \<and> apply_command (\<lambda>_ cand. Inr cand) (\<lambda>_. None) False db' demo_command demo_ids
         = Inr (db', Some j)"
proof -
  let ?db = "w_db (initial_world demo_jobs)"
  have a: "apply_command (\<lambda>_ cand. Inr cand) (\<lambda>_. Some demo_decision) False ?db demo_command demo_ids
      = Inr (demo_db demo_outbox_row, Some demo_job_row)"
    using demo_commit
    by (simp add: apply_command_def load_command_event_def initial_world_def demo_jobs_def
        demo_command_def CoordinatorDecision_check_def dict_get_def demo_decision_def
        commit_decision_def demo_job_row_def rbind_def split: sum.splits)
  have "apply_command (\<lambda>_ cand. Inr cand) (\<lambda>_. None) False (demo_db demo_outbox_row) demo_command demo_ids
      = Inr (demo_db demo_outbox_row, Some demo_job_row)"
    by (rule committed_command_is_idempotent [where newer = "[]", OF a, THEN conjunct1])
       (simp_all add: load_command_event_def initial_world_def demo_job_row_def demo_command_def
          demo_db_def)
  with a show ?thesis by blast
qed

end
