(* ===== verification/Outbox_Drain.thy ===== *)
theory Outbox_Drain imports Outbox_Machine begin

text \<open>
  \<open>cursor/outbox.py\<close>: claiming due effects, running their handlers outside any transaction and
  reporting what was observed. Between any two calls of the store other processes (and the thread
  that renews the lease) may run any transactions of their own: the drain is a function of a
  schedule that says what they do before each call, what the clock shows and which token
  \<open>uuid4\<close> generates. A handler is a program that may call \<open>mark_dispatched\<close> any number of times,
  sees how each call ended, and returns an observation or raises.
\<close>

section \<open>Handlers and schedules\<close>

text \<open>How a call of \<open>mark_dispatched\<close> ends: normally, or with one of its two exceptions.\<close>

datatype mark_result = Marked | MarkStale string | MarkLost string

datatype handler_run =
    HandlerReturns effect_observation
  | HandlerRaisesStale string
  | HandlerRaises string
  | HandlerMarks "mark_result \<Rightarrow> handler_run"

datatype handler_result =
    Observed effect_observation
  | DispatchStale string
  | Raised string

record 'j schedule =
  dx_others :: "nat \<Rightarrow> 'j world \<Rightarrow> 'j world"
  dx_clock :: "nat \<Rightarrow> time"
  dx_uuid :: "string set \<Rightarrow> string"

text \<open>The world and the number of store calls made so far.\<close>

type_synonym 'j drain_state = "'j world \<times> nat"

definition store_call ::
  "'j schedule \<Rightarrow> ('j database \<Rightarrow> time \<Rightarrow> 'j database \<times> 'a) \<Rightarrow> 'j drain_state \<Rightarrow>
   'j drain_state \<times> 'a" where
  "store_call E f s =
     (let w = dx_others E (snd s) (fst s); (db', x) = f (w_db w) (dx_clock E (snd s))
      in ((w\<lparr>w_db := db'\<rparr>, snd s + 1), x))"

text \<open>The call that claims: it generates the token and hands out the lease.\<close>

definition claim_call ::
  "'j schedule \<Rightarrow> string list \<Rightarrow> string list \<Rightarrow> 'j drain_state \<Rightarrow>
   'j drain_state \<times> outbox_lease option" where
  "claim_call E kinds seen s =
     (let w = dx_others E (snd s) (fst s); token = dx_uuid E (w_tokens w);
          (db', found) = claim_outbox (w_db w) kinds (dx_clock E (snd s)) token seen
      in ((w\<lparr>w_db := db', w_leases := w_leases w \<union> set_option found,
             w_tokens := insert token (w_tokens w)\<rparr>, snd s + 1), found))"

section \<open>The drain\<close>

definition bind_mark :: "'j schedule \<Rightarrow> outbox_lease \<Rightarrow> 'j drain_state \<Rightarrow> 'j drain_state \<times> mark_result" where
  "bind_mark E lease s =
     (let (s1, marked) = store_call E (\<lambda>db now. mark_outbox_dispatched db lease) s in
      if marked then (s1, Marked)
      else let (s2, stale) = store_call E (\<lambda>db now. (db, outbox_revision_stale db lease)) s1 in
        if stale
        then (s2, MarkStale (''outbox effect '' @ ol_effect_id lease
                             @ '' was superseded before dispatch''))
        else (s2, MarkLost (''outbox lease lost for effect '' @ ol_effect_id lease)))"

primrec run_handler ::
  "'j schedule \<Rightarrow> outbox_lease \<Rightarrow> handler_run \<Rightarrow> 'j drain_state \<Rightarrow> 'j drain_state \<times> handler_result" where
  "run_handler E lease (HandlerReturns obs) s = (s, Observed obs)"
| "run_handler E lease (HandlerRaisesStale m) s = (s, DispatchStale m)"
| "run_handler E lease (HandlerRaises m) s = (s, Raised m)"
| "run_handler E lease (HandlerMarks k) s =
     (case bind_mark E lease s of (s', r) \<Rightarrow> run_handler E lease (k r) s')"

definition observe_call ::
  "'j schedule \<Rightarrow> outbox_lease \<Rightarrow> effect_observation \<Rightarrow> 'j drain_state \<Rightarrow> 'j drain_state" where
  "observe_call E lease obs s = fst (store_call E (\<lambda>db now. observe_outbox db lease obs now) s)"

definition error_observation :: "observation_outcome \<Rightarrow> string \<Rightarrow> effect_observation" where
  "error_observation outcome m =
     \<lparr>eo_outcome = outcome, eo_retryable = False, eo_detail = [(''error'', JStr m)]\<rparr>"

text \<open>One turn of the loop after the claim: run the handler and settle the lease.\<close>

definition handle_effect ::
  "'j schedule \<Rightarrow> handler_run \<Rightarrow> outbox_lease \<Rightarrow> 'j drain_state \<Rightarrow> 'j drain_state" where
  "handle_effect E program lease s =
     (case run_handler E lease program s of
        (s1, Observed obs) \<Rightarrow> observe_call E lease obs s1
      | (s1, DispatchStale m) \<Rightarrow> observe_call E lease (error_observation FailedOutcome m) s1
      | (s1, Raised m) \<Rightarrow>
          (let (s2, dispatched) = store_call E (\<lambda>db now. (db, outbox_dispatched db lease)) s1 in
           if dispatched then observe_call E lease (error_observation OutcomeUnknown m) s2
           else let (s3, released) =
                  store_call E (\<lambda>db now. release_outbox_lease db lease (Some m) now) s2 in
             if released then s3
             else observe_call E lease (error_observation OutcomeUnknown m) s3))"

text \<open>
  The loop, with the leases it processed; the number of turns left is what bounds it. The result
  of \<open>drain_outbox\<close> is the number of processed leases.
\<close>

fun drain_loop ::
  "'j schedule \<Rightarrow> string list \<Rightarrow> (outbox_lease \<Rightarrow> handler_run) \<Rightarrow> nat \<Rightarrow> string list \<Rightarrow>
   'j drain_state \<Rightarrow> 'j drain_state \<times> outbox_lease list" where
  "drain_loop E kinds handlers 0 seen s = (s, [])"
| "drain_loop E kinds handlers (Suc n) seen s =
     (case claim_call E kinds seen s of
        (s1, None) \<Rightarrow> (s1, [])
      | (s1, Some lease) \<Rightarrow>
          (case drain_loop E kinds handlers n (seen @ [ol_effect_id lease])
                  (handle_effect E (handlers lease) lease s1) of
             (s2, leases) \<Rightarrow> (s2, lease # leases)))"

definition drain_outbox ::
  "'j schedule \<Rightarrow> string list \<Rightarrow> (outbox_lease \<Rightarrow> handler_run) \<Rightarrow> int \<Rightarrow> 'j drain_state \<Rightarrow>
   'j drain_state \<times> outbox_lease list" where
  "drain_outbox E kinds handlers limit s =
     (if kinds = [] then (s, []) else drain_loop E kinds handlers (nat limit) [] s)"

definition recover_outbox ::
  "'j schedule \<Rightarrow> string list \<Rightarrow> (outbox_lease \<Rightarrow> handler_run) \<Rightarrow> 'j drain_state \<Rightarrow>
   'j drain_state \<times> outbox_lease list" where
  "recover_outbox E kinds handlers s =
     drain_outbox E kinds handlers 8
       (fst (store_call E (\<lambda>db now. reap_expired_outbox_leases db now OUTBOX_LEASE_SECONDS) s))"

end
