(* ===== verification/Drain_Machine.thy ===== *)
theory Drain_Machine imports Outbox_Drain begin

text \<open>
  The drain against the outbox machine: whatever other processes do between its calls, a drain is
  a run of store transactions that follows the drain's protocol, so everything proved about the
  outbox holds across it; it settles every lease it takes; and a handler that raises is retried
  exactly when it had not crossed the submit fence.
\<close>

section \<open>What the schedule may do\<close>

text \<open>
  Other processes only run transactions of the store, and \<open>uuid4\<close> returns a token that was never
  generated before.
\<close>

definition env_ok :: "'j schedule \<Rightarrow> bool" where
  "env_ok E \<longleftrightarrow> (\<forall>n w. outbox_step\<^sup>*\<^sup>* w (dx_others E n w))
     \<and> (\<forall>S. finite S \<longrightarrow> dx_uuid E S \<notin> S \<and> dx_uuid E S \<noteq> [])"

text \<open>The invariant the drain needs: a row that carries a lease has the key the lease names.\<close>

definition lease_keys :: "'j world \<Rightarrow> bool" where
  "lease_keys w \<longleftrightarrow> (\<forall>l \<in> w_leases w. \<forall>r \<in> set (db_outbox (w_db w)).
     ob_lease_token r = Some (ol_lease_token l) \<longrightarrow> ob_idempotency_key r = ol_idempotency_key l)"

definition world_good :: "'j world \<Rightarrow> bool" where
  "world_good w \<longleftrightarrow> world_ok w \<and> finite (w_tokens w) \<and> lease_keys w"

lemma lease_keys_rows:
  assumes "world_ok w" and "lease_keys w" and "F \<inter> w_tokens w = {}"
    and "rows_step F known (db_outbox (w_db w)) rows"
    and "l \<in> w_leases w" and "r \<in> set rows" and "ob_lease_token r = Some (ol_lease_token l)"
  shows "ob_idempotency_key r = ol_idempotency_key l"
proof -
  have notF: "ol_lease_token l \<notin> F"
    using assms(1,3,5) by (auto simp: world_ok_def Let_def)
  from assms(4,6,7) obtain x where x: "x \<in> set (db_outbox (w_db w))" "row_step F x r"
    unfolding rows_step_def by force
  have "ob_lease_token x = Some (ol_lease_token l)" by (rule row_step_token [OF x(2) assms(7) notF])
  with assms(2,5) x(1) have "ob_idempotency_key x = ol_idempotency_key l"
    unfolding lease_keys_def by blast
  with row_step_same_effect [OF x(2)] show ?thesis by (simp add: same_effect_def)
qed

lemma step_leases:
  "outbox_step w w' \<Longrightarrow> w_leases w' = w_leases w
     \<or> (\<exists>kinds now token exclude db' l.
          claim_outbox (w_db w) kinds now token exclude = (db', Some l) \<and> token \<notin> w_tokens w
          \<and> w_db w' = db' \<and> w_leases w' = insert l (w_leases w))"
proof (induction rule: outbox_step.induct)
  case (Claim w kinds now token exclude db' found)
  show ?case
  proof (cases found)
    case (Some l)
    then show ?thesis
      using Claim.hyps(1,2) by (intro disjI2 exI [of _ l] exI [of _ kinds] exI [of _ now]
        exI [of _ token] exI [of _ exclude] exI [of _ db']) auto
  qed simp
qed simp_all

lemma step_finite: "outbox_step w w' \<Longrightarrow> finite (w_tokens w) \<Longrightarrow> finite (w_tokens w')"
  by (induction rule: outbox_step.induct) simp_all

lemma claimed_key:
  assumes "world_ok w" and "claim_outbox (w_db w) kinds now token exclude = (db', Some l)"
    and "token \<notin> w_tokens w" and "r \<in> set (db_outbox db')"
    and "ob_lease_token r = Some (ol_lease_token l)"
  shows "ob_idempotency_key r = ol_idempotency_key l"
proof -
  have d: "distinct_effects (w_db w)" using assms(1) by (simp add: world_ok_def Let_def)
  let ?a = "abandon_stale_outbox_effects (w_db w) kinds now"
  from claim_cases [OF assms(2) d refl] obtain x where
    rows: "db_outbox db' = map (\<lambda>y. if y = x then claim_row token now x else y) (db_outbox ?a)"
    and l: "l = lease_of token (claim_row token now x)" by auto
  have tok: "ob_lease_token r = Some token" using assms(5) l by (simp add: lease_of_def)
  have "r \<notin> set (db_outbox ?a)"
  proof
    assume "r \<in> set (db_outbox ?a)"
    with abandon_rows [of "{}" "w_effects w" "w_db w" kinds now] tok obtain y where
      y: "y \<in> set (db_outbox (w_db w))" "row_step {} y r" unfolding rows_step_def by force
    from row_step_token [OF y(2) tok] have "ob_lease_token y = Some token" by simp
    with assms(1,3) y(1) show False by (auto simp: world_ok_def Let_def row_ok_def)
  qed
  with assms(4) rows have "r = claim_row token now x" by (auto split: if_splits)
  with l show ?thesis by (simp add: lease_of_def)
qed

lemma world_good_step:
  assumes "outbox_step w w'" and "world_good w"
  shows "world_good w'"
proof -
  have ok: "world_ok w" and keys: "lease_keys w" and fin: "finite (w_tokens w)"
    using assms(2) by (simp_all add: world_good_def)
  obtain F where F: "F \<inter> w_tokens w = {}"
    "rows_step F (w_effects w) (db_outbox (w_db w)) (db_outbox (w_db w'))"
    using outbox_step_rows [OF assms(1) ok] by blast
  note old = lease_keys_rows [OF ok keys F]
  from step_leases [OF assms(1)] have "lease_keys w'"
  proof (elim disjE exE conjE)
    assume "w_leases w' = w_leases w"
    with old show ?thesis unfolding lease_keys_def by simp
  next
    fix kinds now token exclude db' l
    assume c: "claim_outbox (w_db w) kinds now token exclude = (db', Some l)" "token \<notin> w_tokens w"
      "w_db w' = db'" "w_leases w' = insert l (w_leases w)"
    show ?thesis
      unfolding lease_keys_def c(4)
      using old claimed_key [OF ok c(1,2)] c(3) by auto
  qed
  with world_ok_step [OF assms(1) ok] step_finite [OF assms(1) fin] show ?thesis
    by (simp add: world_good_def)
qed

lemma reachable_world_good: "reachable_world jobs w \<Longrightarrow> world_good w"
  unfolding reachable_world_def
proof (induction rule: rtranclp_induct)
  case base
  show ?case
    by (simp add: initial_world_def world_good_def world_ok_def exclusive_keys_def lease_keys_def)
qed (rule world_good_step)

text \<open>What a run keeps: the invariant, the leases handed out, and that a lease was lost.\<close>

lemma run_keeps:
  assumes "outbox_step\<^sup>*\<^sup>* w v" and "world_good w"
  shows "world_good v \<and> w_leases w \<subseteq> w_leases v
    \<and> (\<forall>l \<in> w_leases w. lease_lost l (w_db w) \<longrightarrow> lease_lost l (w_db v))"
  using assms
proof (induction rule: rtranclp_induct)
  case (step u v)
  then have ok: "world_ok u" and IH: "world_good u" "w_leases w \<subseteq> w_leases u"
    "\<And>l. l \<in> w_leases w \<Longrightarrow> lease_lost l (w_db w) \<Longrightarrow> lease_lost l (w_db u)"
    by (auto simp: world_good_def)
  have "w_leases u \<subseteq> w_leases v" using outbox_step_rows [OF step.hyps(2) ok] by blast
  with world_good_step [OF step.hyps(2) IH(1)] lease_lost_step [OF step.hyps(2) ok] IH
  show ?case by blast
qed simp

section \<open>Settling a lease\<close>

lemma lost_unless_held:
  assumes "world_good w" and "l \<in> w_leases w" and "\<not> lease_lost l (w_db w)"
  obtains r where "load_outbox (w_db w) (ol_effect_id l) = Some r"
    and "holds_lease (ol_effect_id l) (ol_lease_token l) r"
    and "ob_idempotency_key r = ol_idempotency_key l" and "ol_lease_token l \<noteq> []"
proof -
  have ok: "world_ok w" and keys: "lease_keys w" using assms(1) by (simp_all add: world_good_def)
  from assms(3) obtain r where r: "r \<in> set (db_outbox (w_db w))"
    "ob_lease_token r = Some (ol_lease_token l)" unfolding lease_lost_def by blast
  have row: "row_ok (w_leases w) (w_tokens w) r" and ne: "ol_lease_token l \<noteq> []"
    using ok r(1) assms(2) by (simp_all add: world_ok_def Let_def)
  have h: "holds_lease (ol_effect_id l) (ol_lease_token l) r"
    using row r(2) assms(2) unfolding row_ok_def holds_lease_def by simp
  show thesis
    by (rule that [OF held_row_facts(1) [OF ok assms(2) r(1) h] h _ ne])
       (use keys assms(2) r in \<open>auto simp: lease_keys_def\<close>)
qed

lemma complete_applies:
  assumes "load_outbox db e = Some r" and "holds_lease e token r" and "ob_idempotency_key r = key"
    and "token \<noteq> []"
  shows "complete_outbox_observation db e key token c
    = (update_where (holds_lease e token) (complete_row c) db, ObsApplied)"
  using assms
  by (auto simp: complete_outbox_observation_def complete_row_def [abs_def] holds_lease_def
      terminal_statuses_def or_str_def truthy_def)

lemma completed_is_lost:
  assumes "world_good w" and "l \<in> w_leases w"
    and "db' = update_where (holds_lease (ol_effect_id l) (ol_lease_token l)) (complete_row c) (w_db w)"
  shows "lease_lost l db'"
proof -
  have "holds_lease (ol_effect_id l) (ol_lease_token l) r"
    if "r \<in> set (db_outbox (w_db w))" "ob_lease_token r = Some (ol_lease_token l)" for r
  proof -
    have "row_ok (w_leases w) (w_tokens w) r"
      using assms(1) that(1) by (simp add: world_good_def world_ok_def Let_def)
    with that assms(2) show ?thesis unfolding row_ok_def holds_lease_def by simp
  qed
  then show ?thesis by (auto simp: lease_lost_def assms(3) complete_row_def)
qed

lemma observe_loses:
  assumes "world_good w" and "l \<in> w_leases w"
  shows "lease_lost l (fst (observe_outbox (w_db w) l obs now))"
proof (cases "lease_lost l (w_db w)")
  case True
  have "ol_lease_token l \<noteq> []" using assms by (simp add: world_good_def world_ok_def Let_def)
  from lost_lease_is_powerless(3) [OF True this, of obs now] True show ?thesis by auto
next
  case False
  from lost_unless_held [OF assms False] obtain r where
    r: "load_outbox (w_db w) (ol_effect_id l) = Some r"
      "holds_lease (ol_effect_id l) (ol_lease_token l) r"
      "ob_idempotency_key r = ol_idempotency_key l" "ol_lease_token l \<noteq> []" .
  show ?thesis
    by (rule completed_is_lost [OF assms]) (simp add: observe_outbox_def r(1) complete_applies [OF r])
qed

lemma release_loses:
  assumes "world_good w" and "l \<in> w_leases w"
    and "release_outbox_lease (w_db w) l err now = (db', True)"
  shows "lease_lost l db'"
proof -
  from assms(3) obtain c where
    "complete_outbox_observation (w_db w) (ol_effect_id l) (ol_idempotency_key l)
       (ol_lease_token l) c = (db', ObsApplied)"
    by (auto simp: release_outbox_lease_def Let_def split: option.splits if_splits prod.splits)
  from complete_cases [OF this] show ?thesis by (auto intro: completed_is_lost [OF assms(1,2)])
qed

section \<open>Every call is a run of transactions\<close>

lemma store_call_run:
  assumes "env_ok E" and "store_call E f s = (s', x)"
    and "\<And>w now. outbox_step\<^sup>*\<^sup>* (fst s) w \<Longrightarrow> outbox_step\<^sup>*\<^sup>* w (w\<lparr>w_db := fst (f (w_db w) now)\<rparr>)"
  shows "outbox_step\<^sup>*\<^sup>* (fst s) (fst s')"
proof -
  let ?w = "dx_others E (snd s) (fst s)"
  have o: "outbox_step\<^sup>*\<^sup>* (fst s) ?w" using assms(1) by (simp add: env_ok_def)
  have "fst s' = ?w\<lparr>w_db := fst (f (w_db ?w) (dx_clock E (snd s)))\<rparr>"
    using assms(2) by (auto simp: store_call_def Let_def split: prod.splits)
  with rtranclp_trans [OF o assms(3) [OF o]] show ?thesis by simp
qed

lemma read_call_run:
  assumes "env_ok E" and "store_call E (\<lambda>db now. (db, g db)) s = (s', x)"
  shows "outbox_step\<^sup>*\<^sup>* (fst s) (fst s')"
  by (rule store_call_run [OF assms]) simp

lemma lease_kept:
  "world_good w \<Longrightarrow> l \<in> w_leases w \<Longrightarrow> outbox_step\<^sup>*\<^sup>* w v \<Longrightarrow> l \<in> w_leases v"
  using run_keeps by blast

lemma bind_mark_run:
  assumes "env_ok E" and "world_good (fst s)" and "l \<in> w_leases (fst s)"
    and "bind_mark E l s = (s', r)"
  shows "outbox_step\<^sup>*\<^sup>* (fst s) (fst s')"
proof -
  obtain s1 marked where m: "store_call E (\<lambda>db now. mark_outbox_dispatched db l) s = (s1, marked)"
    by fastforce
  have r1: "outbox_step\<^sup>*\<^sup>* (fst s) (fst s1)"
  proof (rule store_call_run [OF assms(1) m])
    fix w now assume "outbox_step\<^sup>*\<^sup>* (fst s) w"
    from outbox_step.Mark [OF lease_kept [OF assms(2,3) this] surjective_pairing]
    show "outbox_step\<^sup>*\<^sup>* w (w\<lparr>w_db := fst (mark_outbox_dispatched (w_db w) l)\<rparr>)"
      by (rule r_into_rtranclp)
  qed
  obtain s2 stale where q: "store_call E (\<lambda>db now. (db, outbox_revision_stale db l)) s1 = (s2, stale)"
    by fastforce
  have "s' = s1 \<or> s' = s2"
    using assms(4) m q by (auto simp: bind_mark_def split: if_splits)
  with r1 rtranclp_trans [OF r1 read_call_run [OF assms(1) q]] show ?thesis by auto
qed

lemma run_handler_run:
  assumes "env_ok E" and "world_good (fst s)" and "l \<in> w_leases (fst s)"
    and "run_handler E l program s = (s', r)"
  shows "outbox_step\<^sup>*\<^sup>* (fst s) (fst s')"
  using assms(2-4)
proof (induction program arbitrary: s)
  case (HandlerMarks k)
  obtain s1 m where b: "bind_mark E l s = (s1, m)" by fastforce
  have r1: "outbox_step\<^sup>*\<^sup>* (fst s) (fst s1)"
    by (rule bind_mark_run [OF assms(1) HandlerMarks.prems(1,2) b])
  have "run_handler E l (k m) s1 = (s', r)" using HandlerMarks.prems(3) b by simp
  from HandlerMarks.IH [OF rangeI _ _ this] run_keeps [OF r1 HandlerMarks.prems(1)]
    HandlerMarks.prems(2)
  have "outbox_step\<^sup>*\<^sup>* (fst s1) (fst s')" by blast
  with r1 show ?case by (rule rtranclp_trans)
qed simp_all

lemma observe_call_run:
  assumes "env_ok E" and "world_good (fst s)" and "l \<in> w_leases (fst s)"
  shows "outbox_step\<^sup>*\<^sup>* (fst s) (fst (observe_call E l obs s))
    \<and> lease_lost l (w_db (fst (observe_call E l obs s)))"
proof -
  let ?f = "\<lambda>db now. observe_outbox db l obs now"
  let ?w = "dx_others E (snd s) (fst s)"
  obtain s' x where c: "store_call E ?f s = (s', x)" by fastforce
  have "outbox_step\<^sup>*\<^sup>* (fst s) (fst s')"
  proof (rule store_call_run [OF assms(1) c])
    fix w now assume "outbox_step\<^sup>*\<^sup>* (fst s) w"
    from outbox_step.Observe [OF lease_kept [OF assms(2,3) this] surjective_pairing]
    show "outbox_step\<^sup>*\<^sup>* w (w\<lparr>w_db := fst (observe_outbox (w_db w) l obs now)\<rparr>)"
      by (rule r_into_rtranclp)
  qed
  moreover have "lease_lost l (w_db (fst s'))"
  proof -
    have "outbox_step\<^sup>*\<^sup>* (fst s) ?w" using assms(1) by (simp add: env_ok_def)
    from run_keeps [OF this assms(2)] assms(3) have "world_good ?w" "l \<in> w_leases ?w" by auto
    from observe_loses [OF this, of obs "dx_clock E (snd s)"] c show ?thesis
      by (auto simp: store_call_def Let_def split: prod.splits)
  qed
  ultimately show ?thesis by (simp add: observe_call_def c)
qed

lemma release_call_run:
  assumes "env_ok E" and "world_good (fst s)" and "l \<in> w_leases (fst s)"
    and "store_call E (\<lambda>db now. release_outbox_lease db l err now) s = (s', ok)"
  shows "outbox_step\<^sup>*\<^sup>* (fst s) (fst s')" and "ok \<Longrightarrow> lease_lost l (w_db (fst s'))"
proof -
  let ?w = "dx_others E (snd s) (fst s)"
  show "outbox_step\<^sup>*\<^sup>* (fst s) (fst s')"
  proof (rule store_call_run [OF assms(1,4)])
    fix w now assume "outbox_step\<^sup>*\<^sup>* (fst s) w"
    from outbox_step.Release [OF lease_kept [OF assms(2,3) this] surjective_pairing]
    show "outbox_step\<^sup>*\<^sup>* w (w\<lparr>w_db := fst (release_outbox_lease (w_db w) l err now)\<rparr>)"
      by (rule r_into_rtranclp)
  qed
  have "outbox_step\<^sup>*\<^sup>* (fst s) ?w" using assms(1) by (simp add: env_ok_def)
  from run_keeps [OF this assms(2)] assms(3) have w: "world_good ?w" "l \<in> w_leases ?w" by auto
  show "lease_lost l (w_db (fst s'))" if ok
    using assms(4) that
    by (auto simp: store_call_def Let_def split: prod.splits intro: release_loses [OF w])
qed

lemma handle_effect_run:
  assumes "env_ok E" and "world_good (fst s)" and "l \<in> w_leases (fst s)"
    and "s' = handle_effect E program l s"
  shows "outbox_step\<^sup>*\<^sup>* (fst s) (fst s') \<and> lease_lost l (w_db (fst s'))"
proof -
  obtain s1 r where h: "run_handler E l program s = (s1, r)" by fastforce
  have r1: "outbox_step\<^sup>*\<^sup>* (fst s) (fst s1)" by (rule run_handler_run [OF assms(1-3) h])
  have settle: "outbox_step\<^sup>*\<^sup>* (fst s) (fst (observe_call E l obs t))
      \<and> lease_lost l (w_db (fst (observe_call E l obs t)))"
    if "outbox_step\<^sup>*\<^sup>* (fst s) (fst t)" for t obs
    using observe_call_run [OF assms(1), of t l obs] run_keeps [OF that assms(2)] assms(3) that
    by (meson rtranclp_trans subsetD)
  show ?thesis
  proof (cases r)
    case (Raised m)
    obtain s2 d where d: "store_call E (\<lambda>db now. (db, outbox_dispatched db l)) s1 = (s2, d)" by fastforce
    obtain s3 ok where rel: "store_call E (\<lambda>db now. release_outbox_lease db l (Some m) now) s2
        = (s3, ok)" by fastforce
    have r2: "outbox_step\<^sup>*\<^sup>* (fst s) (fst s2)"
      by (rule rtranclp_trans [OF r1 read_call_run [OF assms(1) d]])
    have w2: "world_good (fst s2)" "l \<in> w_leases (fst s2)"
      using run_keeps [OF r2 assms(2)] assms(3) by auto
    note rc = release_call_run [OF assms(1) w2 rel]
    have r3: "outbox_step\<^sup>*\<^sup>* (fst s) (fst s3)" by (rule rtranclp_trans [OF r2 rc(1)])
    have s': "s' = (if d then observe_call E l (error_observation OutcomeUnknown m) s2
        else if ok then s3 else observe_call E l (error_observation OutcomeUnknown m) s3)"
      using assms(4) h Raised d rel by (simp add: handle_effect_def)
    show ?thesis
      unfolding s' using settle [OF r2] settle [OF r3] rc(2) r3 by simp
  qed (use assms(4) h settle [OF r1] in \<open>simp_all add: handle_effect_def\<close>)
qed

lemma claim_call_run:
  assumes "env_ok E" and "world_good (fst s)" and "claim_call E kinds seen s = (s', found)"
  shows "outbox_step\<^sup>*\<^sup>* (fst s) (fst s')"
    and "found = Some l \<Longrightarrow> l \<in> w_leases (fst s') \<and> ol_kind l \<in> set kinds \<and> ol_effect_id l \<notin> set seen"
proof -
  let ?w = "dx_others E (snd s) (fst s)"
  let ?t = "dx_uuid E (w_tokens ?w)"
  have o: "outbox_step\<^sup>*\<^sup>* (fst s) ?w" using assms(1) by (simp add: env_ok_def)
  from run_keeps [OF o assms(2)] have good: "world_good ?w" by blast
  then have fresh: "?t \<notin> w_tokens ?w" "?t \<noteq> []"
    using assms(1) by (simp_all add: env_ok_def world_good_def)
  obtain db' where c: "claim_outbox (w_db ?w) kinds (dx_clock E (snd s)) ?t seen = (db', found)"
    and s': "fst s' = ?w\<lparr>w_db := db', w_leases := w_leases ?w \<union> set_option found,
             w_tokens := insert ?t (w_tokens ?w)\<rparr>"
    using assms(3) by (auto simp: claim_call_def Let_def split: prod.splits)
  from outbox_step.Claim [OF c fresh] o show "outbox_step\<^sup>*\<^sup>* (fst s) (fst s')"
    unfolding s' by (rule rtranclp.rtrancl_into_rtrancl [rotated])
  have d: "distinct_effects (w_db ?w)" using good by (simp add: world_good_def world_ok_def Let_def)
  show "l \<in> w_leases (fst s') \<and> ol_kind l \<in> set kinds \<and> ol_effect_id l \<notin> set seen" if "found = Some l"
    using claim_cases [OF c d refl] that
    by (auto simp: s' due_effect_def lease_of_def claim_row_def)
qed

section \<open>The drain\<close>

lemma drain_loop_run:
  assumes "env_ok E"
  shows "world_good (fst s) \<Longrightarrow> drain_loop E kinds handlers n seen s = (s', ls) \<Longrightarrow>
    outbox_step\<^sup>*\<^sup>* (fst s) (fst s')
    \<and> length ls \<le> n \<and> distinct (map ol_effect_id ls) \<and> ol_effect_id ` set ls \<inter> set seen = {}
    \<and> (\<forall>l \<in> set ls. ol_kind l \<in> set kinds \<and> l \<in> w_leases (fst s') \<and> lease_lost l (w_db (fst s')))"
proof (induction n arbitrary: seen s s' ls)
  case (Suc n)
  obtain s1 found where c: "claim_call E kinds seen s = (s1, found)" by fastforce
  note claim = claim_call_run [OF assms Suc.prems(1) c]
  show ?case
  proof (cases found)
    case None
    with c Suc.prems(2) claim(1) show ?thesis by simp
  next
    case (Some l)
    let ?s2 = "handle_effect E (handlers l) l s1"
    have l: "l \<in> w_leases (fst s1)" "ol_kind l \<in> set kinds" "ol_effect_id l \<notin> set seen"
      using claim(2) [OF Some] by simp_all
    have good: "world_good (fst s1)" using run_keeps [OF claim(1) Suc.prems(1)] by blast
    from handle_effect_run [OF assms good l(1) refl]
    have h: "outbox_step\<^sup>*\<^sup>* (fst s1) (fst ?s2)" "lease_lost l (w_db (fst ?s2))" by simp_all
    have good2: "world_good (fst ?s2)" "l \<in> w_leases (fst ?s2)"
      using run_keeps [OF h(1) good] l(1) by auto
    obtain ks where loop: "drain_loop E kinds handlers n (seen @ [ol_effect_id l]) ?s2 = (s', ks)"
      and ls: "ls = l # ks"
      using Suc.prems(2) c Some by (auto split: prod.splits)
    note IH = Suc.IH [OF good2(1) loop]
    from IH have tail: "outbox_step\<^sup>*\<^sup>* (fst ?s2) (fst s')" by blast
    from run_keeps [OF tail good2(1)] good2(2) h(2)
    have "l \<in> w_leases (fst s') \<and> lease_lost l (w_db (fst s'))" by blast
    moreover have "outbox_step\<^sup>*\<^sup>* (fst s) (fst s')"
      by (rule rtranclp_trans [OF claim(1) rtranclp_trans [OF h(1) tail]])
    ultimately show ?thesis using IH l unfolding ls by auto
  qed
qed simp

lemma drain_outbox_run:
  assumes "env_ok E" and "world_good (fst s)" and "drain_outbox E kinds handlers limit s = (s', ls)"
  shows "outbox_step\<^sup>*\<^sup>* (fst s) (fst s')
    \<and> length ls \<le> nat limit \<and> distinct (map ol_effect_id ls)
    \<and> (\<forall>l \<in> set ls. ol_kind l \<in> set kinds \<and> l \<in> w_leases (fst s') \<and> lease_lost l (w_db (fst s')))"
proof (cases "kinds = []")
  case True
  with assms(3) show ?thesis by (simp add: drain_outbox_def)
next
  case False
  with assms(3) have "drain_loop E kinds handlers (nat limit) [] s = (s', ls)"
    by (simp add: drain_outbox_def)
  from drain_loop_run [OF assms(1,2) this] show ?thesis by blast
qed

section \<open>The protocol of a drain\<close>

text \<open>The calls of the store a drain makes, with their results, and what it is to have made them.\<close>

datatype drain_call =
    CallReap
  | CallClaim "string list" "outbox_lease option"
  | CallMark outbox_lease bool
  | CallStale outbox_lease bool
  | CallDispatched outbox_lease bool
  | CallRelease outbox_lease string bool
  | CallObserve outbox_lease effect_observation

fun made ::
  "'j schedule \<Rightarrow> string list \<Rightarrow> drain_call \<Rightarrow> 'j drain_state \<Rightarrow> 'j drain_state \<Rightarrow> bool" where
  "made E kinds CallReap s t \<longleftrightarrow>
     t = fst (store_call E (\<lambda>db now. reap_expired_outbox_leases db now OUTBOX_LEASE_SECONDS) s)"
| "made E kinds (CallClaim seen found) s t \<longleftrightarrow> claim_call E kinds seen s = (t, found)"
| "made E kinds (CallMark l b) s t \<longleftrightarrow> store_call E (\<lambda>db now. mark_outbox_dispatched db l) s = (t, b)"
| "made E kinds (CallStale l b) s t \<longleftrightarrow> store_call E (\<lambda>db now. (db, outbox_revision_stale db l)) s = (t, b)"
| "made E kinds (CallDispatched l b) s t \<longleftrightarrow> store_call E (\<lambda>db now. (db, outbox_dispatched db l)) s = (t, b)"
| "made E kinds (CallRelease l m b) s t \<longleftrightarrow>
     store_call E (\<lambda>db now. release_outbox_lease db l (Some m) now) s = (t, b)"
| "made E kinds (CallObserve l obs) s t \<longleftrightarrow> t = observe_call E l obs s"

inductive calls_made :: "'j schedule \<Rightarrow> string list \<Rightarrow> 'j drain_state \<Rightarrow> drain_call list \<Rightarrow> 'j drain_state \<Rightarrow> bool"
  for E kinds where
  None_made: "calls_made E kinds s [] s"
| More_made: "made E kinds c s t \<Longrightarrow> calls_made E kinds t cs u \<Longrightarrow> calls_made E kinds s (c # cs) u"

inductive_simps calls_made_Nil [simp]: "calls_made E kinds s [] u"
inductive_simps calls_made_Cons: "calls_made E kinds s (c # cs) u"

text \<open>
  The calls of one turn: each mark of the handler is followed by a check of the revision when it
  fails, and the turn ends by the one settlement its outcome asks for. Only an effect found not
  dispatched is released, and only a release that failed is followed by an observation.
\<close>

inductive handling :: "outbox_lease \<Rightarrow> handler_run \<Rightarrow> drain_call list \<Rightarrow> bool" for l where
  Returned: "handling l (HandlerReturns obs) [CallObserve l obs]"
| Superseded: "handling l (HandlerRaisesStale m) [CallObserve l (error_observation FailedOutcome m)]"
| Crossed: "handling l (HandlerRaises m)
     [CallDispatched l True, CallObserve l (error_observation OutcomeUnknown m)]"
| Retried: "handling l (HandlerRaises m) [CallDispatched l False, CallRelease l m True]"
| Unreleased: "handling l (HandlerRaises m)
     [CallDispatched l False, CallRelease l m False, CallObserve l (error_observation OutcomeUnknown m)]"
| Marking: "handling l (k Marked) cs \<Longrightarrow> handling l (HandlerMarks k) (CallMark l True # cs)"
| Stale: "handling l (k (MarkStale (''outbox effect '' @ ol_effect_id l
       @ '' was superseded before dispatch''))) cs \<Longrightarrow>
     handling l (HandlerMarks k) (CallMark l False # CallStale l True # cs)"
| Lost: "handling l (k (MarkLost (''outbox lease lost for effect '' @ ol_effect_id l))) cs \<Longrightarrow>
     handling l (HandlerMarks k) (CallMark l False # CallStale l False # cs)"

text \<open>The turns of a drain: at most \<open>n\<close>, fewer only when a claim found nothing.\<close>

inductive draining ::
  "(outbox_lease \<Rightarrow> handler_run) \<Rightarrow> nat \<Rightarrow> string list \<Rightarrow> outbox_lease list \<Rightarrow> drain_call list \<Rightarrow> bool"
  for handlers where
  Full: "draining handlers 0 seen [] []"
| Idle: "draining handlers (Suc n) seen [] [CallClaim seen None]"
| Turn: "handling l (handlers l) cs \<Longrightarrow> draining handlers n (seen @ [ol_effect_id l]) ls rest \<Longrightarrow>
     draining handlers (Suc n) seen (l # ls) (CallClaim seen (Some l) # cs @ rest)"

lemma calls_made_append:
  "calls_made E kinds s cs t \<Longrightarrow> calls_made E kinds t ds u \<Longrightarrow> calls_made E kinds s (cs @ ds) u"
  by (induction rule: calls_made.induct) (auto intro: More_made)

lemma calls_made_split:
  "calls_made E kinds s (cs @ ds) u \<longleftrightarrow> (\<exists>t. calls_made E kinds s cs t \<and> calls_made E kinds t ds u)"
proof (induction cs arbitrary: s)
  case (Cons c cs)
  show ?case unfolding append_Cons calls_made_Cons Cons.IH by blast
qed simp

lemma handle_effect_marks:
  "handle_effect E (HandlerMarks k) l s
   = (case bind_mark E l s of (t, r) \<Rightarrow> handle_effect E (k r) l t)"
  by (simp add: handle_effect_def split: prod.splits)

text \<open>The drain follows its protocol.\<close>

lemma handle_effect_protocol:
  "\<exists>cs. handling l program cs \<and> calls_made E kinds s cs (handle_effect E program l s)"
proof (induction program arbitrary: s)
  case (HandlerReturns obs)
  show ?case
    by (intro exI [of _ "[CallObserve l obs]"] conjI Returned More_made)
       (simp_all add: handle_effect_def)
next
  case (HandlerRaisesStale m)
  show ?case
    by (intro exI [of _ "[CallObserve l (error_observation FailedOutcome m)]"] conjI Superseded More_made)
       (simp_all add: handle_effect_def)
next
  case (HandlerRaises m)
  obtain s2 d where d: "store_call E (\<lambda>db now. (db, outbox_dispatched db l)) s = (s2, d)" by fastforce
  obtain s3 ok where r: "store_call E (\<lambda>db now. release_outbox_lease db l (Some m) now) s2 = (s3, ok)"
    by fastforce
  let ?obs = "CallObserve l (error_observation OutcomeUnknown m)"
  consider "d" | "\<not> d" "ok" | "\<not> d" "\<not> ok" by blast
  then show ?case
  proof cases
    case 1
    with d show ?thesis
      by (intro exI [of _ "[CallDispatched l True, ?obs]"] conjI Crossed More_made [where t = s2] More_made)
         (simp_all add: handle_effect_def)
  next
    case 2
    with d r show ?thesis
      by (intro exI [of _ "[CallDispatched l False, CallRelease l m True]"] conjI Retried
            More_made [where t = s2] More_made [where t = s3])
         (simp_all add: handle_effect_def)
  next
    case 3
    with d r show ?thesis
      by (intro exI [of _ "[CallDispatched l False, CallRelease l m False, ?obs]"] conjI Unreleased
            More_made [where t = s2] More_made [where t = s3] More_made)
         (simp_all add: handle_effect_def)
  qed
next
  case (HandlerMarks k)
  obtain s1 b where m: "store_call E (\<lambda>db now. mark_outbox_dispatched db l) s = (s1, b)" by fastforce
  show ?case
  proof (cases b)
    case True
    from HandlerMarks [OF rangeI, of Marked s1] obtain cs where
      "handling l (k Marked) cs" "calls_made E kinds s1 cs (handle_effect E (k Marked) l s1)" by blast
    with m True show ?thesis
      by (intro exI [of _ "CallMark l True # cs"] conjI Marking More_made [where t = s1])
         (simp_all add: handle_effect_marks bind_mark_def)
  next
    case False
    obtain s2 q where q: "store_call E (\<lambda>db now. (db, outbox_revision_stale db l)) s1 = (s2, q)" by fastforce
    define r where "r = (if q then MarkStale (''outbox effect '' @ ol_effect_id l @ '' was superseded before dispatch'')
      else MarkLost (''outbox lease lost for effect '' @ ol_effect_id l))"
    from HandlerMarks [OF rangeI, of r s2] obtain cs where
      cs: "handling l (k r) cs" "calls_made E kinds s2 cs (handle_effect E (k r) l s2)" by blast
    have "handling l (HandlerMarks k) (CallMark l False # CallStale l q # cs)"
      using cs(1) by (cases q) (simp_all add: r_def Stale Lost)
    moreover have "handle_effect E (HandlerMarks k) l s = handle_effect E (k r) l s2"
      using m False q by (simp add: handle_effect_marks bind_mark_def r_def)
    ultimately show ?thesis using m False q cs(2)
      by (intro exI [of _ "CallMark l False # CallStale l q # cs"] conjI
            More_made [where t = s1] More_made [where t = s2]) simp_all
  qed
qed

lemma drain_loop_protocol:
  "drain_loop E kinds handlers n seen s = (t, ls) \<Longrightarrow>
   \<exists>cs. draining handlers n seen ls cs \<and> calls_made E kinds s cs t"
proof (induction n arbitrary: seen s t ls)
  case 0
  then show ?case by (intro exI [of _ "[]"]) (simp add: Full)
next
  case (Suc n)
  obtain s1 found where c: "claim_call E kinds seen s = (s1, found)" by fastforce
  show ?case
  proof (cases found)
    case None
    with Suc.prems c show ?thesis
      by (intro exI [of _ "[CallClaim seen None]"] conjI More_made [where t = s1]) (simp_all add: Idle)
  next
    case (Some l)
    let ?s2 = "handle_effect E (handlers l) l s1"
    from Suc.prems c Some obtain ks where
      loop: "drain_loop E kinds handlers n (seen @ [ol_effect_id l]) ?s2 = (t, ks)" and ls: "ls = l # ks"
      by (auto split: prod.splits)
    from Suc.IH [OF loop] obtain rest where
      rest: "draining handlers n (seen @ [ol_effect_id l]) ks rest" "calls_made E kinds ?s2 rest t" by blast
    from handle_effect_protocol [of l "handlers l" E kinds s1] obtain cs where
      cs: "handling l (handlers l) cs" "calls_made E kinds s1 cs ?s2" by blast
    have "calls_made E kinds s (CallClaim seen (Some l) # cs @ rest) t"
      by (rule More_made [where t = s1]) (use c Some calls_made_append [OF cs(2) rest(2)] in simp_all)
    with Turn [OF cs(1) rest(1)] ls show ?thesis by blast
  qed
qed

text \<open>What has crossed the submit fence is not released.\<close>

fun call_lease :: "drain_call \<Rightarrow> outbox_lease option" where
  "call_lease (CallMark l b) = Some l"
| "call_lease (CallStale l b) = Some l"
| "call_lease (CallDispatched l b) = Some l"
| "call_lease (CallRelease l m b) = Some l"
| "call_lease (CallObserve l obs) = Some l"
| "call_lease _ = None"

lemma made_run:
  assumes "env_ok E" and "world_good (fst s)" and "l \<in> w_leases (fst s)"
    and "call_lease c = Some l" and "made E kinds c s t"
  shows "outbox_step\<^sup>*\<^sup>* (fst s) (fst t)"
proof (cases c)
  case (CallMark l' b)
  have "store_call E (\<lambda>db now. mark_outbox_dispatched db l) s = (t, b)"
    using assms(4,5) CallMark by simp
  then show ?thesis
  proof (rule store_call_run [OF assms(1)])
    fix w now assume "outbox_step\<^sup>*\<^sup>* (fst s) w"
    from outbox_step.Mark [OF lease_kept [OF assms(2,3) this] surjective_pairing]
    show "outbox_step\<^sup>*\<^sup>* w (w\<lparr>w_db := fst (mark_outbox_dispatched (w_db w) l)\<rparr>)"
      by (rule r_into_rtranclp)
  qed
next
  case (CallRelease l' m b)
  with assms(4,5) show ?thesis by (intro release_call_run(1) [OF assms(1-3), of "Some m" t b]) simp
next
  case (CallObserve l' obs)
  with assms(4,5) show ?thesis using observe_call_run [OF assms(1-3)] by simp
qed (use assms(4,5) read_call_run [OF assms(1)] in simp_all)

definition crossed :: "outbox_lease \<Rightarrow> 'j world \<Rightarrow> bool" where
  "crossed l w \<longleftrightarrow> ol_effect_id l \<in> w_effects w \<and> dispatched_for_good (ol_effect_id l) (w_db w)"

lemma crossed_run:
  assumes "outbox_step\<^sup>*\<^sup>* u v" and "world_ok u" and "crossed l u"
  shows "world_ok v \<and> crossed l v"
  using assms
proof (induction rule: rtranclp_induct)
  case (step v x)
  then have v: "world_ok v" "crossed l v" by blast+
  with outbox_step_rows [OF step.hyps(2)] have "ol_effect_id l \<in> w_effects x"
    by (auto simp: crossed_def)
  with v world_ok_step [OF step.hyps(2)] dispatched_step [OF step.hyps(2)] show ?case
    by (auto simp: crossed_def)
qed simp

lemma call_world:
  assumes "env_ok E" and "world_good (fst s)" and "l \<in> w_leases (fst s)"
  shows "world_good (dx_others E (snd s) (fst s))" "l \<in> w_leases (dx_others E (snd s) (fst s))"
  using run_keeps [of "fst s" "dx_others E (snd s) (fst s)"] assms by (auto simp: env_ok_def)

lemma mark_crosses:
  assumes "env_ok E" and "world_good (fst s)" and "l \<in> w_leases (fst s)"
    and "made E kinds (CallMark l True) s t"
  shows "crossed l (fst t)"
proof -
  let ?w = "dx_others E (snd s) (fst s)"
  have ok: "world_ok ?w" using call_world [OF assms(1-3)] by (simp add: world_good_def)
  then have d: "distinct_effects (w_db ?w)" by (simp add: world_ok_def Let_def)
  from assms(4) obtain db' where m: "mark_outbox_dispatched (w_db ?w) l = (db', True)"
    and t: "fst t = ?w\<lparr>w_db := db'\<rparr>"
    by (auto simp: store_call_def Let_def split: prod.splits)
  show ?thesis
    using mark_dispatches [OF m d] ok by (auto simp: crossed_def t world_ok_def Let_def)
qed

lemma crossed_not_released:
  assumes "env_ok E" and "world_good (fst s)" and "l \<in> w_leases (fst s)"
    and "crossed l (fst s)" and "made E kinds (CallRelease l m b) s t"
  shows "\<not> b"
proof
  assume b
  let ?w = "dx_others E (snd s) (fst s)"
  note w = call_world [OF assms(1-3)]
  have "outbox_step\<^sup>*\<^sup>* (fst s) ?w" using assms(1) by (simp add: env_ok_def)
  from crossed_run [OF this _ assms(4)] assms(2) have c: "crossed l ?w" by (simp add: world_good_def)
  from \<open>b\<close> assms(5) have r: "snd (release_outbox_lease (w_db ?w) l (Some m) (dx_clock E (snd s)))"
    by (auto simp: store_call_def Let_def split: prod.splits)
  have ne: "ol_lease_token l \<noteq> []" using w by (simp add: world_good_def world_ok_def Let_def)
  have "\<not> lease_lost l (w_db ?w)" using lost_lease_is_powerless(4) [OF _ ne] r by fastforce
  from lost_unless_held [OF w this] obtain x where
    x: "load_outbox (w_db ?w) (ol_effect_id l) = Some x" "holds_lease (ol_effect_id l) (ol_lease_token l) x" .
  with c load_outbox_Some [OF x(1)] have "fence_submitted (ob_outcome x)"
    by (auto simp: crossed_def dispatched_for_good_def holds_lease_def status_sets)
  with r x(1) show False by (simp add: release_outbox_lease_def split: if_splits)
qed

lemma handling_lease: "handling l program cs \<Longrightarrow> c \<in> set cs \<Longrightarrow> call_lease c = Some l"
  by (induction rule: handling.induct) auto

lemma calls_run:
  assumes "env_ok E" and "calls_made E kinds s cs t" and "world_good (fst s)" and "l \<in> w_leases (fst s)"
    and "\<forall>c \<in> set cs. call_lease c = Some l"
  shows "outbox_step\<^sup>*\<^sup>* (fst s) (fst t)"
  using assms(2-5)
proof (induction rule: calls_made.induct)
  case (More_made c s t cs u)
  from made_run [OF assms(1) More_made.prems(1,2) _ More_made.hyps(1)] More_made.prems(3)
  have r: "outbox_step\<^sup>*\<^sup>* (fst s) (fst t)" by simp
  with run_keeps [OF r More_made.prems(1)] More_made.IH More_made.prems show ?case
    by (auto intro: rtranclp_trans)
qed simp

lemma crossed_releases:
  assumes "env_ok E" and "calls_made E kinds s cs t" and "world_good (fst s)" and "l \<in> w_leases (fst s)"
    and "\<forall>c \<in> set cs. call_lease c = Some l" and "crossed l (fst s)"
  shows "CallRelease l m True \<notin> set cs"
  using assms(2-6)
proof (induction rule: calls_made.induct)
  case (More_made c s t cs u)
  from made_run [OF assms(1) More_made.prems(1,2) _ More_made.hyps(1)] More_made.prems(3)
  have r: "outbox_step\<^sup>*\<^sup>* (fst s) (fst t)" by simp
  have "crossed l (fst t)"
    using crossed_run [OF r _ More_made.prems(4)] More_made.prems(1) by (simp add: world_good_def)
  moreover have "c \<noteq> CallRelease l m True"
    using crossed_not_released [OF assms(1) More_made.prems(1,2,4)] More_made.hyps(1) by blast
  ultimately show ?case
    using More_made.IH run_keeps [OF r More_made.prems(1)] More_made.prems by auto
qed simp

text \<open>A release ends its turn, so a mark of the turn came before it.\<close>

lemma handling_release_last:
  "handling l program cs \<Longrightarrow> CallRelease l m True \<in> set cs \<Longrightarrow>
   \<exists>ds. cs = ds @ [CallRelease l m True]"
  by (induction rule: handling.induct) auto

lemma handling_releases:
  assumes "env_ok E" and "calls_made E kinds s cs t" and "world_good (fst s)" and "l \<in> w_leases (fst s)"
    and "handling l program cs" and "CallRelease l m True \<in> set cs"
  shows "CallMark l True \<notin> set cs"
proof
  assume "CallMark l True \<in> set cs"
  then obtain as bs where cs: "cs = as @ CallMark l True # bs" by (meson split_list)
  have calls: "\<forall>c \<in> set cs. call_lease c = Some l" using handling_lease [OF assms(5)] by blast
  from assms(2) cs obtain u v where
    u: "calls_made E kinds s as u" "made E kinds (CallMark l True) u v" "calls_made E kinds v bs t"
    by (auto simp: calls_made_split calls_made_Cons simp del: made.simps)
  have r: "outbox_step\<^sup>*\<^sup>* (fst s) (fst u)"
    by (rule calls_run [OF assms(1) u(1) assms(3,4)]) (use calls cs in simp)
  have gu: "world_good (fst u)" "l \<in> w_leases (fst u)" using run_keeps [OF r assms(3)] assms(4) by auto
  have r': "outbox_step\<^sup>*\<^sup>* (fst u) (fst v)" by (rule made_run [OF assms(1) gu _ u(2)]) simp
  have gv: "world_good (fst v)" "l \<in> w_leases (fst v)" using run_keeps [OF r' gu(1)] gu(2) by auto
  have "CallRelease l m True \<notin> set bs"
    by (rule crossed_releases [OF assms(1) u(3) gv _ mark_crosses [OF assms(1) gu u(2)]])
       (use calls cs in simp)
  moreover from handling_release_last [OF assms(5,6)] cs have "CallRelease l m True \<in> set bs"
    by (cases bs rule: rev_cases) auto
  ultimately show False by blast
qed

lemma draining_leases:
  "draining handlers n seen ls cs \<Longrightarrow> c \<in> set cs \<Longrightarrow> call_lease c = Some l \<Longrightarrow> l \<in> set ls"
  by (induction rule: draining.induct) (auto dest: handling_lease)

lemma draining_unseen:
  assumes "env_ok E" and "draining handlers n seen ls cs" and "calls_made E kinds s cs t"
    and "world_good (fst s)"
  shows "ol_effect_id ` set ls \<inter> set seen = {}
    \<and> (\<forall>l m. CallRelease l m True \<in> set cs \<longrightarrow> CallMark l True \<notin> set cs)"
  using assms(2-4)
proof (induction arbitrary: s rule: draining.induct)
  case (Turn l cs n seen ls rest)
  from Turn.prems(1) obtain s1 s2 where
    c: "claim_call E kinds seen s = (s1, Some l)"
    and s2: "calls_made E kinds s1 cs s2" "calls_made E kinds s2 rest t"
    by (auto simp: calls_made_split calls_made_Cons)
  note claim = claim_call_run [OF assms(1) Turn.prems(2) c]
  have good: "world_good (fst s1)" using run_keeps [OF claim(1) Turn.prems(2)] by blast
  have l: "l \<in> w_leases (fst s1)" "ol_effect_id l \<notin> set seen" using claim(2) by simp_all
  have r: "outbox_step\<^sup>*\<^sup>* (fst s1) (fst s2)"
    by (rule calls_run [OF assms(1) s2(1) good l(1)]) (use handling_lease [OF Turn.hyps(1)] in blast)
  from Turn.IH [OF s2(2)] run_keeps [OF r good] have IH:
    "ol_effect_id ` set ls \<inter> set (seen @ [ol_effect_id l]) = {}"
    "\<And>k m. CallRelease k m True \<in> set rest \<Longrightarrow> CallMark k True \<notin> set rest" by blast+
  have out: "call_lease x \<noteq> Some l" if "x \<in> set rest" for x
    using draining_leases [OF Turn.hyps(2) that] IH(1) by auto
  have own: "call_lease x = Some l" if "x \<in> set cs" for x by (rule handling_lease [OF Turn.hyps(1) that])
  have "CallMark k True \<notin> set (CallClaim seen (Some l) # cs @ rest)"
    if "CallRelease k m True \<in> set (CallClaim seen (Some l) # cs @ rest)" for k m
  proof (cases "k = l")
    case True
    with that out have "CallRelease l m True \<in> set cs" by force
    from handling_releases [OF assms(1) s2(1) good l(1) Turn.hyps(1) this] True out show ?thesis by force
  next
    case False
    with that own have "CallRelease k m True \<in> set rest" by force
    with IH(2) False own show ?thesis by force
  qed
  with IH(1) l(2) show ?case by auto
qed simp_all

text \<open>
  C5. Recovery and draining follow their protocol, whatever the handlers do and other processes do in
  between. The calls of the store are: one reaping; then at most eight turns, each a claim of an
  effect not taken before, the calls its handler makes, and the one settlement its outcome asks
  for (what the handler returned is observed, a superseded one fails, one that raised is looked up
  and becomes unknown if it was dispatched and is released otherwise); a claim that finds nothing
  ends the drain before the eighth turn. No call that crossed the submit fence of an effect is
  followed by its release for a retry, and the state left is one the outbox machine reaches.
  (Other processes run transactions of the store, and generated tokens are new: \<open>env_ok\<close>.)
\<close>

theorem recovery_refines_outbox_machine:
  assumes "env_ok E" and "reachable_world jobs w"
    and "recover_outbox E kinds handlers (w, n) = ((v, m), ls)"
  shows "reachable_world jobs v \<and> (\<exists>calls. calls_made E kinds (w, n) (CallReap # calls) (v, m)
    \<and> draining handlers (if kinds = [] then 0 else 8) [] ls calls
    \<and> (\<forall>l e. CallRelease l e True \<in> set calls \<longrightarrow> CallMark l True \<notin> set calls))"
proof -
  let ?f = "\<lambda>db now. reap_expired_outbox_leases db now OUTBOX_LEASE_SECONDS"
  obtain s1 x where c: "store_call E ?f (w, n) = (s1, x)" by fastforce
  have "outbox_step\<^sup>*\<^sup>* (fst (w, n)) (fst s1)"
  proof (rule store_call_run [OF assms(1) c])
    fix u now
    have "outbox_step u (u\<lparr>w_db := fst (?f (w_db u) now)\<rparr>)"
      by (rule outbox_step.Reap [OF surjective_pairing])
    then show "outbox_step\<^sup>*\<^sup>* u (u\<lparr>w_db := fst (?f (w_db u) now)\<rparr>)" by (rule r_into_rtranclp)
  qed
  then have r1: "outbox_step\<^sup>*\<^sup>* w (fst s1)" by simp
  have good: "world_good (fst s1)"
    using run_keeps [OF r1 reachable_world_good [OF assms(2)]] by blast
  have drain: "drain_outbox E kinds handlers 8 s1 = ((v, m), ls)"
    using assms(3) c by (simp add: recover_outbox_def)
  from drain_outbox_run [OF assms(1) good this] have "outbox_step\<^sup>*\<^sup>* (fst s1) v" by simp
  with r1 assms(2) have "reachable_world jobs v" unfolding reachable_world_def by (meson rtranclp_trans)
  moreover have "drain_loop E kinds handlers (if kinds = [] then 0 else 8) [] s1 = ((v, m), ls)"
    using drain by (auto simp: drain_outbox_def split: if_splits)
  from drain_loop_protocol [OF this] obtain calls where
    calls: "draining handlers (if kinds = [] then 0 else 8) [] ls calls" "calls_made E kinds s1 calls (v, m)"
    by blast
  moreover from draining_unseen [OF assms(1) calls good]
  have "\<forall>l e. CallRelease l e True \<in> set calls \<longrightarrow> CallMark l True \<notin> set calls" by blast
  moreover have "calls_made E kinds (w, n) (CallReap # calls) (v, m)"
    by (rule More_made [OF _ calls(2)]) (use c in simp)
  ultimately show ?thesis by blast
qed

text \<open>
  C6. A drain takes at most as many leases as its limit allows, never two of one effect and only of
  the kinds it has handlers for, and when it returns every lease it took is settled: no effect
  carries its token any more, whatever the handler did and whoever else wrote in between.
\<close>

theorem drain_settles_every_lease:
  assumes "env_ok E" and "reachable_world jobs w"
    and "drain_outbox E kinds handlers limit (w, n) = ((v, m), ls)"
  shows "length ls \<le> nat limit \<and> distinct (map ol_effect_id ls)
    \<and> list_all (\<lambda>l. ol_kind l \<in> set kinds \<and> lease_lost l (w_db v)) ls"
  using drain_outbox_run [OF assms(1) _ assms(3)] reachable_world_good [OF assms(2)]
  by (simp add: list_all_iff)

text \<open>How a handler that raised leaves its effect, from the row as it was when it raised.\<close>

definition raised_status :: "outbox_row \<Rightarrow> outbox_status" where
  "raised_status r = (if fence_submitted (ob_outcome r) then Unknown
     else if ob_attempts r < OUTBOX_MAX_ATTEMPTS then FailedRetryable else Failed)"

text \<open>
  Nobody else marks under this lease: only the drain and the thread that renews the lease know its
  token, so while the effect carries the token the others leave its outcome as it is.
\<close>

definition fence_is_ours :: "'j schedule \<Rightarrow> outbox_lease \<Rightarrow> bool" where
  "fence_is_ours E l \<longleftrightarrow>
     (\<forall>k w x y. world_good w \<and> l \<in> w_leases w \<and> x \<in> set (db_outbox (w_db w)) \<and> y \<in> set (db_outbox (w_db (dx_others E k w)))
        \<and> ob_lease_token x = Some (ol_lease_token l) \<and> ob_lease_token y = Some (ol_lease_token l)
        \<longrightarrow> ob_outcome y = ob_outcome x)"

text \<open>The worlds the others lead to on their own.\<close>

definition by_others :: "'j schedule \<Rightarrow> 'j world \<Rightarrow> 'j world \<Rightarrow> bool" where
  "by_others E = (\<lambda>w v. \<exists>k. v = dx_others E k w)\<^sup>*\<^sup>*"

lemma by_others_step: "by_others E w v \<Longrightarrow> by_others E w (dx_others E k v)"
  unfolding by_others_def by (erule rtranclp.rtrancl_into_rtrancl) blast

definition still_held :: "outbox_lease \<Rightarrow> outbox_row \<Rightarrow> 'j world \<Rightarrow> bool" where
  "still_held l r w \<longleftrightarrow> world_good w \<and> l \<in> w_leases w
     \<and> (\<exists>x. load_outbox (w_db w) (ol_effect_id l) = Some x
          \<and> holds_lease (ol_effect_id l) (ol_lease_token l) x
          \<and> ob_idempotency_key x = ol_idempotency_key l
          \<and> ob_outcome x = ob_outcome r \<and> ob_attempts x = ob_attempts r)"

definition gone :: "outbox_lease \<Rightarrow> 'j world \<Rightarrow> bool" where
  "gone l w \<longleftrightarrow> world_good w \<and> l \<in> w_leases w \<and> lease_lost l (w_db w)"

lemma held_others:
  assumes "env_ok E" and "fence_is_ours E l" and "still_held l r w"
  shows "gone l (dx_others E k w) \<or> still_held l r (dx_others E k w)"
proof -
  let ?v = "dx_others E k w"
  from assms(3) obtain x where good: "world_good w" "l \<in> w_leases w"
    and x: "load_outbox (w_db w) (ol_effect_id l) = Some x" "holds_lease (ol_effect_id l) (ol_lease_token l) x"
      "ob_outcome x = ob_outcome r" "ob_attempts x = ob_attempts r"
    by (auto simp: still_held_def)
  have "outbox_step\<^sup>*\<^sup>* w ?v" using assms(1) by (simp add: env_ok_def)
  from run_keeps [OF this good(1)] good(2) have v: "world_good ?v" "l \<in> w_leases ?v" by auto
  show ?thesis
  proof (cases "lease_lost l (w_db ?v)")
    case False
    from lost_unless_held [OF v False] obtain y where
      y: "load_outbox (w_db ?v) (ol_effect_id l) = Some y" "holds_lease (ol_effect_id l) (ol_lease_token l) y"
        "ob_idempotency_key y = ol_idempotency_key l" .
    have in_rows: "x \<in> set (db_outbox (w_db w))" "y \<in> set (db_outbox (w_db ?v))"
      using load_outbox_Some [OF x(1)] load_outbox_Some [OF y(1)] by simp_all
    have "ob_outcome y = ob_outcome x"
      using assms(2) good in_rows x(2) y(2) unfolding fence_is_ours_def holds_lease_def by blast
    moreover have "ol_attempts l = ob_attempts x" "ol_attempts l = ob_attempts y"
      using held_row_facts(2) [OF _ good(2) in_rows(1) x(2)] held_row_facts(2) [OF _ v(2) in_rows(2) y(2)]
        good(1) v(1) by (simp_all add: world_good_def)
    ultimately show ?thesis using v x y by (auto simp: still_held_def)
  qed (use v in \<open>simp add: gone_def\<close>)
qed

lemma gone_others:
  assumes "env_ok E" and "gone l w"
  shows "gone l (dx_others E k w)"
  using run_keeps [of w "dx_others E k w"] assms by (auto simp: env_ok_def gone_def)

lemma gone_facts:
  assumes "gone l w"
  shows "\<not> outbox_dispatched (w_db w) l" "release_outbox_lease (w_db w) l e now = (w_db w, False)"
    and "fst (observe_outbox (w_db w) l obs now) = w_db w"
proof -
  have lost: "lease_lost l (w_db w)" and ne: "ol_lease_token l \<noteq> []"
    using assms by (simp_all add: gone_def world_good_def world_ok_def Let_def)
  from lost_lease_is_powerless(3,4) [OF lost ne] show "release_outbox_lease (w_db w) l e now = (w_db w, False)"
    "fst (observe_outbox (w_db w) l obs now) = w_db w" by (simp, metis fst_conv)
  have "or_str (ob_lease_token x) '''' \<noteq> ol_lease_token l" if "x \<in> set (db_outbox (w_db w))" for x
    using lost ne that by (cases "ob_lease_token x") (auto simp: lease_lost_def or_str_def)
  then show "\<not> outbox_dispatched (w_db w) l"
    using load_outbox_Some [of "w_db w" "ol_effect_id l"] by (auto simp: outbox_dispatched_def split: option.splits)
qed

text \<open>How a settlement leaves the row of a lease that is held.\<close>

definition settled_by_fence :: "outbox_lease \<Rightarrow> outbox_row \<Rightarrow> 'j world \<Rightarrow> bool" where
  "settled_by_fence l r w \<longleftrightarrow> (\<exists>y. load_outbox (w_db w) (ol_effect_id l) = Some y
     \<and> ob_status y = raised_status r \<and> ob_attempts y = ob_attempts r \<and> ob_lease_token y = None)"

lemma held_facts:
  assumes "still_held l r w"
  shows "outbox_dispatched (w_db w) l \<longleftrightarrow> fence_submitted (ob_outcome r)"
    and "fence_submitted (ob_outcome r) \<Longrightarrow>
      settled_by_fence l r (w\<lparr>w_db := fst (observe_outbox (w_db w) l (error_observation OutcomeUnknown m) now)\<rparr>)"
    and "\<not> fence_submitted (ob_outcome r) \<Longrightarrow>
      snd (release_outbox_lease (w_db w) l (Some m) now)
      \<and> settled_by_fence l r (w\<lparr>w_db := fst (release_outbox_lease (w_db w) l (Some m) now)\<rparr>)"
proof -
  from assms obtain x where good: "world_good w" "l \<in> w_leases w"
    and x: "load_outbox (w_db w) (ol_effect_id l) = Some x"
    and h: "holds_lease (ol_effect_id l) (ol_lease_token l) x"
    and key: "ob_idempotency_key x = ol_idempotency_key l"
    and same: "ob_outcome x = ob_outcome r" "ob_attempts x = ob_attempts r"
    by (auto simp: still_held_def)
  have ok: "world_ok w" and d: "distinct_effects (w_db w)" and ne: "ol_lease_token l \<noteq> []"
    using good by (simp_all add: world_good_def world_ok_def Let_def)
  have row_in: "x \<in> set (db_outbox (w_db w))" using load_outbox_Some [OF x] by simp
  have att: "ol_attempts l = ob_attempts r" using held_row_facts(2) [OF ok good(2) row_in h] same by simp
  have tok: "or_str (Some (ol_lease_token l)) '''' = ol_lease_token l"
    using ne by (simp add: or_str_def truthy_def)
  have xt: "ob_lease_token x = Some (ol_lease_token l)" using h by (simp add: holds_lease_def)
  note app = complete_applies [OF x h key ne]
  let ?upd = "\<lambda>c. update_where (holds_lease (ol_effect_id l) (ol_lease_token l)) (complete_row c) (w_db w)"
  have row: "load_outbox (?upd c) (ol_effect_id l) = Some (complete_row c x)" for c
  proof -
    have "complete_row c x \<in> set (db_outbox (?upd c))" using row_in h by auto
    moreover have "same_ids (w_db w) (?upd c)" by (rule same_ids_update) (simp add: complete_row_def)
    then have "distinct_effects (?upd c)" using d by (simp add: same_ids_def del: update_where_sel)
    moreover have "ob_effect_id (complete_row c x) = ol_effect_id l"
      using h by (simp add: complete_row_def holds_lease_def)
    ultimately show ?thesis using load_outbox_present by metis
  qed
  show "outbox_dispatched (w_db w) l \<longleftrightarrow> fence_submitted (ob_outcome r)"
    using x xt tok same by (simp add: outbox_dispatched_def)
  show "settled_by_fence l r (w\<lparr>w_db := fst (observe_outbox (w_db w) l (error_observation OutcomeUnknown m) now)\<rparr>)"
    if "fence_submitted (ob_outcome r)"
  proof -
    have "\<exists>c. fst (observe_outbox (w_db w) l (error_observation OutcomeUnknown m) now) = ?upd c \<and> cp_status c = Unknown"
      using x by (auto simp: observe_outbox_def app error_observation_def effective_observation_def
          observation_completion_def)
    with row that same show ?thesis by (auto simp: settled_by_fence_def complete_row_def raised_status_def)
  qed
  show "snd (release_outbox_lease (w_db w) l (Some m) now)
      \<and> settled_by_fence l r (w\<lparr>w_db := fst (release_outbox_lease (w_db w) l (Some m) now)\<rparr>)"
    if "\<not> fence_submitted (ob_outcome r)"
  proof -
    have "\<exists>c. release_outbox_lease (w_db w) l (Some m) now = (?upd c, True)
        \<and> cp_status c = (if ob_attempts r < OUTBOX_MAX_ATTEMPTS then FailedRetryable else Failed)"
      using x xt that tok att same by (auto simp: release_outbox_lease_def app Let_def)
    with row that same show ?thesis by (auto simp: settled_by_fence_def complete_row_def raised_status_def)
  qed
qed

lemma store_call_at: "store_call E f (w, n)
    = ((dx_others E n w\<lparr>w_db := fst (f (w_db (dx_others E n w)) (dx_clock E n))\<rparr>, n + 1),
       snd (f (w_db (dx_others E n w)) (dx_clock E n)))"
  by (simp add: store_call_def Let_def split: prod.splits)

text \<open>An observation after the lease was lost leaves the world to the others.\<close>

lemma gone_settled:
  assumes "env_ok E" and "gone l w" and "by_others E w0 w"
  shows "\<exists>v. fst (observe_call E l obs (w, n)) = v \<and> by_others E w0 v \<and> lease_lost l (w_db v)"
proof -
  let ?v = "dx_others E n w"
  have g: "gone l ?v" by (rule gone_others [OF assms(1,2)])
  then have "fst (observe_call E l obs (w, n)) = ?v"
    by (simp add: observe_call_def store_call_at gone_facts)
  with g by_others_step [OF assms(3)] show ?thesis by (auto simp: gone_def)
qed

lemma raised_settlement:
  assumes "env_ok E" and "fence_is_ours E l" and "still_held l r w"
  shows "settled_by_fence l r (fst (handle_effect E (HandlerRaises m) l (w, n)))
    \<or> by_others E w (fst (handle_effect E (HandlerRaises m) l (w, n)))
      \<and> lease_lost l (w_db (fst (handle_effect E (HandlerRaises m) l (w, n))))"
proof -
  let ?u = "dx_others E n w" and ?obs = "error_observation OutcomeUnknown m"
  let ?v = "dx_others E (Suc n) ?u"
  have base: "by_others E w w" by (simp add: by_others_def)
  note u = by_others_step [OF base, of n]
  note v = by_others_step [OF u, of "Suc n"]
  let ?rel = "release_outbox_lease (w_db ?v) l (Some m) (dx_clock E (Suc n))"
  have run: "fst (handle_effect E (HandlerRaises m) l (w, n))
    = (if outbox_dispatched (w_db ?u) l
       then ?v\<lparr>w_db := fst (observe_outbox (w_db ?v) l ?obs (dx_clock E (Suc n)))\<rparr>
       else if snd ?rel then ?v\<lparr>w_db := fst ?rel\<rparr>
       else fst (observe_call E l ?obs (?v\<lparr>w_db := fst ?rel\<rparr>, Suc (Suc n))))"
    by (simp add: handle_effect_def store_call_at observe_call_def)
  consider (lost) "gone l ?u" | (held) "still_held l r ?u" using held_others [OF assms] by blast
  then show ?thesis
  proof cases
    case lost
    have g: "gone l ?v" by (rule gone_others [OF assms(1) lost])
    from gone_settled [OF assms(1) g v, of ?obs "Suc (Suc n)"] show ?thesis
      by (simp add: run gone_facts [OF lost] gone_facts [OF g])
  next
    case held
    consider (lost) "gone l ?v" | (kept) "still_held l r ?v"
      using held_others [OF assms(1,2) held] by blast
    then show ?thesis
    proof cases
      case lost
      from gone_settled [OF assms(1) lost v, of ?obs "Suc (Suc n)"] v lost show ?thesis
        by (auto simp: run gone_facts [OF lost]) (simp_all add: gone_def)
    next
      case kept
      note f = held_facts(1) [OF held] held_facts(2,3) [OF kept]
      show ?thesis
      proof (cases "fence_submitted (ob_outcome r)")
        case True
        with f(1,2) show ?thesis by (simp add: run)
      next
        case False
        with f(1) f(3) [OF False, of m "dx_clock E (Suc n)"] show ?thesis unfolding run by auto
      qed
    qed
  qed
qed

text \<open>
  C7. An exception of a handler is sorted by the submit fence. When it raises, its lease is held by
  the row \<open>r\<close>; from there on the others may run any transactions, only they do not mark under this
  lease. Then either the effect ends as \<open>OutcomeUnknown\<close> when the fence had been crossed, goes back
  for a retry when it had not and fewer than eight attempts were made, and fails for good after
  that, its attempts unchanged and its lease given up; or the others took the lease away before the
  drain settled it (they reaped it or deleted the job), and the drain changed nothing.
\<close>

theorem raised_handler_is_sorted_by_fence:
  assumes "env_ok E" and "fence_is_ours E l" and "reachable_world jobs w" and "l \<in> w_leases w"
    and "load_outbox (w_db w) (ol_effect_id l) = Some r"
    and "ob_lease_token r = Some (ol_lease_token l)"
    and "run_handler E l program s = ((w, n), Raised m)"
    and "handle_effect E program l s = (v, k)"
  shows "(\<exists>r'. load_outbox (w_db v) (ol_effect_id l) = Some r' \<and> ob_status r' = raised_status r
      \<and> ob_attempts r' = ob_attempts r \<and> ob_lease_token r' = None)
    \<or> by_others E w v \<and> lease_lost l (w_db v)"
proof -
  have good: "world_good w" by (rule reachable_world_good [OF assms(3)])
  have "r \<in> set (db_outbox (w_db w))" using load_outbox_Some [OF assms(5)] by simp
  then have "\<not> lease_lost l (w_db w)" using assms(6) by (auto simp: lease_lost_def)
  from lost_unless_held [OF good assms(4) this] assms(4,5) good have "still_held l r w"
    by (auto simp: still_held_def)
  moreover have "handle_effect E (HandlerRaises m) l (w, n) = (v, k)"
    using assms(7,8) by (simp add: handle_effect_def)
  ultimately show ?thesis
    using raised_settlement [OF assms(1,2), of r w m n] by (simp add: settled_by_fence_def)
qed

section \<open>Witnesses\<close>

text \<open>A schedule with a generator of tokens longer than every token generated before.\<close>

definition demo_schedule :: "unit schedule" where
  "demo_schedule =
     \<lparr>dx_others = (\<lambda>n w. w), dx_clock = (\<lambda>n. 10),
      dx_uuid = (\<lambda>S. replicate (Suc (Max (insert 0 (size ` S)))) (CHR ''t''))\<rparr>"

lemma demo_env: "env_ok demo_schedule"
proof -
  have "replicate (Suc (Max (insert 0 (size ` S)))) (CHR ''t'') \<notin> S" if "finite S" for S :: "string set"
  proof
    let ?m = "Max (insert 0 (size ` S))"
    assume "replicate (Suc ?m) (CHR ''t'') \<in> S"
    then have "Suc ?m \<in> insert 0 (size ` S)" by (force intro: rev_image_eqI)
    with that have "Suc ?m \<le> ?m" by (intro Max_ge) simp_all
    then show False by simp
  qed
  then show ?thesis by (simp add: env_ok_def demo_schedule_def)
qed

lemma demo_others [simp]: "dx_others demo_schedule n w = w"
  by (simp add: demo_schedule_def)

definition demo_admitted :: "unit world" where
  "demo_admitted = \<lparr>w_db = demo_db demo_outbox_row, w_leases = {}, w_tokens = {}, w_effects = {''f1''}\<rparr>"

lemma demo_admitted_reachable: "reachable_world demo_jobs demo_admitted"
proof -
  have "outbox_step (initial_world demo_jobs) ((initial_world demo_jobs)\<lparr>w_db := demo_db demo_outbox_row,
      w_effects := w_effects (initial_world demo_jobs) \<union> set (decision_ids demo_decision demo_ids)\<rparr>)"
    by (rule outbox_step.Commit [OF demo_commit]) (simp add: initial_world_def)
  then show ?thesis
    unfolding reachable_world_def demo_admitted_def
    by (simp add: initial_world_def decision_ids_def demo_decision_def demo_ids_def r_into_rtranclp)
qed

definition demo_handlers :: "outbox_lease \<Rightarrow> handler_run" where
  "demo_handlers l = HandlerMarks (\<lambda>r. case r of
       Marked \<Rightarrow> HandlerReturns \<lparr>eo_outcome = Confirmed, eo_retryable = False, eo_detail = []\<rparr>
     | MarkStale m \<Rightarrow> HandlerRaisesStale m
     | MarkLost m \<Rightarrow> HandlerRaises m)"

lemma demo_claims:
  "\<exists>s. claim_call demo_schedule [''prompt''] [] (demo_admitted, n)
     = (s, Some (lease_of ''t'' (claim_row ''t'' 10 demo_outbox_row)))"
  by (simp add: claim_call_def demo_schedule_def demo_admitted_def claim_outbox_def
      abandon_stale_outbox_effects_def update_where_def stale_effect_def claim_due_outbox_def
      due_effect_def key_is_running_def demo_defs status_sets Let_def payload_revision_def
      dict_get_def load_job_revision_def changes_def load_outbox_def claim_row_def lease_of_def)

lemma demo_drains:
  "\<exists>s' l. drain_outbox demo_schedule [''prompt''] demo_handlers 1 (demo_admitted, n) = (s', [l])
     \<and> ol_effect_id l = ''f1''"
proof -
  obtain s where "claim_call demo_schedule [''prompt''] [] (demo_admitted, n)
     = (s, Some (lease_of ''t'' (claim_row ''t'' 10 demo_outbox_row)))"
    using demo_claims by blast
  then show ?thesis
    by (simp add: drain_outbox_def lease_of_def claim_row_def demo_defs)
qed

lemma drain_settles_every_lease_witness:
  "\<exists>v m l. drain_outbox demo_schedule [''prompt''] demo_handlers 1 (demo_admitted, 0) = ((v, m), [l])
     \<and> ol_kind l = ''prompt'' \<and> lease_lost l (w_db v)"
proof -
  obtain v m l where
    d: "drain_outbox demo_schedule [''prompt''] demo_handlers 1 (demo_admitted, 0) = ((v, m), [l])"
    using demo_drains [of 0] by (metis surjective_pairing)
  with drain_settles_every_lease [OF demo_env demo_admitted_reachable d] show ?thesis by auto
qed




lemma recovery_refines_outbox_machine_witness:
  "\<exists>v m ls calls. recover_outbox demo_schedule [''prompt''] demo_handlers (demo_admitted, 0) = ((v, m), ls)
     \<and> reachable_world demo_jobs v \<and> ls \<noteq> [] \<and> draining demo_handlers 8 [] ls calls
     \<and> calls_made demo_schedule [''prompt''] (demo_admitted, 0) (CallReap # calls) (v, m)"
proof -
  obtain v m ls where
    d: "recover_outbox demo_schedule [''prompt''] demo_handlers (demo_admitted, 0) = ((v, m), ls)"
    by (metis surjective_pairing)
  have "fst (store_call demo_schedule (\<lambda>db now. reap_expired_outbox_leases db now OUTBOX_LEASE_SECONDS)
      (demo_admitted, 0)) = (demo_admitted, 1)"
    by (simp add: store_call_at demo_admitted_def reap_expired_outbox_leases_def
        expired_outbox_leases_def demo_defs)
  moreover obtain s where "claim_call demo_schedule [''prompt''] [] (demo_admitted, 1)
     = (s, Some (lease_of ''t'' (claim_row ''t'' 10 demo_outbox_row)))"
    using demo_claims by blast
  ultimately have "ls \<noteq> []"
    using d by (auto simp: recover_outbox_def drain_outbox_def eval_nat_numeral split: prod.splits)
  with recovery_refines_outbox_machine [OF demo_env demo_admitted_reachable d] d show ?thesis by auto
qed

lemma demo_fence_is_ours: "fence_is_ours demo_schedule l"
  unfolding fence_is_ours_def demo_others
proof (intro allI impI, elim conjE)
  fix w :: "unit world" and x y
  assume good: "world_good w" and l: "l \<in> w_leases w"
    and x: "x \<in> set (db_outbox (w_db w))" "ob_lease_token x = Some (ol_lease_token l)"
    and y: "y \<in> set (db_outbox (w_db w))" "ob_lease_token y = Some (ol_lease_token l)"
  have ok: "world_ok w" using good by (simp add: world_good_def)
  have "holds_lease (ol_effect_id l) (ol_lease_token l) z"
    if "z \<in> set (db_outbox (w_db w))" "ob_lease_token z = Some (ol_lease_token l)" for z
  proof -
    have "row_ok (w_leases w) (w_tokens w) z" using ok that(1) by (simp add: world_ok_def Let_def)
    with that l show ?thesis unfolding row_ok_def holds_lease_def by simp
  qed
  note same = held_row_facts(1) [OF ok l x(1) this [OF x]] held_row_facts(1) [OF ok l y(1) this [OF y]]
  from same show "ob_outcome y = ob_outcome x" by simp
qed

lemma raised_handler_is_sorted_by_fence_witness:
  "\<exists>v k r'. handle_effect demo_schedule (HandlerRaises ''boom'') demo_lease
        (demo_world (claim_row ''t1'' 10 demo_outbox_row), 0) = (v, k)
     \<and> load_outbox (w_db v) ''f1'' = Some r' \<and> ob_status r' = FailedRetryable \<and> ob_attempts r' = 1"
proof -
  let ?r = "claim_row ''t1'' 10 demo_outbox_row" and ?w = "demo_world (claim_row ''t1'' 10 demo_outbox_row)"
  have id: "ol_effect_id demo_lease = ''f1''"
    by (simp add: demo_lease_def lease_of_def claim_row_def demo_defs)
  have l: "demo_lease \<in> w_leases ?w" and r: "load_outbox (w_db ?w) (ol_effect_id demo_lease) = Some ?r"
    and t: "ob_lease_token ?r = Some (ol_lease_token demo_lease)"
    by (simp_all add: id, simp_all add: demo_world_def load_outbox_def demo_lease_def lease_of_def
        claim_row_def demo_defs)
  have h: "run_handler demo_schedule demo_lease (HandlerRaises ''boom'') (?w, 0) = ((?w, 0), Raised ''boom'')"
    by simp
  obtain v k where v: "handle_effect demo_schedule (HandlerRaises ''boom'') demo_lease (?w, 0) = (v, k)"
    by fastforce
  have alone: "u = ?w" if "by_others demo_schedule ?w u" for u
    using that unfolding by_others_def by (induction rule: rtranclp_induct) simp_all
  have "\<not> lease_lost demo_lease (w_db ?w)"
    using load_outbox_Some [OF r] t by (auto simp: lease_lost_def)
  moreover have "raised_status ?r = FailedRetryable \<and> ob_attempts ?r = 1"
    by (simp add: raised_status_def claim_row_def demo_defs fence_submitted_def OUTBOX_MAX_ATTEMPTS_def)
  moreover have "\<not> (by_others demo_schedule ?w v \<and> lease_lost demo_lease (w_db v))"
    using alone [of v] calculation(1) by blast
  moreover note raised_handler_is_sorted_by_fence [OF demo_env demo_fence_is_ours demo_reachable l r t h v]
  ultimately have "\<exists>r'. load_outbox (w_db v) ''f1'' = Some r' \<and> ob_status r' = FailedRetryable \<and> ob_attempts r' = 1"
    unfolding id by metis
  with v show ?thesis by blast
qed

end
