(* ===== verification/Job_Update.thy ===== *)
theory Job_Update imports Job_Soundness begin

text \<open>
  How an updated job record is built in \<open>cursor/model.py\<close>: \<open>from_dict\<close> on the values of a record,
  \<open>_updated\<close>, \<open>evolve\<close>, \<open>transition\<close> and \<open>worker_callback_transition\<close>, each of which ends in
  \<open>validate_transition\<close>, and the delivery methods of \<open>AgentJob\<close>. A change set is a function on the
  columns. The changes of the modelled callers do not write \<open>herdr_target\<close> or \<open>session_id\<close>, so the
  step that keeps the two equal is not here.
\<close>

section \<open>The columns\<close>

text \<open>
  The columns the updates read or write beyond those of the checks. \<open>row_keys\<close> is the set of the
  keys among \<open>queued_at\<close>, \<open>completed_at\<close>, \<open>result\<close> and \<open>worker_claimed_at\<close> the record has, as the code
  tells a missing key from a value that is \<open>None\<close>.
\<close>

record stored_job = full_job +
  row_keys :: "string set"
  worker_operation :: "string option"
  foreground_until :: time
  updated_at :: "time option"
  attempt_started_at :: "time option"
  started_at :: "time option"
  fork_requested :: bool
  github_pull_request :: "int option"
  grouped_repository_targets :: "py_dict list"

abbreviation full_part :: "stored_job \<Rightarrow> full_job" where
  "full_part j \<equiv> full_job.truncate j"

abbreviation agent_part :: "stored_job \<Rightarrow> agent_job" where
  "agent_part j \<equiv> agent_job.truncate j"

section \<open>Reading a record\<close>

text \<open>
  \<open>_default_announcement_ack\<close>, for a record without the mirror column of older versions.
\<close>

definition default_announcement_ack :: "delivery_fields_row \<Rightarrow> delivery_fields_row" where
  "default_announcement_ack r =
     (let ack = announcement_ack_field r in
      if ack \<in> {''pending'', ''spoken'', ''desktop'', ''deferred'', ''dismissed''}
      then if delivered r \<and> ack = ''pending'' then r\<lparr>announcement_ack_field := ''spoken''\<rparr> else r
      else if delivered r then r\<lparr>announcement_ack_field := ''spoken''\<rparr>
      else r\<lparr>announcement_ack_field := ''pending''\<rparr>)"

definition check_voice_question :: "stored_job \<Rightarrow> job_error + unit" where
  "check_voice_question j =
     (case aj_voice_question j of
        None \<Rightarrow> Inr ()
      | Some d \<Rightarrow>
          (case question_from_dict (PyDict d) of
             Inr _ \<Rightarrow> Inr ()
           | Inl (QuestionError m) \<Rightarrow> Inl (JobValidationError (''invalid voice_question: '' @ m))
           | Inl e \<Rightarrow> Inl (case question_failure e of JobValidationError m \<Rightarrow> ValueError m | f \<Rightarrow> f)))"

definition check_identity_columns :: "stored_job \<Rightarrow> (job_error + unit) list" where
  "check_identity_columns j =
     [refuse (\<not> is_job_id (aj_id j)) ''id must be 12 lowercase hexadecimal characters'',
      (case aj_parent_job_id j of
         None \<Rightarrow> Inr ()
       | Some p \<Rightarrow> in_order
           [refuse (\<not> is_job_id p) ''parent_job_id must be 12 lowercase hexadecimal characters'',
            refuse (p = aj_id j) ''parent_job_id must not reference the child'']),
      refuse (case aj_issue_provider j of None \<Rightarrow> False | Some p \<Rightarrow> \<not> is_provider_name p)
        ''issue_provider has invalid value'']"

text \<open>What each status requires of the record.\<close>

definition check_status_columns :: "stored_job \<Rightarrow> (job_error + unit) list" where
  "check_status_columns j =
     (let st = aj_status j; name = job_state_value st in
     [refuse (st = JsQueued \<and> ''queued_at'' \<notin> row_keys j) ''queued job requires queued_at'',
      refuse (st = JsAwaitingUser \<and> \<not> otruthy (aj_question j))
        ''awaiting_user job requires non-empty question'',
      refuse (st = JsAwaitingUser \<and> \<not> otruthy (aj_result j))
        ''awaiting_user job requires non-empty result'',
      refuse (st = JsBlocked \<and> \<not> otruthy (aj_result j)) ''blocked job requires result'',
      refuse (st = JsCompleted \<and> ''result'' \<notin> row_keys j) ''completed job requires result'',
      refuse (st = JsFailed \<and> \<not> otruthy (aj_error j)) ''failed job requires non-empty error'',
      refuse (st = JsFailed \<and> \<not> otruthy (aj_result j)) ''failed job requires non-empty result'',
      refuse (st = JsCancelled \<and> \<not> otruthy (aj_result j)) ''cancelled job requires result'',
      refuse (st \<in> TERMINAL_STATUSES \<union> {JsBlocked} \<and> ''completed_at'' \<notin> row_keys j)
        (name @ '' job requires completed_at'')])"

text \<open>
  \<open>AgentJob.from_dict\<close> on the values of a record: the announcement column is made canonical, the
  columns are checked, the typed operations are read from them, an event is forgotten, and the
  invariants are checked. (A current record whose prompt columns cannot be read is refused; one of
  an older version has no typed prompt then. The rewriting of older records' columns that comes
  before is not modelled.)
\<close>

definition optional_typed_prompt_operation :: "stored_job \<Rightarrow> job_error + prompt_operation option" where
  "optional_typed_prompt_operation j =
     (case typed_prompt_operation (aj_prompt j) (aj_id j) of
        Inr p \<Rightarrow> Inr (Some p)
      | Inl (JobValidationError m) \<Rightarrow>
          if aj_loaded_schema_version j < CURRENT_SCHEMA_VERSION then Inr None
          else Inl (JobValidationError m)
      | Inl e \<Rightarrow> Inl e)"

definition with_typed_operations :: "prompt_operation option \<Rightarrow> stored_job \<Rightarrow> stored_job" where
  "with_typed_operations prompt j =
     j\<lparr>job_delivery := default_announcement_ack (job_delivery j),
       aj_prompt_typed := prompt,
       aj_checkout_typed :=
         optional_typed_checkout_operation (aj_checkout j) (aj_loaded_schema_version j),
       aj_session_typed :=
         optional_typed_agent_session_operation (aj_session j) (aj_session_fallback j)
           (aj_loaded_schema_version j),
       aj_lifecycle_event := None\<rparr>"

definition read_record :: "stored_job \<Rightarrow> job_error + stored_job" where
  "read_record j =
     rbind (check_voice_question j) (\<lambda>_.
     rbind (in_order (check_identity_columns j @ check_status_columns j)) (\<lambda>_.
     rbind (optional_typed_prompt_operation j) (\<lambda>prompt.
     let u = with_typed_operations prompt j in
     rbind (validate_invariants (aj_loaded_schema_version u = CURRENT_SCHEMA_VERSION) (full_part u)) (\<lambda>_.
       Inr u))))"

section \<open>Updates\<close>

text \<open>\<open>_pair_worker_ownership\<close> and \<open>_pair_announcement_ack\<close>.\<close>

definition pair_worker_ownership :: "stored_job \<Rightarrow> stored_job" where
  "pair_worker_ownership j =
     (let w = aj_worker j in
      if ''worker_claimed_at'' \<notin> row_keys j then j
      else if worker_token w = None then j\<lparr>aj_worker := worker_ownership_fields None\<rparr>
      else if worker_claim_operation w = None
      then j\<lparr>aj_worker := w\<lparr>worker_claim_operation := Some (job_state_value (aj_status j))\<rparr>\<rparr>
      else j)"

definition pair_announcement_ack :: "stored_job \<Rightarrow> stored_job" where
  "pair_announcement_ack j =
     (let r = job_delivery j; ack = announcement_ack_field r in
      if delivered r
      then if ack = ''pending'' then j\<lparr>job_delivery := r\<lparr>announcement_ack_field := ''spoken''\<rparr>\<rparr> else j
      else if ack \<in> {''spoken'', ''dismissed''}
      then j\<lparr>job_delivery := r\<lparr>announcement_ack_field := ''pending''\<rparr>\<rparr>
      else j)"

text \<open>The end of every update: the next revision is read as a record and passes the gate.\<close>

definition next_record :: "stored_job \<Rightarrow> stored_job \<Rightarrow> job_error + stored_job" where
  "next_record j v =
     rbind (read_record (v\<lparr>aj_revision := aj_revision j + 1\<rparr>)) (\<lambda>u.
     rbind (validate_transition (\<lambda>_. validate_invariants True (full_part u))
              (agent_part j) (agent_part u)) (\<lambda>_. Inr u))"

definition updated_job :: "(stored_job \<Rightarrow> stored_job) \<Rightarrow> stored_job \<Rightarrow> job_error + stored_job" where
  "updated_job changes j = next_record j (pair_worker_ownership (changes j))"

definition evolve_job ::
  "job_state option \<Rightarrow> (stored_job \<Rightarrow> stored_job) \<Rightarrow> stored_job \<Rightarrow> job_error + stored_job" where
  "evolve_job status changes j =
     (let v = pair_worker_ownership (pair_announcement_ack (changes j));
          stale = prompt_operation_state_field (pr_fields (aj_prompt v)) = ''none''
                    \<and> rj_manual_reconcile_operation v = Some ''prompt''
                  \<or> participant_creation_state (aj_participant v) = Some ''none''
                    \<and> rj_manual_reconcile_operation v = Some ''pane'';
          w = (if stale then v\<lparr>rj_manual_reconcile_operation := None, manual_reconcile_token := None\<rparr>
               else v)
      in next_record j (w\<lparr>aj_status := (case status of None \<Rightarrow> aj_status j | Some st \<Rightarrow> st)\<rparr>))"

definition transition_job ::
  "job_state \<Rightarrow> (stored_job \<Rightarrow> stored_job) \<Rightarrow> stored_job \<Rightarrow> job_error + stored_job" where
  "transition_job status changes j =
     (if status \<noteq> aj_status j \<and> status \<notin> legal_edges (aj_status j)
      then Inl (JobValidationError
             (''illegal Cursor job transition '' @ job_state_value (aj_status j) @ '' -> ''
              @ job_state_value status))
      else next_record j ((pair_worker_ownership (changes j))\<lparr>aj_status := status\<rparr>))"

definition worker_callback_transition ::
  "int \<Rightarrow> worker_ownership \<Rightarrow> job_state \<Rightarrow> (stored_job \<Rightarrow> stored_job) \<Rightarrow> stored_job \<Rightarrow>
   job_error + stored_job" where
  "worker_callback_transition revision owner status changes j =
     rbind (transition_job status changes j) (\<lambda>u.
     rbind (job_lifecycle_of (agent_part u)) (\<lambda>l.
     let ev = WorkerCallbackEvent revision l owner in
     rbind (validate_lifecycle_event (agent_part j) (agent_part u) ev) (\<lambda>_.
       Inr (u\<lparr>aj_lifecycle_event := Some ev\<rparr>))))"

section \<open>Delivery\<close>

text \<open>
  The delivery methods of \<open>AgentJob\<close>: read the delivery state, apply an operation of
  \<open>cursor/lifecycle.py\<close>, write its fields. A time of delivery is written only with a delivery.
\<close>

datatype delivery_failure =
    DeliveryJobError job_error
  | DeliveryIllegal lifecycle_error

definition set_delivery :: "delivery_state \<Rightarrow> stored_job \<Rightarrow> stored_job" where
  "set_delivery t j =
     j\<lparr>job_delivery := (let r = delivery_fields t in
        r\<lparr>delivered_at_key := (case delivered_at_key r of
            None \<Rightarrow> delivered_at_key (job_delivery j)
          | Some d \<Rightarrow> Some d)\<rparr>)\<rparr>"

definition deliver_job ::
  "(delivery_state \<Rightarrow> lifecycle_error + delivery_state) \<Rightarrow> stored_job \<Rightarrow> delivery_failure + stored_job" where
  "deliver_job oper j =
     rbind (map_err DeliveryJobError (job_delivery_state (full_part j))) (\<lambda>s.
     rbind (map_err DeliveryIllegal (oper s)) (\<lambda>t.
       map_err DeliveryJobError (updated_job (set_delivery t) j)))"

definition job_claim_delivery :: "string \<Rightarrow> time \<Rightarrow> time \<Rightarrow> stored_job \<Rightarrow> delivery_failure + stored_job" where
  "job_claim_delivery tok claimed_at lease = deliver_job (\<lambda>s. claim_delivery s tok claimed_at lease)"

definition job_renew_delivery :: "string \<Rightarrow> time \<Rightarrow> time \<Rightarrow> stored_job \<Rightarrow> delivery_failure + stored_job" where
  "job_renew_delivery tok claimed_at lease = deliver_job (\<lambda>s. renew_delivery s tok claimed_at lease)"

text \<open>
  \<open>acknowledge_delivery\<close>, \<open>acknowledge_desktop_delivery\<close> and \<open>acknowledge_deferred_delivery\<close>, which
  differ in the acknowledgement.
\<close>

definition job_acknowledge_delivery ::
  "announcement_ack \<Rightarrow> string \<Rightarrow> time \<Rightarrow> time \<Rightarrow> stored_job \<Rightarrow> delivery_failure + stored_job" where
  "job_acknowledge_delivery ack tok done_at lease =
     deliver_job (\<lambda>s. acknowledge_delivery s tok (Some done_at) ack (Some lease))"

definition job_release_delivery :: "string \<Rightarrow> time \<Rightarrow> stored_job \<Rightarrow> delivery_failure + stored_job" where
  "job_release_delivery tok retry_at = deliver_job (\<lambda>s. release_delivery s tok retry_at)"

section \<open>What an update keeps\<close>

lemma read_record_cols:
  assumes "read_record j = Inr u"
  shows "\<exists>p. u = with_typed_operations p j \<and> optional_typed_prompt_operation j = Inr p
    \<and> validate_invariants (aj_loaded_schema_version u = CURRENT_SCHEMA_VERSION) (full_part u) = Inr ()"
  using assms by (auto simp: read_record_def rbind_Inr_iff Let_def)

lemma with_typed_operations_sel [simp]:
  "aj_id (with_typed_operations p j) = aj_id j" "aj_status (with_typed_operations p j) = aj_status j"
  "aj_revision (with_typed_operations p j) = aj_revision j"
  "aj_worker (with_typed_operations p j) = aj_worker j"
  "aj_lifecycle_event (with_typed_operations p j) = None"
  "aj_loaded_schema_version (with_typed_operations p j) = aj_loaded_schema_version j"
  "job_delivery (with_typed_operations p j) = default_announcement_ack (job_delivery j)"
  "row_keys (with_typed_operations p j) = row_keys j" "job_reconcile (with_typed_operations p j) = job_reconcile j"
  by (simp_all add: with_typed_operations_def)

lemma default_announcement_ack_idem [simp]:
  "default_announcement_ack (default_announcement_ack r) = default_announcement_ack r"
  by (auto simp: default_announcement_ack_def Let_def)

text \<open>A record that was read is read back unchanged.\<close>

lemma read_record_again:
  assumes "read_record j = Inr u"
  shows "read_record u = Inr u"
proof -
  from read_record_cols [OF assms] obtain p where u: "u = with_typed_operations p j"
    and p: "optional_typed_prompt_operation j = Inr p" by blast
  have "check_voice_question u = check_voice_question j"
    "check_identity_columns u = check_identity_columns j"
    "check_status_columns u = check_status_columns j"
    "optional_typed_prompt_operation u = optional_typed_prompt_operation j"
    by (simp_all add: u with_typed_operations_def check_voice_question_def
        check_identity_columns_def check_status_columns_def optional_typed_prompt_operation_def
        split: option.split sum.split job_error.split)
  moreover have "with_typed_operations p u = u" by (simp add: u with_typed_operations_def)
  ultimately show ?thesis
    using assms p by (auto simp: read_record_def rbind_Inr_iff Let_def u)
qed

lemma next_record_cols:
  assumes "next_record j v = Inr u"
  shows "\<exists>p. u = with_typed_operations p (v\<lparr>aj_revision := aj_revision j + 1\<rparr>)
    \<and> read_record u = Inr u
    \<and> validate_transition (\<lambda>_. validate_invariants True (full_part u)) (agent_part j) (agent_part u) = Inr ()"
proof -
  from assms have r: "read_record (v\<lparr>aj_revision := aj_revision j + 1\<rparr>) = Inr u"
    and t: "validate_transition (\<lambda>_. validate_invariants True (full_part u)) (agent_part j) (agent_part u) = Inr ()"
    by (auto simp: next_record_def rbind_Inr_iff)
  from read_record_cols [OF r] read_record_again [OF r] t show ?thesis by blast
qed

end
