(* ===== verification/Job_Store.thy ===== *)
theory Job_Store imports Job_Update Outbox begin

text \<open>
  Updates of stored jobs: \<open>SqliteJobStore.update\<close> and \<open>update_unless_maintenance\<close> of
  \<open>cursor/store.py\<close>, one transaction each. A command computes the candidate from the current
  record; the candidate is normalised, passes the gate, is logged as an event and saved with its
  reservations and its delivery claim (\<open>save_job\<close> of \<open>cursor/sqlite_store.py\<close>), whose uniqueness the
  database enforces.

  Arguments: how a candidate of an older schema version is rewritten, the check of artifact files
  and the identifiers of the event.
\<close>

section \<open>Normalising a candidate\<close>

definition has_legacy_worker_claim :: "worker_row \<Rightarrow> bool" where
  "has_legacy_worker_claim w =
     (let given = [worker_token w \<noteq> None, worker_pid w \<noteq> None, worker_boot_id w \<noteq> None,
                   worker_process_start w \<noteq> None] in
      list_ex id given \<and> (\<not> list_all id given \<or> worker_boot_id w = Some ''legacy-unknown''))"

definition clear_legacy_release_owner :: "stored_job \<Rightarrow> stored_job" where
  "clear_legacy_release_owner j =
     (if target_release_owner_boot_id (aj_cleanup j) = Some ''legacy-unknown''
      then j\<lparr>aj_cleanup := (aj_cleanup j)\<lparr>target_release_owner_pid := None,
             target_release_owner_boot_id := None, target_release_owner_start := None\<rparr>\<rparr>
      else j)"

definition normalize_for_durable_write ::
  "(stored_job \<Rightarrow> stored_job) \<Rightarrow> stored_job \<Rightarrow> job_error + stored_job" where
  "normalize_for_durable_write legacy candidate =
     (if aj_loaded_schema_version candidate \<ge> CURRENT_SCHEMA_VERSION
         \<and> has_legacy_worker_claim (aj_worker candidate)
      then Inl (JobValidationError (job_state_value (aj_status candidate)
             @ '' job requires complete current worker ownership''))
      else
        let v = (if aj_loaded_schema_version candidate < CURRENT_SCHEMA_VERSION
                 then legacy candidate else candidate) in
        rbind (read_record ((clear_legacy_release_owner v)
                 \<lparr>aj_loaded_schema_version := CURRENT_SCHEMA_VERSION\<rparr>)) (\<lambda>u.
        rbind (validate_invariants True (full_part u)) (\<lambda>_.
          Inr (u\<lparr>aj_lifecycle_event := aj_lifecycle_event candidate\<rparr>))))"

section \<open>Reservations\<close>

definition ticket_identity :: "stored_job \<Rightarrow> string list option" where
  "ticket_identity j =
     (if \<not> fork_requested j \<and> github_pull_request j = None \<and> otruthy (github_repository j)
         \<and> truthy_int (github_issue j)
      then Some [''github'', casefold (the (github_repository j)), show_int (the (github_issue j))]
      else if otruthy (issue_key j)
      then Some [or_str (aj_issue_provider j) ''legacy'', casefold (the (issue_key j))]
      else None)"

definition grouped_ticket_identities :: "stored_job \<Rightarrow> string list list" where
  "grouped_ticket_identities j =
     concat (map (\<lambda>target. case py_get target ''request'' of
         PyDict request \<Rightarrow>
           (case py_get request ''issue_key'' of
              PyStr key \<Rightarrow> if truthy key then [[''linear'', casefold key]] else []
            | _ \<Rightarrow> [])
       | _ \<Rightarrow> []) (grouped_repository_targets j))"

text \<open>\<open>"\x1f".join(identity)\<close>.\<close>

fun join_identity :: "string list \<Rightarrow> string" where
  "join_identity [] = []"
| "join_identity [p] = p"
| "join_identity (p # ps) = p @ char_of (31 :: nat) # join_identity ps"

text \<open>A job that only waits for the choice of its repository does not own its ticket.\<close>

definition waits_for_repository :: "stored_job \<Rightarrow> bool" where
  "waits_for_repository j \<longleftrightarrow>
     aj_status j = JsAwaitingUser
     \<and> aj_clarification_kind j \<in> {Some ''repository'', Some ''grouped_repository''}
     \<and> aj_herdr_target j = None \<and> worktree_path (aj_checkout j) = None
     \<and> aj_active_participant j = None"

definition reservation_rows :: "stored_job \<Rightarrow> job_error + (string \<times> string) list" where
  "reservation_rows j =
     rbind (job_reserves (reserving_job.truncate j)) (\<lambda>reserves. Inr (
       if \<not> reserves then []
       else (if waits_for_repository j then []
             else map (\<lambda>t. (''ticket'', join_identity t))
                    ((case ticket_identity j of None \<Rightarrow> [] | Some t \<Rightarrow> [t]) @ grouped_ticket_identities j))
            @ map (Pair ''target'') (reserved_targets (reserving_job.truncate j))
            @ (case worktree_path (aj_checkout j) of
                 None \<Rightarrow> []
               | Some path \<Rightarrow> if truthy path then [(''worktree'', path)] else [])))"

section \<open>The tables beside the record\<close>

text \<open>The row of \<open>maintenance\<close> while a process deletes all jobs.\<close>

record maintenance_lease =
  ml_token :: string
  ml_started_at :: time
  ml_owner_pid :: int
  ml_owner_boot_id :: string
  ml_owner_process_start :: string

record job_store =
  js_db :: "stored_job database"
  js_ids :: "string list"
  js_reservations :: "((string \<times> string) \<times> string) list"
  js_claims :: "(string \<times> string) list"
  js_maintenance :: "maintenance_lease option"

definition maintenance_active :: "job_store \<Rightarrow> bool" where
  "maintenance_active s \<longleftrightarrow> js_maintenance s \<noteq> None"

text \<open>\<open>INSERT\<close> under the primary key \<open>(resource_kind, resource_key)\<close>, row after row.\<close>

fun insert_reservations ::
  "((string \<times> string) \<times> string) list \<Rightarrow> string \<Rightarrow> (string \<times> string) list \<Rightarrow>
   job_error + ((string \<times> string) \<times> string) list" where
  "insert_reservations table i [] = Inr table"
| "insert_reservations table i (k # ks) =
     (if k \<in> fst ` set table
      then Inl (JobValidationError ''resource is reserved by both this job and another Cursor job'')
      else insert_reservations ((k, i) # table) i ks)"

definition save_reservations ::
  "((string \<times> string) \<times> string) list \<Rightarrow> string \<Rightarrow> (string \<times> string) list \<Rightarrow>
   job_error + ((string \<times> string) \<times> string) list" where
  "save_reservations table i ks = insert_reservations (filter (\<lambda>(_, o'). o' \<noteq> i) table) i ks"

text \<open>The row of \<open>delivery_claims\<close>, with its checks and the unique token, and that of \<open>worker_claims\<close>.\<close>

definition save_delivery_claim ::
  "(string \<times> string) list \<Rightarrow> string \<Rightarrow> delivery_fields_row \<Rightarrow> job_error + (string \<times> string) list" where
  "save_delivery_claim table i r =
     (let others = filter (\<lambda>(_, o'). o' \<noteq> i) table;
          failed = ''SQLite job constraint failed: CHECK constraint failed: '' in
      if delivery_generation r < 0 then Inl (JobValidationError (failed @ ''generation >= 0''))
      else if delivery_attempts r < 0 then Inl (JobValidationError (failed @ ''attempts >= 0''))
      else if (delivery_claim_token r = None) \<noteq> (delivery_claimed_at r = None)
      then Inl (JobValidationError (failed @ ''(claim_token IS NULL) = (claimed_at IS NULL)''))
      else if delivered r \<and> delivery_claim_token r \<noteq> None
      then Inl (JobValidationError (failed @ ''NOT delivered OR claim_token IS NULL''))
      else case delivery_claim_token r of
        None \<Rightarrow> Inr others
      | Some tok \<Rightarrow>
          if tok \<in> fst ` set others
          then Inl (JobValidationError ''delivery claim token is already owned by another Cursor job'')
          else Inr ((tok, i) # others))"

definition check_worker_claim :: "worker_row \<Rightarrow> job_error + unit" where
  "check_worker_claim w =
     (let given = [worker_token w \<noteq> None, worker_pid w \<noteq> None, worker_boot_id w \<noteq> None,
                   worker_process_start w \<noteq> None];
          any_true = otruthy (worker_token w) \<or> truthy_int (worker_pid w)
                     \<or> otruthy (worker_boot_id w) \<or> otruthy (worker_process_start w);
          sound = \<not> list_ex id given \<or> list_all id given \<and> the (worker_pid w) > 0 in
      refuse ((\<not> any_true \<or> list_all id given) \<and> \<not> sound)
        ''SQLite job constraint failed: CHECK constraint failed: worker_claims'')"

definition save_job ::
  "job_store \<Rightarrow> stored_job \<Rightarrow>
   job_error + ((string \<times> string) \<times> string) list \<times> (string \<times> string) list" where
  "save_job s j =
     rbind (reservation_rows j) (\<lambda>rows.
     rbind (save_reservations (js_reservations s) (aj_id j) rows) (\<lambda>reserved.
     rbind (save_delivery_claim (js_claims s) (aj_id j) (job_delivery j)) (\<lambda>claims.
     rbind (check_worker_claim (aj_worker j)) (\<lambda>_. Inr (reserved, claims)))))"

section \<open>Transactions\<close>

type_synonym job_command = "stored_job \<Rightarrow> job_error + stored_job option"

definition job_row_of :: "stored_job \<Rightarrow> stored_job job_row" where
  "job_row_of j = \<lparr>jr_revision = aj_revision j, jr_body = j\<rparr>"

definition prepare_candidate ::
  "(stored_job \<Rightarrow> stored_job) \<Rightarrow> (stored_job \<Rightarrow> stored_job \<Rightarrow> job_error + unit) \<Rightarrow>
   stored_job \<Rightarrow> stored_job job_row \<Rightarrow> job_error + stored_job job_row" where
  "prepare_candidate legacy artifacts current candidate =
     rbind (normalize_for_durable_write legacy (jr_body candidate)) (\<lambda>c.
     rbind (validate_transition (\<lambda>_. validate_invariants True (full_part c))
              (agent_part current) (agent_part c)) (\<lambda>_.
     rbind (artifacts current c) (\<lambda>_. Inr (job_row_of c))))"

record update_call =
  sc_reject_maintenance :: bool
  sc_job_id :: string
  sc_command :: job_command
  sc_command_id :: string
  sc_ids :: transition_ids

definition store_transaction ::
  "(stored_job \<Rightarrow> stored_job) \<Rightarrow> (stored_job \<Rightarrow> stored_job \<Rightarrow> job_error + unit) \<Rightarrow>
   job_store \<Rightarrow> update_call \<Rightarrow> store_error + job_store \<times> stored_job option" where
  "store_transaction legacy artifacts s call =
     (if sc_reject_maintenance call \<and> maintenance_active s then Inr (s, None)
      else case db_jobs (js_db s) (sc_job_id call) of
        None \<Rightarrow> Inl (JobFileNotFound (sc_job_id call))
      | Some row \<Rightarrow>
          rbind (map_err StoreJobError (read_record (jr_body row))) (\<lambda>current.
          let command = \<lparr>cc_job_id = sc_job_id call, cc_expected_revision = aj_revision current,
                cc_command_id = sc_command_id call, cc_kind = ''store.update''\<rparr>;
              commit = (\<lambda>decide. apply_command (\<lambda>_. prepare_candidate legacy artifacts current)
                         decide False (js_db s) command (sc_ids call)) in
          if load_command_event (js_db s) (sc_command_id call) \<noteq> None
          then rbind (commit (\<lambda>_. None)) (\<lambda>(db, r). Inr (s\<lparr>js_db := db\<rparr>, map_option jr_body r))
          else
            rbind (map_err StoreJobError (sc_command call current)) (\<lambda>candidate.
            rbind (commit (\<lambda>_. map_option (\<lambda>c. \<lparr>cd_job = job_row_of c, cd_effects = [],
                     cd_event_kind = ''store.update'', cd_event_payload = []\<rparr>) candidate)) (\<lambda>(db, r).
              case r of
                None \<Rightarrow> Inr (s\<lparr>js_db := db\<rparr>, None)
              | Some saved \<Rightarrow>
                  rbind (map_err StoreJobError (save_job s (jr_body saved))) (\<lambda>(reserved, claims).
                    Inr (s\<lparr>js_db := db, js_reservations := reserved, js_claims := claims\<rparr>,
                         Some (jr_body saved)))))))"

text \<open>A failed transaction is rolled back; the calls of all processes come in some order.\<close>

definition store_try ::
  "(stored_job \<Rightarrow> stored_job) \<Rightarrow> (stored_job \<Rightarrow> stored_job \<Rightarrow> job_error + unit) \<Rightarrow>
   job_store \<Rightarrow> update_call \<Rightarrow> job_store" where
  "store_try legacy artifacts s call =
     (case store_transaction legacy artifacts s call of Inl _ \<Rightarrow> s | Inr (s', _) \<Rightarrow> s')"

definition run_store ::
  "(stored_job \<Rightarrow> stored_job) \<Rightarrow> (stored_job \<Rightarrow> stored_job \<Rightarrow> job_error + unit) \<Rightarrow>
   job_store \<Rightarrow> update_call list \<Rightarrow> job_store" where
  "run_store legacy artifacts s calls = foldl (store_try legacy artifacts) s calls"

section \<open>Reading\<close>

text \<open>\<open>store.list()\<close>: the records in the order of their identifiers.\<close>

fun read_all :: "stored_job database \<Rightarrow> string list \<Rightarrow> job_error + stored_job list" where
  "read_all db [] = Inr []"
| "read_all db (i # ids) =
     (case db_jobs db i of
        None \<Rightarrow> read_all db ids
      | Some row \<Rightarrow> rbind (read_record (jr_body row)) (\<lambda>j. rbind (read_all db ids) (\<lambda>js. Inr (j # js))))"

definition store_list :: "job_store \<Rightarrow> store_error + stored_job list" where
  "store_list s = map_err StoreJobError (read_all (js_db s) (js_ids s))"

definition store_get :: "job_store \<Rightarrow> string \<Rightarrow> store_error + stored_job" where
  "store_get s i =
     (case db_jobs (js_db s) i of
        None \<Rightarrow> Inl (JobFileNotFound i)
      | Some row \<Rightarrow> map_err StoreJobError (read_record (jr_body row)))"

definition get_unless_maintenance :: "job_store \<Rightarrow> string \<Rightarrow> store_error + stored_job option" where
  "get_unless_maintenance s i =
     (if maintenance_active s then Inr None else rbind (store_get s i) (\<lambda>j. Inr (Some j)))"

end
