(* ===== verification/Store_Operations.thy ===== *)
theory Store_Operations imports Job_Store "HOL-Library.List_Lexorder" "HOL-Library.Char_ord" begin

text \<open>
  The operations of \<open>cursor/store.py\<close> beside single updates: creating jobs and follow-ups, admitting
  waiting jobs up to the global capacity, staging the children of a grouped answer, pruning, and
  the maintenance fence under which all jobs are deleted. Each is one transaction, rolled back when
  it raises.

  Arguments, collected in \<open>store_checks\<close>: how a candidate of an older version is rewritten, the
  checks of artifact files and of quarantine evidence, and \<open>Path.resolve\<close>.
\<close>

section \<open>Failures and the environment\<close>

datatype store_failure =
    StoreFailure store_error
  | JobMaintenanceError string
  | ActiveTicketConflict string
  | FollowUpUnavailable string
  | FollowUpCheckoutBusy string
  | SqliteIntegrityError string
  | StoreAssertionError

abbreviation job_failed :: "job_error + 'a \<Rightarrow> store_failure + 'a" where
  "job_failed \<equiv> map_err (StoreFailure \<circ> StoreJobError)"

record store_checks =
  ck_legacy :: "stored_job \<Rightarrow> stored_job"
  ck_artifacts :: "stored_job option \<Rightarrow> stored_job \<Rightarrow> job_error + unit"
  ck_quarantine :: "stored_job \<Rightarrow> string \<Rightarrow> job_error + unit"
  ck_quarantine_rows :: "stored_job \<Rightarrow> string \<Rightarrow> job_error + unit"
  ck_unresolved :: "string list"
  ck_legacy_records :: bool
  ck_resolve :: "string \<Rightarrow> string option"

definition normalized :: "store_checks \<Rightarrow> stored_job \<Rightarrow> store_failure + stored_job" where
  "normalized K j = job_failed (normalize_for_durable_write (ck_legacy K) j)"

text \<open>Writing a row with its reservations and claims; \<open>js_ids\<close> stays in the order of identifiers.\<close>

definition write_job :: "job_store \<Rightarrow> stored_job \<Rightarrow> store_failure + job_store" where
  "write_job s j =
     rbind (job_failed (save_job s j)) (\<lambda>(reserved, claims).
       Inr (s\<lparr>js_db := (js_db s)\<lparr>db_jobs := (db_jobs (js_db s))(aj_id j \<mapsto> job_row_of j)\<rparr>,
              js_ids := (if aj_id j \<in> set (js_ids s) then js_ids s else insort (aj_id j) (js_ids s)),
              js_reservations := reserved, js_claims := claims\<rparr>))"

text \<open>Deleting a row takes along everything that references it.\<close>

definition delete_stored_job :: "job_store \<Rightarrow> string \<Rightarrow> job_store" where
  "delete_stored_job s i =
     s\<lparr>js_db := delete_job (js_db s) i,
       js_ids := filter (\<lambda>k. k \<noteq> i) (js_ids s),
       js_reservations := filter (\<lambda>(_, k). k \<noteq> i) (js_reservations s),
       js_claims := filter (\<lambda>(_, k). k \<noteq> i) (js_claims s)\<rparr>"

section \<open>Creating a job\<close>

definition create_job ::
  "store_checks \<Rightarrow> bool \<Rightarrow> transition_ids \<Rightarrow> stored_job \<Rightarrow> job_store \<Rightarrow> store_failure + job_store \<times> stored_job" where
  "create_job K unique_ticket ids job s =
     (if maintenance_active s
      then Inl (JobMaintenanceError ''Cursor jobs are temporarily unavailable during job deletion'')
      else if db_jobs (js_db s) (aj_id job) \<noteq> None
      then Inl (StoreFailure (StoreJobError (JobValidationError
             (aj_id job @ ''.json: Cursor job already exists''))))
      else
        rbind (normalized K job) (\<lambda>c.
        if aj_revision c \<noteq> 0
        then Inl (StoreFailure (StoreJobError (JobValidationError ''new Cursor job revision must be zero'')))
        else
          let owner = (case ticket_identity c of
                 None \<Rightarrow> None
               | Some t \<Rightarrow> map_of (js_reservations s) (''ticket'', join_identity t)) in
          if unique_ticket \<and> owner \<noteq> None then Inl (ActiveTicketConflict (the owner))
          else
            rbind (job_failed (ck_artifacts K None c)) (\<lambda>_.
            rbind (job_failed (ck_quarantine K c ''target'')) (\<lambda>_.
            rbind (job_failed (ck_quarantine K c ''worktree'')) (\<lambda>_.
            rbind (job_failed (ck_quarantine_rows K c ''target'')) (\<lambda>_.
            rbind (job_failed (ck_quarantine_rows K c ''worktree'')) (\<lambda>_.
            rbind (write_job s c) (\<lambda>s'.
            let command = \<lparr>cc_job_id = aj_id c, cc_expected_revision = 0,
                  cc_command_id = ''store.create:'' @ aj_id c, cc_kind = ''admit''\<rparr> in
            if load_command_event (js_db s') (cc_command_id command) \<noteq> None
            then Inl (SqliteIntegrityError ''UNIQUE constraint failed: events.command_id'')
            else
              rbind (job_failed (record_transition (js_db s') command
                       \<lparr>cd_job = job_row_of c, cd_effects = [], cd_event_kind = ''admit'',
                        cd_event_payload = []\<rparr> ids)) (\<lambda>db.
                Inr (s'\<lparr>js_db := db\<rparr>, c))))))))))"

section \<open>Admission up to the capacity\<close>

definition store_jobs :: "job_store \<Rightarrow> store_failure + stored_job list" where
  "store_jobs s = job_failed (read_all (js_db s) (js_ids s))"

fun admission_value :: "admission_state \<Rightarrow> string" where
  "admission_value AdmWaiting = ''waiting''"
| "admission_value AdmHeld = ''held''"
| "admission_value AdmReleased = ''released''"

abbreviation admission_of :: "stored_job \<Rightarrow> string" where
  "admission_of j \<equiv> admission_state_text (agent_part j)"

definition set_participant :: "participant_lifecycle \<Rightarrow> stored_job \<Rightarrow> stored_job" where
  "set_participant l j =
     (let c = pl_creation l in
      j\<lparr>aj_participant := (aj_participant j)
          \<lparr>participant_admission_state := Some (admission_value (pl_admission l)),
           participant_creation_state := Some (creation_state_value (pc_state c)),
           participant_creation_participant := map_option workflow_participant_value (pc_participant c),
           participant_creation_target := pc_target c,
           participant_creation_label := pc_label c,
           participant_creation_workspace_id := pc_workspace_id c,
           participant_creation_pane_id := pc_pane_id c\<rparr>\<rparr>)"

definition evolve_participant ::
  "participant_lifecycle \<Rightarrow> stored_job \<Rightarrow> job_error + stored_job" where
  "evolve_participant l j = evolve_job None (set_participant l) j"

text \<open>Admitting one job after the other; the jobs were all read before.\<close>

fun admit_jobs :: "job_store \<Rightarrow> stored_job list \<Rightarrow> store_failure + job_store \<times> stored_job list" where
  "admit_jobs s [] = Inr (s, [])"
| "admit_jobs s (j # js) =
     rbind (job_failed (job_participant_lifecycle (agent_part j))) (\<lambda>l.
     rbind (job_failed (map_err workflow_failure (admit_participant l))) (\<lambda>l'.
     rbind (job_failed (evolve_participant l' j)) (\<lambda>c.
     rbind (write_job s c) (\<lambda>s'.
     rbind (admit_jobs s' js) (\<lambda>(t, cs). Inr (t, c # cs))))))"

definition claim_participant_capacity ::
  "int \<Rightarrow> job_store \<Rightarrow> store_failure + job_store \<times> stored_job list" where
  "claim_participant_capacity limit s =
     (if limit \<le> 0
      then Inl (StoreFailure (StoreJobError (JobValidationError ''participant capacity must be positive'')))
      else
        rbind (store_jobs s) (\<lambda>jobs.
        let free = limit - int (length (filter (\<lambda>j. admission_of j = ''held'') jobs)) in
        if free \<le> 0 then Inr (s, [])
        else
          let waiting = sort_key aj_created_at
                (filter (\<lambda>j. admission_of j = ''waiting'' \<and> aj_status j = JsQueued) jobs) in
          admit_jobs s (take (nat free) waiting)))"

definition ticket_reservation_owner :: "string list \<Rightarrow> job_store \<Rightarrow> string option" where
  "ticket_reservation_owner identity s = map_of (js_reservations s) (''ticket'', join_identity identity)"

section \<open>Grouped answers\<close>

text \<open>An update of a job that is checked like any other, written without an event.\<close>

definition staged_update ::
  "store_checks \<Rightarrow> stored_job \<Rightarrow> stored_job \<Rightarrow> store_failure + stored_job" where
  "staged_update K current candidate =
     rbind (normalized K candidate) (\<lambda>c.
     rbind (job_failed (validate_transition (\<lambda>_. validate_invariants True (full_part c))
              (agent_part current) (agent_part c))) (\<lambda>_. Inr c))"

fun write_children :: "store_checks \<Rightarrow> job_store \<Rightarrow> stored_job list \<Rightarrow> store_failure + job_store" where
  "write_children K s [] = Inr s"
| "write_children K s (child # children) =
     rbind (normalized K child) (\<lambda>c.
     if aj_revision c \<noteq> 0
     then Inl (StoreFailure (StoreJobError (JobValidationError
            ''new grouped child revision must be zero'')))
     else
       rbind (job_failed (ck_artifacts K None c)) (\<lambda>_.
       rbind (write_job s c) (\<lambda>s'. write_children K s' children)))"

definition stage_grouped_children ::
  "store_checks \<Rightarrow> string \<Rightarrow> job_command \<Rightarrow> stored_job list \<Rightarrow> job_store \<Rightarrow>
   store_failure + job_store \<times> stored_job option" where
  "stage_grouped_children K coordinator command children s =
     (if maintenance_active s
      then Inl (JobMaintenanceError ''Cursor jobs are temporarily unavailable during job deletion'')
      else case db_jobs (js_db s) coordinator of
        None \<Rightarrow> Inl (StoreFailure (JobFileNotFound coordinator))
      | Some row \<Rightarrow>
          rbind (job_failed (read_record (jr_body row))) (\<lambda>current.
          rbind (job_failed (command current)) (\<lambda>candidate.
          case candidate of
            None \<Rightarrow> Inr (s, None)
          | Some d \<Rightarrow>
              rbind (staged_update K current d) (\<lambda>c.
              rbind (job_failed (ck_artifacts K (Some current) c)) (\<lambda>_.
              rbind (write_job s c) (\<lambda>s'.
              rbind (write_children K s' children) (\<lambda>t. Inr (t, Some c))))))))"

section \<open>Updates with a reservation, and typed commands\<close>

text \<open>\<open>reserve_target\<close> and \<open>reserve_worktree\<close>: the evidence is checked right after the artifacts.\<close>

definition reserved_artifacts ::
  "store_checks \<Rightarrow> string option \<Rightarrow> stored_job \<Rightarrow> stored_job \<Rightarrow> job_error + unit" where
  "reserved_artifacts K reservation current c =
     rbind (ck_artifacts K (Some current) c) (\<lambda>_.
       case reservation of
         None \<Rightarrow> Inr ()
       | Some kind \<Rightarrow> rbind (ck_quarantine K c kind) (\<lambda>_. ck_quarantine_rows K c kind))"

definition update_job ::
  "store_checks \<Rightarrow> string option \<Rightarrow> update_call \<Rightarrow> job_store \<Rightarrow>
   store_failure + job_store \<times> stored_job option" where
  "update_job K reservation call s =
     map_err StoreFailure (store_transaction (ck_legacy K) (reserved_artifacts K reservation) s call)"

text \<open>\<open>JobStore.apply\<close>: one typed command with its event and effects.\<close>

record typed_command =
  tc_command :: coordinator_command
  tc_decide :: "stored_job \<Rightarrow> job_error + stored_job coordinator_decision option"
  tc_reservation :: "string option"
  tc_reject :: bool
  tc_ids :: transition_ids

definition apply_typed ::
  "store_checks \<Rightarrow> typed_command \<Rightarrow> job_store \<Rightarrow> store_failure + job_store \<times> stored_job option" where
  "apply_typed K tc s =
     (let db = js_db s; c = tc_command tc;
          commit = (\<lambda>current decide. map_err StoreFailure
            (apply_command (\<lambda>_. prepare_candidate (ck_legacy K) (reserved_artifacts K (tc_reservation tc)) current)
               decide False db c (tc_ids tc))) in
      if tc_reject tc \<and> maintenance_active s then Inr (s, None)
      else case load_command_event db (cc_command_id c) of
        Some e \<Rightarrow>
          rbind (map_err StoreFailure (apply_command (\<lambda>_ r. Inr r) (\<lambda>_. None) False db c (tc_ids tc)))
            (\<lambda>(db', r). rbind (case r of
                None \<Rightarrow> Inr None
              | Some row \<Rightarrow> rbind (job_failed (read_record (jr_body row))) (\<lambda>j. Inr (Some j))) (\<lambda>j. Inr (s, j)))
      | None \<Rightarrow>
          (case db_jobs db (cc_job_id c) of
             None \<Rightarrow> Inl (StoreFailure (JobFileNotFound (cc_job_id c)))
           | Some row \<Rightarrow>
               rbind (job_failed (read_record (jr_body row))) (\<lambda>current.
               if aj_revision current \<noteq> cc_expected_revision c then Inr (s, None)
               else
                 rbind (job_failed (tc_decide tc current)) (\<lambda>d.
                 rbind (commit current (\<lambda>_. d)) (\<lambda>(db', r).
                   case r of
                     None \<Rightarrow> Inr (s\<lparr>js_db := db'\<rparr>, None)
                   | Some saved \<Rightarrow>
                       rbind (job_failed (save_job s (jr_body saved))) (\<lambda>(reserved, claims).
                         Inr (s\<lparr>js_db := db', js_reservations := reserved, js_claims := claims\<rparr>,
                              Some (jr_body saved))))))))"

section \<open>Follow-ups\<close>

abbreviation unavailable :: "string \<Rightarrow> store_failure + 'a" where
  "unavailable m \<equiv> Inl (FollowUpUnavailable m)"

definition validate_follow_up_source ::
  "store_checks \<Rightarrow> stored_job \<Rightarrow> time option \<Rightarrow> store_failure + unit" where
  "validate_follow_up_source K parent expected =
     (let c = aj_checkout parent; name = ''Cursor job '' @ aj_id parent in
      if aj_status parent \<noteq> JsCompleted
      then unavailable (name @ '' is not completed and cannot be followed up'')
      else if expected \<noteq> None \<and> aj_completed_at parent \<noteq> expected
      then unavailable (name @ '' completion identity has changed'')
      else if \<not> (otruthy (row_repository c) \<and> otruthy (worktree_branch c) \<and> otruthy (worktree_path c)
                \<and> otruthy (worktree_workspace_id c) \<and> otruthy (worktree_root_pane_id c))
      then unavailable (name @ '' has no complete isolated workspace to reuse'')
      else if worktree_provision_state c \<notin> {Some ''ready'', Some ''retained''}
      then unavailable (name @ '' worktree is not in a reusable state'')
      else if has_uncertain_operation (reserving_job.truncate parent)
              \<or> otruthy (rj_manual_reconcile_operation parent)
              \<or> target_release_pending (aj_cleanup parent)
              \<or> cancellation_reconciliation_pending (aj_cleanup parent)
      then unavailable (name @ '' is still being reconciled'')
      else case (ck_resolve K (the (row_repository c)), ck_resolve K (the (worktree_path c))) of
        (Some repository, Some checkout) \<Rightarrow>
          if checkout = repository then unavailable (name @ '' used the shared repository clone'')
          else Inr ()
      | _ \<Rightarrow> unavailable (name @ '' checkout path is invalid''))"

definition validate_follow_up_event ::
  "stored_job \<Rightarrow> stored_job \<Rightarrow> int \<Rightarrow> time option \<Rightarrow> store_failure + unit" where
  "validate_follow_up_event parent child rev_expected expected =
     rbind (job_failed (job_lifecycle_of (agent_part child))) (\<lambda>cl.
     if lifecycle_state cl \<noteq> JsQueued
     then Inl (StoreFailure (StoreJobError (JobValidationError ''follow-up child must begin queued'')))
     else case aj_completed_at parent of
       None \<Rightarrow> Inl StoreAssertionError
     | Some at_parent \<Rightarrow>
         rbind (job_failed (job_lifecycle_of (agent_part parent))) (\<lambda>pl.
         rbind (job_failed (map_err violation_failure (apply_follow_up pl
                  \<lparr>fu_parent_revision = rev_expected,
                   fu_parent_completed_at = (case expected of None \<Rightarrow> at_parent | Some e \<Rightarrow> e),
                   fu_child = cl\<rparr>))) (\<lambda>_. Inr ())))"

text \<open>The columns a child shares with its parent, and the message for each.\<close>

definition inherits_exactly :: "stored_job \<Rightarrow> stored_job \<Rightarrow> store_failure + unit" where
  "inherits_exactly parent child =
     (let invalid = (\<lambda>m. Inl (StoreFailure (StoreJobError (JobValidationError m))));
          field = (\<lambda>f :: checkout_row \<Rightarrow> string option. f (aj_checkout child) \<noteq> f (aj_checkout parent)) in
      if aj_parent_job_id child \<noteq> Some (aj_id parent)
      then invalid ''follow-up child must reference its parent job id''
      else if aj_harness_kind child \<noteq> aj_harness_kind parent
      then invalid ''follow-up child must inherit parent harness_kind exactly''
      else if aj_issue_provider child \<noteq> aj_issue_provider parent
      then invalid ''follow-up child must inherit parent issue_provider exactly''
      else if field row_repository
      then invalid ''follow-up child must inherit parent repository exactly''
      else if field worktree_branch
      then invalid ''follow-up child must inherit parent worktree_branch exactly''
      else if field worktree_path
      then invalid ''follow-up child must inherit parent worktree_path exactly''
      else if field worktree_workspace_id
      then invalid ''follow-up child must inherit parent worktree_workspace_id exactly''
      else if field worktree_root_pane_id
      then invalid ''follow-up child must inherit parent worktree_root_pane_id exactly''
      else Inr ())"

text \<open>A reservation conflict or quarantine evidence against the child means a busy checkout.\<close>

definition checkout_busy :: "stored_job \<Rightarrow> store_failure \<Rightarrow> store_failure" where
  "checkout_busy parent e =
     (case e of
        StoreFailure (StoreJobError (JobValidationError m)) \<Rightarrow>
          if is_part ''reserved by both'' m \<or> is_part ''blocked by unresolved quarantine evidence'' m
          then FollowUpCheckoutBusy
            ((case worktree_path (aj_checkout parent) of None \<Rightarrow> ''None'' | Some path \<Rightarrow> path) @ '' is busy with another Cursor job'')
          else e
      | _ \<Rightarrow> e)"

definition create_follow_up ::
  "store_checks \<Rightarrow> string \<Rightarrow> (stored_job \<Rightarrow> job_error + stored_job) \<Rightarrow> int \<Rightarrow> time option \<Rightarrow>
   job_store \<Rightarrow> store_failure + job_store \<times> stored_job" where
  "create_follow_up K parent_id build rev_expected expected s =
     (if maintenance_active s
      then Inl (JobMaintenanceError ''Cursor follow-ups are temporarily unavailable during job deletion'')
      else case db_jobs (js_db s) parent_id of
        None \<Rightarrow> unavailable (''Cursor job '' @ parent_id @ '' is no longer available'')
      | Some row \<Rightarrow>
          rbind (job_failed (read_record (jr_body row))) (\<lambda>parent.
          rbind (validate_follow_up_source K parent expected) (\<lambda>_.
          rbind (job_failed (build parent)) (\<lambda>child.
          rbind (validate_follow_up_event parent child rev_expected expected) (\<lambda>_.
          rbind (inherits_exactly parent child) (\<lambda>_.
          if db_jobs (js_db s) (aj_id child) \<noteq> None
          then Inl (StoreFailure (StoreJobError (JobValidationError
                 (aj_id child @ ''.json: Cursor job already exists''))))
          else
            map_err (checkout_busy parent)
              (rbind (job_failed (ck_quarantine K child ''worktree'')) (\<lambda>_.
               rbind (job_failed (ck_quarantine_rows K child ''worktree'')) (\<lambda>_.
               rbind (normalized K child) (\<lambda>c.
               rbind (write_job s c) (\<lambda>s'. Inr (s', c))))))))))))"

section \<open>Deleting jobs\<close>

definition must_retain :: "stored_job \<Rightarrow> bool" where
  "must_retain j \<longleftrightarrow>
     has_uncertain_operation (reserving_job.truncate j)
     \<or> target_release_pending (aj_cleanup j) \<or> cancellation_reconciliation_pending (aj_cleanup j)
     \<or> otruthy (rj_manual_reconcile_operation j) \<or> rj_manual_inspection_required j
     \<or> worktree_provision_state (aj_checkout j) \<in> {Some ''quarantined'', Some ''manual_required''}
     \<or> rj_pull_request_worktree_state j = Some ''quarantined''"

definition prunable :: "time \<Rightarrow> stored_job \<Rightarrow> bool" where
  "prunable cutoff j \<longleftrightarrow>
     aj_status j \<in> TERMINAL_STATUSES \<and> delivered (job_delivery j)
     \<and> (case aj_completed_at j of None \<Rightarrow> False | Some c \<Rightarrow> c < cutoff) \<and> \<not> must_retain j"

definition prune :: "time \<Rightarrow> time \<Rightarrow> job_store \<Rightarrow> store_failure + job_store \<times> string list" where
  "prune now retention s =
     (if maintenance_active s then Inr (s, [])
      else rbind (store_jobs s) (\<lambda>jobs.
        let removed = map aj_id (filter (prunable (now - retention)) jobs) in
        Inr (foldl delete_stored_job s removed, removed)))"

section \<open>The maintenance fence\<close>

text \<open>The argument tells of an existing lease whether its owner is alive, if that can be known.\<close>

fun stage_jobs ::
  "store_checks \<Rightarrow> job_command \<Rightarrow> job_store \<Rightarrow> stored_job list \<Rightarrow>
   store_failure + job_store \<times> stored_job list" where
  "stage_jobs K stage s [] = Inr (s, [])"
| "stage_jobs K stage s (j # js) =
     rbind (job_failed (stage j)) (\<lambda>candidate.
     rbind (case candidate of
              None \<Rightarrow> Inr (s, j)
            | Some d \<Rightarrow> rbind (staged_update K j d) (\<lambda>c. rbind (write_job s c) (\<lambda>s'. Inr (s', c)))) (\<lambda>(s', j').
     rbind (stage_jobs K stage s' js) (\<lambda>(t, staged). Inr (t, j' # staged))))"

definition begin_maintenance ::
  "store_checks \<Rightarrow> maintenance_lease \<Rightarrow> job_command \<Rightarrow> (maintenance_lease \<Rightarrow> bool option) \<Rightarrow> job_store \<Rightarrow>
   store_failure + job_store \<times> stored_job list" where
  "begin_maintenance K lease stage owner_alive s =
     (let disposition = (case js_maintenance s of None \<Rightarrow> Some False | Some l \<Rightarrow> owner_alive l) in
      if disposition = Some True
      then Inl (JobMaintenanceError ''another Cursor job deletion is already in progress'')
      else if disposition = None
      then Inl (JobMaintenanceError
             (''an existing Cursor job deletion owner cannot be verified; ''
              @ ''retry after checking the recorded process''))
      else if ck_unresolved K \<noteq> []
      then Inl (JobMaintenanceError
             (''Cursor jobs could not be deleted safely: quarantine evidence ''
              @ ''requires manual inspection: '' @ join_comma (ck_unresolved K)))
      else if ml_owner_pid lease \<le> 0
      then Inl (SqliteIntegrityError ''CHECK constraint failed: owner_pid > 0'')
      else
        rbind (store_jobs s) (\<lambda>jobs. stage_jobs K stage (s\<lparr>js_maintenance := Some lease\<rparr>) jobs))"

definition abort_maintenance :: "string \<Rightarrow> job_store \<Rightarrow> job_store \<times> bool" where
  "abort_maintenance tok s =
     (case js_maintenance s of
        Some l \<Rightarrow> if ml_token l = tok then (s\<lparr>js_maintenance := None\<rparr>, True) else (s, False)
      | None \<Rightarrow> (s, False))"

definition deletion_reasons :: "stored_job \<Rightarrow> string list" where
  "deletion_reasons j =
     (let w = aj_worker j in
      (if aj_status j \<in> ACTIVE_STATUSES then [''status '' @ job_state_value (aj_status j)] else [])
      @ (if list_ex id [worker_token w \<noteq> None, worker_pid w \<noteq> None, worker_boot_id w \<noteq> None,
                        worker_process_start w \<noteq> None]
         then [''worker ownership remains''] else [])
      @ (if must_retain j then [''recovery or reservation fence remains''] else []))"

fun join_semicolon :: "string list \<Rightarrow> string" where
  "join_semicolon [] = []"
| "join_semicolon [x] = x"
| "join_semicolon (x # xs) = x @ ''; '' @ join_semicolon xs"

definition finalize_maintenance ::
  "store_checks \<Rightarrow> string \<Rightarrow> job_store \<Rightarrow> store_failure + job_store \<times> string list" where
  "finalize_maintenance K tok s =
     (case js_maintenance s of
        None \<Rightarrow> Inl (JobMaintenanceError ''Cursor job deletion lease changed before finalization'')
      | Some lease \<Rightarrow>
          if ml_token lease \<noteq> tok
          then Inl (JobMaintenanceError ''Cursor job deletion lease changed before finalization'')
          else if ck_legacy_records K
          then Inl (JobMaintenanceError
                 (''Cursor jobs could not be deleted safely: legacy source ''
                  @ ''records remain; run job recovery and retry''))
          else
            rbind (store_jobs s) (\<lambda>jobs.
            let evidence = (if ck_unresolved K = [] then []
                  else [''quarantine evidence requires manual inspection: '' @ join_comma (ck_unresolved K)]);
                blockers = evidence
                  @ concat (map (\<lambda>j. case deletion_reasons j of
                        [] \<Rightarrow> [] | reasons \<Rightarrow> [aj_id j @ '': '' @ join_comma reasons]) jobs) in
            if blockers \<noteq> []
            then Inl (JobMaintenanceError
                   (''Cursor jobs could not be deleted safely: '' @ join_semicolon blockers))
            else
              let removed = map aj_id jobs in
              Inr ((foldl delete_stored_job s removed)\<lparr>js_maintenance := None\<rparr>, removed)))"

section \<open>Any operation\<close>

type_synonym follow_up_builder = "stored_job \<Rightarrow> job_error + stored_job"
type_synonym owner_check = "maintenance_lease \<Rightarrow> bool option"

datatype store_op =
    Create bool transition_ids stored_job
  | Update "string option" update_call
  | Apply typed_command
  | Claim int
  | Group string job_command "stored_job list"
  | FollowUp string follow_up_builder int "time option"
  | Prune time time
  | Begin maintenance_lease job_command owner_check
  | Abort string
  | Finalize string

text \<open>An operation that raises is rolled back; the operations of all processes come in some order.\<close>

fun exec_op :: "store_checks \<Rightarrow> store_op \<Rightarrow> job_store \<Rightarrow> store_failure + job_store" where
  "exec_op K (Create unique_ticket ids job) s = rbind (create_job K unique_ticket ids job s) (\<lambda>(t, _). Inr t)"
| "exec_op K (Update reservation call) s = rbind (update_job K reservation call s) (\<lambda>(t, _). Inr t)"
| "exec_op K (Apply tc) s = rbind (apply_typed K tc s) (\<lambda>(t, _). Inr t)"
| "exec_op K (Claim limit) s = rbind (claim_participant_capacity limit s) (\<lambda>(t, _). Inr t)"
| "exec_op K (Group coordinator command children) s =
     rbind (stage_grouped_children K coordinator command children s) (\<lambda>(t, _). Inr t)"
| "exec_op K (FollowUp parent build n completed) s =
     rbind (create_follow_up K parent build n completed s) (\<lambda>(t, _). Inr t)"
| "exec_op K (Prune now retention) s = rbind (prune now retention s) (\<lambda>(t, _). Inr t)"
| "exec_op K (Begin lease stage alive) s = rbind (begin_maintenance K lease stage alive s) (\<lambda>(t, _). Inr t)"
| "exec_op K (Abort tok) s = Inr (fst (abort_maintenance tok s))"
| "exec_op K (Finalize tok) s = rbind (finalize_maintenance K tok s) (\<lambda>(t, _). Inr t)"

definition op_try :: "store_checks \<Rightarrow> job_store \<Rightarrow> store_op \<Rightarrow> job_store" where
  "op_try K s op = (case exec_op K op s of Inl _ \<Rightarrow> s | Inr t \<Rightarrow> t)"

definition run_ops :: "store_checks \<Rightarrow> job_store \<Rightarrow> store_op list \<Rightarrow> job_store" where
  "run_ops K s ops = foldl (op_try K) s ops"

end
