(* ===== verification/Store_Machine.thy ===== *)
theory Store_Machine imports Job_Store begin

text \<open>
  What the store promises for updates by any commands, in any order, some of them failing: the
  records of a job form a history of gated updates with one logged event per revision, and no two
  jobs share a reservation or a delivery claim.
\<close>

section \<open>The gate does not read the event of the record before\<close>

lemma readers_ignore_event [simp]:
  "job_terminal_state (j\<lparr>aj_lifecycle_event := e\<rparr>) = job_terminal_state j"
  "job_terminal_intent_status (j\<lparr>aj_lifecycle_event := e\<rparr>) = job_terminal_intent_status j"
  "job_checkout_operation (j\<lparr>aj_lifecycle_event := e\<rparr>) = job_checkout_operation j"
  "job_fork_operation (j\<lparr>aj_lifecycle_event := e\<rparr>) = job_fork_operation j"
  "job_session_operation (j\<lparr>aj_lifecycle_event := e\<rparr>) = job_session_operation j"
  "job_pane_operation (j\<lparr>aj_lifecycle_event := e\<rparr>) = job_pane_operation j"
  "job_participant_lifecycle (j\<lparr>aj_lifecycle_event := e\<rparr>) = job_participant_lifecycle j"
  "job_plan_approval (j\<lparr>aj_lifecycle_event := e\<rparr>) = job_plan_approval j"
  "job_workflow_state (j\<lparr>aj_lifecycle_event := e\<rparr>) = job_workflow_state j"
  "job_review_state (j\<lparr>aj_lifecycle_event := e\<rparr>) = job_review_state j"
  "job_prompt_operation (j\<lparr>aj_lifecycle_event := e\<rparr>) = job_prompt_operation j"
  "job_cleanup_state (j\<lparr>aj_lifecycle_event := e\<rparr>) = job_cleanup_state j"
  "job_worker_ownership (j\<lparr>aj_lifecycle_event := e\<rparr>) = job_worker_ownership j"
  "admission_state_text (j\<lparr>aj_lifecycle_event := e\<rparr>) = admission_state_text j"
  "holds_participant (j\<lparr>aj_lifecycle_event := e\<rparr>) = holds_participant j"
  by (simp_all add: job_terminal_state_def job_terminal_intent_status_def job_checkout_operation_def
      job_fork_operation_def job_session_operation_def job_pane_operation_def
      job_participant_lifecycle_def job_plan_approval_def job_workflow_state_def job_review_state_def
      job_prompt_operation_def job_cleanup_state_def job_worker_ownership_def
      job_creation_participant_def creation_state_text_def job_approval_question_def
      job_approval_proof_def admission_state_text_def holds_participant_def participant_targets_def Let_def
      cong: option.case_cong)

lemma lifecycle_ignores_event [simp]:
  "job_lifecycle_of (j\<lparr>aj_lifecycle_event := e\<rparr>) = job_lifecycle_of j"
  by (simp add: job_lifecycle_of_def lifecycle_variant_def JobIdentity_of_def Let_def
      cong: option.case_cong job_state.case_cong)

lemma checks_ignore_event [simp]:
  "check_job_identity (b\<lparr>aj_lifecycle_event := e\<rparr>) a = check_job_identity b a"
  "check_job_operations (b\<lparr>aj_lifecycle_event := e\<rparr>) a = check_job_operations b a"
  "check_terminal_settled (b\<lparr>aj_lifecycle_event := e\<rparr>) a tb ta = check_terminal_settled b a tb ta"
  "check_inherited_checkout (b\<lparr>aj_lifecycle_event := e\<rparr>) a = check_inherited_checkout b a"
  "check_revision_and_status (b\<lparr>aj_lifecycle_event := e\<rparr>) a tb ta
   = check_revision_and_status b a tb ta"
  "check_admission (b\<lparr>aj_lifecycle_event := e\<rparr>) a p q = check_admission b a p q"
  "check_held_release (b\<lparr>aj_lifecycle_event := e\<rparr>) a = check_held_release b a"
  "check_job_workflow (b\<lparr>aj_lifecycle_event := e\<rparr>) a = check_job_workflow b a"
  "update_event (b\<lparr>aj_lifecycle_event := e\<rparr>) a = update_event b a"
  "validate_lifecycle_event (b\<lparr>aj_lifecycle_event := e\<rparr>) a ev = validate_lifecycle_event b a ev"
  by (simp_all add: check_job_identity_def check_job_operations_def job_operations_pair_def
      operations_record_def check_terminal_settled_def check_inherited_checkout_def
      checkout_identity_def check_revision_and_status_def check_admission_def yields_cleanly_def
      check_held_release_def check_job_workflow_def update_event_def validate_lifecycle_event_def
      cong: option.case_cong admission_state.case_cong if_cong)

lemma gate_ignores_event [simp]:
  "validate_transition checks (b\<lparr>aj_lifecycle_event := e\<rparr>) a = validate_transition checks b a"
  by (simp add: validate_transition_def check_participants_def)

section \<open>What one transaction does\<close>

lemma read_record_ignores_event [simp]: "read_record (j\<lparr>aj_lifecycle_event := e\<rparr>) = read_record j"
  by (simp add: read_record_def check_voice_question_def check_identity_columns_def
      check_status_columns_def optional_typed_prompt_operation_def with_typed_operations_def
      cong: option.case_cong sum.case_cong job_error.case_cong if_cong)

text \<open>A row of the table is the record \<open>from_dict\<close> makes of it, but for the event.\<close>

definition stored_row_ok :: "stored_job job_row \<Rightarrow> bool" where
  "stored_row_ok r \<longleftrightarrow> jr_revision r = aj_revision (jr_body r)
     \<and> aj_loaded_schema_version (jr_body r) = CURRENT_SCHEMA_VERSION
     \<and> read_record (jr_body r) = Inr ((jr_body r)\<lparr>aj_lifecycle_event := None\<rparr>)"

lemma read_record_no_event: "read_record j = Inr u \<Longrightarrow> aj_lifecycle_event u = None"
  by (auto dest!: read_record_cols)

lemma event_none [simp]: "aj_lifecycle_event u = None \<Longrightarrow> u\<lparr>aj_lifecycle_event := None\<rparr> = u"
  by (cases u) simp

lemma normalized_row_ok:
  assumes "normalize_for_durable_write legacy candidate = Inr u"
  shows "stored_row_ok (job_row_of u)"
proof -
  from assms obtain v w where w: "read_record (v\<lparr>aj_loaded_schema_version := CURRENT_SCHEMA_VERSION\<rparr>) = Inr w"
    and u: "u = w\<lparr>aj_lifecycle_event := aj_lifecycle_event candidate\<rparr>"
    by (auto simp: normalize_for_durable_write_def rbind_Inr_iff Let_def if_Inl_Inr_iff)
  from read_record_cols [OF w] have "aj_loaded_schema_version w = CURRENT_SCHEMA_VERSION" by auto
  with read_record_again [OF w] read_record_no_event [OF w] u show ?thesis
    by (simp add: stored_row_ok_def job_row_of_def)
qed

text \<open>The event a committed update leaves in the log.\<close>

definition update_event_row :: "update_call \<Rightarrow> int \<Rightarrow> event_row" where
  "update_event_row call n =
     \<lparr>ev_event_id = tr_event_id (sc_ids call), ev_command_id = sc_command_id call,
      ev_job_id = sc_job_id call, ev_revision = n, ev_kind = ''store.update'',
      ev_command_kind = ''store.update'', ev_effects = [], ev_payload = [],
      ev_created_at = tr_created_at (sc_ids call)\<rparr>"

lemma prepare_candidate_iff:
  "prepare_candidate legacy artifacts current r = Inr r' \<longleftrightarrow>
     (\<exists>c. normalize_for_durable_write legacy (jr_body r) = Inr c
        \<and> validate_transition (\<lambda>_. validate_invariants True (full_part c)) (agent_part current) (agent_part c) = Inr ()
        \<and> artifacts current c = Inr () \<and> r' = job_row_of c)"
  by (auto simp: prepare_candidate_def rbind_Inr_iff)

lemma apply_command_None:
  assumes "apply_command prepare decide False db c ids = Inr (db', None)"
  shows "db' = db"
proof (cases "load_command_event db (cc_command_id c)")
  case (Some e)
  with assms show ?thesis
    by (auto simp: apply_command_def if_Inl_Inr_iff split: option.splits)
next
  case None
  note ev = None
  show ?thesis
  proof (cases "db_jobs db (cc_job_id c)")
    case None
    with assms ev show ?thesis by (simp add: apply_command_def)
  next
    case (Some current)
    show ?thesis
    proof (cases "jr_revision current = cc_expected_revision c")
      case True
      with assms ev Some show ?thesis
        by (cases "decide current") (simp_all add: apply_command_def rbind_Inr_iff)
    qed (use assms ev Some in \<open>simp add: apply_command_def\<close>)
  qed
qed

lemma apply_command_declined:
  assumes "load_command_event db (cc_command_id c) = None" and "db_jobs db (cc_job_id c) = Some row"
  shows "apply_command prepare (\<lambda>_. None) False db c ids = Inr (db, None)"
  using assms by (simp add: apply_command_def)

lemma commit_update:
  assumes "apply_command (\<lambda>_. prepare_candidate legacy artifacts current)
      (\<lambda>_. Some \<lparr>cd_job = job_row_of cand, cd_effects = [], cd_event_kind = ''store.update'',
         cd_event_payload = []\<rparr>) False db
      \<lparr>cc_job_id = sc_job_id call, cc_expected_revision = n, cc_command_id = sc_command_id call,
       cc_kind = ''store.update''\<rparr> (sc_ids call)
    = Inr (db', Some saved)"
    and "load_command_event db (sc_command_id call) = None"
  shows "prepare_candidate legacy artifacts current (job_row_of cand) = Inr saved
    \<and> db' = db\<lparr>db_events := db_events db @ [update_event_row call (jr_revision saved)],
        db_jobs := (db_jobs db)(sc_job_id call \<mapsto> saved)\<rparr>"
  using assms
  by (auto simp: apply_command_def record_transition_def rbind_Inr_iff map_err_Inr_iff
      if_Inl_Inr_iff Let_def CoordinatorDecision_check_def dict_get_def update_event_row_def
      split: option.splits if_splits)

lemma store_transaction_cases:
  assumes "store_transaction legacy artifacts s call = Inr (s', res)"
  obtains (same) "s' = s" "res \<noteq> None \<Longrightarrow> load_command_event (js_db s) (sc_command_id call) \<noteq> None"
  | (commit) row current cand c reserved claims where
      "db_jobs (js_db s) (sc_job_id call) = Some row" "read_record (jr_body row) = Inr current"
      "sc_command call current = Inr (Some cand)" "res = Some c"
      "normalize_for_durable_write legacy cand = Inr c"
      "validate_transition (\<lambda>_. validate_invariants True (full_part c)) (agent_part current) (agent_part c) = Inr ()"
      "save_job s c = Inr (reserved, claims)"
      "s' = s\<lparr>js_db := (js_db s)\<lparr>db_events := db_events (js_db s) @ [update_event_row call (aj_revision c)],
           db_jobs := (db_jobs (js_db s))(sc_job_id call \<mapsto> job_row_of c)\<rparr>,
         js_reservations := reserved, js_claims := claims\<rparr>"
proof (cases "sc_reject_maintenance call \<and> maintenance_active s")
  case True
  with assms same show thesis by (simp add: store_transaction_def)
next
  case False
  then obtain row current where row: "db_jobs (js_db s) (sc_job_id call) = Some row"
    "read_record (jr_body row) = Inr current"
    using assms by (auto simp: store_transaction_def rbind_Inr_iff map_err_Inr_iff Let_def split: option.splits)
  define run where "run = (\<lambda>decide. apply_command (\<lambda>_. prepare_candidate legacy artifacts current) decide False
    (js_db s) \<lparr>cc_job_id = sc_job_id call, cc_expected_revision = aj_revision current,
      cc_command_id = sc_command_id call, cc_kind = ''store.update''\<rparr> (sc_ids call))"
  have idle: "db = js_db s" if "run (\<lambda>_. None) = Inr (db, r)" for db r
    using that by (auto simp: run_def apply_command_def split: option.splits if_splits)
  define eff where "eff = (\<lambda>c. \<lparr>cd_job = job_row_of c, cd_effects = [], cd_event_kind = ''store.update'',
    cd_event_payload = []\<rparr>)"
  define finish where "finish = (\<lambda>db (r :: stored_job job_row option). case r of None \<Rightarrow> Inr (s\<lparr>js_db := db\<rparr>, None)
    | Some saved \<Rightarrow> rbind (map_err StoreJobError (save_job s (jr_body saved))) (\<lambda>(reserved, claims).
        Inr (s\<lparr>js_db := db, js_reservations := reserved, js_claims := claims\<rparr>, Some (jr_body saved))))"
  have live: "(if load_command_event (js_db s) (sc_command_id call) \<noteq> None
      then rbind (run (\<lambda>_. None)) (\<lambda>(db, r). Inr (s\<lparr>js_db := db\<rparr>, map_option jr_body r))
      else rbind (map_err StoreJobError (sc_command call current)) (\<lambda>candidate.
        rbind (run (\<lambda>_. map_option eff candidate)) (\<lambda>(db, r). finish db r))) = Inr (s', res)"
    using assms False row
    by (simp add: store_transaction_def run_def eff_def finish_def Let_def cong: if_cong)
  show thesis
  proof (cases "load_command_event (js_db s) (sc_command_id call)")
    case (Some e)
    with live obtain db r where "run (\<lambda>_. None) = Inr (db, r)" "s' = s\<lparr>js_db := db\<rparr>"
      by (auto simp: rbind_Inr_iff)
    with idle have "s' = s" by simp
    then show thesis by (rule same) (simp add: Some)
  next
    case None
    with live obtain candidate db r where
      cand: "sc_command call current = Inr candidate"
      and r: "run (\<lambda>_. map_option eff candidate) = Inr (db, r)"
      and rest: "finish db r = Inr (s', res)"
      by (auto simp: rbind_Inr_iff map_err_Inr_iff)
    show thesis
    proof (cases r)
      case None
      then have "db = js_db s"
        using r unfolding run_def by (blast dest: apply_command_None)
      with None rest show thesis by (intro same) (auto simp: finish_def)
    next
      case (Some saved)
      have "run (\<lambda>_. None) = Inr (js_db s, None)"
        unfolding run_def using None row(1) by (simp add: apply_command_declined)
      with r Some obtain cd where cd: "candidate = Some cd" by (cases candidate) auto
      from commit_update [OF _ None] r [unfolded run_def cd Some eff_def option.map]
      have p: "prepare_candidate legacy artifacts current (job_row_of cd) = Inr saved"
        and db: "db = (js_db s)\<lparr>db_events := db_events (js_db s) @ [update_event_row call (jr_revision saved)],
           db_jobs := (db_jobs (js_db s))(sc_job_id call \<mapsto> saved)\<rparr>" by auto
      from p obtain c where c: "normalize_for_durable_write legacy cd = Inr c" "saved = job_row_of c"
        "validate_transition (\<lambda>_. validate_invariants True (full_part c)) (agent_part current) (agent_part c) = Inr ()"
        by (auto simp: prepare_candidate_iff job_row_of_def)
      from rest Some c(2) obtain reserved claims where "save_job s c = Inr (reserved, claims)"
        "s' = s\<lparr>js_db := db, js_reservations := reserved, js_claims := claims\<rparr>" "res = Some c"
        by (auto simp: finish_def rbind_Inr_iff map_err_Inr_iff job_row_of_def)
      with commit row cand cd c db show thesis by (simp add: job_row_of_def)
    qed
  qed
qed

section \<open>Histories of stored jobs\<close>

definition store_ok :: "job_store \<Rightarrow> bool" where
  "store_ok s \<longleftrightarrow> (\<forall>i r. db_jobs (js_db s) i = Some r \<longrightarrow> stored_row_ok r \<and> aj_id (jr_body r) = i)"

lemma parts_of_stored [simp]:
  "base_job (full_part j) = agent_part j"
  "agent_part (j\<lparr>aj_lifecycle_event := e\<rparr>) = (agent_part j)\<lparr>aj_lifecycle_event := e\<rparr>"
  "aj_revision (full_part j) = aj_revision j" "aj_id (full_part j) = aj_id j"
  by (simp_all add: agent_job.defs full_job.defs)

lemma full_update_revision:
  assumes "full_update b a"
  shows "aj_revision a = aj_revision b + 1 \<and> aj_id a = aj_id b"
proof -
  from full_update_gated [OF assms] have "check_job_identity (base_job b) (base_job a) = Inr ()"
    and "\<exists>tb ta. check_revision_and_status (base_job b) (base_job a) tb ta = Inr ()"
    by (blast elim: validate_transition_parts)+
  then show ?thesis
    by (auto simp: check_job_identity_iff check_revision_and_status_def if_Inl_Inr_iff agent_job.defs)
qed

text \<open>One call either leaves everything as it is or commits one gated update of its job.\<close>

lemma store_try_cases:
  assumes "store_ok s"
  obtains (same) "store_try legacy artifacts s call = s"
  | (commit) row c where
      "db_jobs (js_db s) (sc_job_id call) = Some row"
      "full_update (full_part (jr_body row)) (full_part c)" "stored_row_ok (job_row_of c)"
      "db_jobs (js_db (store_try legacy artifacts s call))
       = (db_jobs (js_db s))(sc_job_id call \<mapsto> job_row_of c)"
      "db_events (js_db (store_try legacy artifacts s call))
       = db_events (js_db s) @ [update_event_row call (aj_revision c)]"
      "\<exists>reserved claims. save_job s c = Inr (reserved, claims)
         \<and> js_reservations (store_try legacy artifacts s call) = reserved
         \<and> js_claims (store_try legacy artifacts s call) = claims"
proof (cases "store_transaction legacy artifacts s call")
  case (Inl e)
  with same show thesis by (simp add: store_try_def)
next
  case (Inr b)
  obtain s' res where b: "b = (s', res)" by (cases b) simp
  with Inr have try_s: "store_try legacy artifacts s call = s'" by (simp add: store_try_def)
  from Inr b have "store_transaction legacy artifacts s call = Inr (s', res)" by simp
  then show thesis
  proof (cases rule: store_transaction_cases)
    case same
    with that(1) try_s show thesis by simp
  next
    case (commit row current cand c reserved claims)
    from assms commit(1) have "stored_row_ok row" by (auto simp: store_ok_def)
    with commit(2) have "current = (jr_body row)\<lparr>aj_lifecycle_event := None\<rparr>" by (simp add: stored_row_ok_def)
    with commit(6) have "full_update (full_part (jr_body row)) (full_part c)" by (simp add: full_update_def)
    from that(2) [OF commit(1) this normalized_row_ok [OF commit(5)]] commit(7,8) try_s show thesis by simp
  qed
qed

lemma store_ok_try: "store_ok s \<Longrightarrow> store_ok (store_try legacy artifacts s call)"
proof -
  assume ok: "store_ok s"
  then show ?thesis
  proof (cases rule: store_try_cases [of s legacy artifacts call])
    case same
    with ok show ?thesis by simp
  next
    case (commit row c)
    from ok commit(1) have "aj_id (jr_body row) = sc_job_id call" by (auto simp: store_ok_def)
    with commit(2) have "aj_id c = sc_job_id call" by (auto dest: full_update_revision)
    with ok commit(3,4) show ?thesis by (auto simp: store_ok_def job_row_of_def)
  qed
qed

text \<open>The revisions of a job in the event log.\<close>

definition logged_revisions :: "job_store \<Rightarrow> string \<Rightarrow> int list" where
  "logged_revisions s i = map ev_revision (filter (\<lambda>e. ev_job_id e = i) (db_events (js_db s)))"

lemma store_step:
  assumes "store_ok s" and "db_jobs (js_db s) i = Some r"
  shows "\<exists>r'. db_jobs (js_db (store_try legacy artifacts s call)) i = Some r'
    \<and> (r' = r \<and> logged_revisions (store_try legacy artifacts s call) i = logged_revisions s i
       \<or> full_update (full_part (jr_body r)) (full_part (jr_body r')) \<and> stored_row_ok r'
         \<and> logged_revisions (store_try legacy artifacts s call) i = logged_revisions s i @ [jr_revision r'])"
  using assms(1)
proof (cases rule: store_try_cases [of s legacy artifacts call])
  case same
  with assms(2) show ?thesis by simp
next
  case (commit row c)
  with assms(2) show ?thesis
    by (cases "sc_job_id call = i") (auto simp: logged_revisions_def update_event_row_def job_row_of_def)
qed

lemma run_store_Cons [simp]:
  "run_store legacy artifacts s [] = s"
  "run_store legacy artifacts s (c # cs) = run_store legacy artifacts (store_try legacy artifacts s c) cs"
  by (simp_all add: run_store_def)

lemma full_history_Cons: "full_history (b # a # h) \<longleftrightarrow> full_update b a \<and> full_history (a # h)"
  by (simp add: full_history_def)

lemma store_history:
  assumes "store_ok s" and "db_jobs (js_db s) i = Some r"
  shows "\<exists>h r'. full_history (full_part (jr_body r) # h)
    \<and> db_jobs (js_db (run_store legacy artifacts s calls)) i = Some r'
    \<and> full_part (jr_body r') = last (full_part (jr_body r) # h) \<and> stored_row_ok r'
    \<and> jr_revision r' = jr_revision r + int (length h)
    \<and> logged_revisions (run_store legacy artifacts s calls) i
      = logged_revisions s i @ [jr_revision r + 1 .. jr_revision r']"
  using assms
proof (induction calls arbitrary: s r)
  case Nil
  then show ?case
    by (intro exI [of _ "[]"] exI [of _ r]) (simp add: full_history_def store_ok_def)
next
  case (Cons call calls)
  let ?t = "store_try legacy artifacts s call"
  from Cons.prems have rr: "jr_revision r = aj_revision (jr_body r)" by (auto simp: store_ok_def stored_row_ok_def)
  from store_step [OF Cons.prems] obtain q where q: "db_jobs (js_db ?t) i = Some q"
    and or: "q = r \<and> logged_revisions ?t i = logged_revisions s i
      \<or> full_update (full_part (jr_body r)) (full_part (jr_body q)) \<and> stored_row_ok q
        \<and> logged_revisions ?t i = logged_revisions s i @ [jr_revision q]" by blast
  from Cons.IH [OF store_ok_try [OF Cons.prems(1)] q] obtain h r' where
    h: "full_history (full_part (jr_body q) # h)"
      "db_jobs (js_db (run_store legacy artifacts ?t calls)) i = Some r'"
      "full_part (jr_body r') = last (full_part (jr_body q) # h)" "stored_row_ok r'"
      "jr_revision r' = jr_revision q + int (length h)"
      "logged_revisions (run_store legacy artifacts ?t calls) i
       = logged_revisions ?t i @ [jr_revision q + 1 .. jr_revision r']" by blast
  from or show ?case
  proof
    assume "q = r \<and> logged_revisions ?t i = logged_revisions s i"
    with h show ?thesis by auto
  next
    assume u: "full_update (full_part (jr_body r)) (full_part (jr_body q)) \<and> stored_row_ok q
      \<and> logged_revisions ?t i = logged_revisions s i @ [jr_revision q]"
    then have rev: "jr_revision q = jr_revision r + 1"
      using rr by (auto dest!: full_update_revision simp: stored_row_ok_def)
    have "[jr_revision r + 1 .. jr_revision r'] = jr_revision q # [jr_revision q + 1 .. jr_revision r']"
      using rev h(5) by (simp add: upto_rec1)
    with h u rev show ?thesis
      by (intro exI [of _ "full_part (jr_body q) # h"] exI [of _ r']) (simp add: full_history_Cons)
  qed
qed

text \<open>
  C8. Through any sequence of \<open>store.update\<close> and \<open>update_unless_maintenance\<close> calls, on any jobs,
  whatever their commands do and however many of them fail, the records of a job form one history
  of updates accepted by the gate with its invariants, and the event log gains exactly one entry
  for each new revision, in order. (The operations that write revisions outside of \<open>update\<close>, among
  them \<open>claim_participant_capacity\<close>, are not part of these runs: they log no event.)
\<close>

theorem stored_jobs_have_gated_histories:
  assumes "store_ok s" and "db_jobs (js_db s) i = Some r"
  shows "\<exists>h r'. full_history (full_part (jr_body r) # h)
    \<and> db_jobs (js_db (run_store legacy artifacts s calls)) i = Some r'
    \<and> full_part (jr_body r') = last (full_part (jr_body r) # h)
    \<and> jr_revision r' = jr_revision r + int (length h)
    \<and> logged_revisions (run_store legacy artifacts s calls) i
      = logged_revisions s i @ [jr_revision r + 1 .. jr_revision r']"
  using store_history [OF assms, of legacy artifacts calls] by blast

section \<open>Exclusive resources\<close>

text \<open>
  The reservation table is exactly what the stored jobs reserve, each resource once, and the claim
  table exactly their delivery claims.
\<close>

definition reserved_by :: "job_store \<Rightarrow> string \<Rightarrow> string \<times> string \<Rightarrow> bool" where
  "reserved_by s i k \<longleftrightarrow>
     (\<exists>r rows. db_jobs (js_db s) i = Some r \<and> reservation_rows (jr_body r) = Inr rows \<and> k \<in> set rows)"

definition claimed_by :: "job_store \<Rightarrow> string \<Rightarrow> string \<Rightarrow> bool" where
  "claimed_by s i tok \<longleftrightarrow>
     (\<exists>r. db_jobs (js_db s) i = Some r \<and> delivery_claim_token (job_delivery (jr_body r)) = Some tok)"

definition tables_exact :: "job_store \<Rightarrow> bool" where
  "tables_exact s \<longleftrightarrow>
     distinct (map fst (js_reservations s)) \<and> (\<forall>k i. (k, i) \<in> set (js_reservations s) \<longleftrightarrow> reserved_by s i k)
     \<and> distinct (map fst (js_claims s)) \<and> (\<forall>tok i. (tok, i) \<in> set (js_claims s) \<longleftrightarrow> claimed_by s i tok)"

lemma insert_reservations_Inr:
  assumes "insert_reservations table i ks = Inr table'" and "distinct (map fst table)"
  shows "distinct (map fst table') \<and> set table' = set table \<union> (\<lambda>k. (k, i)) ` set ks"
  using assms by (induction ks arbitrary: table) (auto simp: if_Inl_Inr_iff)

lemma distinct_map_filter: "distinct (map f xs) \<Longrightarrow> distinct (map f (filter P xs))"
  by (induction xs) auto

lemma save_reservations_Inr:
  assumes "save_reservations table i ks = Inr table'" and "distinct (map fst table)"
  shows "distinct (map fst table')
    \<and> (\<forall>k j. (k, j) \<in> set table' \<longleftrightarrow> (if j = i then k \<in> set ks else (k, j) \<in> set table))"
  using insert_reservations_Inr [OF assms(1) [unfolded save_reservations_def]] assms(2)
  by (auto simp: distinct_map_filter)

lemma save_delivery_claim_Inr:
  assumes "save_delivery_claim table i r = Inr table'" and "distinct (map fst table)"
  shows "distinct (map fst table')
    \<and> (\<forall>t j. (t, j) \<in> set table' \<longleftrightarrow>
         (if j = i then delivery_claim_token r = Some t else (t, j) \<in> set table))"
proof -
  let ?others = "filter (\<lambda>(_, o'). o' \<noteq> i) table"
  have "table' = ?others \<and> delivery_claim_token r = None
    \<or> (\<exists>tok. delivery_claim_token r = Some tok \<and> tok \<notin> fst ` set ?others \<and> table' = (tok, i) # ?others)"
    using assms(1)
    by (cases "delivery_claim_token r") (auto simp: save_delivery_claim_def Let_def if_Inl_Inr_iff)
  then show ?thesis using assms(2) by (auto simp: distinct_map_filter)
qed

lemma tables_exact_try:
  assumes "store_ok s" and "tables_exact s"
  shows "tables_exact (store_try legacy artifacts s call)"
  using assms(1)
proof (cases rule: store_try_cases [of s legacy artifacts call])
  case same
  with assms(2) show ?thesis by simp
next
  case (commit row c)
  let ?t = "store_try legacy artifacts s call"
  from commit(1,2) assms(1) have i: "aj_id c = sc_job_id call"
    by (auto simp: store_ok_def dest: full_update_revision)
  from commit(6) obtain rows where rows: "reservation_rows c = Inr rows"
    and res: "save_reservations (js_reservations s) (aj_id c) rows = Inr (js_reservations ?t)"
    and cl: "save_delivery_claim (js_claims s) (aj_id c) (job_delivery c) = Inr (js_claims ?t)"
    by (auto simp: save_job_def rbind_Inr_iff)
  have "reserved_by ?t j k \<longleftrightarrow> (if j = aj_id c then k \<in> set rows else reserved_by s j k)" for j k
    using commit(4) rows i by (auto simp: reserved_by_def job_row_of_def)
  moreover have "claimed_by ?t j tok
      \<longleftrightarrow> (if j = aj_id c then delivery_claim_token (job_delivery c) = Some tok else claimed_by s j tok)" for j tok
    using commit(4) i by (auto simp: claimed_by_def job_row_of_def)
  ultimately show ?thesis
    using save_reservations_Inr [OF res] save_delivery_claim_Inr [OF cl] assms(2)
    by (simp add: tables_exact_def)
qed

lemma tables_exact_run:
  "store_ok s \<Longrightarrow> tables_exact s \<Longrightarrow> tables_exact (run_store legacy artifacts s calls)"
  by (induction calls arbitrary: s) (simp_all add: store_ok_try tables_exact_try)

lemma tables_exact_exclusive:
  assumes "tables_exact s"
  shows "reserved_by s i k \<Longrightarrow> reserved_by s j k \<Longrightarrow> i = j"
    and "claimed_by s i tok \<Longrightarrow> claimed_by s j tok \<Longrightarrow> i = j"
proof -
  have res: "distinct (map fst (js_reservations s))"
      "\<And>k i. (k, i) \<in> set (js_reservations s) \<longleftrightarrow> reserved_by s i k"
    and cl: "distinct (map fst (js_claims s))"
      "\<And>tok i. (tok, i) \<in> set (js_claims s) \<longleftrightarrow> claimed_by s i tok"
    using assms by (simp_all only: tables_exact_def)
  show "reserved_by s i k \<Longrightarrow> reserved_by s j k \<Longrightarrow> i = j"
    unfolding res(2) [symmetric] by (rule eq_key_imp_eq_value [OF res(1)])
  show "claimed_by s i tok \<Longrightarrow> claimed_by s j tok \<Longrightarrow> i = j"
    unfolding cl(2) [symmetric] by (rule eq_key_imp_eq_value [OF cl(1)])
qed

text \<open>
  After any sequence of store calls the reservation and claim tables hold exactly what the stored
  jobs reserve and claim, and no two jobs share a ticket, a Herdr target, a worktree or a delivery
  claim.
\<close>

theorem resources_are_never_shared:
  assumes "store_ok s" and "tables_exact s"
  shows "tables_exact (run_store legacy artifacts s calls)
    \<and> (reserved_by (run_store legacy artifacts s calls) i k
       \<and> reserved_by (run_store legacy artifacts s calls) j k \<longrightarrow> i = j)
    \<and> (claimed_by (run_store legacy artifacts s calls) i tok
       \<and> claimed_by (run_store legacy artifacts s calls) j tok \<longrightarrow> i = j)"
  using tables_exact_run [OF assms] by (blast intro: tables_exact_exclusive)

end
