(* ===== verification/Store_Operations_Machine.thy ===== *)
theory Store_Operations_Machine imports Store_Operations Store_Machine begin

text \<open>
  What every operation of the store keeps: each moves single jobs by updates the gate accepts,
  creates them at revision zero or deletes settled ones, so the tables stay exact, resources
  exclusive, the capacity bounded and the maintenance fence closed.
\<close>

section \<open>Moves\<close>

text \<open>What the moves see of a store: the rows, the identifiers and the two tables.\<close>

definition tables :: "job_store \<Rightarrow> (string \<rightharpoonup> stored_job job_row) \<times> string list
    \<times> ((string \<times> string) \<times> string) list \<times> (string \<times> string) list" where
  "tables s = (db_jobs (js_db s), js_ids s, js_reservations s, js_claims s)"

abbreviation calm :: "stored_job \<Rightarrow> stored_job" where
  "calm j \<equiv> j\<lparr>aj_lifecycle_event := None\<rparr>"

abbreviation with_id :: "string \<Rightarrow> string list \<Rightarrow> string list" where
  "with_id i ids \<equiv> (if i \<in> set ids then ids else insort i ids)"

text \<open>\<open>P\<close> relates the record before, if there is one, to the one written; \<open>D\<close> holds of deleted ones.\<close>

inductive job_move :: "(stored_job option \<Rightarrow> stored_job \<Rightarrow> bool) \<Rightarrow> (stored_job \<Rightarrow> bool) \<Rightarrow>
    job_store \<Rightarrow> job_store \<Rightarrow> bool"
  for P D where
  idle: "tables t = tables s \<Longrightarrow> job_move P D s t"
| update: "db_jobs (js_db s) (aj_id c) = Some r \<Longrightarrow> full_update (full_part (jr_body r)) (full_part c) \<Longrightarrow>
    stored_row_ok (job_row_of c) \<Longrightarrow> P (Some (calm (jr_body r))) c \<Longrightarrow> save_job s c = Inr (reserved, claims) \<Longrightarrow>
    tables t = ((db_jobs (js_db s))(aj_id c \<mapsto> job_row_of c), js_ids s, reserved, claims) \<Longrightarrow> job_move P D s t"
| create: "stored_row_ok (job_row_of c) \<Longrightarrow> P None c \<Longrightarrow> save_job s c = Inr (reserved, claims) \<Longrightarrow>
    tables t = ((db_jobs (js_db s))(aj_id c \<mapsto> job_row_of c), with_id (aj_id c) (js_ids s), reserved, claims) \<Longrightarrow>
    job_move P D s t"
| delete: "db_jobs (js_db s) i = Some r \<Longrightarrow> D (jr_body r) \<Longrightarrow> tables t = tables (delete_stored_job s i) \<Longrightarrow>
    job_move P D s t"

abbreviation job_moves :: "(stored_job option \<Rightarrow> stored_job \<Rightarrow> bool) \<Rightarrow> (stored_job \<Rightarrow> bool) \<Rightarrow>
    job_store \<Rightarrow> job_store \<Rightarrow> bool" where
  "job_moves P D \<equiv> (job_move P D)\<^sup>*\<^sup>*"

section \<open>Well-formed stores\<close>

definition ids_exact :: "job_store \<Rightarrow> bool" where
  "ids_exact s \<longleftrightarrow> sorted (js_ids s) \<and> distinct (js_ids s) \<and> set (js_ids s) = dom (db_jobs (js_db s))"

definition store_wf :: "job_store \<Rightarrow> bool" where
  "store_wf s \<longleftrightarrow> store_ok s \<and> ids_exact s \<and> tables_exact s"

lemma store_wf_tables:
  assumes "tables t = tables s"
  shows "store_wf t \<longleftrightarrow> store_wf s"
  using assms by (simp add: tables_def store_wf_def store_ok_def ids_exact_def tables_exact_def
      reserved_by_def claimed_by_def)

lemma tables_exact_saved:
  assumes "tables_exact s" and "save_job s c = Inr (reserved, claims)"
    and "db_jobs (js_db t) = (db_jobs (js_db s))(aj_id c \<mapsto> job_row_of c)"
    and "js_reservations t = reserved" and "js_claims t = claims"
  shows "tables_exact t"
proof -
  from assms(2,4,5) obtain rows where rows: "reservation_rows c = Inr rows"
    and res: "save_reservations (js_reservations s) (aj_id c) rows = Inr (js_reservations t)"
    and cl: "save_delivery_claim (js_claims s) (aj_id c) (job_delivery c) = Inr (js_claims t)"
    by (auto simp: save_job_def rbind_Inr_iff)
  have "reserved_by t j k \<longleftrightarrow> (if j = aj_id c then k \<in> set rows else reserved_by s j k)" for j k
    using assms(3) rows by (auto simp: reserved_by_def job_row_of_def)
  moreover have "claimed_by t j tok
      \<longleftrightarrow> (if j = aj_id c then delivery_claim_token (job_delivery c) = Some tok else claimed_by s j tok)" for j tok
    using assms(3) by (auto simp: claimed_by_def job_row_of_def)
  ultimately show ?thesis
    using save_reservations_Inr [OF res] save_delivery_claim_Inr [OF cl] assms(1)
    by (simp add: tables_exact_def)
qed

lemma tables_exact_deleted:
  assumes "tables_exact s"
  shows "tables_exact (delete_stored_job s i)"
proof -
  have "reserved_by (delete_stored_job s i) j k \<longleftrightarrow> j \<noteq> i \<and> reserved_by s j k" for j k
    by (auto simp: reserved_by_def delete_stored_job_def delete_job_def Let_def)
  moreover have "claimed_by (delete_stored_job s i) j tok \<longleftrightarrow> j \<noteq> i \<and> claimed_by s j tok" for j tok
    by (auto simp: claimed_by_def delete_stored_job_def delete_job_def Let_def)
  ultimately show ?thesis
    using assms by (auto simp: tables_exact_def delete_stored_job_def delete_job_def Let_def distinct_map_filter)
qed

lemma store_wf_deleted:
  assumes "store_wf s"
  shows "store_wf (delete_stored_job s i)"
proof -
  from assms have "store_ok (delete_stored_job s i)"
    by (auto simp: store_wf_def store_ok_def delete_stored_job_def delete_job_def Let_def split: if_splits)
  moreover have "ids_exact (delete_stored_job s i)"
    using assms sorted_filter [of "\<lambda>x. x" "js_ids s"]
    by (auto simp: store_wf_def ids_exact_def delete_stored_job_def delete_job_def Let_def)
  ultimately show ?thesis using assms by (simp add: store_wf_def tables_exact_deleted)
qed

lemma store_ok_saved:
  assumes "store_ok s" and "stored_row_ok (job_row_of c)"
    and "db_jobs (js_db t) = (db_jobs (js_db s))(aj_id c \<mapsto> job_row_of c)"
  shows "store_ok t"
  unfolding store_ok_def
proof (intro allI impI)
  fix i r
  assume r: "db_jobs (js_db t) i = Some r"
  show "stored_row_ok r \<and> aj_id (jr_body r) = i"
  proof (cases "i = aj_id c")
    case True
    with r have "r = job_row_of c" by (simp add: assms(3))
    with assms(2) True show ?thesis by (simp add: job_row_of_def)
  next
    case False
    with r have "db_jobs (js_db s) i = Some r" by (simp add: assms(3))
    with assms(1) show ?thesis unfolding store_ok_def by blast
  qed
qed

lemma job_move_wf:
  assumes "job_move P D s t" and "store_wf s"
  shows "store_wf t"
  using assms
proof (cases rule: job_move.cases)
  case idle
  with assms(2) show ?thesis using store_wf_tables by blast
next
  case (update c r reserved claims)
  from update(6) have t: "db_jobs (js_db t) = (db_jobs (js_db s))(aj_id c \<mapsto> job_row_of c)"
    "js_ids t = js_ids s" "js_reservations t = reserved" "js_claims t = claims"
    by (simp_all add: tables_def)
  from assms(2) update(1) have "ids_exact t"
    by (simp add: store_wf_def ids_exact_def t(1,2) insert_absorb domI)
  with store_ok_saved [OF _ update(3) t(1)] tables_exact_saved [OF _ update(5) t(1,3,4)] assms(2)
  show ?thesis by (simp add: store_wf_def)
next
  case (create c reserved claims)
  from create(4) have t: "db_jobs (js_db t) = (db_jobs (js_db s))(aj_id c \<mapsto> job_row_of c)"
    "js_ids t = with_id (aj_id c) (js_ids s)" "js_reservations t = reserved" "js_claims t = claims"
    by (simp_all add: tables_def)
  from assms(2) have "ids_exact t"
    by (cases "aj_id c \<in> dom (db_jobs (js_db s))")
       (simp_all add: store_wf_def ids_exact_def t(1,2) sorted_insort distinct_insort set_insort_key insert_absorb)
  with store_ok_saved [OF _ create(1) t(1)] tables_exact_saved [OF _ create(3) t(1,3,4)] assms(2)
  show ?thesis by (simp add: store_wf_def)
next
  case (delete i r)
  with assms(2) show ?thesis using store_wf_tables store_wf_deleted by blast
qed

lemma job_moves_wf: "job_moves P D s t \<Longrightarrow> store_wf s \<Longrightarrow> store_wf t"
  by (induction rule: rtranclp_induct) (auto intro: job_move_wf)

lemma job_move_tables: "job_move P D s t \<Longrightarrow> tables u = tables t \<Longrightarrow> job_move P D s u"
  by (erule job_move.cases) (auto intro: job_move.intros)

section \<open>Reading and writing rows\<close>

definition row_at :: "job_store \<Rightarrow> string \<Rightarrow> stored_job" where
  "row_at s i = jr_body (the (db_jobs (js_db s) i))"

text \<open>Every stored row can be read: it is what was stored, without its event.\<close>

lemma read_all_rows:
  assumes "store_ok s" and "set ids \<subseteq> dom (db_jobs (js_db s))"
  shows "read_all (js_db s) ids = Inr (map (\<lambda>i. calm (row_at s i)) ids)"
  using assms(2)
proof (induction ids)
  case (Cons i ids)
  then obtain r where r: "db_jobs (js_db s) i = Some r" by auto
  with assms(1) have "read_record (jr_body r) = Inr (calm (jr_body r))" by (simp add: store_ok_def stored_row_ok_def)
  with r Cons show ?case by (simp add: row_at_def)
qed simp

lemma store_jobs_rows:
  assumes "store_wf s"
  shows "store_jobs s = Inr (map (\<lambda>i. calm (row_at s i)) (js_ids s))"
  using assms by (simp add: store_jobs_def store_wf_def ids_exact_def read_all_rows)

lemma row_at_id:
  assumes "store_wf s" and "i \<in> set (js_ids s)"
  shows "db_jobs (js_db s) i = Some (job_row_of (row_at s i))" and "aj_id (row_at s i) = i"
    and "stored_row_ok (job_row_of (row_at s i))"
proof -
  from assms obtain r where r: "db_jobs (js_db s) i = Some r" by (auto simp: store_wf_def ids_exact_def)
  with assms(1) have ok: "stored_row_ok r" "aj_id (jr_body r) = i" by (auto simp: store_wf_def store_ok_def)
  then have "job_row_of (jr_body r) = r" by (simp add: job_row_of_def stored_row_ok_def)
  with r ok show "db_jobs (js_db s) i = Some (job_row_of (row_at s i))" "aj_id (row_at s i) = i"
    "stored_row_ok (job_row_of (row_at s i))" by (simp_all add: row_at_def)
qed

lemma write_job_Inr:
  assumes "write_job s c = Inr t"
  obtains reserved claims where "save_job s c = Inr (reserved, claims)"
    "t = s\<lparr>js_db := (js_db s)\<lparr>db_jobs := (db_jobs (js_db s))(aj_id c \<mapsto> job_row_of c)\<rparr>,
           js_ids := with_id (aj_id c) (js_ids s), js_reservations := reserved, js_claims := claims\<rparr>"
  using assms by (auto simp: write_job_def rbind_Inr_iff map_err_Inr_iff)

lemma write_new_move:
  assumes "write_job s c = Inr t" and "stored_row_ok (job_row_of c)" and "P None c"
  shows "job_move P D s t"
  using assms(1)
proof (cases rule: write_job_Inr)
  case (1 reserved claims)
  from job_move.create [where P = P and D = D, OF assms(2,3) 1(1)] show ?thesis
    by (simp add: 1(2) tables_def)
qed

lemma write_update_move:
  assumes "write_job s c = Inr t" and "store_wf s"
    and "db_jobs (js_db s) i = Some r" and "aj_id c = i"
    and "full_update (full_part (jr_body r)) (full_part c)"
    and "stored_row_ok (job_row_of c)" and "P (Some (calm (jr_body r))) c"
  shows "job_move P D s t"
  using assms(1)
proof (cases rule: write_job_Inr)
  case (1 reserved claims)
  from assms(2,3,4) have "aj_id c \<in> set (js_ids s)" by (auto simp: store_wf_def ids_exact_def)
  with job_move.update [where P = P and D = D, OF _ assms(5,6,7) 1(1)] assms(3,4) show ?thesis
    by (simp add: 1(2) tables_def)
qed

lemma tables_events [simp]: "tables (s\<lparr>js_db := (js_db s)\<lparr>db_events := ev, db_outbox := ob\<rparr>\<rparr>) = tables s"
  by (simp add: tables_def)

lemma record_transition_jobs:
  "record_transition db c d ids = Inr db' \<Longrightarrow> db_jobs db' = db_jobs db"
  by (auto simp: record_transition_def rbind_Inr_iff)

lemma normalized_Inr:
  assumes "normalized K j = Inr c"
  shows "normalize_for_durable_write (ck_legacy K) j = Inr c" and "stored_row_ok (job_row_of c)"
proof -
  from assms show n: "normalize_for_durable_write (ck_legacy K) j = Inr c"
    by (simp add: normalized_def map_err_Inr_iff)
  show "stored_row_ok (job_row_of c)" by (rule normalized_row_ok [OF n])
qed

section \<open>Every operation moves jobs\<close>

lemma create_moves:
  assumes "create_job K unique_ticket ids job s = Inr (t, saved)"
    and "\<And>c. normalized K job = Inr c \<Longrightarrow> P None c"
  shows "job_move P D s t"
proof -
  from assms(1) obtain s' db where n: "normalized K job = Inr saved"
    and w: "write_job s saved = Inr s'" and t: "t = s'\<lparr>js_db := db\<rparr>" and db: "db_jobs db = db_jobs (js_db s')"
    by (auto simp: create_job_def rbind_Inr_iff if_Inl_Inr_iff map_err_Inr_iff Let_def record_transition_jobs)
  from write_new_move [where P = P and D = D, OF w normalized_Inr(2) [OF n] assms(2) [OF n]]
  have "job_move P D s s'" .
  moreover have "tables t = tables s'" using db by (simp add: t tables_def)
  ultimately show ?thesis by (rule job_move_tables)
qed

lemma job_row_calm [simp]: "full_update (full_part (calm b)) a \<longleftrightarrow> full_update (full_part b) a"
  by (simp add: full_update_def)

lemma saved_update_move:
  assumes "store_wf s" and "db_jobs (js_db s) i = Some row" and "read_record (jr_body row) = Inr current"
    and "validate_transition (\<lambda>_. validate_invariants True (full_part c)) (agent_part current) (agent_part c) = Inr ()"
    and "stored_row_ok (job_row_of c)" and "save_job s c = Inr (reserved, claims)" and "P (Some current) c"
    and "tables t = ((db_jobs (js_db s))(i \<mapsto> job_row_of c), js_ids s, reserved, claims)"
  shows "job_move P D s t"
proof -
  from assms(1,2) have row: "stored_row_ok row" "aj_id (jr_body row) = i" by (auto simp: store_wf_def store_ok_def)
  with assms(3) have current: "current = calm (jr_body row)" by (simp add: stored_row_ok_def)
  with assms(4) have u: "full_update (full_part (jr_body row)) (full_part c)" by (simp add: full_update_def)
  with row(2) have "aj_id c = i" by (auto dest: full_update_revision)
  with job_move.update [where P = P and D = D and t = t, OF _ u assms(5) _ assms(6)] assms(2,7,8) current
  show ?thesis by simp
qed

lemma update_moves:
  assumes "update_job K reservation call s = Inr (t, res)" and "store_wf s"
    and "\<And>current d c. sc_command call current = Inr (Some d) \<Longrightarrow> normalized K d = Inr c \<Longrightarrow> P (Some current) c"
  shows "job_move P D s t"
proof -
  from assms(1) have "store_transaction (ck_legacy K) (reserved_artifacts K reservation) s call = Inr (t, res)"
    by (simp add: update_job_def map_err_Inr_iff)
  then show ?thesis
  proof (cases rule: store_transaction_cases)
    case same
    then show ?thesis by (simp add: job_move.idle)
  next
    case (commit row current cand c reserved claims)
    have "normalized K cand = Inr c" using commit(5) by (simp add: normalized_def)
    from saved_update_move [where P = P and D = D and t = t, OF assms(2) commit(1,2,6) normalized_row_ok [OF commit(5)]
        commit(7) assms(3) [OF commit(3) this]] commit(8)
    show ?thesis by (simp add: tables_def)
  qed
qed

lemma apply_command_commit:
  assumes "apply_command (\<lambda>_. prepare_candidate legacy artifacts current) (\<lambda>_. d) False db c ids = Inr (db', r)"
    and "load_command_event db (cc_command_id c) = None"
  shows "r = None \<and> db' = db \<or> (\<exists>d' saved. d = Some d' \<and> r = Some (job_row_of saved)
      \<and> normalize_for_durable_write legacy (jr_body (cd_job d')) = Inr saved
      \<and> validate_transition (\<lambda>_. validate_invariants True (full_part saved)) (agent_part current) (agent_part saved) = Inr ()
      \<and> db_jobs db' = (db_jobs db)(cc_job_id c \<mapsto> job_row_of saved))"
proof (cases r)
  case None
  with assms(1) show ?thesis by (auto dest: apply_command_None)
next
  case (Some saved)
  with assms obtain row d' where d: "d = Some d'" and row: "db_jobs db (cc_job_id c) = Some row"
    by (cases "db_jobs db (cc_job_id c)"; cases d) (auto simp: apply_command_def split: if_splits)
  with assms Some obtain dec dbx where
    p: "prepare_candidate legacy artifacts current (cd_job d') = Inr saved"
    and tr: "record_transition db c dec ids = Inr dbx" and db': "db' = dbx\<lparr>db_jobs := (db_jobs dbx)(cc_job_id c \<mapsto> saved)\<rparr>"
    by (auto simp: apply_command_def rbind_Inr_iff map_err_Inr_iff split: if_splits)
  from p show ?thesis
    by (auto simp: prepare_candidate_iff Some d db' record_transition_jobs [OF tr])
qed

lemma apply_moves:
  assumes "apply_typed K tc s = Inr (t, res)" and "store_wf s"
    and "\<And>current d c. tc_decide tc current = Inr (Some d) \<Longrightarrow> normalized K (jr_body (cd_job d)) = Inr c \<Longrightarrow> P (Some current) c"
  shows "job_move P D s t"
proof (cases "tc_reject tc \<and> maintenance_active s \<or> load_command_event (js_db s) (cc_command_id (tc_command tc)) \<noteq> None")
  case True
  with assms(1) have "t = s"
    by (auto simp: apply_typed_def Let_def rbind_Inr_iff split: if_splits)
  then show ?thesis by (simp add: job_move.idle)
next
  case False
  then have fresh: "load_command_event (js_db s) (cc_command_id (tc_command tc)) = None" by simp
  define commit where "commit = (\<lambda>current d. map_err StoreFailure
      (apply_command (\<lambda>_. prepare_candidate (ck_legacy K) (reserved_artifacts K (tc_reservation tc)) current)
         (\<lambda>_. d) False (js_db s) (tc_command tc) (tc_ids tc)))"
  define finish where "finish = (\<lambda>db' (r :: stored_job job_row option). case r of
      None \<Rightarrow> Inr (s\<lparr>js_db := db'\<rparr>, None)
    | Some saved \<Rightarrow> rbind (job_failed (save_job s (jr_body saved))) (\<lambda>(reserved, claims).
        Inr (s\<lparr>js_db := db', js_reservations := reserved, js_claims := claims\<rparr>, Some (jr_body saved))))"
  have open_store: "\<not> (tc_reject tc \<and> maintenance_active s)" using False by simp
  from assms(1) have "(case db_jobs (js_db s) (cc_job_id (tc_command tc)) of
      None \<Rightarrow> Inl (StoreFailure (JobFileNotFound (cc_job_id (tc_command tc))))
    | Some row \<Rightarrow> rbind (job_failed (read_record (jr_body row))) (\<lambda>current.
        if aj_revision current \<noteq> cc_expected_revision (tc_command tc) then Inr (s, None)
        else rbind (job_failed (tc_decide tc current)) (\<lambda>d.
          rbind (commit current d) (\<lambda>(db', r). finish db' r)))) = Inr (t, res)"
    by (simp only: apply_typed_def Let_def commit_def finish_def fresh open_store if_False option.case)
  then obtain row current where row: "db_jobs (js_db s) (cc_job_id (tc_command tc)) = Some row"
    "read_record (jr_body row) = Inr current"
    and rest: "t = s \<or> (\<exists>d db' r. tc_decide tc current = Inr d \<and> commit current d = Inr (db', r)
      \<and> finish db' r = Inr (t, res))"
    by (auto simp: rbind_Inr_iff map_err_Inr_iff split: option.splits if_splits)
  from rest show ?thesis
  proof (elim disjE exE conjE)
    fix d db' r
    assume d: "tc_decide tc current = Inr d" and c: "commit current d = Inr (db', r)"
      and f: "finish db' r = Inr (t, res)"
    from c have "apply_command (\<lambda>_. prepare_candidate (ck_legacy K)
        (reserved_artifacts K (tc_reservation tc)) current) (\<lambda>_. d) False (js_db s) (tc_command tc) (tc_ids tc)
      = Inr (db', r)" by (simp add: commit_def map_err_Inr_iff)
    from apply_command_commit [OF this fresh] show ?thesis
    proof (elim disjE exE conjE)
      fix d' saved
      assume u: "d = Some d'" "r = Some (job_row_of saved)"
        "normalize_for_durable_write (ck_legacy K) (jr_body (cd_job d')) = Inr saved"
        "validate_transition (\<lambda>_. validate_invariants True (full_part saved)) (agent_part current) (agent_part saved) = Inr ()"
        "db_jobs db' = (db_jobs (js_db s))(cc_job_id (tc_command tc) \<mapsto> job_row_of saved)"
      from f u(2) obtain reserved claims where sv: "save_job s saved = Inr (reserved, claims)"
        and t: "t = s\<lparr>js_db := db', js_reservations := reserved, js_claims := claims\<rparr>"
        by (auto simp: finish_def rbind_Inr_iff map_err_Inr_iff job_row_of_def)
      have "normalized K (jr_body (cd_job d')) = Inr saved" using u(3) by (simp add: normalized_def)
      from saved_update_move [where P = P and D = D and t = t, OF assms(2) row u(4) normalized_row_ok [OF u(3)] sv
          assms(3) [OF _ this]] d u(1,5)
      show ?thesis by (simp add: t tables_def)
    qed (use f in \<open>simp add: finish_def job_move.idle\<close>)
  qed (simp add: job_move.idle)
qed

section \<open>Admission\<close>

lemma evolve_participant_cols:
  assumes "evolve_participant l j = Inr c"
  shows "aj_id c = aj_id j" and "aj_status c = aj_status j" and "aj_created_at c = aj_created_at j"
    and "participant_admission_state (aj_participant c) = Some (admission_value (pl_admission l))"
    and "aj_revision c = aj_revision j + 1" and "full_update (full_part j) (full_part c)"
    and "aj_loaded_schema_version j = CURRENT_SCHEMA_VERSION \<Longrightarrow> stored_row_ok (job_row_of c)"
proof -
  define v where "v = pair_worker_ownership (pair_announcement_ack (set_participant l j))"
  have sel: "aj_id v = aj_id j" "aj_created_at v = aj_created_at j"
    "aj_loaded_schema_version v = aj_loaded_schema_version j"
    "participant_admission_state (aj_participant v) = Some (admission_value (pl_admission l))"
    by (simp_all add: v_def pair_worker_ownership_def pair_announcement_ack_def set_participant_def Let_def)
  from assms have "\<exists>b. next_record j (if b then v\<lparr>rj_manual_reconcile_operation := None,
        manual_reconcile_token := None, aj_status := aj_status j\<rparr> else v\<lparr>aj_status := aj_status j\<rparr>) = Inr c"
    by (auto simp: evolve_participant_def evolve_job_def v_def Let_def split: if_splits
        intro: exI [of _ True] exI [of _ False])
  then obtain b where n: "next_record j (if b then v\<lparr>rj_manual_reconcile_operation := None,
        manual_reconcile_token := None, aj_status := aj_status j\<rparr> else v\<lparr>aj_status := aj_status j\<rparr>) = Inr c"
    by blast
  from next_record_cols [OF n] obtain p where
    c: "c = with_typed_operations p ((if b then v\<lparr>rj_manual_reconcile_operation := None,
        manual_reconcile_token := None, aj_status := aj_status j\<rparr> else v\<lparr>aj_status := aj_status j\<rparr>)
        \<lparr>aj_revision := aj_revision j + 1\<rparr>)"
    and r: "read_record c = Inr c"
    and t: "validate_transition (\<lambda>_. validate_invariants True (full_part c)) (agent_part j) (agent_part c) = Inr ()"
    by blast
  from c show "aj_id c = aj_id j" "aj_status c = aj_status j" "aj_revision c = aj_revision j + 1"
    by (cases b; simp add: sel)+
  from c show "aj_created_at c = aj_created_at j"
    "participant_admission_state (aj_participant c) = Some (admission_value (pl_admission l))"
    by (cases b; simp add: sel with_typed_operations_def)+
  from t show "full_update (full_part j) (full_part c)" by (simp add: full_update_def)
  assume "aj_loaded_schema_version j = CURRENT_SCHEMA_VERSION"
  with c have "aj_loaded_schema_version c = CURRENT_SCHEMA_VERSION" by (cases b; simp add: sel)
  with r read_record_no_event [OF r] show "stored_row_ok (job_row_of c)"
    by (simp add: stored_row_ok_def job_row_of_def)
qed

text \<open>One job admitted: from waiting to holding capacity, one revision on.\<close>

definition admitted :: "stored_job \<Rightarrow> stored_job \<Rightarrow> bool" where
  "admitted j c \<longleftrightarrow> aj_id c = aj_id j \<and> aj_status c = aj_status j \<and> aj_created_at c = aj_created_at j
     \<and> admission_of j = ''waiting'' \<and> admission_of c = ''held'' \<and> aj_revision c = aj_revision j + 1
     \<and> full_update (full_part j) (full_part c)"

lemma admitted_ids: "list_all2 admitted js cs \<Longrightarrow> aj_id ` set js = aj_id ` set cs"
  by (induction rule: list_all2_induct) (auto simp: admitted_def)

lemma waiting_text:
  assumes "job_participant_lifecycle j = Inr l" and "pl_admission l = AdmWaiting"
  shows "admission_state_text j = ''waiting''"
  using assms by (auto simp: job_participant_lifecycle_def Let_def rbind_Inr_iff member_or_invalid_def
      parse_admission_def split: option.splits if_splits)

lemma admit_one:
  assumes "job_participant_lifecycle (agent_part j) = Inr l" and "admit_participant l = Inr l'"
    and "evolve_participant l' j = Inr c"
  shows "admitted j c"
proof -
  from assms(2) have l: "pl_admission l = AdmWaiting" "pl_admission l' = AdmHeld"
    by (auto simp: admit_participant_def if_Inl_Inr_iff)
  have "aj_participant (agent_part c) = aj_participant c" by (simp add: agent_job.defs)
  with evolve_participant_cols [OF assms(3)] l waiting_text [OF assms(1) l(1)] show ?thesis
    by (simp add: admitted_def admission_state_text_def or_str_def)
qed

lemma admit_jobs_rows:
  assumes "admit_jobs s js = Inr (t, cs)" and "store_wf s" and "distinct (map aj_id js)"
    and "\<And>j. j \<in> set js \<Longrightarrow> aj_id j \<in> set (js_ids s) \<and> j = calm (row_at s (aj_id j))"
    and "\<And>b c. admitted b c \<Longrightarrow> P (Some b) c"
  shows "job_moves P D s t \<and> list_all2 admitted js cs
    \<and> (\<forall>c \<in> set cs. db_jobs (js_db t) (aj_id c) = Some (job_row_of c))
    \<and> (\<forall>i. i \<notin> aj_id ` set js \<longrightarrow> db_jobs (js_db t) i = db_jobs (js_db s) i)
    \<and> db_events (js_db t) = db_events (js_db s) \<and> js_ids t = js_ids s \<and> js_maintenance t = js_maintenance s"
  using assms(1-4)
proof (induction js arbitrary: s cs)
  case (Cons j js)
  from Cons.prems(1) obtain l l' c s' ds where
    l: "job_participant_lifecycle (agent_part j) = Inr l" "admit_participant l = Inr l'"
      "evolve_participant l' j = Inr c"
    and w: "write_job s c = Inr s'" and rest: "admit_jobs s' js = Inr (t, ds)" and cs: "cs = c # ds"
    by (auto simp: rbind_Inr_iff map_err_Inr_iff)
  have a: "admitted j c" by (rule admit_one [OF l])
  then have ids: "aj_id c = aj_id j" by (simp add: admitted_def)
  from Cons.prems(4) [of j] have jin: "aj_id j \<in> set (js_ids s)" and jrow: "j = calm (row_at s (aj_id j))" by simp_all
  note row = row_at_id [OF Cons.prems(2) jin]
  have "aj_loaded_schema_version (row_at s (aj_id j)) = CURRENT_SCHEMA_VERSION"
    using row(3) by (simp add: stored_row_ok_def job_row_of_def)
  then have "aj_loaded_schema_version j = CURRENT_SCHEMA_VERSION" by (subst jrow) simp
  then have ok: "stored_row_ok (job_row_of c)" by (rule evolve_participant_cols(7) [OF l(3)])
  have u: "full_update (full_part (row_at s (aj_id j))) (full_part c)"
    using a jrow job_row_calm [of "row_at s (aj_id j)"] by (simp add: admitted_def)
  have m: "job_move P D s s'"
    using write_update_move [where P = P and D = D and r = "job_row_of (row_at s (aj_id j))", OF w Cons.prems(2) row(1) ids _ ok]
      u assms(5) [OF a] jrow by (simp add: job_row_of_def)
  from w obtain reserved claims where
    s': "s' = s\<lparr>js_db := (js_db s)\<lparr>db_jobs := (db_jobs (js_db s))(aj_id j \<mapsto> job_row_of c)\<rparr>,
           js_reservations := reserved, js_claims := claims\<rparr>"
    using jin ids by (auto elim!: write_job_Inr)
  have others: "aj_id k \<in> set (js_ids s') \<and> k = calm (row_at s' (aj_id k))" if "k \<in> set js" for k
  proof -
    have "aj_id k \<noteq> aj_id j" using Cons.prems(3) that by (auto simp: image_iff)
    then have "row_at s' (aj_id k) = row_at s (aj_id k)" by (simp add: s' row_at_def)
    moreover have "js_ids s' = js_ids s" by (simp add: s')
    ultimately show ?thesis using Cons.prems(4) [of k] that by (metis list.set_intros(2))
  qed
  from Cons.IH [OF rest job_move_wf [OF m Cons.prems(2)] _ others] Cons.prems(3)
  have ih: "job_moves P D s' t" "list_all2 admitted js ds"
      "\<forall>c \<in> set ds. db_jobs (js_db t) (aj_id c) = Some (job_row_of c)"
      "\<forall>i. i \<notin> aj_id ` set js \<longrightarrow> db_jobs (js_db t) i = db_jobs (js_db s') i"
      "db_events (js_db t) = db_events (js_db s')" "js_ids t = js_ids s'" "js_maintenance t = js_maintenance s'"
    by simp_all
  have "db_jobs (js_db t) (aj_id j) = Some (job_row_of c)" using ih(4) Cons.prems(3) by (simp add: s')
  with ih m a cs ids show ?case
    by (auto simp: s' intro: converse_rtranclp_into_rtranclp)
qed simp

section \<open>Capacity\<close>

definition held_ids :: "job_store \<Rightarrow> string list" where
  "held_ids s = filter (\<lambda>i. admission_of (row_at s i) = ''held'') (js_ids s)"

definition waiting_jobs :: "job_store \<Rightarrow> stored_job list" where
  "waiting_jobs s =
     sort_key aj_created_at (filter (\<lambda>j. admission_of j = ''waiting'' \<and> aj_status j = JsQueued)
       (map (\<lambda>i. calm (row_at s i)) (js_ids s)))"

definition free_capacity :: "int \<Rightarrow> job_store \<Rightarrow> nat" where
  "free_capacity limit s = nat (limit - int (length (held_ids s)))"

lemma waiting_jobs_rows:
  assumes "store_wf s"
  shows "distinct (map aj_id (waiting_jobs s))"
    and "j \<in> set (waiting_jobs s) \<Longrightarrow> aj_id j \<in> set (js_ids s) \<and> j = calm (row_at s (aj_id j))"
proof -
  have ids: "map aj_id (map (\<lambda>i. calm (row_at s i)) (js_ids s)) = js_ids s"
    by (simp add: comp_def map_idI row_at_id(2) [OF assms])
  have "distinct (map aj_id (filter Q (map (\<lambda>i. calm (row_at s i)) (js_ids s))))" for Q
    by (rule distinct_map_filter) (use assms ids in \<open>simp add: store_wf_def ids_exact_def\<close>)
  then show "distinct (map aj_id (waiting_jobs s))"
    unfolding waiting_jobs_def distinct_map by (simp add: distinct_map)
  show "j \<in> set (waiting_jobs s) \<Longrightarrow> aj_id j \<in> set (js_ids s) \<and> j = calm (row_at s (aj_id j))"
    by (auto simp: waiting_jobs_def row_at_id [OF assms])
qed

lemma capacity_claim_rows:
  assumes "claim_participant_capacity limit s = Inr (t, cs)" and "store_wf s"
    and "\<And>b c. admitted b c \<Longrightarrow> P (Some b) c"
  shows "job_moves P D s t \<and> list_all2 admitted (take (free_capacity limit s) (waiting_jobs s)) cs
    \<and> (\<forall>c \<in> set cs. db_jobs (js_db t) (aj_id c) = Some (job_row_of c))
    \<and> (\<forall>i. i \<notin> aj_id ` set cs \<longrightarrow> db_jobs (js_db t) i = db_jobs (js_db s) i)
    \<and> db_events (js_db t) = db_events (js_db s) \<and> js_ids t = js_ids s \<and> js_maintenance t = js_maintenance s"
proof -
  have held: "length (filter (\<lambda>j. admission_of j = ''held'') (map (\<lambda>i. calm (row_at s i)) (js_ids s)))
      = length (held_ids s)"
    by (simp add: held_ids_def filter_map comp_def)
  let ?free = "limit - int (length (held_ids s))"
  have "claim_participant_capacity limit s = (if limit \<le> 0
      then Inl (StoreFailure (StoreJobError (JobValidationError ''participant capacity must be positive'')))
      else if ?free \<le> 0 then Inr (s, []) else admit_jobs s (take (nat ?free) (waiting_jobs s)))"
    by (simp only: claim_participant_capacity_def store_jobs_rows [OF assms(2)] rbind_simps Let_def held waiting_jobs_def)
  with assms(1)
  have run: "(if ?free \<le> 0 then Inr (s, []) else admit_jobs s (take (nat ?free) (waiting_jobs s))) = Inr (t, cs)"
    by (metis Inl_Inr_False)
  show ?thesis
  proof (cases "?free \<le> 0")
    case True
    with run show ?thesis by (simp add: free_capacity_def)
  next
    case False
    with run have run': "admit_jobs s (take (free_capacity limit s) (waiting_jobs s)) = Inr (t, cs)"
      by (simp add: free_capacity_def)
    have d: "distinct (map aj_id (take (free_capacity limit s) (waiting_jobs s)))"
      using waiting_jobs_rows(1) [OF assms(2)] by (metis distinct_take take_map)
    have r: "aj_id j \<in> set (js_ids s) \<and> j = calm (row_at s (aj_id j))"
      if "j \<in> set (take (free_capacity limit s) (waiting_jobs s))" for j
      using waiting_jobs_rows(2) [OF assms(2)] that by (meson in_set_takeD)
    from admit_jobs_rows [where P = P and D = D, OF run' assms(2) d r assms(3)]
    have rows: "job_moves P D s t" "list_all2 admitted (take (free_capacity limit s) (waiting_jobs s)) cs"
      "\<forall>c \<in> set cs. db_jobs (js_db t) (aj_id c) = Some (job_row_of c)"
      "\<forall>i. i \<notin> aj_id ` set (take (free_capacity limit s) (waiting_jobs s)) \<longrightarrow>
         db_jobs (js_db t) i = db_jobs (js_db s) i"
      "db_events (js_db t) = db_events (js_db s)" "js_ids t = js_ids s" "js_maintenance t = js_maintenance s"
      by blast+
    have "aj_id ` set (take (free_capacity limit s) (waiting_jobs s)) = aj_id ` set cs"
      using rows(2) by (rule admitted_ids)
    with rows show ?thesis by simp
  qed
qed

section \<open>Grouped answers, follow-ups and deletions\<close>

lemma moves_snoc: "job_moves P D s u \<Longrightarrow> job_move P D u t \<Longrightarrow> job_moves P D s t"
  by (rule rtranclp.rtrancl_into_rtrancl)

lemma moves_cons: "job_move P D s u \<Longrightarrow> job_moves P D u t \<Longrightarrow> job_moves P D s t"
  by (rule converse_rtranclp_into_rtranclp)

lemma staged_update_Inr:
  assumes "staged_update K current d = Inr c"
  shows "normalized K d = Inr c" and "stored_row_ok (job_row_of c)" and "full_update (full_part current) (full_part c)"
proof -
  from assms show n: "normalized K d = Inr c" and "full_update (full_part current) (full_part c)"
    by (auto simp: staged_update_def rbind_Inr_iff map_err_Inr_iff full_update_def)
  from normalized_Inr(2) [OF n] show "stored_row_ok (job_row_of c)" .
qed

lemma write_staged_move:
  assumes "write_job s c = Inr t" and "store_wf s" and "i \<in> set (js_ids s)"
    and "staged_update K (calm (row_at s i)) d = Inr c" and "P (Some (calm (row_at s i))) c"
  shows "job_move P D s t" and "js_ids t = js_ids s" and "aj_id c = i" and "js_maintenance t = js_maintenance s"
    and "k \<noteq> i \<Longrightarrow> row_at t k = row_at s k"
proof -
  note row = row_at_id [OF assms(2,3)]
  from staged_update_Inr [OF assms(4)] have u: "full_update (full_part (row_at s i)) (full_part c)"
    and ok: "stored_row_ok (job_row_of c)" by simp_all
  from u row(2) show i: "aj_id c = i" by (auto dest: full_update_revision)
  show "job_move P D s t"
    using write_update_move [where P = P and D = D, OF assms(1,2) row(1) i _ ok] u assms(5)
    by (simp add: job_row_of_def)
  from assms(1,3) i show "js_ids t = js_ids s" "js_maintenance t = js_maintenance s" "k \<noteq> i \<Longrightarrow> row_at t k = row_at s k"
    by (auto elim!: write_job_Inr simp: row_at_def)
qed

lemma write_children_moves:
  assumes "write_children K s children = Inr t"
    and "\<And>child c. child \<in> set children \<Longrightarrow> normalized K child = Inr c \<Longrightarrow> P None c"
  shows "job_moves P D s t"
  using assms
proof (induction children arbitrary: s)
  case (Cons child children)
  from Cons.prems(1) obtain c s' where n: "normalized K child = Inr c"
    and w: "write_job s c = Inr s'" and rest: "write_children K s' children = Inr t"
    by (auto simp: rbind_Inr_iff if_Inl_Inr_iff)
  have "job_move P D s s'"
    by (rule write_new_move [OF w normalized_Inr(2) [OF n]]) (use Cons.prems(2) n in auto)
  moreover have "job_moves P D s' t" by (rule Cons.IH [OF rest]) (use Cons.prems(2) in auto)
  ultimately show ?case by (rule moves_cons)
qed simp

lemma group_moves:
  assumes "stage_grouped_children K i command children s = Inr (t, res)" and "store_wf s"
    and "\<And>current d c. command current = Inr (Some d) \<Longrightarrow> normalized K d = Inr c \<Longrightarrow> P (Some current) c"
    and "\<And>child c. child \<in> set children \<Longrightarrow> normalized K child = Inr c \<Longrightarrow> P None c"
  shows "job_moves P D s t"
proof -
  from assms(1) obtain row where "db_jobs (js_db s) i = Some row"
    by (auto simp: stage_grouped_children_def split: if_splits option.splits)
  with assms(2) have i: "i \<in> set (js_ids s)" by (auto simp: store_wf_def ids_exact_def)
  note row = row_at_id [OF assms(2) i]
  have read: "read_record (row_at s i) = Inr (calm (row_at s i))"
    using row(3) by (simp add: stored_row_ok_def job_row_of_def)
  from assms(1) have "t = s \<or> (\<exists>d c s'. command (calm (row_at s i)) = Inr (Some d)
      \<and> staged_update K (calm (row_at s i)) d = Inr c \<and> write_job s c = Inr s'
      \<and> write_children K s' children = Inr t)"
    by (auto simp: stage_grouped_children_def row(1) read job_row_of_def rbind_Inr_iff map_err_Inr_iff if_Inl_Inr_iff
        split: option.splits)
  then show ?thesis
  proof (elim disjE exE conjE)
    fix d c s'
    assume c: "command (calm (row_at s i)) = Inr (Some d)" "staged_update K (calm (row_at s i)) d = Inr c"
      and w: "write_job s c = Inr s'" and rest: "write_children K s' children = Inr t"
    have "job_move P D s s'"
      by (rule write_staged_move(1) [OF w assms(2) i c(2)])
         (rule assms(3) [OF c(1) staged_update_Inr(1) [OF c(2)]])
    then show ?thesis using write_children_moves [where P = P and D = D, OF rest assms(4)] by (rule moves_cons)
  qed simp
qed

lemma follow_up_moves:
  assumes "create_follow_up K parent build n completed s = Inr (t, c)"
    and "\<And>p child d. build p = Inr child \<Longrightarrow> normalized K child = Inr d \<Longrightarrow> P None d"
  shows "job_move P D s t"
proof -
  from assms(1) obtain p child where b: "build p = Inr child" and n: "normalized K child = Inr c"
    and w: "write_job s c = Inr t"
    by (auto simp: create_follow_up_def rbind_Inr_iff map_err_Inr_iff if_Inl_Inr_iff split: option.splits)
  show ?thesis by (rule write_new_move [where P = P, OF w normalized_Inr(2) [OF n] assms(2) [OF b n]])
qed

lemma foldl_delete_rows:
  "db_jobs (js_db (foldl delete_stored_job s ids)) i = (if i \<in> set ids then None else db_jobs (js_db s) i)"
  "js_ids (foldl delete_stored_job s ids) = filter (\<lambda>i. i \<notin> set ids) (js_ids s)"
  "js_maintenance (foldl delete_stored_job s ids) = js_maintenance s"
  by (induction ids arbitrary: s) (simp_all add: delete_stored_job_def delete_job_def Let_def conj_commute)

lemma foldl_delete_moves:
  assumes "distinct ids" and "\<And>i. i \<in> set ids \<Longrightarrow> \<exists>r. db_jobs (js_db s) i = Some r \<and> D (jr_body r)"
  shows "job_moves P D s (foldl delete_stored_job s ids)"
  using assms
proof (induction ids arbitrary: s)
  case (Cons i ids)
  from Cons.prems(2) [of i] obtain r where r: "db_jobs (js_db s) i = Some r" "D (jr_body r)" by auto
  have "job_move P D s (delete_stored_job s i)" by (rule job_move.delete [where D = D, OF r refl])
  moreover have "job_moves P D (delete_stored_job s i) (foldl delete_stored_job (delete_stored_job s i) ids)"
  proof (rule Cons.IH)
    fix k
    assume k: "k \<in> set ids"
    with Cons.prems(1) have "db_jobs (js_db (delete_stored_job s i)) k = db_jobs (js_db s) k"
      by (auto simp: delete_stored_job_def delete_job_def Let_def)
    with Cons.prems(2) [of k] k show "\<exists>r. db_jobs (js_db (delete_stored_job s i)) k = Some r \<and> D (jr_body r)" by simp
  qed (use Cons.prems(1) in simp)
  ultimately show ?case by (simp add: moves_cons)
qed simp

text \<open>What \<open>prune\<close> and \<open>finalize_maintenance\<close> delete.\<close>

definition selected_ids :: "(stored_job \<Rightarrow> bool) \<Rightarrow> job_store \<Rightarrow> string list" where
  "selected_ids Q s = filter (\<lambda>i. Q (calm (row_at s i))) (js_ids s)"

lemma selected_rows:
  assumes "store_wf s"
  shows "map aj_id (filter Q (map (\<lambda>i. calm (row_at s i)) (js_ids s))) = selected_ids Q s"
    and "distinct (selected_ids Q s)"
    and "i \<in> set (selected_ids Q s) \<Longrightarrow> \<exists>r. db_jobs (js_db s) i = Some r \<and> Q (calm (jr_body r))"
proof -
  have "map aj_id (map (\<lambda>i. calm (row_at s i)) ids) = ids" if "set ids \<subseteq> set (js_ids s)" for ids
    using that by (simp add: comp_def map_idI subset_iff row_at_id(2) [OF assms])
  moreover have "filter Q (map (\<lambda>i. calm (row_at s i)) (js_ids s))
      = map (\<lambda>i. calm (row_at s i)) (selected_ids Q s)"
    by (simp add: selected_ids_def filter_map comp_def)
  ultimately show "map aj_id (filter Q (map (\<lambda>i. calm (row_at s i)) (js_ids s))) = selected_ids Q s"
    by (simp add: selected_ids_def)
  show "distinct (selected_ids Q s)" using assms by (simp add: selected_ids_def store_wf_def ids_exact_def)
  assume "i \<in> set (selected_ids Q s)"
  then have "i \<in> set (js_ids s)" "Q (calm (row_at s i))" by (simp_all add: selected_ids_def)
  with row_at_id(1) [OF assms] show "\<exists>r. db_jobs (js_db s) i = Some r \<and> Q (calm (jr_body r))"
    by (auto simp: job_row_of_def)
qed

lemma prune_rows:
  assumes "prune now retention s = Inr (t, removed)" and "store_wf s"
  shows "t = s \<or> \<not> maintenance_active s \<and> removed = selected_ids (prunable (now - retention)) s
    \<and> t = foldl delete_stored_job s removed"
  using assms(1) by (auto simp: prune_def store_jobs_rows [OF assms(2)] Let_def selected_rows [OF assms(2)]
      split: if_splits)

lemma finalize_rows:
  assumes "finalize_maintenance K tok s = Inr (t, removed)" and "store_wf s"
  shows "\<exists>l. js_maintenance s = Some l \<and> ml_token l = tok" and "removed = js_ids s"
    and "t = (foldl delete_stored_job s removed)\<lparr>js_maintenance := None\<rparr>"
    and "\<forall>i \<in> set (js_ids s). deletion_reasons (calm (row_at s i)) = []"
proof -
  let ?jobs = "map (\<lambda>i. calm (row_at s i)) (js_ids s)"
  from assms(1) have "maintenance_active s" by (auto simp: finalize_maintenance_def maintenance_active_def split: option.splits)
  then obtain l where l: "js_maintenance s = Some l" by (auto simp: maintenance_active_def)
  with assms(1) have tok: "ml_token l = tok" "\<not> ck_legacy_records K"
    by (auto simp: finalize_maintenance_def split: if_splits)
  with l show "\<exists>l. js_maintenance s = Some l \<and> ml_token l = tok" by blast
  have ids: "map aj_id ?jobs = js_ids s" by (simp add: comp_def map_idI row_at_id(2) [OF assms(2)])
  define blockers where "blockers = (if ck_unresolved K = [] then []
      else [''quarantine evidence requires manual inspection: '' @ join_comma (ck_unresolved K)])
    @ concat (map (\<lambda>j. case deletion_reasons j of
        [] \<Rightarrow> [] | reasons \<Rightarrow> [aj_id j @ '': '' @ join_comma reasons]) ?jobs)"
  from assms(1) have run: "(if blockers \<noteq> [] then Inl (JobMaintenanceError
        (''Cursor jobs could not be deleted safely: '' @ join_semicolon blockers))
      else Inr ((foldl delete_stored_job s (js_ids s))\<lparr>js_maintenance := None\<rparr>, js_ids s)) = Inr (t, removed)"
    by (simp only: finalize_maintenance_def l option.case tok simp_thms if_False rbind_simps
        store_jobs_rows [OF assms(2)] Let_def blockers_def ids)
  then show "removed = js_ids s" "t = (foldl delete_stored_job s removed)\<lparr>js_maintenance := None\<rparr>"
    by (auto split: if_splits)
  from run have "blockers = []" by (auto split: if_splits)
  then have "deletion_reasons (calm (row_at s i)) \<noteq> a # b" if "i \<in> set (js_ids s)" for i a b
    using that by (auto simp: blockers_def split: list.splits)
  then show "\<forall>i \<in> set (js_ids s). deletion_reasons (calm (row_at s i)) = []"
    by (metis list.exhaust)
qed

lemma stage_jobs_moves:
  assumes "stage_jobs K stage s js = Inr (t, staged)" and "store_wf s"
    and "distinct (map aj_id js)"
    and "\<And>j. j \<in> set js \<Longrightarrow> aj_id j \<in> set (js_ids s) \<and> j = calm (row_at s (aj_id j))"
    and "\<And>current d c. stage current = Inr (Some d) \<Longrightarrow> normalized K d = Inr c \<Longrightarrow> P (Some current) c"
  shows "job_moves P D s t \<and> js_ids t = js_ids s \<and> js_maintenance t = js_maintenance s"
  using assms(1-4)
proof (induction js arbitrary: s staged)
  case (Cons j js)
  from Cons.prems(4) [of j] have jin: "aj_id j \<in> set (js_ids s)" and jrow: "j = calm (row_at s (aj_id j))" by simp_all
  from Cons.prems(1) obtain u st where rest: "stage_jobs K stage u js = Inr (t, st)"
    and or: "u = s \<or> (\<exists>d c. stage j = Inr (Some d) \<and> staged_update K j d = Inr c \<and> write_job s c = Inr u)"
    by (auto simp: rbind_Inr_iff map_err_Inr_iff split: option.splits)
  have u: "job_moves P D s u \<and> store_wf u \<and> js_ids u = js_ids s \<and> js_maintenance u = js_maintenance s
      \<and> (\<forall>k. k \<noteq> aj_id j \<longrightarrow> row_at u k = row_at s k)"
    using or
  proof (elim disjE exE conjE)
    fix d c
    assume d: "stage j = Inr (Some d)" "staged_update K j d = Inr c" and w: "write_job s c = Inr u"
    from d(2) jrow have st: "staged_update K (calm (row_at s (aj_id j))) d = Inr c" by simp
    have p: "P (Some (calm (row_at s (aj_id j)))) c"
      using assms(5) [OF d(1) staged_update_Inr(1) [OF d(2)]] jrow by simp
    note m = write_staged_move(1) [where P = P and D = D, OF w Cons.prems(2) jin st p]
    from write_staged_move(2,4,5) [where P = P, OF w Cons.prems(2) jin st p] m job_move_wf [OF m Cons.prems(2)]
    show ?thesis by auto
  qed (use Cons.prems(2) in simp)
  have others: "aj_id k \<in> set (js_ids u) \<and> k = calm (row_at u (aj_id k))" if "k \<in> set js" for k
  proof -
    have "aj_id k \<noteq> aj_id j" using Cons.prems(3) that by (auto simp: image_iff)
    with u Cons.prems(4) [of k] that show ?thesis by (metis list.set_intros(2))
  qed
  from Cons.IH [OF rest _ _ others] u Cons.prems(3) show ?case by (auto intro: rtranclp_trans)
qed simp

section \<open>Any operation\<close>

text \<open>What the commands of an operation may write, by a predicate on single writes.\<close>

fun op_writes :: "store_checks \<Rightarrow> (stored_job option \<Rightarrow> stored_job \<Rightarrow> bool) \<Rightarrow> store_op \<Rightarrow> bool" where
  "op_writes K P (Create _ _ job) \<longleftrightarrow> (\<forall>c. normalized K job = Inr c \<longrightarrow> P None c)"
| "op_writes K P (Update _ call) \<longleftrightarrow>
     (\<forall>j d c. sc_command call j = Inr (Some d) \<longrightarrow> normalized K d = Inr c \<longrightarrow> P (Some j) c)"
| "op_writes K P (Apply tc) \<longleftrightarrow>
     (\<forall>j d c. tc_decide tc j = Inr (Some d) \<longrightarrow> normalized K (jr_body (cd_job d)) = Inr c \<longrightarrow> P (Some j) c)"
| "op_writes K P (Claim _) \<longleftrightarrow> (\<forall>j c. admitted j c \<longrightarrow> P (Some j) c)"
| "op_writes K P (Group _ command children) \<longleftrightarrow>
     (\<forall>j d c. command j = Inr (Some d) \<longrightarrow> normalized K d = Inr c \<longrightarrow> P (Some j) c)
     \<and> (\<forall>child c. child \<in> set children \<longrightarrow> normalized K child = Inr c \<longrightarrow> P None c)"
| "op_writes K P (FollowUp _ build _ _) \<longleftrightarrow>
     (\<forall>j child c. build j = Inr child \<longrightarrow> normalized K child = Inr c \<longrightarrow> P None c)"
| "op_writes K P (Begin _ stage _) \<longleftrightarrow>
     (\<forall>j d c. stage j = Inr (Some d) \<longrightarrow> normalized K d = Inr c \<longrightarrow> P (Some j) c)"
| "op_writes K P (Prune _ _) \<longleftrightarrow> True"
| "op_writes K P (Abort _) \<longleftrightarrow> True"
| "op_writes K P (Finalize _) \<longleftrightarrow> True"

lemma op_writes_any [simp]: "op_writes K (\<lambda>_ _. True) op"
  by (cases op) simp_all

text \<open>What an operation may delete, and why.\<close>

fun deletion_ground :: "store_op \<Rightarrow> job_store \<Rightarrow> stored_job \<Rightarrow> bool" where
  "deletion_ground (Prune now retention) s j \<longleftrightarrow> \<not> maintenance_active s \<and> prunable (now - retention) (calm j)"
| "deletion_ground (Finalize tok) s j \<longleftrightarrow>
     (\<exists>l. js_maintenance s = Some l \<and> ml_token l = tok) \<and> deletion_reasons (calm j) = []"
| "deletion_ground _ s j \<longleftrightarrow> False"

lemma maintenance_begin_moves:
  assumes "begin_maintenance K lease stage alive s = Inr (t, staged)" and "store_wf s"
    and "\<And>j d c. stage j = Inr (Some d) \<Longrightarrow> normalized K d = Inr c \<Longrightarrow> P (Some j) c"
  shows "job_moves P D s t \<and> js_ids t = js_ids s \<and> js_maintenance t = Some lease
    \<and> (\<forall>l. js_maintenance s = Some l \<longrightarrow> alive l = Some False)"
proof -
  let ?u = "s\<lparr>js_maintenance := Some lease\<rparr>" and ?jobs = "map (\<lambda>i. calm (row_at s i)) (js_ids s)"
  from assms(1) have run: "stage_jobs K stage ?u ?jobs = Inr (t, staged)"
    and free: "\<forall>l. js_maintenance s = Some l \<longrightarrow> alive l = Some False"
    by (auto simp: begin_maintenance_def Let_def store_jobs_rows [OF assms(2)] if_Inl_Inr_iff split: option.splits)
  have u: "tables ?u = tables s" by (simp add: tables_def)
  then have wf: "store_wf ?u" using assms(2) by (simp add: store_wf_tables [OF u])
  have d: "distinct (map aj_id ?jobs)"
    using assms(2) by (simp add: comp_def map_idI row_at_id(2) [OF assms(2)])
       (simp add: store_wf_def ids_exact_def)
  have rows: "aj_id j \<in> set (js_ids ?u) \<and> j = calm (row_at ?u (aj_id j))" if "j \<in> set ?jobs" for j
    using that by (auto simp: row_at_id(2) [OF assms(2)] row_at_def [of ?u] row_at_def [of s, symmetric])
  from stage_jobs_moves [where P = P and D = D, OF run wf d rows assms(3)]
  have "job_moves P D ?u t" "js_ids t = js_ids s" "js_maintenance t = Some lease" by simp_all
  moreover have "job_move P D s ?u" by (rule job_move.idle [OF u])
  ultimately show ?thesis using free by (auto intro: moves_cons)
qed

lemma exec_op_moves:
  assumes "exec_op K op s = Inr t" and "store_wf s" and "op_writes K P op"
    and "\<And>j. deletion_ground op s j \<Longrightarrow> D j"
  shows "job_moves P D s t"
proof (cases op)
  case (Create u ids job)
  with assms(1,3) show ?thesis by (auto simp: rbind_Inr_iff intro!: r_into_rtranclp create_moves)
next
  case (Update r call)
  with assms(1,3) show ?thesis
    by (auto simp: rbind_Inr_iff intro!: r_into_rtranclp update_moves [OF _ assms(2)])
next
  case (Apply tc)
  with assms(1,3) show ?thesis
    by (auto simp: rbind_Inr_iff intro!: r_into_rtranclp apply_moves [OF _ assms(2)])
next
  case (Claim limit)
  with assms(1,3) show ?thesis
    using capacity_claim_rows [where P = P and D = D, OF _ assms(2)] by (auto simp: rbind_Inr_iff)
next
  case (Group i command children)
  with assms(1,3) show ?thesis by (auto simp: rbind_Inr_iff intro!: group_moves [OF _ assms(2)])
next
  case (FollowUp i build n c)
  with assms(1,3) show ?thesis by (auto simp: rbind_Inr_iff intro!: r_into_rtranclp follow_up_moves)
next
  case (Prune now retention)
  with assms(1) obtain removed where "prune now retention s = Inr (t, removed)" by (auto simp: rbind_Inr_iff)
  from prune_rows [OF this assms(2)] show ?thesis
  proof (elim disjE conjE)
    assume open_store: "\<not> maintenance_active s" and r: "removed = selected_ids (prunable (now - retention)) s"
      and t: "t = foldl delete_stored_job s removed"
    show ?thesis unfolding t r
    proof (rule foldl_delete_moves [OF selected_rows(2) [OF assms(2)]])
      fix i
      assume "i \<in> set (selected_ids (prunable (now - retention)) s)"
      from selected_rows(3) [OF assms(2) this] assms(4) open_store Prune
      show "\<exists>r. db_jobs (js_db s) i = Some r \<and> D (jr_body r)" by auto
    qed
  qed simp
next
  case (Begin lease stage alive)
  with assms(1,3) show ?thesis
    using maintenance_begin_moves [where P = P and D = D, OF _ assms(2)] by (auto simp: rbind_Inr_iff)
next
  case (Abort tok)
  with assms(1) have "tables t = tables s" by (auto simp: abort_maintenance_def tables_def split: option.splits)
  then show ?thesis by (auto intro: job_move.idle)
next
  case (Finalize tok)
  with assms(1) obtain removed where f: "finalize_maintenance K tok s = Inr (t, removed)" by (auto simp: rbind_Inr_iff)
  note rows = finalize_rows [OF f assms(2)]
  have "job_moves P D s (foldl delete_stored_job s removed)" unfolding rows(2)
  proof (rule foldl_delete_moves)
    show "distinct (js_ids s)" using assms(2) by (simp add: store_wf_def ids_exact_def)
    fix i
    assume i: "i \<in> set (js_ids s)"
    have "D (row_at s i)" by (rule assms(4)) (use rows(1,4) Finalize i in simp)
    with row_at_id(1) [OF assms(2) i] show "\<exists>r. db_jobs (js_db s) i = Some r \<and> D (jr_body r)"
      by (simp add: job_row_of_def)
  qed
  moreover have "job_move P D (foldl delete_stored_job s removed) t"
    by (rule job_move.idle) (simp add: rows(3) tables_def)
  ultimately show ?thesis by (rule moves_snoc)
qed

end
