(* ===== verification/Store_Guarantees.thy ===== *)
theory Store_Guarantees imports Store_Operations_Machine begin

text \<open>
  What any sequence of store operations guarantees: the tables stay exact and resources exclusive,
  only settled jobs are deleted, the capacity is never exceeded, and while a process deletes all
  jobs nobody else creates or deletes one.
\<close>

section \<open>Well-formed at all times\<close>

lemma run_ops_simps [simp]:
  "run_ops K s [] = s" "run_ops K s (op # ops) = run_ops K (op_try K s op) ops"
  by (simp_all add: run_ops_def)

lemma op_try_cases:
  obtains "op_try K s op = s" | "exec_op K op s = Inr (op_try K s op)"
  by (cases "exec_op K op s") (auto simp: op_try_def)

lemma op_try_moves:
  assumes "store_wf s" and "op_writes K P op" and "\<And>j. deletion_ground op s j \<Longrightarrow> D j"
  shows "job_moves P D s (op_try K s op)"
  by (cases rule: op_try_cases [of K s op]) (use exec_op_moves [OF _ assms] in auto)

lemma op_try_wf: "store_wf s \<Longrightarrow> store_wf (op_try K s op)"
  by (rule job_moves_wf [OF op_try_moves [where P = "\<lambda>_ _. True" and D = "\<lambda>_. True"]]) simp_all

lemma run_ops_wf: "store_wf s \<Longrightarrow> store_wf (run_ops K s ops)"
  by (induction ops arbitrary: s) (simp_all add: op_try_wf)

text \<open>
  C9. After any sequence of store operations, whatever their commands do and however many of them
  fail, every stored row is valid and readable, the list of identifiers is exact, and no two jobs
  share a ticket, a Herdr target, a worktree or a delivery claim.
\<close>

theorem store_stays_well_formed:
  assumes "store_wf s"
  shows "store_wf (run_ops K s ops)
    \<and> store_jobs (run_ops K s ops)
      = Inr (map (\<lambda>i. calm (row_at (run_ops K s ops) i)) (js_ids (run_ops K s ops)))
    \<and> (reserved_by (run_ops K s ops) i k \<and> reserved_by (run_ops K s ops) j k \<longrightarrow> i = j)
    \<and> (claimed_by (run_ops K s ops) i tok \<and> claimed_by (run_ops K s ops) j tok \<longrightarrow> i = j)"
proof -
  have wf: "store_wf (run_ops K s ops)" by (rule run_ops_wf [OF assms])
  then have "tables_exact (run_ops K s ops)" by (simp add: store_wf_def)
  with wf store_jobs_rows [OF wf] show ?thesis by (blast intro: tables_exact_exclusive)
qed

section \<open>Deletions\<close>

lemma job_move_keeps_ids:
  assumes "job_move P (\<lambda>_. False) s t"
  shows "set (js_ids s) \<subseteq> set (js_ids t)"
  using assms by cases (auto simp: tables_def set_insort_key split: if_splits)

lemma job_moves_keep_ids: "job_moves P (\<lambda>_. False) s t \<Longrightarrow> set (js_ids s) \<subseteq> set (js_ids t)"
  by (induction rule: rtranclp_induct) (auto dest: job_move_keeps_ids)

lemma deleted_on_ground:
  assumes "store_wf s" and "i \<in> set (js_ids s)" and "i \<notin> set (js_ids (op_try K s op))"
  shows "deletion_ground op s (row_at s i)"
proof (rule op_try_cases [of K s op])
  assume run: "exec_op K op s = Inr (op_try K s op)"
  show ?thesis
  proof (cases "\<exists>j. deletion_ground op s j")
    case False
    with exec_op_moves [where P = "\<lambda>_ _. True" and D = "\<lambda>_. False", OF run assms(1)] assms(2,3) show ?thesis
      by (auto dest: job_moves_keep_ids)
  next
    case True
    then consider now retention where "op = Prune now retention" | tok where "op = Finalize tok"
      by (cases op) auto
    then show ?thesis
    proof cases
      case 1
      with run obtain removed where "prune now retention s = Inr (op_try K s op, removed)"
        by (auto simp: rbind_Inr_iff)
      from prune_rows [OF this assms(1)] assms(2,3) 1 show ?thesis
        by (auto simp: foldl_delete_rows selected_ids_def)
    next
      case 2
      with run obtain removed where "finalize_maintenance K tok s = Inr (op_try K s op, removed)"
        by (auto simp: rbind_Inr_iff)
      from finalize_rows(1,4) [OF this assms(1)] assms(2) 2 show ?thesis by simp
    qed
  qed
qed (use assms(2,3) in simp)

lemma ACTIVE_or_TERMINAL: "st \<in> ACTIVE_STATUSES \<or> st \<in> TERMINAL_STATUSES"
  by (cases st) (simp_all add: ACTIVE_STATUSES_def TERMINAL_STATUSES_def)

lemma deletion_ground_settled:
  assumes "deletion_ground op s j"
  shows "aj_status j \<in> TERMINAL_STATUSES \<and> \<not> must_retain (calm j)"
  using assms ACTIVE_or_TERMINAL [of "aj_status j"]
  by (cases op) (auto simp: prunable_def deletion_reasons_def Let_def split: if_splits)

text \<open>
  C10. A job disappears only in a \<open>prune\<close> or a \<open>finalize_maintenance\<close> that has a ground for it: just
  before, its record was terminal, with no uncertain operation, pending release, reconciliation or
  quarantine; pruned ones were delivered and old enough, the others had no worker and the
  deletion lease was held.
\<close>

theorem only_settled_jobs_are_deleted:
  assumes "store_wf s" and "i \<in> set (js_ids s)" and "i \<notin> set (js_ids (run_ops K s ops))"
  shows "\<exists>before op after. ops = before @ op # after
    \<and> i \<in> set (js_ids (run_ops K s before))
    \<and> deletion_ground op (run_ops K s before) (row_at (run_ops K s before) i)
    \<and> aj_status (row_at (run_ops K s before) i) \<in> TERMINAL_STATUSES
    \<and> \<not> must_retain (calm (row_at (run_ops K s before) i))"
  using assms
proof (induction ops arbitrary: s)
  case (Cons op ops)
  show ?case
  proof (cases "i \<in> set (js_ids (op_try K s op))")
    case True
    from Cons.IH [OF op_try_wf [OF Cons.prems(1)] True] Cons.prems(3) obtain before op' after where
      "ops = before @ op' # after" "i \<in> set (js_ids (run_ops K (op_try K s op) before))"
      "deletion_ground op' (run_ops K (op_try K s op) before) (row_at (run_ops K (op_try K s op) before) i)"
      by auto
    then show ?thesis
      by (intro exI [of _ "op # before"] exI [of _ op'] exI [of _ after]) (simp add: deletion_ground_settled)
  next
    case False
    from deleted_on_ground [OF Cons.prems(1,2) False] Cons.prems(2) show ?thesis
      by (intro exI [of _ "[]"] exI [of _ op] exI [of _ ops]) (simp add: deletion_ground_settled)
  qed
qed simp

section \<open>The capacity\<close>

abbreviation holds_capacity :: "stored_job \<Rightarrow> bool" where
  "holds_capacity j \<equiv> admission_of j = ''held''"

text \<open>A write that does not take capacity.\<close>

definition takes_no_capacity :: "stored_job option \<Rightarrow> stored_job \<Rightarrow> bool" where
  "takes_no_capacity b c \<longleftrightarrow> (holds_capacity c \<longrightarrow> (\<exists>j. b = Some j \<and> holds_capacity j))"

lemma set_held_ids: "set (held_ids s) = {i \<in> set (js_ids s). holds_capacity (row_at s i)}"
  by (auto simp: held_ids_def)

lemma job_move_held:
  assumes "job_move takes_no_capacity D s t"
  shows "set (held_ids t) \<subseteq> set (held_ids s)"
  using assms
proof cases
  case idle
  then show ?thesis by (simp add: tables_def set_held_ids row_at_def)
next
  case (update c r reserved claims)
  then have t: "db_jobs (js_db t) = (db_jobs (js_db s))(aj_id c \<mapsto> job_row_of c)" "js_ids t = js_ids s"
    by (simp_all add: tables_def)
  have "holds_capacity c \<Longrightarrow> holds_capacity (row_at s (aj_id c))"
    using update(1,4) by (simp add: takes_no_capacity_def row_at_def)
  then show ?thesis by (auto simp: set_held_ids t row_at_def job_row_of_def)
next
  case (create c reserved claims)
  then have t: "db_jobs (js_db t) = (db_jobs (js_db s))(aj_id c \<mapsto> job_row_of c)"
    "set (js_ids t) = insert (aj_id c) (set (js_ids s))"
    by (auto simp: tables_def set_insort_key)
  have "\<not> holds_capacity c" using create(2) by (simp add: takes_no_capacity_def)
  then show ?thesis by (auto simp: set_held_ids t row_at_def job_row_of_def)
next
  case (delete i r)
  then have "db_jobs (js_db t) = (db_jobs (js_db s))(i := None)" "js_ids t = filter (\<lambda>k. k \<noteq> i) (js_ids s)"
    by (simp_all add: tables_def delete_stored_job_def delete_job_def Let_def)
  then show ?thesis by (auto simp: set_held_ids row_at_def)
qed

lemma job_moves_held: "job_moves takes_no_capacity D s t \<Longrightarrow> set (held_ids t) \<subseteq> set (held_ids s)"
  by (induction rule: rtranclp_induct) (auto dest: job_move_held)

lemma distinct_held: "store_wf s \<Longrightarrow> distinct (held_ids s)"
  by (simp add: store_wf_def ids_exact_def held_ids_def)

lemma length_held: "store_wf s \<Longrightarrow> length (held_ids s) = card (set (held_ids s))"
  by (simp add: distinct_held distinct_card)

text \<open>Operations that take capacity only by claims within the limit.\<close>

definition within_capacity :: "store_checks \<Rightarrow> int \<Rightarrow> store_op \<Rightarrow> bool" where
  "within_capacity K limit op \<longleftrightarrow>
     (case op of Claim l \<Rightarrow> l \<le> limit | _ \<Rightarrow> op_writes K takes_no_capacity op)"

lemma claim_held:
  assumes "claim_participant_capacity l s = Inr (t, cs)" and "store_wf s"
  shows "int (length (held_ids t)) \<le> max l (int (length (held_ids s)))"
proof -
  from capacity_claim_rows [where P = "\<lambda>_ _. True" and D = "\<lambda>_. False", OF assms]
  have m: "job_moves (\<lambda>_ _. True) (\<lambda>_. False) s t"
    and adm: "list_all2 admitted (take (free_capacity l s) (waiting_jobs s)) cs"
    and same: "\<forall>i. i \<notin> aj_id ` set cs \<longrightarrow> db_jobs (js_db t) i = db_jobs (js_db s) i"
    and ids: "js_ids t = js_ids s" by simp_all
  have "set (held_ids t) \<subseteq> set (held_ids s) \<union> aj_id ` set cs"
    using same by (auto simp: set_held_ids ids row_at_def)
  then have "card (set (held_ids t)) \<le> card (set (held_ids s) \<union> aj_id ` set cs)" by (intro card_mono) auto
  also have "\<dots> \<le> card (set (held_ids s)) + card (aj_id ` set cs)" by (rule card_Un_le)
  also have "card (aj_id ` set cs) \<le> length cs" by (metis card_length length_map list.set_map)
  finally have "length (held_ids t) \<le> length (held_ids s) + length cs"
    by (simp add: length_held [OF assms(2)] length_held [OF job_moves_wf [OF m assms(2)]])
  moreover have "length cs \<le> free_capacity l s"
    using adm by (metis length_take list_all2_lengthD min.cobounded2)
  ultimately show ?thesis by (simp add: free_capacity_def)
qed

lemma op_try_held:
  assumes "store_wf s" and "within_capacity K limit op" and "int (length (held_ids s)) \<le> limit"
  shows "int (length (held_ids (op_try K s op))) \<le> limit"
proof (cases "\<exists>l. op = Claim l")
  case True
  then obtain l where op: "op = Claim l" by blast
  with assms(2) have l: "l \<le> limit" by (simp add: within_capacity_def)
  show ?thesis
  proof (rule op_try_cases [of K s op])
    assume "exec_op K op s = Inr (op_try K s op)"
    with op obtain cs where "claim_participant_capacity l s = Inr (op_try K s op, cs)" by (auto simp: rbind_Inr_iff)
    from claim_held [OF this assms(1)] l assms(3) show ?thesis by linarith
  qed (use assms(3) in simp)
next
  case False
  with assms(2) have "op_writes K takes_no_capacity op" by (cases op) (simp_all add: within_capacity_def)
  with assms(1) have m: "job_moves takes_no_capacity (\<lambda>_. True) s (op_try K s op)" by (simp add: op_try_moves)
  from card_mono [OF _ job_moves_held [OF m]] assms(3) show ?thesis
    by (simp add: length_held [OF assms(1)] length_held [OF op_try_wf [OF assms(1)]])
qed

text \<open>
  C11. The number of jobs that hold participant capacity never exceeds the limit, through any
  operations of any processes, when nothing but \<open>claim_participant_capacity\<close> takes capacity and no
  claim is made with a larger limit.
\<close>

theorem capacity_is_never_exceeded:
  assumes "store_wf s" and "int (length (held_ids s)) \<le> limit" and "list_all (within_capacity K limit) ops"
  shows "int (length (held_ids (run_ops K s ops))) \<le> limit"
  using assms
  by (induction ops arbitrary: s) (simp_all add: op_try_wf op_try_held)

text \<open>
  C12. One claim admits exactly the oldest waiting queued jobs, as many as are free, each going from
  waiting to held and one revision on, and touches nothing else; the event log gains no entry for
  these revisions.
\<close>

theorem capacity_goes_to_the_oldest_unlogged:
  assumes "store_wf s" and "claim_participant_capacity limit s = Inr (t, cs)"
  shows "list_all2 admitted (take (free_capacity limit s) (waiting_jobs s)) cs
    \<and> list_all (\<lambda>c. db_jobs (js_db t) (aj_id c) = Some (job_row_of c)) cs
    \<and> (\<forall>i. db_jobs (js_db t) i = db_jobs (js_db s) i \<or> i \<in> set (map aj_id cs))
    \<and> db_events (js_db t) = db_events (js_db s)"
  using capacity_claim_rows [where P = "\<lambda>_ _. True" and D = "\<lambda>_. False", OF assms(2,1)]
  by (auto simp: list_all_iff)

section \<open>The maintenance fence\<close>

lemma apply_typed_lease:
  assumes "apply_typed K tc s = Inr (t, res)"
  shows "js_maintenance t = js_maintenance s"
  using assms
  by (auto simp: apply_typed_def Let_def rbind_Inr_iff map_err_Inr_iff
      split: if_splits option.splits prod.splits)

lemma update_job_lease:
  assumes "update_job K r call s = Inr (t, res)"
  shows "js_maintenance t = js_maintenance s"
proof -
  from assms have "store_transaction (ck_legacy K) (reserved_artifacts K r) s call = Inr (t, res)"
    by (simp add: update_job_def map_err_Inr_iff)
  then show ?thesis by (cases rule: store_transaction_cases) simp_all
qed

text \<open>Operations that respect the lease: no takeover while its owner may live, no other token.\<close>

definition respects_lease :: "maintenance_lease \<Rightarrow> store_op \<Rightarrow> bool" where
  "respects_lease l op \<longleftrightarrow>
     (case op of
        Begin _ _ alive \<Rightarrow> alive l \<noteq> Some False
      | Abort tok \<Rightarrow> tok \<noteq> ml_token l
      | Finalize tok \<Rightarrow> tok \<noteq> ml_token l
      | _ \<Rightarrow> True)"

lemma job_move_same_ids:
  assumes "job_move (\<lambda>b _. \<exists>j. b = Some j) (\<lambda>_. False) s t"
  shows "js_ids t = js_ids s"
  using assms by cases (auto simp: tables_def)

lemma op_try_fenced:
  assumes "store_wf s" and "js_maintenance s = Some l" and "respects_lease l op"
  shows "js_ids (op_try K s op) = js_ids s \<and> js_maintenance (op_try K s op) = Some l"
proof (rule op_try_cases [of K s op])
  assume run: "exec_op K op s = Inr (op_try K s op)"
  have active: "maintenance_active s" using assms(2) by (simp add: maintenance_active_def)
  show ?thesis
  proof (cases op)
    case (Update r call)
    with run obtain res where u: "update_job K r call s = Inr (op_try K s op, res)" by (auto simp: rbind_Inr_iff)
    have "job_move (\<lambda>b _. \<exists>j. b = Some j) (\<lambda>_. False) s (op_try K s op)"
      by (rule update_moves [OF u assms(1)]) simp
    with update_job_lease [OF u] assms(2) show ?thesis by (auto dest: job_move_same_ids)
  next
    case (Apply tc)
    with run obtain res where u: "apply_typed K tc s = Inr (op_try K s op, res)" by (auto simp: rbind_Inr_iff)
    have "job_move (\<lambda>b _. \<exists>j. b = Some j) (\<lambda>_. False) s (op_try K s op)"
      by (rule apply_moves [OF u assms(1)]) simp
    with apply_typed_lease [OF u] assms(2) show ?thesis by (auto dest: job_move_same_ids)
  next
    case (Claim limit)
    with run obtain cs where u: "claim_participant_capacity limit s = Inr (op_try K s op, cs)"
      by (auto simp: rbind_Inr_iff)
    from capacity_claim_rows [where P = "\<lambda>_ _. True" and D = "\<lambda>_. False", OF u assms(1)] assms(2) show ?thesis by simp
  next
    case (Begin lease stage alive)
    with run obtain st where "begin_maintenance K lease stage alive s = Inr (op_try K s op, st)"
      by (auto simp: rbind_Inr_iff)
    from maintenance_begin_moves [where P = "\<lambda>_ _. True" and D = "\<lambda>_. False", OF this assms(1)] assms(2,3) Begin
    show ?thesis by (auto simp: respects_lease_def)
  next
    case (Finalize tok)
    with run obtain removed where "finalize_maintenance K tok s = Inr (op_try K s op, removed)"
      by (auto simp: rbind_Inr_iff)
    from finalize_rows(1) [OF this assms(1)] assms(2,3) Finalize show ?thesis by (simp add: respects_lease_def)
  qed (use run active assms(2,3) in \<open>auto simp: create_job_def stage_grouped_children_def create_follow_up_def
         prune_def abort_maintenance_def respects_lease_def rbind_Inr_iff\<close>)
qed (use assms(2) in simp)

text \<open>
  C13. While a process holds the deletion lease, nobody else creates or deletes a job, whatever is
  tried: the jobs stay those the owner staged, and the lease stays in place until its owner
  aborts, finalizes, or is known to be dead.
\<close>

theorem deletion_lease_freezes_the_jobs:
  assumes "store_wf s" and "js_maintenance s = Some l" and "list_all (respects_lease l) ops"
  shows "js_ids (run_ops K s ops) = js_ids s \<and> js_maintenance (run_ops K s ops) = Some l"
  using assms
proof (induction ops arbitrary: s)
  case (Cons op ops)
  from Cons.prems have "respects_lease l op" by simp
  note fenced = op_try_fenced [OF Cons.prems(1,2) this, of K]
  with Cons.IH [OF op_try_wf [OF Cons.prems(1)]] Cons.prems(3) show ?case by simp
qed simp

text \<open>A successful finalization leaves nothing behind, not even a reservation.\<close>

lemma finalized_store_is_empty:
  assumes "store_wf s" and "finalize_maintenance K tok s = Inr (t, removed)"
  shows "removed = js_ids s \<and> js_ids t = [] \<and> db_jobs (js_db t) = Map.empty
    \<and> js_reservations t = [] \<and> js_claims t = [] \<and> js_maintenance t = None"
proof -
  note rows = finalize_rows [OF assms(2,1)]
  have none: "db_jobs (js_db t) i = None" for i
    using assms(1) by (auto simp: rows(2,3) foldl_delete_rows store_wf_def ids_exact_def)
  have "store_wf t"
    using op_try_wf [OF assms(1), of K "Finalize tok"] assms(2) by (simp add: op_try_def)
  then have "tables_exact t" by (simp add: store_wf_def)
  then have "js_reservations t = []" "js_claims t = []"
    by (auto simp: tables_exact_def reserved_by_def claimed_by_def none)
       (metis list.set_intros(1) neq_Nil_conv prod.exhaust)+
  with rows none show ?thesis by (auto simp: foldl_delete_rows)
qed

end
