(* ===== verification/Delivery_Service.thy ===== *)
theory Delivery_Service imports Job_Store begin

text \<open>
  \<open>cursor/delivery.py\<close>: claiming, renewing, acknowledging and releasing the announcement of a
  job's result, each one store update whose command declines by returning nothing, and the scan
  that claims the next announcements in the order of completion. Claim tokens, the identifiers of
  the updates and the clock are arguments.
\<close>

section \<open>Commands\<close>

definition DELIVERY_CLAIM_SECONDS :: time where "DELIVERY_CLAIM_SECONDS = 300"
definition DELIVERY_RETRY_SECONDS :: time where "DELIVERY_RETRY_SECONDS = 5"

definition DELIVERABLE_STATUSES :: "job_state set" where
  "DELIVERABLE_STATUSES = {JsAwaitingUser, JsBlocked, JsCompleted, JsFailed, JsCancelled}"

definition claim_is_live :: "stored_job \<Rightarrow> time \<Rightarrow> bool" where
  "claim_is_live j now \<longleftrightarrow>
     otruthy (delivery_claim_token (job_delivery j))
     \<and> (case delivery_claimed_at (job_delivery j) of
          None \<Rightarrow> False
        | Some c \<Rightarrow> now - c < DELIVERY_CLAIM_SECONDS)"

text \<open>\<open>job.completed_at or other\<close>: zero counts as no time.\<close>

definition completed_or :: "stored_job \<Rightarrow> time \<Rightarrow> time" where
  "completed_or j other = (case aj_completed_at j of None \<Rightarrow> other | Some c \<Rightarrow> if c = 0 then other else c)"

text \<open>\<open>except (JobValidationError, LifecycleTransitionError): return None\<close>.\<close>

definition unless_refused :: "delivery_failure + stored_job \<Rightarrow> job_error + stored_job option" where
  "unless_refused m =
     (case m of
        Inr j \<Rightarrow> Inr (Some j)
      | Inl (DeliveryIllegal _) \<Rightarrow> Inr None
      | Inl (DeliveryJobError (JobValidationError _)) \<Rightarrow> Inr None
      | Inl (DeliveryJobError e) \<Rightarrow> Inl e)"

definition claim_command ::
  "bool \<Rightarrow> (stored_job \<Rightarrow> bool) option \<Rightarrow> time \<Rightarrow> string \<Rightarrow> job_command" where
  "claim_command foreground eligible claimed_at tok j =
     (if aj_status j \<notin> DELIVERABLE_STATUSES \<or> delivered (job_delivery j) then Inr None
      else if (case eligible of None \<Rightarrow> False | Some p \<Rightarrow> \<not> p j) then Inr None
      else if \<not> foreground \<and> claimed_at < foreground_until j then Inr None
      else if claimed_at < delivery_retry_at (job_delivery j) then Inr None
      else if \<not> foreground \<and> aj_status j \<notin> {JsAwaitingUser, JsBlocked}
              \<and> claimed_at - completed_or j claimed_at < 1 then Inr None
      else if claim_is_live j claimed_at then Inr None
      else unless_refused (job_claim_delivery tok claimed_at DELIVERY_CLAIM_SECONDS j))"

text \<open>The guard shared by renewals and acknowledgements.\<close>

definition holds_claim :: "string \<Rightarrow> time \<Rightarrow> stored_job \<Rightarrow> bool" where
  "holds_claim tok now j \<longleftrightarrow>
     delivery_claim_token (job_delivery j) = Some tok \<and> \<not> delivered (job_delivery j) \<and> claim_is_live j now"

definition renew_command :: "string \<Rightarrow> time \<Rightarrow> job_command" where
  "renew_command tok renewed_at j =
     (if \<not> holds_claim tok renewed_at j then Inr None
      else unless_refused (job_renew_delivery tok renewed_at DELIVERY_CLAIM_SECONDS j))"

text \<open>
  \<open>acknowledge_delivery\<close>, \<open>acknowledge_desktop_delivery\<close> and \<open>acknowledge_deferred_delivery\<close>, by their
  acknowledgement.
\<close>

definition acknowledge_command :: "announcement_ack \<Rightarrow> string \<Rightarrow> time \<Rightarrow> job_command" where
  "acknowledge_command ack tok done_at j =
     (if \<not> holds_claim tok done_at j then Inr None
      else unless_refused (job_acknowledge_delivery ack tok done_at DELIVERY_CLAIM_SECONDS j))"

definition release_command :: "string \<Rightarrow> bool \<Rightarrow> time \<Rightarrow> job_command" where
  "release_command tok retry released_at j =
     (if delivery_claim_token (job_delivery j) \<noteq> Some tok \<or> delivered (job_delivery j) then Inr None
      else unless_refused
        (job_release_delivery tok (if retry then released_at + DELIVERY_RETRY_SECONDS else 0) j))"

section \<open>Calls on the store\<close>

record call_ids =
  ci_command_id :: string
  ci_ids :: transition_ids

definition delivery_call :: "string \<Rightarrow> job_command \<Rightarrow> call_ids \<Rightarrow> update_call" where
  "delivery_call job_id command u =
     \<lparr>sc_reject_maintenance = False, sc_job_id = job_id, sc_command = command,
      sc_command_id = ci_command_id u, sc_ids = ci_ids u\<rparr>"

datatype delivery_request =
    ClaimRequest string bool "(stored_job \<Rightarrow> bool) option" time string
  | RenewRequest string time string
  | AcknowledgeRequest announcement_ack string time string
  | ReleaseRequest string bool time string

text \<open>The first argument of a request is its token (the second of an acknowledgement), the last the job.\<close>

fun request_command :: "delivery_request \<Rightarrow> job_command" where
  "request_command (ClaimRequest tok fg eligible now _) = claim_command fg eligible now tok"
| "request_command (RenewRequest tok now _) = renew_command tok now"
| "request_command (AcknowledgeRequest ack tok now _) = acknowledge_command ack tok now"
| "request_command (ReleaseRequest tok retry now _) = release_command tok retry now"

fun request_job :: "delivery_request \<Rightarrow> string" where
  "request_job (ClaimRequest _ _ _ _ i) = i"
| "request_job (RenewRequest _ _ i) = i"
| "request_job (AcknowledgeRequest _ _ _ i) = i"
| "request_job (ReleaseRequest _ _ _ i) = i"

definition request_call :: "delivery_request \<Rightarrow> call_ids \<Rightarrow> update_call" where
  "request_call q = delivery_call (request_job q) (request_command q)"

section \<open>Scanning for announcements\<close>

record delivery_claim =
  dc_job :: stored_job
  dc_token :: string

text \<open>The loop of \<open>claim_delivery\<close>: the first job whose update commits. Each attempt has its own token.\<close>

fun claim_loop ::
  "(job_store \<Rightarrow> update_call \<Rightarrow> store_error + job_store \<times> stored_job option) \<Rightarrow>
   (string \<Rightarrow> job_command) \<Rightarrow> (nat \<Rightarrow> string \<times> call_ids) \<Rightarrow> nat \<Rightarrow> job_store \<Rightarrow> string list \<Rightarrow>
   job_store \<times> nat \<times> (store_error + delivery_claim option)" where
  "claim_loop transact command supply n s [] = (s, n, Inr None)"
| "claim_loop transact command supply n s (i # ids) =
     (let (tok, u) = supply n in
      case transact s (delivery_call i (command tok) u) of
        Inl e \<Rightarrow> (s, Suc n, Inl e)
      | Inr (s', Some j) \<Rightarrow> (s', Suc n, Inr (Some \<lparr>dc_job = j, dc_token = tok\<rparr>))
      | Inr (s', None) \<Rightarrow> claim_loop transact command supply (Suc n) s' ids)"

definition claim_next ::
  "(job_store \<Rightarrow> update_call \<Rightarrow> store_error + job_store \<times> stored_job option) \<Rightarrow>
   (string \<Rightarrow> job_command) \<Rightarrow> (nat \<Rightarrow> string \<times> call_ids) \<Rightarrow> nat \<Rightarrow> job_store \<Rightarrow>
   job_store \<times> nat \<times> (store_error + delivery_claim option)" where
  "claim_next transact command supply n s =
     (case store_list s of
        Inl e \<Rightarrow> (s, n, Inl e)
      | Inr jobs \<Rightarrow>
          claim_loop transact command supply n s
            (map aj_id (sort_key (\<lambda>j. completed_or j (aj_created_at j)) jobs)))"

text \<open>The loop of \<open>pending_deliveries\<close>, at most as many claims as the limit.\<close>

fun pending_loop ::
  "(job_store \<Rightarrow> update_call \<Rightarrow> store_error + job_store \<times> stored_job option) \<Rightarrow>
   (string \<Rightarrow> job_command) \<Rightarrow> (nat \<Rightarrow> string \<times> call_ids) \<Rightarrow> nat \<Rightarrow> nat \<Rightarrow> job_store \<Rightarrow>
   job_store \<times> (store_error + delivery_claim list)" where
  "pending_loop transact command supply 0 n s = (s, Inr [])"
| "pending_loop transact command supply (Suc limit) n s =
     (case claim_next transact command supply n s of
        (s', n', Inl e) \<Rightarrow> (s', Inl e)
      | (s', n', Inr None) \<Rightarrow> (s', Inr [])
      | (s', n', Inr (Some c)) \<Rightarrow>
          (case pending_loop transact command supply limit n' s' of
             (t, Inl e) \<Rightarrow> (t, Inl e)
           | (t, Inr cs) \<Rightarrow> (t, Inr (c # cs))))"

definition pending_deliveries ::
  "(stored_job \<Rightarrow> stored_job) \<Rightarrow> (stored_job \<Rightarrow> stored_job \<Rightarrow> job_error + unit) \<Rightarrow>
   (stored_job \<Rightarrow> bool) option \<Rightarrow> time \<Rightarrow> (nat \<Rightarrow> string \<times> call_ids) \<Rightarrow> int \<Rightarrow> job_store \<Rightarrow>
   job_store \<times> (store_error + delivery_claim list)" where
  "pending_deliveries legacy artifacts eligible now supply limit s =
     (if limit \<le> 0 then (s, Inl (StoreJobError (ValueError ''delivery limit must be positive'')))
      else pending_loop (store_transaction legacy artifacts) (claim_command False eligible now)
             supply (nat limit) 0 s)"

text \<open>Settling what a scan returned, one update each, at the times given.\<close>

fun acknowledge_deliveries ::
  "(job_store \<Rightarrow> update_call \<Rightarrow> store_error + job_store \<times> stored_job option) \<Rightarrow> (nat \<Rightarrow> time) \<Rightarrow>
   (nat \<Rightarrow> call_ids) \<Rightarrow> nat \<Rightarrow> job_store \<Rightarrow> delivery_claim list \<Rightarrow>
   job_store \<times> (store_error + delivery_claim list)" where
  "acknowledge_deliveries transact clock ids n s [] = (s, Inr [])"
| "acknowledge_deliveries transact clock ids n s (c # cs) =
     (case transact s (request_call
             (AcknowledgeRequest AckSpoken (dc_token c) (clock n) (aj_id (dc_job c))) (ids n)) of
        Inl e \<Rightarrow> (s, Inl e)
      | Inr (s', r) \<Rightarrow>
          (case acknowledge_deliveries transact clock ids (Suc n) s' cs of
             (t, Inl e) \<Rightarrow> (t, Inl e)
           | (t, Inr acknowledged) \<Rightarrow> (t, Inr (if r = None then acknowledged else c # acknowledged))))"

fun release_deliveries ::
  "(job_store \<Rightarrow> update_call \<Rightarrow> store_error + job_store \<times> stored_job option) \<Rightarrow> (nat \<Rightarrow> time) \<Rightarrow>
   (nat \<Rightarrow> call_ids) \<Rightarrow> nat \<Rightarrow> job_store \<Rightarrow> delivery_claim list \<Rightarrow> job_store \<times> (store_error + unit)" where
  "release_deliveries transact clock ids n s [] = (s, Inr ())"
| "release_deliveries transact clock ids n s (c # cs) =
     (case transact s (request_call
             (ReleaseRequest (dc_token c) True (clock n) (aj_id (dc_job c))) (ids n)) of
        Inl e \<Rightarrow> (s, Inl e)
      | Inr (s', r) \<Rightarrow> release_deliveries transact clock ids (Suc n) s' cs)"

text \<open>\<open>suppressed_jobs\<close>: undelivered results that were deferred or shown on the desktop only.\<close>

definition suppressed_jobs :: "job_store \<Rightarrow> store_error + stored_job list" where
  "suppressed_jobs s =
     rbind (store_list s) (\<lambda>jobs. Inr (sort_key (\<lambda>j. completed_or j (aj_created_at j))
       (filter (\<lambda>j. aj_status j \<in> DELIVERABLE_STATUSES \<and> \<not> delivered (job_delivery j)
            \<and> announcement_ack_of_row (job_delivery j) False \<in> {''deferred'', ''desktop''}) jobs)))"

end
