(* ===== verification/Delivery_Claims.thy ===== *)
theory Delivery_Claims imports Delivery_Service Store_Machine begin

text \<open>
  What the delivery service promises over the store: the requests it accepts are a run of the
  delivery machine, a live claim shuts every other client out, an announcement is spoken at most once, and
  a scan returns distinct claims the store really holds.
\<close>

section \<open>The delivery a record holds\<close>

abbreviation delivery_of :: "stored_job \<Rightarrow> job_error + delivery_state" where
  "delivery_of j \<equiv> job_delivery_state (full_part j)"

lemma delivery_of_row:
  "delivery_of j = map_err lifecycle_failure
     (delivery_state_of_row (full_job.announcement_dismissed j) None (job_delivery j))"
  by (simp add: job_delivery_state_def full_job.defs)

text \<open>The columns and the state they are read as.\<close>

lemma delivery_of_columns:
  assumes "delivery_of j = Inr d"
  shows "delivery_ok d" "delivered (job_delivery j) \<longleftrightarrow> delivery_label d = LDelivered"
    and "delivery_label d = LClaimed \<Longrightarrow> delivery_claim_token (job_delivery j) = Some (ds_token d)
      \<and> delivery_claimed_at (job_delivery j) = Some (ds_claimed_at d) \<and> ds_token d \<noteq> []"
    and "delivery_label d = LPending \<Longrightarrow> \<not> otruthy (delivery_claim_token (job_delivery j))"
proof -
  from assms have l: "delivery_state_of_row (full_job.announcement_dismissed j) None (job_delivery j) = Inr d"
    by (simp add: delivery_of_row map_err_Inr_iff)
  then show "delivery_ok d" unfolding delivery_state_of_row_def by (rule load_delivery_state_ok)
  show "delivered (job_delivery j) \<longleftrightarrow> delivery_label d = LDelivered"
    and "delivery_label d = LClaimed \<Longrightarrow> delivery_claim_token (job_delivery j) = Some (ds_token d)
      \<and> delivery_claimed_at (job_delivery j) = Some (ds_claimed_at d) \<and> ds_token d \<noteq> []"
    and "delivery_label d = LPending \<Longrightarrow> \<not> otruthy (delivery_claim_token (job_delivery j))"
    using l by (auto simp: delivery_state_of_row_def load_delivery_state_def Let_def if_Inl_Inr_iff
        truthy_def split: option.splits if_splits)
qed

text \<open>What a delivery writes is read back, also next to an older time of delivery.\<close>

lemma merged_delivery_read:
  assumes "delivery_ok t"
  shows "delivery_state_of_row b None (job_delivery (set_delivery t j)) = Inr t"
proof -
  have "delivery_state_of_row b None (job_delivery (set_delivery t j))
      = delivery_state_of_row b (case delivered_at_key (job_delivery j) of None \<Rightarrow> None | Some d \<Rightarrow> d)
          (delivery_fields t)"
    by (cases t; cases "delivered_at_key (job_delivery j)")
       (simp_all add: delivery_state_of_row_def set_delivery_def delivery_fields_def Let_def
          announcement_ack_of_row_def)
  then show ?thesis by (simp add: delivery_state_of_fields [OF assms])
qed

lemma canonical_delivery:
  assumes "delivery_ok t"
  shows "default_announcement_ack (job_delivery (set_delivery t j)) = job_delivery (set_delivery t j)"
  using assms
  by (cases t; cases "an_ack (ds_announcement t)")
     (auto simp: default_announcement_ack_def set_delivery_def delivery_fields_def Let_def)

lemma pair_worker_sel [simp]:
  "job_delivery (pair_worker_ownership j) = job_delivery j"
  "full_job.announcement_dismissed (pair_worker_ownership j) = full_job.announcement_dismissed j"
  "aj_id (pair_worker_ownership j) = aj_id j" "aj_status (pair_worker_ownership j) = aj_status j"
  "aj_loaded_schema_version (pair_worker_ownership j) = aj_loaded_schema_version j"
  by (simp_all add: pair_worker_ownership_def Let_def)

lemma typed_dismissed [simp]:
  "full_job.announcement_dismissed (with_typed_operations p j) = full_job.announcement_dismissed j"
  by (simp add: with_typed_operations_def)

lemma updated_job_cols:
  assumes "updated_job f j = Inr u"
  shows "job_delivery u = default_announcement_ack (job_delivery (f j))"
    and "full_job.announcement_dismissed u = full_job.announcement_dismissed (f j)"
    and "aj_loaded_schema_version u = aj_loaded_schema_version (f j)"
    and "validate_invariants True (full_part u) = Inr ()"
proof -
  from next_record_cols [OF assms [unfolded updated_job_def]] obtain p where
    u: "u = with_typed_operations p ((pair_worker_ownership (f j))\<lparr>aj_revision := aj_revision j + 1\<rparr>)"
    and t: "validate_transition (\<lambda>_. validate_invariants True (full_part u)) (agent_part j) (agent_part u) = Inr ()"
    by blast
  from u show "job_delivery u = default_announcement_ack (job_delivery (f j))"
    "full_job.announcement_dismissed u = full_job.announcement_dismissed (f j)"
    "aj_loaded_schema_version u = aj_loaded_schema_version (f j)" by simp_all
  from t show "validate_invariants True (full_part u) = Inr ()"
    by (erule_tac validate_transition_parts) simp
qed

lemma full_part_delivery [simp]: "job_delivery (full_part j) = job_delivery j"
  "full_job.announcement_dismissed (full_part j) = full_job.announcement_dismissed j"
  by (simp_all add: full_job.defs)

lemma claims_have_tokens:
  assumes "validate_invariants True (full_part u) = Inr ()"
    and "delivery_claimed_at (job_delivery u) \<noteq> None"
  shows "otruthy (delivery_claim_token (job_delivery u))"
proof -
  from assms(1) have "passes (check_delivery (full_part u))" by (simp add: validate_invariants_iff)
  with assms(2) show ?thesis by (simp add: check_delivery_def Let_def)
qed

lemma step_ok_or_untoken:
  assumes "delivery_ok d" and "delivery_step d a = Inr t"
  shows "delivery_ok t \<or> (\<exists>g c rt n an. t = ClaimedDelivery g [] c rt n an \<and> an_ack an \<notin> final_acks)"
proof (cases "op_ok a")
  case True
  with assms show ?thesis by (auto dest: delivery_step_ok)
next
  case False
  then obtain now lease where "a = ClaimOp [] now lease" by (cases a) auto
  with assms show ?thesis by (cases d) (auto simp: claim_delivery_iff)
qed

text \<open>A delivery method that succeeds is one step of the delivery machine on the record.\<close>

lemma deliver_job_step:
  assumes "deliver_job (\<lambda>d. delivery_step d a) j = Inr u"
  shows "\<exists>d t. delivery_of j = Inr d \<and> delivery_step d a = Inr t \<and> delivery_of u = Inr t
    \<and> aj_loaded_schema_version u = aj_loaded_schema_version j"
proof -
  from assms obtain d t where d: "delivery_of j = Inr d" and t: "delivery_step d a = Inr t"
    and u: "updated_job (set_delivery t) j = Inr u"
    unfolding deliver_job_def rbind_Inr_iff map_err_Inr_iff by blast
  note cols = updated_job_cols [OF u]
  have "delivery_ok t"
  proof (rule ccontr)
    assume "\<not> delivery_ok t"
    with step_ok_or_untoken [OF delivery_of_columns(1) [OF d] t] obtain g c rt n an where
      "t = ClaimedDelivery g [] c rt n an" "an_ack an \<notin> final_acks" by blast
    then have "delivery_claimed_at (job_delivery u) \<noteq> None"
      "delivery_claim_token (job_delivery u) = Some []"
      unfolding cols(1)
      by (cases "an_ack an";
          simp add: default_announcement_ack_def set_delivery_def delivery_fields_def Let_def)+
    with claims_have_tokens [OF cols(4)] show False by simp
  qed
  then have "delivery_of u = Inr t"
    by (simp add: delivery_of_row cols canonical_delivery merged_delivery_read)
  with d t cols(3) show ?thesis by (simp add: set_delivery_def)
qed

section \<open>One request\<close>

fun machine_op :: "delivery_request \<Rightarrow> delivery_op" where
  "machine_op (ClaimRequest tok _ _ now _) = ClaimOp tok now DELIVERY_CLAIM_SECONDS"
| "machine_op (RenewRequest tok now _) = RenewOp tok now DELIVERY_CLAIM_SECONDS"
| "machine_op (AcknowledgeRequest ack tok now _) =
     AckOp tok (Some now) ack (Some DELIVERY_CLAIM_SECONDS)"
| "machine_op (ReleaseRequest tok retry now _) =
     ReleaseOp tok (if retry then now + DELIVERY_RETRY_SECONDS else 0)"

lemma unless_refused_Some [simp]: "unless_refused m = Inr (Some j) \<longleftrightarrow> m = Inr j"
  by (auto simp: unless_refused_def split: sum.splits delivery_failure.splits job_error.splits)

lemma request_command_step:
  assumes "request_command q j = Inr (Some cand)"
  shows "deliver_job (\<lambda>d. delivery_step d (machine_op q)) j = Inr cand"
  using assms
  by (cases q)
     (simp_all add: claim_command_def renew_command_def acknowledge_command_def release_command_def
        job_claim_delivery_def job_renew_delivery_def job_acknowledge_delivery_def
        job_release_delivery_def if_Inl_Inr_iff split: if_splits)

lemma clear_legacy_sel [simp]:
  "job_delivery (clear_legacy_release_owner j) = job_delivery j"
  "full_job.announcement_dismissed (clear_legacy_release_owner j) = full_job.announcement_dismissed j"
  by (simp_all add: clear_legacy_release_owner_def)

lemma normalize_keeps_delivery:
  assumes "normalize_for_durable_write legacy cand = Inr c"
    and "aj_loaded_schema_version cand = CURRENT_SCHEMA_VERSION"
  shows "job_delivery c = default_announcement_ack (job_delivery cand)"
    and "full_job.announcement_dismissed c = full_job.announcement_dismissed cand"
proof -
  from assms obtain w where w: "read_record ((clear_legacy_release_owner cand)
      \<lparr>aj_loaded_schema_version := CURRENT_SCHEMA_VERSION\<rparr>) = Inr w"
    and c: "c = w\<lparr>aj_lifecycle_event := aj_lifecycle_event cand\<rparr>"
    by (auto simp: normalize_for_durable_write_def rbind_Inr_iff Let_def if_Inl_Inr_iff)
  from read_record_cols [OF w] c show "job_delivery c = default_announcement_ack (job_delivery cand)"
    "full_job.announcement_dismissed c = full_job.announcement_dismissed cand"
    by auto
qed

text \<open>A request either changes nothing or is one step of the delivery machine on its job.\<close>

lemma request_transaction:
  assumes "store_ok s" and "store_transaction legacy artifacts s (request_call q u) = Inr (s', res)"
  obtains (same) "s' = s" "res \<noteq> None \<Longrightarrow> load_command_event (js_db s) (ci_command_id u) \<noteq> None"
  | (step) row c d d' where
      "db_jobs (js_db s) (request_job q) = Some row" "res = Some c" "aj_id c = request_job q"
      "delivery_of (jr_body row) = Inr d" "delivery_step d (machine_op q) = Inr d'" "delivery_of c = Inr d'"
      "db_jobs (js_db s') = (db_jobs (js_db s))(request_job q \<mapsto> job_row_of c)"
      "db_events (js_db s') = db_events (js_db s) @ [update_event_row (request_call q u) (aj_revision c)]"
      "request_command q ((jr_body row)\<lparr>aj_lifecycle_event := None\<rparr>) \<noteq> Inr None"
proof -
  have call: "sc_job_id (request_call q u) = request_job q" "sc_command (request_call q u) = request_command q"
    "sc_command_id (request_call q u) = ci_command_id u"
    by (simp_all add: request_call_def delivery_call_def)
  from assms(2) show thesis
  proof (cases rule: store_transaction_cases)
    case same
    with that(1) call show thesis by simp
  next
    case (commit row current cand c reserved claims)
    from assms(1) commit(1) have ok: "stored_row_ok row" "aj_id (jr_body row) = request_job q"
      by (auto simp: store_ok_def call)
    with commit(2) have current: "current = (jr_body row)\<lparr>aj_lifecycle_event := None\<rparr>"
      by (simp add: stored_row_ok_def)
    from deliver_job_step [OF request_command_step] commit(3) [unfolded call] obtain d d' where
      d: "delivery_of current = Inr d" "delivery_step d (machine_op q) = Inr d'" "delivery_of cand = Inr d'"
      and v: "aj_loaded_schema_version cand = aj_loaded_schema_version current" by blast
    have "aj_loaded_schema_version cand = CURRENT_SCHEMA_VERSION"
      using v ok(1) current by (simp add: stored_row_ok_def)
    note n = normalize_keeps_delivery [OF commit(5) this]
    from commit(3) [unfolded call] obtain b where "updated_job b current = Inr cand"
      using request_command_step [of q current cand] by (auto simp: deliver_job_def rbind_Inr_iff map_err_Inr_iff)
    then have "default_announcement_ack (job_delivery cand) = job_delivery cand"
      by (simp add: updated_job_cols(1))
    with n d(3) have dc: "delivery_of c = Inr d'" by (simp add: delivery_of_row)
    have "full_update (full_part current) (full_part c)" using commit(6) by (simp add: full_update_def)
    then have "aj_id c = request_job q" using ok(2) current by (auto dest: full_update_revision)
    moreover have "delivery_of (jr_body row) = Inr d" using d(1) by (simp add: delivery_of_row current)
    ultimately show thesis
      using that(2) commit d dc current by (simp add: call)
  qed
qed

lemma request_try:
  assumes "store_ok s" and "db_jobs (js_db s) i = Some r" and "delivery_of (jr_body r) = Inr d"
  shows "\<exists>r'. db_jobs (js_db (store_try legacy artifacts s (request_call q u))) i = Some r'
    \<and> (r' = r \<or> request_job q = i
         \<and> (\<exists>d'. delivery_step d (machine_op q) = Inr d' \<and> delivery_of (jr_body r') = Inr d'))"
proof (cases "store_transaction legacy artifacts s (request_call q u)")
  case (Inl e)
  with assms(2) show ?thesis by (simp add: store_try_def)
next
  case (Inr b)
  obtain s' res where b: "b = (s', res)" by (cases b) simp
  from assms(1) Inr [unfolded b] show ?thesis
  proof (cases rule: request_transaction)
    case same
    with Inr b assms(2) show ?thesis by (simp add: store_try_def)
  next
    case (step row c d0 d')
    with Inr b assms(2,3) show ?thesis
      by (cases "request_job q = i") (auto simp: store_try_def job_row_of_def)
  qed
qed

section \<open>Runs of requests\<close>

type_synonym requests = "(delivery_request \<times> call_ids) list"

definition run_requests ::
  "(stored_job \<Rightarrow> stored_job) \<Rightarrow> (stored_job \<Rightarrow> stored_job \<Rightarrow> job_error + unit) \<Rightarrow> job_store \<Rightarrow>
   requests \<Rightarrow> job_store" where
  "run_requests legacy artifacts s qs = run_store legacy artifacts s (map (\<lambda>(q, u). request_call q u) qs)"

lemma run_requests_simps [simp]:
  "run_requests legacy artifacts s [] = s"
  "run_requests legacy artifacts s ((q, u) # qs)
   = run_requests legacy artifacts (store_try legacy artifacts s (request_call q u)) qs"
  by (simp_all add: run_requests_def)

text \<open>Every request brings an identifier of its own that the store has not seen.\<close>

definition unused_ids :: "job_store \<Rightarrow> requests \<Rightarrow> bool" where
  "unused_ids s qs \<longleftrightarrow> distinct (map (ci_command_id \<circ> snd) qs)
     \<and> list_all (\<lambda>(_, u). load_command_event (js_db s) (ci_command_id u) = None) qs"

lemma unused_ids_step:
  assumes "store_ok s" and "unused_ids s ((q, u) # qs)"
  shows "unused_ids (store_try legacy artifacts s (request_call q u)) qs"
  using assms(1)
proof (cases rule: store_try_cases [of s legacy artifacts "request_call q u"])
  case same
  with assms(2) show ?thesis by (simp add: unused_ids_def)
next
  case (commit row c)
  have "list_all (\<lambda>(_, v). ci_command_id u \<noteq> ci_command_id v) qs"
    using assms(2) by (force simp: unused_ids_def list_all_iff)
  with assms(2) commit(5) show ?thesis
    by (auto simp: unused_ids_def list_all_iff load_command_event_def find_append update_event_row_def
        request_call_def delivery_call_def split: option.splits)
qed

text \<open>The requests on a job that the store answers with the saved record, as machine operations.\<close>

definition answered ::
  "(stored_job \<Rightarrow> stored_job) \<Rightarrow> (stored_job \<Rightarrow> stored_job \<Rightarrow> job_error + unit) \<Rightarrow> job_store \<Rightarrow>
   delivery_request \<Rightarrow> call_ids \<Rightarrow> bool" where
  "answered legacy artifacts s q u \<longleftrightarrow>
     (case store_transaction legacy artifacts s (request_call q u) of
        Inr (_, Some _) \<Rightarrow> True | _ \<Rightarrow> False)"

fun accepted_ops ::
  "(stored_job \<Rightarrow> stored_job) \<Rightarrow> (stored_job \<Rightarrow> stored_job \<Rightarrow> job_error + unit) \<Rightarrow> string \<Rightarrow>
   job_store \<Rightarrow> requests \<Rightarrow> delivery_op list" where
  "accepted_ops legacy artifacts i s [] = []"
| "accepted_ops legacy artifacts i s ((q, u) # qs) =
     (if request_job q = i \<and> answered legacy artifacts s q u then [machine_op q] else [])
     @ accepted_ops legacy artifacts i (store_try legacy artifacts s (request_call q u)) qs"

text \<open>An answered request is one step of the machine; any other leaves the row as it is.\<close>

lemma request_answer:
  assumes "store_ok s" and "db_jobs (js_db s) i = Some r" and "delivery_of (jr_body r) = Inr d"
    and "load_command_event (js_db s) (ci_command_id u) = None"
  shows "if request_job q = i \<and> answered legacy artifacts s q u
    then \<exists>d' r'. delivery_step d (machine_op q) = Inr d' \<and> delivery_of (jr_body r') = Inr d'
       \<and> db_jobs (js_db (store_try legacy artifacts s (request_call q u))) i = Some r'
    else db_jobs (js_db (store_try legacy artifacts s (request_call q u))) i = Some r"
proof (cases "store_transaction legacy artifacts s (request_call q u)")
  case (Inl e)
  with assms(2) show ?thesis by (simp add: store_try_def answered_def)
next
  case (Inr b)
  obtain s' res where b: "b = (s', res)" by (cases b) simp
  from assms(1) Inr [unfolded b] show ?thesis
  proof (cases rule: request_transaction)
    case same
    with assms(4) have "res = None" by blast
    with same Inr b assms(2) show ?thesis by (simp add: store_try_def answered_def)
  next
    case (step row c d0 d')
    with Inr b assms(2,3) show ?thesis
      by (cases "request_job q = i") (auto simp: store_try_def answered_def job_row_of_def)
  qed
qed

lemma requests_run_machine:
  assumes "store_ok s" and "db_jobs (js_db s) i = Some r" and "delivery_of (jr_body r) = Inr d"
    and "unused_ids s qs"
  shows "\<exists>d' r'. run_steps delivery_step d (accepted_ops legacy artifacts i s qs) = Inr d'
    \<and> db_jobs (js_db (run_requests legacy artifacts s qs)) i = Some r' \<and> delivery_of (jr_body r') = Inr d'"
  using assms
proof (induction qs arbitrary: s r d)
  case (Cons p qs)
  obtain q u where p: "p = (q, u)" by (cases p)
  let ?t = "store_try legacy artifacts s (request_call q u)"
  have ok: "store_ok ?t" by (rule store_ok_try [OF Cons.prems(1)])
  have ids: "unused_ids ?t qs" by (rule unused_ids_step [OF Cons.prems(1) Cons.prems(4) [unfolded p]])
  have new: "load_command_event (js_db s) (ci_command_id u) = None"
    using Cons.prems(4) p by (simp add: unused_ids_def)
  note answer = request_answer [OF Cons.prems(1-3) new, of q legacy artifacts]
  show ?case
  proof (cases "request_job q = i \<and> answered legacy artifacts s q u")
    case True
    with answer obtain d1 r1 where
      d1: "delivery_step d (machine_op q) = Inr d1" "delivery_of (jr_body r1) = Inr d1"
        "db_jobs (js_db ?t) i = Some r1" by auto
    from Cons.IH [OF ok d1(3,2) ids] d1(1) True show ?thesis by (simp add: p)
  next
    case False
    with answer have "db_jobs (js_db ?t) i = Some r" by (simp split: if_splits)
    moreover have "accepted_ops legacy artifacts i s (p # qs) = accepted_ops legacy artifacts i ?t qs"
      using False by (auto simp: p)
    ultimately show ?thesis using Cons.IH [OF ok _ Cons.prems(3) ids] by (simp add: p)
  qed
qed simp

text \<open>
  C15. Whatever requests the clients of the delivery service make in whatever order, each request
  with a new identifier: the operations of exactly those requests on a job that were answered
  with the saved record, in their order, form a run of the delivery machine from the job's
  delivery, and the delivery stored at the end is the result of that run.
\<close>

theorem delivery_service_refines_machine:
  assumes "store_ok s" and "db_jobs (js_db s) i = Some r" and "delivery_of (jr_body r) = Inr d"
    and "unused_ids s qs"
  shows "\<exists>d' r'. run_steps delivery_step d (accepted_ops legacy artifacts i s qs) = Inr d'
    \<and> db_jobs (js_db (run_requests legacy artifacts s qs)) i = Some r' \<and> delivery_of (jr_body r') = Inr d'"
  using assms by (rule requests_run_machine)

section \<open>A live claim\<close>

text \<open>A request by another client while the claim made at time \<open>c\<close> is live.\<close>

fun shut_out :: "string \<Rightarrow> time \<Rightarrow> delivery_request \<Rightarrow> bool" where
  "shut_out tok c (ClaimRequest _ _ _ now _) \<longleftrightarrow> now - c < DELIVERY_CLAIM_SECONDS"
| "shut_out tok c (RenewRequest tok' _ _) \<longleftrightarrow> tok' \<noteq> tok"
| "shut_out tok c (AcknowledgeRequest _ tok' _ _) \<longleftrightarrow> tok' \<noteq> tok"
| "shut_out tok c (ReleaseRequest tok' _ _ _) \<longleftrightarrow> tok' \<noteq> tok"

lemma shut_out_step:
  "shut_out tok c q \<Longrightarrow> delivery_step (ClaimedDelivery g tok c rt n an) (machine_op q) \<noteq> Inr d'"
  by (cases q) (auto simp: claim_delivery_iff)

lemma live_claim_kept:
  assumes "store_ok s" and "db_jobs (js_db s) i = Some r"
    and "delivery_of (jr_body r) = Inr (ClaimedDelivery g tok c rt n an)"
    and "list_all (\<lambda>(q, u). request_job q = i \<longrightarrow> shut_out tok c q) qs"
  shows "db_jobs (js_db (run_requests legacy artifacts s qs)) i = Some r"
  using assms
proof (induction qs arbitrary: s)
  case (Cons p qs)
  obtain q u where p: "p = (q, u)" by (cases p)
  from request_try [OF Cons.prems(1-3), of legacy artifacts q u] Cons.prems(4) p
  have "db_jobs (js_db (store_try legacy artifacts s (request_call q u))) i = Some r"
    by (auto dest: shut_out_step)
  with Cons.IH [OF store_ok_try [OF Cons.prems(1)]] Cons.prems(3,4) p show ?case by simp
qed simp

text \<open>
  C16. While a claim is live, any sequence of requests by other clients (claims before the lease runs
  out, renewals, acknowledgements and releases under other tokens) leaves the job as it is, record
  and revision included: it is announced by the holder of the claim or by nobody.
\<close>

theorem live_claim_shuts_out_other_clients:
  assumes "store_ok s" and "db_jobs (js_db s) i = Some r"
    and "delivery_of (jr_body r) = Inr (ClaimedDelivery g tok c rt n an)"
    and "list_all (\<lambda>(q, u). request_job q = i \<longrightarrow> shut_out tok c q) qs"
  shows "db_jobs (js_db (run_requests legacy artifacts s qs)) i = Some r"
  using assms by (rule live_claim_kept)

section \<open>Scanning\<close>

lemma claim_command_live:
  assumes "delivery_of j = Inr (ClaimedDelivery g tok' now rt n an)"
  shows "claim_command fg eligible now tok j = Inr None"
  using delivery_of_columns(3) [OF assms]
  by (auto simp: claim_command_def claim_is_live_def DELIVERY_CLAIM_SECONDS_def truthy_def)

text \<open>The identifiers of the updates to come are new and differ.\<close>

definition fresh_ids :: "job_store \<Rightarrow> (nat \<Rightarrow> string \<times> call_ids) \<Rightarrow> nat \<Rightarrow> bool" where
  "fresh_ids s supply n \<longleftrightarrow>
     (\<forall>m \<ge> n. load_command_event (js_db s) (ci_command_id (snd (supply m))) = None)
     \<and> (\<forall>m m'. n \<le> m \<longrightarrow> m < m' \<longrightarrow> ci_command_id (snd (supply m)) \<noteq> ci_command_id (snd (supply m')))"

text \<open>The job is claimed under the token since the time given.\<close>

definition held_since :: "time \<Rightarrow> job_store \<Rightarrow> string \<Rightarrow> string \<Rightarrow> bool" where
  "held_since now s i tok \<longleftrightarrow> (\<exists>r g rt m an. db_jobs (js_db s) i = Some r
     \<and> delivery_of (jr_body r) = Inr (ClaimedDelivery g tok now rt m an))"

abbreviation scan_call :: "(stored_job \<Rightarrow> bool) option \<Rightarrow> time \<Rightarrow> string \<Rightarrow> string \<Rightarrow> call_ids \<Rightarrow> update_call" where
  "scan_call eligible now i tok u \<equiv> delivery_call i (claim_command False eligible now tok) u"

lemma scan_call_request:
  "scan_call eligible now i tok u = request_call (ClaimRequest tok False eligible now i) u"
  by (simp add: request_call_def)

text \<open>One attempt of a scan claims a job nobody holds, and disturbs no claim made at the same time.\<close>

lemma scan_attempt:
  assumes "store_ok s" and "fresh_ids s supply n" and "supply n = (tok, u)"
    and "store_transaction legacy artifacts s (scan_call eligible now i tok u) = Inr (s', res)"
  shows "store_ok s' \<and> fresh_ids s' supply (Suc n)
    \<and> (\<forall>k t. held_since now s k t \<longrightarrow> held_since now s' k t)
    \<and> (case res of None \<Rightarrow> s' = s
       | Some c \<Rightarrow> aj_id c = i \<and> held_since now s' i tok \<and> (\<forall>t. \<not> held_since now s i t))"
proof -
  have "store_try legacy artifacts s (scan_call eligible now i tok u) = s'"
    using assms(4) by (simp add: store_try_def)
  with store_ok_try [OF assms(1)] have ok: "store_ok s'" by metis
  from assms(2,3) have new: "load_command_event (js_db s) (ci_command_id u) = None"
    by (auto simp: fresh_ids_def)
  from assms(1) assms(4) [unfolded scan_call_request] show ?thesis
  proof (cases rule: request_transaction)
    case same
    with new assms(1,2) show ?thesis by (cases res) (auto simp: fresh_ids_def)
  next
    case (step row c d d')
    from step(1-8) have row: "db_jobs (js_db s) i = Some row" and c: "aj_id c = i" "res = Some c"
      and d: "delivery_of (jr_body row) = Inr d" "delivery_of c = Inr d'"
      and jobs: "db_jobs (js_db s') = (db_jobs (js_db s))(i \<mapsto> job_row_of c)"
      and events: "db_events (js_db s') = db_events (js_db s)
        @ [update_event_row (request_call (ClaimRequest tok False eligible now i) u) (aj_revision c)]"
      and d': "claim_delivery d tok now DELIVERY_CLAIM_SECONDS = Inr d'" by simp_all
    from step(9) have cmd:
      "claim_command False eligible now tok ((jr_body row)\<lparr>aj_lifecycle_event := None\<rparr>) \<noteq> Inr None"
      by simp
    have "\<not> held_since now s i t" for t
    proof
      assume "held_since now s i t"
      with row obtain g rt m an where
        "delivery_of (jr_body row) = Inr (ClaimedDelivery g t now rt m an)" by (auto simp: held_since_def)
      then have "delivery_of ((jr_body row)\<lparr>aj_lifecycle_event := None\<rparr>) = Inr (ClaimedDelivery g t now rt m an)"
        by (simp add: delivery_of_row)
      with claim_command_live cmd show False by blast
    qed
    moreover have "held_since now s' i tok"
      using jobs d(2) d' by (auto simp: held_since_def job_row_of_def claim_delivery_iff)
    moreover have "ci_command_id u \<noteq> ci_command_id (snd (supply m))" if "Suc n \<le> m" for m
      using assms(2,3) that by (metis fresh_ids_def Suc_le_lessD order_refl snd_conv)
    then have "fresh_ids s' supply (Suc n)"
      using assms(2) events
      by (auto simp: fresh_ids_def load_command_event_def find_append update_event_row_def
          request_call_def delivery_call_def split: option.splits)
    moreover have "held_since now s k t \<Longrightarrow> k \<noteq> i \<Longrightarrow> held_since now s' k t" for k t
      using jobs by (auto simp: held_since_def)
    ultimately show ?thesis using ok c by auto
  qed
qed

lemma claim_loop_claims:
  assumes "store_ok s" and "fresh_ids s supply n"
    and "claim_loop (store_transaction legacy artifacts) (claim_command False eligible now) supply n s ids
      = (s', n', res)"
  shows "store_ok s' \<and> fresh_ids s' supply n' \<and> (\<forall>k t. held_since now s k t \<longrightarrow> held_since now s' k t)
    \<and> (\<forall>c. res = Inr (Some c) \<longrightarrow> held_since now s' (aj_id (dc_job c)) (dc_token c)
         \<and> (\<forall>t. \<not> held_since now s (aj_id (dc_job c)) t))"
  using assms
proof (induction ids arbitrary: s n)
  case (Cons i ids)
  obtain tok u where sup: "supply n = (tok, u)" by (cases "supply n")
  show ?case
  proof (cases "store_transaction legacy artifacts s (scan_call eligible now i tok u)")
    case (Inl e)
    with Cons.prems sup show ?thesis by (auto simp: fresh_ids_def)
  next
    case (Inr b)
    obtain t r where b: "b = (t, r)" by (cases b) simp
    note a = scan_attempt [OF Cons.prems(1,2) sup Inr [unfolded b]]
    show ?thesis
    proof (cases r)
      case None
      with a have "t = s" "fresh_ids s supply (Suc n)" by auto
      with Cons.IH [OF Cons.prems(1), of "Suc n"] Cons.prems(3) Inr b None sup show ?thesis by simp
    next
      case (Some c)
      with Cons.prems(3) Inr b sup have "s' = t" "n' = Suc n" "res = Inr (Some \<lparr>dc_job = c, dc_token = tok\<rparr>)"
        by simp_all
      with a Some show ?thesis by auto
    qed
  qed
qed auto


lemma claim_next_claims:
  assumes "store_ok s" and "fresh_ids s supply n"
    and "claim_next (store_transaction legacy artifacts) (claim_command False eligible now) supply n s
      = (s', n', res)"
  shows "store_ok s' \<and> fresh_ids s' supply n' \<and> (\<forall>k t. held_since now s k t \<longrightarrow> held_since now s' k t)
    \<and> (\<forall>c. res = Inr (Some c) \<longrightarrow> held_since now s' (aj_id (dc_job c)) (dc_token c)
         \<and> (\<forall>t. \<not> held_since now s (aj_id (dc_job c)) t))"
proof (cases "store_list s")
  case (Inl e)
  with assms show ?thesis by (auto simp: claim_next_def)
next
  case (Inr jobs)
  with assms(3) show ?thesis by (intro claim_loop_claims [OF assms(1,2)]) (simp add: claim_next_def)
qed

lemma pending_loop_claims:
  assumes "store_ok s" and "fresh_ids s supply n"
    and "pending_loop (store_transaction legacy artifacts) (claim_command False eligible now) supply limit n s
      = (s', Inr cs)"
  shows "length cs \<le> limit \<and> distinct (map (\<lambda>c. aj_id (dc_job c)) cs)
    \<and> list_all (\<lambda>c. held_since now s' (aj_id (dc_job c)) (dc_token c)
        \<and> (\<forall>t. \<not> held_since now s (aj_id (dc_job c)) t)) cs
    \<and> (\<forall>k t. held_since now s k t \<longrightarrow> held_since now s' k t)"
  using assms
proof (induction limit arbitrary: s n cs)
  case (Suc limit)
  obtain t m res where claimed: "claim_next (store_transaction legacy artifacts)
      (claim_command False eligible now) supply n s = (t, m, res)"
    by (cases "claim_next (store_transaction legacy artifacts)
      (claim_command False eligible now) supply n s")
  note a = claim_next_claims [OF Suc.prems(1,2) claimed]
  from Suc.prems(3) claimed consider (stop) "res = Inr None" "s' = t" "cs = []"
    | (go) c rest where "res = Inr (Some c)" "cs = c # rest"
      "pending_loop (store_transaction legacy artifacts) (claim_command False eligible now) supply limit m t
        = (s', Inr rest)"
    by (auto split: sum.splits option.splits prod.splits)
  then show ?case
  proof cases
    case stop
    with a show ?thesis by simp
  next
    case go
    from a have t: "store_ok t" "fresh_ids t supply m" and keep: "\<And>k x. held_since now s k x \<Longrightarrow> held_since now t k x"
      by simp_all
    from a go(1) have c: "held_since now t (aj_id (dc_job c)) (dc_token c)"
      "\<And>x. \<not> held_since now s (aj_id (dc_job c)) x" by simp_all
    from Suc.IH [OF t go(3)] have rest: "length rest \<le> limit" "distinct (map (\<lambda>c. aj_id (dc_job c)) rest)"
      "list_all (\<lambda>c. held_since now s' (aj_id (dc_job c)) (dc_token c)) rest"
      "\<forall>e \<in> set rest. \<forall>x. \<not> held_since now t (aj_id (dc_job e)) x"
      "\<And>k x. held_since now t k x \<Longrightarrow> held_since now s' k x"
      by (simp_all add: list_all_iff)
    from rest(4) c(1) have "aj_id (dc_job c) \<notin> (\<lambda>c. aj_id (dc_job c)) ` set rest" by force
    moreover from rest(4) keep have "\<forall>e \<in> set rest. \<forall>x. \<not> held_since now s (aj_id (dc_job e)) x" by blast
    ultimately show ?thesis using rest(1-3,5) c keep go(2) by (simp add: list_all_iff)
  qed
qed simp

text \<open>
  A scan for pending announcements returns at most as many claims as were asked for, on jobs that
  all differ, each of which the store then holds under the token returned, and none on a job that
  was already claimed at that time: no two announcements of a scan, or of two scans, are the same.
\<close>

theorem pending_deliveries_claims_are_distinct:
  assumes "store_ok s" and "fresh_ids s supply 0"
    and "pending_deliveries legacy artifacts eligible now supply limit s = (s', Inr cs)"
  shows "int (length cs) \<le> limit \<and> distinct (map (\<lambda>c. aj_id (dc_job c)) cs)
    \<and> list_all (\<lambda>c. held_since now s' (aj_id (dc_job c)) (dc_token c)
        \<and> (\<forall>t. \<not> held_since now s (aj_id (dc_job c)) t)) cs"
proof -
  from assms(3) have limit: "\<not> limit \<le> 0" and loop: "pending_loop (store_transaction legacy artifacts)
      (claim_command False eligible now) supply (nat limit) 0 s = (s', Inr cs)"
    by (simp_all add: pending_deliveries_def split: if_splits)
  from pending_loop_claims [OF assms(1,2) loop] limit show ?thesis by linarith
qed


section \<open>Spoken at most once\<close>

fun speaks :: "delivery_request \<Rightarrow> bool" where
  "speaks (AcknowledgeRequest ack _ _ _) \<longleftrightarrow> ack = AckSpoken"
| "speaks _ \<longleftrightarrow> False"

text \<open>The acknowledgements of a spoken announcement of the job that were accepted.\<close>

fun spoken_count ::
  "(stored_job \<Rightarrow> stored_job) \<Rightarrow> (stored_job \<Rightarrow> stored_job \<Rightarrow> job_error + unit) \<Rightarrow> string \<Rightarrow>
   job_store \<Rightarrow> requests \<Rightarrow> nat" where
  "spoken_count legacy artifacts i s [] = 0"
| "spoken_count legacy artifacts i s ((q, u) # qs) =
     (if request_job q = i \<and> speaks q
         \<and> (case store_transaction legacy artifacts s (request_call q u) of
              Inr (_, Some _) \<Rightarrow> True | _ \<Rightarrow> False)
      then 1 else 0)
     + spoken_count legacy artifacts i (store_try legacy artifacts s (request_call q u)) qs"

lemma speaks_step:
  "speaks q \<Longrightarrow> delivery_step d (machine_op q) = Inr d' \<Longrightarrow>
     delivery_label d \<noteq> LDelivered \<and> delivery_label d' = LDelivered"
  by (cases q; cases d) (auto simp: result_simps split: if_splits)

lemma delivered_step: "delivery_label d = LDelivered \<Longrightarrow> delivery_step d (machine_op q) \<noteq> Inr d'"
  by (cases q; cases d) (auto simp: result_simps)

lemma delivered_never_spoken:
  assumes "store_ok s" and "db_jobs (js_db s) i = Some r" and "delivery_of (jr_body r) = Inr d"
    and "delivery_label d = LDelivered" and "unused_ids s qs"
  shows "spoken_count legacy artifacts i s qs = 0"
  using assms
proof (induction qs arbitrary: s)
  case (Cons p qs)
  obtain q u where p: "p = (q, u)" by (cases p)
  have row: "db_jobs (js_db (store_try legacy artifacts s (request_call q u))) i = Some r"
    using request_try [OF Cons.prems(1-3), of legacy artifacts q u] delivered_step [OF Cons.prems(4)] by auto
  have none: "store_transaction legacy artifacts s (request_call q u) \<noteq> Inr (s', Some c)"
    if "request_job q = i" for s' c
  proof
    assume "store_transaction legacy artifacts s (request_call q u) = Inr (s', Some c)"
    with Cons.prems(1) show False
    proof (cases rule: request_transaction)
      case same
      with Cons.prems(5) p show False by (simp add: unused_ids_def)
    next
      case (step row c d0 d')
      with Cons.prems(2-4) that delivered_step show False by auto
    qed
  qed
  have "spoken_count legacy artifacts i (store_try legacy artifacts s (request_call q u)) qs = 0"
    using Cons.IH [OF store_ok_try [OF Cons.prems(1)] row Cons.prems(3,4) unused_ids_step] Cons.prems p by simp
  with none show ?case by (auto simp: p split: sum.splits prod.splits option.splits)
qed simp

lemma spoken_once:
  assumes "store_ok s" and "db_jobs (js_db s) i = Some r" and "delivery_of (jr_body r) = Inr d"
    and "unused_ids s qs"
  shows "spoken_count legacy artifacts i s qs \<le> 1"
  using assms
proof (induction qs arbitrary: s r d)
  case (Cons p qs)
  obtain q u where p: "p = (q, u)" by (cases p)
  let ?t = "store_try legacy artifacts s (request_call q u)"
  note ok = store_ok_try [OF Cons.prems(1), of legacy artifacts "request_call q u"]
  note fresh = unused_ids_step [OF Cons.prems(1) Cons.prems(4) [unfolded p], of legacy artifacts]
  from request_try [OF Cons.prems(1-3), of legacy artifacts q u] Cons.prems(3) obtain r' d1 where
    r': "db_jobs (js_db ?t) i = Some r'" "delivery_of (jr_body r') = Inr d1" by blast
  have IH: "spoken_count legacy artifacts i ?t qs \<le> 1" by (rule Cons.IH [OF ok r' fresh])
  show ?case
  proof (cases "request_job q = i \<and> speaks q
      \<and> (\<exists>s' c. store_transaction legacy artifacts s (request_call q u) = Inr (s', Some c))")
    case True
    then obtain s' c where q: "request_job q = i" "speaks q"
      and tr: "store_transaction legacy artifacts s (request_call q u) = Inr (s', Some c)" by blast
    from Cons.prems(1) tr have "\<exists>r2 d2. db_jobs (js_db ?t) i = Some r2 \<and> delivery_of (jr_body r2) = Inr d2
        \<and> delivery_label d2 = LDelivered"
    proof (cases rule: request_transaction)
      case same
      with Cons.prems(4) p show ?thesis by (simp add: unused_ids_def)
    next
      case (step row c d0 d')
      with tr q speaks_step [OF q(2)] show ?thesis by (auto simp: store_try_def job_row_of_def)
    qed
    then have "spoken_count legacy artifacts i ?t qs = 0"
      using delivered_never_spoken [OF ok _ _ _ fresh] by blast
    then show ?thesis by (simp add: p)
  next
    case False
    then have "spoken_count legacy artifacts i s (p # qs) = spoken_count legacy artifacts i ?t qs"
      by (auto simp: p split: sum.splits prod.splits option.splits)
    with IH show ?thesis by simp
  qed
qed simp

text \<open>
  C14. A result is acknowledged as spoken at most once, however many clients claim, renew, acknowledge
  and release its announcement in whatever order, and whichever of them die in between.
\<close>

theorem result_is_spoken_at_most_once:
  assumes "store_ok s" and "db_jobs (js_db s) i = Some r" and "delivery_of (jr_body r) = Inr d"
    and "unused_ids s qs"
  shows "spoken_count legacy artifacts i s qs \<le> 1"
  using assms by (rule spoken_once)

end
