(* ===== verification/Store_Examples.thy ===== *)
theory Store_Examples imports Delivery_Claims begin

text \<open>
  Concrete stored jobs: a cancelled job whose result waits to be announced, the record a claim of
  that announcement makes of it, and the transaction that commits the claim, evaluated.
\<close>

section \<open>Records without external operations\<close>

definition stored_of :: "agent_job \<Rightarrow> stored_job" where
  "stored_of j = full_job.extend (full_of j)
     (stored_job.fields {''queued_at'', ''completed_at'', ''result'', ''worker_claimed_at''} None 0 None
        None None False None [])"

lemmas stored_of_defs = stored_of_def full_of_def full_job.defs reserving_job.defs agent_job.defs

lemma stored_of_sel [simp]:
  "full_part (stored_of j) = full_of j" "agent_part (stored_of j) = j"
  "reserving_job.truncate (stored_of j) = reserving_job.truncate (full_of j)"
  "aj_id (stored_of j) = aj_id j" "aj_parent_job_id (stored_of j) = aj_parent_job_id j"
  "aj_issue_provider (stored_of j) = aj_issue_provider j" "aj_revision (stored_of j) = aj_revision j"
  "aj_status (stored_of j) = aj_status j" "aj_question (stored_of j) = aj_question j"
  "aj_result (stored_of j) = aj_result j" "aj_error (stored_of j) = aj_error j"
  "aj_voice_question (stored_of j) = aj_voice_question j" "aj_prompt (stored_of j) = aj_prompt j"
  "aj_loaded_schema_version (stored_of j) = aj_loaded_schema_version j"
  "aj_checkout (stored_of j) = aj_checkout j" "aj_session (stored_of j) = aj_session j"
  "aj_session_fallback (stored_of j) = aj_session_fallback j"
  "aj_cleanup (stored_of j) = aj_cleanup j" "aj_worker (stored_of j) = aj_worker j"
  "aj_prompt_typed (stored_of j) = aj_prompt_typed j"
  "aj_checkout_typed (stored_of j) = aj_checkout_typed j"
  "aj_session_typed (stored_of j) = aj_session_typed j"
  "aj_lifecycle_event (stored_of j) = aj_lifecycle_event j"
  "aj_completed_at (stored_of j) = aj_completed_at j" "foreground_until (stored_of j) = 0"
  "job_delivery (stored_of j) = demo_delivery"
  "full_job.announcement_dismissed (stored_of j) = False"
  "row_keys (stored_of j) = {''queued_at'', ''completed_at'', ''result'', ''worker_claimed_at''}"
  by (cases j; simp add: stored_of_defs stored_job.defs)+

text \<open>A record in canonical form is read back as it is.\<close>

lemma with_typed_same:
  assumes "default_announcement_ack (job_delivery j) = job_delivery j" "aj_prompt_typed j = p"
    "optional_typed_checkout_operation (aj_checkout j) (aj_loaded_schema_version j) = aj_checkout_typed j"
    "optional_typed_agent_session_operation (aj_session j) (aj_session_fallback j)
           (aj_loaded_schema_version j) = aj_session_typed j"
    "aj_lifecycle_event j = None"
  shows "with_typed_operations p j = j"
  using assms by (cases j) (simp add: with_typed_operations_def)

lemma canonical_read:
  assumes "validate_invariants True (full_part j) = Inr ()" and "aj_voice_question j = None"
    and "typed_prompt_operation (aj_prompt j) (aj_id j) = Inr p" and "with_typed_operations (Some p) j = j"
    and "passes (check_identity_columns j)" and "passes (check_status_columns j)"
    and "aj_loaded_schema_version j = CURRENT_SCHEMA_VERSION"
  shows "read_record j = Inr j"
proof -
  have "in_order (check_identity_columns j @ check_status_columns j) = Inr ()"
    using assms(5,6) unfolding in_order_Inr by simp
  with assms show ?thesis
    by (simp add: read_record_def check_voice_question_def optional_typed_prompt_operation_def Let_def)
qed

lemma full_of_reserving:
  "agent_job.truncate (reserving_job.truncate (full_of j)) = j"
  "aj_status (reserving_job.truncate (full_of j)) = aj_status j"
  "aj_cleanup (reserving_job.truncate (full_of j)) = aj_cleanup j"
  "aj_session (reserving_job.truncate (full_of j)) = aj_session j"
  "aj_fork (reserving_job.truncate (full_of j)) = aj_fork j"
  "aj_checkout (reserving_job.truncate (full_of j)) = aj_checkout j"
  "aj_prompt (reserving_job.truncate (full_of j)) = aj_prompt j"
  by (cases j; simp add: full_of_def agent_job.defs reserving_job.defs full_job.defs)+

lemma full_of_no_operations [simp]:
  "f (reserving_job.truncate (full_of j)) = None" if "f \<in> {rj_manual_reconcile_operation, rj_pull_request_worktree_state,
    rj_issue_create_state, rj_pr_create_state, rj_pr_merge_state, rj_clone_state, rj_repo_create_state,
    rj_issue_update_state, rj_issue_close_state, rj_linear_create_state, rj_linear_update_state,
    rj_linear_close_state, rj_ticket_split_state, rj_ticket_split_parent_state, rj_ticket_merge_state,
    rj_ticket_merge_survivor_state}" for f
  using that by (cases j) (auto simp: full_of_def agent_job.defs reserving_job.defs full_job.defs)

lemma full_of_not_inspected [simp]: "\<not> rj_manual_inspection_required (reserving_job.truncate (full_of j))"
  by (cases j) (simp add: full_of_def agent_job.defs reserving_job.defs full_job.defs)

text \<open>Another delivery needs only its own checks.\<close>

lemma delivery_only:
  assumes "validate_invariants b j = Inr ()" and "passes (check_delivery (j\<lparr>job_delivery := r\<rparr>))"
    and "succeeds (job_delivery_state (j\<lparr>job_delivery := r\<rparr>))"
  shows "validate_invariants b (j\<lparr>job_delivery := r\<rparr>) = Inr ()"
proof -
  have base: "base_job (j\<lparr>job_delivery := r\<rparr>) = base_job j"
    "reserving_job.truncate (j\<lparr>job_delivery := r\<rparr>) = reserving_job.truncate j"
    by (simp_all add: agent_job.defs reserving_job.defs)
  have typed: "check_typed_states (j\<lparr>job_delivery := r\<rparr>) = Inr ()"
    using assms(1,3) unfolding validate_invariants_iff check_typed_states_def in_order_Inr base succeeds_iff
    by auto
  have rows: "check_clone (j\<lparr>job_delivery := r\<rparr>) = check_clone j" "check_issue_and_pr_requests (j\<lparr>job_delivery := r\<rparr>) = check_issue_and_pr_requests j"
    "check_pr_merge (j\<lparr>job_delivery := r\<rparr>) = check_pr_merge j" "check_repo_create (j\<lparr>job_delivery := r\<rparr>) = check_repo_create j"
    "check_issue_update (j\<lparr>job_delivery := r\<rparr>) = check_issue_update j" "check_issue_close (j\<lparr>job_delivery := r\<rparr>) = check_issue_close j"
    "check_issue_and_pr_create (j\<lparr>job_delivery := r\<rparr>) = check_issue_and_pr_create j" "check_linear_create (j\<lparr>job_delivery := r\<rparr>) = check_linear_create j"
    "check_linear_update (j\<lparr>job_delivery := r\<rparr>) = check_linear_update j" "check_linear_close (j\<lparr>job_delivery := r\<rparr>) = check_linear_close j"
    "check_ticket_split (j\<lparr>job_delivery := r\<rparr>) = check_ticket_split j" "check_ticket_merge (j\<lparr>job_delivery := r\<rparr>) = check_ticket_merge j"
    "check_issue_provider (j\<lparr>job_delivery := r\<rparr>) = check_issue_provider j" "check_workflow_row (j\<lparr>job_delivery := r\<rparr>) = check_workflow_row j"
    "check_review_row (j\<lparr>job_delivery := r\<rparr>) = check_review_row j" "check_approval_proof (j\<lparr>job_delivery := r\<rparr>) = check_approval_proof j"
    "check_approval_phase (j\<lparr>job_delivery := r\<rparr>) = check_approval_phase j" "check_planned_work (j\<lparr>job_delivery := r\<rparr>) = check_planned_work j"
    "check_prompt_row (j\<lparr>job_delivery := r\<rparr>) = check_prompt_row j" "check_creation_row (j\<lparr>job_delivery := r\<rparr>) = check_creation_row j"
    "check_intent_row (j\<lparr>job_delivery := r\<rparr>) = check_intent_row j" "check_operation_rows (j\<lparr>job_delivery := r\<rparr>) = check_operation_rows j"
    "check_manual (j\<lparr>job_delivery := r\<rparr>) = check_manual j" "check_release_row (j\<lparr>job_delivery := r\<rparr>) = check_release_row j"
    "check_worker b (j\<lparr>job_delivery := r\<rparr>) = check_worker b j"
    "check_operations_readable b (j\<lparr>job_delivery := r\<rparr>) = check_operations_readable b j"
    by (simp_all add: check_clone_def check_issue_and_pr_requests_def check_pr_merge_def check_repo_create_def check_issue_update_def check_issue_close_def check_issue_and_pr_create_def check_linear_create_def check_linear_update_def check_linear_close_def check_ticket_split_def check_ticket_merge_def check_issue_provider_def check_workflow_row_def check_review_row_def check_approval_proof_def check_approval_phase_def check_planned_work_def check_prompt_row_def check_creation_row_def check_intent_row_def check_operation_rows_def check_manual_def check_release_row_def check_worker_def check_operations_readable_def
      base approval_proof_given_def approval_text_def planned_work_def worker_claim_given_def
      manual_states_def prompt_state_text_def participant_target_def job_session_control_state_def
      job_review_approved_def Let_def cong: workflow_participant.case_cong if_cong option.case_cong)
  show ?thesis using assms(1,2) typed unfolding validate_invariants_iff rows by blast
qed

section \<open>The announcement of a cancelled job\<close>

definition demo_settled :: agent_job where
  "demo_settled = demo_cancelled\<lparr>aj_prompt_typed := Some IdlePrompt\<rparr>"

definition demo_announced :: agent_job where
  "demo_announced = demo_settled\<lparr>aj_revision := 6\<rparr>"

lemmas settled_defs = demo_announced_def demo_settled_def demo_cancelled_def demo_routing_def demo_queued_def

text \<open>Most readings do not look at the revision, the typed prompt or the worker.\<close>

lemma readers_ignore_columns [simp]:
  "job_terminal_state (j\<lparr>aj_revision := n\<rparr>) = job_terminal_state j"
  "job_cleanup_state (j\<lparr>aj_revision := n\<rparr>) = job_cleanup_state j"
  "job_workflow_state (j\<lparr>aj_revision := n\<rparr>) = job_workflow_state j"
  "job_review_state (j\<lparr>aj_revision := n\<rparr>) = job_review_state j"
  "job_plan_approval (j\<lparr>aj_revision := n\<rparr>) = job_plan_approval j"
  "job_participant_lifecycle (j\<lparr>aj_revision := n\<rparr>) = job_participant_lifecycle j"
  "job_checkout_operation (j\<lparr>aj_revision := n\<rparr>) = job_checkout_operation j"
  "job_terminal_state (j\<lparr>aj_prompt_typed := p\<rparr>) = job_terminal_state j"
  "job_cleanup_state (j\<lparr>aj_prompt_typed := p\<rparr>) = job_cleanup_state j"
  "job_workflow_state (j\<lparr>aj_prompt_typed := p\<rparr>) = job_workflow_state j"
  "job_review_state (j\<lparr>aj_prompt_typed := p\<rparr>) = job_review_state j"
  "job_plan_approval (j\<lparr>aj_prompt_typed := p\<rparr>) = job_plan_approval j"
  "job_participant_lifecycle (j\<lparr>aj_prompt_typed := p\<rparr>) = job_participant_lifecycle j"
  "job_checkout_operation (j\<lparr>aj_prompt_typed := p\<rparr>) = job_checkout_operation j"
  "job_terminal_state (j\<lparr>aj_worker := w\<rparr>) = job_terminal_state j"
  "job_cleanup_state (j\<lparr>aj_worker := w\<rparr>) = job_cleanup_state j"
  "job_workflow_state (j\<lparr>aj_worker := w\<rparr>) = job_workflow_state j"
  "job_review_state (j\<lparr>aj_worker := w\<rparr>) = job_review_state j"
  "job_plan_approval (j\<lparr>aj_worker := w\<rparr>) = job_plan_approval j"
  "job_participant_lifecycle (j\<lparr>aj_worker := w\<rparr>) = job_participant_lifecycle j"
  "job_checkout_operation (j\<lparr>aj_worker := w\<rparr>) = job_checkout_operation j"
  by (simp_all add: job_terminal_state_def job_cleanup_state_def job_workflow_state_def job_review_state_def
      job_plan_approval_def job_participant_lifecycle_def job_checkout_operation_def
      job_terminal_intent_status_def job_approval_question_def
      job_creation_participant_def creation_state_text_def admission_state_text_def job_approval_proof_def
      Let_def cong: option.case_cong)

lemma worker_ignores_columns [simp]:
  "job_worker_ownership (j\<lparr>aj_revision := n\<rparr>) = job_worker_ownership j"
  "job_worker_ownership (j\<lparr>aj_prompt_typed := p\<rparr>) = job_worker_ownership j"
  by (simp_all add: job_worker_ownership_def)

lemma cancelled_readable:
  "succeeds (job_terminal_state demo_cancelled)" "succeeds (job_cleanup_state demo_cancelled)"
  "succeeds (job_workflow_state demo_cancelled)" "succeeds (job_review_state demo_cancelled)"
  "succeeds (job_plan_approval demo_cancelled)" "succeeds (job_participant_lifecycle demo_cancelled)"
  "succeeds (job_worker_ownership demo_cancelled)" "job_checkout_operation demo_cancelled = Inr None"
  unfolding demo_cancelled_def demo_routing_def demo_queued_def by code_simp+

lemma settled_readable:
  "succeeds (job_terminal_state demo_settled)" "succeeds (job_cleanup_state demo_settled)"
  "succeeds (job_workflow_state demo_settled)" "succeeds (job_review_state demo_settled)"
  "succeeds (job_plan_approval demo_settled)" "succeeds (job_participant_lifecycle demo_settled)"
  "succeeds (job_worker_ownership demo_settled)" "job_checkout_operation demo_settled = Inr None"
  by (simp_all add: demo_settled_def cancelled_readable)

lemma announced_readable:
  "succeeds (job_terminal_state demo_announced)" "succeeds (job_cleanup_state demo_announced)"
  "succeeds (job_workflow_state demo_announced)" "succeeds (job_review_state demo_announced)"
  "succeeds (job_plan_approval demo_announced)" "succeeds (job_participant_lifecycle demo_announced)"
  "succeeds (job_worker_ownership demo_announced)" "job_checkout_operation demo_announced = Inr None"
  by (simp_all add: demo_announced_def settled_readable)

lemma settled_valid: "validate_invariants True (full_of demo_settled) = Inr ()"
  by (rule full_of_valid [OF settled_readable(1-7)])
     (simp_all add: row_check_defs settled_defs CURRENT_SCHEMA_VERSION_def Let_def)

lemma announced_valid: "validate_invariants True (full_of demo_announced) = Inr ()"
  by (rule full_of_valid [OF announced_readable(1-7)])
     (simp_all add: row_check_defs settled_defs CURRENT_SCHEMA_VERSION_def Let_def)

lemma announced_gate: "validate_transition (\<lambda>_. Inr ()) demo_settled demo_announced = Inr ()"
  unfolding settled_defs by code_simp

lemma queued_typed:
  "typed_prompt_operation (aj_prompt demo_queued) ''0123456789ab'' = Inr IdlePrompt"
  "optional_typed_checkout_operation (aj_checkout demo_queued) CURRENT_SCHEMA_VERSION = None"
  "optional_typed_agent_session_operation (aj_session demo_queued) (aj_session_fallback demo_queued)
     CURRENT_SCHEMA_VERSION = None"
  "is_job_id ''0123456789ab''"
  unfolding demo_queued_def CURRENT_SCHEMA_VERSION_def by code_simp+

lemma settled_sel [simp]:
  "aj_id demo_settled = ''0123456789ab''" "aj_revision demo_settled = 5"
  "aj_loaded_schema_version demo_settled = CURRENT_SCHEMA_VERSION" "aj_lifecycle_event demo_settled = None"
  "aj_status demo_settled = JsCancelled" "aj_completed_at demo_settled = Some 4"
  "aj_parent_job_id demo_settled = None" "aj_issue_provider demo_settled = None"
  "aj_result demo_settled = Some ''Cancelled.''" "aj_voice_question demo_settled = None"
  "aj_worker demo_settled = aj_worker demo_queued" "aj_cleanup demo_settled = aj_cleanup demo_queued"
  "aj_prompt demo_settled = aj_prompt demo_queued" "aj_checkout demo_settled = aj_checkout demo_queued"
  "aj_session demo_settled = aj_session demo_queued" "aj_fork demo_settled = aj_fork demo_queued"
  "aj_session_fallback demo_settled = aj_session_fallback demo_queued"
  "aj_prompt_typed demo_settled = Some IdlePrompt" "aj_checkout_typed demo_settled = None"
  "aj_session_typed demo_settled = None"
  by (simp_all add: demo_settled_def demo_cancelled_def demo_routing_def)
     (simp_all add: demo_queued_def CURRENT_SCHEMA_VERSION_def)

definition claimed_row :: delivery_fields_row where
  "claimed_row = demo_delivery\<lparr>delivery_attempts := 1, delivery_claim_token := Some ''k'',
     delivery_claimed_at := Some 10\<rparr>"

definition claimed_state :: delivery_state where
  "claimed_state = ClaimedDelivery 0 ''k'' 10 0 1 \<lparr>an_ack = AckPending, an_repeated = False\<rparr>"

definition claimed_record :: stored_job where
  "claimed_record = (stored_of demo_announced)\<lparr>job_delivery := claimed_row\<rparr>"

lemma claimed_sel [simp]:
  "aj_id claimed_record = ''0123456789ab''" "aj_revision claimed_record = 6"
  "aj_loaded_schema_version claimed_record = CURRENT_SCHEMA_VERSION"
  "aj_lifecycle_event claimed_record = None" "job_delivery claimed_record = claimed_row"
  "full_job.announcement_dismissed claimed_record = False"
  "aj_worker claimed_record = aj_worker demo_queued" "aj_cleanup claimed_record = aj_cleanup demo_queued"
  "agent_part claimed_record = demo_announced"
  "full_part claimed_record = (full_of demo_announced)\<lparr>job_delivery := claimed_row\<rparr>"
  "reserving_job.truncate claimed_record = reserving_job.truncate (full_of demo_announced)"
  by (simp_all add: claimed_record_def demo_announced_def)
     (simp_all add: stored_of_defs)

lemma delivery_reads:
  "delivery_state_of_row False None demo_delivery
   = Inr (PendingDelivery 0 0 0 \<lparr>an_ack = AckPending, an_repeated = False\<rparr>)"
  "delivery_state_of_row False None claimed_row = Inr claimed_state"
  unfolding claimed_row_def claimed_state_def demo_delivery_def by code_simp+

lemma claimed_valid: "validate_invariants True (full_part claimed_record) = Inr ()"
  unfolding claimed_sel
proof (rule delivery_only [OF announced_valid])
  show "passes (check_delivery ((full_of demo_announced)\<lparr>job_delivery := claimed_row\<rparr>))"
    by (simp add: check_delivery_def claimed_row_def demo_delivery_def Let_def
        announcement_ack_of_row_def truthy_def)
  show "succeeds (job_delivery_state ((full_of demo_announced)\<lparr>job_delivery := claimed_row\<rparr>))"
    by (simp add: job_delivery_state_def delivery_reads succeeds_iff map_err_Inr_iff)
qed

lemma settled_read: "read_record (stored_of demo_settled) = Inr (stored_of demo_settled)"
proof (rule canonical_read)
  show "with_typed_operations (Some IdlePrompt) (stored_of demo_settled) = stored_of demo_settled"
    by (rule with_typed_same)
       (simp_all add: queued_typed demo_delivery_def default_announcement_ack_def)
qed (simp_all add: settled_valid queued_typed check_identity_columns_def check_status_columns_def Let_def truthy_def)

lemma claimed_read: "read_record claimed_record = Inr claimed_record"
proof (rule canonical_read [OF claimed_valid])
  show "with_typed_operations (Some IdlePrompt) claimed_record = claimed_record"
    by (rule with_typed_same)
       (simp_all add: queued_typed claimed_record_def demo_announced_def claimed_row_def demo_delivery_def
          default_announcement_ack_def Let_def)
qed (simp_all add: queued_typed claimed_record_def demo_announced_def check_identity_columns_def
      check_status_columns_def Let_def truthy_def)

section \<open>Claiming it\<close>

lemma claim_recorded:
  "updated_job (set_delivery claimed_state) (stored_of demo_settled) = Inr claimed_record"
proof -
  have set: "set_delivery claimed_state j = j\<lparr>job_delivery := claimed_row\<rparr>"
    if "job_delivery j = demo_delivery" for j
    using that by (simp add: set_delivery_def claimed_state_def delivery_fields_def claimed_row_def demo_delivery_def)
  have own: "pair_worker_ownership j = j" if "aj_worker j = aj_worker demo_queued" for j
    using that by (cases j) (simp add: pair_worker_ownership_def Let_def demo_queued_def)
  have next': "(stored_of demo_settled)\<lparr>job_delivery := claimed_row, aj_revision := 6\<rparr> = claimed_record"
    by (simp add: claimed_record_def demo_announced_def stored_of_defs)
  have "validate_transition (\<lambda>_. validate_invariants True (full_part claimed_record)) demo_settled demo_announced
      = Inr ()"
    using announced_gate by (simp only: claimed_valid)
  then show ?thesis
    by (simp add: updated_job_def next_record_def set own next' claimed_read del: claimed_sel(10))
qed

lemma claim_evaluated: "claim_command False None 10 ''k'' (stored_of demo_settled) = Inr (Some claimed_record)"
proof -
  have "claim_delivery (PendingDelivery 0 0 0 \<lparr>an_ack = AckPending, an_repeated = False\<rparr>) ''k'' 10 300
      = Inr claimed_state"
    by (simp add: claim_delivery_iff claimed_state_def)
  with claim_recorded have "job_claim_delivery ''k'' 10 300 (stored_of demo_settled) = Inr claimed_record"
    by (simp add: job_claim_delivery_def deliver_job_def job_delivery_state_def delivery_reads)
  then show ?thesis
    by (simp add: claim_command_def unless_refused_def DELIVERY_CLAIM_SECONDS_def claim_is_live_def
        demo_delivery_def DELIVERABLE_STATUSES_def completed_or_def)
qed

definition demo_store :: job_store where
  "demo_store = \<lparr>js_db = \<lparr>db_jobs = [''0123456789ab'' \<mapsto> job_row_of (stored_of demo_settled)],
       db_events = [], db_outbox = [], db_consumptions = []\<rparr>,
     js_ids = [''0123456789ab''], js_reservations = [], js_claims = [], js_maintenance = None\<rparr>"

definition claimed_store :: job_store where
  "claimed_store = \<lparr>js_db = \<lparr>db_jobs = [''0123456789ab'' \<mapsto> job_row_of claimed_record],
       db_events = [\<lparr>ev_event_id = ''e'', ev_command_id = ''c'', ev_job_id = ''0123456789ab'', ev_revision = 6,
         ev_kind = ''store.update'', ev_command_kind = ''store.update'', ev_effects = [], ev_payload = [],
         ev_created_at = 10\<rparr>], db_outbox = [], db_consumptions = []\<rparr>,
     js_ids = [''0123456789ab''], js_reservations = [], js_claims = [(''k'', ''0123456789ab'')],
     js_maintenance = None\<rparr>"

lemma demo_store_ok: "store_ok demo_store"
  by (simp add: store_ok_def demo_store_def stored_row_ok_def job_row_of_def settled_read)

lemma claimed_store_ok: "store_ok claimed_store"
  by (simp add: store_ok_def claimed_store_def stored_row_ok_def job_row_of_def claimed_read del: claimed_sel(10))

lemma claimed_normalized: "normalize_for_durable_write (\<lambda>j. j) claimed_record = Inr claimed_record"
proof -
  have c: "clear_legacy_release_owner claimed_record = claimed_record"
    by (simp add: clear_legacy_release_owner_def demo_queued_def)
  have v: "claimed_record\<lparr>aj_loaded_schema_version := CURRENT_SCHEMA_VERSION\<rparr> = claimed_record"
    using claimed_sel(3) by (cases claimed_record) simp
  have "\<not> has_legacy_worker_claim (aj_worker demo_queued)"
    by (simp add: demo_queued_def has_legacy_worker_claim_def Let_def)
  then show ?thesis
    by (simp add: normalize_for_durable_write_def c v claimed_read claimed_valid Let_def del: claimed_sel(10))
qed

lemma settled_not_reserving:
  "job_reserves (reserving_job.truncate (full_of demo_settled)) = Inr False"
  "job_reserves (reserving_job.truncate (full_of demo_announced)) = Inr False"
  unfolding job_reserves_def full_of_reserving(1) settled_readable(8) announced_readable(8)
  by (simp_all add: has_uncertain_operation_def full_of_reserving demo_announced_def)
     (simp_all add: demo_queued_def demo_settled_def demo_cancelled_def demo_routing_def
       creation_state_text_def checkout_blocks_reservation_def one_of_def ACTIVE_STATUSES_def)

lemma claimed_saved: "save_job demo_store claimed_record = Inr ([], [(''k'', ''0123456789ab'')])"
proof -
  have "check_worker_claim (aj_worker demo_queued) = Inr ()"
    by (simp add: check_worker_claim_def demo_queued_def Let_def refuse_def)
  then show ?thesis
    by (simp add: settled_not_reserving save_job_def reservation_rows_def save_reservations_def save_delivery_claim_def
       demo_store_def claimed_row_def demo_delivery_def Let_def)
qed

definition example_ids :: call_ids where
  "example_ids = \<lparr>ci_command_id = ''c'',
     ci_ids = \<lparr>tr_event_id = ''e'', tr_effect_ids = (\<lambda>_. ''f''), tr_created_at = 10\<rparr>\<rparr>"

lemma claim_committed:
  "store_transaction (\<lambda>j. j) (\<lambda>_ _. Inr ()) demo_store
     (delivery_call ''0123456789ab'' (claim_command False None 10 ''k'') example_ids)
   = Inr (claimed_store, Some claimed_record)"
proof -
  have "prepare_candidate (\<lambda>j. j) (\<lambda>_ _. Inr ()) (stored_of demo_settled) (job_row_of claimed_record)
      = Inr (job_row_of claimed_record)"
    using announced_gate claimed_normalized unfolding prepare_candidate_iff
    by (simp add: job_row_of_def claimed_valid del: claimed_sel(10))
  then have p: "prepare_candidate (\<lambda>j. j) (\<lambda>_ _. Inr ()) (stored_of demo_settled)
      \<lparr>jr_revision = 6, jr_body = claimed_record\<rparr> = Inr \<lparr>jr_revision = 6, jr_body = claimed_record\<rparr>"
    by (simp add: job_row_of_def)
  from claimed_saved show ?thesis
    by (simp add: store_transaction_def delivery_call_def demo_store_def claimed_store_def example_ids_def
        load_command_event_def maintenance_active_def settled_read job_row_of_def claim_evaluated apply_command_def p Let_def
        record_transition_def CoordinatorDecision_check_def dict_get_def)
qed

section \<open>The promises, on the claim\<close>

lemma delivery_of_settled:
  "delivery_of (stored_of demo_settled) = Inr (PendingDelivery 0 0 0 \<lparr>an_ack = AckPending, an_repeated = False\<rparr>)"
  "delivery_of claimed_record = Inr claimed_state"
  by (simp_all add: job_delivery_state_def delivery_reads)

lemma claim_tried:
  "store_try (\<lambda>j. j) (\<lambda>_ _. Inr ()) demo_store
     (delivery_call ''0123456789ab'' (claim_command False None 10 ''k'') example_ids) = claimed_store"
  by (simp add: store_try_def claim_committed)

lemma stored_job_rows:
  "db_jobs (js_db demo_store) ''0123456789ab'' = Some (job_row_of (stored_of demo_settled))"
  "db_jobs (js_db claimed_store) ''0123456789ab'' = Some (job_row_of claimed_record)"
  by (simp_all add: demo_store_def claimed_store_def)

lemma stored_jobs_have_gated_histories_witness:
  "\<exists>h r'. full_history (full_of demo_settled # h)
    \<and> db_jobs (js_db claimed_store) ''0123456789ab'' = Some r'
    \<and> full_part (jr_body r') = last (full_of demo_settled # h)
    \<and> jr_revision r' = 5 + int (length h)
    \<and> logged_revisions claimed_store ''0123456789ab'' = [6 .. jr_revision r']"
proof -
  have run: "run_store (\<lambda>j. j) (\<lambda>_ _. Inr ()) demo_store
      [delivery_call ''0123456789ab'' (claim_command False None 10 ''k'') example_ids] = claimed_store"
    by (simp add: claim_tried)
  have row: "jr_revision (job_row_of (stored_of demo_settled)) = 5" "5 + 1 = (6 :: int)"
    "full_part (jr_body (job_row_of (stored_of demo_settled))) = full_of demo_settled"
    "logged_revisions demo_store i = []" for i
    by (simp_all add: job_row_of_def logged_revisions_def demo_store_def)
  from stored_jobs_have_gated_histories [OF demo_store_ok stored_job_rows(1), of "\<lambda>j. j" "\<lambda>_ _. Inr ()"
      "[delivery_call ''0123456789ab'' (claim_command False None 10 ''k'') example_ids]"]
  show ?thesis unfolding run row append_Nil .
qed

lemma demo_tables_exact: "tables_exact demo_store"
proof -
  have "reservation_rows (stored_of demo_settled) = Inr []"
    by (simp add: reservation_rows_def settled_not_reserving)
  then show ?thesis
    by (auto simp: tables_exact_def demo_store_def reserved_by_def claimed_by_def job_row_of_def demo_delivery_def)
qed

lemma resources_are_never_shared_witness:
  "tables_exact claimed_store"
  using resources_are_never_shared [OF demo_store_ok demo_tables_exact, of "\<lambda>j. j" "\<lambda>_ _. Inr ()"
      "[delivery_call ''0123456789ab'' (claim_command False None 10 ''k'') example_ids]"]
  by (simp add: claim_tried)

lemma demo_answered: "answered (\<lambda>j. j) (\<lambda>_ _. Inr ()) demo_store (ClaimRequest ''k'' False None 10 ''0123456789ab'') example_ids"
  by (simp add: answered_def request_call_def claim_committed)

lemma delivery_service_refines_machine_witness:
  "\<exists>d' r'. run_steps delivery_step (PendingDelivery 0 0 0 \<lparr>an_ack = AckPending, an_repeated = False\<rparr>)
      [ClaimOp ''k'' 10 300] = Inr d'
    \<and> db_jobs (js_db claimed_store) ''0123456789ab'' = Some r' \<and> delivery_of (jr_body r') = Inr d'"
proof -
  have d: "delivery_of (jr_body (job_row_of (stored_of demo_settled)))
      = Inr (PendingDelivery 0 0 0 \<lparr>an_ack = AckPending, an_repeated = False\<rparr>)"
    by (simp add: job_row_of_def job_delivery_state_def delivery_reads)
  have "unused_ids demo_store [(ClaimRequest ''k'' False None 10 ''0123456789ab'', example_ids)]"
    by (simp add: unused_ids_def demo_store_def load_command_event_def)
  from delivery_service_refines_machine [OF demo_store_ok stored_job_rows(1) d this,
      of "\<lambda>j. j" "\<lambda>_ _. Inr ()"]
  show ?thesis by (simp add: request_call_def claim_tried demo_answered DELIVERY_CLAIM_SECONDS_def)
qed

lemma live_claim_shuts_out_other_clients_witness:
  "db_jobs (js_db (run_requests (\<lambda>j. j) (\<lambda>_ _. Inr ()) claimed_store
     [(ClaimRequest ''z'' True None 200 ''0123456789ab'', example_ids),
      (AcknowledgeRequest AckSpoken ''z'' 201 ''0123456789ab'', example_ids),
      (ReleaseRequest ''y'' False 202 ''0123456789ab'', example_ids)])) ''0123456789ab''
   = Some (job_row_of claimed_record)"
proof -
  have "delivery_of (jr_body (job_row_of claimed_record))
      = Inr (ClaimedDelivery 0 ''k'' 10 0 1 \<lparr>an_ack = AckPending, an_repeated = False\<rparr>)"
    by (simp add: job_row_of_def job_delivery_state_def delivery_reads claimed_state_def)
  then show ?thesis
    by (rule live_claim_shuts_out_other_clients [OF claimed_store_ok stored_job_rows(2)])
       (simp add: DELIVERY_CLAIM_SECONDS_def)
qed

text \<open>A scan over the store claims the announcement, and only once.\<close>

definition demo_supply :: "nat \<Rightarrow> string \<times> call_ids" where
  "demo_supply n = (replicate n CHR ''x'' @ ''k'', example_ids\<lparr>ci_command_id := replicate n CHR ''x'' @ ''c''\<rparr>)"

lemma demo_fresh: "fresh_ids demo_store demo_supply 0"
  by (auto simp: fresh_ids_def demo_supply_def demo_store_def load_command_event_def)

lemma demo_scan:
  "pending_deliveries (\<lambda>j. j) (\<lambda>_ _. Inr ()) None 10 demo_supply 1 demo_store
   = (claimed_store, Inr [\<lparr>dc_job = claimed_record, dc_token = ''k''\<rparr>])"
proof -
  have "demo_supply 0 = (''k'', example_ids)" by (simp add: demo_supply_def example_ids_def)
  moreover have "store_list demo_store = Inr [stored_of demo_settled]"
    by (simp add: store_list_def demo_store_def job_row_of_def settled_read)
  ultimately show ?thesis
    by (simp add: pending_deliveries_def claim_next_def claim_committed)
qed

lemma pending_deliveries_claims_are_distinct_witness:
  "held_since 10 claimed_store ''0123456789ab'' ''k'' \<and> \<not> held_since 10 demo_store ''0123456789ab'' ''k''"
  using pending_deliveries_claims_are_distinct [OF demo_store_ok demo_fresh demo_scan] by simp


text \<open>The holder acknowledges; a second client claims and acknowledges later, in vain.\<close>

definition numbered_ids :: "nat \<Rightarrow> call_ids" where
  "numbered_ids n = \<lparr>ci_command_id = replicate n CHR ''c'',
     ci_ids = \<lparr>tr_event_id = replicate n CHR ''e'', tr_effect_ids = (\<lambda>_. ''f''), tr_created_at = 2\<rparr>\<rparr>"

definition demo_announcing :: requests where
  "demo_announcing =
     [(AcknowledgeRequest AckSpoken ''k'' 20 ''0123456789ab'', numbered_ids 2),
      (ClaimRequest ''z'' True None 400 ''0123456789ab'', numbered_ids 3),
      (AcknowledgeRequest AckSpoken ''z'' 401 ''0123456789ab'', numbered_ids 4)]"

lemma result_is_spoken_at_most_once_witness:
  "spoken_count (\<lambda>j. j) (\<lambda>_ _. Inr ()) ''0123456789ab'' claimed_store demo_announcing \<le> 1"
proof (rule result_is_spoken_at_most_once [OF claimed_store_ok stored_job_rows(2)])
  show "delivery_of (jr_body (job_row_of claimed_record)) = Inr claimed_state"
    by (simp add: job_row_of_def job_delivery_state_def delivery_reads)
  show "unused_ids claimed_store demo_announcing"
    by (simp add: unused_ids_def demo_announcing_def numbered_ids_def claimed_store_def
        load_command_event_def numeral_eq_Suc)
qed

end
