(* ===== verification/Worker_Lifecycle.thy ===== *)
theory Worker_Lifecycle imports Delivery_Service begin

text \<open>
  \<open>cursor/worker_lifecycle.py\<close>: how a queued job gets its worker process. A launcher reserves the
  job under its own identity, starts a child, hands the reservation over to the child's identity
  and withdraws it when that fails; the child begins the job only under exactly the claim handed to
  it, and checks before each step of its work that the claim is still its own.

  Process identities, tokens, the clock, the outcome of starting and of stopping the child and the
  work of other processes between two store calls are arguments. Signals are not modelled.
\<close>

section \<open>Identities\<close>

definition CRITICAL_WORKER_OPERATIONS :: "string set" where
  "CRITICAL_WORKER_OPERATIONS = {''agent_start'', ''fork_create'', ''worktree_create''}"

definition worker_is_alive ::
  "string option \<Rightarrow> (int \<Rightarrow> string option) \<Rightarrow> stored_job \<Rightarrow> bool" where
  "worker_is_alive boot process_identity j \<longleftrightarrow>
     (let w = aj_worker j in
      truthy_int (worker_pid w) \<and> otruthy (worker_process_start w) \<and> otruthy (worker_boot_id w)
      \<and> boot = worker_boot_id w
      \<and> process_identity (the (worker_pid w)) = worker_process_start w)"

text \<open>\<open>has_legacy_worker_claim\<close> of this module, beside the one of the store.\<close>

definition has_legacy_claim :: "stored_job \<Rightarrow> bool" where
  "has_legacy_claim j =
     (let w = aj_worker j in
      if list_ex id [worker_token w \<noteq> None, worker_pid w \<noteq> None, worker_boot_id w \<noteq> None,
                     worker_process_start w \<noteq> None]
      then case job_worker_ownership (agent_part j) of
          Inl _ \<Rightarrow> True
        | Inr None \<Rightarrow> True
        | Inr (Some o') \<Rightarrow> wo_boot_id o' = ''legacy-unknown'' \<or> take 7 (wo_operation o') = ''legacy:''
      else False)"

datatype worker_failure =
    WorkerHarnessError string
  | WorkerOperationError operation_error
  | WorkerStoreError store_error
  | WorkerSpawnError string
  | WorkerCancelled

text \<open>\<open>OperationTransitionError\<close> is a \<open>ValueError\<close>, which the store lets through.\<close>

fun uncaught_operation :: "operation_error \<Rightarrow> job_error" where
  "uncaught_operation (OperationTransitionError m) = ValueError m"

definition set_worker :: "worker_ownership option \<Rightarrow> stored_job \<Rightarrow> stored_job" where
  "set_worker w j =
     j\<lparr>aj_worker := worker_ownership_fields w, row_keys := insert ''worker_claimed_at'' (row_keys j)\<rparr>"

section \<open>Beginning a job\<close>

record process_identity =
  pi_pid :: int
  pi_boot :: string
  pi_start :: string

text \<open>A claim that cannot be read is not the claim expected (its error is caught).\<close>

definition begin_command ::
  "bool \<Rightarrow> worker_ownership option \<Rightarrow> string \<Rightarrow> process_identity \<Rightarrow> time \<Rightarrow> job_command" where
  "begin_command given expected tok p started j =
     (if aj_status j \<noteq> JsQueued then Inr None
      else if given \<and> (case expected of
                None \<Rightarrow> True
              | Some e \<Rightarrow> (case job_worker_ownership (agent_part j) of
                    Inl _ \<Rightarrow> True
                  | Inr o' \<Rightarrow> \<not> ownership_matches e o'))
      then Inr None
      else if \<not> given \<and> otruthy (worker_token (aj_worker j)) then Inr None
      else
        let status = (if job_reconcile j then JsReconciling else JsRouting) in
        rbind (map_err uncaught_operation
                 (WorkerOwnership_init tok (pi_pid p) (pi_boot p) (pi_start p)
                    (job_state_value status) started)) (\<lambda>w.
        rbind (transition_job status
                 (\<lambda>j. (set_worker (Some w) j)\<lparr>attempt_started_at := Some started, started_at := Some started\<rparr>)
                 j) (\<lambda>u. Inr (Some u))))"

text \<open>\<open>store.update_unless_maintenance\<close> and \<open>store.update\<close> with a command.\<close>

definition worker_call :: "bool \<Rightarrow> string \<Rightarrow> job_command \<Rightarrow> call_ids \<Rightarrow> update_call" where
  "worker_call reject job_id command u =
     \<lparr>sc_reject_maintenance = reject, sc_job_id = job_id, sc_command = command,
      sc_command_id = ci_command_id u, sc_ids = ci_ids u\<rparr>"

type_synonym transact = "job_store \<Rightarrow> update_call \<Rightarrow> store_error + job_store \<times> stored_job option"

definition begin_worker ::
  "transact \<Rightarrow> string \<Rightarrow> string option \<Rightarrow> string option \<Rightarrow> time option \<Rightarrow> string \<Rightarrow> int \<Rightarrow>
   string option \<Rightarrow> string option \<Rightarrow> time \<Rightarrow> call_ids \<Rightarrow> job_store \<Rightarrow>
   worker_failure + job_store \<times> (stored_job \<times> string) option" where
  "begin_worker transact job_id claim_token claim_operation claim_time uuid pid boot start now u s =
     (let tok = or_str claim_token uuid; given = otruthy claim_token in
      if \<not> otruthy boot \<or> \<not> otruthy start
      then Inl (WorkerHarnessError ''could not establish Cursor worker process identity'')
      else
        rbind (case (given, claim_operation, claim_time) of
                 (True, Some oper, Some claimed) \<Rightarrow>
                   rbind (map_err WorkerOperationError
                     (WorkerOwnership_init tok pid (the boot) (the start) oper claimed)) (\<lambda>w. Inr (Some w))
               | _ \<Rightarrow> Inr None) (\<lambda>expected.
        rbind (map_err WorkerStoreError (transact s (worker_call True job_id
                 (begin_command given expected tok
                    \<lparr>pi_pid = pid, pi_boot = the boot, pi_start = the start\<rparr> now) u))) (\<lambda>(s', claimed).
          Inr (s', map_option (\<lambda>j. (j, tok)) claimed))))"

section \<open>Checking the claim while working\<close>

record worker_context =
  wc_job :: stored_job
  wc_token :: string
  wc_ownership :: "worker_ownership option"

text \<open>The two flags are the two readings of the request to cancel.\<close>

definition checkpoint ::
  "bool \<Rightarrow> bool \<Rightarrow> worker_context \<Rightarrow> job_store \<Rightarrow> worker_failure + stored_job" where
  "checkpoint cancelled cancelled' ctx s =
     (if cancelled then Inl WorkerCancelled
      else
        rbind (map_err WorkerStoreError (get_unless_maintenance s (aj_id (wc_job ctx)))) (\<lambda>current.
        let expected = (case wc_ownership ctx of
                Some o' \<Rightarrow> Some o'
              | None \<Rightarrow> (case job_worker_ownership (agent_part (wc_job ctx)) of
                    Inl _ \<Rightarrow> None
                  | Inr o' \<Rightarrow> o')) in
        case current of
          None \<Rightarrow> Inl WorkerCancelled
        | Some j \<Rightarrow>
            if cancelled' then Inl WorkerCancelled
            else case expected of
              None \<Rightarrow> Inl WorkerCancelled
            | Some e \<Rightarrow>
                rbind (map_err (WorkerStoreError \<circ> StoreJobError) (job_worker_ownership (agent_part j))) (\<lambda>o'.
                if \<not> ownership_matches e o' then Inl WorkerCancelled
                else
                  rbind (map_err (WorkerStoreError \<circ> StoreJobError)
                           (job_terminal_intent_status (agent_part j))) (\<lambda>intent.
                  if intent \<noteq> None \<or> aj_status j \<notin> {JsRouting, JsRunning, JsReconciling}
                  then Inl WorkerCancelled
                  else Inr j))))"

section \<open>Launching a worker\<close>

definition reserve_command :: "worker_ownership \<Rightarrow> job_command" where
  "reserve_command launcher j =
     (if aj_status j \<noteq> JsQueued \<or> otruthy (worker_token (aj_worker j))
         \<or> or_str (job_session_control j) ''automated'' = ''user_owned''
      then Inr None
      else rbind (transition_job JsQueued
             (\<lambda>j. (set_worker (Some launcher) j)\<lparr>attempt_started_at := Some (wo_claimed_at launcher)\<rparr>) j)
             (\<lambda>u. Inr (Some u)))"

text \<open>The reservation is still the one made at the revision given.\<close>

definition still_reserved :: "worker_ownership \<Rightarrow> int \<Rightarrow> stored_job \<Rightarrow> job_error + bool" where
  "still_reserved launcher revision j =
     (if aj_status j \<noteq> JsQueued then Inr False
      else rbind (job_worker_ownership (agent_part j)) (\<lambda>o'.
        Inr (ownership_matches launcher o' \<and> aj_revision j = revision)))"

definition hand_off_command :: "worker_ownership \<Rightarrow> int \<Rightarrow> process_identity \<Rightarrow> job_command" where
  "hand_off_command launcher revision child j =
     rbind (still_reserved launcher revision j) (\<lambda>held.
       if \<not> held then Inr None
       else
         rbind (map_err uncaught_operation
                  (WorkerOwnership_init (wo_token launcher) (pi_pid child) (pi_boot child) (pi_start child)
                     (wo_operation launcher) (wo_claimed_at launcher))) (\<lambda>w.
         rbind (worker_callback_transition revision launcher JsQueued (set_worker (Some w)) j)
           (\<lambda>u. Inr (Some u))))"

definition launch_failure_command ::
  "(stored_job \<Rightarrow> string \<Rightarrow> time \<Rightarrow> job_error + stored_job) \<Rightarrow> worker_ownership \<Rightarrow> int \<Rightarrow> string \<Rightarrow> time \<Rightarrow>
   job_command" where
  "launch_failure_command prepare_failure launcher revision message failed_at j =
     rbind (still_reserved launcher revision j) (\<lambda>held.
       if \<not> held then Inr None
       else rbind (prepare_failure j (take 500 message) failed_at) (\<lambda>u. Inr (Some u)))"

text \<open>
  What \<open>launch_worker\<close> of \<open>service.py\<close> passes as \<open>prepare_failure\<close>: the job fails, is due for
  delivery, gives up its participant capacity and has no worker. (\<open>redact_diagnostic\<close>, which
  rewrites the text of the error, is an argument.)
\<close>

definition prepare_launch_failure ::
  "(string \<Rightarrow> string) \<Rightarrow> stored_job \<Rightarrow> string \<Rightarrow> time \<Rightarrow> job_error + stored_job" where
  "prepare_launch_failure redact j message failed_at =
     rbind (job_delivery_state (full_part j)) (\<lambda>d.
       evolve_job (Some JsFailed)
         (\<lambda>j. let k = set_delivery (prepare_delivery d) j in
           k\<lparr>updated_at := Some failed_at, aj_error := Some (redact message),
             aj_result := Some ''Cursor job failed to start. Check the job log for details.'',
             aj_completed_at := Some failed_at,
             aj_worker := (aj_worker k)\<lparr>worker_token := None, worker_pid := None,
               worker_boot_id := None, worker_process_start := None\<rparr>,
             aj_participant := (aj_participant k)\<lparr>participant_admission_state := Some ''released''\<rparr>\<rparr>) j)"

definition clear_launcher_command :: "worker_ownership \<Rightarrow> job_command" where
  "clear_launcher_command launcher j =
     rbind (job_worker_ownership (agent_part j)) (\<lambda>o'.
       if \<not> ownership_matches launcher o' then Inr None
       else rbind (evolve_job None (\<lambda>j. (set_worker None j)\<lparr>worker_operation := None\<rparr>) j)
              (\<lambda>u. Inr (Some u)))"

text \<open>
  What the environment does during a launch: the launcher's identity, how starting the child ended
  (the text of the exception, or its process), the child's identity as the polling loop of at most
  fifty attempts left it, whether an unadopted child could be stopped, the identifiers of the store
  calls, and what other processes do to the store before each of them.
\<close>

record launch_env =
  le_token :: string
  le_pid :: int
  le_boot :: "string option"
  le_start :: "string option"
  le_reserved_at :: time
  le_spawned :: "string + int"
  le_child_boot :: "string option"
  le_child_start :: "string option"
  le_retired :: bool
  le_failed_at :: time
  le_ids :: "nat \<Rightarrow> call_ids"
  le_others :: "nat \<Rightarrow> job_store \<Rightarrow> job_store"

definition launch_update ::
  "transact \<Rightarrow> launch_env \<Rightarrow> nat \<Rightarrow> bool \<Rightarrow> string \<Rightarrow> job_command \<Rightarrow> job_store \<Rightarrow>
   job_store \<times> (worker_failure + stored_job option)" where
  "launch_update transact env n reject job_id command s =
     (let t = le_others env n s in
      case transact t (worker_call reject job_id command (le_ids env n)) of
        Inl e \<Rightarrow> (t, Inl (WorkerStoreError e))
      | Inr (t', r) \<Rightarrow> (t', Inr r))"

text \<open>Handing over: whether the child now owns the job, and the message if it does not.\<close>

definition hand_over ::
  "transact \<Rightarrow> launch_env \<Rightarrow> string \<Rightarrow> worker_ownership \<Rightarrow> int \<Rightarrow> int \<Rightarrow> job_store \<Rightarrow>
   job_store \<times> (worker_failure + bool) \<times> string" where
  "hand_over transact env job_id launcher revision child s =
     (let early = ''Cursor worker exited before process identity handoff completed'';
          late = ''Cursor worker exited before ownership handoff completed'' in
      if \<not> otruthy (le_child_start env) \<or> \<not> otruthy (le_child_boot env) then (s, Inr False, early)
      else
        let p = \<lparr>pi_pid = child, pi_boot = the (le_child_boot env), pi_start = the (le_child_start env)\<rparr> in
        case launch_update transact env 1 True job_id (hand_off_command launcher revision p) s of
          (t, Inl e) \<Rightarrow> (t, Inl e, early)
        | (t, Inr (Some _)) \<Rightarrow> (t, Inr True, early)
        | (t, Inr None) \<Rightarrow>
            let t' = le_others env 2 t in
            case rbind (map_err WorkerStoreError (store_get t' job_id)) (\<lambda>current.
                 rbind (map_err (WorkerStoreError \<circ> StoreJobError) (job_worker_ownership (agent_part current))) (\<lambda>o'.
                 rbind (map_err WorkerOperationError
                   (WorkerOwnership_init (wo_token launcher) (pi_pid p) (pi_boot p) (pi_start p)
                     (wo_operation launcher) (wo_claimed_at launcher))) (\<lambda>w. Inr (o' = Some w)))) of
              Inl e \<Rightarrow> (t', Inl e, early)
            | Inr adopted \<Rightarrow> (t', Inr adopted, late))"

text \<open>Withdrawing: an earlier exception is raised again once the job is settled.\<close>

definition withdraw ::
  "transact \<Rightarrow> (stored_job \<Rightarrow> string \<Rightarrow> time \<Rightarrow> job_error + stored_job) \<Rightarrow> launch_env \<Rightarrow> string \<Rightarrow>
   worker_ownership \<Rightarrow> int \<Rightarrow> worker_failure option \<Rightarrow> string \<Rightarrow> job_store \<Rightarrow>
   job_store \<times> (worker_failure + unit)" where
  "withdraw transact prepare_failure env job_id launcher revision pending message s =
     (if \<not> le_retired env
      then (s, Inl (WorkerHarnessError ''could not stop Cursor worker after process identity handoff failed''))
      else case launch_update transact env 3 False job_id
             (launch_failure_command prepare_failure launcher revision message (le_failed_at env)) s of
          (t, Inl e) \<Rightarrow> (t, Inl e)
        | (t, Inr _) \<Rightarrow>
            (case launch_update transact env 4 False job_id (clear_launcher_command launcher) t of
               (t', Inl e) \<Rightarrow> (t', Inl e)
             | (t', Inr _) \<Rightarrow> (t', case pending of None \<Rightarrow> Inr () | Some e \<Rightarrow> Inl e)))"

definition launch_worker ::
  "transact \<Rightarrow> (stored_job \<Rightarrow> string \<Rightarrow> time \<Rightarrow> job_error + stored_job) \<Rightarrow> launch_env \<Rightarrow> string \<Rightarrow>
   job_store \<Rightarrow> job_store \<times> (worker_failure + unit)" where
  "launch_worker transact prepare_failure env job_id s =
     (if \<not> otruthy (le_boot env) \<or> \<not> otruthy (le_start env)
      then (s, Inl (WorkerHarnessError ''could not establish Cursor launcher process identity''))
      else case WorkerOwnership_init (le_token env) (le_pid env) (the (le_boot env)) (the (le_start env))
                  ''launch'' (le_reserved_at env) of
        Inl e \<Rightarrow> (s, Inl (WorkerOperationError e))
      | Inr launcher \<Rightarrow>
          (case launch_update transact env 0 True job_id (reserve_command launcher) s of
             (t, Inl e) \<Rightarrow> (t, Inl e)
           | (t, Inr None) \<Rightarrow> (t, Inr ())
           | (t, Inr (Some reserved)) \<Rightarrow>
               (case le_spawned env of
                  Inl message \<Rightarrow>
                    (case launch_update transact env 1 False job_id
                        (launch_failure_command prepare_failure launcher (aj_revision reserved)
                           (take 500 message) (le_failed_at env)) t of
                       (t', Inl e) \<Rightarrow> (t', Inl e)
                     | (t', Inr _) \<Rightarrow> (t', Inl (WorkerSpawnError message)))
                | Inr child \<Rightarrow>
                    (case hand_over transact env job_id launcher (aj_revision reserved) child t of
                       (t', Inr True, m) \<Rightarrow> (t', Inr ())
                     | (t', Inr False, m) \<Rightarrow>
                         withdraw transact prepare_failure env job_id launcher (aj_revision reserved) None m t'
                     | (t', Inl e, m) \<Rightarrow>
                         withdraw transact prepare_failure env job_id launcher (aj_revision reserved) (Some e) m t'))))"

end
