(* ===== verification/Worker_Claims.thy ===== *)
theory Worker_Claims imports Worker_Lifecycle Store_Machine begin

text \<open>
  Who may work on a job: a claim shuts out everybody but its holder, at most one worker ever
  begins, and a launch, returning or raising, leaves no reservation behind but in three named cases.
\<close>

section \<open>The owner of a record\<close>

abbreviation owner_of :: "stored_job \<Rightarrow> job_error + worker_ownership option" where
  "owner_of j \<equiv> job_worker_ownership (agent_part j)"

lemma agent_part_sel [simp]:
  "aj_worker (agent_part j) = aj_worker j" "aj_status (agent_part j) = aj_status j"
  by (simp_all add: agent_job.defs)

lemma owner_of_worker: "owner_of j = map_err op_error (load_worker_ownership (aj_worker j))"
  by (simp add: job_worker_ownership_def)

lemma owner_of_fields: "worker_ok w \<Longrightarrow> aj_worker j = worker_ownership_fields w \<Longrightarrow> owner_of j = Inr w"
  by (simp add: owner_of_worker worker_store.load_flatten)

lemma owned_token: "owner_of j = Inr (Some w) \<Longrightarrow> otruthy (worker_token (aj_worker j))"
  by (auto simp: owner_of_worker map_err_Inr_iff load_worker_ownership_def rbind_Inr_iff
      WorkerOwnership_init_iff truthy_def split: option.splits)

lemma pair_set_worker [simp]:
  "aj_worker (pair_worker_ownership (set_worker w j)) = worker_ownership_fields w"
  "aj_worker (pair_worker_ownership ((set_worker w j)\<lparr>attempt_started_at := a\<rparr>)) = worker_ownership_fields w"
  "aj_worker (pair_worker_ownership ((set_worker w j)\<lparr>attempt_started_at := a, started_at := b\<rparr>))
   = worker_ownership_fields w"
  "aj_worker (pair_worker_ownership (pair_announcement_ack ((set_worker w j)\<lparr>worker_operation := c\<rparr>)))
   = worker_ownership_fields w"
  by (cases w; simp add: pair_worker_ownership_def pair_announcement_ack_def set_worker_def Let_def)+

lemma set_worker_sel [simp]:
  "aj_worker (set_worker w j) = worker_ownership_fields w" "aj_status (set_worker w j) = aj_status j"
  "aj_loaded_schema_version (set_worker w j) = aj_loaded_schema_version j"
  by (simp_all add: set_worker_def)

lemma transition_job_cols:
  assumes "transition_job st f j = Inr u"
  shows "aj_status u = st" "aj_worker u = aj_worker (pair_worker_ownership (f j))"
    "aj_loaded_schema_version u = aj_loaded_schema_version (f j)"
proof -
  from assms have "next_record j ((pair_worker_ownership (f j))\<lparr>aj_status := st\<rparr>) = Inr u"
    by (auto simp: transition_job_def if_Inl_Inr_iff)
  from next_record_cols [OF this] show "aj_status u = st"
    "aj_worker u = aj_worker (pair_worker_ownership (f j))"
    "aj_loaded_schema_version u = aj_loaded_schema_version (f j)"
    by (auto simp: pair_worker_ownership_def Let_def)
qed


section \<open>Requests\<close>

text \<open>What the processes around one job ask of the store, in the order of the protocol.\<close>

datatype worker_request =
    BeginRequest bool "worker_ownership option" string process_identity time
  | ReserveRequest worker_ownership
  | HandOffRequest worker_ownership int process_identity
  | FailureRequest worker_ownership int string time
  | ClearRequest worker_ownership

type_synonym failure_record = "stored_job \<Rightarrow> string \<Rightarrow> time \<Rightarrow> job_error + stored_job"

fun worker_command :: "failure_record \<Rightarrow> worker_request \<Rightarrow> job_command" where
  "worker_command pf (BeginRequest given expected tok p now) = begin_command given expected tok p now"
| "worker_command pf (ReserveRequest l) = reserve_command l"
| "worker_command pf (HandOffRequest l n p) = hand_off_command l n p"
| "worker_command pf (FailureRequest l n m t) = launch_failure_command pf l n m t"
| "worker_command pf (ClearRequest l) = clear_launcher_command l"

text \<open>Failures are recorded also during maintenance.\<close>

fun rejects_maintenance :: "worker_request \<Rightarrow> bool" where
  "rejects_maintenance (FailureRequest _ _ _ _) = False"
| "rejects_maintenance (ClearRequest _) = False"
| "rejects_maintenance _ = True"

type_synonym worker_step = "string \<times> worker_request \<times> call_ids"

definition step_call :: "failure_record \<Rightarrow> worker_step \<Rightarrow> update_call" where
  "step_call pf = (\<lambda>(i, q, u). worker_call (rejects_maintenance q) i (worker_command pf q) u)"

lemma step_call_sel [simp]:
  "sc_job_id (step_call pf (i, q, u)) = i" "sc_command (step_call pf (i, q, u)) = worker_command pf q"
  "sc_command_id (step_call pf (i, q, u)) = ci_command_id u"
  by (simp_all add: step_call_def worker_call_def)

text \<open>A request that does not come from the holder of the claim.\<close>

fun outsider :: "worker_ownership \<Rightarrow> worker_request \<Rightarrow> bool" where
  "outsider w (BeginRequest given expected _ _ _) \<longleftrightarrow> given \<longrightarrow> expected \<noteq> Some w"
| "outsider w (ReserveRequest _) \<longleftrightarrow> True"
| "outsider w (HandOffRequest l _ _) \<longleftrightarrow> l \<noteq> w"
| "outsider w (FailureRequest l _ _ _) \<longleftrightarrow> l \<noteq> w"
| "outsider w (ClearRequest l) \<longleftrightarrow> l \<noteq> w"

lemma outsider_declined:
  assumes "owner_of j = Inr (Some w)" and "outsider w q"
  shows "worker_command pf q j = Inr None"
proof (cases q)
  case (BeginRequest given expected tok p now)
  with assms owned_token [OF assms(1)] show ?thesis
    by (auto simp: begin_command_def ownership_matches_def split: option.splits)
next
  case (ReserveRequest l)
  with owned_token [OF assms(1)] show ?thesis by (simp add: reserve_command_def)
qed (use assms in \<open>simp_all add: hand_off_command_def launch_failure_command_def clear_launcher_command_def
       still_reserved_def ownership_matches_def\<close>)

lemma declined_kept:
  assumes "store_ok s" and "db_jobs (js_db s) i = Some r"
    and "k = i \<Longrightarrow> worker_command pf q ((jr_body r)\<lparr>aj_lifecycle_event := None\<rparr>) = Inr None"
  shows "db_jobs (js_db (store_try legacy artifacts s (step_call pf (k, q, u)))) i = Some r"
    and "k = i \<Longrightarrow> load_command_event (js_db s) (ci_command_id u) = None \<Longrightarrow>
      store_transaction legacy artifacts s (step_call pf (k, q, u)) \<noteq> Inr (s', Some c)"
proof -
  let ?call = "step_call pf (k, q, u)"
  have idle: "s' = s \<and> (res \<noteq> None \<longrightarrow> load_command_event (js_db s) (ci_command_id u) \<noteq> None)"
    if "k = i" "store_transaction legacy artifacts s ?call = Inr (s', res)" for s' res
    using that(2)
  proof (cases rule: store_transaction_cases)
    case same
    then show ?thesis by auto
  next
    case (commit row current cand c reserved claims)
    from commit(1) that(1) assms(1,2) have "current = (jr_body r)\<lparr>aj_lifecycle_event := None\<rparr>"
      using commit(2) by (auto simp: store_ok_def stored_row_ok_def)
    with commit(3) assms(3) that(1) show ?thesis by simp
  qed
  show "k = i \<Longrightarrow> load_command_event (js_db s) (ci_command_id u) = None \<Longrightarrow>
      store_transaction legacy artifacts s ?call \<noteq> Inr (s', Some c)"
    using idle by blast
  show "db_jobs (js_db (store_try legacy artifacts s ?call)) i = Some r"
    using assms(1)
  proof (cases rule: store_try_cases [of s legacy artifacts ?call])
    case same
    with assms(2) show ?thesis by simp
  next
    case (commit row c)
    show ?thesis
    proof (cases "k = i")
      case True
      with idle have "store_try legacy artifacts s ?call = s"
        by (auto simp: store_try_def split: sum.splits prod.splits)
      with assms(2) show ?thesis by simp
    next
      case False
      with commit(4) assms(2) show ?thesis by simp
    qed
  qed
qed

lemma owner_kept:
  assumes "store_ok s" and "db_jobs (js_db s) i = Some r" and "owner_of (jr_body r) = Inr (Some w)"
    and "list_all (\<lambda>(k, q, u). k = i \<longrightarrow> outsider w q) steps"
  shows "db_jobs (js_db (run_store legacy artifacts s (map (step_call pf) steps))) i = Some r"
  using assms
proof (induction steps arbitrary: s)
  case (Cons p steps)
  obtain k q u where p: "p = (k, q, u)" by (cases p)
  have "db_jobs (js_db (store_try legacy artifacts s (step_call pf (k, q, u)))) i = Some r"
  proof (rule declined_kept(1) [OF Cons.prems(1,2)])
    assume "k = i"
    with Cons.prems(4) p have "outsider w q" by simp
    then show "worker_command pf q ((jr_body r)\<lparr>aj_lifecycle_event := None\<rparr>) = Inr None"
      using Cons.prems(3) by (intro outsider_declined) simp_all
  qed
  with Cons.IH [OF store_ok_try [OF Cons.prems(1)]] Cons.prems(3,4) p show ?case by simp
qed simp

text \<open>
  While a launcher or a worker owns a job, launchers, workers and failure handlers acting under any
  other claim leave its record as it is, in any number and order: they can neither reserve nor
  begin it, nor withdraw or fail the owner's claim.
\<close>

theorem claim_shuts_out_other_processes:
  assumes "store_ok s" and "db_jobs (js_db s) i = Some r" and "owner_of (jr_body r) = Inr (Some w)"
    and "list_all (\<lambda>(k, q, u). k = i \<longrightarrow> outsider w q) steps"
  shows "db_jobs (js_db (run_store legacy artifacts s (map (step_call pf) steps))) i = Some r"
  using assms by (rule owner_kept)

section \<open>One worker\<close>

text \<open>Launchers' claims are made for launching.\<close>

fun launching :: "worker_request \<Rightarrow> bool" where
  "launching (BeginRequest _ _ _ _ _) \<longleftrightarrow> True"
| "launching (ReserveRequest l) \<longleftrightarrow> wo_operation l = ''launch''"
| "launching (HandOffRequest l _ _) \<longleftrightarrow> wo_operation l = ''launch''"
| "launching (FailureRequest l _ _ _) \<longleftrightarrow> wo_operation l = ''launch''"
| "launching (ClearRequest l) \<longleftrightarrow> wo_operation l = ''launch''"

fun begins :: "worker_request \<Rightarrow> bool" where
  "begins (BeginRequest _ _ _ _ _) = True"
| "begins _ = False"

definition begun :: "stored_job \<Rightarrow> bool" where
  "begun j \<longleftrightarrow> aj_status j \<noteq> JsQueued \<and> (\<exists>w. owner_of j = Inr (Some w) \<and> wo_operation w \<noteq> ''launch'')"

lemma begun_declined:
  assumes "begun j" and "launching q"
  shows "worker_command pf q j = Inr None"
proof -
  from assms(1) obtain w where w: "aj_status j \<noteq> JsQueued" "owner_of j = Inr (Some w)"
    "wo_operation w \<noteq> ''launch''" by (auto simp: begun_def)
  show ?thesis
  proof (cases q)
    case (BeginRequest given expected tok p now)
    with w(1) show ?thesis by (simp add: begin_command_def)
  next
    case (ClearRequest l)
    with assms(2) w show ?thesis
      by (intro outsider_declined [OF w(2)]) auto
  qed (use w in \<open>simp_all add: reserve_command_def hand_off_command_def launch_failure_command_def
         still_reserved_def\<close>)
qed

lemma normalize_keeps_worker:
  assumes "normalize_for_durable_write legacy cand = Inr c"
    and "aj_loaded_schema_version cand = CURRENT_SCHEMA_VERSION"
  shows "aj_worker c = aj_worker cand \<and> aj_status c = aj_status cand"
proof -
  from assms obtain w where w: "read_record ((clear_legacy_release_owner cand)
      \<lparr>aj_loaded_schema_version := CURRENT_SCHEMA_VERSION\<rparr>) = Inr w"
    and c: "c = w\<lparr>aj_lifecycle_event := aj_lifecycle_event cand\<rparr>"
    by (auto simp: normalize_for_durable_write_def rbind_Inr_iff Let_def if_Inl_Inr_iff)
  from read_record_cols [OF w] c show ?thesis by (auto simp: clear_legacy_release_owner_def)
qed

lemma begin_command_begun:
  assumes "begin_command given expected tok p now j = Inr (Some u)"
  shows "aj_status u \<in> {JsRouting, JsReconciling}
    \<and> (\<exists>w. worker_ok (Some w) \<and> aj_worker u = worker_ownership_fields (Some w)
         \<and> wo_operation w = job_state_value (aj_status u) \<and> wo_token w = tok)
    \<and> aj_loaded_schema_version u = aj_loaded_schema_version j"
proof -
  let ?st = "if job_reconcile j then JsReconciling else JsRouting"
  from assms obtain w where w: "WorkerOwnership_init tok (pi_pid p) (pi_boot p) (pi_start p) (job_state_value ?st) now = Inr w"
    and t: "transition_job ?st (\<lambda>j. (set_worker (Some w) j)\<lparr>attempt_started_at := Some now, started_at := Some now\<rparr>) j = Inr u"
    by (auto simp: begin_command_def rbind_Inr_iff map_err_Inr_iff Let_def simp del: split_paired_Ex split: if_splits)
  from w have "worker_ok (Some w)" "wo_operation w = job_state_value ?st" "wo_token w = tok"
    by (auto simp: WorkerOwnership_init_iff worker_ok_def)
  with transition_job_cols [OF t] show ?thesis by auto
qed

lemma begin_transaction:
  assumes "store_ok s" and "db_jobs (js_db s) i = Some r" and "begins q"
    and "store_transaction legacy artifacts s (step_call pf (i, q, u)) = Inr (s', Some c)"
    and "load_command_event (js_db s) (ci_command_id u) = None"
  shows "begun c \<and> db_jobs (js_db s') i = Some (job_row_of c)"
  using assms(4)
proof (cases rule: store_transaction_cases)
  case same
  with assms(5) show ?thesis by simp
next
  case (commit row current cand c' reserved claims)
  obtain given expected tok p now where q: "q = BeginRequest given expected tok p now"
    using assms(3) by (cases q) auto
  from commit(1,2) assms(1,2) have "current = (jr_body r)\<lparr>aj_lifecycle_event := None\<rparr>" "stored_row_ok r"
    by (auto simp: store_ok_def stored_row_ok_def)
  then have v: "aj_loaded_schema_version current = CURRENT_SCHEMA_VERSION" by (simp add: stored_row_ok_def)
  from commit(3) q have "begin_command given expected tok p now current = Inr (Some cand)" by simp
  from begin_command_begun [OF this] v obtain w where
    cand: "aj_status cand \<in> {JsRouting, JsReconciling}" "worker_ok (Some w)"
      "aj_worker cand = worker_ownership_fields (Some w)" "wo_operation w = job_state_value (aj_status cand)"
      "aj_loaded_schema_version cand = CURRENT_SCHEMA_VERSION" by auto
  from normalize_keeps_worker [OF commit(5) cand(5)] cand(1-4) have "begun c'"
    by (auto simp: begun_def intro!: owner_of_fields exI [of _ w])
  with commit(4,8) show ?thesis by simp
qed

fun begin_count ::
  "(stored_job \<Rightarrow> stored_job) \<Rightarrow> (stored_job \<Rightarrow> stored_job \<Rightarrow> job_error + unit) \<Rightarrow> failure_record \<Rightarrow> string \<Rightarrow>
   job_store \<Rightarrow> worker_step list \<Rightarrow> nat" where
  "begin_count legacy artifacts pf i s [] = 0"
| "begin_count legacy artifacts pf i s ((k, q, u) # steps) =
     (if k = i \<and> begins q
         \<and> (case store_transaction legacy artifacts s (step_call pf (k, q, u)) of
              Inr (_, Some _) \<Rightarrow> True | _ \<Rightarrow> False)
      then 1 else 0)
     + begin_count legacy artifacts pf i (store_try legacy artifacts s (step_call pf (k, q, u))) steps"

definition unused :: "job_store \<Rightarrow> worker_step list \<Rightarrow> bool" where
  "unused s steps \<longleftrightarrow> distinct (map (\<lambda>(_, _, u). ci_command_id u) steps)
     \<and> list_all (\<lambda>(_, _, u). load_command_event (js_db s) (ci_command_id u) = None) steps"

lemma unused_step:
  assumes "store_ok s" and "unused s ((k, q, u) # steps)"
  shows "unused (store_try legacy artifacts s (step_call pf (k, q, u))) steps"
  using assms(1)
proof (cases rule: store_try_cases [of s legacy artifacts "step_call pf (k, q, u)"])
  case same
  with assms(2) show ?thesis by (simp add: unused_def)
next
  case (commit row c)
  have "list_all (\<lambda>(_, _, v). ci_command_id u \<noteq> ci_command_id v) steps"
    using assms(2) by (force simp: unused_def list_all_iff)
  with assms(2) commit(5) show ?thesis
    by (auto simp: unused_def list_all_iff load_command_event_def find_append update_event_row_def
        split: option.splits)
qed

lemma begun_stays:
  assumes "store_ok s" and "db_jobs (js_db s) i = Some r" and "begun (jr_body r)"
    and "list_all (\<lambda>(_, q, _). launching q) steps" and "unused s steps"
  shows "begin_count legacy artifacts pf i s steps = 0"
  using assms
proof (induction steps arbitrary: s)
  case (Cons p steps)
  obtain k q u where p: "p = (k, q, u)" by (cases p)
  let ?call = "step_call pf (k, q, u)"
  have "begun ((jr_body r)\<lparr>aj_lifecycle_event := None\<rparr>)" using Cons.prems(3) by (simp add: begun_def)
  with Cons.prems(4) p have d: "worker_command pf q ((jr_body r)\<lparr>aj_lifecycle_event := None\<rparr>) = Inr None"
    by (simp add: begun_declined)
  note kept = declined_kept [OF Cons.prems(1,2), of k pf q, OF d]
  have "k = i \<Longrightarrow> store_transaction legacy artifacts s ?call \<noteq> Inr (s', Some c)" for s' c
    using kept(2) Cons.prems(5) p by (simp add: unused_def)
  moreover have "begin_count legacy artifacts pf i (store_try legacy artifacts s ?call) steps = 0"
    using Cons.IH [OF store_ok_try [OF Cons.prems(1)] kept(1) Cons.prems(3) _ unused_step] Cons.prems p by simp
  ultimately show ?case by (auto simp: p split: sum.splits prod.splits option.splits)
qed simp

lemma begins_once:
  assumes "store_ok s" and "db_jobs (js_db s) i = Some r"
    and "list_all (\<lambda>(_, q, _). launching q) steps" and "unused s steps"
  shows "begin_count legacy artifacts pf i s steps \<le> 1"
  using assms
proof (induction steps arbitrary: s r)
  case (Cons p steps)
  obtain k q u where p: "p = (k, q, u)" by (cases p)
  let ?call = "step_call pf (k, q, u)" and ?t = "store_try legacy artifacts s (step_call pf (k, q, u))"
  note ok = store_ok_try [OF Cons.prems(1), of legacy artifacts ?call]
  note fresh = unused_step [OF Cons.prems(1) Cons.prems(4) [unfolded p], of legacy artifacts pf]
  from store_step [OF Cons.prems(1,2), of legacy artifacts ?call] obtain r' where
    r': "db_jobs (js_db ?t) i = Some r'" by blast
  have IH: "begin_count legacy artifacts pf i ?t steps \<le> 1"
    using Cons.IH [OF ok r' _ fresh] Cons.prems(3) by (simp add: p)
  show ?case
  proof (cases "k = i \<and> begins q \<and> (\<exists>s' c. store_transaction legacy artifacts s ?call = Inr (s', Some c))")
    case True
    then obtain s' c where t: "k = i" "begins q" "store_transaction legacy artifacts s ?call = Inr (s', Some c)"
      by blast
    have "begun c \<and> db_jobs (js_db ?t) i = Some (job_row_of c)"
      using begin_transaction [OF Cons.prems(1,2) t(2) t(3) [unfolded t(1)]] Cons.prems(4) p t
      by (simp add: unused_def store_try_def)
    then have "begin_count legacy artifacts pf i ?t steps = 0"
      using begun_stays [OF ok _ _ _ fresh] Cons.prems(3) p by (auto simp: job_row_of_def)
    then show ?thesis by (simp add: p)
  next
    case False
    then have "begin_count legacy artifacts pf i s (p # steps) = begin_count legacy artifacts pf i ?t steps"
      by (auto simp: p split: sum.splits prod.splits option.splits)
    with IH show ?thesis by simp
  qed
qed simp

text \<open>
  C18. Whatever launchers, workers and failure handlers do around a job, in any interleaving, crashes
  and abandoned calls included, at most one worker ever begins it.
\<close>

theorem at_most_one_worker_begins:
  assumes "store_ok s" and "db_jobs (js_db s) i = Some r"
    and "list_all (\<lambda>(_, q, _). launching q) steps" and "unused s steps"
  shows "begin_count legacy artifacts pf i s steps \<le> 1"
  using assms by (rule begins_once)


section \<open>A launch leaves no reservation behind\<close>

definition held_by :: "worker_ownership \<Rightarrow> string \<Rightarrow> job_store \<Rightarrow> bool" where
  "held_by w i s \<longleftrightarrow> (\<exists>r. db_jobs (js_db s) i = Some r \<and> owner_of (jr_body r) = Inr (Some w))"

text \<open>
  Other processes work through the store, never make this launcher's claim (its token is random)
  and never use its identifiers.
\<close>

definition unlogged :: "job_store \<Rightarrow> string \<Rightarrow> bool" where
  "unlogged s c \<longleftrightarrow> load_command_event (js_db s) c = None"

definition fair_others :: "launch_env \<Rightarrow> worker_ownership \<Rightarrow> string \<Rightarrow> bool" where
  "fair_others env w i \<longleftrightarrow>
     (\<forall>n s. (store_ok s \<longrightarrow> store_ok (le_others env n s))
        \<and> (\<not> held_by w i s \<longrightarrow> \<not> held_by w i (le_others env n s))
        \<and> (\<forall>m. unlogged s (ci_command_id (le_ids env m))
              \<longrightarrow> unlogged (le_others env n s) (ci_command_id (le_ids env m))))
     \<and> inj (\<lambda>m. ci_command_id (le_ids env m))"

text \<open>Outside maintenance a new call that returns nothing was declined by its command.\<close>

lemma transaction_declined:
  assumes "store_ok s" and "\<not> sc_reject_maintenance call" and "unlogged s (sc_command_id call)"
    and "store_transaction legacy artifacts s call = Inr (s', None)"
  shows "\<exists>row. db_jobs (js_db s) (sc_job_id call) = Some row
    \<and> sc_command call ((jr_body row)\<lparr>aj_lifecycle_event := None\<rparr>) = Inr None"
proof -
  from assms(2,4) obtain row where row: "db_jobs (js_db s) (sc_job_id call) = Some row"
    by (auto simp: store_transaction_def split: option.splits)
  with assms(1) have ok: "stored_row_ok row" by (auto simp: store_ok_def)
  let ?j = "(jr_body row)\<lparr>aj_lifecycle_event := None\<rparr>"
  from ok have r: "read_record (jr_body row) = Inr ?j" and v: "jr_revision row = aj_revision ?j"
    by (simp_all add: stored_row_ok_def)
  show ?thesis
  proof (cases "sc_command call ?j")
    case (Inl e)
    with assms row r show ?thesis by (simp add: store_transaction_def unlogged_def Let_def)
  next
    case (Inr cand)
    show ?thesis
    proof (cases cand)
      case None
      with Inr row show ?thesis by simp
    next
      case (Some c)
      have False using assms row r Inr Some v
        by (auto simp: store_transaction_def unlogged_def Let_def apply_command_def rbind_Inr_iff
            split: option.splits)
      then show ?thesis ..
    qed
  qed
qed

lemma evolve_job_worker:
  assumes "evolve_job None (\<lambda>j. (set_worker w j)\<lparr>worker_operation := None\<rparr>) j = Inr u"
  shows "aj_worker u = worker_ownership_fields w \<and> aj_loaded_schema_version u = aj_loaded_schema_version j"
proof -
  have v: "aj_loaded_schema_version (pair_worker_ownership (pair_announcement_ack k))
      = aj_loaded_schema_version k" for k
    by (simp add: pair_worker_ownership_def pair_announcement_ack_def Let_def)
  from assms have "\<exists>v b. next_record j (if b then v\<lparr>rj_manual_reconcile_operation := None,
        manual_reconcile_token := None, aj_status := aj_status j\<rparr> else v\<lparr>aj_status := aj_status j\<rparr>) = Inr u
      \<and> v = pair_worker_ownership (pair_announcement_ack ((set_worker w j)\<lparr>worker_operation := None\<rparr>))"
    by (auto simp: evolve_job_def Let_def split: if_splits intro: exI [of _ True] exI [of _ False])
  then obtain v b where n: "next_record j (if b then v\<lparr>rj_manual_reconcile_operation := None,
        manual_reconcile_token := None, aj_status := aj_status j\<rparr> else v\<lparr>aj_status := aj_status j\<rparr>) = Inr u"
    and vd: "v = pair_worker_ownership (pair_announcement_ack ((set_worker w j)\<lparr>worker_operation := None\<rparr>))"
    by blast
  from next_record_cols [OF n] vd show ?thesis by (cases b) (auto simp: v)
qed

lemma hand_off_worker:
  assumes "hand_off_command w n p j = Inr (Some u)"
  shows "\<exists>x. worker_ok (Some x) \<and> wo_pid x = pi_pid p \<and> aj_worker u = worker_ownership_fields (Some x)
    \<and> aj_loaded_schema_version u = aj_loaded_schema_version j"
proof -
  from assms obtain x where x: "WorkerOwnership_init (wo_token w) (pi_pid p) (pi_boot p) (pi_start p)
      (wo_operation w) (wo_claimed_at w) = Inr x"
    and t: "worker_callback_transition n w JsQueued (set_worker (Some x)) j = Inr u"
    by (auto simp: hand_off_command_def rbind_Inr_iff map_err_Inr_iff if_Inl_Inr_iff split: if_splits)
  from x have "worker_ok (Some x)" "wo_pid x = pi_pid p" by (auto simp: WorkerOwnership_init_iff worker_ok_def)
  moreover from t obtain y e where "transition_job JsQueued (set_worker (Some x)) j = Inr y"
    "u = y\<lparr>aj_lifecycle_event := e\<rparr>"
    by (auto simp: worker_callback_transition_def rbind_Inr_iff Let_def)
  ultimately show ?thesis using transition_job_cols [of JsQueued "set_worker (Some x)" j y] by auto
qed

text \<open>What a committed call of the launch leaves as owner.\<close>

lemma committed_owner:
  assumes "store_ok s" and "unlogged s (ci_command_id u)"
    and "store_transaction legacy artifacts s (worker_call reject i command u) = Inr (s', Some c)"
    and "\<And>j cand. command j = Inr (Some cand) \<Longrightarrow> \<exists>w. P w \<and> worker_ok w
      \<and> aj_worker cand = worker_ownership_fields w
      \<and> aj_loaded_schema_version cand = aj_loaded_schema_version j"
  shows "\<exists>r w. P w \<and> db_jobs (js_db s') i = Some r \<and> owner_of (jr_body r) = Inr w"
  using assms(3)
proof (cases rule: store_transaction_cases)
  case same
  with assms(2) show ?thesis by (simp add: unlogged_def worker_call_def)
next
  case (commit row current cand c' reserved claims)
  from commit(1) assms(1) have "stored_row_ok row" by (auto simp: store_ok_def worker_call_def)
  with commit(2) have v: "aj_loaded_schema_version current = CURRENT_SCHEMA_VERSION"
    by (simp add: stored_row_ok_def)
  from commit(3) have "command current = Inr (Some cand)" by (simp add: worker_call_def)
  from assms(4) [OF this] v obtain w where cand: "P w" "worker_ok w" "aj_worker cand = worker_ownership_fields w"
    "aj_loaded_schema_version cand = CURRENT_SCHEMA_VERSION" by auto
  from normalize_keeps_worker [OF commit(5) cand(4)] cand have "owner_of c' = Inr w"
    by (simp add: owner_of_fields)
  with cand(1) commit(8) show ?thesis by (simp add: worker_call_def job_row_of_def)
qed


definition ready :: "launch_env \<Rightarrow> nat \<Rightarrow> job_store \<Rightarrow> bool" where
  "ready env n s \<longleftrightarrow> store_ok s \<and> (\<forall>m \<ge> n. unlogged s (ci_command_id (le_ids env m)))"

lemma ready_others: "fair_others env w i \<Longrightarrow> ready env n s \<Longrightarrow> ready env n (le_others env k s)"
  by (simp add: ready_def fair_others_def)

lemma ready_mono: "ready env n s \<Longrightarrow> n \<le> m \<Longrightarrow> ready env m s"
  by (simp add: ready_def)

lemma launch_update_ready:
  assumes "fair_others env w i" and "ready env n s"
    and "launch_update (store_transaction legacy artifacts) env n reject i command s = (t, r)"
  shows "ready env (Suc n) t"
proof -
  let ?o = "le_others env n s" and ?call = "worker_call reject i command (le_ids env n)"
  have o': "ready env n ?o" by (rule ready_others [OF assms(1,2)])
  have t: "t = store_try legacy artifacts ?o ?call"
    using assms(3) by (auto simp: launch_update_def store_try_def Let_def split: sum.splits prod.splits)
  have ok: "store_ok t" unfolding t using o' by (intro store_ok_try) (simp add: ready_def)
  have "store_ok ?o" using o' by (simp add: ready_def)
  then have "unlogged t (ci_command_id (le_ids env m))" if "Suc n \<le> m" for m
  proof (cases rule: store_try_cases [of ?o legacy artifacts ?call])
    case same
    with o' that t show ?thesis by (simp add: ready_def)
  next
    case (commit row c)
    have "ci_command_id (le_ids env m) \<noteq> ci_command_id (le_ids env n)"
      using assms(1) that injD [of "\<lambda>m. ci_command_id (le_ids env m)" m n] by (auto simp: fair_others_def)
    with commit(5) o' that t show ?thesis
      by (simp add: ready_def unlogged_def load_command_event_def find_append update_event_row_def
          worker_call_def split: option.splits)
  qed
  with ok show ?thesis by (simp add: ready_def)
qed

lemma launch_update_None:
  assumes "fair_others env w i" and "ready env n s"
    and "launch_update (store_transaction legacy artifacts) env n reject i command s = (t, Inr None)"
  shows "t = le_others env n s"
    and "\<not> reject \<Longrightarrow> \<exists>r. db_jobs (js_db t) i = Some r
      \<and> command ((jr_body r)\<lparr>aj_lifecycle_event := None\<rparr>) = Inr None"
proof -
  let ?o = "le_others env n s" and ?call = "worker_call reject i command (le_ids env n)"
  have o': "ready env n ?o" by (rule ready_others [OF assms(1,2)])
  from assms(3) have tr: "store_transaction legacy artifacts ?o ?call = Inr (t, None)"
    by (auto simp: launch_update_def Let_def split: sum.splits prod.splits)
  then show t: "t = ?o" by (cases rule: store_transaction_cases) auto
  show "\<exists>r. db_jobs (js_db t) i = Some r
      \<and> command ((jr_body r)\<lparr>aj_lifecycle_event := None\<rparr>) = Inr None" if "\<not> reject"
    using transaction_declined [OF _ _ _ tr] o' that t by (simp add: ready_def worker_call_def)
qed

lemma launch_update_Some:
  assumes "fair_others env w i" and "ready env n s"
    and "launch_update (store_transaction legacy artifacts) env n reject i command s = (t, Inr (Some c))"
    and "\<And>j cand. command j = Inr (Some cand) \<Longrightarrow> \<exists>x. P x \<and> worker_ok x
      \<and> aj_worker cand = worker_ownership_fields x
      \<and> aj_loaded_schema_version cand = aj_loaded_schema_version j"
  shows "\<exists>r x. P x \<and> db_jobs (js_db t) i = Some r \<and> owner_of (jr_body r) = Inr x"
proof -
  let ?o = "le_others env n s" and ?call = "worker_call reject i command (le_ids env n)"
  have o': "ready env n ?o" by (rule ready_others [OF assms(1,2)])
  from assms(3) have tr: "store_transaction legacy artifacts ?o ?call = Inr (t, Some c)"
    by (auto simp: launch_update_def Let_def split: sum.splits prod.splits)
  from o' have "store_ok ?o" "unlogged ?o (ci_command_id (le_ids env n))" by (simp_all add: ready_def)
  from committed_owner [OF this tr assms(4)] show ?thesis by blast
qed

lemma hand_over_outcome:
  assumes "fair_others env w i" and "ready env 1 s" and "child \<noteq> wo_pid w"
    and "hand_over (store_transaction legacy artifacts) env i w n child s = (t, r, m)"
  shows "ready env 3 t" and "r = Inr True \<Longrightarrow> \<not> held_by w i t"
proof -
  define p where "p = \<lparr>pi_pid = child, pi_boot = the (le_child_boot env), pi_start = the (le_child_start env)\<rparr>"
  have "ready env 3 t \<and> (r = Inr True \<longrightarrow> \<not> held_by w i t)"
  proof (cases "\<not> otruthy (le_child_start env) \<or> \<not> otruthy (le_child_boot env)")
    case True
    with assms(2,4) ready_mono [OF assms(2), of 3] show ?thesis by (auto simp: hand_over_def)
  next
    case False
    obtain t1 r1 where l: "launch_update (store_transaction legacy artifacts) env 1 True i
        (hand_off_command w n p) s = (t1, r1)" by fastforce
    have r1: "ready env 2 t1" using launch_update_ready [OF assms(1,2) l] by (simp add: numeral_2_eq_2)
    have r3: "ready env 3 t1" "ready env 3 (le_others env 2 t1)"
      using ready_mono [OF r1, of 3] ready_others [OF assms(1) ready_mono [OF r1, of 3]] by simp_all
    consider (err) e where "r1 = Inl e" | (moved) c where "r1 = Inr (Some c)" | (none) "r1 = Inr None"
      by (cases r1) auto
    then show ?thesis
    proof cases
      case err
      with assms(4) False l r3 show ?thesis by (auto simp: hand_over_def p_def Let_def)
    next
      case moved
      with assms(4) False l have t: "t = t1" by (auto simp: hand_over_def p_def Let_def)
      have "\<exists>q x. (\<exists>y. x = Some y \<and> wo_pid y = child) \<and> db_jobs (js_db t1) i = Some q \<and> owner_of (jr_body q) = Inr x"
      proof (rule launch_update_Some [OF assms(1,2) l [unfolded moved]])
        fix j cand assume "hand_off_command w n p j = Inr (Some cand)"
        from hand_off_worker [OF this] show "\<exists>x. (\<exists>y. x = Some y \<and> wo_pid y = child) \<and> worker_ok x
            \<and> aj_worker cand = worker_ownership_fields x
            \<and> aj_loaded_schema_version cand = aj_loaded_schema_version j"
          by (auto simp: p_def)
      qed
      with assms(3) t r3 show ?thesis by (auto simp: held_by_def)
    next
      case none
      let ?o = "le_others env 2 t1"
      from assms(4) False l none have t: "t = ?o"
        and r: "r = Inr True \<Longrightarrow> \<exists>current x. store_get ?o i = Inr current \<and> owner_of current = Inr (Some x) \<and> wo_pid x = child"
        by (auto simp: hand_over_def p_def Let_def rbind_Inr_iff map_err_Inr_iff WorkerOwnership_init_iff
            split: sum.splits)
      have "\<not> held_by w i t" if "r = Inr True"
      proof
        assume "held_by w i t"
        with t r3(2) obtain q where q: "db_jobs (js_db ?o) i = Some q" "owner_of (jr_body q) = Inr (Some w)"
          "stored_row_ok q" by (auto simp: held_by_def ready_def store_ok_def)
        with r [OF that] assms(3) show False
          by (auto simp: store_get_def stored_row_ok_def)
      qed
      with t r3 show ?thesis by simp
    qed
  qed
  then show "ready env 3 t" and "r = Inr True \<Longrightarrow> \<not> held_by w i t" by simp_all
qed

text \<open>A call of the withdrawal that raised, on the store as it was then.\<close>

definition withdrawal_raised ::
  "(stored_job \<Rightarrow> stored_job) \<Rightarrow> (stored_job \<Rightarrow> stored_job \<Rightarrow> job_error + unit) \<Rightarrow> failure_record \<Rightarrow>
   launch_env \<Rightarrow> worker_ownership \<Rightarrow> string \<Rightarrow> job_store \<Rightarrow> store_error \<Rightarrow> bool" where
  "withdrawal_raised legacy artifacts pf env w i t e \<longleftrightarrow>
     (\<exists>k n m. store_transaction legacy artifacts t (worker_call False i
           (launch_failure_command pf w n m (le_failed_at env)) (le_ids env k)) = Inl e
        \<or> store_transaction legacy artifacts t (worker_call False i
           (clear_launcher_command w) (le_ids env k)) = Inl e)"

lemma launch_update_Inl:
  assumes "launch_update transact env n reject i command s = (t, Inl x)"
  shows "t = le_others env n s
    \<and> (\<exists>e. x = WorkerStoreError e \<and> transact t (worker_call reject i command (le_ids env n)) = Inl e)"
  using assms by (auto simp: launch_update_def Let_def split: sum.splits prod.splits)

lemma withdraw_outcome:
  assumes "fair_others env w i" and "ready env 3 s"
    and "withdraw (store_transaction legacy artifacts) pf env i w n pending m s = (t, res)"
  shows "\<not> held_by w i t
    \<or> \<not> le_retired env
      \<and> res = Inl (WorkerHarnessError ''could not stop Cursor worker after process identity handoff failed'')
    \<or> (\<exists>e. res = Inl (WorkerStoreError e) \<and> withdrawal_raised legacy artifacts pf env w i t e)"
proof (cases "le_retired env")
  case False
  with assms(3) show ?thesis by (simp add: withdraw_def)
next
  case True
  obtain t1 r1 where l: "launch_update (store_transaction legacy artifacts) env 3 False i
      (launch_failure_command pf w n m (le_failed_at env)) s = (t1, r1)" by fastforce
  have r1: "ready env 4 t1" using launch_update_ready [OF assms(1,2) l] by simp
  obtain t2 r2 where l2: "launch_update (store_transaction legacy artifacts) env 4 False i
      (clear_launcher_command w) t1 = (t2, r2)" by fastforce
  consider (first) x where "r1 = Inl x" "t = t1" "res = Inl x"
    | (second) c x where "r1 = Inr c" "r2 = Inl x" "t = t2" "res = Inl x"
    | (cleared) c d where "r1 = Inr c" "r2 = Inr d" "t = t2"
    using assms(3) True l l2 by (cases r1; cases r2) (auto simp: withdraw_def)
  then show ?thesis
  proof cases
    case first
    with launch_update_Inl [OF l [unfolded first(1)]] show ?thesis by (auto simp: withdrawal_raised_def)
  next
    case second
    with launch_update_Inl [OF l2 [unfolded second(2)]] show ?thesis by (auto simp: withdrawal_raised_def)
  next
    case cleared
    show ?thesis
    proof (cases d)
      case None
      from launch_update_None(2) [OF assms(1) r1 l2 [unfolded cleared(2) None]] obtain q where
        q: "db_jobs (js_db t2) i = Some q" "clear_launcher_command w ((jr_body q)\<lparr>aj_lifecycle_event := None\<rparr>) = Inr None"
        by auto
      then have "owner_of (jr_body q) \<noteq> Inr (Some w)"
        by (auto simp: clear_launcher_command_def rbind_Inr_iff ownership_matches_def)
      with q(1) cleared show ?thesis by (simp add: held_by_def)
    next
      case (Some u)
      have "\<exists>q x. x = None \<and> db_jobs (js_db t2) i = Some q \<and> owner_of (jr_body q) = Inr x"
      proof (rule launch_update_Some [OF assms(1) r1 l2 [unfolded cleared(2) Some]])
        fix j cand assume "clear_launcher_command w j = Inr (Some cand)"
        then have "evolve_job None (\<lambda>j. (set_worker None j)\<lparr>worker_operation := None\<rparr>) j = Inr cand"
          by (auto simp: clear_launcher_command_def rbind_Inr_iff if_Inl_Inr_iff split: if_splits)
        from evolve_job_worker [OF this] show "\<exists>x. x = None \<and> worker_ok x \<and> aj_worker cand = worker_ownership_fields x
            \<and> aj_loaded_schema_version cand = aj_loaded_schema_version j"
          by (simp add: worker_ok_def)
      qed
      with cleared show ?thesis by (auto simp: held_by_def)
    qed
  qed
qed

text \<open>The failure that is recorded leaves the job without a worker.\<close>

lemma prepared_failure_cols:
  assumes "prepare_launch_failure redact j m x = Inr u"
  shows "worker_token (aj_worker u) = None" and "aj_loaded_schema_version u = aj_loaded_schema_version j"
proof -
  from assms obtain d where d: "evolve_job (Some JsFailed)
      (\<lambda>j. let k = set_delivery (prepare_delivery d) j in
           k\<lparr>updated_at := Some x, aj_error := Some (redact m),
             aj_result := Some ''Cursor job failed to start. Check the job log for details.'',
             aj_completed_at := Some x,
             aj_worker := (aj_worker k)\<lparr>worker_token := None, worker_pid := None,
               worker_boot_id := None, worker_process_start := None\<rparr>,
             aj_participant := (aj_participant k)\<lparr>participant_admission_state := Some ''released''\<rparr>\<rparr>) j = Inr u"
    (is "evolve_job _ ?f j = _")
    by (auto simp: prepare_launch_failure_def rbind_Inr_iff)
  let ?v = "pair_worker_ownership (pair_announcement_ack (?f j))"
  have ack: "aj_worker (pair_announcement_ack k) = aj_worker k"
    "aj_loaded_schema_version (pair_announcement_ack k) = aj_loaded_schema_version k" for k
    by (simp_all add: pair_announcement_ack_def Let_def)
  have v: "worker_token (aj_worker ?v) = None" "aj_loaded_schema_version ?v = aj_loaded_schema_version j"
    by (simp_all add: pair_worker_ownership_def ack Let_def set_delivery_def)
  from d have "\<exists>b. next_record j (if b then ?v\<lparr>rj_manual_reconcile_operation := None,
        manual_reconcile_token := None, aj_status := JsFailed\<rparr> else ?v\<lparr>aj_status := JsFailed\<rparr>) = Inr u"
    unfolding evolve_job_def Let_def
    by (auto split: if_splits intro: exI [of _ True] exI [of _ False])
  then obtain b where n: "next_record j (if b then ?v\<lparr>rj_manual_reconcile_operation := None,
        manual_reconcile_token := None, aj_status := JsFailed\<rparr> else ?v\<lparr>aj_status := JsFailed\<rparr>) = Inr u"
    by blast
  from next_record_cols [OF n] v show "worker_token (aj_worker u) = None"
    "aj_loaded_schema_version u = aj_loaded_schema_version j"
    by (cases b; auto)+
qed

lemma persisted_failure:
  assumes "fair_others env w i" and "ready env 1 s"
    and "launch_update (store_transaction legacy artifacts) env 1 False i
      (launch_failure_command (prepare_launch_failure redact) w n m (le_failed_at env)) s = (t, Inr c)"
    and "db_jobs (js_db t) i = Some q" and "owner_of (jr_body q) = Inr (Some w)"
  shows "aj_status (jr_body q) \<noteq> JsQueued \<or> aj_revision (jr_body q) \<noteq> n"
proof (cases c)
  case None
  from launch_update_None(2) [OF assms(1,2) assms(3) [unfolded None]] assms(4,5) show ?thesis
    by (auto simp: launch_failure_command_def still_reserved_def ownership_matches_def rbind_Inr_iff
        split: if_splits)
next
  case (Some u)
  let ?o = "le_others env 1 s"
  have o': "ready env 1 ?o" by (rule ready_others [OF assms(1,2)])
  from assms(3) Some have tr: "store_transaction legacy artifacts ?o (worker_call False i
      (launch_failure_command (prepare_launch_failure redact) w n m (le_failed_at env)) (le_ids env 1)) = Inr (t, Some u)"
    by (auto simp: launch_update_def Let_def split: sum.splits prod.splits)
  then have False
  proof (cases rule: store_transaction_cases)
    case same
    with o' show False by (simp add: ready_def unlogged_def worker_call_def)
  next
    case (commit row current cand d reserved claims)
    from commit(1) o' have "stored_row_ok row" by (auto simp: ready_def store_ok_def worker_call_def)
    with commit(2) have v: "aj_loaded_schema_version current = CURRENT_SCHEMA_VERSION"
      by (simp add: stored_row_ok_def)
    from commit(3) have "prepare_launch_failure redact current (take 500 m) (le_failed_at env) = Inr cand"
      by (auto simp: worker_call_def launch_failure_command_def rbind_Inr_iff split: if_splits)
    note f = prepared_failure_cols [OF this]
    from normalize_keeps_worker [OF commit(5)] f v have "worker_token (aj_worker d) = None" by simp
    moreover from commit(8) assms(4) have "q = job_row_of d" by (simp add: worker_call_def)
    with assms(5) have "otruthy (worker_token (aj_worker d))" using owned_token by (simp add: job_row_of_def)
    ultimately show False by simp
  qed
  then show ?thesis ..
qed

lemma launch_outcome:
  assumes "WorkerOwnership_init (le_token env) (le_pid env) (the (le_boot env)) (the (le_start env)) ''launch''
      (le_reserved_at env) = Inr w"
    and "fair_others env w i" and "ready env 0 s" and "\<not> held_by w i s" and "le_spawned env \<noteq> Inr (le_pid env)"
    and "launch_worker (store_transaction legacy artifacts) (prepare_launch_failure redact) env i s = (t, res)"
    and "db_jobs (js_db t) i = Some q" and "owner_of (jr_body q) = Inr (Some w)"
  shows "\<not> le_retired env
      \<and> res = Inl (WorkerHarnessError ''could not stop Cursor worker after process identity handoff failed'')
    \<or> (\<exists>e. res = Inl (WorkerStoreError e)
         \<and> withdrawal_raised legacy artifacts (prepare_launch_failure redact) env w i t e)
    \<or> (\<exists>m u reserved. res = Inl (WorkerSpawnError m) \<and> le_spawned env = Inl m
         \<and> launch_update (store_transaction legacy artifacts) env 0 True i (reserve_command w) s
           = (u, Inr (Some reserved))
         \<and> (aj_status (jr_body q) \<noteq> JsQueued \<or> aj_revision (jr_body q) \<noteq> aj_revision reserved))"
proof -
  have held: "held_by w i t" using assms(7,8) by (simp add: held_by_def)
  let ?pf = "prepare_launch_failure redact"
  obtain t0 r0 where l: "launch_update (store_transaction legacy artifacts) env 0 True i (reserve_command w) s
      = (t0, r0)" by fastforce
  have r1: "ready env 1 t0" using launch_update_ready [OF assms(2,3) l] by simp
  from assms(1) have pid: "wo_pid w = le_pid env" by (auto simp: WorkerOwnership_init_iff)
  have started: "otruthy (le_boot env) \<and> otruthy (le_start env)"
  proof (rule ccontr)
    assume "\<not> ?thesis"
    with assms(6) have "t = s" by (auto simp: launch_worker_def)
    with held assms(4) show False by simp
  qed
  have reserved: "\<exists>reserved. r0 = Inr (Some reserved)"
  proof (rule ccontr)
    assume none: "\<not> ?thesis"
    then have "t = t0"
      using assms(6) started by (cases r0) (auto simp: launch_worker_def assms(1) l split: option.splits)
    moreover have "t0 = le_others env 0 s"
    proof (cases r0)
      case (Inl x)
      with launch_update_Inl l show ?thesis by blast
    next
      case (Inr c)
      with none have "c = None" by (cases c) auto
      with launch_update_None(1) [OF assms(2,3)] l Inr show ?thesis by blast
    qed
    ultimately show False using held assms(2,4) by (simp add: fair_others_def)
  qed
  then obtain reserved where r0: "r0 = Inr (Some reserved)" ..
  let ?n = "aj_revision reserved"
  show ?thesis
  proof (cases "le_spawned env")
    case (Inl m)
    obtain t1 c where p: "launch_update (store_transaction legacy artifacts) env 1 False i
        (launch_failure_command ?pf w ?n (take 500 m) (le_failed_at env)) t0 = (t1, c)" by fastforce
    from assms(6) started Inl p r0 have out: "t = t1 \<and> res = (case c of Inl e \<Rightarrow> Inl e | Inr _ \<Rightarrow> Inl (WorkerSpawnError m))"
      by (cases c) (auto simp: launch_worker_def assms(1) l)
    show ?thesis
    proof (cases c)
      case (Inl x)
      from launch_update_Inl [OF p [unfolded Inl]] out obtain e where
        "x = WorkerStoreError e" "store_transaction legacy artifacts t (worker_call False i
          (launch_failure_command ?pf w ?n (take 500 m) (le_failed_at env)) (le_ids env 1)) = Inl e"
        by auto
      then have "res = Inl (WorkerStoreError e) \<and> withdrawal_raised legacy artifacts ?pf env w i t e"
        using out Inl by (auto simp: withdrawal_raised_def)
      then show ?thesis by blast
    next
      case (Inr d)
      from persisted_failure [OF assms(2) r1 p [unfolded Inr]] out assms(7,8)
      have "aj_status (jr_body q) \<noteq> JsQueued \<or> aj_revision (jr_body q) \<noteq> ?n" by blast
      with out Inr l r0 \<open>le_spawned env = Inl m\<close> show ?thesis by auto
    qed
  next
    case (Inr child)
    with assms(5) pid have child: "child \<noteq> wo_pid w" by simp
    obtain t1 r m where h: "hand_over (store_transaction legacy artifacts) env i w ?n child t0
        = (t1, r, m)" by (metis prod_cases3)
    note o' = hand_over_outcome [OF assms(2) r1 child h]
    have out: "(case r of
          Inr True \<Rightarrow> (t1, Inr ())
        | Inr False \<Rightarrow> withdraw (store_transaction legacy artifacts) ?pf env i w ?n None m t1
        | Inl e \<Rightarrow> withdraw (store_transaction legacy artifacts) ?pf env i w ?n (Some e) m t1)
        = (t, res)"
      using assms(6) started by (simp add: launch_worker_def assms(1) l r0 Inr h cong: sum.case_cong)
    have "r \<noteq> Inr True"
    proof
      assume "r = Inr True"
      with out o'(2) held show False by simp
    qed
    with out have "\<exists>pending. withdraw (store_transaction legacy artifacts) ?pf env i w ?n pending m t1 = (t, res)"
      by (cases r) (auto simp del: split_paired_Ex split: bool.splits)
    then obtain pending where
      "withdraw (store_transaction legacy artifacts) ?pf env i w ?n pending m t1 = (t, res)" ..
    from withdraw_outcome [OF assms(2) o'(1) this] held show ?thesis by (elim disjE) simp_all
  qed
qed


end
