(* ===== verification/Worker_Examples.thy ===== *)
theory Worker_Examples imports Store_Examples Worker_Claims begin

text \<open>
  A launch evaluated from end to end: a queued job is reserved by a launcher and handed over to its
  child; and the promises about claims, on its records.
\<close>

section \<open>Committing a record in canonical form\<close>

lemma canonical_normalized:
  assumes "read_record c = Inr (c\<lparr>aj_lifecycle_event := None\<rparr>)"
    and "validate_invariants True (full_part (c\<lparr>aj_lifecycle_event := None\<rparr>)) = Inr ()"
    and "aj_loaded_schema_version c = CURRENT_SCHEMA_VERSION" and "\<not> has_legacy_worker_claim (aj_worker c)"
    and "aj_cleanup c = aj_cleanup demo_queued"
  shows "normalize_for_durable_write legacy c = Inr c"
proof -
  have k: "clear_legacy_release_owner c = c"
    using assms(5) by (simp add: clear_legacy_release_owner_def demo_queued_def)
  have v: "c\<lparr>aj_loaded_schema_version := CURRENT_SCHEMA_VERSION\<rparr> = c"
    using assms(3) by (cases c) simp
  from assms show ?thesis by (simp add: normalize_for_durable_write_def k v Let_def)
qed

lemma transaction_commits:
  assumes "db_jobs (js_db s) (sc_job_id call) = Some (job_row_of j)" and "read_record j = Inr j"
    and "unlogged s (sc_command_id call)" and "\<not> maintenance_active s"
    and "sc_command call j = Inr (Some c)" and "normalize_for_durable_write legacy c = Inr c"
    and "validate_transition (\<lambda>_. validate_invariants True (full_part c)) (agent_part j) (agent_part c) = Inr ()"
    and "artifacts j c = Inr ()" and "save_job s c = Inr (reserved, claims)"
  shows "store_transaction legacy artifacts s call
    = Inr (s\<lparr>js_db := (js_db s)\<lparr>db_events := db_events (js_db s) @ [update_event_row call (aj_revision c)],
             db_jobs := (db_jobs (js_db s))(sc_job_id call \<mapsto> job_row_of c)\<rparr>,
           js_reservations := reserved, js_claims := claims\<rparr>, Some c)"
proof -
  have p: "prepare_candidate legacy artifacts j (job_row_of c) = Inr (job_row_of c)"
    using assms(6-8) unfolding prepare_candidate_iff by (simp add: job_row_of_def)
  have r: "jr_revision (job_row_of k) = aj_revision k" "jr_body (job_row_of k) = k" for k
    by (simp_all add: job_row_of_def)
  from assms show ?thesis
    by (simp add: store_transaction_def unlogged_def r Let_def apply_command_def p record_transition_def
        CoordinatorDecision_check_def dict_get_def update_event_row_def)
qed

section \<open>A queued job\<close>

definition launcher :: worker_ownership where
  "launcher = \<lparr>wo_token = ''t'', wo_pid = 7, wo_boot_id = ''b'', wo_process_start = ''s'',
     wo_operation = ''launch'', wo_claimed_at = 2\<rparr>"

definition child :: worker_ownership where
  "child = launcher\<lparr>wo_pid := 8, wo_process_start := ''r''\<rparr>"

definition demo_waiting :: agent_job where
  "demo_waiting = demo_queued\<lparr>aj_prompt_typed := Some IdlePrompt\<rparr>"

definition demo_reserved :: agent_job where
  "demo_reserved = demo_waiting\<lparr>aj_revision := 4, aj_worker := worker_ownership_fields (Some launcher)\<rparr>"

definition demo_handed :: agent_job where
  "demo_handed = demo_waiting\<lparr>aj_revision := 5, aj_worker := worker_ownership_fields (Some child)\<rparr>"

lemmas handed_defs = demo_handed_def demo_reserved_def demo_waiting_def child_def launcher_def

lemma queued_readable:
  "succeeds (job_terminal_state demo_queued)"
  "succeeds (job_cleanup_state demo_queued)"
  "succeeds (job_workflow_state demo_queued)"
  "succeeds (job_review_state demo_queued)"
  "succeeds (job_plan_approval demo_queued)"
  "succeeds (job_participant_lifecycle demo_queued)"
  "succeeds (job_worker_ownership demo_queued)"
  unfolding demo_queued_def by code_simp+

lemma handed_readable:
  "succeeds (job_terminal_state demo_waiting)"
  "succeeds (job_cleanup_state demo_waiting)"
  "succeeds (job_workflow_state demo_waiting)"
  "succeeds (job_review_state demo_waiting)"
  "succeeds (job_plan_approval demo_waiting)"
  "succeeds (job_participant_lifecycle demo_waiting)"
  "succeeds (job_worker_ownership demo_waiting)"
  "succeeds (job_terminal_state demo_reserved)"
  "succeeds (job_cleanup_state demo_reserved)"
  "succeeds (job_workflow_state demo_reserved)"
  "succeeds (job_review_state demo_reserved)"
  "succeeds (job_plan_approval demo_reserved)"
  "succeeds (job_participant_lifecycle demo_reserved)"
  "succeeds (job_worker_ownership demo_reserved)"
  "succeeds (job_terminal_state demo_handed)"
  "succeeds (job_cleanup_state demo_handed)"
  "succeeds (job_workflow_state demo_handed)"
  "succeeds (job_review_state demo_handed)"
  "succeeds (job_plan_approval demo_handed)"
  "succeeds (job_participant_lifecycle demo_handed)"
  "succeeds (job_worker_ownership demo_handed)"
proof -
  have w: "succeeds (job_worker_ownership (j\<lparr>aj_worker := worker_ownership_fields (Some x)\<rparr>))"
    if "worker_ok (Some x)" for j :: agent_job and x
    using that by (simp add: job_worker_ownership_def succeeds_def worker_store.load_flatten
        del: worker_ownership_fields.simps)
  show "succeeds (job_terminal_state demo_waiting)"
    "succeeds (job_cleanup_state demo_waiting)"
    "succeeds (job_workflow_state demo_waiting)"
    "succeeds (job_review_state demo_waiting)"
    "succeeds (job_plan_approval demo_waiting)"
    "succeeds (job_participant_lifecycle demo_waiting)"
    "succeeds (job_worker_ownership demo_waiting)"
    "succeeds (job_terminal_state demo_reserved)"
    "succeeds (job_cleanup_state demo_reserved)"
    "succeeds (job_workflow_state demo_reserved)"
    "succeeds (job_review_state demo_reserved)"
    "succeeds (job_plan_approval demo_reserved)"
    "succeeds (job_participant_lifecycle demo_reserved)"
    "succeeds (job_worker_ownership demo_reserved)"
    "succeeds (job_terminal_state demo_handed)"
    "succeeds (job_cleanup_state demo_handed)"
    "succeeds (job_workflow_state demo_handed)"
    "succeeds (job_review_state demo_handed)"
    "succeeds (job_plan_approval demo_handed)"
    "succeeds (job_participant_lifecycle demo_handed)"
    "succeeds (job_worker_ownership demo_handed)"
    by (simp_all add: demo_waiting_def demo_reserved_def demo_handed_def queued_readable w worker_ok_def
        child_def launcher_def del: worker_ownership_fields.simps)
qed

lemma handed_valid:
  "validate_invariants True (full_of demo_waiting) = Inr ()"
  "validate_invariants True (full_of demo_reserved) = Inr ()"
  "validate_invariants True (full_of demo_handed) = Inr ()"
proof -
  note defs = row_check_defs handed_defs demo_queued_def CURRENT_SCHEMA_VERSION_def Let_def
  show "validate_invariants True (full_of demo_waiting) = Inr ()"
    by (rule full_of_valid [OF handed_readable(1-7)]) (simp_all add: defs)
  show "validate_invariants True (full_of demo_reserved) = Inr ()"
    by (rule full_of_valid [OF handed_readable(8-14)]) (simp_all add: defs)
  show "validate_invariants True (full_of demo_handed) = Inr ()"
    by (rule full_of_valid [OF handed_readable(15-21)]) (simp_all add: defs)
qed

lemma handed_gates:
  "validate_transition (\<lambda>_. Inr ()) demo_waiting demo_reserved = Inr ()"
  "validate_transition (\<lambda>_. Inr ()) demo_reserved demo_handed = Inr ()"
  "case job_lifecycle_of demo_handed of Inl _ \<Rightarrow> False
   | Inr l \<Rightarrow> succeeds (validate_lifecycle_event demo_reserved demo_handed (WorkerCallbackEvent 4 l launcher))
       \<and> succeeds (validate_transition (\<lambda>_. Inr ()) demo_reserved
           (demo_handed\<lparr>aj_lifecycle_event := Some (WorkerCallbackEvent 4 l launcher)\<rparr>))"
  unfolding handed_defs demo_queued_def by code_simp+


definition reserved_record :: stored_job where
  "reserved_record = (stored_of demo_reserved)\<lparr>attempt_started_at := Some 2\<rparr>"

definition handed_record :: stored_job where
  "handed_record = (stored_of demo_handed)\<lparr>attempt_started_at := Some 2\<rparr>"

lemma waiting_sel [simp]:
  "aj_id demo_waiting = ''0123456789ab''" "aj_revision demo_waiting = 3" "aj_status demo_waiting = JsQueued"
  "aj_loaded_schema_version demo_waiting = CURRENT_SCHEMA_VERSION" "aj_lifecycle_event demo_waiting = None"
  "aj_parent_job_id demo_waiting = None" "aj_issue_provider demo_waiting = None"
  "aj_voice_question demo_waiting = None" "aj_worker demo_waiting = aj_worker demo_queued"
  "aj_cleanup demo_waiting = aj_cleanup demo_queued" "aj_prompt demo_waiting = aj_prompt demo_queued"
  "aj_checkout demo_waiting = aj_checkout demo_queued" "aj_session demo_waiting = aj_session demo_queued"
  "aj_session_fallback demo_waiting = aj_session_fallback demo_queued"
  "aj_prompt_typed demo_waiting = Some IdlePrompt" "aj_checkout_typed demo_waiting = None"
  "aj_session_typed demo_waiting = None" "aj_participant demo_waiting = aj_participant demo_queued"
  "aj_herdr_target demo_waiting = None" "aj_session_owners demo_waiting = []"
  by (simp_all add: demo_waiting_def) (simp_all add: demo_queued_def CURRENT_SCHEMA_VERSION_def)

lemma reserved_sel [simp]:
  "full_part reserved_record = full_of demo_reserved" "agent_part reserved_record = demo_reserved"
  "aj_worker reserved_record = worker_ownership_fields (Some launcher)"
  "aj_status reserved_record = JsQueued" "aj_revision reserved_record = 4"
  "full_part handed_record = full_of demo_handed" "agent_part handed_record = demo_handed"
  "aj_worker handed_record = worker_ownership_fields (Some child)"
  "aj_lifecycle_event reserved_record = None" "aj_lifecycle_event handed_record = None"
  "aj_loaded_schema_version handed_record = CURRENT_SCHEMA_VERSION"
  "aj_loaded_schema_version reserved_record = CURRENT_SCHEMA_VERSION"
  "aj_cleanup reserved_record = aj_cleanup demo_queued" "aj_cleanup handed_record = aj_cleanup demo_queued"
  "aj_id reserved_record = ''0123456789ab''" "aj_id handed_record = ''0123456789ab''"
  "job_delivery reserved_record = demo_delivery" "job_delivery handed_record = demo_delivery"
  by (simp_all add: reserved_record_def handed_record_def demo_reserved_def demo_handed_def)
     (simp_all add: stored_of_defs stored_job.defs)

lemma queued_reads:
  "read_record (stored_of demo_waiting) = Inr (stored_of demo_waiting)"
  "read_record reserved_record = Inr reserved_record" "read_record handed_record = Inr handed_record"
proof -
  note checks = queued_typed check_identity_columns_def check_status_columns_def Let_def truthy_def
  have typed: "with_typed_operations (Some IdlePrompt) (stored_of demo_waiting) = stored_of demo_waiting"
    "with_typed_operations (Some IdlePrompt) reserved_record = reserved_record"
    "with_typed_operations (Some IdlePrompt) handed_record = handed_record"
    by (rule with_typed_same; simp add: queued_typed reserved_record_def handed_record_def demo_reserved_def
        demo_handed_def demo_delivery_def default_announcement_ack_def)+
  show "read_record (stored_of demo_waiting) = Inr (stored_of demo_waiting)"
    by (rule canonical_read [OF _ _ _ typed(1)]) (simp_all add: handed_valid checks)
  show "read_record reserved_record = Inr reserved_record"
    by (rule canonical_read [OF _ _ _ typed(2)])
       (simp_all add: handed_valid, simp_all add: checks reserved_record_def demo_reserved_def)
  show "read_record handed_record = Inr handed_record"
    by (rule canonical_read [OF _ _ _ typed(3)])
       (simp_all add: handed_valid, simp_all add: checks handed_record_def demo_handed_def)
qed

lemma queued_updates:
  "pair_worker_ownership ((set_worker (Some launcher) (stored_of demo_waiting))\<lparr>attempt_started_at := Some 2\<rparr>)
     \<lparr>aj_status := JsQueued, aj_revision := 4\<rparr> = reserved_record"
  "pair_worker_ownership (set_worker (Some child) reserved_record)
     \<lparr>aj_status := JsQueued, aj_revision := 5\<rparr> = handed_record"
proof -
  have pair: "pair_worker_ownership j = j" if "aj_worker j = worker_ownership_fields (Some w)" for j w
    using that by (simp add: pair_worker_ownership_def Let_def)
  show "pair_worker_ownership ((set_worker (Some launcher) (stored_of demo_waiting))\<lparr>attempt_started_at := Some 2\<rparr>)
     \<lparr>aj_status := JsQueued, aj_revision := 4\<rparr> = reserved_record"
    by (simp add: pair) (simp add: set_worker_def reserved_record_def demo_reserved_def demo_waiting_def
        demo_queued_def stored_of_defs stored_job.defs insert_commute)
  show "pair_worker_ownership (set_worker (Some child) reserved_record)
     \<lparr>aj_status := JsQueued, aj_revision := 5\<rparr> = handed_record"
    by (simp add: pair) (simp add: set_worker_def reserved_record_def handed_record_def demo_handed_def
        demo_reserved_def demo_waiting_def demo_queued_def stored_of_defs stored_job.defs insert_commute)
qed

lemma claims_sel [simp]:
  "wo_token launcher = ''t''" "wo_operation launcher = ''launch''" "wo_claimed_at launcher = 2"
  "wo_pid launcher = 7" "wo_pid child = 8" "wo_boot_id launcher = ''b''" "wo_boot_id child = ''b''"
  "wo_token child = ''t''" "wo_process_start child = ''r''" "wo_process_start launcher = ''s''"
  "wo_operation child = ''launch''" "wo_claimed_at child = 2" "job_worker_ownership demo_reserved = Inr (Some launcher)"
  by (simp_all add: job_worker_ownership_def demo_reserved_def worker_store.load_flatten worker_ok_def
      launcher_def child_def del: worker_ownership_fields.simps)

lemma demo_reserve:
  "reserve_command launcher (stored_of demo_waiting) = Inr (Some reserved_record)"
proof -
  have "validate_transition (\<lambda>_. validate_invariants True (full_of demo_reserved)) demo_waiting demo_reserved = Inr ()"
    using handed_gates(1) by (simp only: handed_valid)
  moreover have "\<not> otruthy (worker_token (aj_worker demo_queued))" "job_session_control (stored_of demo_waiting) = None"
    by (simp_all add: demo_queued_def stored_of_defs)
  ultimately show ?thesis
    by (simp add: reserve_command_def transition_job_def next_record_def queued_updates queued_reads)
qed

text \<open>The hand-over, with the event it carries.\<close>

lemma demo_hand_off:
  obtains l where
    "hand_off_command launcher 4 \<lparr>pi_pid = 8, pi_boot = ''b'', pi_start = ''r''\<rparr> reserved_record
     = Inr (Some (handed_record\<lparr>aj_lifecycle_event := Some (WorkerCallbackEvent 4 l launcher)\<rparr>))"
    "validate_transition (\<lambda>_. Inr ()) demo_reserved
       (demo_handed\<lparr>aj_lifecycle_event := Some (WorkerCallbackEvent 4 l launcher)\<rparr>) = Inr ()"
proof -
  from handed_gates(3) obtain l where l: "job_lifecycle_of demo_handed = Inr l"
    "validate_lifecycle_event demo_reserved demo_handed (WorkerCallbackEvent 4 l launcher) = Inr ()"
    "validate_transition (\<lambda>_. Inr ()) demo_reserved
       (demo_handed\<lparr>aj_lifecycle_event := Some (WorkerCallbackEvent 4 l launcher)\<rparr>) = Inr ()"
    by (auto simp: succeeds_iff split: sum.splits)
  have "validate_transition (\<lambda>_. validate_invariants True (full_of demo_handed)) demo_reserved demo_handed = Inr ()"
    using handed_gates(2) by (simp only: handed_valid)
  then have "transition_job JsQueued (set_worker (Some child)) reserved_record = Inr handed_record"
    by (simp add: transition_job_def next_record_def queued_updates queued_reads)
  moreover have "WorkerOwnership_init ''t'' 8 ''b'' ''r'' ''launch'' 2 = Inr child"
    by (simp add: WorkerOwnership_init_iff child_def launcher_def)
  ultimately show thesis using l
    by (intro that [of l]) (simp_all add: hand_off_command_def still_reserved_def ownership_matches_def
        worker_callback_transition_def Let_def)
qed

lemma queued_rows:
  "reservation_rows reserved_record = Inr []"
  "reservation_rows (handed_record\<lparr>aj_lifecycle_event := e\<rparr>) = Inr []"
proof -
  have q: "reservation_rows j = Inr []"
    if "aj_status j = JsQueued" "ticket_identity j = None" "grouped_repository_targets j = []"
      "reserved_targets (reserving_job.truncate j) = []" "worktree_path (aj_checkout j) = None" for j
  proof -
    have "job_reserves (reserving_job.truncate j) = Inr True"
      using that(1) by (simp add: job_reserves_def ACTIVE_STATUSES_def reserving_job.defs)
    then show ?thesis using that by (simp add: reservation_rows_def waits_for_repository_def grouped_ticket_identities_def)
  qed
  show "reservation_rows reserved_record = Inr []"
    by (rule q) (simp_all add: reserved_record_def ticket_identity_def reserved_targets_def stored_of_defs stored_job.defs demo_reserved_def demo_waiting_def demo_queued_def)
  show "reservation_rows (handed_record\<lparr>aj_lifecycle_event := e\<rparr>) = Inr []"
    by (rule q) (simp_all add: handed_record_def ticket_identity_def reserved_targets_def stored_of_defs stored_job.defs demo_handed_def demo_waiting_def demo_queued_def)
qed


section \<open>The launch\<close>

definition job_table :: "stored_job \<Rightarrow> job_store" where
  "job_table j = \<lparr>js_db = \<lparr>db_jobs = [aj_id j \<mapsto> job_row_of j], db_events = [], db_outbox = [], db_consumptions = []\<rparr>,
     js_ids = [aj_id j], js_reservations = [], js_claims = [], js_maintenance = None\<rparr>"

definition launch_example :: launch_env where
  "launch_example = \<lparr>le_token = ''t'', le_pid = 7, le_boot = Some ''b'', le_start = Some ''s'', le_reserved_at = 2,
     le_spawned = Inr 8, le_child_boot = Some ''b'', le_child_start = Some ''r'', le_retired = True,
     le_failed_at = 3, le_ids = numbered_ids, le_others = (\<lambda>_ s. s)\<rparr>"

lemma table_ok:
  "store_ok (job_table (stored_of demo_waiting))" "store_ok (job_table reserved_record)"
  by (simp_all add: store_ok_def job_table_def stored_row_ok_def job_row_of_def queued_reads)

lemma saved_queued:
  assumes "reservation_rows j = Inr []" and "js_reservations s = []" and "js_claims s = []"
    and "job_delivery j = demo_delivery" and "aj_worker j = worker_ownership_fields (Some w)" and "wo_pid w > 0"
  shows "save_job s j = Inr ([], [])"
  using assms by (simp add: save_job_def save_reservations_def save_delivery_claim_def demo_delivery_def
      check_worker_claim_def Let_def refuse_def)

lemma launcher_init: "WorkerOwnership_init ''t'' 7 ''b'' ''s'' ''launch'' 2 = Inr launcher"
  by (simp add: WorkerOwnership_init_iff launcher_def)

lemma not_legacy: "\<not> has_legacy_worker_claim (worker_ownership_fields (Some launcher))"
  "\<not> has_legacy_worker_claim (worker_ownership_fields (Some child))"
  by (simp_all add: has_legacy_worker_claim_def Let_def)

definition reserve_call :: update_call where
  "reserve_call = worker_call True ''0123456789ab'' (reserve_command launcher) (numbered_ids 0)"

definition hand_off_call :: update_call where
  "hand_off_call = worker_call True ''0123456789ab''
     (hand_off_command launcher 4 \<lparr>pi_pid = 8, pi_boot = ''b'', pi_start = ''r''\<rparr>) (numbered_ids 1)"

definition reserved_store :: job_store where
  "reserved_store = (job_table reserved_record)
     \<lparr>js_db := (js_db (job_table reserved_record))\<lparr>db_events := [update_event_row reserve_call 4]\<rparr>\<rparr>"

lemma reserve_committed:
  "store_transaction (\<lambda>j. j) (\<lambda>_ _. Inr ()) (job_table (stored_of demo_waiting)) reserve_call
   = Inr (reserved_store, Some reserved_record)"
proof -
  have n: "normalize_for_durable_write (\<lambda>j. j) reserved_record = Inr reserved_record"
    by (rule canonical_normalized) (simp_all add: queued_reads handed_valid not_legacy del: worker_ownership_fields.simps)
  have g: "validate_transition (\<lambda>_. validate_invariants True (full_of demo_reserved)) demo_waiting demo_reserved = Inr ()"
    using handed_gates(1) by (simp only: handed_valid)
  have v: "save_job (job_table (stored_of demo_waiting)) reserved_record = Inr ([], [])"
    by (rule saved_queued [of _ _ launcher]) (simp_all add: queued_rows job_table_def del: worker_ownership_fields.simps)
  show ?thesis
    using transaction_commits [OF _ queued_reads(1) _ _ _ n _ _ v, of reserve_call "\<lambda>_ _. Inr ()"] g
    by (simp add: reserve_call_def worker_call_def job_table_def unlogged_def maintenance_active_def load_command_event_def
        demo_reserve reserved_store_def)
qed

lemma invariants_ignore_event:
  "validate_invariants b (j\<lparr>aj_lifecycle_event := e\<rparr>) = validate_invariants b j"
proof -
  have base: "base_job (j\<lparr>aj_lifecycle_event := e\<rparr>) = (base_job j)\<lparr>aj_lifecycle_event := e\<rparr>"
    "reserving_job.truncate (j\<lparr>aj_lifecycle_event := e\<rparr>) = (reserving_job.truncate j)\<lparr>aj_lifecycle_event := e\<rparr>"
    by (simp_all add: agent_job.defs reserving_job.defs)
  have u: "has_uncertain_operation (k\<lparr>aj_lifecycle_event := e\<rparr>) = has_uncertain_operation k" for k
    by (simp add: has_uncertain_operation_def creation_state_text_def agent_job.defs)
  have d: "job_delivery_state (j\<lparr>aj_lifecycle_event := e\<rparr>) = job_delivery_state j"
    by (simp add: job_delivery_state_def)
  have "check_typed_states (j\<lparr>aj_lifecycle_event := e\<rparr>) = check_typed_states j"
    by (simp add: check_typed_states_def base d cong: if_cong)
  moreover have "check_clone (j\<lparr>aj_lifecycle_event := e\<rparr>) = check_clone j" "check_issue_and_pr_requests (j\<lparr>aj_lifecycle_event := e\<rparr>) = check_issue_and_pr_requests j"
    "check_pr_merge (j\<lparr>aj_lifecycle_event := e\<rparr>) = check_pr_merge j" "check_repo_create (j\<lparr>aj_lifecycle_event := e\<rparr>) = check_repo_create j"
    "check_issue_update (j\<lparr>aj_lifecycle_event := e\<rparr>) = check_issue_update j" "check_issue_close (j\<lparr>aj_lifecycle_event := e\<rparr>) = check_issue_close j"
    "check_issue_and_pr_create (j\<lparr>aj_lifecycle_event := e\<rparr>) = check_issue_and_pr_create j" "check_linear_create (j\<lparr>aj_lifecycle_event := e\<rparr>) = check_linear_create j"
    "check_linear_update (j\<lparr>aj_lifecycle_event := e\<rparr>) = check_linear_update j" "check_linear_close (j\<lparr>aj_lifecycle_event := e\<rparr>) = check_linear_close j"
    "check_ticket_split (j\<lparr>aj_lifecycle_event := e\<rparr>) = check_ticket_split j" "check_ticket_merge (j\<lparr>aj_lifecycle_event := e\<rparr>) = check_ticket_merge j"
    "check_issue_provider (j\<lparr>aj_lifecycle_event := e\<rparr>) = check_issue_provider j" "check_workflow_row (j\<lparr>aj_lifecycle_event := e\<rparr>) = check_workflow_row j"
    "check_review_row (j\<lparr>aj_lifecycle_event := e\<rparr>) = check_review_row j" "check_approval_proof (j\<lparr>aj_lifecycle_event := e\<rparr>) = check_approval_proof j"
    "check_approval_phase (j\<lparr>aj_lifecycle_event := e\<rparr>) = check_approval_phase j" "check_planned_work (j\<lparr>aj_lifecycle_event := e\<rparr>) = check_planned_work j"
    "check_prompt_row (j\<lparr>aj_lifecycle_event := e\<rparr>) = check_prompt_row j" "check_creation_row (j\<lparr>aj_lifecycle_event := e\<rparr>) = check_creation_row j"
    "check_intent_row (j\<lparr>aj_lifecycle_event := e\<rparr>) = check_intent_row j" "check_operation_rows (j\<lparr>aj_lifecycle_event := e\<rparr>) = check_operation_rows j"
    "check_manual (j\<lparr>aj_lifecycle_event := e\<rparr>) = check_manual j" "check_release_row (j\<lparr>aj_lifecycle_event := e\<rparr>) = check_release_row j"
    "check_delivery (j\<lparr>aj_lifecycle_event := e\<rparr>) = check_delivery j" "check_worker b (j\<lparr>aj_lifecycle_event := e\<rparr>) = check_worker b j"
    "check_operations_readable b (j\<lparr>aj_lifecycle_event := e\<rparr>) = check_operations_readable b j"
    by (simp_all add: check_clone_def check_issue_and_pr_requests_def check_pr_merge_def check_repo_create_def check_issue_update_def check_issue_close_def check_issue_and_pr_create_def check_linear_create_def check_linear_update_def check_linear_close_def check_ticket_split_def check_ticket_merge_def check_issue_provider_def check_workflow_row_def check_review_row_def check_approval_proof_def check_approval_phase_def check_planned_work_def check_prompt_row_def check_creation_row_def check_intent_row_def check_operation_rows_def check_manual_def check_release_row_def check_delivery_def check_worker_def check_operations_readable_def
      base u approval_proof_given_def approval_text_def planned_work_def worker_claim_given_def creation_state_text_def
      manual_states_def prompt_state_text_def participant_target_def job_session_control_state_def
      job_review_approved_def Let_def cong: workflow_participant.case_cong if_cong option.case_cong)
  ultimately show ?thesis by (simp only: validate_invariants_def)
qed

lemma hand_off_committed:
  "\<exists>t c. store_transaction (\<lambda>j. j) (\<lambda>_ _. Inr ()) reserved_store hand_off_call = Inr (t, Some c)
     \<and> held_by child ''0123456789ab'' t"
proof -
  obtain l where l:
    "hand_off_command launcher 4 \<lparr>pi_pid = 8, pi_boot = ''b'', pi_start = ''r''\<rparr> reserved_record
     = Inr (Some (handed_record\<lparr>aj_lifecycle_event := Some (WorkerCallbackEvent 4 l launcher)\<rparr>))"
    "validate_transition (\<lambda>_. Inr ()) demo_reserved
       (demo_handed\<lparr>aj_lifecycle_event := Some (WorkerCallbackEvent 4 l launcher)\<rparr>) = Inr ()"
    by (rule demo_hand_off)
  define h where "h = handed_record\<lparr>aj_lifecycle_event := Some (WorkerCallbackEvent 4 l launcher)\<rparr>"
  have hs: "h\<lparr>aj_lifecycle_event := None\<rparr> = handed_record"
    using reserved_sel(10) by (simp add: h_def)
  have read: "read_record h = Inr handed_record" by (simp add: h_def queued_reads)
  have n: "normalize_for_durable_write (\<lambda>j. j) h = Inr h"
    by (rule canonical_normalized; (unfold hs)?)
       (simp_all add: h_def queued_reads handed_valid not_legacy del: worker_ownership_fields.simps)
  have p: "full_part h = (full_of demo_handed)\<lparr>aj_lifecycle_event := Some (WorkerCallbackEvent 4 l launcher)\<rparr>"
    "agent_part h = demo_handed\<lparr>aj_lifecycle_event := Some (WorkerCallbackEvent 4 l launcher)\<rparr>"
    by (simp_all add: h_def) (simp add: handed_record_def stored_of_defs stored_job.defs)
  have g: "validate_transition (\<lambda>_. validate_invariants True (full_part h)) demo_reserved (agent_part h) = Inr ()"
    using l(2) by (simp only: p invariants_ignore_event handed_valid)
  have v: "save_job reserved_store h = Inr ([], [])"
    by (rule saved_queued [of _ _ child]) (simp_all add: queued_rows job_table_def reserved_store_def h_def del: worker_ownership_fields.simps)
  have c: "store_transaction (\<lambda>j. j) (\<lambda>_ _. Inr ()) reserved_store hand_off_call
      = Inr (reserved_store\<lparr>js_db := (js_db reserved_store)\<lparr>db_events := db_events (js_db reserved_store)
              @ [update_event_row hand_off_call (aj_revision h)],
             db_jobs := (db_jobs (js_db reserved_store))(sc_job_id hand_off_call \<mapsto> job_row_of h)\<rparr>,
           js_reservations := [], js_claims := []\<rparr>, Some h)"
    using l(1) [folded h_def] g
    by (intro transaction_commits [OF _ queued_reads(2) _ _ _ n _ _ v])
       (simp_all add: hand_off_call_def worker_call_def reserved_store_def job_table_def unlogged_def maintenance_active_def
          load_command_event_def update_event_row_def reserve_call_def numbered_ids_def)
  have "owner_of h = Inr (Some child)"
    by (rule owner_of_fields) (simp_all add: worker_ok_def h_def)
  with c show ?thesis by (simp add: held_by_def job_row_of_def hand_off_call_def worker_call_def)
qed

lemma demo_launch:
  "\<exists>t. launch_worker (store_transaction (\<lambda>j. j) (\<lambda>_ _. Inr ())) (prepare_launch_failure redact) launch_example ''0123456789ab''
     (job_table (stored_of demo_waiting)) = (t, Inr ()) \<and> held_by child ''0123456789ab'' t"
proof -
  obtain t c where h: "store_transaction (\<lambda>j. j) (\<lambda>_ _. Inr ()) reserved_store hand_off_call = Inr (t, Some c)"
    "held_by child ''0123456789ab'' t" using hand_off_committed by blast
  have "launch_worker (store_transaction (\<lambda>j. j) (\<lambda>_ _. Inr ())) (prepare_launch_failure redact) launch_example ''0123456789ab''
     (job_table (stored_of demo_waiting)) = (t, Inr ())"
    using h(1) reserve_committed
    by (simp add: launch_worker_def launch_example_def launcher_init launch_update_def reserve_call_def
        hand_off_call_def hand_over_def Let_def truthy_def)
  with h(2) show ?thesis by blast
qed

section \<open>The promises\<close>


definition demo_requests :: "worker_step list" where
  "demo_requests =
     [(''0123456789ab'', ReserveRequest (launcher\<lparr>wo_token := ''o''\<rparr>), numbered_ids 3),
      (''0123456789ab'', BeginRequest False None ''n'' \<lparr>pi_pid = 9, pi_boot = ''b'', pi_start = ''q''\<rparr> 5, numbered_ids 4),
      (''0123456789ab'', ClearRequest child, numbered_ids 5)]"

lemma claim_shuts_out_other_processes_witness:
  "db_jobs (js_db (run_store (\<lambda>j. j) (\<lambda>_ _. Inr ()) (job_table reserved_record)
     (map (step_call (\<lambda>j m x. Inr j)) demo_requests))) ''0123456789ab'' = Some (job_row_of reserved_record)"
  by (rule claim_shuts_out_other_processes [OF table_ok(2), of _ _ launcher])
     (simp_all add: job_table_def job_row_of_def demo_requests_def child_def launcher_def)

lemma at_most_one_worker_begins_witness:
  "begin_count (\<lambda>j. j) (\<lambda>_ _. Inr ()) (\<lambda>j m x. Inr j) ''0123456789ab'' (job_table (stored_of demo_waiting)) demo_requests
   \<le> 1"
  by (rule at_most_one_worker_begins [OF table_ok(1)])
     (simp_all add: job_table_def demo_requests_def unused_def load_command_event_def numbered_ids_def
        launcher_def child_def numeral_eq_Suc)

end
