(* ===== verification/Store_Op_Examples.thy ===== *)
theory Store_Op_Examples imports Store_Guarantees Worker_Examples begin

text \<open>
  Store operations evaluated: a waiting job is admitted, and all jobs of a store are deleted under
  the maintenance lease.
\<close>

section \<open>Two stores\<close>

definition demo_checks :: store_checks where
  "demo_checks = \<lparr>ck_legacy = (\<lambda>j. j), ck_artifacts = (\<lambda>_ _. Inr ()), ck_quarantine = (\<lambda>_ _. Inr ()),
     ck_quarantine_rows = (\<lambda>_ _. Inr ()), ck_unresolved = [], ck_legacy_records = False, ck_resolve = Some\<rparr>"

definition deletion_lease :: maintenance_lease where
  "deletion_lease = \<lparr>ml_token = ''m'', ml_started_at = 1, ml_owner_pid = 9, ml_owner_boot_id = ''b'',
     ml_owner_process_start = ''s''\<rparr>"

definition waiting_store :: job_store where
  "waiting_store = job_table (stored_of demo_waiting)"

lemma waiting_rows: "reservation_rows (stored_of demo_waiting) = Inr []"
proof -
  have "job_reserves (reserving_job.truncate (stored_of demo_waiting)) = Inr True"
    by (simp add: job_reserves_def ACTIVE_STATUSES_def full_of_reserving)
  then show ?thesis
    by (simp add: reservation_rows_def waits_for_repository_def grouped_ticket_identities_def)
       (simp add: ticket_identity_def reserved_targets_def stored_of_defs stored_job.defs demo_waiting_def demo_queued_def)
qed

lemma demo_store_wf: "store_wf demo_store"
  using demo_store_ok demo_tables_exact by (simp add: store_wf_def ids_exact_def demo_store_def)

lemma waiting_store_wf: "store_wf waiting_store"
proof -
  have "tables_exact waiting_store"
    by (auto simp: tables_exact_def waiting_store_def job_table_def reserved_by_def claimed_by_def
        job_row_of_def demo_delivery_def waiting_rows)
  then show ?thesis
    using table_ok(1) by (simp add: store_wf_def ids_exact_def waiting_store_def) (simp add: job_table_def)
qed

lemma rows_at:
  "row_at demo_store ''0123456789ab'' = stored_of demo_settled"
  "row_at waiting_store ''0123456789ab'' = stored_of demo_waiting"
  "js_ids demo_store = [''0123456789ab'']" "js_ids waiting_store = [''0123456789ab'']"
  by (simp_all add: row_at_def demo_store_def waiting_store_def job_table_def job_row_of_def)

lemma store_stays_well_formed_witness:
  "store_wf (run_ops demo_checks waiting_store [Claim 1, Prune 9 2])"
  using store_stays_well_formed [OF waiting_store_wf] by blast

section \<open>Deleting all jobs\<close>

lemma settled_deletable: "deletion_reasons (stored_of demo_settled) = []"
proof -
  have "\<not> has_uncertain_operation (reserving_job.truncate (full_of demo_settled))"
    by (simp add: has_uncertain_operation_def full_of_reserving)
       (simp add: demo_queued_def creation_state_text_def one_of_def demo_settled_def demo_cancelled_def
         demo_routing_def)
  moreover have "rj_manual_reconcile_operation (stored_of demo_settled) = None"
    "\<not> rj_manual_inspection_required (stored_of demo_settled)"
    "rj_pull_request_worktree_state (stored_of demo_settled) = None"
    by (simp_all add: stored_of_defs)
  ultimately show ?thesis
    by (simp add: deletion_reasons_def must_retain_def ACTIVE_STATUSES_def Let_def)
       (simp add: demo_queued_def)
qed

definition fenced_store :: job_store where
  "fenced_store = demo_store\<lparr>js_maintenance := Some deletion_lease\<rparr>"

definition deletion_ops :: "store_op list" where
  "deletion_ops = [Begin deletion_lease (\<lambda>_. Inr None) (\<lambda>_. None), Finalize ''m'']"

lemma demo_begin: "op_try demo_checks demo_store (Begin deletion_lease (\<lambda>_. Inr None) (\<lambda>_. None)) = fenced_store"
proof -
  have "js_maintenance demo_store = None" by (simp add: demo_store_def)
  then show ?thesis
    by (simp add: op_try_def begin_maintenance_def store_jobs_rows [OF demo_store_wf] rows_at demo_checks_def
        deletion_lease_def fenced_store_def)
qed

lemma fenced_store_wf: "store_wf fenced_store"
  using op_try_wf [OF demo_store_wf, of demo_checks "Begin deletion_lease (\<lambda>_. Inr None) (\<lambda>_. None)"]
  by (simp only: demo_begin)

lemma demo_finalize: "js_ids (op_try demo_checks fenced_store (Finalize ''m'')) = []"
proof -
  have "store_jobs fenced_store = Inr [stored_of demo_settled]"
    using store_jobs_rows [OF fenced_store_wf] by (simp add: fenced_store_def rows_at row_at_def) (simp add: rows_at row_at_def [symmetric])
  then show ?thesis
    by (simp add: op_try_def finalize_maintenance_def fenced_store_def deletion_lease_def demo_checks_def
        settled_deletable Let_def) (simp add: delete_stored_job_def delete_job_def rows_at Let_def)
qed

lemma only_settled_jobs_are_deleted_witness:
  "\<exists>before op after. deletion_ops = before @ op # after
    \<and> ''0123456789ab'' \<in> set (js_ids (run_ops demo_checks demo_store before))
    \<and> deletion_ground op (run_ops demo_checks demo_store before)
        (row_at (run_ops demo_checks demo_store before) ''0123456789ab'')
    \<and> aj_status (row_at (run_ops demo_checks demo_store before) ''0123456789ab'') \<in> TERMINAL_STATUSES
    \<and> \<not> must_retain (calm (row_at (run_ops demo_checks demo_store before) ''0123456789ab''))"
  by (rule only_settled_jobs_are_deleted [OF demo_store_wf])
     (simp_all add: rows_at deletion_ops_def demo_begin demo_finalize)

text \<open>While the lease is held, a second deletion, a pruning and a new job are in vain.\<close>

lemma deletion_lease_freezes_the_jobs_witness:
  "js_ids (run_ops demo_checks fenced_store
     [Begin (deletion_lease\<lparr>ml_token := ''n''\<rparr>) (\<lambda>_. Inr None) (\<lambda>_. Some True), Finalize ''n'', Prune 100 1,
      Create False (ci_ids example_ids) (stored_of demo_waiting)]) = [''0123456789ab'']"
proof -
  let ?ops = "[Begin (deletion_lease\<lparr>ml_token := ''n''\<rparr>) (\<lambda>_. Inr None) (\<lambda>_. Some True), Finalize ''n'', Prune 100 1,
      Create False (ci_ids example_ids) (stored_of demo_waiting)]"
  have lease: "js_maintenance fenced_store = Some deletion_lease" and ids: "js_ids fenced_store = [''0123456789ab'']"
    by (simp_all add: fenced_store_def rows_at)
  have "list_all (respects_lease deletion_lease) ?ops" by (simp add: respects_lease_def deletion_lease_def)
  from deletion_lease_freezes_the_jobs [OF fenced_store_wf lease this] ids show ?thesis by simp
qed

section \<open>Admitting a job\<close>

definition demo_holding :: agent_job where
  "demo_holding = demo_waiting\<lparr>aj_revision := 4, aj_participant := (aj_participant demo_queued)
     \<lparr>participant_admission_state := Some ''held'', participant_creation_state := Some ''none''\<rparr>\<rparr>"

definition admitted_record :: stored_job where
  "admitted_record = stored_of demo_holding"

lemma admitted_readable:
  "succeeds (job_terminal_state demo_holding)" "succeeds (job_cleanup_state demo_holding)"
  "succeeds (job_workflow_state demo_holding)" "succeeds (job_review_state demo_holding)"
  "succeeds (job_plan_approval demo_holding)" "succeeds (job_participant_lifecycle demo_holding)"
  "succeeds (job_worker_ownership demo_holding)"
  "case job_participant_lifecycle demo_waiting of Inl _ \<Rightarrow> False
   | Inr l \<Rightarrow> l = \<lparr>pl_admission = AdmWaiting, pl_creation = no_creation\<rparr>"
  "validate_transition (\<lambda>_. Inr ()) demo_waiting demo_holding = Inr ()"
  unfolding demo_holding_def demo_waiting_def demo_queued_def by code_simp+

lemma admitted_valid: "validate_invariants True (full_of demo_holding) = Inr ()"
  by (rule full_of_valid [OF admitted_readable(1-7)])
     (simp_all add: row_check_defs demo_holding_def demo_waiting_def demo_queued_def CURRENT_SCHEMA_VERSION_def Let_def)

lemma admitted_sel [simp]:
  "aj_id demo_holding = ''0123456789ab''" "aj_revision demo_holding = 4" "aj_status demo_holding = JsQueued"
  "aj_loaded_schema_version demo_holding = CURRENT_SCHEMA_VERSION" "aj_lifecycle_event demo_holding = None"
  "aj_parent_job_id demo_holding = None" "aj_issue_provider demo_holding = None"
  "aj_voice_question demo_holding = None" "aj_worker demo_holding = aj_worker demo_queued"
  "aj_prompt demo_holding = aj_prompt demo_queued" "aj_checkout demo_holding = aj_checkout demo_queued"
  "aj_session demo_holding = aj_session demo_queued"
  "aj_session_fallback demo_holding = aj_session_fallback demo_queued"
  "aj_prompt_typed demo_holding = Some IdlePrompt" "aj_checkout_typed demo_holding = None"
  "aj_session_typed demo_holding = None"
  by (simp_all add: demo_holding_def)

lemma admitted_read: "read_record admitted_record = Inr admitted_record"
  unfolding admitted_record_def
proof (rule canonical_read)
  show "with_typed_operations (Some IdlePrompt) (stored_of demo_holding) = stored_of demo_holding"
    by (rule with_typed_same) (simp_all add: queued_typed demo_delivery_def default_announcement_ack_def)
qed (simp_all add: admitted_valid queued_typed check_identity_columns_def check_status_columns_def Let_def truthy_def)

definition held_lifecycle :: participant_lifecycle where
  "held_lifecycle = \<lparr>pl_admission = AdmHeld, pl_creation = no_creation\<rparr>"

lemma demo_evolve: "evolve_participant held_lifecycle (stored_of demo_waiting) = Inr admitted_record"
proof -
  have v: "pair_worker_ownership (pair_announcement_ack (set_participant held_lifecycle (stored_of demo_waiting)))
      \<lparr>aj_status := JsQueued, aj_revision := 4\<rparr> = admitted_record"
    by (simp add: pair_worker_ownership_def pair_announcement_ack_def set_participant_def Let_def demo_delivery_def)
       (simp add: admitted_record_def demo_holding_def held_lifecycle_def no_creation_def
          demo_waiting_def demo_queued_def stored_of_defs stored_job.defs demo_delivery_def)
  have k: "rj_manual_reconcile_operation (pair_worker_ownership (pair_announcement_ack
      (set_participant held_lifecycle (stored_of demo_waiting)))) = None"
    by (simp add: pair_worker_ownership_def pair_announcement_ack_def set_participant_def Let_def demo_delivery_def)
       (simp add: stored_of_defs)
  have "validate_transition (\<lambda>_. validate_invariants True (full_of demo_holding)) demo_waiting demo_holding = Inr ()"
    using admitted_readable(9) by (simp only: admitted_valid)
  then have "next_record (stored_of demo_waiting) (pair_worker_ownership (pair_announcement_ack
      (set_participant held_lifecycle (stored_of demo_waiting)))\<lparr>aj_status := JsQueued\<rparr>) = Inr admitted_record"
    by (simp add: next_record_def v admitted_read) (simp add: admitted_record_def)
  then show ?thesis by (simp add: evolve_participant_def evolve_job_def k)
qed

lemma demo_waits:
  "admission_state_text demo_waiting = ''waiting''" "held_ids waiting_store = []"
  "waiting_jobs waiting_store = [stored_of demo_waiting]"
proof -
  show w: "admission_state_text demo_waiting = ''waiting''"
    by (simp add: admission_state_text_def) (simp add: demo_queued_def truthy_def)
  show "held_ids waiting_store = []" "waiting_jobs waiting_store = [stored_of demo_waiting]"
    by (simp_all add: held_ids_def waiting_jobs_def rows_at w)
qed

lemma admission_evaluated: "\<exists>t. claim_participant_capacity 1 waiting_store = Inr (t, [admitted_record])"
proof -
  have rows: "reservation_rows admitted_record = Inr []"
  proof -
    have "job_reserves (reserving_job.truncate admitted_record) = Inr True"
      by (simp add: admitted_record_def job_reserves_def ACTIVE_STATUSES_def full_of_reserving)
    then show ?thesis
      by (simp add: admitted_record_def reservation_rows_def waits_for_repository_def grouped_ticket_identities_def)
         (simp add: ticket_identity_def reserved_targets_def stored_of_defs stored_job.defs demo_holding_def
            demo_waiting_def demo_queued_def)
  qed
  have "job_participant_lifecycle demo_waiting = Inr \<lparr>pl_admission = AdmWaiting, pl_creation = no_creation\<rparr>"
    using admitted_readable(8) by (auto split: sum.splits)
  moreover have "save_job waiting_store admitted_record = Inr ([], [])"
    by (simp add: save_job_def rows) (simp add: waiting_store_def job_table_def save_reservations_def
        save_delivery_claim_def admitted_record_def demo_delivery_def check_worker_claim_def demo_queued_def
        Let_def refuse_def)
  moreover have "job_participant_lifecycle (agent_part (stored_of demo_waiting)) = job_participant_lifecycle demo_waiting"
    by simp
  ultimately have "\<exists>t. admit_jobs waiting_store [stored_of demo_waiting] = Inr (t, [admitted_record])"
    using demo_evolve by (simp add: admit_participant_def held_lifecycle_def write_job_def)
  moreover have "claim_participant_capacity 1 waiting_store = admit_jobs waiting_store [stored_of demo_waiting]"
    by (simp add: claim_participant_capacity_def store_jobs_rows [OF waiting_store_wf] rows_at demo_waits(1))
  ultimately show ?thesis by simp
qed

lemma capacity_goes_to_the_oldest_unlogged_witness:
  "admitted (stored_of demo_waiting) admitted_record"
proof -
  from admission_evaluated obtain t where "claim_participant_capacity 1 waiting_store = Inr (t, [admitted_record])" by blast
  from capacity_goes_to_the_oldest_unlogged [OF waiting_store_wf this] demo_waits show ?thesis
    by (simp add: free_capacity_def)
qed

lemma capacity_is_never_exceeded_witness:
  "int (length (held_ids (run_ops demo_checks waiting_store [Claim 1, Prune 9 2, Claim 1]))) \<le> 1"
  by (rule capacity_is_never_exceeded [OF waiting_store_wf])
     (simp_all add: demo_waits within_capacity_def)

end
