(* ===== verification/Inbox.thy ===== *)
theory Inbox imports Job_Record begin

text \<open>
  \<open>cursor/inbox.py\<close>: the spoken view of a list of jobs (labels, categories, the overview) and the
  resolution of a spoken reference to a job, with \<open>_resolve_reference\<close> of \<open>cursor/service.py\<close> that
  falls back on the context. A set of words is a list; only membership is asked of it.
\<close>

section \<open>Text\<close>

definition inbox_normalize :: "string \<Rightarrow> string" where
  "inbox_normalize s = strip (squeeze_spaces False s)"

text \<open>\<open>str.split()\<close>, \<open>re.findall\<close> of the runs of letters and digits, and \<open>split("/")[-1]\<close>.\<close>

definition runs_of :: "(char \<Rightarrow> bool) \<Rightarrow> string \<Rightarrow> string list" where
  "runs_of p s = (let (run, runs) =
       foldr (\<lambda>c (run, runs). if p c then (c # run, runs)
                else ([], if run = [] then runs else run # runs)) s ([], [])
     in if run = [] then runs else run # runs)"

definition split_words :: "string \<Rightarrow> string list" where
  "split_words s = runs_of (\<lambda>c. \<not> py_space c) s"

definition token_char :: "char \<Rightarrow> bool" where
  "token_char c \<longleftrightarrow> (let n = of_char c :: nat in (48 \<le> n \<and> n \<le> 57) \<or> (97 \<le> n \<and> n \<le> 122))"

definition tokens :: "string \<Rightarrow> string list" where
  "tokens s = runs_of token_char (casefold s)"

definition last_segment :: "string \<Rightarrow> string" where
  "last_segment s = rev (takeWhile (\<lambda>c. c \<noteq> CHR ''/'') (rev s))"

definition strip_slashes :: "string \<Rightarrow> string" where
  "strip_slashes s = rev (dropWhile (\<lambda>c. c = CHR ''/'') (rev (dropWhile (\<lambda>c. c = CHR ''/'') s)))"

definition SHORT_ID_LENGTH :: nat where "SHORT_ID_LENGTH = 4"
definition MAX_LABEL_WORDS :: nat where "MAX_LABEL_WORDS = 6"
definition MAX_GROUP_ITEMS :: nat where "MAX_GROUP_ITEMS = 4"

definition STOPWORDS :: "string list" where
  "STOPWORDS =
     [''a'', ''an'', ''and'', ''cancel'', ''cursor'', ''dismiss'', ''for'', ''it'', ''job'', ''jobs'',
      ''me'', ''my'', ''of'', ''on'', ''one'', ''please'', ''repeat'', ''status'', ''task'', ''that'',
      ''the'', ''this'', ''to'', ''work'']"

section \<open>Labels and summaries\<close>

record inbox_job = agent_job +
  ij_speakable_label :: "string option"
  ij_issue_key :: "string option"
  ij_github_repository :: "string option"
  ij_github_issue :: "int option"
  ij_github_pull_request :: "int option"

definition int_truthy :: "int option \<Rightarrow> bool" where
  "int_truthy i \<longleftrightarrow> (case i of None \<Rightarrow> False | Some n \<Rightarrow> n \<noteq> 0)"

definition build_speakable_label ::
  "string \<Rightarrow> string option \<Rightarrow> string option \<Rightarrow> int option \<Rightarrow> int option \<Rightarrow> string" where
  "build_speakable_label request issue_key repository issue pull_request =
     (let repository = strip (last_segment (or_str repository ''''));
          base = (if otruthy issue_key then strip (the issue_key)
                  else if int_truthy issue then ''issue '' @ show_int (the issue)
                  else if int_truthy pull_request then ''pull request '' @ show_int (the pull_request)
                  else '''');
          base = (if truthy base then base
                  else join_space (take MAX_LABEL_WORDS (split_words (inbox_normalize request))));
          label = (if truthy repository \<and> \<not> is_part (casefold repository) (casefold base)
                   then strip (repository @ '' '' @ base) else base);
          label = inbox_normalize label
      in if truthy label then label else ''untitled job'')"

definition speakable_label_for :: "inbox_job \<Rightarrow> string" where
  "speakable_label_for j =
     (if otruthy (ij_speakable_label j) then the (ij_speakable_label j)
      else build_speakable_label (aj_request j) (ij_issue_key j) (ij_github_repository j)
             (ij_github_issue j) (ij_github_pull_request j))"

definition short_id :: "inbox_job \<Rightarrow> string" where
  "short_id j = take SHORT_ID_LENGTH (aj_id j)"

definition category :: "inbox_job \<Rightarrow> string" where
  "category j =
     (if aj_status j = JsAwaitingUser then ''awaiting_user''
      else if aj_status j = JsBlocked then ''blocked''
      else if aj_status j \<in> ACTIVE_STATUSES then ''active''
      else job_state_value (aj_status j))"

record job_summary =
  js_id :: string
  js_short_id :: string
  js_label :: string
  js_status :: job_state
  js_category :: string
  js_detail :: string

definition spoken :: "job_summary \<Rightarrow> bool \<Rightarrow> string" where
  "spoken s disambiguator =
     (if disambiguator then js_label s @ '' ('' @ js_short_id s @ '')'' else js_label s)"

definition underscores_to_spaces :: "string \<Rightarrow> string" where
  "underscores_to_spaces s = map (\<lambda>c. if c = CHR ''_'' then CHR '' '' else c) s"

definition job_detail :: "inbox_job \<Rightarrow> string" where
  "job_detail j =
     (if aj_status j = JsAwaitingUser
      then inbox_normalize (or_str (aj_question j) (or_str (aj_result j) ''''))
      else if aj_status j = JsBlocked then ''Manual attention required in Herdr''
      else if aj_status j = JsFailed then ''''
      else if aj_status j \<in> {JsCompleted, JsCancelled} then inbox_normalize (or_str (aj_result j) '''')
      else let tier = (case workflow_tier (aj_workflow j) of
                         None \<Rightarrow> '''' | Some t \<Rightarrow> workflow_tier_value t @ '' '')
           in underscores_to_spaces (tier @ workflow_phase_value (workflow_phase (aj_workflow j))))"

definition summarize :: "inbox_job \<Rightarrow> job_summary" where
  "summarize j =
     \<lparr>js_id = aj_id j, js_short_id = short_id j, js_label = speakable_label_for j,
      js_status = aj_status j, js_category = category j, js_detail = job_detail j\<rparr>"

section \<open>The overview\<close>

definition join_and :: "string list \<Rightarrow> string" where
  "join_and items =
     (case items of
        [] \<Rightarrow> ''''
      | [x] \<Rightarrow> x
      | [x, y] \<Rightarrow> x @ '' and '' @ y
      | _ \<Rightarrow> join_comma (butlast items) @ '', and '' @ last items)"

definition group_phrase :: "string \<Rightarrow> job_summary list \<Rightarrow> string option" where
  "group_phrase label summaries =
     (if summaries = [] then None
      else let shown = take MAX_GROUP_ITEMS summaries;
               remainder = length summaries - length shown;
               names = map js_label shown
                 @ (if remainder > 0 then [show_int (int remainder) @ '' more''] else [])
           in Some (label @ '': '' @ join_and names))"

definition inbox_groups :: "(string \<times> string) list" where
  "inbox_groups =
     [(''waiting for you'', ''awaiting_user''), (''in progress'', ''active''), (''blocked'', ''blocked''),
      (''recently finished'', ''completed''), (''failed'', ''failed''), (''cancelled'', ''cancelled'')]"

text \<open>\<open>grouped.get(key, [])\<close>: the summaries of the category, in order.\<close>

definition group_of :: "job_summary list \<Rightarrow> string \<Rightarrow> job_summary list" where
  "group_of summaries key = filter (\<lambda>s. js_category s = key) summaries"

fun join_sentences :: "string list \<Rightarrow> string" where
  "join_sentences [] = []"
| "join_sentences [x] = x"
| "join_sentences (x # xs) = x @ ''. '' @ join_sentences xs"

definition describe_inbox :: "inbox_job list \<Rightarrow> string" where
  "describe_inbox jobs =
     (if jobs = [] then ''You have no Cursor jobs.''
      else let summaries = map summarize jobs;
               phrases = List.map_filter
                 (\<lambda>(label, key). group_phrase label (group_of summaries key)) inbox_groups;
               noun = (if length jobs = 1 then ''job'' else ''jobs'')
           in ''You have '' @ show_int (int (length jobs)) @ '' Cursor '' @ noun @ ''. ''
              @ join_sentences phrases @ ''.'')"

section \<open>References\<close>

datatype reference_tier = TierNone | TierWeak | TierStrong | TierExternalIdentity

definition qualified_github_issue_matches :: "inbox_job \<Rightarrow> string \<Rightarrow> bool" where
  "qualified_github_issue_matches j lowered =
     (let repository = strip_slashes (casefold (strip (or_str (ij_github_repository j) ''''))) in
      case ij_github_issue j of
        None \<Rightarrow> False
      | Some number \<Rightarrow>
          truthy repository \<and>
          list_ex (\<lambda>reference. is_part reference lowered)
            [''github.com/'' @ repository @ ''/issues/'' @ show_int number,
             repository @ ''#'' @ show_int number,
             repository @ '' issue '' @ show_int number,
             repository @ '' issue #'' @ show_int number])"

definition match_tier :: "job_summary \<Rightarrow> inbox_job \<Rightarrow> string list \<Rightarrow> string \<Rightarrow> reference_tier" where
  "match_tier s j toks lowered =
     (if js_short_id s \<in> set toks \<or> aj_id j \<in> set toks then TierStrong
      else if otruthy (ij_issue_key j)
              \<and> (let key = casefold (the (ij_issue_key j)); key_tokens = tokens key
                 in is_part key lowered \<or> key_tokens \<noteq> [] \<and> set key_tokens \<subseteq> set toks)
      then TierExternalIdentity
      else if qualified_github_issue_matches j lowered then TierExternalIdentity
      else if list_ex (\<lambda>n. case n of None \<Rightarrow> False | Some i \<Rightarrow> show_int i \<in> set toks)
                [ij_github_issue j, ij_github_pull_request j]
      then TierStrong
      else if list_ex (\<lambda>t. length t \<ge> 3 \<and> t \<notin> set STOPWORDS \<and> t \<in> set toks) (tokens (js_label s))
      then TierWeak else TierNone)"

text \<open>The result is the tuple of matches; \<open>unique\<close> and \<open>ambiguous\<close> are its two views.\<close>

definition resolve_reference :: "inbox_job list \<Rightarrow> string \<Rightarrow> job_summary list" where
  "resolve_reference jobs reference =
     (let toks = tokens reference; lowered = casefold reference;
          tier = (\<lambda>j. match_tier (summarize j) j toks lowered);
          external_identity = map summarize (filter (\<lambda>j. tier j = TierExternalIdentity) jobs);
          strong = map summarize (filter (\<lambda>j. tier j = TierStrong) jobs);
          weak = map summarize (filter (\<lambda>j. tier j = TierWeak) jobs)
      in if toks = [] then []
         else if external_identity \<noteq> [] then external_identity
         else if strong \<noteq> [] then strong else weak)"

definition unique_match :: "job_summary list \<Rightarrow> job_summary option" where
  "unique_match matches = (if length matches = 1 then Some (hd matches) else None)"

definition clarify :: "job_summary list \<Rightarrow> string \<Rightarrow> string" where
  "clarify summaries action =
     (let key = (\<lambda>s. casefold (inbox_normalize (js_label s)));
          options = join_and (map (\<lambda>s. spoken s
            (length (filter (\<lambda>t. key t = key s) summaries) > 1)) summaries)
      in if \<not> truthy options then ''I could not find a job to '' @ action @ ''.''
         else ''There are several jobs I could '' @ action @ ''. Which one: '' @ options @ ''?'')"

section \<open>References with their context\<close>

datatype resolved_reference = ResolvedJob string | Clarification string

definition resolve_job_reference ::
  "inbox_job list \<Rightarrow> string option \<Rightarrow> job_state set \<Rightarrow> string \<Rightarrow> string \<Rightarrow> string option \<Rightarrow>
   string option \<Rightarrow> resolved_reference" where
  "resolve_job_reference store_jobs reference statuses action empty_message job_id session_id =
     (let jobs = filter (\<lambda>j. aj_status j \<in> statuses) store_jobs;
          matches = resolve_reference jobs (or_str reference '''') in
      case unique_match matches of
        Some s \<Rightarrow> ResolvedJob (js_id s)
      | None \<Rightarrow>
          if length matches > 1 then Clarification (clarify matches action)
          else case find (\<lambda>c. otruthy c \<and> list_ex (\<lambda>j. Some (aj_id j) = c) jobs) [job_id, session_id] of
            Some c \<Rightarrow> ResolvedJob (the c)
          | None \<Rightarrow>
              if length jobs = 1 then ResolvedJob (aj_id (hd jobs))
              else if jobs = [] then Clarification empty_message
              else Clarification (clarify (map summarize jobs) action))"

end
