(* ===== verification/Announcements.thy ===== *)
theory Announcements imports Delivery_Service Inbox begin

text \<open>
  \<open>cursor/announcements.py\<close>: whether a result is spoken, shown on the desktop or put off, by kind,
  mode, quiet hours and snooze; the drain that claims what is due and applies this policy, leaving
  the claims to be spoken to its caller; and the digest.

  Arguments: the local time of day in a time zone (\<open>zoneinfo\<close>), the rendering of a job, what the
  desktop notifier answers (\<open>None\<close> when it raises), the labels of jobs, and the identifiers of
  updates. A drain happens at one time, as with its \<open>now\<close> parameter.
\<close>

section \<open>Policy\<close>

datatype announcement_kind =
    KindCompletion | KindQuestion | KindFailure | KindCancellation | KindInformational

datatype announcement_disposition = DispSpeak | DispDesktop | DispDefer

datatype announcement_mode = ModeAll | ModeActionRequired | ModeDesktopOnly | ModeQuiet

definition ACTION_REQUIRED_KINDS :: "announcement_kind set" where
  "ACTION_REQUIRED_KINDS = {KindQuestion, KindFailure, KindInformational}"

record announcement_settings =
  as_mode :: announcement_mode
  as_quiet_hours_start :: string
  as_quiet_hours_end :: string
  as_timezone :: string

record announcement_snooze =
  sz_until :: time
  sz_mute_everything :: bool

definition snooze_active :: "announcement_snooze \<Rightarrow> time \<Rightarrow> bool" where
  "snooze_active z now \<longleftrightarrow> now < sz_until z"

definition classify :: "stored_job \<Rightarrow> job_error + announcement_kind" where
  "classify j =
     (if aj_status j = JsCompleted then Inr KindCompletion
      else if aj_status j = JsAwaitingUser then Inr KindQuestion
      else if aj_status j = JsFailed then Inr KindFailure
      else if aj_status j = JsCancelled then Inr KindCancellation
      else if aj_status j = JsBlocked then Inr KindInformational
      else Inl (ValueError (job_state_value (aj_status j) @ '' job cannot be classified for announcement'')))"

text \<open>
  A time of day as minutes since midnight, from \<open>HH:MM\<close>. (The forms of \<open>int\<close> other than digits do
  not pass the configuration.)
\<close>

definition digit_value :: "char \<Rightarrow> int option" where
  "digit_value c = (if c \<in> set ''0123456789'' then Some (int (of_char c) - 48) else None)"

fun decimal_value :: "int \<Rightarrow> string \<Rightarrow> int option" where
  "decimal_value n [] = Some n"
| "decimal_value n (c # cs) =
     (case digit_value c of None \<Rightarrow> None | Some d \<Rightarrow> decimal_value (10 * n + d) cs)"

definition clock_number :: "string \<Rightarrow> job_error + int" where
  "clock_number text =
     (case if text = [] then None else decimal_value 0 text of
        None \<Rightarrow> Inl (ValueError (''invalid literal for int() with base 10: '' @ py_repr text))
      | Some n \<Rightarrow> Inr n)"

definition parse_clock :: "string \<Rightarrow> job_error + int" where
  "parse_clock value =
     (let hour = takeWhile (\<lambda>c. c \<noteq> CHR '':'') value;
          rest = dropWhile (\<lambda>c. c \<noteq> CHR '':'') value in
      if rest = [] then Inl (ValueError ''not enough values to unpack (expected 2, got 1)'')
      else
        rbind (clock_number hour) (\<lambda>h.
        rbind (clock_number (tl rest)) (\<lambda>m.
          if h > 23 then Inl (ValueError ''hour must be in 0..23'')
          else if m > 59 then Inl (ValueError ''minute must be in 0..59'')
          else Inr (60 * h + m))))"

type_synonym local_clock = "time \<Rightarrow> string \<Rightarrow> real"

definition in_quiet_hours :: "local_clock \<Rightarrow> announcement_settings \<Rightarrow> time \<Rightarrow> job_error + bool" where
  "in_quiet_hours local S now =
     (if \<not> truthy (as_quiet_hours_start S) \<or> \<not> truthy (as_quiet_hours_end S) then Inr False
      else
        let current = local now (as_timezone S) in
        rbind (parse_clock (as_quiet_hours_start S)) (\<lambda>start.
        rbind (parse_clock (as_quiet_hours_end S)) (\<lambda>finish.
          Inr (if start \<le> finish then real_of_int start \<le> current \<and> current < real_of_int finish
               else current \<ge> real_of_int start \<or> current < real_of_int finish))))"

definition disposition ::
  "local_clock \<Rightarrow> announcement_settings \<Rightarrow> announcement_snooze option \<Rightarrow> time \<Rightarrow> announcement_kind \<Rightarrow>
   job_error + announcement_disposition" where
  "disposition local S snooze now kind =
     (let snoozed = (case snooze of None \<Rightarrow> False | Some z \<Rightarrow> snooze_active z now) in
      if snoozed \<and> sz_mute_everything (the snooze) then Inr DispDefer
      else
        rbind (if as_mode S = ModeQuiet then Inr True else in_quiet_hours local S now) (\<lambda>quiet. Inr (
          if quiet then DispDefer
          else if snoozed \<and> kind \<notin> ACTION_REQUIRED_KINDS then DispDefer
          else if as_mode S = ModeDesktopOnly then DispDesktop
          else if as_mode S = ModeActionRequired
          then (if kind \<in> ACTION_REQUIRED_KINDS then DispSpeak else DispDefer)
          else DispSpeak)))"

definition announcement_ack_text :: "stored_job \<Rightarrow> string" where
  "announcement_ack_text j = announcement_ack_of_row (job_delivery j) (full_job.announcement_dismissed j)"

fun due_acks :: "announcement_disposition \<Rightarrow> string set" where
  "due_acks DispSpeak = {''pending'', ''deferred'', ''desktop''}"
| "due_acks DispDesktop = {''pending'', ''deferred''}"
| "due_acks DispDefer = {''pending''}"

definition chosen ::
  "local_clock \<Rightarrow> announcement_settings \<Rightarrow> announcement_snooze option \<Rightarrow> time \<Rightarrow> stored_job \<Rightarrow>
   job_error + announcement_disposition" where
  "chosen local S snooze now j = rbind (classify j) (disposition local S snooze now)"

text \<open>
  The test of the scan is applied to jobs in deliverable states and to settings that were
  validated, where the choice never raises.
\<close>

definition auto_eligible ::
  "local_clock \<Rightarrow> announcement_settings \<Rightarrow> announcement_snooze option \<Rightarrow> time \<Rightarrow> stored_job \<Rightarrow> bool" where
  "auto_eligible local S snooze now j \<longleftrightarrow>
     (case chosen local S snooze now j of
        Inl _ \<Rightarrow> False
      | Inr d \<Rightarrow> announcement_ack_text j \<in> due_acks d)"

definition digest_eligible :: "stored_job \<Rightarrow> bool" where
  "digest_eligible j \<longleftrightarrow> announcement_ack_text j \<in> {''deferred'', ''desktop''}"

section \<open>The drain\<close>

definition ANNOUNCEMENT_BATCH_LIMIT :: int where "ANNOUNCEMENT_BATCH_LIMIT = 8"

datatype notification_result = NotifySucceeded | NotifyFailed

record drain_result =
  dn_speak :: "delivery_claim list"
  dn_desktop :: "delivery_claim list"
  dn_desktop_failed :: "delivery_claim list"
  dn_deferred :: "delivery_claim list"

definition nothing_drained :: drain_result where
  "nothing_drained = \<lparr>dn_speak = [], dn_desktop = [], dn_desktop_failed = [], dn_deferred = []\<rparr>"

record drain_env =
  de_local :: local_clock
  de_settings :: announcement_settings
  de_snooze :: "announcement_snooze option"
  de_now :: time
  de_display :: "stored_job \<Rightarrow> string"
  de_notify :: "string \<Rightarrow> bool \<Rightarrow> notification_result option"
  de_transact :: "job_store \<Rightarrow> update_call \<Rightarrow> store_error + job_store \<times> stored_job option"
  de_ids :: "nat \<Rightarrow> call_ids"

text \<open>One update of the drain and whether it took effect.\<close>

definition settle ::
  "drain_env \<Rightarrow> delivery_request \<Rightarrow> nat \<Rightarrow> job_store \<Rightarrow> store_error + job_store \<times> bool" where
  "settle E q n s = rbind (de_transact E s (request_call q (de_ids E n))) (\<lambda>(t, r). Inr (t, r \<noteq> None))"

definition apply_desktop ::
  "drain_env \<Rightarrow> delivery_claim \<Rightarrow> nat \<Rightarrow> job_store \<Rightarrow> store_error + job_store \<times> bool" where
  "apply_desktop E c n s =
     (let i = aj_id (dc_job c);
          result = de_notify E (de_display E (dc_job c)) (classify (dc_job c) = Inr KindFailure) in
      if result \<noteq> Some NotifySucceeded
      then rbind (settle E (ReleaseRequest (dc_token c) True (de_now E) i) n s) (\<lambda>(t, _). Inr (t, False))
      else settle E (AcknowledgeRequest AckDesktop (dc_token c) (de_now E) i) n s)"

definition apply_deferred ::
  "drain_env \<Rightarrow> delivery_claim \<Rightarrow> nat \<Rightarrow> job_store \<Rightarrow> store_error + job_store \<times> bool" where
  "apply_deferred E c n s =
     settle E (AcknowledgeRequest AckDeferred (dc_token c) (de_now E) (aj_id (dc_job c))) n s"

fun apply_claims ::
  "drain_env \<Rightarrow> nat \<Rightarrow> job_store \<Rightarrow> delivery_claim list \<Rightarrow> job_store \<times> (store_error + drain_result)" where
  "apply_claims E n s [] = (s, Inr nothing_drained)"
| "apply_claims E n s (c # cs) =
     (case chosen (de_local E) (de_settings E) (de_snooze E) (de_now E) (dc_job c) of
        Inl e \<Rightarrow> (s, Inl (StoreJobError e))
      | Inr DispSpeak \<Rightarrow>
          (case apply_claims E n s cs of
             (t, Inl e) \<Rightarrow> (t, Inl e)
           | (t, Inr r) \<Rightarrow> (t, Inr (r\<lparr>dn_speak := c # dn_speak r\<rparr>)))
      | Inr DispDesktop \<Rightarrow>
          (case apply_desktop E c n s of
             Inl e \<Rightarrow> (s, Inl e)
           | Inr (s', applied) \<Rightarrow>
               (case apply_claims E (Suc n) s' cs of
                  (t, Inl e) \<Rightarrow> (t, Inl e)
                | (t, Inr r) \<Rightarrow>
                    (t, Inr (if applied then r\<lparr>dn_desktop := c # dn_desktop r\<rparr>
                             else r\<lparr>dn_desktop_failed := c # dn_desktop_failed r\<rparr>))))
      | Inr DispDefer \<Rightarrow>
          (case apply_deferred E c n s of
             Inl e \<Rightarrow> (s, Inl e)
           | Inr (s', applied) \<Rightarrow>
               (case apply_claims E (Suc n) s' cs of
                  (t, Inl e) \<Rightarrow> (t, Inl e)
                | (t, Inr r) \<Rightarrow> (t, Inr (if applied then r\<lparr>dn_deferred := c # dn_deferred r\<rparr> else r)))))"

text \<open>Whether the drain lock was acquired is an argument.\<close>

definition drain_background_announcements ::
  "(stored_job \<Rightarrow> stored_job) \<Rightarrow> (stored_job \<Rightarrow> stored_job \<Rightarrow> job_error + unit) \<Rightarrow> drain_env \<Rightarrow>
   (nat \<Rightarrow> string \<times> call_ids) \<Rightarrow> bool \<Rightarrow> job_store \<Rightarrow> job_store \<times> (store_error + drain_result)" where
  "drain_background_announcements legacy artifacts E supply acquired s =
     (if \<not> acquired then (s, Inr nothing_drained)
      else case pending_deliveries legacy artifacts
                  (Some (auto_eligible (de_local E) (de_settings E) (de_snooze E) (de_now E)))
                  (de_now E) supply ANNOUNCEMENT_BATCH_LIMIT s of
        (t, Inl e) \<Rightarrow> (t, Inl e)
      | (t, Inr claims) \<Rightarrow> apply_claims (E\<lparr>de_transact := store_transaction legacy artifacts\<rparr>) 0 t claims)"

definition claim_missed_announcements ::
  "(stored_job \<Rightarrow> stored_job) \<Rightarrow> (stored_job \<Rightarrow> stored_job \<Rightarrow> job_error + unit) \<Rightarrow> time \<Rightarrow>
   (nat \<Rightarrow> string \<times> call_ids) \<Rightarrow> bool \<Rightarrow> job_store \<Rightarrow> job_store \<times> (store_error + delivery_claim list)" where
  "claim_missed_announcements legacy artifacts now supply acquired s =
     (if \<not> acquired then (s, Inr [])
      else pending_deliveries legacy artifacts (Some digest_eligible) now supply ANNOUNCEMENT_BATCH_LIMIT s)"

section \<open>The digest\<close>

definition DIGEST_SPOKEN_ITEMS :: nat where "DIGEST_SPOKEN_ITEMS = 4"

definition bounded_labels :: "(stored_job \<Rightarrow> string) \<Rightarrow> stored_job list \<Rightarrow> string" where
  "bounded_labels label jobs =
     (let labels = map label jobs; shown = take DIGEST_SPOKEN_ITEMS labels;
          remainder = int (length labels) - int (length shown) in
      join_and (shown @ (if remainder > 0 then [show_int remainder @ '' more''] else [])))"

definition digest_groups :: "(announcement_kind \<times> string) list" where
  "digest_groups =
     [(KindQuestion, ''waiting for you''), (KindFailure, ''failed''), (KindInformational, ''need attention''),
      (KindCompletion, ''finished''), (KindCancellation, ''cancelled'')]"

fun join_with :: "string \<Rightarrow> string list \<Rightarrow> string" where
  "join_with sep [] = []"
| "join_with sep [x] = x"
| "join_with sep (x # xs) = x @ sep @ join_with sep xs"

definition digest_phrases ::
  "(stored_job \<Rightarrow> string) \<Rightarrow> (stored_job \<times> announcement_kind) list \<Rightarrow> string list" where
  "digest_phrases label classified =
     concat (map (\<lambda>(kind, group).
       case map fst (filter (\<lambda>(_, k). k = kind) classified) of
         [] \<Rightarrow> []
       | bucket \<Rightarrow> [group @ '': '' @ bounded_labels label bucket]) digest_groups)"

fun classify_all :: "stored_job list \<Rightarrow> job_error + (stored_job \<times> announcement_kind) list" where
  "classify_all [] = Inr []"
| "classify_all (j # js) = rbind (classify j) (\<lambda>k. rbind (classify_all js) (\<lambda>ks. Inr ((j, k) # ks)))"

text \<open>Spoken text and display text.\<close>

definition render_digest ::
  "(stored_job \<Rightarrow> string) \<Rightarrow> (stored_job \<Rightarrow> string) \<Rightarrow> bool \<Rightarrow> stored_job list \<Rightarrow>
   job_error + string \<times> string" where
  "render_digest label display missed jobs =
     (if jobs = []
      then let spoken = (if missed then ''You didn't miss any background announcements.''
                         else ''There are no background announcements.'') in Inr (spoken, spoken)
      else
        rbind (classify_all jobs) (\<lambda>classified.
        let count = show_int (int (length jobs));
            noun = (if length jobs = 1 then ''update'' else ''updates'');
            phrases = join_with ''. '' (digest_phrases label classified) in
        Inr ((if missed then ''You missed '' @ count @ '' background '' @ noun @ ''. '' @ phrases @ ''.''
              else count @ '' background '' @ noun @ ''. '' @ phrases @ ''.''),
             join_with [CHR 0x0A] (map display jobs))))"

end
