(* ===== verification/Announcement_Claims.thy ===== *)
theory Announcement_Claims imports Announcements Delivery_Claims begin

text \<open>
  What a drain of announcements leaves behind: the claims it returns to be spoken are still held,
  and what it shows on the desktop or puts off is kept for the digest.
\<close>

section \<open>Single updates\<close>

abbreviation unlogged_id :: "job_store \<Rightarrow> string \<Rightarrow> bool" where
  "unlogged_id s x \<equiv> load_command_event (js_db s) x = None"

definition covered :: "job_store \<Rightarrow> bool" where
  "covered s \<longleftrightarrow> dom (db_jobs (js_db s)) \<subseteq> set (js_ids s)"

lemma transaction_frame:
  assumes "store_ok s" and "store_transaction legacy artifacts s call = Inr (s', res)"
  shows "store_ok s' \<and> js_ids s' = js_ids s \<and> (covered s \<longrightarrow> covered s')
    \<and> (\<forall>k. k \<noteq> sc_job_id call \<longrightarrow> db_jobs (js_db s') k = db_jobs (js_db s) k)
    \<and> (\<forall>x. x \<noteq> sc_command_id call \<longrightarrow> unlogged_id s x \<longrightarrow> unlogged_id s' x)"
proof -
  have ok: "store_ok s'"
    using store_ok_try [OF assms(1), of legacy artifacts call] assms(2) by (simp add: store_try_def)
  from assms(2) show ?thesis
  proof (cases rule: store_transaction_cases)
    case same
    with ok show ?thesis by simp
  next
    case (commit row current cand c reserved claims)
    with ok show ?thesis
      by (auto simp: covered_def load_command_event_def find_append update_event_row_def split: option.splits)
  qed
qed

text \<open>A request keeps the status of its job.\<close>

lemma updated_job_status:
  assumes "updated_job f j = Inr u" and "aj_status (f j) = aj_status j"
  shows "aj_status u = aj_status j"
  using next_record_cols [OF assms(1) [unfolded updated_job_def]] assms(2) by auto

lemma request_command_status:
  assumes "request_command q j = Inr (Some cand)"
  shows "aj_status cand = aj_status j \<and> aj_loaded_schema_version cand = aj_loaded_schema_version j"
proof -
  from request_command_step [OF assms] obtain t where "updated_job (set_delivery t) j = Inr cand"
    by (auto simp: deliver_job_def rbind_Inr_iff map_err_Inr_iff)
  from updated_job_status [OF this] updated_job_cols(3) [OF this] show ?thesis by (simp add: set_delivery_def)
qed

lemma request_keeps_status:
  assumes "store_ok s" and "store_transaction legacy artifacts s (request_call q u) = Inr (s', Some c)"
    and "unlogged_id s (ci_command_id u)"
  obtains row d d' where "db_jobs (js_db s) (request_job q) = Some row" "aj_status c = aj_status (jr_body row)"
    "db_jobs (js_db s') = (db_jobs (js_db s))(request_job q \<mapsto> job_row_of c)" "aj_id c = request_job q"
    "delivery_of (jr_body row) = Inr d" "delivery_step d (machine_op q) = Inr d'" "delivery_of c = Inr d'"
proof -
  have call: "sc_job_id (request_call q u) = request_job q" "sc_command (request_call q u) = request_command q"
    "sc_command_id (request_call q u) = ci_command_id u"
    by (simp_all add: request_call_def delivery_call_def)
  have status: "aj_status c = aj_status (jr_body row)" if "db_jobs (js_db s) (request_job q) = Some row" for row
    using assms(2)
  proof (cases rule: store_transaction_cases)
    case same
    with assms(3) show ?thesis by (simp add: call)
  next
    case (commit row' current cand c' reserved claims)
    with that call have row: "row' = row" "c' = c" by simp_all
    with assms(1) that have "stored_row_ok row" by (auto simp: store_ok_def)
    with commit(2) row have current: "current = (jr_body row)\<lparr>aj_lifecycle_event := None\<rparr>"
      "aj_loaded_schema_version (jr_body row) = CURRENT_SCHEMA_VERSION" by (simp_all add: stored_row_ok_def)
    with request_command_status [of q current cand] commit(3) call
    have cand: "aj_status cand = aj_status (jr_body row)" "aj_loaded_schema_version cand = CURRENT_SCHEMA_VERSION" by simp_all
    from commit(5) row obtain w where w: "read_record ((clear_legacy_release_owner cand)
        \<lparr>aj_loaded_schema_version := CURRENT_SCHEMA_VERSION\<rparr>) = Inr w"
      and c: "c = w\<lparr>aj_lifecycle_event := aj_lifecycle_event cand\<rparr>"
      using cand(2) by (auto simp: normalize_for_durable_write_def rbind_Inr_iff Let_def if_Inl_Inr_iff)
    from read_record_cols [OF w] c cand(1) show ?thesis by (auto simp: clear_legacy_release_owner_def)
  qed
  from assms(1,2) show thesis
  proof (cases rule: request_transaction)
    case same
    with assms(3) show thesis by simp
  next
    case (step row c' d d')
    with that [OF step(1) status [OF step(1)]] show thesis by simp
  qed
qed

section \<open>Scanning\<close>

text \<open>The claim is held since the time given, and its record is the stored one.\<close>

definition holds :: "time \<Rightarrow> job_store \<Rightarrow> delivery_claim \<Rightarrow> bool" where
  "holds now s c \<longleftrightarrow> db_jobs (js_db s) (aj_id (dc_job c)) = Some (job_row_of (dc_job c))
     \<and> held_since now s (aj_id (dc_job c)) (dc_token c)"

definition scan_keeps :: "(nat \<Rightarrow> string \<times> call_ids) \<Rightarrow> time \<Rightarrow> job_store \<Rightarrow> job_store \<Rightarrow> bool" where
  "scan_keeps supply now s s' \<longleftrightarrow> js_ids s' = js_ids s \<and> (covered s \<longrightarrow> covered s')
     \<and> (\<forall>c. holds now s c \<longrightarrow> holds now s' c)
     \<and> (\<forall>x. x \<notin> range (\<lambda>m. ci_command_id (snd (supply m))) \<longrightarrow> unlogged_id s x \<longrightarrow> unlogged_id s' x)"

lemma scan_keeps_refl [simp]: "scan_keeps supply now s s"
  by (simp add: scan_keeps_def)

lemma scan_keeps_trans: "scan_keeps supply now s t \<Longrightarrow> scan_keeps supply now t u \<Longrightarrow> scan_keeps supply now s u"
  by (simp add: scan_keeps_def)

lemma scan_step:
  assumes "store_ok s" and "fresh_ids s supply n" and "supply n = (tok, u)"
    and "store_transaction legacy artifacts s (scan_call eligible now i tok u) = Inr (s', res)"
  shows "store_ok s' \<and> fresh_ids s' supply (Suc n) \<and> scan_keeps supply now s s'
    \<and> (\<forall>c. res = Some c \<longrightarrow> holds now s' \<lparr>dc_job = c, dc_token = tok\<rparr>)"
proof -
  note attempt = scan_attempt [OF assms]
  note frame = transaction_frame [OF assms(1,4)]
  have new: "unlogged_id s (ci_command_id u)" using assms(2,3) by (auto simp: fresh_ids_def)
  have "ci_command_id u = ci_command_id (snd (supply n))" using assms(3) by simp
  then have ids: "x \<notin> range (\<lambda>m. ci_command_id (snd (supply m))) \<Longrightarrow> x \<noteq> ci_command_id u" for x by blast
  have call: "sc_job_id (scan_call eligible now i tok u) = i" "sc_command_id (scan_call eligible now i tok u) = ci_command_id u"
    by (simp_all add: delivery_call_def)
  have stays: "holds now s' c" if "holds now s c" for c
  proof (cases res)
    case None
    with attempt that show ?thesis by simp
  next
    case (Some j)
    with attempt that have "aj_id (dc_job c) \<noteq> i" by (auto simp: holds_def)
    with that frame call attempt show ?thesis by (auto simp: holds_def)
  qed
  moreover have "holds now s' \<lparr>dc_job = c, dc_token = tok\<rparr>" if "res = Some c" for c
  proof -
    from that assms(4) have "store_transaction legacy artifacts s
        (request_call (ClaimRequest tok False eligible now i) u) = Inr (s', Some c)" by (simp add: scan_call_request)
    from request_keeps_status [OF assms(1) this new] obtain row where
      "db_jobs (js_db s') = (db_jobs (js_db s))(i \<mapsto> job_row_of c)" "aj_id c = i"
      by (metis request_job.simps(1))
    with attempt that show ?thesis by (simp add: holds_def)
  qed
  ultimately show ?thesis
    using attempt frame call ids by (auto simp: scan_keeps_def)
qed

lemma claim_loop_holds:
  assumes "store_ok s" and "fresh_ids s supply n"
    and "claim_loop (store_transaction legacy artifacts) (claim_command False eligible now) supply n s ids
      = (s', n', res)"
  shows "store_ok s' \<and> fresh_ids s' supply n' \<and> scan_keeps supply now s s'
    \<and> (\<forall>c. res = Inr (Some c) \<longrightarrow> holds now s' c)"
  using assms
proof (induction ids arbitrary: s n)
  case (Cons i ids)
  obtain tok u where sup: "supply n = (tok, u)" by (cases "supply n")
  show ?case
  proof (cases "store_transaction legacy artifacts s (scan_call eligible now i tok u)")
    case (Inl e)
    with Cons.prems sup show ?thesis by (auto simp: fresh_ids_def)
  next
    case (Inr b)
    obtain t r where b: "b = (t, r)" by (cases b)
    note step = scan_step [OF Cons.prems(1,2) sup Inr [unfolded b]]
    show ?thesis
    proof (cases r)
      case None
      with Cons.prems(3) sup Inr b have "claim_loop (store_transaction legacy artifacts)
          (claim_command False eligible now) supply (Suc n) t ids = (s', n', res)" by simp
      from Cons.IH [OF _ _ this] step show ?thesis by (blast intro: scan_keeps_trans)
    next
      case (Some c)
      with Cons.prems(3) sup Inr b step show ?thesis by auto
    qed
  qed
qed auto

lemma pending_loop_holds:
  assumes "store_ok s" and "fresh_ids s supply n"
    and "pending_loop (store_transaction legacy artifacts) (claim_command False eligible now) supply limit n s
      = (s', Inr cs)"
  shows "store_ok s' \<and> scan_keeps supply now s s' \<and> list_all (holds now s') cs"
  using assms
proof (induction limit arbitrary: s n cs)
  case (Suc limit)
  obtain t m res where claimed: "claim_next (store_transaction legacy artifacts)
      (claim_command False eligible now) supply n s = (t, m, res)"
    by (cases "claim_next (store_transaction legacy artifacts)
      (claim_command False eligible now) supply n s")
  have scan: "store_ok t \<and> fresh_ids t supply m \<and> scan_keeps supply now s t
      \<and> (\<forall>c. res = Inr (Some c) \<longrightarrow> holds now t c)"
  proof (cases "store_list s")
    case (Inl e)
    with claimed Suc.prems(1,2) show ?thesis by (auto simp: claim_next_def)
  next
    case (Inr jobs)
    with claimed show ?thesis by (intro claim_loop_holds [OF Suc.prems(1,2)]) (simp add: claim_next_def)
  qed
  show ?case
  proof (cases "\<exists>c. res = Inr (Some c)")
    case False
    with Suc.prems(3) claimed scan show ?thesis by (auto split: sum.splits option.splits)
  next
    case True
    then obtain c where c: "res = Inr (Some c)" by blast
    with Suc.prems(3) claimed obtain ds where
      rest: "pending_loop (store_transaction legacy artifacts) (claim_command False eligible now) supply limit m t
        = (s', Inr ds)" and cs: "cs = c # ds"
      by (auto split: prod.splits sum.splits)
    from Suc.IH [OF _ _ rest] scan have ih: "store_ok s'" "scan_keeps supply now t s'" "list_all (holds now s') ds"
      by blast+
    from scan c have "holds now t c" by blast
    with ih have "holds now s' c" by (simp add: scan_keeps_def)
    with ih scan cs show ?thesis by (auto intro: scan_keeps_trans)
  qed
qed simp

section \<open>What is kept for the digest\<close>

definition kept_for_digest :: "job_store \<Rightarrow> string \<Rightarrow> bool" where
  "kept_for_digest s i \<longleftrightarrow> (\<exists>r. db_jobs (js_db s) i = Some r \<and> aj_status (jr_body r) \<in> DELIVERABLE_STATUSES
     \<and> \<not> delivered (job_delivery (jr_body r))
     \<and> announcement_ack_of_row (job_delivery (jr_body r)) False \<in> {''deferred'', ''desktop''})"

lemma read_all_present:
  assumes "store_ok s"
  shows "read_all (js_db s) ids = Inr (map (\<lambda>i. (jr_body (the (db_jobs (js_db s) i)))\<lparr>aj_lifecycle_event := None\<rparr>)
    (filter (\<lambda>i. db_jobs (js_db s) i \<noteq> None) ids))"
proof (induction ids)
  case (Cons i ids)
  show ?case
  proof (cases "db_jobs (js_db s) i")
    case (Some r)
    with assms have "read_record (jr_body r) = Inr ((jr_body r)\<lparr>aj_lifecycle_event := None\<rparr>)"
      by (simp add: store_ok_def stored_row_ok_def)
    with Some Cons.IH show ?thesis by simp
  qed (use Cons.IH in simp)
qed simp

lemma kept_is_suppressed:
  assumes "store_ok s" and "covered s" and "kept_for_digest s i"
  shows "\<exists>js. suppressed_jobs s = Inr js \<and> i \<in> aj_id ` set js"
proof -
  from assms(3) obtain r where r: "db_jobs (js_db s) i = Some r" "aj_status (jr_body r) \<in> DELIVERABLE_STATUSES"
    "\<not> delivered (job_delivery (jr_body r))"
    "announcement_ack_of_row (job_delivery (jr_body r)) False \<in> {''deferred'', ''desktop''}"
    by (auto simp: kept_for_digest_def)
  with assms(1,2) have i: "i \<in> set (js_ids s)" "aj_id (jr_body r) = i" by (auto simp: covered_def store_ok_def)
  define jobs where "jobs = map (\<lambda>i. (jr_body (the (db_jobs (js_db s) i)))\<lparr>aj_lifecycle_event := None\<rparr>)
    (filter (\<lambda>i. db_jobs (js_db s) i \<noteq> None) (js_ids s))"
  have "(jr_body r)\<lparr>aj_lifecycle_event := None\<rparr> \<in> set jobs"
    using r(1) i(1) by (force simp: jobs_def)
  moreover have "store_list s = Inr jobs" by (simp add: store_list_def read_all_present [OF assms(1)] jobs_def)
  moreover have "aj_id ((jr_body r)\<lparr>aj_lifecycle_event := None\<rparr>) = i" using i(2) by simp
  ultimately show ?thesis
    using r(2-4) by (intro exI conjI) (force simp: suppressed_jobs_def image_iff)+
qed

lemma muted_columns:
  assumes "delivery_of j = Inr (PendingDelivery g rt n an)" and "an_ack an \<in> {AckDeferred, AckDesktop}"
  shows "\<not> delivered (job_delivery j)"
    and "announcement_ack_of_row (job_delivery j) False \<in> {''deferred'', ''desktop''}"
proof -
  show d: "\<not> delivered (job_delivery j)" using delivery_of_columns(2) [OF assms(1)] by simp
  from assms(1) have "delivery_state_of_row (full_job.announcement_dismissed j) None (job_delivery j)
      = Inr (PendingDelivery g rt n an)"
    by (simp add: delivery_of_row map_err_Inr_iff)
  then have "parse_ack (announcement_ack_of_row (job_delivery j) (full_job.announcement_dismissed j))
      = Some (an_ack an)"
    by (auto simp: delivery_state_of_row_def load_delivery_state_def Let_def if_Inl_Inr_iff
        split: option.splits if_splits)
  with assms(2) have "announcement_ack_of_row (job_delivery j) (full_job.announcement_dismissed j)
      \<in> {''deferred'', ''desktop''}"
    by (auto simp: parse_ack_def split: if_splits)
  then show "announcement_ack_of_row (job_delivery j) False \<in> {''deferred'', ''desktop''}"
    by (auto simp: announcement_ack_of_row_def split: if_splits)
qed

section \<open>Applying the policy\<close>

lemma settle_frame:
  assumes "settle E q n s = Inr (t, b)" and "store_ok s" and "de_transact E = store_transaction legacy artifacts"
  shows "store_ok t \<and> js_ids t = js_ids s \<and> (covered s \<longrightarrow> covered t)
    \<and> (\<forall>k. k \<noteq> request_job q \<longrightarrow> db_jobs (js_db t) k = db_jobs (js_db s) k)
    \<and> (\<forall>x. x \<noteq> ci_command_id (de_ids E n) \<longrightarrow> unlogged_id s x \<longrightarrow> unlogged_id t x)"
proof -
  from assms(1,3) obtain r where "store_transaction legacy artifacts s (request_call q (de_ids E n)) = Inr (t, r)"
    by (auto simp: settle_def rbind_Inr_iff)
  from transaction_frame [OF assms(2) this] show ?thesis by (simp add: request_call_def delivery_call_def)
qed

lemma acknowledged_kept:
  assumes "settle E (AcknowledgeRequest ack tok now i) n s = Inr (t, True)" and "store_ok s"
    and "de_transact E = store_transaction legacy artifacts" and "unlogged_id s (ci_command_id (de_ids E n))"
    and "ack \<in> {AckDeferred, AckDesktop}" and "db_jobs (js_db s) i = Some r"
    and "aj_status (jr_body r) \<in> DELIVERABLE_STATUSES"
  shows "kept_for_digest t i"
proof -
  from assms(1,3) obtain c where
    "store_transaction legacy artifacts s (request_call (AcknowledgeRequest ack tok now i) (de_ids E n)) = Inr (t, Some c)"
    by (auto simp: settle_def rbind_Inr_iff)
  from request_keeps_status [OF assms(2) this assms(4)] obtain row d d' where
    c: "db_jobs (js_db s) i = Some row" "aj_status c = aj_status (jr_body row)"
      "db_jobs (js_db t) = (db_jobs (js_db s))(i \<mapsto> job_row_of c)"
      "delivery_step d (machine_op (AcknowledgeRequest ack tok now i)) = Inr d'" "delivery_of c = Inr d'"
    by (metis request_job.simps(3))
  from c(4) assms(5) have "d' = PendingDelivery (ds_generation d) 0 (ds_attempts d) ((ds_announcement d)\<lparr>an_ack := ack\<rparr>)"
    by (auto simp: acknowledge_delivery_iff final_acks_def)
  with c(5) have pending: "delivery_of c = Inr (PendingDelivery (ds_generation d) 0 (ds_attempts d)
      ((ds_announcement d)\<lparr>an_ack := ack\<rparr>))" by simp
  have "an_ack ((ds_announcement d)\<lparr>an_ack := ack\<rparr>) \<in> {AckDeferred, AckDesktop}" using assms(5) by simp
  from muted_columns [OF pending this] c assms(6,7) show ?thesis
    by (simp add: kept_for_digest_def job_row_of_def)
qed

lemma classified_deliverable: "classify j = Inr k \<Longrightarrow> aj_status j \<in> DELIVERABLE_STATUSES"
  by (auto simp: classify_def DELIVERABLE_STATUSES_def split: if_splits)

abbreviation claim_ids :: "delivery_claim list \<Rightarrow> string list" where
  "claim_ids cs \<equiv> map (\<lambda>c. aj_id (dc_job c)) cs"

abbreviation settled_claims :: "drain_result \<Rightarrow> delivery_claim list" where
  "settled_claims r \<equiv> dn_desktop r @ dn_desktop_failed r @ dn_deferred r"

text \<open>What applying the policy to claims leaves.\<close>

definition applied ::
  "drain_env \<Rightarrow> job_store \<Rightarrow> job_store \<Rightarrow> delivery_claim list \<Rightarrow> drain_result \<Rightarrow> bool" where
  "applied E s t cs r \<longleftrightarrow> store_ok t \<and> covered t
     \<and> (\<forall>k. k \<notin> set (claim_ids cs) \<longrightarrow> db_jobs (js_db t) k = db_jobs (js_db s) k)
     \<and> list_all (\<lambda>c. holds (de_now E) t c
         \<and> chosen (de_local E) (de_settings E) (de_snooze E) (de_now E) (dc_job c) = Inr DispSpeak) (dn_speak r)
     \<and> list_all (\<lambda>c. kept_for_digest t (aj_id (dc_job c))) (dn_desktop r @ dn_deferred r)
     \<and> set (dn_speak r @ settled_claims r) \<subseteq> set cs
     \<and> distinct (claim_ids (dn_speak r @ settled_claims r))"

lemma desktop_applied:
  assumes "apply_desktop E c n s = Inr (t, b)"
  obtains q where "settle E q n s = Inr (t, b)" "q = AcknowledgeRequest AckDesktop (dc_token c) (de_now E) (aj_id (dc_job c))"
  | q b' where "settle E q n s = Inr (t, b')" "q = ReleaseRequest (dc_token c) True (de_now E) (aj_id (dc_job c))" "\<not> b"
  using assms by (auto simp: apply_desktop_def Let_def rbind_Inr_iff split: if_splits)

text \<open>What holds before each claim is taken up.\<close>

definition drain_ready ::
  "(stored_job \<Rightarrow> stored_job) \<Rightarrow> (stored_job \<Rightarrow> stored_job \<Rightarrow> job_error + unit) \<Rightarrow> drain_env \<Rightarrow> nat \<Rightarrow>
   job_store \<Rightarrow> delivery_claim list \<Rightarrow> bool" where
  "drain_ready legacy artifacts E n s cs \<longleftrightarrow> store_ok s \<and> covered s \<and> de_transact E = store_transaction legacy artifacts
     \<and> (\<forall>m \<ge> n. unlogged_id s (ci_command_id (de_ids E m))) \<and> inj (\<lambda>m. ci_command_id (de_ids E m))
     \<and> list_all (holds (de_now E) s) cs \<and> distinct (claim_ids cs)"

lemma holds_same_row:
  "db_jobs (js_db t) (aj_id (dc_job c)) = db_jobs (js_db s) (aj_id (dc_job c)) \<Longrightarrow> holds now t c \<longleftrightarrow> holds now s c"
  by (simp add: holds_def held_since_def)

lemma kept_same_row:
  "db_jobs (js_db t) i = db_jobs (js_db s) i \<Longrightarrow> kept_for_digest t i \<longleftrightarrow> kept_for_digest s i"
  by (simp add: kept_for_digest_def)

lemma settled_ready:
  assumes "drain_ready legacy artifacts E n s (c # cs)" and "settle E q n s = Inr (s', b)"
    and "request_job q = aj_id (dc_job c)"
  shows "drain_ready legacy artifacts E (Suc n) s' cs
    \<and> (\<forall>k. k \<noteq> aj_id (dc_job c) \<longrightarrow> db_jobs (js_db s') k = db_jobs (js_db s) k)"
proof -
  from assms(1) have r: "store_ok s" "covered s" "de_transact E = store_transaction legacy artifacts"
    "\<forall>m \<ge> n. unlogged_id s (ci_command_id (de_ids E m))" "inj (\<lambda>m. ci_command_id (de_ids E m))"
    "list_all (holds (de_now E) s) cs" "distinct (claim_ids cs)" "aj_id (dc_job c) \<notin> set (claim_ids cs)"
    by (simp_all add: drain_ready_def)
  note frame = settle_frame [OF assms(2) r(1,3)]
  have "unlogged_id s' (ci_command_id (de_ids E m))" if "Suc n \<le> m" for m
  proof -
    have "ci_command_id (de_ids E m) \<noteq> ci_command_id (de_ids E n)" using injD [OF r(5), of m n] that by auto
    with frame r(4) that show ?thesis by simp
  qed
  moreover have "list_all (holds (de_now E) s') cs"
    unfolding list_all_iff
  proof
    fix d
    assume d: "d \<in> set cs"
    with r(8) have "aj_id (dc_job d) \<noteq> aj_id (dc_job c)" by (auto simp: image_iff)
    with frame assms(3) have "db_jobs (js_db s') (aj_id (dc_job d)) = db_jobs (js_db s) (aj_id (dc_job d))" by simp
    with holds_same_row [OF this] r(6) d show "holds (de_now E) s' d" by (simp add: list_all_iff)
  qed
  ultimately show ?thesis using r frame assms(3) by (simp add: drain_ready_def)
qed

lemma held_deliverable:
  assumes "holds now s c" and "classify (dc_job c) = Inr k"
  shows "db_jobs (js_db s) (aj_id (dc_job c)) = Some (job_row_of (dc_job c))"
    and "aj_status (jr_body (job_row_of (dc_job c))) \<in> DELIVERABLE_STATUSES"
  using assms classified_deliverable by (simp_all add: holds_def job_row_of_def)

lemma chosen_classified: "chosen local S z now j = Inr d \<Longrightarrow> \<exists>k. classify j = Inr k"
  by (auto simp: chosen_def rbind_Inr_iff)

lemma applied_cons:
  assumes "applied E s' t cs r" and "aj_id (dc_job c) \<notin> set (claim_ids cs)"
    and "\<forall>k. k \<noteq> aj_id (dc_job c) \<longrightarrow> db_jobs (js_db s') k = db_jobs (js_db s) k"
  shows "applied E s t (c # cs) r"
    and "kept_for_digest s' (aj_id (dc_job c)) \<Longrightarrow> applied E s t (c # cs) (r\<lparr>dn_desktop := c # dn_desktop r\<rparr>)"
    and "kept_for_digest s' (aj_id (dc_job c)) \<Longrightarrow> applied E s t (c # cs) (r\<lparr>dn_deferred := c # dn_deferred r\<rparr>)"
    and "applied E s t (c # cs) (r\<lparr>dn_desktop_failed := c # dn_desktop_failed r\<rparr>)"
    and "holds (de_now E) s' c \<Longrightarrow>
      chosen (de_local E) (de_settings E) (de_snooze E) (de_now E) (dc_job c) = Inr DispSpeak \<Longrightarrow>
      applied E s t (c # cs) (r\<lparr>dn_speak := c # dn_speak r\<rparr>)"
proof -
  have row: "db_jobs (js_db t) (aj_id (dc_job c)) = db_jobs (js_db s') (aj_id (dc_job c))"
    using assms(1,2) by (simp add: applied_def)
  have out: "aj_id (dc_job c) \<notin> (\<lambda>d. aj_id (dc_job d)) ` X" if "X \<subseteq> set cs" for X
    using assms(2) that by auto
  have sub: "set (dn_speak r) \<subseteq> set cs" "set (dn_desktop r) \<subseteq> set cs" "set (dn_desktop_failed r) \<subseteq> set cs"
    "set (dn_deferred r) \<subseteq> set cs"
    using assms(1) by (simp_all add: applied_def)
  note outs = out [OF sub(1)] out [OF sub(2)] out [OF sub(3)] out [OF sub(4)]
  note simps = applied_def kept_same_row [OF row] holds_same_row [OF row]
  show "applied E s t (c # cs) r" using assms(1,3) by (auto simp: applied_def)
  show "kept_for_digest s' (aj_id (dc_job c)) \<Longrightarrow> applied E s t (c # cs) (r\<lparr>dn_desktop := c # dn_desktop r\<rparr>)"
    using assms(1,3) outs sub by (auto simp: simps)
  show "kept_for_digest s' (aj_id (dc_job c)) \<Longrightarrow> applied E s t (c # cs) (r\<lparr>dn_deferred := c # dn_deferred r\<rparr>)"
    using assms(1,3) outs sub by (auto simp: simps)
  show "applied E s t (c # cs) (r\<lparr>dn_desktop_failed := c # dn_desktop_failed r\<rparr>)"
    using assms(1,3) outs sub by (auto simp: simps)
  show "holds (de_now E) s' c \<Longrightarrow>
      chosen (de_local E) (de_settings E) (de_snooze E) (de_now E) (dc_job c) = Inr DispSpeak \<Longrightarrow>
      applied E s t (c # cs) (r\<lparr>dn_speak := c # dn_speak r\<rparr>)"
    using assms(1,3) outs sub by (auto simp: simps)
qed

lemma apply_claims_applied:
  assumes "apply_claims E n s cs = (t, Inr r)" and "drain_ready legacy artifacts E n s cs"
  shows "applied E s t cs r"
  using assms
proof (induction cs arbitrary: n s r)
  case Nil
  then show ?case by (auto simp: applied_def nothing_drained_def drain_ready_def)
next
  case (Cons c cs)
  from Cons.prems(2) have c: "holds (de_now E) s c" "aj_id (dc_job c) \<notin> set (claim_ids cs)"
    and new: "unlogged_id s (ci_command_id (de_ids E n))" and ok: "store_ok s"
    and E: "de_transact E = store_transaction legacy artifacts" and r0: "drain_ready legacy artifacts E n s cs"
    by (simp_all add: drain_ready_def)
  obtain d where d: "chosen (de_local E) (de_settings E) (de_snooze E) (de_now E) (dc_job c) = Inr d"
    using Cons.prems(1) by (cases "chosen (de_local E) (de_settings E) (de_snooze E) (de_now E) (dc_job c)") auto
  from chosen_classified [OF d] obtain k where k: "classify (dc_job c) = Inr k" by blast
  note row = held_deliverable [OF c(1) k]
  show ?case
  proof (cases d)
    case DispSpeak
    with Cons.prems(1) d obtain r' where "apply_claims E n s cs = (t, Inr r')" "r = r'\<lparr>dn_speak := c # dn_speak r'\<rparr>"
      by (auto split: prod.splits sum.splits)
    with Cons.IH r0 applied_cons(5) [of E s t cs r' c s] c d DispSpeak show ?thesis by simp
  next
    case DispDesktop
    with Cons.prems(1) d obtain s' b r' where a: "apply_desktop E c n s = Inr (s', b)"
      and rest: "apply_claims E (Suc n) s' cs = (t, Inr r')"
      and r: "r = (if b then r'\<lparr>dn_desktop := c # dn_desktop r'\<rparr> else r'\<lparr>dn_desktop_failed := c # dn_desktop_failed r'\<rparr>)"
      by (auto split: prod.splits sum.splits)
    from a obtain q b' where q: "settle E q n s = Inr (s', b')" "request_job q = aj_id (dc_job c)"
      and kept: "b \<Longrightarrow> kept_for_digest s' (aj_id (dc_job c))"
      by (cases rule: desktop_applied)
         (force intro: acknowledged_kept [OF _ ok E new _ row])+
    from settled_ready [OF Cons.prems(2) q] have s': "drain_ready legacy artifacts E (Suc n) s' cs"
      "\<forall>k. k \<noteq> aj_id (dc_job c) \<longrightarrow> db_jobs (js_db s') k = db_jobs (js_db s) k" by blast+
    note next_claims = applied_cons [OF Cons.IH [OF rest s'(1)] c(2) s'(2)]
    show ?thesis using next_claims(2,4) kept by (cases b) (simp_all add: r)
  next
    case DispDefer
    with Cons.prems(1) d obtain s' b r' where a: "apply_deferred E c n s = Inr (s', b)"
      and rest: "apply_claims E (Suc n) s' cs = (t, Inr r')"
      and r: "r = (if b then r'\<lparr>dn_deferred := c # dn_deferred r'\<rparr> else r')"
      by (auto split: prod.splits sum.splits)
    let ?q = "AcknowledgeRequest AckDeferred (dc_token c) (de_now E) (aj_id (dc_job c))"
    from a have q: "settle E ?q n s = Inr (s', b)" by (simp add: apply_deferred_def)
    from settled_ready [OF Cons.prems(2) q] have s': "drain_ready legacy artifacts E (Suc n) s' cs"
      "\<forall>k. k \<noteq> aj_id (dc_job c) \<longrightarrow> db_jobs (js_db s') k = db_jobs (js_db s) k" by simp_all
    note next_claims = applied_cons [OF Cons.IH [OF rest s'(1)] c(2) s'(2)]
    have "b \<Longrightarrow> kept_for_digest s' (aj_id (dc_job c))"
      using acknowledged_kept [OF _ ok E new _ row] q by simp
    with next_claims(1,3) show ?thesis by (cases b) (simp_all add: r)
  qed
qed

text \<open>
  C17. After a drain, a result it returns to be spoken is one the policy lets speak, and its claim is
  still held under the returned token; a result it showed on the desktop or put off is undelivered
  and among those the digest finds; no job is handled twice.
\<close>

theorem drain_speaks_only_what_it_holds:
  assumes "store_ok s" and "covered s" and "fresh_ids s supply 0" and "inj (\<lambda>m. ci_command_id (de_ids E m))"
    and "\<And>m. unlogged_id s (ci_command_id (de_ids E m))"
    and "\<And>m k. ci_command_id (de_ids E m) \<noteq> ci_command_id (snd (supply k))"
    and "drain_background_announcements legacy artifacts E supply acquired s = (t, Inr r)"
  shows "list_all (\<lambda>c. holds (de_now E) t c
        \<and> chosen (de_local E) (de_settings E) (de_snooze E) (de_now E) (dc_job c) = Inr DispSpeak) (dn_speak r)
    \<and> (\<exists>js. suppressed_jobs t = Inr js
        \<and> list_all (\<lambda>c. aj_id (dc_job c) \<in> aj_id ` set js) (dn_desktop r @ dn_deferred r))
    \<and> distinct (claim_ids (dn_speak r @ settled_claims r))"
proof (cases acquired)
  case False
  with assms(1,7) show ?thesis
    by (auto simp: drain_background_announcements_def nothing_drained_def suppressed_jobs_def store_list_def
        read_all_present)
next
  case True
  let ?E = "E\<lparr>de_transact := store_transaction legacy artifacts\<rparr>"
  let ?eligible = "Some (auto_eligible (de_local E) (de_settings E) (de_snooze E) (de_now E))"
  from True assms(7) obtain u cs where
    p: "pending_deliveries legacy artifacts ?eligible (de_now E) supply ANNOUNCEMENT_BATCH_LIMIT s = (u, Inr cs)"
    and a: "apply_claims ?E 0 u cs = (t, Inr r)"
    by (auto simp: drain_background_announcements_def split: prod.splits sum.splits)
  from p have loop: "pending_loop (store_transaction legacy artifacts) (claim_command False ?eligible (de_now E))
      supply (nat ANNOUNCEMENT_BATCH_LIMIT) 0 s = (u, Inr cs)"
    by (simp add: pending_deliveries_def ANNOUNCEMENT_BATCH_LIMIT_def)
  from pending_loop_holds [OF assms(1,3) loop] pending_loop_claims [OF assms(1,3) loop] assms(2,4,5,6)
  have "drain_ready legacy artifacts ?E 0 u cs"
    by (force simp: drain_ready_def scan_keeps_def comp_def)
  from apply_claims_applied [OF a this] have ap: "applied ?E u t cs r" .
  then have "store_ok t" "covered t" by (simp_all add: applied_def)
  note kept = kept_is_suppressed [OF this]
  obtain js where js: "suppressed_jobs t = Inr js"
    by (auto simp: suppressed_jobs_def store_list_def read_all_present [OF \<open>store_ok t\<close>])
  from ap kept js have "list_all (\<lambda>c. aj_id (dc_job c) \<in> aj_id ` set js) (dn_desktop r @ dn_deferred r)"
    by (fastforce simp: applied_def list_all_iff)
  with ap js show ?thesis by (simp add: applied_def)
qed

end
