(* ===== verification/Announcement_Examples.thy ===== *)
theory Announcement_Examples imports Announcement_Claims Worker_Examples begin

text \<open>A drain evaluated: the result of a cancelled job is claimed and returned to be spoken.\<close>

definition demo_drain :: drain_env where
  "demo_drain = \<lparr>de_local = (\<lambda>_ _. 600),
     de_settings = \<lparr>as_mode = ModeAll, as_quiet_hours_start = '''', as_quiet_hours_end = '''', as_timezone = ''''\<rparr>,
     de_snooze = None, de_now = 10, de_display = (\<lambda>_. ''done''), de_notify = (\<lambda>_ _. Some NotifySucceeded),
     de_transact = store_transaction (\<lambda>j. j) (\<lambda>_ _. Inr ()),
     de_ids = (\<lambda>m. example_ids\<lparr>ci_command_id := replicate m CHR ''y'' @ ''d''\<rparr>)\<rparr>"

abbreviation demo_eligible :: "stored_job \<Rightarrow> bool" where
  "demo_eligible \<equiv> auto_eligible (de_local demo_drain) (de_settings demo_drain) (de_snooze demo_drain) (de_now demo_drain)"

lemma demo_chosen:
  assumes "aj_status j = JsCancelled"
  shows "chosen (de_local demo_drain) (de_settings demo_drain) (de_snooze demo_drain) (de_now demo_drain) j = Inr DispSpeak"
  using assms by (simp add: chosen_def classify_def disposition_def in_quiet_hours_def demo_drain_def truthy_def)

lemma demo_due: "demo_eligible (stored_of demo_settled)"
  by (simp add: auto_eligible_def demo_chosen announcement_ack_text_def announcement_ack_of_row_def demo_delivery_def)

lemma eligible_claim: "p j \<Longrightarrow> claim_command fg (Some p) now tok j = claim_command fg None now tok j"
  by (simp add: claim_command_def)

lemma due_claim: "claim_command False (Some demo_eligible) 10 ''k'' (stored_of demo_settled) = Inr (Some claimed_record)"
  using claim_evaluated eligible_claim [where p = demo_eligible, OF demo_due] by simp

lemma due_committed:
  "store_transaction (\<lambda>j. j) (\<lambda>_ _. Inr ()) demo_store
     (delivery_call ''0123456789ab'' (claim_command False (Some demo_eligible) 10 ''k'') example_ids)
   = Inr (claimed_store, Some claimed_record)"
proof -
  let ?call = "delivery_call ''0123456789ab'' (claim_command False (Some demo_eligible) 10 ''k'') example_ids"
  have "store_transaction (\<lambda>j. j) (\<lambda>_ _. Inr ()) demo_store ?call
    = Inr (demo_store\<lparr>js_db := (js_db demo_store)\<lparr>db_events := db_events (js_db demo_store)
          @ [update_event_row ?call (aj_revision claimed_record)],
        db_jobs := (db_jobs (js_db demo_store))(sc_job_id ?call \<mapsto> job_row_of claimed_record)\<rparr>,
      js_reservations := [], js_claims := [(''k'', ''0123456789ab'')]\<rparr>, Some claimed_record)"
  proof (rule transaction_commits)
    show "sc_command ?call (stored_of demo_settled) = Inr (Some claimed_record)"
      using due_claim by (simp add: delivery_call_def)
    show "validate_transition (\<lambda>_. validate_invariants True (full_part claimed_record))
        (agent_part (stored_of demo_settled)) (agent_part claimed_record) = Inr ()"
      using announced_gate by (simp add: claimed_valid del: claimed_sel(10))
  qed (simp_all add: delivery_call_def demo_store_def settled_read unlogged_def load_command_event_def
      maintenance_active_def claimed_normalized claimed_saved [unfolded demo_store_def])
  then show ?thesis
    by (simp add: demo_store_def claimed_store_def delivery_call_def update_event_row_def example_ids_def)
qed

lemma claimed_declined:
  "store_transaction (\<lambda>j. j) (\<lambda>_ _. Inr ()) claimed_store
     (delivery_call ''0123456789ab'' (claim_command False (Some demo_eligible) 10 tok)
        (example_ids\<lparr>ci_command_id := ''xc''\<rparr>)) = Inr (claimed_store, None)"
proof -
  have "claim_command False (Some demo_eligible) 10 tok claimed_record = Inr None"
    by (rule claim_command_live [OF delivery_of_settled(2) [unfolded claimed_state_def]])
  then show ?thesis
    by (simp add: store_transaction_def delivery_call_def claimed_store_def load_command_event_def
        maintenance_active_def claimed_read job_row_of_def apply_command_def Let_def)
qed

lemma demo_drained:
  "drain_background_announcements (\<lambda>j. j) (\<lambda>_ _. Inr ()) demo_drain demo_supply True demo_store
   = (claimed_store, Inr (nothing_drained\<lparr>dn_speak := [\<lparr>dc_job = claimed_record, dc_token = ''k''\<rparr>]\<rparr>))"
proof -
  have sup: "demo_supply 0 = (''k'', example_ids)" "demo_supply 1 = (''xk'', example_ids\<lparr>ci_command_id := ''xc''\<rparr>)"
    by (simp_all add: demo_supply_def example_ids_def)
  have now: "de_now demo_drain = 10" by (simp add: demo_drain_def)
  have lists: "store_list demo_store = Inr [stored_of demo_settled]" "store_list claimed_store = Inr [claimed_record]"
    by (simp_all add: store_list_def demo_store_def claimed_store_def job_row_of_def settled_read claimed_read)
  have "aj_status claimed_record = JsCancelled" by (simp add: claimed_record_def demo_announced_def)
  note speak = demo_chosen [OF this]
  let ?next = "claim_next (store_transaction (\<lambda>j. j) (\<lambda>_ _. Inr ())) (claim_command False (Some demo_eligible) 10) demo_supply"
  have first: "?next 0 demo_store = (claimed_store, Suc 0, Inr (Some \<lparr>dc_job = claimed_record, dc_token = ''k''\<rparr>))"
    by (simp add: claim_next_def lists sup due_committed)
  have second: "?next (Suc 0) claimed_store = (claimed_store, Suc (Suc 0), Inr None)"
    by (simp add: claim_next_def lists sup [unfolded One_nat_def] claimed_declined)
  have "nat 8 = Suc (Suc 6)" by simp
  then have "pending_deliveries (\<lambda>j. j) (\<lambda>_ _. Inr ()) (Some demo_eligible) 10 demo_supply 8 demo_store
      = (claimed_store, Inr [\<lparr>dc_job = claimed_record, dc_token = ''k''\<rparr>])"
    by (simp only: pending_deliveries_def pending_loop.simps first second prod.case sum.case option.case) simp
  then show ?thesis
    using speak by (simp add: drain_background_announcements_def now ANNOUNCEMENT_BATCH_LIMIT_def nothing_drained_def)
qed

lemma drain_speaks_only_what_it_holds_witness:
  "holds 10 claimed_store \<lparr>dc_job = claimed_record, dc_token = ''k''\<rparr>"
proof -
  have covered: "covered demo_store" by (simp add: covered_def demo_store_def)
  have ids: "ci_command_id (de_ids demo_drain m) = replicate m CHR ''y'' @ ''d''" for m
    by (simp add: demo_drain_def)
  have "inj (\<lambda>m. ci_command_id (de_ids demo_drain m))" by (rule injI) (simp add: ids)
  moreover have "unlogged_id demo_store (ci_command_id (de_ids demo_drain m))" for m
    by (simp add: demo_store_def load_command_event_def)
  moreover have "ci_command_id (de_ids demo_drain m) \<noteq> ci_command_id (snd (demo_supply k))" for m k
    by (simp add: ids demo_supply_def)
  ultimately show ?thesis
    using drain_speaks_only_what_it_holds [OF demo_store_ok covered demo_fresh _ _ _ demo_drained]
    by (simp add: nothing_drained_def demo_drain_def)
qed

end
