(* ===== verification/Activation_Journal.thy ===== *)
theory Activation_Journal imports Prelude begin

text \<open>
  The durable journal of \<open>config_activation.py\<close>: one record of a confirmed configuration change that
  still has to be activated by restarting services, and the transitions of \<open>ActivationStore\<close>.

  The journal file is an optional record; a transition reads it under the lock and writes the
  result, or raises and leaves it. A configuration is its digest and its voice.
\<close>

section \<open>Records\<close>

datatype activation_status =
    AcOffered | AcAccepted | AcReady | AcValidating | AcRestarting | AcRollingBack
  | AcSucceeded | AcPartial | AcFailed | AcDeclined

definition FINAL_STATES :: "activation_status set" where
  "FINAL_STATES = {AcSucceeded, AcPartial, AcFailed, AcDeclined}"

datatype activation_decision = DecActivate | DecDecline | DecNone

datatype activation_delivery_kind = DelOffer | DelPreRestart | DelResult

datatype outcome_status = OutPending | OutSucceeded | OutFailed

datatype setting_value = TextValue string | FlagValue bool

record service_snapshot =
  sn_installed :: bool
  sn_active_state :: string
  sn_sub_state :: string
  sn_invocation_id :: string
  sn_process_start :: string
  sn_config_digest :: string
  sn_voice :: string

definition snapshot_identity :: "service_snapshot \<Rightarrow> string \<times> string" where
  "snapshot_identity s = (sn_invocation_id s, sn_process_start s)"

record service_outcome =
  so_service :: string
  so_status :: outcome_status
  so_attempted :: bool
  so_before :: "service_snapshot option"
  so_after :: "service_snapshot option"
  so_detail :: string

definition fresh_outcome :: "string \<Rightarrow> service_outcome" where
  "fresh_outcome service = \<lparr>so_service = service, so_status = OutPending, so_attempted = False,
     so_before = None, so_after = None, so_detail = ''''\<rparr>"

record activation_record =
  av_id :: string
  av_setting_key :: string
  av_old_value :: setting_value
  av_new_value :: setting_value
  av_expected_digest :: string
  av_targets :: "string list"
  av_status :: activation_status
  av_outcomes :: "service_outcome list"
  av_offer_delivered :: bool
  av_pre_restart_delivered :: bool
  av_acknowledged :: bool
  av_validation_attempted :: bool
  av_voice_validated :: bool
  av_rollback_restored :: bool
  av_rollback_digest :: string
  av_rollback_outcomes :: "service_outcome list"
  av_detail :: string
  av_created_at :: time
  av_updated_at :: time

text \<open>Errors: the one of the journal, and any other exception with its type's name.\<close>

datatype activation_error = ActivationStateError string | OtherException string string

fun error_text :: "activation_error \<Rightarrow> string" where
  "error_text (ActivationStateError m) = m"
| "error_text (OtherException t m) = m"

fun error_type :: "activation_error \<Rightarrow> string" where
  "error_type (ActivationStateError m) = ''ActivationStateError''"
| "error_type (OtherException t m) = t"

definition audio_voice :: string where "audio_voice = ''audio.voice''"

section \<open>Transitions\<close>

type_synonym transition = "activation_record \<Rightarrow> activation_error + activation_record"

definition guard_status :: "bool \<Rightarrow> string \<Rightarrow> activation_record \<Rightarrow> activation_error + activation_record" where
  "guard_status ok message r = (if ok then Inr r else Inl (ActivationStateError message))"

definition mark_offer_delivered :: transition where
  "mark_offer_delivered r =
     guard_status (av_status r = AcOffered) ''activation offer is no longer pending''
       (r\<lparr>av_offer_delivered := True\<rparr>)"

definition accept_activation :: transition where
  "accept_activation r =
     guard_status (av_status r = AcOffered \<and> av_offer_delivered r) ''activation offer is not ready to accept''
       (r\<lparr>av_status := AcAccepted\<rparr>)"

definition decline_activation :: transition where
  "decline_activation r =
     guard_status (av_status r = AcOffered \<and> av_offer_delivered r) ''activation offer is not ready to decline''
       (r\<lparr>av_status := AcDeclined,
          av_detail := ''The saved change was not activated; no service was restarted.''\<rparr>)"

definition mark_pre_restart_delivered :: transition where
  "mark_pre_restart_delivered r =
     guard_status (av_status r = AcAccepted) ''activation request is not awaiting delivery''
       (r\<lparr>av_status := AcReady, av_pre_restart_delivered := True\<rparr>)"

definition begin_voice_validation :: transition where
  "begin_voice_validation r =
     guard_status (av_status r = AcReady \<and> av_setting_key r = audio_voice \<and> \<not> av_validation_attempted r)
       ''voice activation is not ready to validate''
       (r\<lparr>av_status := AcValidating, av_validation_attempted := True\<rparr>)"

definition mark_voice_validated :: transition where
  "mark_voice_validated r =
     guard_status (av_status r = AcValidating) ''voice activation is not validating''
       (r\<lparr>av_status := AcReady, av_voice_validated := True\<rparr>)"

definition is_digest :: "string \<Rightarrow> bool" where
  "is_digest d \<longleftrightarrow> length d = 64 \<and> list_all (\<lambda>c. c \<in> set ''0123456789abcdef'') d"

definition update_voice_activation_digest :: "string \<Rightarrow> transition" where
  "update_voice_activation_digest digest r =
     (if av_status r \<noteq> AcReady \<or> av_setting_key r \<noteq> audio_voice \<or> \<not> av_voice_validated r
      then Inl (ActivationStateError ''voice activation snapshot is not ready to update'')
      else guard_status (is_digest digest) ''voice activation digest is invalid''
             (r\<lparr>av_expected_digest := digest\<rparr>))"

definition begin_rollback :: "string \<Rightarrow> transition" where
  "begin_rollback detail r =
     guard_status (av_setting_key r = audio_voice \<and> av_status r \<in> {AcReady, AcValidating, AcRestarting})
       ''voice activation cannot be rolled back''
       (r\<lparr>av_status := AcRollingBack, av_rollback_outcomes := map fresh_outcome (av_targets r),
          av_detail := detail\<rparr>)"

definition mark_rollback_config_restored :: "string \<Rightarrow> transition" where
  "mark_rollback_config_restored digest r =
     (if av_status r \<noteq> AcRollingBack then Inl (ActivationStateError ''voice activation is not rolling back'')
      else guard_status (is_digest digest) ''voice rollback digest is invalid''
             (r\<lparr>av_rollback_restored := True, av_rollback_digest := digest\<rparr>))"

definition replace_outcome :: "service_outcome \<Rightarrow> service_outcome list \<Rightarrow> service_outcome list" where
  "replace_outcome new outcomes = map (\<lambda>item. if so_service item = so_service new then new else item) outcomes"

definition update_rollback_outcome :: "service_outcome \<Rightarrow> transition" where
  "update_rollback_outcome new r =
     (if av_status r \<noteq> AcRollingBack then Inl (ActivationStateError ''voice activation is not rolling back'')
      else guard_status (so_service new \<in> set (av_targets r)) ''service is not a rollback target''
             (r\<lparr>av_rollback_outcomes := replace_outcome new (av_rollback_outcomes r)\<rparr>))"

definition begin_restart :: "service_outcome list \<Rightarrow> transition" where
  "begin_restart outcomes r =
     guard_status (av_status r = AcReady) ''activation request is not ready''
       (r\<lparr>av_status := AcRestarting, av_outcomes := outcomes\<rparr>)"

definition update_outcome :: "service_outcome \<Rightarrow> transition" where
  "update_outcome new r =
     (if av_status r \<noteq> AcRestarting then Inl (ActivationStateError ''activation request is not restarting'')
      else guard_status (so_service new \<in> set (av_targets r)) ''service is not an activation target''
             (r\<lparr>av_outcomes := replace_outcome new (av_outcomes r)\<rparr>))"

text \<open>The check of \<open>finish\<close> is on the new status alone.\<close>

definition finish_activation :: "activation_status \<Rightarrow> string \<Rightarrow> transition" where
  "finish_activation status detail r =
     guard_status (status \<in> FINAL_STATES - {AcDeclined}) ''activation result is not terminal''
       (r\<lparr>av_status := status, av_detail := detail\<rparr>)"

definition fail_worker :: "string \<Rightarrow> transition" where
  "fail_worker detail r =
     guard_status (av_status r \<in> {AcReady, AcValidating, AcRestarting, AcRollingBack})
       ''activation request is not executable'' (r\<lparr>av_status := AcFailed, av_detail := detail\<rparr>)"

definition acknowledge_activation :: transition where
  "acknowledge_activation r =
     guard_status (av_status r \<in> FINAL_STATES) ''activation result is not final''
       (r\<lparr>av_acknowledged := True\<rparr>)"

section \<open>The journal\<close>

definition update_record ::
  "string \<Rightarrow> transition \<Rightarrow> time \<Rightarrow> activation_record option \<Rightarrow> activation_error + activation_record" where
  "update_record record_id f now journal =
     (case journal of
        None \<Rightarrow> Inl (ActivationStateError ''activation request no longer exists'')
      | Some r \<Rightarrow>
          if av_id r \<noteq> record_id then Inl (ActivationStateError ''activation request no longer exists'')
          else rbind (f r) (\<lambda>u. Inr (u\<lparr>av_updated_at := now\<rparr>)))"

record pending_change =
  pc_setting :: string
  pc_old_value :: setting_value
  pc_new_value :: setting_value
  pc_affected_services :: "string list"

definition SERVICE_FILES :: "string list" where
  "SERVICE_FILES =
     [''dictation.service'', ''voice-harness-llm.service'', ''voice-harness-tts.service'',
      ''voice-harness-wake.service'']"

fun first_occurrences :: "string list \<Rightarrow> string list" where
  "first_occurrences [] = []"
| "first_occurrences (x # xs) = x # filter (\<lambda>y. y \<noteq> x) (first_occurrences xs)"

definition offer_record ::
  "pending_change \<Rightarrow> string list \<Rightarrow> string \<Rightarrow> string \<Rightarrow> time \<Rightarrow> activation_record" where
  "offer_record pending targets digest new_id now =
     \<lparr>av_id = new_id, av_setting_key = pc_setting pending, av_old_value = pc_old_value pending,
      av_new_value = pc_new_value pending, av_expected_digest = digest, av_targets = targets,
      av_status = AcOffered, av_outcomes = map fresh_outcome targets, av_offer_delivered = False,
      av_pre_restart_delivered = False, av_acknowledged = False, av_validation_attempted = False,
      av_voice_validated = False, av_rollback_restored = False, av_rollback_digest = '''',
      av_rollback_outcomes = [], av_detail = '''', av_created_at = now, av_updated_at = now\<rparr>"

text \<open>
  (No service of \<open>SERVICE_FILES\<close> is called \<open>herdr\<close> in any case of letters, which is the third
  test of the code.)
\<close>

definition create_offer ::
  "pending_change \<Rightarrow> string list \<Rightarrow> string \<Rightarrow> string \<Rightarrow> time \<Rightarrow> activation_record option \<Rightarrow>
   activation_error + activation_record option" where
  "create_offer pending restart_services digest new_id now journal =
     (let targets = first_occurrences restart_services in
      if targets = [] then Inr None
      else if \<not> list_all (\<lambda>s. s \<in> set SERVICE_FILES \<and> s \<in> set (pc_affected_services pending)) targets
      then Inl (ActivationStateError
        ''activation target was not reported by the typed configuration change'')
      else if (case journal of None \<Rightarrow> False | Some r \<Rightarrow> \<not> av_acknowledged r)
      then Inl (ActivationStateError ''a previous activation result is still awaiting delivery'')
      else Inr (Some (offer_record pending targets digest new_id now)))"

definition next_activation_delivery ::
  "activation_record option \<Rightarrow> (activation_record \<times> activation_delivery_kind) option" where
  "next_activation_delivery journal =
     (case journal of
        None \<Rightarrow> None
      | Some r \<Rightarrow>
          if av_status r = AcOffered \<and> \<not> av_offer_delivered r then Some (r, DelOffer)
          else if av_status r = AcAccepted then Some (r, DelPreRestart)
          else if av_status r \<in> FINAL_STATES \<and> \<not> av_acknowledged r then Some (r, DelResult)
          else None)"

end
