(* ===== verification/Activation_Worker.thy ===== *)
theory Activation_Worker imports Activation_Journal begin

text \<open>
  The executor of \<open>config_activation.py\<close>: \<open>execute_activation\<close>, which validates a voice, restarts
  the targeted services, observes them and rolls a voice back.

  The executor is a program over the journal in which the process may die before any call, other
  processes change the journal between any two calls, and every call outside the journal is
  answered by the environment (\<open>act_env\<close>), all depending on the number of the call. The world keeps
  the journal, the records it held before, the answers of the user the journal took, and a log of
  the restarts and validations requested.
\<close>

section \<open>The world\<close>

record config_view =
  cf_digest :: string
  cf_voice :: string

text \<open>What the other processes do: the wake daemon tells the user, asks, and gives up on workers.\<close>

datatype journal_op =
    OfferDelivered string
  | AcceptOffer string
  | DeclineOffer string
  | PreRestartDelivered string
  | BeginRollback string string
  | FailWorker string string
  | AcknowledgeResult string
  | CreateOffer pending_change "string list" string string

record act_world =
  wd_journal :: "activation_record option"
  wd_past :: "activation_record list"
  wd_calls :: nat
  wd_answers :: "(string \<times> bool) list"
  wd_restarts :: "(string \<times> bool \<times> string) list"
  wd_validations :: "string list"

record act_env =
  en_others :: "nat \<Rightarrow> journal_op list"
  en_dies :: "nat \<Rightarrow> bool"
  en_now :: "nat \<Rightarrow> time"
  en_config :: "nat \<Rightarrow> activation_error + config_view"
  en_snapshot :: "nat \<Rightarrow> string \<Rightarrow> activation_error + service_snapshot"
  en_restart :: "nat \<Rightarrow> string \<Rightarrow> activation_error option"
  en_observed :: "nat \<Rightarrow> string \<Rightarrow> activation_error + service_snapshot \<times> service_snapshot list"
  en_validate :: "nat \<Rightarrow> string \<Rightarrow> activation_error + bool \<times> string"
  en_restore :: "nat \<Rightarrow> string \<Rightarrow> string \<Rightarrow> activation_error + config_view"

definition all_records :: "act_world \<Rightarrow> activation_record list" where
  "all_records w = (case wd_journal w of None \<Rightarrow> wd_past w | Some r \<Rightarrow> r # wd_past w)"

definition journal_update :: "string \<Rightarrow> transition \<Rightarrow> time \<Rightarrow> act_world \<Rightarrow> activation_error + act_world \<times> activation_record" where
  "journal_update record_id f now w =
     rbind (update_record record_id f now (wd_journal w)) (\<lambda>r. Inr (w\<lparr>wd_journal := Some r\<rparr>, r))"

definition other_update :: "string \<Rightarrow> transition \<Rightarrow> time \<Rightarrow> act_world \<Rightarrow> act_world" where
  "other_update record_id f now w =
     (case journal_update record_id f now w of Inl _ \<Rightarrow> w | Inr (w', _) \<Rightarrow> w')"

text \<open>The user's answer to an offer: \<open>accept\<close> or \<open>decline\<close>, logged when the journal takes it.\<close>

definition other_answer :: "string \<Rightarrow> bool \<Rightarrow> time \<Rightarrow> act_world \<Rightarrow> act_world" where
  "other_answer record_id yes now w =
     (case journal_update record_id (if yes then accept_activation else decline_activation) now w of
        Inl _ \<Rightarrow> w
      | Inr (w', _) \<Rightarrow> w'\<lparr>wd_answers := wd_answers w @ [(record_id, yes)]\<rparr>)"

text \<open>An offer has an identifier never used before (\<open>uuid4\<close>).\<close>

definition other_offer ::
  "pending_change \<Rightarrow> string list \<Rightarrow> string \<Rightarrow> string \<Rightarrow> time \<Rightarrow> act_world \<Rightarrow> act_world" where
  "other_offer pending services digest new_id now w =
     (if new_id \<in> set (map av_id (all_records w)) then w
      else case create_offer pending services digest new_id now (wd_journal w) of
          Inr (Some r) \<Rightarrow> w\<lparr>wd_journal := Some r, wd_past := all_records w\<rparr>
        | _ \<Rightarrow> w)"

fun perform :: "time \<Rightarrow> act_world \<Rightarrow> journal_op \<Rightarrow> act_world" where
  "perform now w (OfferDelivered i) = other_update i mark_offer_delivered now w"
| "perform now w (AcceptOffer i) = other_answer i True now w"
| "perform now w (DeclineOffer i) = other_answer i False now w"
| "perform now w (PreRestartDelivered i) = other_update i mark_pre_restart_delivered now w"
| "perform now w (BeginRollback i detail) = other_update i (begin_rollback detail) now w"
| "perform now w (FailWorker i detail) = other_update i (fail_worker detail) now w"
| "perform now w (AcknowledgeResult i) = other_update i acknowledge_activation now w"
| "perform now w (CreateOffer pending services digest i) = other_offer pending services digest i now w"

section \<open>Programs\<close>

datatype halt = Died | Raised activation_error

type_synonym 'a act = "act_world \<Rightarrow> act_world \<times> (halt + 'a)"

definition ret :: "'a \<Rightarrow> 'a act" where
  "ret x w = (w, Inr x)"

definition raise_error :: "activation_error \<Rightarrow> 'a act" where
  "raise_error e w = (w, Inl (Raised e))"

definition bind :: "'a act \<Rightarrow> ('a \<Rightarrow> 'b act) \<Rightarrow> 'b act" where
  "bind m f w = (case m w of (w', Inl h) \<Rightarrow> (w', Inl h) | (w', Inr x) \<Rightarrow> f x w')"

text \<open>One call: the others have moved, and the process may be gone.\<close>

definition interfere :: "act_env \<Rightarrow> act_world \<Rightarrow> act_world" where
  "interfere E w =
     (foldl (perform (en_now E (wd_calls w))) w (en_others E (wd_calls w)))\<lparr>wd_calls := Suc (wd_calls w)\<rparr>"

definition call :: "act_env \<Rightarrow> (nat \<Rightarrow> 'a act) \<Rightarrow> 'a act" where
  "call E body w =
     (if en_dies E (wd_calls w) then (interfere E w, Inl Died) else body (wd_calls w) (interfere E w))"

definition answer :: "activation_error + 'a \<Rightarrow> 'a act" where
  "answer r = (case r of Inl e \<Rightarrow> raise_error e | Inr x \<Rightarrow> ret x)"

definition current_record :: "act_env \<Rightarrow> activation_record option act" where
  "current_record E = call E (\<lambda>n w. (w, Inr (wd_journal w)))"

definition store_update :: "act_env \<Rightarrow> string \<Rightarrow> transition \<Rightarrow> activation_record act" where
  "store_update E record_id f =
     call E (\<lambda>n w. case journal_update record_id f (en_now E n) w of
       Inl e \<Rightarrow> (w, Inl (Raised e)) | Inr (w', r) \<Rightarrow> (w', Inr r))"

definition load_config :: "act_env \<Rightarrow> config_view act" where
  "load_config E = call E (\<lambda>n. answer (en_config E n))"

definition take_snapshot :: "act_env \<Rightarrow> string \<Rightarrow> service_snapshot act" where
  "take_snapshot E service = call E (\<lambda>n. answer (en_snapshot E n service))"

text \<open>The restart is requested whether or not the command reports an error.\<close>

definition restart_service :: "act_env \<Rightarrow> string \<Rightarrow> bool \<Rightarrow> string \<Rightarrow> activation_error option act" where
  "restart_service E record_id rollback service =
     call E (\<lambda>n w. (w\<lparr>wd_restarts := wd_restarts w @ [(record_id, rollback, service)]\<rparr>,
       Inr (en_restart E n service)))"

definition validate_voice :: "act_env \<Rightarrow> string \<Rightarrow> string \<Rightarrow> (activation_error + bool \<times> string) act" where
  "validate_voice E record_id voice =
     call E (\<lambda>n w. (w\<lparr>wd_validations := wd_validations w @ [record_id]\<rparr>, Inr (en_validate E n voice)))"

definition restore_voice :: "act_env \<Rightarrow> string \<Rightarrow> string \<Rightarrow> (activation_error + config_view) act" where
  "restore_voice E old new = call E (\<lambda>n w. (w, Inr (en_restore E n old new)))"

section \<open>Observing a restart\<close>

definition matches_expected_snapshot :: "service_snapshot \<Rightarrow> string \<Rightarrow> string option \<Rightarrow> bool" where
  "matches_expected_snapshot s digest voice \<longleftrightarrow>
     sn_config_digest s = digest
     \<or> (voice \<noteq> None \<and> sn_voice s = the voice \<and> is_digest (sn_config_digest s))"

definition identity_changed :: "service_outcome \<Rightarrow> service_snapshot \<Rightarrow> bool" where
  "identity_changed outcome after \<longleftrightarrow>
     (case so_before outcome of
        None \<Rightarrow> False
      | Some before \<Rightarrow> snapshot_identity after \<noteq> snapshot_identity before
          \<and> (truthy (sn_invocation_id after) \<or> truthy (sn_process_start after)))"

definition restarted_as_expected :: "service_outcome \<Rightarrow> string \<Rightarrow> string option \<Rightarrow> service_snapshot \<Rightarrow> bool" where
  "restarted_as_expected outcome digest voice after \<longleftrightarrow>
     sn_active_state after = ''active'' \<and> identity_changed outcome after
     \<and> matches_expected_snapshot after digest voice"

text \<open>The snapshots taken before the deadline; the last one is judged.\<close>

fun await_restart ::
  "service_outcome \<Rightarrow> string \<Rightarrow> string option \<Rightarrow> service_snapshot \<Rightarrow> service_snapshot list \<Rightarrow> service_snapshot" where
  "await_restart outcome digest voice after [] = after"
| "await_restart outcome digest voice after (s # polls) =
     (if restarted_as_expected outcome digest voice after then after
      else await_restart outcome digest voice s polls)"

definition failure_reasons :: "service_outcome \<Rightarrow> string \<Rightarrow> string option \<Rightarrow> service_snapshot \<Rightarrow> string list" where
  "failure_reasons outcome digest voice after =
     (if sn_installed after then [] else [''service is no longer installed''])
     @ (if sn_active_state after = ''active'' then [] else [''service state is '' @ sn_active_state after])
     @ (if identity_changed outcome after then [] else [''restart invocation was not observed''])
     @ (if matches_expected_snapshot after digest voice then []
        else [''expected configuration or voice snapshot was not observed''])"

definition judge_restart ::
  "service_outcome \<Rightarrow> string \<Rightarrow> string option \<Rightarrow> service_snapshot \<Rightarrow> service_outcome" where
  "judge_restart outcome digest voice after =
     (if sn_installed after \<and> restarted_as_expected outcome digest voice after
      then outcome\<lparr>so_status := OutSucceeded, so_after := Some after,
        so_detail := (if sn_config_digest after = digest then ''active with the expected immutable snapshot''
                      else ''active with the expected voice snapshot'')\<rparr>
      else outcome\<lparr>so_status := OutFailed, so_after := Some after,
        so_detail := or_str (Some (join_comma (failure_reasons outcome digest voice after)))
                       ''restart outcome is ambiguous''\<rparr>)"

definition observe_restart :: "act_env \<Rightarrow> service_outcome \<Rightarrow> string \<Rightarrow> string option \<Rightarrow> service_outcome act" where
  "observe_restart E outcome digest voice =
     bind (call E (\<lambda>n. answer (en_observed E n (so_service outcome)))) (\<lambda>(first, polls).
       ret (judge_restart outcome digest voice (await_restart outcome digest voice first polls)))"

text \<open>A restart that raised is observed too; only a failure mentions the error.\<close>

definition with_restart_error :: "string \<Rightarrow> activation_error option \<Rightarrow> service_outcome \<Rightarrow> service_outcome" where
  "with_restart_error prefix failed observed =
     (case failed of
        None \<Rightarrow> observed
      | Some e \<Rightarrow>
          if so_status observed = OutFailed
          then observed\<lparr>so_detail := prefix @ error_text e @ ''; '' @ so_detail observed\<rparr>
          else observed)"

definition restart_and_observe ::
  "act_env \<Rightarrow> string \<Rightarrow> bool \<Rightarrow> string \<Rightarrow> service_outcome \<Rightarrow> string \<Rightarrow> string option \<Rightarrow> service_outcome act" where
  "restart_and_observe E record_id rollback prefix attempted digest voice =
     bind (restart_service E record_id rollback (so_service attempted)) (\<lambda>failed.
     bind (observe_restart E attempted digest voice) (\<lambda>observed.
       ret (with_restart_error prefix failed observed)))"

section \<open>Rolling a voice back\<close>

definition not_running :: "service_snapshot \<Rightarrow> string" where
  "not_running before =
     (if \<not> sn_installed before then ''service is not installed''
      else ''service is '' @ sn_active_state before @ ''; it was not started'')"

definition is_running :: "service_snapshot \<Rightarrow> bool" where
  "is_running s \<longleftrightarrow> sn_installed s \<and> sn_active_state s = ''active''"

definition rollback_one ::
  "act_env \<Rightarrow> string \<Rightarrow> string \<Rightarrow> service_outcome \<Rightarrow> activation_record act" where
  "rollback_one E record_id digest outcome =
     bind (case so_before outcome of Some s \<Rightarrow> ret s | None \<Rightarrow> take_snapshot E (so_service outcome)) (\<lambda>before.
       if is_running before \<and> sn_config_digest before = digest
       then store_update E record_id (update_rollback_outcome
              (outcome\<lparr>so_status := OutSucceeded, so_before := Some before, so_after := Some before,
                 so_detail := ''already active with the previous immutable snapshot''\<rparr>))
       else if \<not> is_running before
       then store_update E record_id (update_rollback_outcome
              (outcome\<lparr>so_status := OutFailed, so_before := Some before, so_detail := not_running before\<rparr>))
       else
         let pending = outcome\<lparr>so_before := Some before\<rparr> in
         if so_attempted pending
         then bind (observe_restart E pending digest None) (\<lambda>observed.
              store_update E record_id (update_rollback_outcome observed))
         else
           let attempted = pending\<lparr>so_attempted := True\<rparr> in
           bind (store_update E record_id (update_rollback_outcome attempted)) (\<lambda>_.
           bind (restart_and_observe E record_id True ''rollback restart command failed: '' attempted digest None)
             (\<lambda>observed. store_update E record_id (update_rollback_outcome observed))))"

fun rollback_loop ::
  "act_env \<Rightarrow> string \<Rightarrow> activation_record \<Rightarrow> service_outcome list \<Rightarrow> activation_record act" where
  "rollback_loop E digest r [] = ret r"
| "rollback_loop E digest r (outcome # outcomes) =
     (if so_status outcome \<noteq> OutPending then rollback_loop E digest r outcomes
      else bind (rollback_one E (av_id r) digest outcome) (\<lambda>r'. rollback_loop E digest r' outcomes))"

definition finish_record :: "act_env \<Rightarrow> activation_record \<Rightarrow> activation_status \<Rightarrow> string \<Rightarrow> activation_record act" where
  "finish_record E r status detail = store_update E (av_id r) (finish_activation status detail)"

fun join_semicolon_blank :: "string list \<Rightarrow> string" where
  "join_semicolon_blank [] = []"
| "join_semicolon_blank [x] = x"
| "join_semicolon_blank (x # xs) = x @ ''; '' @ join_semicolon_blank xs"

definition outcome_reports :: "service_outcome list \<Rightarrow> string" where
  "outcome_reports outcomes =
     join_semicolon_blank (map (\<lambda>o'. so_service o' @ '': '' @ so_detail o') outcomes)"

definition rollback_services ::
  "act_env \<Rightarrow> activation_record \<Rightarrow> activation_record act" where
  "rollback_services E r =
     (let digest = av_rollback_digest r in
      bind (rollback_loop E digest r (av_rollback_outcomes r)) (\<lambda>r.
      bind (load_config E) (\<lambda>config.
        let failed = filter (\<lambda>o'. so_status o' \<noteq> OutSucceeded) (av_rollback_outcomes r) in
        if cf_digest config \<noteq> digest
        then finish_record E r AcFailed
               (av_detail r @ '' The previous voice could not be proven after restoration.'')
        else if failed \<noteq> []
        then finish_record E r AcFailed
               (av_detail r @ '' The previous voice was restored, but its service snapshot could not be fully restored: ''
                @ outcome_reports failed)
        else finish_record E r AcFailed
               (av_detail r @ '' The previous voice and service snapshot were restored.''))))"

definition execute_voice_rollback :: "act_env \<Rightarrow> activation_record \<Rightarrow> activation_record act" where
  "execute_voice_rollback E r =
     (case (av_old_value r, av_new_value r) of
        (TextValue old, TextValue new) \<Rightarrow>
          bind (load_config E) (\<lambda>current.
            if \<not> av_rollback_restored r
            then (
              if cf_voice current = old
              then bind (store_update E (av_id r) (mark_rollback_config_restored (cf_digest current)))
                     (rollback_services E)
              else if cf_voice current = new
              then bind (restore_voice E old new) (\<lambda>result.
                case result of
                  Inl e \<Rightarrow> finish_record E r AcFailed
                    (av_detail r @ '' Restoring the previous voice failed: '' @ error_type e @ '': '' @ error_text e)
                | Inr restored \<Rightarrow>
                    if cf_voice restored \<noteq> old
                    then finish_record E r AcFailed
                      (av_detail r @ '' Restoring the previous voice did not restore the expected voice value.'')
                    else bind (store_update E (av_id r) (mark_rollback_config_restored (cf_digest restored)))
                           (rollback_services E))
              else finish_record E r AcFailed
                (av_detail r @ '' The stored voice changed during recovery, so the replacement voice was not overwritten.''))
            else if \<not> truthy (av_rollback_digest r)
            then (
              if cf_voice current \<noteq> old
              then finish_record E r AcFailed
                (av_detail r @ '' The restored voice could not be proven after journal recovery.'')
              else bind (store_update E (av_id r) (mark_rollback_config_restored (cf_digest current)))
                     (rollback_services E))
            else rollback_services E r)
      | _ \<Rightarrow> finish_record E r AcFailed (av_detail r @ '' The voice rollback values were invalid.''))"

definition roll_back :: "act_env \<Rightarrow> activation_record \<Rightarrow> string \<Rightarrow> activation_record act" where
  "roll_back E r detail =
     bind (store_update E (av_id r) (begin_rollback detail)) (execute_voice_rollback E)"

section \<open>Restarting the services\<close>

definition owns_voice :: "activation_record \<Rightarrow> config_view \<Rightarrow> bool" where
  "owns_voice r config \<longleftrightarrow> av_new_value r = TextValue (cf_voice config)"

definition is_voice :: "activation_record \<Rightarrow> bool" where
  "is_voice r \<longleftrightarrow> av_setting_key r = audio_voice"

definition expected_voice :: "activation_record \<Rightarrow> string option" where
  "expected_voice r =
     (if is_voice r then (case av_new_value r of TextValue v \<Rightarrow> Some v | FlagValue _ \<Rightarrow> None) else None)"

definition restart_one :: "act_env \<Rightarrow> activation_record \<Rightarrow> string option \<Rightarrow> service_outcome \<Rightarrow> activation_record act" where
  "restart_one E r voice outcome =
     (if so_attempted outcome
      then bind (observe_restart E outcome (av_expected_digest r) voice) (\<lambda>reconciled.
           store_update E (av_id r) (update_outcome reconciled))
      else
        let attempted = outcome\<lparr>so_attempted := True\<rparr> in
        bind (store_update E (av_id r) (update_outcome attempted)) (\<lambda>r.
        bind (restart_and_observe E (av_id r) False ''restart command failed: '' attempted
                (av_expected_digest r) voice) (\<lambda>observed.
          store_update E (av_id r) (update_outcome observed))))"

fun restart_loop ::
  "act_env \<Rightarrow> string option \<Rightarrow> activation_record \<Rightarrow> service_outcome list \<Rightarrow> activation_record act" where
  "restart_loop E voice r [] = ret r"
| "restart_loop E voice r (outcome # outcomes) =
     (if so_status outcome \<noteq> OutPending then restart_loop E voice r outcomes
      else bind (restart_one E r voice outcome) (\<lambda>r'. restart_loop E voice r' outcomes))"

definition failed_outcomes :: "service_outcome list \<Rightarrow> service_outcome list" where
  "failed_outcomes = filter (\<lambda>o'. so_status o' = OutFailed)"

definition conclude_activation :: "act_env \<Rightarrow> activation_record \<Rightarrow> activation_record act" where
  "conclude_activation E r =
     bind (load_config E) (\<lambda>final_config.
       let outcomes = av_outcomes r;
           succeeded = length (filter (\<lambda>o'. so_status o' = OutSucceeded) outcomes);
           stored_matches = (cf_digest final_config = av_expected_digest r);
           voice_owned = (is_voice r \<and> owns_voice r final_config);
           failures = outcome_reports (failed_outcomes outcomes) in
       if is_voice r \<and> (\<not> voice_owned \<or> succeeded \<noteq> length outcomes)
       then roll_back E r
         (if \<not> voice_owned then ''Voice usability was proven, but stored voice ownership was lost.''
          else ''Voice usability was proven, but the candidate service snapshot was not fully activated''
               @ (if truthy failures then '': '' @ failures else ''.''))
       else if is_voice r \<and> succeeded = length outcomes
       then finish_record E r AcSucceeded
         ''The selected TTS provider accepted the voice and all targeted services loaded the expected voice snapshot.''
       else if \<not> stored_matches
       then finish_record E r (if succeeded \<noteq> 0 then AcPartial else AcFailed)
         ''Service actions completed, but the expected config is no longer stored.''
       else if succeeded = length outcomes
       then finish_record E r AcSucceeded ''All targeted services loaded the expected configuration.''
       else if succeeded \<noteq> 0 then finish_record E r AcPartial failures
       else finish_record E r AcFailed (outcome_reports outcomes))"

definition restart_services :: "act_env \<Rightarrow> activation_record \<Rightarrow> activation_record act" where
  "restart_services E r =
     (if av_status r \<noteq> AcRestarting
      then raise_error (ActivationStateError ''activation request is not executable'')
      else bind (restart_loop E (expected_voice r) r (av_outcomes r)) (conclude_activation E))"

definition initial_outcome :: "service_outcome \<Rightarrow> service_snapshot \<Rightarrow> service_outcome" where
  "initial_outcome outcome before =
     (if is_running before then outcome\<lparr>so_before := Some before\<rparr>
      else outcome\<lparr>so_status := OutFailed, so_before := Some before, so_detail := not_running before\<rparr>)"

fun initial_outcomes :: "act_env \<Rightarrow> service_outcome list \<Rightarrow> service_outcome list act" where
  "initial_outcomes E [] = ret []"
| "initial_outcomes E (outcome # outcomes) =
     bind (take_snapshot E (so_service outcome)) (\<lambda>before.
     bind (initial_outcomes E outcomes) (\<lambda>rest. ret (initial_outcome outcome before # rest)))"

definition begin_services :: "act_env \<Rightarrow> activation_record \<Rightarrow> activation_record act" where
  "begin_services E r =
     (if av_status r = AcReady
      then bind (initial_outcomes E (av_outcomes r)) (\<lambda>initial.
           bind (store_update E (av_id r) (begin_restart initial)) (restart_services E))
      else restart_services E r)"

section \<open>Execution\<close>

definition prepare_voice :: "act_env \<Rightarrow> activation_record \<Rightarrow> activation_record act" where
  "prepare_voice E r =
     (if is_voice r \<and> av_status r = AcReady
      then bind (load_config E) (\<lambda>effective.
        if \<not> owns_voice r effective
        then roll_back E r ''The stored voice changed before the service restart.''
        else if cf_digest effective \<noteq> av_expected_digest r
        then bind (store_update E (av_id r) (update_voice_activation_digest (cf_digest effective)))
               (begin_services E)
        else begin_services E r)
      else begin_services E r)"

definition validation_result :: "activation_error + bool \<times> string \<Rightarrow> bool \<times> string" where
  "validation_result result =
     (case result of
        Inr x \<Rightarrow> x
      | Inl e \<Rightarrow> (False, ''TTS validation failed: '' @ error_type e @ '': '' @ error_text e))"

definition check_voice :: "act_env \<Rightarrow> activation_record \<Rightarrow> activation_record act" where
  "check_voice E r =
     (if is_voice r \<and> av_status r = AcReady \<and> \<not> av_voice_validated r
      then (case av_new_value r of
          FlagValue _ \<Rightarrow> roll_back E r ''Voice activation carried an invalid candidate value.''
        | TextValue voice \<Rightarrow>
            bind (store_update E (av_id r) begin_voice_validation) (\<lambda>r.
            bind (validate_voice E (av_id r) voice) (\<lambda>result.
              let (usable, detail) = validation_result result in
              if usable then bind (store_update E (av_id r) mark_voice_validated) (prepare_voice E)
              else roll_back E r (''Voice '' @ py_repr voice @ '' was not usable: '' @ detail))))
      else prepare_voice E r)"

text \<open>A configuration that changed: a voice still owned goes on, a lost one is rolled back.\<close>

definition check_config :: "act_env \<Rightarrow> activation_record \<Rightarrow> activation_record act" where
  "check_config E r =
     bind (load_config E) (\<lambda>stored.
       if cf_digest stored = av_expected_digest r then check_voice E r
       else if is_voice r \<and> av_status r \<in> {AcReady, AcRestarting}
       then (if owns_voice r stored then check_voice E r
             else roll_back E r ''The stored voice changed before voice activation completed.'')
       else bind (if av_status r = AcReady then store_update E (av_id r) (begin_restart (av_outcomes r)) else ret r)
         (\<lambda>r. finish_record E r AcFailed ''The stored configuration changed before activation.''))"

definition execute_activation :: "act_env \<Rightarrow> string \<Rightarrow> activation_record act" where
  "execute_activation E record_id =
     bind (current_record E) (\<lambda>journal.
       case journal of
         None \<Rightarrow> raise_error (ActivationStateError ''activation request no longer exists'')
       | Some r \<Rightarrow>
           if av_id r \<noteq> record_id
           then raise_error (ActivationStateError ''activation request no longer exists'')
           else if av_status r \<in> FINAL_STATES then ret r
           else if av_status r = AcRollingBack then execute_voice_rollback E r
           else if av_status r = AcValidating
           then roll_back E r
             ''Voice usability validation was attempted, but its result was not durably recorded. Validation was not repeated.''
           else check_config E r)"

text \<open>Executions one after the other (they hold a lock), each in its own environment.\<close>

fun run_executions :: "(act_env \<times> string) list \<Rightarrow> act_world \<Rightarrow> act_world" where
  "run_executions [] w = w"
| "run_executions ((E, record_id) # runs) w = run_executions runs (fst (execute_activation E record_id w))"

definition empty_world :: act_world where
  "empty_world = \<lparr>wd_journal = None, wd_past = [], wd_calls = 0, wd_answers = [], wd_restarts = [],
     wd_validations = []\<rparr>"

end
