(* ===== verification/Activation_Invariant.thy ===== *)
theory Activation_Invariant imports Activation_Worker begin

text \<open>
  The invariant of a world of activations: what the log of restarts and validations says of each
  record, and that whatever the wake daemon does to the journal keeps it.
\<close>

section \<open>The invariant of a record\<close>

fun stage :: "activation_status \<Rightarrow> nat" where
  "stage AcRestarting = 1"
| "stage AcRollingBack = 2"
| "stage AcSucceeded = 3"
| "stage AcPartial = 3"
| "stage AcFailed = 3"
| "stage AcDeclined = 3"
| "stage _ = 0"

lemma stage_final [simp]: "s \<in> FINAL_STATES \<Longrightarrow> stage s = 3"
  by (auto simp: FINAL_STATES_def)

definition outcomes_of :: "bool \<Rightarrow> activation_record \<Rightarrow> service_outcome list" where
  "outcomes_of rollback r = (if rollback then av_rollback_outcomes r else av_outcomes r)"

definition attempted_on :: "activation_record \<Rightarrow> bool \<Rightarrow> string \<Rightarrow> bool" where
  "attempted_on r rollback s \<longleftrightarrow>
     (\<exists>o' \<in> set (outcomes_of rollback r). so_service o' = s \<and> so_attempted o')"

text \<open>What a successful outcome has seen.\<close>

definition seen_active :: "string \<Rightarrow> string option \<Rightarrow> service_outcome \<Rightarrow> bool" where
  "seen_active digest voice o' \<longleftrightarrow>
     (\<exists>after. so_after o' = Some after \<and> sn_installed after \<and> restarted_as_expected o' digest voice after)"

definition told :: "activation_record \<Rightarrow> bool" where
  "told r \<longleftrightarrow> av_offer_delivered r \<and> av_pre_restart_delivered r"

definition status_ok :: "activation_record \<Rightarrow> bool" where
  "status_ok r \<longleftrightarrow>
     (av_status r = AcAccepted \<longrightarrow> av_offer_delivered r)
     \<and> (av_status r \<in> {AcReady, AcValidating, AcRestarting, AcRollingBack} \<longrightarrow> told r)"

definition voice_ok :: "activation_record \<Rightarrow> bool" where
  "voice_ok r \<longleftrightarrow>
     (av_status r = AcValidating \<longrightarrow> is_voice r)
     \<and> (stage (av_status r) = 0 \<and> av_status r \<noteq> AcValidating \<and> av_validation_attempted r \<longrightarrow>
          av_voice_validated r)"

definition static_ok :: "activation_record \<Rightarrow> bool" where
  "static_ok r \<longleftrightarrow>
     distinct (av_targets r) \<and> set (av_targets r) \<subseteq> set SERVICE_FILES
     \<and> map so_service (av_outcomes r) = av_targets r
     \<and> (av_rollback_outcomes r = [] \<or> map so_service (av_rollback_outcomes r) = av_targets r)
     \<and> status_ok r \<and> voice_ok r
     \<and> (stage (av_status r) = 0 \<longrightarrow> av_outcomes r = map fresh_outcome (av_targets r))
     \<and> (\<forall>o' \<in> set (av_outcomes r). so_status o' = OutSucceeded \<longrightarrow>
          seen_active (av_expected_digest r) (expected_voice r) o')
     \<and> (av_status r = AcSucceeded \<longrightarrow> (\<forall>o' \<in> set (av_outcomes r). so_status o' = OutSucceeded))
     \<and> (av_status r = AcRestarting \<and> is_voice r \<longrightarrow> av_voice_validated r)"

definition log_ok :: "(bool \<times> string) set \<Rightarrow> bool \<Rightarrow> activation_record \<Rightarrow> bool" where
  "log_ok L v r \<longleftrightarrow>
     (\<forall>rollback s. (rollback, s) \<in> L \<longrightarrow>
        attempted_on r rollback s \<and> told r \<and> s \<in> set (av_targets r)
        \<and> (if rollback then 2 else 1) \<le> stage (av_status r)
        \<and> (\<not> rollback \<and> is_voice r \<longrightarrow> av_voice_validated r))
     \<and> (v \<longrightarrow> av_validation_attempted r)"

definition logged :: "act_world \<Rightarrow> string \<Rightarrow> (bool \<times> string) set" where
  "logged w i = {(rollback, s). (i, rollback, s) \<in> set (wd_restarts w)}"

definition rec_ok :: "act_world \<Rightarrow> activation_record \<Rightarrow> bool" where
  "rec_ok w r \<longleftrightarrow> static_ok r \<and> log_ok (logged w (av_id r)) (av_id r \<in> set (wd_validations w)) r"

definition safe :: "act_world \<Rightarrow> bool" where
  "safe w \<longleftrightarrow>
     distinct (wd_restarts w) \<and> distinct (wd_validations w)
     \<and> distinct (map av_id (all_records w)) \<and> (\<forall>r \<in> set (all_records w). rec_ok w r)
     \<and> fst ` set (wd_restarts w) \<subseteq> av_id ` set (all_records w)
     \<and> set (wd_validations w) \<subseteq> av_id ` set (all_records w)"

section \<open>What others may do to a record\<close>

text \<open>\<open>later r j\<close>: \<open>j\<close> is \<open>r\<close> after updates by others.\<close>

definition later :: "activation_record \<Rightarrow> activation_record \<Rightarrow> bool" where
  "later r j \<longleftrightarrow>
     av_id j = av_id r \<and> av_targets j = av_targets r \<and> av_setting_key j = av_setting_key r
     \<and> av_new_value j = av_new_value r \<and> av_outcomes j = av_outcomes r
     \<and> av_expected_digest j = av_expected_digest r \<and> av_voice_validated j = av_voice_validated r
     \<and> av_validation_attempted j = av_validation_attempted r
     \<and> (told r \<longrightarrow> told j) \<and> stage (av_status r) \<le> stage (av_status j)
     \<and> (2 \<le> stage (av_status r) \<longrightarrow> av_rollback_outcomes j = av_rollback_outcomes r)"

lemma later_refl [simp]: "later r r"
  by (simp add: later_def)

lemma later_trans: "later r j \<Longrightarrow> later j k \<Longrightarrow> later r k"
  unfolding later_def by auto

definition others_transition :: "transition \<Rightarrow> bool" where
  "others_transition f \<longleftrightarrow>
     (\<forall>j k. f j = Inr k \<longrightarrow> status_ok j \<longrightarrow>
        later j k \<and> status_ok k
        \<and> av_rollback_outcomes k \<in> {av_rollback_outcomes j, map fresh_outcome (av_targets j)}
        \<and> (av_status k \<in> {AcSucceeded, AcRestarting, AcValidating} \<longrightarrow> av_status j = av_status k)
        \<and> (av_status j = AcValidating \<longrightarrow> av_status k = AcValidating \<or> stage (av_status k) \<noteq> 0))"

lemma guard_status_Inr [simp]: "guard_status ok m r = Inr k \<longleftrightarrow> ok \<and> k = r"
  by (auto simp: guard_status_def)

lemma is_voice_update [simp]:
  "is_voice (r\<lparr>av_status := x\<rparr>) = is_voice r"
  "is_voice (r\<lparr>av_detail := d\<rparr>) = is_voice r"
  "is_voice (r\<lparr>av_offer_delivered := b\<rparr>) = is_voice r"
  "is_voice (r\<lparr>av_pre_restart_delivered := b\<rparr>) = is_voice r"
  "is_voice (r\<lparr>av_acknowledged := b\<rparr>) = is_voice r"
  "is_voice (r\<lparr>av_validation_attempted := b\<rparr>) = is_voice r"
  "is_voice (r\<lparr>av_voice_validated := b\<rparr>) = is_voice r"
  "is_voice (r\<lparr>av_rollback_restored := b\<rparr>) = is_voice r"
  "is_voice (r\<lparr>av_rollback_digest := d\<rparr>) = is_voice r"
  "is_voice (r\<lparr>av_rollback_outcomes := os\<rparr>) = is_voice r"
  "is_voice (r\<lparr>av_outcomes := os\<rparr>) = is_voice r"
  "is_voice (r\<lparr>av_expected_digest := d\<rparr>) = is_voice r"
  "is_voice (r\<lparr>av_updated_at := t\<rparr>) = is_voice r"
  by (simp_all add: is_voice_def)

lemma expected_voice_update [simp]:
  "expected_voice (r\<lparr>av_status := x\<rparr>) = expected_voice r"
  "expected_voice (r\<lparr>av_detail := d\<rparr>) = expected_voice r"
  "expected_voice (r\<lparr>av_offer_delivered := b\<rparr>) = expected_voice r"
  "expected_voice (r\<lparr>av_pre_restart_delivered := b\<rparr>) = expected_voice r"
  "expected_voice (r\<lparr>av_acknowledged := b\<rparr>) = expected_voice r"
  "expected_voice (r\<lparr>av_validation_attempted := b\<rparr>) = expected_voice r"
  "expected_voice (r\<lparr>av_voice_validated := b\<rparr>) = expected_voice r"
  "expected_voice (r\<lparr>av_rollback_restored := b\<rparr>) = expected_voice r"
  "expected_voice (r\<lparr>av_rollback_digest := d\<rparr>) = expected_voice r"
  "expected_voice (r\<lparr>av_rollback_outcomes := os\<rparr>) = expected_voice r"
  "expected_voice (r\<lparr>av_outcomes := os\<rparr>) = expected_voice r"
  "expected_voice (r\<lparr>av_expected_digest := d\<rparr>) = expected_voice r"
  "expected_voice (r\<lparr>av_updated_at := t\<rparr>) = expected_voice r"
  by (simp_all add: expected_voice_def)

lemmas record_defs = static_ok_def status_ok_def voice_ok_def later_def told_def

lemma fresh_outcome_service [simp]: "so_service (fresh_outcome t) = t" "so_service \<circ> fresh_outcome = id"
  by (auto simp: fresh_outcome_def)

lemma static_ok_rollback:
  "static_ok j \<Longrightarrow> av_rollback_outcomes j = [] \<or> map so_service (av_rollback_outcomes j) = av_targets j"
  unfolding static_ok_def by blast

lemma others_keep_static:
  assumes "others_transition f" "f j = Inr k" "static_ok j"
  shows "later j k" "static_ok k"
proof -
  from assms have l: "later j k" and st: "status_ok k"
    and rb: "av_rollback_outcomes k \<in> {av_rollback_outcomes j, map fresh_outcome (av_targets j)}"
    and s: "av_status k \<in> {AcSucceeded, AcRestarting, AcValidating} \<longrightarrow> av_status j = av_status k"
    and v: "av_status j = AcValidating \<longrightarrow> av_status k = AcValidating \<or> stage (av_status k) \<noteq> 0"
    unfolding others_transition_def static_ok_def by blast+
  show "later j k" by (rule l)
  have eq: "av_targets k = av_targets j" "av_outcomes k = av_outcomes j"
    "av_expected_digest k = av_expected_digest j" "av_voice_validated k = av_voice_validated j"
    and stages: "stage (av_status j) \<le> stage (av_status k)"
    using l unfolding later_def by blast+
  have eq': "is_voice k = is_voice j" "expected_voice k = expected_voice j"
    using l unfolding later_def is_voice_def expected_voice_def by simp_all
  have stages: "stage (av_status k) = 0 \<longrightarrow> stage (av_status j) = 0" using stages by simp
  have "av_rollback_outcomes k = [] \<or> map so_service (av_rollback_outcomes k) = av_targets j"
    using rb static_ok_rollback[OF assms(3)] by auto
  moreover have "av_status k = AcSucceeded \<Longrightarrow> av_status j = AcSucceeded"
    "av_status k = AcRestarting \<Longrightarrow> av_status j = AcRestarting" using s by simp_all
  moreover have "voice_ok k"
  proof -
    have j: "voice_ok j" using assms(3) by (simp add: static_ok_def)
    have a: "av_validation_attempted k = av_validation_attempted j" using l by (simp add: later_def)
    have "av_status k = AcValidating \<Longrightarrow> is_voice k" using j s eq'(1) by (simp add: voice_ok_def)
    moreover have "stage (av_status j) = 0 \<and> av_status j \<noteq> AcValidating"
      if "stage (av_status k) = 0" "av_status k \<noteq> AcValidating" using that v stages by blast
    ultimately show ?thesis using j unfolding voice_ok_def a eq(4) by blast
  qed
  ultimately show "static_ok k"
    using st stages assms(3) unfolding static_ok_def eq eq' by blast
qed

lemmas other_operations = mark_offer_delivered_def accept_activation_def decline_activation_def
  mark_pre_restart_delivered_def begin_rollback_def fail_worker_def acknowledge_activation_def

lemma others_transitions:
  "others_transition mark_offer_delivered"
  "others_transition accept_activation"
  "others_transition decline_activation"
  "others_transition mark_pre_restart_delivered"
  "others_transition (begin_rollback detail)"
  "others_transition (fail_worker detail)"
  "others_transition acknowledge_activation"
  by (auto simp: others_transition_def other_operations status_ok_def told_def later_def)

lemma later_update [simp]: "later r (k\<lparr>av_updated_at := t\<rparr>) = later r k"
  by (simp add: later_def told_def)

lemma static_ok_update [simp]: "static_ok (k\<lparr>av_updated_at := t\<rparr>) = static_ok k"
  by (simp add: record_defs)

lemma attempted_later:
  assumes "later j k" "attempted_on j rollback s" "(if rollback then 2 else 1) \<le> stage (av_status j)"
  shows "attempted_on k rollback s"
  using assms by (cases rollback) (simp_all add: attempted_on_def outcomes_of_def later_def)

lemma log_ok_later:
  assumes l: "later j k" and ok: "log_ok L v j"
  shows "log_ok L v k"
  unfolding log_ok_def
proof (intro conjI allI impI)
  fix rollback s assume "(rollback, s) \<in> L"
  then have j: "attempted_on j rollback s" "told j" "s \<in> set (av_targets j)"
    "(if rollback then 2 else 1) \<le> stage (av_status j)"
    "\<not> rollback \<and> is_voice j \<longrightarrow> av_voice_validated j"
    using ok unfolding log_ok_def by blast+
  show "attempted_on k rollback s" by (rule attempted_later[OF l j(1,4)])
  show "told k" "s \<in> set (av_targets k)" "(if rollback then 2 else 1) \<le> stage (av_status k)"
    using l j by (auto simp: later_def split: if_splits)
  show "av_voice_validated k" if "\<not> rollback \<and> is_voice k"
    using l j(5) that by (simp add: later_def is_voice_def)
next
  show "av_validation_attempted k" if v
    using l ok that by (simp add: later_def log_ok_def)
qed

section \<open>The others keep the invariant\<close>

lemma logged_update [simp]: "logged (w\<lparr>wd_journal := x\<rparr>) i = logged w i"
  "logged (w\<lparr>wd_past := p\<rparr>) i = logged w i" "logged (w\<lparr>wd_calls := n\<rparr>) i = logged w i"
  "logged (w\<lparr>wd_answers := a\<rparr>) i = logged w i"
  by (simp_all add: logged_def)

lemma rec_ok_update [simp]: "rec_ok (w\<lparr>wd_journal := x\<rparr>) r = rec_ok w r"
  "rec_ok (w\<lparr>wd_past := p\<rparr>) r = rec_ok w r" "rec_ok (w\<lparr>wd_calls := n\<rparr>) r = rec_ok w r"
  "rec_ok (w\<lparr>wd_answers := a\<rparr>) r = rec_ok w r"
  by (simp_all add: rec_ok_def)

lemma all_records_update [simp]:
  "all_records (w\<lparr>wd_journal := Some r\<rparr>) = r # wd_past w"
  "all_records (w\<lparr>wd_calls := n\<rparr>) = all_records w"
  "all_records (w\<lparr>wd_answers := a\<rparr>) = all_records w"
  by (simp_all add: all_records_def split: option.split)

lemma all_records_Some: "wd_journal w = Some j \<Longrightarrow> all_records w = j # wd_past w"
  by (simp add: all_records_def)

lemma safe_calls [simp]: "safe (w\<lparr>wd_calls := n\<rparr>) = safe w" "safe (w\<lparr>wd_answers := a\<rparr>) = safe w"
  by (simp_all add: safe_def)

lemma safe_write:
  assumes "safe w" "wd_journal w = Some j" "av_id k = av_id j" "rec_ok w k"
  shows "safe (w\<lparr>wd_journal := Some k\<rparr>)"
  using assms unfolding safe_def by (simp add: all_records_Some)

definition moves :: "act_world \<Rightarrow> act_world \<Rightarrow> bool" where
  "moves w w' \<longleftrightarrow>
     wd_restarts w' = wd_restarts w \<and> wd_validations w' = wd_validations w
     \<and> (\<forall>j \<in> set (all_records w). \<exists>k \<in> set (all_records w'). later j k)"

lemma moves_refl [simp]: "moves w w"
  unfolding moves_def using later_refl by blast

lemma moves_trans: "moves u v \<Longrightarrow> moves v w \<Longrightarrow> moves u w"
  unfolding moves_def using later_trans by (metis (no_types))

lemma moves_calls [simp]: "moves w (w'\<lparr>wd_calls := n\<rparr>) = moves w w'"
  "moves w (w'\<lparr>wd_answers := a\<rparr>) = moves w w'"
  by (simp_all add: moves_def)

lemma rec_ok_others:
  assumes "others_transition f" "f j = Inr k" "rec_ok w j"
  shows "rec_ok w (k\<lparr>av_updated_at := t\<rparr>) \<and> later j k"
proof -
  have s: "static_ok j" and l: "log_ok (logged w (av_id j)) (av_id j \<in> set (wd_validations w)) j"
    using assms(3) unfolding rec_ok_def by blast+
  note k = others_keep_static[OF assms(1,2) s]
  have i: "av_id k = av_id j" using k(1) by (simp add: later_def)
  have "later j (k\<lparr>av_updated_at := t\<rparr>)" using k(1) by simp
  from log_ok_later[OF this l] show ?thesis using k i unfolding rec_ok_def by simp
qed

lemma other_update_keeps:
  assumes "others_transition f" "safe w"
  shows "safe (other_update i f t w) \<and> moves w (other_update i f t w)"
proof (cases "journal_update i f t w")
  case (Inl e)
  then show ?thesis using assms(2) by (simp add: other_update_def)
next
  case (Inr p)
  then obtain j k where j: "wd_journal w = Some j" and f: "f j = Inr k"
    and p: "fst p = w\<lparr>wd_journal := Some (k\<lparr>av_updated_at := t\<rparr>)\<rparr>"
    by (auto simp: journal_update_def update_record_def result_simps split: option.splits if_splits)
  have u: "other_update i f t w = w\<lparr>wd_journal := Some (k\<lparr>av_updated_at := t\<rparr>)\<rparr>"
    using Inr p by (simp add: other_update_def split_def)
  have "rec_ok w j" using assms(2) j unfolding safe_def by (simp add: all_records_Some)
  from rec_ok_others[OF assms(1) f this]
  have k: "rec_ok w (k\<lparr>av_updated_at := t\<rparr>)" "later j k" by blast+
  have "safe (w\<lparr>wd_journal := Some (k\<lparr>av_updated_at := t\<rparr>)\<rparr>)"
    by (rule safe_write[OF assms(2) j _ k(1)]) (use k(2) in \<open>simp add: later_def\<close>)
  moreover have "moves w (w\<lparr>wd_journal := Some (k\<lparr>av_updated_at := t\<rparr>)\<rparr>)"
  proof -
    have "\<exists>y \<in> set (k\<lparr>av_updated_at := t\<rparr> # wd_past w). later x y" if "x \<in> set (j # wd_past w)" for x
    proof (cases "x = j")
      case True
      then show ?thesis using k(2) by simp
    next
      case False
      then have "x \<in> set (wd_past w)" using that by simp
      then show ?thesis using later_refl[of x] by (intro bexI[of _ x]) simp_all
    qed
    then show ?thesis unfolding moves_def by (simp add: all_records_Some[OF j])
  qed
  ultimately show ?thesis unfolding u by blast
qed

lemma first_occurrences_distinct: "distinct (first_occurrences xs)"
  by (induction xs) auto

lemma create_offer_static:
  assumes "create_offer pending services digest i now journal = Inr (Some r)"
  shows "static_ok r" "av_id r = i" "\<not> av_validation_attempted r"
proof -
  have r: "r = offer_record pending (first_occurrences services) digest i now"
    "list_all (\<lambda>s. s \<in> set SERVICE_FILES \<and> s \<in> set (pc_affected_services pending)) (first_occurrences services)"
    using assms unfolding create_offer_def by (auto simp: Let_def split: if_splits)
  show "static_ok r"
    unfolding r(1) static_ok_def status_ok_def voice_ok_def
    using r(2) first_occurrences_distinct[of services]
    by (auto simp: offer_record_def list_all_iff fresh_outcome_def)
  show "av_id r = i" "\<not> av_validation_attempted r" unfolding r(1) by (simp_all add: offer_record_def)
qed

lemma other_offer_keeps:
  assumes "safe w"
  shows "safe (other_offer pending services digest i now w)
    \<and> moves w (other_offer pending services digest i now w)"
proof (cases "i \<notin> set (map av_id (all_records w)) \<and>
    (\<exists>r. create_offer pending services digest i now (wd_journal w) = Inr (Some r))")
  case False
  then have "other_offer pending services digest i now w = w"
    unfolding other_offer_def by (auto split: sum.splits option.splits)
  then show ?thesis using assms by simp
next
  case True
  then obtain r where i: "i \<notin> set (map av_id (all_records w))"
    and c: "create_offer pending services digest i now (wd_journal w) = Inr (Some r)" by blast
  let ?w = "w\<lparr>wd_journal := Some r, wd_past := all_records w\<rparr>"
  have u: "other_offer pending services digest i now w = ?w"
    unfolding other_offer_def using i c by auto
  note r = create_offer_static[OF c]
  have a: "all_records ?w = r # all_records w" by (simp add: all_records_def)
  have n: "i \<notin> fst ` set (wd_restarts w)" "i \<notin> set (wd_validations w)"
    using assms i unfolding safe_def by auto
  have "logged w i = {}" using n(1) by (force simp: logged_def)
  then have "rec_ok w r" using r n(2) by (simp add: rec_ok_def log_ok_def)
  then have "safe ?w" using assms i r(2) unfolding safe_def a by auto
  moreover have "moves w ?w" unfolding moves_def a by (auto intro: later_refl)
  ultimately show ?thesis unfolding u by blast
qed

text \<open>An answer is an update of the journal and an entry of the log.\<close>

lemma other_answer_cases:
  "other_answer i yes t w = w
   \<or> (\<exists>a. other_answer i yes t w
        = (other_update i (if yes then accept_activation else decline_activation) t w)\<lparr>wd_answers := a\<rparr>)"
  by (auto simp: other_answer_def other_update_def split: sum.splits)

lemma other_answer_keeps:
  assumes "safe w"
  shows "safe (other_answer i yes t w) \<and> moves w (other_answer i yes t w)"
proof -
  have "others_transition (if yes then accept_activation else decline_activation)"
    by (simp add: others_transitions)
  from other_update_keeps [OF this assms] other_answer_cases [of i yes t w] assms show ?thesis by force
qed

lemma perform_keeps: "safe w \<Longrightarrow> safe (perform now w op) \<and> moves w (perform now w op)"
  by (cases op)
     (simp_all add: other_update_keeps others_transitions other_offer_keeps other_answer_keeps)

lemma performs_keep: "safe w \<Longrightarrow> safe (foldl (perform now) w ops) \<and> moves w (foldl (perform now) w ops)"
proof (induction ops arbitrary: w)
  case (Cons op ops)
  have p: "safe (perform now w op)" "moves w (perform now w op)"
    using perform_keeps[OF Cons.prems] by blast+
  show ?case using Cons.IH[OF p(1)] moves_trans[OF p(2)] by simp
qed simp

lemma interfere_keeps: "safe w \<Longrightarrow> safe (interfere E w) \<and> moves w (interfere E w)"
  unfolding interfere_def using performs_keep by simp

end
