(* ===== verification/Activation_Triples.thy ===== *)
theory Activation_Triples imports Activation_Invariant begin

text \<open>
  A program logic for \<open>act\<close>: a triple says that the invariant holds wherever the program stops and
  its postcondition where it returns. The rules of the calls, and of the updates of one outcome.
\<close>

section \<open>Triples\<close>

definition valid :: "(act_world \<Rightarrow> bool) \<Rightarrow> 'a act \<Rightarrow> ('a \<Rightarrow> act_world \<Rightarrow> bool) \<Rightarrow> bool" where
  "valid P m Q \<longleftrightarrow>
     (\<forall>w w'. P w \<longrightarrow> (\<forall>h. m w = (w', Inl h) \<longrightarrow> safe w') \<and> (\<forall>x. m w = (w', Inr x) \<longrightarrow> Q x w'))"

lemma validI:
  assumes "\<And>w w' h. P w \<Longrightarrow> m w = (w', Inl h) \<Longrightarrow> safe w'"
    "\<And>w w' x. P w \<Longrightarrow> m w = (w', Inr x) \<Longrightarrow> Q x w'"
  shows "valid P m Q"
  using assms unfolding valid_def by blast

lemma validD:
  assumes "valid P m Q" "P w"
  shows "m w = (w', Inl h) \<Longrightarrow> safe w'" "m w = (w', Inr x) \<Longrightarrow> Q x w'"
  using assms unfolding valid_def by blast+

lemma bind_Inr: "bind m f w = (w', Inr y) \<longleftrightarrow> (\<exists>u x. m w = (u, Inr x) \<and> f x u = (w', Inr y))"
  by (auto simp: bind_def split: prod.splits sum.splits)

lemma bind_Inl:
  "bind m f w = (w', Inl h) \<longleftrightarrow>
   m w = (w', Inl h) \<or> (\<exists>u x. m w = (u, Inr x) \<and> f x u = (w', Inl h))"
  by (auto simp: bind_def split: prod.splits sum.splits)

lemma valid_bind:
  assumes "valid P m Q" "\<And>x. valid (Q x) (f x) R"
  shows "valid P (bind m f) R"
proof (rule validI)
  show "safe w'" if "P w" "bind m f w = (w', Inl h)" for w w' h
    using that validD[OF assms(1) that(1)] validD[OF assms(2)] unfolding bind_Inl by blast
  show "R y w'" if "P w" "bind m f w = (w', Inr y)" for w w' y
    using that validD[OF assms(1) that(1)] validD[OF assms(2)] unfolding bind_Inr by blast
qed

lemma valid_ret: "valid (Q x) (ret x) Q"
  by (simp add: valid_def ret_def)

lemma valid_raise: "(\<And>w. P w \<Longrightarrow> safe w) \<Longrightarrow> valid P (raise_error e) Q"
  by (simp add: valid_def raise_error_def)

lemma valid_pre: "valid P m Q \<Longrightarrow> (\<And>w. P' w \<Longrightarrow> P w) \<Longrightarrow> valid P' m Q"
  unfolding valid_def by blast

lemma valid_post: "valid P m Q \<Longrightarrow> (\<And>x w. Q x w \<Longrightarrow> Q' x w) \<Longrightarrow> valid P m Q'"
  unfolding valid_def by blast

lemma valid_if:
  "(b \<Longrightarrow> valid P m Q) \<Longrightarrow> (\<not> b \<Longrightarrow> valid P m' Q) \<Longrightarrow> valid P (if b then m else m') Q"
  by simp

text \<open>A fact that may be assumed of every world of the precondition.\<close>

lemma valid_fact: "(\<And>w. P w \<Longrightarrow> b) \<Longrightarrow> (b \<Longrightarrow> valid P m Q) \<Longrightarrow> valid P m Q"
  unfolding valid_def by blast

lemma valid_call:
  assumes "\<And>w. P w \<Longrightarrow> safe w" "\<And>w. P w \<Longrightarrow> P (interfere E w)" "\<And>n. valid P (body n) Q"
  shows "valid P (call E body) Q"
proof (rule validI)
  show "safe w'" if p: "P w" and c: "call E body w = (w', Inl h)" for w w' h
  proof (cases "en_dies E (wd_calls w)")
    case True
    then show ?thesis using interfere_keeps[OF assms(1)[OF p]] c by (auto simp: call_def)
  next
    case False
    then show ?thesis using c validD(1)[OF assms(3) assms(2)[OF p]] by (simp add: call_def)
  qed
  show "Q x w'" if p: "P w" and c: "call E body w = (w', Inr x)" for w w' x
    using c validD(2)[OF assms(3) assms(2)[OF p]] by (simp add: call_def split: if_splits)
qed

text \<open>What the executor knows of the record it holds: others may have moved it since.\<close>

definition knows :: "activation_record \<Rightarrow> act_world \<Rightarrow> bool" where
  "knows r w \<longleftrightarrow> safe w \<and> static_ok r \<and> (\<exists>j \<in> set (all_records w). later r j)"

lemma knows_safe: "knows r w \<Longrightarrow> safe w"
  by (simp add: knows_def)

lemma knows_static: "knows r w \<Longrightarrow> static_ok r"
  by (simp add: knows_def)

lemma knows_interfere: "knows r w \<Longrightarrow> knows r (interfere E w)"
  using interfere_keeps[of w E] later_trans unfolding knows_def moves_def by blast

lemma valid_answer:
  assumes "\<And>w. P w \<Longrightarrow> safe w" "\<And>w. P w \<Longrightarrow> P (interfere E w)"
  shows "valid P (call E (\<lambda>n. answer (g n))) (\<lambda>_. P)"
proof (rule valid_call)
  show "P w \<Longrightarrow> safe w" "P w \<Longrightarrow> P (interfere E w)" for w using assms by blast+
  show "valid P (answer (g n)) (\<lambda>_. P)" for n
    using assms(1) by (cases "g n") (simp_all add: answer_def valid_def raise_error_def ret_def)
qed

section \<open>Calls that change the world\<close>

lemma rec_ok_cong:
  "wd_restarts w' = wd_restarts w \<Longrightarrow> wd_validations w' = wd_validations w \<Longrightarrow> rec_ok w' r = rec_ok w r"
  by (simp add: rec_ok_def logged_def)

text \<open>The record held and the one in the journal, when they have the same identity.\<close>

lemma knows_journal:
  assumes "knows r w" "wd_journal w = Some j" "av_id j = av_id r"
  shows "later r j" "rec_ok w j"
proof -
  obtain k where k: "k \<in> set (all_records w)" "later r k" using assms(1) unfolding knows_def by blast
  have "av_id k = av_id j" using k(2) assms(3) by (simp add: later_def)
  moreover have "distinct (map av_id (all_records w))" using assms(1) unfolding knows_def safe_def by blast
  moreover have "j \<in> set (all_records w)" using assms(2) by (simp add: all_records_Some)
  ultimately have "k = j" using k(1) by (metis (no_types) distinct_map inj_onD)
  with k show "later r j" by simp
  show "rec_ok w j" using assms(1) \<open>j \<in> set (all_records w)\<close> unfolding knows_def safe_def by blast
qed

definition updated_by :: "transition \<Rightarrow> activation_record \<Rightarrow> activation_record \<Rightarrow> act_world \<Rightarrow> bool" where
  "updated_by f r r' w \<longleftrightarrow>
     (\<exists>j k t. later r j \<and> rec_ok w j \<and> f j = Inr k \<and> r' = k\<lparr>av_updated_at := t\<rparr>)"

lemma rec_ok_touch [simp]: "rec_ok w (k\<lparr>av_updated_at := t\<rparr>) = rec_ok w k"
  by (simp add: rec_ok_def log_ok_def attempted_on_def outcomes_of_def told_def)

lemma valid_update:
  assumes f: "\<And>j k w. later r j \<Longrightarrow> static_ok r \<Longrightarrow> rec_ok w j \<Longrightarrow> f j = Inr k \<Longrightarrow>
      av_id k = av_id j \<and> rec_ok w k"
  shows "valid (knows r) (store_update E (av_id r) f) (\<lambda>r' w. knows r' w \<and> updated_by f r r' w)"
  unfolding store_update_def
proof (rule valid_call)
  fix n
  show "valid (knows r)
     (\<lambda>w. case journal_update (av_id r) f (en_now E n) w of
        Inl e \<Rightarrow> (w, Inl (Raised e)) | Inr (w', r) \<Rightarrow> (w', Inr r))
     (\<lambda>r' w. knows r' w \<and> updated_by f r r' w)"
  proof (rule validI)
    show "safe w'" if "knows r w"
      "(case journal_update (av_id r) f (en_now E n) w of
        Inl e \<Rightarrow> (w, Inl (Raised e)) | Inr (w', r) \<Rightarrow> (w', Inr r)) = (w', Inl h)" for w w' h
      using that knows_safe by (auto split: sum.splits)
    show "knows r' w' \<and> updated_by f r r' w'" if kn: "knows r w"
      and u: "(case journal_update (av_id r) f (en_now E n) w of
        Inl e \<Rightarrow> (w, Inl (Raised e)) | Inr (w', r) \<Rightarrow> (w', Inr r)) = (w', Inr r')" for w w' r'
    proof -
      obtain j k where j: "wd_journal w = Some j" "av_id j = av_id r" and fk: "f j = Inr k"
        and r': "r' = k\<lparr>av_updated_at := en_now E n\<rparr>" and w': "w' = w\<lparr>wd_journal := Some r'\<rparr>"
        using u by (auto simp: journal_update_def update_record_def result_simps
            split: sum.splits option.splits if_splits)
      note lj = knows_journal[OF kn j]
      have k: "av_id k = av_id j" "rec_ok w k"
        using f[OF lj(1) knows_static[OF kn] lj(2) fk] by blast+
      have rk: "rec_ok w r'" "av_id r' = av_id j" unfolding r' using k by simp_all
      have s: "safe w'" unfolding w' by (rule safe_write[OF knows_safe[OF kn] j(1) rk(2,1)])
      have "knows r' w'" unfolding knows_def
        using s rk(1) by (auto simp: w' rec_ok_def)
      moreover have "updated_by f r r' w'" unfolding updated_by_def w'
        using lj fk r' by auto
      ultimately show ?thesis by blast
    qed
  qed
qed (auto intro: knows_safe knows_interfere)

lemma knows_id: "knows r w \<Longrightarrow> av_id r \<in> av_id ` set (all_records w)"
proof -
  assume "knows r w"
  then obtain j where "j \<in> set (all_records w)" "later r j" unfolding knows_def by blast
  then have "av_id r = av_id j" "j \<in> set (all_records w)" by (simp_all add: later_def)
  then show ?thesis by (rule image_eqI)
qed

text \<open>When a restart may be requested.\<close>

definition may_restart :: "activation_record \<Rightarrow> bool \<Rightarrow> string \<Rightarrow> bool" where
  "may_restart r rollback s \<longleftrightarrow>
     attempted_on r rollback s \<and> told r \<and> s \<in> set (av_targets r)
     \<and> (if rollback then 2 else 1) \<le> stage (av_status r)
     \<and> (\<not> rollback \<and> is_voice r \<longrightarrow> av_voice_validated r)"

lemma may_restart_later:
  assumes "later r j" "may_restart r rollback s"
  shows "may_restart j rollback s"
proof -
  have "log_ok {(rollback, s)} False r" using assms(2) by (auto simp: log_ok_def may_restart_def)
  from log_ok_later[OF assms(1) this] show ?thesis by (auto simp: log_ok_def may_restart_def)
qed

lemma log_ok_insert: "log_ok L v j \<Longrightarrow> may_restart j rollback s \<Longrightarrow> log_ok (insert (rollback, s) L) v j"
  unfolding log_ok_def may_restart_def by blast

definition log_restart :: "string \<Rightarrow> bool \<Rightarrow> string \<Rightarrow> act_world \<Rightarrow> act_world" where
  "log_restart i rollback s w = w\<lparr>wd_restarts := wd_restarts w @ [(i, rollback, s)]\<rparr>"

lemma log_restart_logged:
  "logged (log_restart i rollback s w) i' = (if i' = i then insert (rollback, s) (logged w i) else logged w i')"
  by (auto simp: logged_def log_restart_def)

lemma log_restart_records [simp]:
  "all_records (log_restart i rollback s w) = all_records w"
  "wd_validations (log_restart i rollback s w) = wd_validations w"
  by (simp_all add: all_records_def log_restart_def split: option.split)

lemma knows_log_restart:
  assumes kn: "knows r w" and new: "(rollback, s) \<notin> logged w (av_id r)" and may: "may_restart r rollback s"
  shows "knows r (log_restart (av_id r) rollback s w)"
proof -
  let ?w = "log_restart (av_id r) rollback s w"
  obtain j where j: "j \<in> set (all_records w)" "later r j" using kn unfolding knows_def by blast
  have s: "safe w" by (rule knows_safe[OF kn])
  have "rec_ok ?w x" if "x \<in> set (all_records w)" for x
  proof -
    have x: "rec_ok w x" using s that unfolding safe_def by blast
    show ?thesis
    proof (cases "av_id x = av_id r")
      case True
      have "av_id x = av_id j" using True j(2) by (simp add: later_def)
      then have "x = j" using s that j(1) unfolding safe_def by (metis (no_types) distinct_map inj_onD)
      then show ?thesis using x may_restart_later[OF j(2) may] True
        by (auto simp: rec_ok_def log_restart_logged intro: log_ok_insert)
    qed (use x in \<open>simp add: rec_ok_def log_restart_logged\<close>)
  qed
  moreover have "av_id r \<in> av_id ` set (all_records w)" by (rule knows_id[OF kn])
  moreover have "distinct (wd_restarts ?w)" "fst ` set (wd_restarts ?w) = insert (av_id r) (fst ` set (wd_restarts w))"
    using s new by (auto simp: safe_def log_restart_def logged_def)
  ultimately have "safe ?w" using s unfolding safe_def by simp
  then show ?thesis using kn j unfolding knows_def by auto
qed

lemma valid_restart:
  "valid (\<lambda>w. knows r w \<and> (rollback, s) \<notin> logged w (av_id r) \<and> may_restart r rollback s)
     (restart_service E (av_id r) rollback s) (\<lambda>_. knows r)"
  unfolding restart_service_def
proof (rule valid_call)
  show "valid (\<lambda>w. knows r w \<and> (rollback, s) \<notin> logged w (av_id r) \<and> may_restart r rollback s)
     (\<lambda>w. (w\<lparr>wd_restarts := wd_restarts w @ [(av_id r, rollback, s)]\<rparr>, Inr (en_restart E n s)))
     (\<lambda>_. knows r)" for n
    unfolding valid_def using knows_log_restart[of r _ rollback s] by (auto simp: log_restart_def)
  show "knows r (interfere E w) \<and> (rollback, s) \<notin> logged (interfere E w) (av_id r) \<and> may_restart r rollback s"
    if "knows r w \<and> (rollback, s) \<notin> logged w (av_id r) \<and> may_restart r rollback s" for w
    using that knows_interfere[of r w E] interfere_keeps[OF knows_safe[of r w]]
    by (auto simp: logged_def moves_def)
qed (auto intro: knows_safe)

lemma knows_log_validation:
  assumes kn: "knows r w" and new: "av_id r \<notin> set (wd_validations w)" and may: "av_validation_attempted r"
  shows "knows r (w\<lparr>wd_validations := wd_validations w @ [av_id r]\<rparr>)"
proof -
  let ?w = "w\<lparr>wd_validations := wd_validations w @ [av_id r]\<rparr>"
  obtain j where j: "j \<in> set (all_records w)" "later r j" using kn unfolding knows_def by blast
  have s: "safe w" by (rule knows_safe[OF kn])
  have a: "all_records ?w = all_records w" by (simp add: all_records_def split: option.split)
  have "rec_ok ?w x" if "x \<in> set (all_records w)" for x
  proof -
    have x: "rec_ok w x" using s that unfolding safe_def by blast
    have "av_validation_attempted x" if "av_id x = av_id r"
    proof -
      have "av_id x = av_id j" using that j(2) by (simp add: later_def)
      then have "x = j" using s \<open>x \<in> set (all_records w)\<close> j(1) unfolding safe_def
        by (metis (no_types) distinct_map inj_onD)
      then show ?thesis using may j(2) by (simp add: later_def)
    qed
    then show ?thesis using x by (auto simp: rec_ok_def log_ok_def logged_def)
  qed
  moreover have "av_id r \<in> av_id ` set (all_records w)" by (rule knows_id[OF kn])
  ultimately have "safe ?w" using s new unfolding safe_def a by simp
  then show ?thesis using kn j unfolding knows_def a by auto
qed

lemma valid_validate:
  "valid (\<lambda>w. knows r w \<and> av_id r \<notin> set (wd_validations w) \<and> av_validation_attempted r)
     (validate_voice E (av_id r) voice) (\<lambda>_. knows r)"
  unfolding validate_voice_def
proof (rule valid_call)
  show "valid (\<lambda>w. knows r w \<and> av_id r \<notin> set (wd_validations w) \<and> av_validation_attempted r)
     (\<lambda>w. (w\<lparr>wd_validations := wd_validations w @ [av_id r]\<rparr>, Inr (en_validate E n voice)))
     (\<lambda>_. knows r)" for n
    unfolding valid_def using knows_log_validation by auto
  show "knows r (interfere E w) \<and> av_id r \<notin> set (wd_validations (interfere E w)) \<and> av_validation_attempted r"
    if "knows r w \<and> av_id r \<notin> set (wd_validations w) \<and> av_validation_attempted r" for w
    using that knows_interfere[of r w E] interfere_keeps[OF knows_safe[of r w]] by (auto simp: moves_def)
qed (auto intro: knows_safe)

lemma valid_load [intro]: "valid (knows r) (load_config E) (\<lambda>_. knows r)"
  unfolding load_config_def by (rule valid_answer) (auto intro: knows_safe knows_interfere)

lemma valid_snapshot: "valid (knows r) (take_snapshot E s) (\<lambda>_. knows r)"
  unfolding take_snapshot_def by (rule valid_answer) (auto intro: knows_safe knows_interfere)

lemma valid_restore: "valid (knows r) (restore_voice E old new) (\<lambda>_. knows r)"
  unfolding restore_voice_def
  by (rule valid_call) (auto simp: valid_def intro: knows_safe knows_interfere)

section \<open>Outcomes\<close>

lemma replace_outcome_services [simp]: "map so_service (replace_outcome new os) = map so_service os"
  by (induction os) (auto simp: replace_outcome_def)

lemma replace_outcome_other:
  "o' \<in> set os \<Longrightarrow> so_service o' \<noteq> so_service new \<Longrightarrow> o' \<in> set (replace_outcome new os)"
  by (force simp: replace_outcome_def)

lemma replace_outcome_elem:
  "x \<in> set (replace_outcome new os) \<Longrightarrow> x = new \<or> x \<in> set os"
  by (auto simp: replace_outcome_def split: if_splits)

lemma replace_outcome_new:
  "so_service new \<in> set (map so_service os) \<Longrightarrow> new \<in> set (replace_outcome new os)"
  by (auto simp: replace_outcome_def image_iff)

lemma replace_outcome_attempted:
  assumes "\<exists>o' \<in> set os. so_service o' = s \<and> so_attempted o'"
    "(\<exists>o' \<in> set os. so_service o' = so_service new \<and> so_attempted o') \<Longrightarrow> so_attempted new"
  shows "\<exists>o' \<in> set (replace_outcome new os). so_service o' = s \<and> so_attempted o'"
proof (cases "s = so_service new")
  case True
  obtain o' where o': "o' \<in> set os" "so_service o' = so_service new" "so_attempted o'"
    using assms(1) True by blast
  then have "so_service new \<in> set (map so_service os)" by (metis image_eqI set_map)
  then have "new \<in> set (replace_outcome new os)" "so_attempted new"
    using replace_outcome_new assms(2) o' by blast+
  then show ?thesis using True by blast
next
  case False
  then show ?thesis using assms(1) replace_outcome_other[of _ os new] by blast
qed

lemma restarted_as_expected_cong:
  "so_before o' = so_before o'' \<Longrightarrow> restarted_as_expected o' digest voice = restarted_as_expected o'' digest voice"
  by (rule ext) (simp add: restarted_as_expected_def identity_changed_def)

lemma seen_active_cong:
  "so_before o' = so_before o'' \<Longrightarrow> so_after o' = so_after o'' \<Longrightarrow>
   seen_active digest voice o' = seen_active digest voice o''"
  by (simp add: seen_active_def restarted_as_expected_cong[of o' o''])

lemma judge_restart_keeps [simp]:
  "so_service (judge_restart o' digest voice after) = so_service o'"
  "so_attempted (judge_restart o' digest voice after) = so_attempted o'"
  "so_before (judge_restart o' digest voice after) = so_before o'"
  by (simp_all add: judge_restart_def)

lemma judge_restart_seen:
  assumes "so_status (judge_restart o' digest voice after) = OutSucceeded"
  shows "seen_active digest voice (judge_restart o' digest voice after)"
proof -
  have "sn_installed after" "restarted_as_expected o' digest voice after"
    and a: "so_after (judge_restart o' digest voice after) = Some after"
    using assms by (auto simp: judge_restart_def split: if_splits)
  then show ?thesis
    unfolding seen_active_def restarted_as_expected_cong[of "judge_restart o' digest voice after" o', OF judge_restart_keeps(3)]
    by blast
qed

lemma with_restart_error_keeps [simp]:
  "so_service (with_restart_error p e o') = so_service o'"
  "so_attempted (with_restart_error p e o') = so_attempted o'"
  "so_before (with_restart_error p e o') = so_before o'"
  "so_after (with_restart_error p e o') = so_after o'"
  "so_status (with_restart_error p e o') = so_status o'"
  by (auto simp: with_restart_error_def split: option.splits)

text \<open>An observation of an outcome: the same service, judged by what was seen.\<close>

definition observation_of :: "service_outcome \<Rightarrow> string \<Rightarrow> string option \<Rightarrow> service_outcome \<Rightarrow> bool" where
  "observation_of o' digest voice new \<longleftrightarrow>
     so_service new = so_service o' \<and> so_attempted new = so_attempted o'
     \<and> (so_status new = OutSucceeded \<longrightarrow> seen_active digest voice new)"

lemma valid_observe:
  "valid (knows r) (observe_restart E o' digest voice)
     (\<lambda>new w. knows r w \<and> observation_of o' digest voice new)"
  unfolding observe_restart_def
proof (rule valid_bind)
  show "valid (knows r) (call E (\<lambda>n. answer (en_observed E n (so_service o')))) (\<lambda>_. knows r)"
    by (rule valid_answer) (auto intro: knows_safe knows_interfere)
  show "valid (knows r)
     (case x of (first, polls) \<Rightarrow> ret (judge_restart o' digest voice (await_restart o' digest voice first polls)))
     (\<lambda>new w. knows r w \<and> observation_of o' digest voice new)" for x
    by (cases x) (simp add: valid_def ret_def observation_of_def judge_restart_seen)
qed

lemma valid_restart_and_observe:
  "valid (\<lambda>w. knows r w \<and> (rollback, so_service o') \<notin> logged w (av_id r) \<and> may_restart r rollback (so_service o'))
     (restart_and_observe E (av_id r) rollback prefix o' digest voice)
     (\<lambda>new w. knows r w \<and> observation_of o' digest voice new)"
  unfolding restart_and_observe_def
proof (rule valid_bind[OF valid_restart], rule valid_bind[OF valid_observe])
  show "valid (\<lambda>w. knows r w \<and> observation_of o' digest voice new)
     (ret (with_restart_error prefix failed new))
     (\<lambda>new w. knows r w \<and> observation_of o' digest voice new)" for failed new
    by (auto simp: valid_def ret_def observation_of_def
        seen_active_cong[of "with_restart_error prefix failed new" new])
qed

section \<open>The executor's updates of the record\<close>

lemma attempted_iff:
  assumes "map so_service (outcomes_of rollback j) = ts" "distinct ts" "o' \<in> set (outcomes_of rollback j)"
  shows "attempted_on j rollback (so_service o') \<longleftrightarrow> so_attempted o'"
proof
  assume "attempted_on j rollback (so_service o')"
  then obtain x where x: "x \<in> set (outcomes_of rollback j)" "so_service x = so_service o'" "so_attempted x"
    unfolding attempted_on_def by blast
  have "inj_on so_service (set (outcomes_of rollback j))"
    using assms(1,2) by (metis distinct_map)
  then have "x = o'" by (rule inj_onD) (use x assms(3) in simp_all)
  with x show "so_attempted o'" by simp
next
  assume "so_attempted o'"
  then show "attempted_on j rollback (so_service o')" unfolding attempted_on_def using assms(3) by blast
qed

lemma log_ok_same:
  assumes "log_ok L v j" "av_id k = av_id j" "av_targets k = av_targets j" "is_voice k = is_voice j"
    "av_voice_validated j \<longrightarrow> av_voice_validated k" "av_validation_attempted j \<longrightarrow> av_validation_attempted k"
    "told j \<longrightarrow> told k" "stage (av_status j) \<le> stage (av_status k)"
    "\<And>rollback s. (rollback, s) \<in> L \<Longrightarrow> attempted_on j rollback s \<Longrightarrow> attempted_on k rollback s"
  shows "log_ok L v k"
  unfolding log_ok_def
proof (intro conjI allI impI)
  fix rollback s assume l: "(rollback, s) \<in> L"
  then have j: "attempted_on j rollback s" "told j" "s \<in> set (av_targets j)"
    "(if rollback then 2 else 1) \<le> stage (av_status j)"
    "\<not> rollback \<and> is_voice j \<longrightarrow> av_voice_validated j"
    using assms(1) unfolding log_ok_def by blast+
  show "attempted_on k rollback s" by (rule assms(9)[OF l j(1)])
  show "told k" "s \<in> set (av_targets k)" using assms(3,7) j(2,3) by simp_all
  show "(if rollback then 2 else 1) \<le> stage (av_status k)" using j(4) assms(8) by (rule order_trans)
  show "av_voice_validated k" if "\<not> rollback \<and> is_voice k" using that j(5) assms(4,5) by simp
next
  show "av_validation_attempted k" if v using that assms(1,6) by (simp add: log_ok_def)
qed

lemma rec_ok_parts: "rec_ok w j \<longleftrightarrow>
    static_ok j \<and> log_ok (logged w (av_id j)) (av_id j \<in> set (wd_validations w)) j"
  by (simp add: rec_ok_def)

lemma update_outcome_ok:
  assumes ok: "rec_ok w j" and u: "update_outcome new j = Inr k" and a: "so_attempted new"
    and seen: "so_status new = OutSucceeded \<longrightarrow> seen_active (av_expected_digest j) (expected_voice j) new"
  shows "av_id k = av_id j \<and> rec_ok w k"
proof -
  have st: "av_status j = AcRestarting" and t: "so_service new \<in> set (av_targets j)"
    and k: "k = j\<lparr>av_outcomes := replace_outcome new (av_outcomes j)\<rparr>"
    using u by (simp_all add: update_outcome_def split: if_splits)
  have s: "static_ok j" using ok by (simp add: rec_ok_def)
  have "static_ok k"
    using s seen unfolding k static_ok_def status_ok_def voice_ok_def told_def
    by (auto simp: st dest!: replace_outcome_elem)
  moreover have "log_ok (logged w (av_id k)) (av_id k \<in> set (wd_validations w)) k"
  proof (rule log_ok_same[where j = j])
    show "attempted_on k rollback s" if "attempted_on j rollback s" for rollback s
      using that replace_outcome_attempted[of "av_outcomes j" s new] a
      unfolding k attempted_on_def outcomes_of_def by (cases rollback) simp_all
  qed (use ok in \<open>simp_all add: k rec_ok_def told_def\<close>)
  ultimately show ?thesis by (simp add: rec_ok_def k)
qed

lemma update_rollback_outcome_ok:
  assumes ok: "rec_ok w j" and u: "update_rollback_outcome new j = Inr k"
    and a: "attempted_on j True (so_service new) \<longrightarrow> so_attempted new"
  shows "av_id k = av_id j \<and> rec_ok w k"
proof -
  have st: "av_status j = AcRollingBack"
    and k: "k = j\<lparr>av_rollback_outcomes := replace_outcome new (av_rollback_outcomes j)\<rparr>"
    using u by (simp_all add: update_rollback_outcome_def split: if_splits)
  have s: "static_ok j" using ok by (simp add: rec_ok_def)
  have e: "av_rollback_outcomes j = [] \<Longrightarrow> av_rollback_outcomes k = []" by (simp add: k replace_outcome_def)
  have "static_ok k"
    using s e unfolding k static_ok_def status_ok_def voice_ok_def told_def by (auto simp: st)
  moreover have "log_ok (logged w (av_id k)) (av_id k \<in> set (wd_validations w)) k"
  proof (rule log_ok_same[where j = j])
    show "attempted_on k rollback s" if "attempted_on j rollback s" for rollback s
      using that replace_outcome_attempted[of "av_rollback_outcomes j" s new] a
      unfolding k attempted_on_def outcomes_of_def by (cases rollback) simp_all
  qed (use ok in \<open>simp_all add: k rec_ok_def told_def\<close>)
  ultimately show ?thesis by (simp add: rec_ok_def k)
qed

end
