(* ===== verification/Activation_Machine.thy ===== *)
theory Activation_Machine imports Activation_Triples begin

text \<open>
  What any sequence of executions keeps, with the executor dying anywhere and the wake daemon
  changing the journal at any time: no restart and no validation is requested twice for one
  activation, and success is only recorded when it was observed. \<open>Activation_Consent\<close> adds that
  none is requested without the user's consent.
\<close>

section \<open>The two loops\<close>

text \<open>
  During a loop the remaining outcomes are those the record had, one per service; each round
  replaces the one of its own service.
\<close>

definition remaining :: "bool \<Rightarrow> activation_record \<Rightarrow> service_outcome list \<Rightarrow> bool" where
  "remaining rollback r os \<longleftrightarrow> set os \<subseteq> set (outcomes_of rollback r) \<and> distinct (map so_service os)"

lemma remaining_tl: "remaining rollback r (o' # os) \<Longrightarrow> remaining rollback r os"
  by (simp add: remaining_def)

lemma remaining_replaced:
  assumes "remaining rollback r (o' # os)"
    "\<And>x. x \<in> set (outcomes_of rollback r) \<Longrightarrow> so_service x \<noteq> so_service o' \<Longrightarrow> x \<in> set (outcomes_of rollback r')"
  shows "remaining rollback r' os"
proof -
  have d: "set (o' # os) \<subseteq> set (outcomes_of rollback r)" "so_service o' \<notin> set (map so_service os)"
    "distinct (map so_service os)" using assms(1) by (simp_all add: remaining_def)
  have "x \<in> set (outcomes_of rollback r')" if "x \<in> set os" for x
  proof (rule assms(2))
    show "x \<in> set (outcomes_of rollback r)" using that d(1) by auto
    have "so_service x \<in> set (map so_service os)" using that by simp
    then show "so_service x \<noteq> so_service o'" using d(2) by metis
  qed
  then show ?thesis using d(3) unfolding remaining_def by blast
qed

lemma outcomes_services:
  assumes "static_ok j" "o' \<in> set (outcomes_of rollback j)"
  shows "map so_service (outcomes_of rollback j) = av_targets j" "distinct (av_targets j)"
    "so_service o' \<in> set (av_targets j)"
proof -
  show m: "map so_service (outcomes_of rollback j) = av_targets j"
  proof (cases rollback)
    case True
    then show ?thesis using static_ok_rollback[OF assms(1)] assms(2) by (auto simp: outcomes_of_def)
  next
    case False
    then show ?thesis using assms(1) by (simp add: outcomes_of_def static_ok_def)
  qed
  show "distinct (av_targets j)" using assms(1) by (simp add: static_ok_def)
  show "so_service o' \<in> set (av_targets j)" using assms(2) unfolding m[symmetric] by simp
qed

lemma not_logged:
  assumes "rec_ok w j" "o' \<in> set (outcomes_of rollback j)" "\<not> so_attempted o'"
  shows "(rollback, so_service o') \<notin> logged w (av_id j)"
proof
  assume "(rollback, so_service o') \<in> logged w (av_id j)"
  then have "attempted_on j rollback (so_service o')"
    using assms(1) unfolding rec_ok_def log_ok_def by blast
  moreover have "static_ok j" using assms(1) by (simp add: rec_ok_def)
  ultimately show False using attempted_iff outcomes_services[OF _ assms(2)] assms(2,3) by blast
qed

definition round_kept :: "bool \<Rightarrow> service_outcome \<Rightarrow> activation_record \<Rightarrow> activation_record \<Rightarrow> bool" where
  "round_kept rollback o' r r' \<longleftrightarrow>
     av_id r' = av_id r \<and> av_status r' = av_status r \<and> expected_voice r' = expected_voice r
     \<and> is_voice r' = is_voice r \<and> av_expected_digest r' = av_expected_digest r
     \<and> (\<forall>x \<in> set (outcomes_of rollback r). so_service x \<noteq> so_service o' \<longrightarrow> x \<in> set (outcomes_of rollback r'))"

lemma round_kept_trans: "round_kept b o' r r' \<Longrightarrow> round_kept b o' r' r'' \<Longrightarrow> round_kept b o' r r''"
  unfolding round_kept_def by simp

lemma later_fields:
  "later r j \<Longrightarrow> av_id j = av_id r \<and> av_outcomes j = av_outcomes r \<and> av_expected_digest j = av_expected_digest r
     \<and> expected_voice j = expected_voice r \<and> is_voice j = is_voice r"
  by (simp add: later_def expected_voice_def is_voice_def)

lemma expected_voice_touch: "expected_voice (r\<lparr>av_updated_at := t\<rparr>) = expected_voice r"
  by simp

lemma updated_outcome:
  assumes "updated_by (update_outcome new) r r' w" "so_service new = so_service o'" "av_status r = AcRestarting"
  shows "round_kept False o' r r'" "av_outcomes r' = replace_outcome new (av_outcomes r)"
    "\<exists>j. later r j \<and> rec_ok w j"
proof -
  obtain j k t where j: "later r j" "rec_ok w j" "update_outcome new j = Inr k" "r' = k\<lparr>av_updated_at := t\<rparr>"
    using assms(1) unfolding updated_by_def by blast
  have k: "av_status j = AcRestarting" "k = j\<lparr>av_outcomes := replace_outcome new (av_outcomes j)\<rparr>"
    using j(3) by (simp_all add: update_outcome_def split: if_splits)
  note l = later_fields[OF j(1)]
  show "av_outcomes r' = replace_outcome new (av_outcomes r)" using l by (simp add: j(4) k)
  then show "round_kept False o' r r'"
    using l k(1) assms(2,3) replace_outcome_other
    unfolding round_kept_def outcomes_of_def by (simp add: j(4) k)
  show "\<exists>j. later r j \<and> rec_ok w j" using j by blast
qed

lemma valid_update_outcome:
  assumes "so_attempted new" "so_status new = OutSucceeded \<longrightarrow> seen_active (av_expected_digest r) (expected_voice r) new"
    "so_service new = so_service o'" "av_status r = AcRestarting"
  shows "valid (knows r) (store_update E (av_id r) (update_outcome new))
     (\<lambda>r' w. knows r' w \<and> round_kept False o' r r' \<and> av_outcomes r' = replace_outcome new (av_outcomes r)
        \<and> (\<exists>j. later r j \<and> rec_ok w j))"
proof (rule valid_post[OF valid_update])
  show "av_id k = av_id j \<and> rec_ok w k"
    if "later r j" "static_ok r" "rec_ok w j" "update_outcome new j = Inr k" for j k w
    using update_outcome_ok[OF that(3,4) assms(1)] assms(2) later_fields[OF that(1)] by simp
  show "knows r' w \<and> round_kept False o' r r' \<and> av_outcomes r' = replace_outcome new (av_outcomes r)
      \<and> (\<exists>j. later r j \<and> rec_ok w j)"
    if "knows r' w \<and> updated_by (update_outcome new) r r' w" for r' w
    using that updated_outcome[OF _ assms(3,4), of r' w] by blast
qed

lemma valid_restart_one:
  assumes st: "av_status r = AcRestarting" and o': "o' \<in> set (av_outcomes r)" "so_status o' = OutPending"
    and v: "voice = expected_voice r"
  shows "valid (knows r) (restart_one E r voice o') (\<lambda>r' w. knows r' w \<and> round_kept False o' r r')"
proof (cases "so_attempted o'")
  case True
  have "valid (\<lambda>w. knows r w \<and> observation_of o' (av_expected_digest r) voice new)
      (store_update E (av_id r) (update_outcome new)) (\<lambda>r' w. knows r' w \<and> round_kept False o' r r')" for new
  proof (rule valid_fact[where b = "observation_of o' (av_expected_digest r) voice new"])
    assume ob: "observation_of o' (av_expected_digest r) voice new"
    show "valid (\<lambda>w. knows r w \<and> observation_of o' (av_expected_digest r) voice new)
      (store_update E (av_id r) (update_outcome new)) (\<lambda>r' w. knows r' w \<and> round_kept False o' r r')"
      by (rule valid_pre[OF valid_post[OF valid_update_outcome[where o' = o']]])
        (use ob True st v in \<open>auto simp: observation_of_def\<close>)
  qed simp
  then show ?thesis unfolding restart_one_def using True by (simp add: valid_bind[OF valid_observe])
next
  case False
  let ?a = "o'\<lparr>so_attempted := True\<rparr>"
  let ?P = "\<lambda>r' w. knows r' w \<and> round_kept False o' r r' \<and> (False, so_service ?a) \<notin> logged w (av_id r')
      \<and> may_restart r' False (so_service ?a)"
  have first: "valid (knows r) (store_update E (av_id r) (update_outcome ?a)) ?P"
  proof (rule valid_post[OF valid_update_outcome[where o' = o']])
    show "?P r' w" if u: "knows r' w \<and> round_kept False o' r r'
        \<and> av_outcomes r' = replace_outcome ?a (av_outcomes r) \<and> (\<exists>j. later r j \<and> rec_ok w j)" for r' w
    proof -
      obtain j where j: "later r j" "rec_ok w j" using u by blast
      have oj: "o' \<in> set (outcomes_of False j)" using later_fields[OF j(1)] o'(1) by (simp add: outcomes_of_def)
      have i: "av_id j = av_id r'" using later_fields[OF j(1)] u by (simp add: round_kept_def)
      have n: "(False, so_service o') \<notin> logged w (av_id r')"
        using not_logged[OF j(2) oj False] i by simp
      have s: "static_ok r'" using u knows_static by blast
      have st': "av_status r' = AcRestarting" using u st by (simp add: round_kept_def)
      have "?a \<in> set (outcomes_of False r')"
        using u replace_outcome_new[of ?a "av_outcomes r"] o'(1) by (simp add: outcomes_of_def)
      then have "\<exists>x \<in> set (outcomes_of False r'). so_service x = so_service o' \<and> so_attempted x"
        by (intro bexI[of _ ?a]) simp_all
      then have "attempted_on r' False (so_service o')" unfolding attempted_on_def by blast
      moreover have "so_service o' \<in> set (av_targets r')"
        using outcomes_services(3)[OF s \<open>?a \<in> set (outcomes_of False r')\<close>] by simp
      ultimately have "may_restart r' False (so_service o')"
        using s st' unfolding may_restart_def static_ok_def status_ok_def by simp
      then show ?thesis using u n by simp
    qed
  qed (use o'(2) st in simp_all)
  have second: "valid (?P r') (restart_and_observe E (av_id r') False prefix ?a (av_expected_digest r') voice)
      (\<lambda>new w. knows r' w \<and> round_kept False o' r r' \<and> observation_of ?a (av_expected_digest r') voice new)" for r' prefix
    by (rule valid_fact[where b = "round_kept False o' r r'"], simp,
        rule valid_pre[OF valid_post[OF valid_restart_and_observe]]) auto
  have third: "valid (\<lambda>w. knows r' w \<and> round_kept False o' r r' \<and> observation_of ?a (av_expected_digest r') voice new)
      (store_update E (av_id r') (update_outcome new)) (\<lambda>r'' w. knows r'' w \<and> round_kept False o' r r'')" for r' new
  proof (rule valid_fact[where b = "round_kept False o' r r' \<and> observation_of ?a (av_expected_digest r') voice new"])
    assume b: "round_kept False o' r r' \<and> observation_of ?a (av_expected_digest r') voice new"
    show "valid (\<lambda>w. knows r' w \<and> round_kept False o' r r' \<and> observation_of ?a (av_expected_digest r') voice new)
      (store_update E (av_id r') (update_outcome new)) (\<lambda>r'' w. knows r'' w \<and> round_kept False o' r r'')"
      by (rule valid_pre[OF valid_post[OF valid_update_outcome[where o' = o']]])
        (use b st v round_kept_trans in \<open>auto simp: observation_of_def round_kept_def\<close>)
  qed simp
  show ?thesis unfolding restart_one_def Let_def
    using False valid_bind[OF first valid_bind[OF second third]] by simp
qed

lemma valid_restart_loop:
  "valid (\<lambda>w. knows r w \<and> av_status r = AcRestarting \<and> remaining False r os \<and> voice = expected_voice r)
     (restart_loop E voice r os)
     (\<lambda>r' w. knows r' w \<and> av_status r' = AcRestarting)"
proof (induction os arbitrary: r)
  case Nil
  then show ?case by (simp add: valid_def ret_def)
next
  case (Cons o' os)
  show ?case
  proof (cases "so_status o' = OutPending")
    case False
    then show ?thesis by (simp, intro valid_pre[OF Cons.IH]) (auto dest: remaining_tl)
  next
    case True
    show ?thesis
    proof (rule valid_fact)
      assume b: "av_status r = AcRestarting \<and> remaining False r (o' # os) \<and> voice = expected_voice r"
      have "valid (knows r) (restart_one E r voice o') (\<lambda>r' w. knows r' w \<and> round_kept False o' r r')"
        by (rule valid_restart_one) (use b True in \<open>auto simp: remaining_def outcomes_of_def\<close>)
      moreover have "valid (\<lambda>w. knows r' w \<and> round_kept False o' r r') (restart_loop E voice r' os)
          (\<lambda>r' w. knows r' w \<and> av_status r' = AcRestarting)" for r'
        by (rule valid_pre[OF Cons.IH])
          (use b remaining_replaced[of False r o' os r'] in \<open>auto simp: round_kept_def\<close>)
      ultimately have "valid (knows r) (bind (restart_one E r voice o') (\<lambda>r'. restart_loop E voice r' os))
          (\<lambda>r' w. knows r' w \<and> av_status r' = AcRestarting)"
        by (rule valid_bind)
      then show "valid (\<lambda>w. knows r w \<and> av_status r = AcRestarting \<and> remaining False r (o' # os) \<and> voice = expected_voice r)
         (restart_loop E voice r (o' # os)) (\<lambda>r' w. knows r' w \<and> av_status r' = AcRestarting)"
        using True by (auto intro: valid_pre)
    qed simp
  qed
qed

lemma updated_rollback_outcome:
  assumes "updated_by (update_rollback_outcome new) r r' w" "so_service new = so_service o'" "av_status r = AcRollingBack"
  shows "round_kept True o' r r'" "av_rollback_outcomes r' = replace_outcome new (av_rollback_outcomes r)"
    "\<exists>j. later r j \<and> rec_ok w j"
proof -
  obtain j k t where j: "later r j" "rec_ok w j" "update_rollback_outcome new j = Inr k"
      "r' = k\<lparr>av_updated_at := t\<rparr>"
    using assms(1) unfolding updated_by_def by blast
  have k: "av_status j = AcRollingBack" "k = j\<lparr>av_rollback_outcomes := replace_outcome new (av_rollback_outcomes j)\<rparr>"
    using j(3) by (simp_all add: update_rollback_outcome_def split: if_splits)
  note l = later_fields[OF j(1)]
  have rb: "av_rollback_outcomes j = av_rollback_outcomes r" using j(1) assms(3) by (simp add: later_def)
  show "av_rollback_outcomes r' = replace_outcome new (av_rollback_outcomes r)" by (simp add: j(4) k rb)
  then show "round_kept True o' r r'"
    using l k(1) assms(2,3) replace_outcome_other
    unfolding round_kept_def outcomes_of_def by (simp add: j(4) k)
  show "\<exists>j. later r j \<and> rec_ok w j" using j by blast
qed

lemma valid_update_rollback:
  assumes "so_attempted o' \<longrightarrow> so_attempted new" "so_service new = so_service o'"
    "av_status r = AcRollingBack" "o' \<in> set (av_rollback_outcomes r)"
  shows "valid (knows r) (store_update E (av_id r) (update_rollback_outcome new))
     (\<lambda>r' w. knows r' w \<and> round_kept True o' r r'
        \<and> av_rollback_outcomes r' = replace_outcome new (av_rollback_outcomes r)
        \<and> (\<exists>j. later r j \<and> rec_ok w j))"
proof (rule valid_post[OF valid_update])
  show "av_id k = av_id j \<and> rec_ok w k"
    if l: "later r j" "static_ok r" and ok: "rec_ok w j" and u: "update_rollback_outcome new j = Inr k" for j k w
  proof (rule update_rollback_outcome_ok[OF ok u])
    have o: "o' \<in> set (outcomes_of True j)"
      using l(1) assms(3,4) by (simp add: later_def outcomes_of_def)
    have s: "static_ok j" using ok by (simp add: rec_ok_def)
    show "attempted_on j True (so_service new) \<longrightarrow> so_attempted new"
      using attempted_iff[OF outcomes_services(1,2)[OF s o] o] assms(1,2) by simp
  qed
  show "knows r' w \<and> round_kept True o' r r'
      \<and> av_rollback_outcomes r' = replace_outcome new (av_rollback_outcomes r) \<and> (\<exists>j. later r j \<and> rec_ok w j)"
    if "knows r' w \<and> updated_by (update_rollback_outcome new) r r' w" for r' w
    using that updated_rollback_outcome[OF _ assms(2,3), of r' w] by blast
qed

lemma valid_rollback_restart:
  assumes st: "av_status r = AcRollingBack" and o': "o' \<in> set (av_rollback_outcomes r)"
    and na: "\<not> so_attempted o'" and a: "so_service a = so_service o'" "so_attempted a"
  shows "valid (knows r)
      (bind (store_update E (av_id r) (update_rollback_outcome a)) (\<lambda>_.
       bind (restart_and_observe E (av_id r) True prefix a digest None) (\<lambda>new.
         store_update E (av_id r) (update_rollback_outcome new))))
      (\<lambda>r' w. knows r' w \<and> round_kept True o' r r')"
proof -
  define mid where "mid r' \<longleftrightarrow> round_kept True o' r r' \<and> a \<in> set (av_rollback_outcomes r') \<and> av_status r' = AcRollingBack"
    for r'
  define P where "P r' w \<longleftrightarrow> knows r' w \<and> mid r' \<and> (True, so_service a) \<notin> logged w (av_id r')
      \<and> may_restart r' True (so_service a)" for r' w
  have first: "valid (knows r) (store_update E (av_id r) (update_rollback_outcome a)) P"
  proof (rule valid_post[OF valid_update_rollback[OF _ a(1) st o']])
    show "P r' w" if u: "knows r' w \<and> round_kept True o' r r'
        \<and> av_rollback_outcomes r' = replace_outcome a (av_rollback_outcomes r) \<and> (\<exists>j. later r j \<and> rec_ok w j)" for r' w
    proof -
      obtain j where j: "later r j" "rec_ok w j" using u by blast
      have oj: "o' \<in> set (outcomes_of True j)" using j(1) st o' by (simp add: later_def outcomes_of_def)
      have i: "av_id j = av_id r'" using later_fields[OF j(1)] u by (simp add: round_kept_def)
      have n: "(True, so_service a) \<notin> logged w (av_id r')" using not_logged[OF j(2) oj na] i a(1) by simp
      have s: "static_ok r'" using u knows_static by blast
      have st': "av_status r' = AcRollingBack" using u st by (simp add: round_kept_def)
      have ar: "a \<in> set (av_rollback_outcomes r')"
        using u replace_outcome_new[of a "av_rollback_outcomes r"] o' a(1) by simp
      then have ao: "a \<in> set (outcomes_of True r')" by (simp add: outcomes_of_def)
      then have "attempted_on r' True (so_service a)" unfolding attempted_on_def using a(2) by blast
      moreover have "so_service a \<in> set (av_targets r')" by (rule outcomes_services(3)[OF s ao])
      ultimately have "may_restart r' True (so_service a)"
        using s st' unfolding may_restart_def static_ok_def status_ok_def by simp
      then show ?thesis using u n ar st' by (simp add: P_def mid_def)
    qed
  qed (use a in simp)
  have "valid (P r') (bind (restart_and_observe E (av_id r) True prefix a digest None) (\<lambda>new.
         store_update E (av_id r) (update_rollback_outcome new))) (\<lambda>r' w. knows r' w \<and> round_kept True o' r r')" for r'
  proof (rule valid_fact[where b = "mid r'"])
    assume m: "mid r'"
    have i: "av_id r = av_id r'" using m by (simp add: mid_def round_kept_def)
    have third: "valid (\<lambda>w. knows r' w \<and> observation_of a digest None new)
        (store_update E (av_id r') (update_rollback_outcome new)) (\<lambda>r' w. knows r' w \<and> round_kept True o' r r')" for new
    proof (rule valid_fact[where b = "observation_of a digest None new"])
      assume ob: "observation_of a digest None new"
      have "valid (knows r') (store_update E (av_id r') (update_rollback_outcome new))
         (\<lambda>r'' w. knows r'' w \<and> round_kept True a r' r''
            \<and> av_rollback_outcomes r'' = replace_outcome new (av_rollback_outcomes r')
            \<and> (\<exists>j. later r' j \<and> rec_ok w j))"
        by (rule valid_update_rollback) (use ob m in \<open>simp_all add: observation_of_def mid_def\<close>)
      then show "valid (\<lambda>w. knows r' w \<and> observation_of a digest None new)
        (store_update E (av_id r') (update_rollback_outcome new)) (\<lambda>r' w. knows r' w \<and> round_kept True o' r r')"
        by (rule valid_pre[OF valid_post])
          (use m a(1) round_kept_trans in \<open>auto simp: mid_def round_kept_def\<close>)
    qed simp
    show "valid (P r') (bind (restart_and_observe E (av_id r) True prefix a digest None) (\<lambda>new.
         store_update E (av_id r) (update_rollback_outcome new))) (\<lambda>r' w. knows r' w \<and> round_kept True o' r r')"
      unfolding i by (rule valid_pre[OF valid_bind[OF valid_restart_and_observe third]]) (simp add: P_def)
  qed (simp add: P_def)
  with first show ?thesis by (rule valid_bind)
qed

lemma valid_rollback_one:
  assumes st: "av_status r = AcRollingBack" and o': "o' \<in> set (av_rollback_outcomes r)"
  shows "valid (knows r) (rollback_one E (av_id r) digest o') (\<lambda>r' w. knows r' w \<and> round_kept True o' r r')"
proof -
  let ?Q = "\<lambda>r' w. knows r' w \<and> round_kept True o' r r'"
  have upd: "valid (knows r) (store_update E (av_id r) (update_rollback_outcome new)) ?Q"
    if "so_attempted o' \<longrightarrow> so_attempted new" "so_service new = so_service o'" for new
    by (rule valid_post[OF valid_update_rollback[OF that st o']]) blast
  have obs: "valid (knows r) (bind (observe_restart E (o'\<lparr>so_before := b\<rparr>) digest None)
      (\<lambda>new. store_update E (av_id r) (update_rollback_outcome new))) ?Q" for b
  proof (rule valid_bind[OF valid_observe], rule valid_fact)
    fix new
    assume "observation_of (o'\<lparr>so_before := b\<rparr>) digest None new"
    then show "valid (\<lambda>w. knows r w \<and> observation_of (o'\<lparr>so_before := b\<rparr>) digest None new)
        (store_update E (av_id r) (update_rollback_outcome new)) ?Q"
      by (intro valid_pre[OF upd]) (auto simp: observation_of_def)
  qed simp
  have restart: "valid (knows r)
      (bind (store_update E (av_id r) (update_rollback_outcome a)) (\<lambda>_.
       bind (restart_and_observe E (av_id r) True prefix a digest None) (\<lambda>new.
         store_update E (av_id r) (update_rollback_outcome new)))) ?Q"
    if na: "\<not> so_attempted o'" and a: "a = o'\<lparr>so_before := b, so_attempted := True\<rparr>" for a b prefix
    by (rule valid_rollback_restart[OF st o' na]) (simp_all add: a)
  have body: "valid (knows r)
     (if is_running before \<and> sn_config_digest before = digest
       then store_update E (av_id r) (update_rollback_outcome
              (o'\<lparr>so_status := OutSucceeded, so_before := Some before, so_after := Some before,
                 so_detail := ''already active with the previous immutable snapshot''\<rparr>))
       else if \<not> is_running before
       then store_update E (av_id r) (update_rollback_outcome
              (o'\<lparr>so_status := OutFailed, so_before := Some before, so_detail := not_running before\<rparr>))
       else
         let pending = o'\<lparr>so_before := Some before\<rparr> in
         if so_attempted pending
         then bind (observe_restart E pending digest None) (\<lambda>observed.
              store_update E (av_id r) (update_rollback_outcome observed))
         else
           let attempted = pending\<lparr>so_attempted := True\<rparr> in
           bind (store_update E (av_id r) (update_rollback_outcome attempted)) (\<lambda>_.
           bind (restart_and_observe E (av_id r) True ''rollback restart command failed: '' attempted digest None)
             (\<lambda>observed. store_update E (av_id r) (update_rollback_outcome observed)))) ?Q" for before
    unfolding Let_def using restart obs upd by simp
  have first: "valid (knows r) (case so_before o' of Some s \<Rightarrow> ret s | None \<Rightarrow> take_snapshot E (so_service o'))
      (\<lambda>_. knows r)"
    using valid_snapshot by (auto simp: valid_def ret_def split: option.split)
  show ?thesis unfolding rollback_one_def by (rule valid_bind[OF first body])
qed

lemma valid_rollback_loop:
  "valid (\<lambda>w. knows r w \<and> av_status r = AcRollingBack \<and> remaining True r os)
     (rollback_loop E digest r os) (\<lambda>r' w. knows r' w \<and> av_status r' = AcRollingBack)"
proof (induction os arbitrary: r)
  case Nil
  then show ?case by (simp add: valid_def ret_def)
next
  case (Cons o' os)
  show ?case
  proof (cases "so_status o' = OutPending")
    case False
    then show ?thesis by (simp, intro valid_pre[OF Cons.IH]) (auto dest: remaining_tl)
  next
    case True
    show ?thesis
    proof (rule valid_fact)
      assume b: "av_status r = AcRollingBack \<and> remaining True r (o' # os)"
      have "valid (knows r) (rollback_one E (av_id r) digest o') (\<lambda>r' w. knows r' w \<and> round_kept True o' r r')"
        by (rule valid_rollback_one) (use b in \<open>auto simp: remaining_def outcomes_of_def\<close>)
      moreover have "valid (\<lambda>w. knows r' w \<and> round_kept True o' r r') (rollback_loop E digest r' os)
          (\<lambda>r' w. knows r' w \<and> av_status r' = AcRollingBack)" for r'
        by (rule valid_pre[OF Cons.IH])
          (use b remaining_replaced[of True r o' os r'] in \<open>auto simp: round_kept_def\<close>)
      ultimately have "valid (knows r) (bind (rollback_one E (av_id r) digest o') (\<lambda>r'. rollback_loop E digest r' os))
          (\<lambda>r' w. knows r' w \<and> av_status r' = AcRollingBack)"
        by (rule valid_bind)
      then show "valid (\<lambda>w. knows r w \<and> av_status r = AcRollingBack \<and> remaining True r (o' # os))
         (rollback_loop E digest r (o' # os)) (\<lambda>r' w. knows r' w \<and> av_status r' = AcRollingBack)"
        using True by (auto intro: valid_pre)
    qed simp
  qed
qed

section \<open>The whole execution\<close>

text \<open>An update that keeps what the log says: the targets, and at most a later stage.\<close>

lemma rec_ok_kept:
  assumes "rec_ok w j" "static_ok k" "av_id k = av_id j" "av_targets k = av_targets j" "is_voice k = is_voice j"
    "av_voice_validated j \<longrightarrow> av_voice_validated k" "av_validation_attempted j \<longrightarrow> av_validation_attempted k"
    "told j \<longrightarrow> told k" "stage (av_status j) \<le> stage (av_status k)"
    "av_outcomes k = av_outcomes j \<or> stage (av_status j) = 0"
    "av_rollback_outcomes k = av_rollback_outcomes j \<or> stage (av_status j) < 2"
  shows "rec_ok w k"
proof -
  have "log_ok (logged w (av_id j)) (av_id j \<in> set (wd_validations w)) k"
  proof (rule log_ok_same[where j = j])
    fix rollback s
    assume l: "(rollback, s) \<in> logged w (av_id j)" and a: "attempted_on j rollback s"
    have "(if rollback then 2 else 1) \<le> stage (av_status j)"
      using l assms(1) unfolding rec_ok_def log_ok_def by blast
    then have "outcomes_of rollback k = outcomes_of rollback j"
      using assms(10,11) by (cases rollback) (auto simp: outcomes_of_def)
    then show "attempted_on k rollback s" using a by (simp add: attempted_on_def)
  qed (use assms in \<open>simp_all add: rec_ok_def\<close>)
  then show ?thesis using assms(2,3) by (simp add: rec_ok_def)
qed

lemma rec_ok_static: "rec_ok w j \<Longrightarrow> static_ok j"
  by (simp add: rec_ok_def)

lemma valid_finish:
  assumes "status = AcSucceeded \<longrightarrow> (\<forall>o' \<in> set (av_outcomes r). so_status o' = OutSucceeded)"
  shows "valid (knows r) (finish_record E r status detail) knows"
  unfolding finish_record_def
proof (rule valid_post[OF valid_update])
  fix j k w
  assume l: "later r j" and ok: "rec_ok w j" and f: "finish_activation status detail j = Inr k"
  have k: "k = j\<lparr>av_status := status, av_detail := detail\<rparr>" "status \<in> FINAL_STATES"
    using f by (auto simp: finish_activation_def)
  have n: "stage status = 3" "status \<noteq> AcAccepted" "status \<notin> {AcReady, AcValidating, AcRestarting, AcRollingBack}"
    "status \<noteq> AcRestarting" using k(2) by (auto simp: FINAL_STATES_def)
  have "status = AcSucceeded \<longrightarrow> (\<forall>o' \<in> set (av_outcomes j). so_status o' = OutSucceeded)"
    using assms later_fields[OF l] by simp
  with n have "static_ok k"
    using rec_ok_static[OF ok] unfolding k(1) static_ok_def status_ok_def voice_ok_def by auto
  then show "av_id k = av_id j \<and> rec_ok w k"
  proof (intro conjI rec_ok_kept[OF ok])
    have "stage (av_status j) \<le> 3" by (cases "av_status j") simp_all
    then show "stage (av_status j) \<le> stage (av_status k)" using stage_final[OF k(2)] by (simp add: k(1))
  qed (simp_all add: k(1) told_def)
qed simp

lemma valid_restored:
  "valid (knows r) (store_update E (av_id r) (mark_rollback_config_restored digest))
     (\<lambda>r' w. knows r' w \<and> av_status r' = AcRollingBack)"
proof (rule valid_post[OF valid_update])
  fix j k w
  assume ok: "rec_ok w j" and f: "mark_rollback_config_restored digest j = Inr k"
  have k: "k = j\<lparr>av_rollback_restored := True, av_rollback_digest := digest\<rparr>"
    using f by (simp add: mark_rollback_config_restored_def split: if_splits)
  have "static_ok k"
    using rec_ok_static[OF ok] unfolding k static_ok_def status_ok_def voice_ok_def told_def by simp
  then show "av_id k = av_id j \<and> rec_ok w k"
    by (intro conjI rec_ok_kept[OF ok]) (simp_all add: k told_def)
next
  show "knows r' w \<and> av_status r' = AcRollingBack"
    if "knows r' w \<and> updated_by (mark_rollback_config_restored digest) r r' w" for r' w
    using that by (auto simp: updated_by_def mark_rollback_config_restored_def split: if_splits)
qed

lemma remaining_all: "static_ok r \<Longrightarrow> remaining rollback r (outcomes_of rollback r)"
proof -
  assume s: "static_ok r"
  have "distinct (map so_service (outcomes_of rollback r))"
  proof (cases "outcomes_of rollback r")
    case (Cons x xs)
    then show ?thesis using outcomes_services[OF s, of x rollback] by simp
  qed simp
  then show ?thesis by (simp add: remaining_def)
qed

lemma valid_rollback_services:
  "valid (\<lambda>w. knows r w \<and> av_status r = AcRollingBack) (rollback_services E r) knows"
  unfolding rollback_services_def Let_def
proof (rule valid_bind)
  show "valid (\<lambda>w. knows r w \<and> av_status r = AcRollingBack)
     (rollback_loop E (av_rollback_digest r) r (av_rollback_outcomes r))
     (\<lambda>r' w. knows r' w \<and> av_status r' = AcRollingBack)"
    by (rule valid_pre[OF valid_rollback_loop])
      (use remaining_all[of r True] in \<open>auto simp: outcomes_of_def dest: knows_static\<close>)
  show "valid (\<lambda>w. knows r' w \<and> av_status r' = AcRollingBack)
     (bind (load_config E) (\<lambda>config.
        if cf_digest config \<noteq> av_rollback_digest r
        then finish_record E r' AcFailed
               (av_detail r' @ '' The previous voice could not be proven after restoration.'')
        else if filter (\<lambda>o'. so_status o' \<noteq> OutSucceeded) (av_rollback_outcomes r') \<noteq> []
        then finish_record E r' AcFailed
               (av_detail r' @ '' The previous voice was restored, but its service snapshot could not be fully restored: ''
                @ outcome_reports (filter (\<lambda>o'. so_status o' \<noteq> OutSucceeded) (av_rollback_outcomes r')))
        else finish_record E r' AcFailed
               (av_detail r' @ '' The previous voice and service snapshot were restored.'')))
     knows" for r'
    by (rule valid_pre[where P = "knows r'"], rule valid_bind[OF valid_load])
      (auto intro!: valid_if valid_finish)
qed

lemma valid_execute_rollback:
  "valid (\<lambda>w. knows r w \<and> av_status r = AcRollingBack) (execute_voice_rollback E r) knows"
proof -
  have fin: "valid (knows r) (finish_record E r AcFailed d) knows" for d by (rule valid_finish) simp
  have mark: "valid (knows r) (bind (store_update E (av_id r) (mark_rollback_config_restored d))
      (rollback_services E)) knows" for d
    by (rule valid_bind[OF valid_restored valid_rollback_services])
  have restore: "valid (knows r) (bind (restore_voice E old new) f) knows"
    if "\<And>x. valid (knows r) (f x) knows" for old new f
    by (rule valid_bind[OF valid_restore that])
  show ?thesis
  proof (rule valid_fact)
    assume st: "av_status r = AcRollingBack"
    have serv: "valid (knows r) (rollback_services E r) knows"
      by (rule valid_pre[OF valid_rollback_services]) (simp add: st)
    have "valid (knows r) (execute_voice_rollback E r) knows"
      unfolding execute_voice_rollback_def
      by (auto split: setting_value.split sum.split intro!: fin valid_bind[OF valid_load] valid_if mark restore serv)
    then show "valid (\<lambda>w. knows r w \<and> av_status r = AcRollingBack) (execute_voice_rollback E r) knows"
      by (rule valid_pre) simp
  qed simp
qed

lemma valid_roll_back: "valid (knows r) (roll_back E r detail) knows"
  unfolding roll_back_def
proof (rule valid_bind[OF valid_post[OF valid_update] valid_execute_rollback])
  show "av_id k = av_id j \<and> rec_ok w k" if "rec_ok w j" "begin_rollback detail j = Inr k" for j k w
    using rec_ok_others[OF others_transitions(5) that(2,1)] by (auto simp: later_def)
  show "knows r' w \<and> av_status r' = AcRollingBack"
    if "knows r' w \<and> updated_by (begin_rollback detail) r r' w" for r' w
    using that by (auto simp: updated_by_def begin_rollback_def)
qed

lemma filter_all: "length (filter P xs) = length xs \<Longrightarrow> \<forall>x \<in> set xs. P x"
  using length_filter_less[of _ xs P] by fastforce

lemma valid_conclude: "valid (knows r) (conclude_activation E r) knows"
  unfolding conclude_activation_def Let_def
  by (rule valid_bind[OF valid_load]) (auto intro!: valid_if valid_roll_back valid_finish dest: filter_all)

lemma valid_restart_services: "valid (knows r) (restart_services E r) knows"
proof (cases "av_status r = AcRestarting")
  case True
  have "valid (knows r) (restart_loop E (expected_voice r) r (av_outcomes r)) (\<lambda>r' w. knows r' w)"
    by (rule valid_pre[OF valid_post[OF valid_restart_loop]])
      (use True remaining_all[of r False] in \<open>auto simp: outcomes_of_def dest: knows_static\<close>)
  then show ?thesis unfolding restart_services_def using True by (simp add: valid_bind[OF _ valid_conclude])
qed (auto simp: restart_services_def intro: valid_raise knows_safe)

text \<open>The outcomes a restart begins with are those of a record no restart was begun for.\<close>

lemma valid_initial_outcomes:
  "valid (knows r) (initial_outcomes E os)
     (\<lambda>new w. knows r w \<and> map so_service new = map so_service os
        \<and> ((\<forall>x \<in> set os. so_status x \<noteq> OutSucceeded) \<longrightarrow> (\<forall>x \<in> set new. so_status x \<noteq> OutSucceeded)))"
proof (induction os)
  case Nil
  then show ?case by (simp add: valid_def ret_def)
next
  case (Cons o' os)
  have i: "so_service (initial_outcome o' b) = so_service o'"
    "so_status o' \<noteq> OutSucceeded \<longrightarrow> so_status (initial_outcome o' b) \<noteq> OutSucceeded" for b
    by (simp_all add: initial_outcome_def)
  show ?case
    by (simp, rule valid_bind[OF valid_snapshot], rule valid_bind[OF Cons.IH])
      (use i in \<open>auto simp: valid_def ret_def\<close>)
qed

lemma valid_begin_restart:
  assumes "map so_service new = map so_service (av_outcomes r)"
    "\<forall>x \<in> set new. so_status x \<noteq> OutSucceeded" "is_voice r \<longrightarrow> av_voice_validated r"
  shows "valid (knows r) (store_update E (av_id r) (begin_restart new)) knows"
proof (rule valid_post[OF valid_update])
  fix j k w
  assume l: "later r j" and ok: "rec_ok w j" and f: "begin_restart new j = Inr k"
  have st: "av_status j = AcReady" and k: "k = j\<lparr>av_status := AcRestarting, av_outcomes := new\<rparr>"
    using f by (simp_all add: begin_restart_def)
  note s = rec_ok_static[OF ok]
  have "map so_service new = av_targets j" using assms(1) later_fields[OF l] s by (simp add: static_ok_def)
  moreover have "told j" using s st by (simp add: static_ok_def status_ok_def)
  moreover have "is_voice j \<longrightarrow> av_voice_validated j" using assms(3) l by (simp add: later_def is_voice_def)
  ultimately have "static_ok k"
    using s assms(2) unfolding k static_ok_def status_ok_def voice_ok_def told_def by simp
  then show "av_id k = av_id j \<and> rec_ok w k"
    by (intro conjI rec_ok_kept[OF ok]) (simp_all add: k st told_def)
qed simp

text \<open>An offer, accepted or ready record has fresh outcomes, none of them successful.\<close>

lemma early_outcomes:
  assumes "static_ok r" "av_status r = AcReady"
  shows "\<forall>x \<in> set (av_outcomes r). so_status x \<noteq> OutSucceeded"
  using assms by (auto simp: static_ok_def fresh_outcome_def)

lemma valid_begin_services:
  assumes v: "is_voice r \<and> av_status r = AcReady \<longrightarrow> av_voice_validated r"
  shows "valid (knows r) (begin_services E r) knows"
proof (cases "av_status r = AcReady")
  case True
  have "valid (knows r)
      (bind (initial_outcomes E (av_outcomes r)) (\<lambda>initial.
        bind (store_update E (av_id r) (begin_restart initial)) (restart_services E))) knows"
  proof (rule valid_bind[OF valid_initial_outcomes], rule valid_fact)
    fix new :: "service_outcome list" and w
    assume w: "knows r w \<and> map so_service new = map so_service (av_outcomes r)
      \<and> ((\<forall>x \<in> set (av_outcomes r). so_status x \<noteq> OutSucceeded) \<longrightarrow> (\<forall>x \<in> set new. so_status x \<noteq> OutSucceeded))"
    then show "map so_service new = map so_service (av_outcomes r)
      \<and> (\<forall>x \<in> set new. so_status x \<noteq> OutSucceeded)"
      using early_outcomes[OF knows_static True] by blast
  next
    fix new :: "service_outcome list"
    assume b: "map so_service new = map so_service (av_outcomes r) \<and> (\<forall>x \<in> set new. so_status x \<noteq> OutSucceeded)"
    have "valid (knows r) (store_update E (av_id r) (begin_restart new)) knows"
      by (rule valid_begin_restart) (use b v True in auto)
    then show "valid (\<lambda>w. knows r w \<and> map so_service new = map so_service (av_outcomes r)
        \<and> ((\<forall>x \<in> set (av_outcomes r). so_status x \<noteq> OutSucceeded) \<longrightarrow> (\<forall>x \<in> set new. so_status x \<noteq> OutSucceeded)))
        (bind (store_update E (av_id r) (begin_restart new)) (restart_services E)) knows"
      by (rule valid_pre[OF valid_bind[OF _ valid_restart_services]]) simp
  qed
  then show ?thesis by (simp add: begin_services_def True)
qed (simp add: begin_services_def valid_restart_services)

lemma valid_update_digest:
  "valid (knows r) (store_update E (av_id r) (update_voice_activation_digest digest))
     (\<lambda>r' w. knows r' w \<and> av_voice_validated r')"
proof (rule valid_post[OF valid_update])
  fix j k w
  assume ok: "rec_ok w j" and f: "update_voice_activation_digest digest j = Inr k"
  have st: "av_status j = AcReady" and k: "k = j\<lparr>av_expected_digest := digest\<rparr>"
    using f by (simp_all add: update_voice_activation_digest_def split: if_splits)
  have "static_ok k"
    using rec_ok_static[OF ok] early_outcomes[OF rec_ok_static[OF ok] st]
    unfolding k static_ok_def status_ok_def voice_ok_def told_def by simp
  then show "av_id k = av_id j \<and> rec_ok w k"
    by (intro conjI rec_ok_kept[OF ok]) (simp_all add: k told_def)
next
  show "knows r' w \<and> av_voice_validated r'"
    if "knows r' w \<and> updated_by (update_voice_activation_digest digest) r r' w" for w and r' :: activation_record
    using that by (auto simp: updated_by_def update_voice_activation_digest_def split: if_splits)
qed

lemma valid_prepare_voice:
  assumes "is_voice r \<and> av_status r = AcReady \<longrightarrow> av_voice_validated r"
  shows "valid (knows r) (prepare_voice E r) knows"
proof -
  have digest: "valid (knows r) (bind (store_update E (av_id r) (update_voice_activation_digest d)) (begin_services E))
      knows" for d
  proof (rule valid_bind[OF valid_update_digest], rule valid_fact)
    fix r' :: activation_record assume "av_voice_validated r'"
    then show "valid (\<lambda>w. knows r' w \<and> av_voice_validated r') (begin_services E r') knows"
      by (intro valid_pre[OF valid_begin_services]) auto
  qed simp
  show ?thesis unfolding prepare_voice_def
    by (auto intro!: valid_if valid_bind[OF valid_load] valid_roll_back digest valid_begin_services[OF assms])
qed

lemma valid_begin_validation:
  "valid (knows r) (store_update E (av_id r) begin_voice_validation)
     (\<lambda>r' w. knows r' w \<and> av_id r' \<notin> set (wd_validations w) \<and> av_validation_attempted r')"
proof (rule valid_post[OF valid_update])
  fix j k w
  assume ok: "rec_ok w j" and f: "begin_voice_validation j = Inr k"
  have st: "av_status j = AcReady" "is_voice j" and k: "k = j\<lparr>av_status := AcValidating, av_validation_attempted := True\<rparr>"
    using f by (simp_all add: begin_voice_validation_def is_voice_def)
  have "static_ok k"
    using rec_ok_static[OF ok] st unfolding k static_ok_def status_ok_def voice_ok_def told_def by simp
  then show "av_id k = av_id j \<and> rec_ok w k"
    by (intro conjI rec_ok_kept[OF ok]) (simp_all add: k told_def st)
next
  fix r' w
  assume u: "knows r' w \<and> updated_by begin_voice_validation r r' w"
  then obtain j k t where j: "rec_ok w j" "begin_voice_validation j = Inr k" "r' = k\<lparr>av_updated_at := t\<rparr>"
    unfolding updated_by_def by blast
  have a: "\<not> av_validation_attempted j" and k: "k = j\<lparr>av_status := AcValidating, av_validation_attempted := True\<rparr>"
    using j(2) by (simp_all add: begin_voice_validation_def)
  have "av_id j \<notin> set (wd_validations w)" using j(1) a by (auto simp: rec_ok_def log_ok_def)
  then show "knows r' w \<and> av_id r' \<notin> set (wd_validations w) \<and> av_validation_attempted r'"
    using u by (simp add: j(3) k)
qed

lemma valid_mark_validated:
  "valid (knows r) (store_update E (av_id r) mark_voice_validated)
     (\<lambda>r' w. knows r' w \<and> av_voice_validated r')"
proof (rule valid_post[OF valid_update])
  fix j k w
  assume ok: "rec_ok w j" and f: "mark_voice_validated j = Inr k"
  have st: "av_status j = AcValidating" and k: "k = j\<lparr>av_status := AcReady, av_voice_validated := True\<rparr>"
    using f by (simp_all add: mark_voice_validated_def)
  have "static_ok k"
    using rec_ok_static[OF ok] st unfolding k static_ok_def status_ok_def voice_ok_def told_def by simp
  then show "av_id k = av_id j \<and> rec_ok w k"
    by (intro conjI rec_ok_kept[OF ok]) (simp_all add: k told_def st)
next
  show "knows r' w \<and> av_voice_validated r'" if "knows r' w \<and> updated_by mark_voice_validated r r' w"
    for w and r' :: activation_record
    using that by (auto simp: updated_by_def mark_voice_validated_def)
qed

lemma valid_check_voice: "valid (knows r) (check_voice E r) knows"
proof (cases "is_voice r \<and> av_status r = AcReady \<and> \<not> av_voice_validated r")
  case False
  then show ?thesis unfolding check_voice_def by (auto intro: valid_prepare_voice)
next
  case True
  have good: "valid (knows r') (bind (store_update E (av_id r') mark_voice_validated) (prepare_voice E)) knows" for r'
  proof (rule valid_bind[OF valid_mark_validated], rule valid_fact)
    fix r'' :: activation_record assume "av_voice_validated r''"
    then show "valid (\<lambda>w. knows r'' w \<and> av_voice_validated r'') (prepare_voice E r'') knows"
      by (intro valid_pre[OF valid_prepare_voice]) auto
  qed simp
  have "valid (knows r)
      (bind (store_update E (av_id r) begin_voice_validation) (\<lambda>r.
       bind (validate_voice E (av_id r) voice) (\<lambda>result.
         let (usable, detail) = validation_result result in
         if usable then bind (store_update E (av_id r) mark_voice_validated) (prepare_voice E)
         else roll_back E r (''Voice '' @ py_repr voice @ '' was not usable: '' @ detail)))) knows" for voice
    by (rule valid_bind[OF valid_begin_validation], rule valid_bind[OF valid_validate])
      (auto simp: Let_def split_def intro: good valid_roll_back)
  then show ?thesis unfolding check_voice_def using True
    by (auto split: setting_value.split intro: valid_roll_back)
qed

lemma valid_check_config: "valid (knows r) (check_config E r) knows"
proof -
  have changed: "valid (knows r)
      (bind (if av_status r = AcReady then store_update E (av_id r) (begin_restart (av_outcomes r)) else ret r)
        (\<lambda>r. finish_record E r AcFailed ''The stored configuration changed before activation.'')) knows"
    if "\<not> (is_voice r \<and> av_status r \<in> {AcReady, AcRestarting})"
  proof (rule valid_bind[where Q = knows])
    show "valid (knows r)
        (if av_status r = AcReady then store_update E (av_id r) (begin_restart (av_outcomes r)) else ret r) knows"
    proof (rule valid_if)
      assume st: "av_status r = AcReady"
      show "valid (knows r) (store_update E (av_id r) (begin_restart (av_outcomes r))) knows"
        by (rule valid_fact[where b = "static_ok r"], erule knows_static, rule valid_begin_restart)
          (use that st early_outcomes[of r] in auto)
    qed (simp add: valid_def ret_def)
  qed (rule valid_finish, simp)
  show ?thesis unfolding check_config_def
    by (rule valid_bind[OF valid_load]) (intro valid_if valid_check_voice valid_roll_back changed, simp_all)
qed

lemma valid_execute: "valid safe (execute_activation E record_id) (\<lambda>_. safe)"
proof -
  have current: "valid safe (current_record E)
      (\<lambda>x w. safe w \<and> (\<forall>r. x = Some r \<longrightarrow> knows r w))"
    unfolding current_record_def
  proof (rule valid_call)
    show "valid safe (\<lambda>w. (w, Inr (wd_journal w))) (\<lambda>x w. safe w \<and> (\<forall>r. x = Some r \<longrightarrow> knows r w))" for n
    proof (rule validI)
      fix w w' x assume s: "safe w" and e: "(w, Inr (wd_journal w)) = (w', Inr x)"
      have "knows r w" if "wd_journal w = Some r" for r
        using s that unfolding knows_def safe_def
        by (auto simp: all_records_Some rec_ok_static intro: later_refl)
      then show "safe w' \<and> (\<forall>r. x = Some r \<longrightarrow> knows r w')" using s e by auto
    qed simp
  qed (use interfere_keeps in blast)+
  have body: "valid (knows r)
      (if av_id r \<noteq> record_id
       then raise_error (ActivationStateError ''activation request no longer exists'')
       else if av_status r \<in> FINAL_STATES then ret r
       else if av_status r = AcRollingBack then execute_voice_rollback E r
       else if av_status r = AcValidating
       then roll_back E r
         ''Voice usability validation was attempted, but its result was not durably recorded. Validation was not repeated.''
       else check_config E r) (\<lambda>_. safe)" for r
  proof -
    have w: "valid (knows r) m knows \<Longrightarrow> valid (knows r) m (\<lambda>_. safe)" for m
      by (erule valid_post) (rule knows_safe)
    have rb: "av_status r = AcRollingBack \<Longrightarrow> valid (knows r) (execute_voice_rollback E r) knows"
      by (rule valid_pre[OF valid_execute_rollback]) simp
    have "valid (knows r) (ret r) knows" by (simp add: valid_def ret_def)
    then show ?thesis
      by (intro valid_if w rb valid_roll_back valid_check_config valid_raise) (auto intro: knows_safe)
  qed
  show ?thesis unfolding execute_activation_def
  proof (rule valid_bind[OF current])
    fix x :: "activation_record option"
    show "valid (\<lambda>w. safe w \<and> (\<forall>r. x = Some r \<longrightarrow> knows r w))
       (case x of None \<Rightarrow> raise_error (ActivationStateError ''activation request no longer exists'')
        | Some r \<Rightarrow>
           if av_id r \<noteq> record_id
           then raise_error (ActivationStateError ''activation request no longer exists'')
           else if av_status r \<in> FINAL_STATES then ret r
           else if av_status r = AcRollingBack then execute_voice_rollback E r
           else if av_status r = AcValidating
           then roll_back E r
             ''Voice usability validation was attempted, but its result was not durably recorded. Validation was not repeated.''
           else check_config E r) (\<lambda>_. safe)"
    proof (cases x)
      case (Some r)
      show ?thesis unfolding Some option.case by (rule valid_pre[OF body]) simp
    qed (auto intro: valid_raise)
  qed
qed

lemma runs_are_safe: "safe w \<Longrightarrow> safe (run_executions runs w)"
proof (induction runs arbitrary: w)
  case (Cons run runs)
  obtain E i where r: "run = (E, i)" by (cases run)
  obtain w' h where x: "execute_activation E i w = (w', h)" by (cases "execute_activation E i w")
  have "safe w'" using validD[OF valid_execute Cons.prems] x by (cases h) auto
  then show ?case using Cons.IH x r by simp
qed simp

lemma safe_empty: "safe empty_world"
  by (simp add: safe_def empty_world_def all_records_def)

section \<open>What the user can rely on\<close>

text \<open>
  C20. Whatever order of executions, deaths and changes by the wake daemon: a service is restarted at
  most once for an activation and at most once for its rollback, a voice is validated at most once.
\<close>

theorem no_restart_is_repeated:
  "distinct (wd_restarts (run_executions runs empty_world))
   \<and> distinct (wd_validations (run_executions runs empty_world))"
  using runs_are_safe[OF safe_empty, of runs] unfolding safe_def by blast

text \<open>
  C22. An activation recorded as succeeded has, for each of its services, seen it installed and active
  in a new process with the expected configuration, or for a voice the expected voice.
\<close>

theorem recorded_success_was_observed:
  assumes "r \<in> set (all_records (run_executions runs empty_world))" "av_status r = AcSucceeded"
    "o' \<in> set (av_outcomes r)"
  shows "\<exists>before after. so_before o' = Some before \<and> so_after o' = Some after
    \<and> sn_installed after \<and> sn_active_state after = ''active''
    \<and> snapshot_identity after \<noteq> snapshot_identity before
    \<and> matches_expected_snapshot after (av_expected_digest r) (expected_voice r)"
proof -
  have "rec_ok (run_executions runs empty_world) r"
    using runs_are_safe[OF safe_empty, of runs] assms(1) unfolding safe_def by blast
  then have "seen_active (av_expected_digest r) (expected_voice r) o'"
    using assms(2,3) unfolding rec_ok_def static_ok_def by blast
  then show ?thesis
    by (auto simp: seen_active_def restarted_as_expected_def identity_changed_def split: option.splits)
qed

end
