(* ===== verification/Activation_Progress.thy ===== *)
theory Activation_Progress imports Activation_Machine begin

text \<open>
  An execution that is not disturbed ends the activation: from every state that any executions can
  leave behind, with the process dying anywhere, one more execution brings an accepted activation
  to a final status, provided nobody else moves, the process lives and the calls answer.
\<close>

section \<open>Undisturbed programs\<close>

definition undisturbed :: "act_env \<Rightarrow> bool" where
  "undisturbed E \<longleftrightarrow>
     (\<forall>n. en_others E n = [] \<and> \<not> en_dies E n
        \<and> (\<exists>c. en_config E n = Inr c \<and> is_digest (cf_digest c))
        \<and> (\<forall>s. \<exists>x. en_snapshot E n s = Inr x) \<and> (\<forall>s. \<exists>x. en_observed E n s = Inr x)
        \<and> (\<forall>old new c. en_restore E n old new = Inr c \<longrightarrow> is_digest (cf_digest c)))"

definition settles :: "(act_world \<Rightarrow> bool) \<Rightarrow> 'a act \<Rightarrow> ('a \<Rightarrow> act_world \<Rightarrow> bool) \<Rightarrow> bool" where
  "settles P m Q \<longleftrightarrow> (\<forall>w. P w \<longrightarrow> (\<exists>w' x. m w = (w', Inr x) \<and> Q x w'))"

lemma settlesD: "settles P m Q \<Longrightarrow> P w \<Longrightarrow> \<exists>w' x. m w = (w', Inr x) \<and> Q x w'"
  unfolding settles_def by blast

lemma settles_bind:
  assumes "settles P m Q" "\<And>x. settles (Q x) (f x) R"
  shows "settles P (bind m f) R"
  unfolding settles_def
proof (intro allI impI)
  fix w assume "P w"
  from settlesD[OF assms(1) this] obtain u x where "m w = (u, Inr x)" "Q x u" by blast
  moreover obtain w' y where "f x u = (w', Inr y)" "R y w'"
    using settlesD[OF assms(2) \<open>Q x u\<close>] by blast
  ultimately show "\<exists>w' y. bind m f w = (w', Inr y) \<and> R y w'" by (auto simp: bind_def)
qed

lemma settles_ret: "settles (Q x) (ret x) Q"
  by (simp add: settles_def ret_def)

lemma settles_pre: "settles P m Q \<Longrightarrow> (\<And>w. P' w \<Longrightarrow> P w) \<Longrightarrow> settles P' m Q"
  unfolding settles_def by blast

lemma settles_post: "settles P m Q \<Longrightarrow> (\<And>x w. Q x w \<Longrightarrow> Q' x w) \<Longrightarrow> settles P m Q'"
  unfolding settles_def by blast

lemma settles_fact: "(\<And>w. P w \<Longrightarrow> b) \<Longrightarrow> (b \<Longrightarrow> settles P m Q) \<Longrightarrow> settles P m Q"
  unfolding settles_def by blast

lemma settles_if:
  "(b \<Longrightarrow> settles P m Q) \<Longrightarrow> (\<not> b \<Longrightarrow> settles P m' Q) \<Longrightarrow> settles P (if b then m else m') Q"
  by simp

text \<open>The journal holds the record.\<close>

definition held :: "activation_record \<Rightarrow> act_world \<Rightarrow> bool" where
  "held r w \<longleftrightarrow> wd_journal w = Some r"

lemma undisturbed_call:
  assumes "undisturbed E"
  shows "call E body w = body (wd_calls w) (w\<lparr>wd_calls := Suc (wd_calls w)\<rparr>)"
  using assms by (simp add: undisturbed_def call_def interfere_def)

lemma settles_answer:
  assumes "undisturbed E" "\<And>n. \<exists>x. g n = Inr x \<and> \<Phi> x"
  shows "settles (held r) (call E (\<lambda>n. answer (g n))) (\<lambda>x w. held r w \<and> \<Phi> x)"
  unfolding settles_def
proof (intro allI impI)
  fix w assume h: "held r w"
  obtain x where x: "g (wd_calls w) = Inr x" "\<Phi> x" using assms(2) by blast
  then show "\<exists>w' x. call E (\<lambda>n. answer (g n)) w = (w', Inr x) \<and> held r w' \<and> \<Phi> x"
    using h by (simp add: undisturbed_call[OF assms(1)] answer_def ret_def held_def)
qed

lemma settles_load:
  "undisturbed E \<Longrightarrow> settles (held r) (load_config E) (\<lambda>c w. held r w \<and> is_digest (cf_digest c))"
  unfolding load_config_def by (rule settles_answer) (simp_all add: undisturbed_def)

lemma settles_snapshot:
  assumes "undisturbed E"
  shows "settles (held r) (take_snapshot E s) (\<lambda>_. held r)"
proof -
  have "settles (held r) (take_snapshot E s) (\<lambda>_ w. held r w \<and> True)"
    unfolding take_snapshot_def by (rule settles_answer) (use assms in \<open>simp_all add: undisturbed_def\<close>)
  then show ?thesis by simp
qed

lemma settles_observe:
  assumes q: "undisturbed E"
  shows "settles (held r) (observe_restart E o' digest voice) (\<lambda>new w. held r w \<and> so_service new = so_service o')"
  unfolding observe_restart_def
proof (rule settles_bind)
  show "settles (held r) (call E (\<lambda>n. answer (en_observed E n (so_service o')))) (\<lambda>_ w. held r w \<and> True)"
    by (rule settles_answer[OF q]) (use q in \<open>simp add: undisturbed_def\<close>)
  show "settles (\<lambda>w. held r w \<and> True)
     (case x of (first, polls) \<Rightarrow> ret (judge_restart o' digest voice (await_restart o' digest voice first polls)))
     (\<lambda>new w. held r w \<and> so_service new = so_service o')" for x
    by (cases x) (simp add: settles_def ret_def)
qed

lemma settles_restart_and_observe:
  assumes q: "undisturbed E"
  shows "settles (held r) (restart_and_observe E i rollback prefix o' digest voice)
     (\<lambda>new w. held r w \<and> so_service new = so_service o')"
  unfolding restart_and_observe_def
proof (rule settles_bind)
  show "settles (held r) (restart_service E i rollback (so_service o')) (\<lambda>_. held r)"
    by (simp add: settles_def restart_service_def undisturbed_call[OF q] held_def)
  show "settles (held r) (bind (observe_restart E o' digest voice)
      (\<lambda>observed. ret (with_restart_error prefix failed observed)))
     (\<lambda>new w. held r w \<and> so_service new = so_service o')" for failed
    by (rule settles_bind[OF settles_observe[OF q]]) (simp add: settles_def ret_def)
qed

lemma settles_validate: "undisturbed E \<Longrightarrow> settles (held r) (validate_voice E i voice) (\<lambda>_. held r)"
  by (simp add: settles_def validate_voice_def undisturbed_call held_def)

lemma settles_restore:
  "undisturbed E \<Longrightarrow> settles (held r) (restore_voice E old new)
     (\<lambda>x w. held r w \<and> (\<forall>c. x = Inr c \<longrightarrow> is_digest (cf_digest c)))"
  by (auto simp: settles_def restore_voice_def undisturbed_call held_def undisturbed_def)

text \<open>An update that is accepted; the record returned is the new one but for its time.\<close>

lemma settles_update:
  assumes "undisturbed E" "f r = Inr k" "i = av_id r" "\<And>t. \<Phi> (k\<lparr>av_updated_at := t\<rparr>)"
  shows "settles (held r) (store_update E i f) (\<lambda>r' w. held r' w \<and> \<Phi> r')"
  using assms(2,4)
  by (auto simp: settles_def store_update_def undisturbed_call[OF assms(1)] held_def journal_update_def
      update_record_def assms(3))

section \<open>The loops end\<close>

text \<open>The outcomes are those of targets, whatever happened to them.\<close>

definition tidy :: "string list \<Rightarrow> activation_record \<Rightarrow> bool" where
  "tidy ts r \<longleftrightarrow> so_service ` set (av_outcomes r) \<subseteq> set ts
     \<and> so_service ` set (av_rollback_outcomes r) \<subseteq> set ts"

definition going :: "activation_status \<Rightarrow> activation_record \<Rightarrow> activation_record \<Rightarrow> bool" where
  "going status r r' \<longleftrightarrow>
     av_status r' = status \<and> tidy (av_targets r) r' \<and> av_id r' = av_id r \<and> av_targets r' = av_targets r
     \<and> is_voice r' = is_voice r"

lemma replace_outcome_subset:
  "so_service ` set os \<subseteq> ts \<Longrightarrow> so_service new \<in> ts \<Longrightarrow> so_service ` set (replace_outcome new os) \<subseteq> ts"
  by (auto simp: replace_outcome_def)

lemma settles_update_outcome:
  assumes "undisturbed E" "going AcRestarting r0 r" "so_service new \<in> set (av_targets r0)" "i = av_id r"
  shows "settles (held r) (store_update E i (update_outcome new))
    (\<lambda>r' w. held r' w \<and> going AcRestarting r0 r')"
  by (rule settles_update[where k = "r\<lparr>av_outcomes := replace_outcome new (av_outcomes r)\<rparr>"])
    (use assms in \<open>simp_all add: update_outcome_def guard_status_def going_def tidy_def replace_outcome_subset\<close>)

lemma settles_update_rollback:
  assumes "undisturbed E" "going AcRollingBack r0 r" "so_service new \<in> set (av_targets r0)" "i = av_id r"
  shows "settles (held r) (store_update E i (update_rollback_outcome new))
    (\<lambda>r' w. held r' w \<and> going AcRollingBack r0 r')"
  by (rule settles_update[where k = "r\<lparr>av_rollback_outcomes := replace_outcome new (av_rollback_outcomes r)\<rparr>"])
    (use assms in \<open>simp_all add: update_rollback_outcome_def guard_status_def going_def tidy_def replace_outcome_subset\<close>)

lemma settles_restart_one:
  assumes q: "undisturbed E" and g: "going AcRestarting r0 r" and t: "so_service o' \<in> set (av_targets r0)"
  shows "settles (held r) (restart_one E r voice o') (\<lambda>r' w. held r' w \<and> going AcRestarting r0 r')"
proof -
  have upd: "settles (\<lambda>w. held r w \<and> so_service new = so_service o')
      (store_update E (av_id r) (update_outcome new)) (\<lambda>r' w. held r' w \<and> going AcRestarting r0 r')"
    if "going AcRestarting r0 r" for new r
    by (rule settles_fact[where b = "so_service new = so_service o'"], simp,
        rule settles_pre[OF settles_update_outcome[OF q that]]) (use t in auto)
  show ?thesis
  proof (cases "so_attempted o'")
    case True
    then show ?thesis unfolding restart_one_def
      by (simp add: settles_bind[OF settles_observe[OF q] upd[OF g]])
  next
    case False
    let ?a = "o'\<lparr>so_attempted := True\<rparr>"
    have first: "settles (held r) (store_update E (av_id r) (update_outcome ?a))
        (\<lambda>r' w. held r' w \<and> going AcRestarting r0 r')"
      by (rule settles_update_outcome[OF q g]) (use t in simp_all)
    have rest: "settles (\<lambda>w. held r' w \<and> going AcRestarting r0 r')
        (bind (restart_and_observe E (av_id r') False prefix ?a (av_expected_digest r') voice)
          (\<lambda>observed. store_update E (av_id r') (update_outcome observed)))
        (\<lambda>r' w. held r' w \<and> going AcRestarting r0 r')" for r' prefix
    proof (rule settles_fact[where b = "going AcRestarting r0 r'"])
      assume g': "going AcRestarting r0 r'"
      have "settles (held r') (restart_and_observe E (av_id r') False prefix ?a (av_expected_digest r') voice)
          (\<lambda>new w. held r' w \<and> so_service new = so_service o')"
        using settles_restart_and_observe[OF q, of r' "av_id r'" False prefix ?a] by simp
      from settles_bind[OF this upd[OF g']] show "settles (\<lambda>w. held r' w \<and> going AcRestarting r0 r')
        (bind (restart_and_observe E (av_id r') False prefix ?a (av_expected_digest r') voice)
          (\<lambda>observed. store_update E (av_id r') (update_outcome observed)))
        (\<lambda>r' w. held r' w \<and> going AcRestarting r0 r')"
        by (rule settles_pre) simp
    qed simp
    show ?thesis unfolding restart_one_def Let_def
      using False settles_bind[OF first rest] by simp
  qed
qed

lemma settles_restart_loop:
  assumes q: "undisturbed E"
  shows "going AcRestarting r0 r \<Longrightarrow> so_service ` set os \<subseteq> set (av_targets r0) \<Longrightarrow>
    settles (held r) (restart_loop E voice r os) (\<lambda>r' w. held r' w \<and> going AcRestarting r0 r')"
proof (induction os arbitrary: r)
  case Nil
  then show ?case by (simp add: settles_def ret_def)
next
  case (Cons o' os)
  show ?case
  proof (cases "so_status o' = OutPending")
    case True
    have "settles (\<lambda>w. held r' w \<and> going AcRestarting r0 r') (restart_loop E voice r' os)
        (\<lambda>r' w. held r' w \<and> going AcRestarting r0 r')" for r'
      by (rule settles_fact[where b = "going AcRestarting r0 r'"], simp)
        (rule settles_pre[OF Cons.IH], use Cons.prems in auto)
    with settles_restart_one[OF q Cons.prems(1), of o' voice] show ?thesis
      using True Cons.prems(2) by (simp add: settles_bind)
  qed (use Cons in simp)
qed

lemma settles_rollback_one:
  assumes q: "undisturbed E" and g: "going AcRollingBack r0 r" and t: "so_service o' \<in> set (av_targets r0)"
    and i: "i = av_id r0"
  shows "settles (held r) (rollback_one E i digest o') (\<lambda>r' w. held r' w \<and> going AcRollingBack r0 r')"
proof -
  have upd: "settles (held r) (store_update E i (update_rollback_outcome new))
      (\<lambda>r' w. held r' w \<and> going AcRollingBack r0 r')"
    if "going AcRollingBack r0 r" "so_service new = so_service o'" for new r
    by (rule settles_update_rollback[OF q that(1)]) (use t that i in \<open>simp_all add: going_def\<close>)
  have updo: "settles (\<lambda>w. held r w \<and> so_service new = so_service o')
      (store_update E i (update_rollback_outcome new)) (\<lambda>r' w. held r' w \<and> going AcRollingBack r0 r')"
    if "going AcRollingBack r0 r" for new r
    by (rule settles_fact[where b = "so_service new = so_service o'"], simp, rule settles_pre[OF upd[OF that]]) auto
  have obs: "settles (held r) (bind (observe_restart E (o'\<lparr>so_before := b\<rparr>) digest None)
      (\<lambda>new. store_update E i (update_rollback_outcome new))) (\<lambda>r' w. held r' w \<and> going AcRollingBack r0 r')" for b
    by (rule settles_bind[OF _ updo[OF g]]) (use settles_observe[OF q, of r "o'\<lparr>so_before := b\<rparr>"] in simp)
  have rest: "settles (\<lambda>w. held r' w \<and> going AcRollingBack r0 r')
      (bind (restart_and_observe E i True prefix (o'\<lparr>so_before := b, so_attempted := True\<rparr>) digest None)
        (\<lambda>observed. store_update E i (update_rollback_outcome observed)))
      (\<lambda>r' w. held r' w \<and> going AcRollingBack r0 r')" for r' prefix b
  proof (rule settles_fact[where b = "going AcRollingBack r0 r'"])
    assume g': "going AcRollingBack r0 r'"
    show "settles (\<lambda>w. held r' w \<and> going AcRollingBack r0 r')
      (bind (restart_and_observe E i True prefix (o'\<lparr>so_before := b, so_attempted := True\<rparr>) digest None)
        (\<lambda>observed. store_update E i (update_rollback_outcome observed)))
      (\<lambda>r' w. held r' w \<and> going AcRollingBack r0 r')"
      by (rule settles_pre[where P = "held r'", OF settles_bind[OF _ updo[OF g']]])
        (use settles_restart_and_observe[OF q, of r' i True prefix "o'\<lparr>so_before := b, so_attempted := True\<rparr>"]
          in simp_all)
  qed simp
  have restart: "settles (held r)
      (bind (store_update E i (update_rollback_outcome (o'\<lparr>so_before := b, so_attempted := True\<rparr>))) (\<lambda>_.
       bind (restart_and_observe E i True prefix (o'\<lparr>so_before := b, so_attempted := True\<rparr>) digest None)
        (\<lambda>observed. store_update E i (update_rollback_outcome observed))))
      (\<lambda>r' w. held r' w \<and> going AcRollingBack r0 r')" for prefix b
    by (rule settles_bind[OF upd[OF g] rest]) simp
  have first: "settles (held r)
      (case so_before o' of Some s \<Rightarrow> ret s | None \<Rightarrow> take_snapshot E (so_service o')) (\<lambda>_. held r)"
    using settles_snapshot[OF q] by (auto simp: settles_def ret_def split: option.split)
  show ?thesis
    unfolding rollback_one_def Let_def
    by (rule settles_bind[OF first]) (use restart obs upd[OF g] in simp)
qed

lemma settles_rollback_loop:
  assumes q: "undisturbed E"
  shows "going AcRollingBack r0 r \<Longrightarrow> so_service ` set os \<subseteq> set (av_targets r0) \<Longrightarrow>
    settles (held r) (rollback_loop E digest r os) (\<lambda>r' w. held r' w \<and> going AcRollingBack r0 r')"
proof (induction os arbitrary: r)
  case Nil
  then show ?case by (simp add: settles_def ret_def)
next
  case (Cons o' os)
  show ?case
  proof (cases "so_status o' = OutPending")
    case True
    have "settles (\<lambda>w. held r' w \<and> going AcRollingBack r0 r') (rollback_loop E digest r' os)
        (\<lambda>r' w. held r' w \<and> going AcRollingBack r0 r')" for r'
      by (rule settles_fact[where b = "going AcRollingBack r0 r'"], simp)
        (rule settles_pre[OF Cons.IH], use Cons.prems in auto)
    moreover have "settles (held r) (rollback_one E (av_id r) digest o')
        (\<lambda>r' w. held r' w \<and> going AcRollingBack r0 r')"
      by (rule settles_rollback_one[OF q Cons.prems(1)])
        (use Cons.prems in \<open>simp_all add: going_def\<close>)
    ultimately show ?thesis using True by (simp add: settles_bind)
  qed (use Cons in simp)
qed

section \<open>Every path ends\<close>

definition ended :: "string \<Rightarrow> activation_record \<Rightarrow> bool" where
  "ended i r \<longleftrightarrow> av_status r \<in> FINAL_STATES - {AcDeclined} \<and> av_id r = i"

definition done_with :: "string \<Rightarrow> activation_record \<Rightarrow> act_world \<Rightarrow> bool" where
  "done_with i r w \<longleftrightarrow> held r w \<and> ended i r"

lemma settles_finish:
  assumes "undisturbed E" "status \<in> FINAL_STATES - {AcDeclined}" "av_id r = i"
  shows "settles (held r) (finish_record E r status detail) (done_with i)"
proof -
  have "settles (held r) (store_update E (av_id r) (finish_activation status detail))
      (\<lambda>r' w. held r' w \<and> ended i r')"
    by (rule settles_update[where k = "r\<lparr>av_status := status, av_detail := detail\<rparr>"])
      (use assms in \<open>auto simp: finish_activation_def guard_status_def ended_def\<close>)
  then show ?thesis unfolding finish_record_def done_with_def[abs_def] .
qed

lemma final_statuses [simp]:
  "AcSucceeded \<in> FINAL_STATES" "AcPartial \<in> FINAL_STATES" "AcFailed \<in> FINAL_STATES"
  by (simp_all add: FINAL_STATES_def)

lemma going_refl: "tidy (av_targets r) r \<Longrightarrow> going (av_status r) r r"
  by (simp add: going_def)

lemma settles_rollback_services:
  assumes q: "undisturbed E" and g: "going AcRollingBack r0 r" and i: "av_id r0 = i"
  shows "settles (held r) (rollback_services E r) (done_with i)"
  unfolding rollback_services_def Let_def
proof (rule settles_bind)
  show "settles (held r) (rollback_loop E (av_rollback_digest r) r (av_rollback_outcomes r))
      (\<lambda>r' w. held r' w \<and> going AcRollingBack r0 r')"
    by (rule settles_rollback_loop[OF q g]) (use g in \<open>simp add: going_def tidy_def\<close>)
next
  fix r'
  have fin: "settles (\<lambda>w. held r' w \<and> is_digest (cf_digest c)) (finish_record E r' AcFailed d) (done_with i)"
    if "av_id r' = i" for c d
    by (rule settles_pre[OF settles_finish[OF q _ that]]) simp_all
  show "settles (\<lambda>w. held r' w \<and> going AcRollingBack r0 r')
     (bind (load_config E) (\<lambda>config.
        if cf_digest config \<noteq> av_rollback_digest r
        then finish_record E r' AcFailed
               (av_detail r' @ '' The previous voice could not be proven after restoration.'')
        else if filter (\<lambda>o'. so_status o' \<noteq> OutSucceeded) (av_rollback_outcomes r') \<noteq> []
        then finish_record E r' AcFailed
               (av_detail r' @ '' The previous voice was restored, but its service snapshot could not be fully restored: ''
                @ outcome_reports (filter (\<lambda>o'. so_status o' \<noteq> OutSucceeded) (av_rollback_outcomes r')))
        else finish_record E r' AcFailed
               (av_detail r' @ '' The previous voice and service snapshot were restored.''))) (done_with i)"
  proof (rule settles_fact[where b = "av_id r' = i"])
    assume id: "av_id r' = i"
    show ?thesis
      by (rule settles_pre[OF settles_bind[OF settles_load[OF q, of r']]]) (intro settles_if fin id, simp)
  qed (use i in \<open>simp add: going_def\<close>)
qed

lemma settles_mark_restored:
  assumes q: "undisturbed E" and g: "going AcRollingBack r0 r" and i: "av_id r0 = i" and d: "is_digest d"
  shows "settles (held r) (bind (store_update E (av_id r) (mark_rollback_config_restored d)) (rollback_services E))
    (done_with i)"
proof (rule settles_bind)
  show "settles (held r) (store_update E (av_id r) (mark_rollback_config_restored d))
      (\<lambda>r' w. held r' w \<and> going AcRollingBack r0 r')"
    by (rule settles_update[where k = "r\<lparr>av_rollback_restored := True, av_rollback_digest := d\<rparr>"])
      (use q g d in \<open>simp_all add: mark_rollback_config_restored_def guard_status_def going_def tidy_def\<close>)
  show "settles (\<lambda>w. held r' w \<and> going AcRollingBack r0 r') (rollback_services E r') (done_with i)" for r'
    by (rule settles_fact[where b = "going AcRollingBack r0 r'"], simp,
        rule settles_pre[OF settles_rollback_services[OF q _ i]]) auto
qed

lemma settles_execute_rollback:
  assumes q: "undisturbed E" and g: "going AcRollingBack r0 r" and i: "av_id r0 = i"
  shows "settles (held r) (execute_voice_rollback E r) (done_with i)"
proof -
  have id: "av_id r = i" using g i by (simp add: going_def)
  have fin: "settles (held r) (finish_record E r AcFailed d) (done_with i)" for d
    by (rule settles_finish[OF q _ id]) simp
  have mark: "is_digest d \<Longrightarrow> settles (held r)
      (bind (store_update E (av_id r) (mark_rollback_config_restored d)) (rollback_services E)) (done_with i)" for d
    by (rule settles_mark_restored[OF q g i])
  have serv: "settles (held r) (rollback_services E r) (done_with i)"
    by (rule settles_rollback_services[OF q g i])
  have restore: "settles (held r) (bind (restore_voice E old new) (\<lambda>result.
      case result of
        Inl e \<Rightarrow> finish_record E r AcFailed (d e)
      | Inr restored \<Rightarrow>
          if cf_voice restored \<noteq> old then finish_record E r AcFailed d'
          else bind (store_update E (av_id r) (mark_rollback_config_restored (cf_digest restored)))
                 (rollback_services E))) (done_with i)" for old new d d'
  proof (rule settles_bind[OF settles_restore[OF q]])
    fix x :: "activation_error + config_view"
    show "settles (\<lambda>w. held r w \<and> (\<forall>c. x = Inr c \<longrightarrow> is_digest (cf_digest c)))
      (case x of
        Inl e \<Rightarrow> finish_record E r AcFailed (d e)
      | Inr restored \<Rightarrow>
          if cf_voice restored \<noteq> old then finish_record E r AcFailed d'
          else bind (store_update E (av_id r) (mark_rollback_config_restored (cf_digest restored)))
                 (rollback_services E)) (done_with i)"
      by (rule settles_fact[where b = "\<forall>c. x = Inr c \<longrightarrow> is_digest (cf_digest c)"], simp,
          rule settles_pre[where P = "held r"]) (auto split: sum.split intro: fin mark)
  qed
  have body: "settles (\<lambda>w. held r w \<and> is_digest (cf_digest c))
    (if \<not> av_rollback_restored r
            then (
              if cf_voice c = old
              then bind (store_update E (av_id r) (mark_rollback_config_restored (cf_digest c)))
                     (rollback_services E)
              else if cf_voice c = new
              then bind (restore_voice E old new) (\<lambda>result.
                case result of
                  Inl e \<Rightarrow> finish_record E r AcFailed
                    (av_detail r @ '' Restoring the previous voice failed: '' @ error_type e @ '': '' @ error_text e)
                | Inr restored \<Rightarrow>
                    if cf_voice restored \<noteq> old
                    then finish_record E r AcFailed
                      (av_detail r @ '' Restoring the previous voice did not restore the expected voice value.'')
                    else bind (store_update E (av_id r) (mark_rollback_config_restored (cf_digest restored)))
                           (rollback_services E))
              else finish_record E r AcFailed
                (av_detail r @ '' The stored voice changed during recovery, so the replacement voice was not overwritten.''))
            else if \<not> truthy (av_rollback_digest r)
            then (
              if cf_voice c \<noteq> old
              then finish_record E r AcFailed
                (av_detail r @ '' The restored voice could not be proven after journal recovery.'')
              else bind (store_update E (av_id r) (mark_rollback_config_restored (cf_digest c)))
                     (rollback_services E))
            else rollback_services E r) (done_with i)" for c old new
    by (rule settles_fact[where b = "is_digest (cf_digest c)"], simp, rule settles_pre[where P = "held r"])
      (intro settles_if fin mark restore serv, simp_all)
  show ?thesis unfolding execute_voice_rollback_def
    by (auto split: setting_value.split intro!: fin settles_bind[OF settles_load[OF q] body])
qed

lemma settles_roll_back:
  assumes q: "undisturbed E" and r: "is_voice r" "av_status r \<in> {AcReady, AcValidating, AcRestarting}"
    "tidy (av_targets r) r" "av_id r = i"
  shows "settles (held r) (roll_back E r detail) (done_with i)"
  unfolding roll_back_def
proof (rule settles_bind)
  let ?k = "r\<lparr>av_status := AcRollingBack, av_rollback_outcomes := map fresh_outcome (av_targets r), av_detail := detail\<rparr>"
  show "settles (held r) (store_update E (av_id r) (begin_rollback detail))
      (\<lambda>r' w. held r' w \<and> going AcRollingBack r r')"
    by (rule settles_update[where k = ?k])
      (use q r in \<open>auto simp: begin_rollback_def guard_status_def going_def tidy_def is_voice_def\<close>)
  show "settles (\<lambda>w. held r' w \<and> going AcRollingBack r r') (execute_voice_rollback E r') (done_with i)" for r'
    by (rule settles_fact[where b = "going AcRollingBack r r'"], simp,
        rule settles_pre[OF settles_execute_rollback[OF q _ r(4)]]) auto
qed

lemma settles_conclude:
  assumes q: "undisturbed E" and g: "going AcRestarting r0 r" and i: "av_id r0 = i"
  shows "settles (held r) (conclude_activation E r) (done_with i)"
proof -
  have id: "av_id r = i" using g i by (simp add: going_def)
  have t: "tidy (av_targets r) r" using g by (simp add: going_def)
  have fin: "settles (\<lambda>w. held r w \<and> is_digest (cf_digest c)) (finish_record E r status d) (done_with i)"
    if "status \<in> FINAL_STATES - {AcDeclined}" for c status d
    by (rule settles_pre[OF settles_finish[OF q that id]]) simp
  have undo: "settles (\<lambda>w. held r w \<and> is_digest (cf_digest c)) (roll_back E r d) (done_with i)"
    if "is_voice r" for c d
    by (rule settles_pre[OF settles_roll_back[OF q that _ t id]]) (use g in \<open>simp_all add: going_def\<close>)
  show ?thesis unfolding conclude_activation_def Let_def
    by (rule settles_bind[OF settles_load[OF q]]) (intro settles_if fin undo; simp)
qed

lemma settles_restart_services:
  assumes q: "undisturbed E" and g: "going AcRestarting r0 r" and i: "av_id r0 = i"
  shows "settles (held r) (restart_services E r) (done_with i)"
proof -
  have "settles (held r) (restart_loop E (expected_voice r) r (av_outcomes r))
      (\<lambda>r' w. held r' w \<and> going AcRestarting r0 r')"
    by (rule settles_restart_loop[OF q g]) (use g in \<open>simp add: going_def tidy_def\<close>)
  moreover have "settles (\<lambda>w. held r' w \<and> going AcRestarting r0 r') (conclude_activation E r') (done_with i)" for r'
    by (rule settles_fact[where b = "going AcRestarting r0 r'"], simp,
        rule settles_pre[OF settles_conclude[OF q _ i]]) auto
  ultimately show ?thesis using g unfolding restart_services_def by (simp add: going_def settles_bind)
qed

lemma settles_initial_outcomes:
  "undisturbed E \<Longrightarrow> settles (held r) (initial_outcomes E os) (\<lambda>new w. held r w \<and> map so_service new = map so_service os)"
proof (induction os)
  case Nil
  then show ?case by (simp add: settles_def ret_def)
next
  case (Cons o' os)
  have i: "so_service (initial_outcome o' b) = so_service o'" for b by (simp add: initial_outcome_def)
  show ?case
    by (simp, rule settles_bind[OF settles_snapshot[OF Cons.prems]], rule settles_bind[OF Cons.IH[OF Cons.prems]])
      (auto simp: settles_def ret_def i)
qed

lemma settles_begin_restart:
  assumes q: "undisturbed E" and st: "av_status r = AcReady" and t: "tidy (av_targets r) r"
    and s: "map so_service new = map so_service (av_outcomes r)"
  shows "settles (held r) (store_update E (av_id r) (begin_restart new)) (\<lambda>r' w. held r' w \<and> going AcRestarting r r')"
proof (rule settles_update[where k = "r\<lparr>av_status := AcRestarting, av_outcomes := new\<rparr>"])
  have "so_service ` set new = so_service ` set (av_outcomes r)" using arg_cong[OF s, of set] by simp
  then show "going AcRestarting r (r\<lparr>av_status := AcRestarting, av_outcomes := new, av_updated_at := x\<rparr>)" for x
    using t by (simp add: going_def tidy_def)
qed (use q st in \<open>simp_all add: begin_restart_def guard_status_def\<close>)

lemma settles_begin_services:
  assumes q: "undisturbed E" and st: "av_status r \<in> {AcReady, AcRestarting}" and t: "tidy (av_targets r) r"
    and i: "av_id r = i"
  shows "settles (held r) (begin_services E r) (done_with i)"
proof (cases "av_status r = AcReady")
  case True
  have go: "settles (\<lambda>w. held r' w \<and> going AcRestarting r r') (restart_services E r') (done_with i)" for r'
    by (rule settles_fact[where b = "going AcRestarting r r'"], simp,
        rule settles_pre[OF settles_restart_services[OF q _ i]]) auto
  have "settles (\<lambda>w. held r w \<and> map so_service new = map so_service (av_outcomes r))
      (bind (store_update E (av_id r) (begin_restart new)) (restart_services E)) (done_with i)" for new
    by (rule settles_fact[where b = "map so_service new = map so_service (av_outcomes r)"], simp,
        rule settles_pre[OF settles_bind[OF settles_begin_restart[OF q True t] go]]) auto
  from settles_bind[OF settles_initial_outcomes[OF q] this] show ?thesis
    unfolding begin_services_def using True by simp
next
  case False
  then have st': "av_status r = AcRestarting" using st by simp
  have "going AcRestarting r r" using going_refl[OF t] st' by simp
  from settles_restart_services[OF q this i] show ?thesis by (simp add: begin_services_def st')
qed

lemma settles_prepare_voice:
  assumes q: "undisturbed E" and st: "av_status r \<in> {AcReady, AcRestarting}" and t: "tidy (av_targets r) r"
    and i: "av_id r = i" and v: "is_voice r \<and> av_status r = AcReady \<longrightarrow> av_voice_validated r"
  shows "settles (held r) (prepare_voice E r) (done_with i)"
proof (cases "is_voice r \<and> av_status r = AcReady")
  case False
  then show ?thesis unfolding prepare_voice_def using settles_begin_services[OF q st t i] by auto
next
  case True
  have digest: "settles (held r) (bind (store_update E (av_id r) (update_voice_activation_digest d)) (begin_services E))
      (done_with i)" if "is_digest d" for d
  proof (rule settles_bind)
    let ?\<Phi> = "\<lambda>r'. av_status r' = AcReady \<and> tidy (av_targets r') r' \<and> av_id r' = i"
    show "settles (held r) (store_update E (av_id r) (update_voice_activation_digest d))
        (\<lambda>r' w. held r' w \<and> ?\<Phi> r')"
      by (rule settles_update[where k = "r\<lparr>av_expected_digest := d\<rparr>"])
        (use q True v t i that in \<open>simp_all add: update_voice_activation_digest_def guard_status_def tidy_def is_voice_def\<close>)
    show "settles (\<lambda>w. held r' w \<and> ?\<Phi> r') (begin_services E r') (done_with i)" for r'
      by (rule settles_fact[where b = "?\<Phi> r'"], simp, rule settles_pre[OF settles_begin_services[OF q]]) auto
  qed
  have body: "settles (\<lambda>w. held r w \<and> is_digest (cf_digest c))
     (if \<not> owns_voice r c then roll_back E r ''The stored voice changed before the service restart.''
      else if cf_digest c \<noteq> av_expected_digest r
      then bind (store_update E (av_id r) (update_voice_activation_digest (cf_digest c))) (begin_services E)
      else begin_services E r) (done_with i)" for c
    by (rule settles_fact[where b = "is_digest (cf_digest c)"], simp, rule settles_pre[where P = "held r"])
      (intro settles_if digest settles_begin_services[OF q st t i] settles_roll_back[OF q _ _ t i],
        use True in simp_all)
  show ?thesis unfolding prepare_voice_def using True settles_bind[OF settles_load[OF q] body] by simp
qed

lemma settles_check_voice:
  assumes q: "undisturbed E" and st: "av_status r \<in> {AcReady, AcRestarting}" and t: "tidy (av_targets r) r"
    and i: "av_id r = i" and v: "voice_ok r"
  shows "settles (held r) (check_voice E r) (done_with i)"
proof (cases "is_voice r \<and> av_status r = AcReady \<and> \<not> av_voice_validated r")
  case False
  then have "is_voice r \<and> av_status r = AcReady \<longrightarrow> av_voice_validated r" by blast
  from settles_prepare_voice[OF q st t i this] show ?thesis unfolding check_voice_def using False by auto
next
  case True
  let ?\<Phi> = "\<lambda>r'. av_status r' = AcValidating \<and> tidy (av_targets r') r' \<and> av_id r' = i \<and> is_voice r'"
  have na: "\<not> av_validation_attempted r" using v True by (auto simp: voice_ok_def)
  have begin_it: "settles (held r) (store_update E (av_id r) begin_voice_validation) (\<lambda>r' w. held r' w \<and> ?\<Phi> r')"
    by (rule settles_update[where k = "r\<lparr>av_status := AcValidating, av_validation_attempted := True\<rparr>"])
      (use q True na t i in \<open>simp_all add: begin_voice_validation_def guard_status_def tidy_def is_voice_def\<close>)
  have good: "settles (held r') (bind (store_update E (av_id r') mark_voice_validated) (prepare_voice E)) (done_with i)"
    if r': "?\<Phi> r'" for r'
  proof (rule settles_bind)
    let ?\<Psi> = "\<lambda>r'. av_status r' = AcReady \<and> tidy (av_targets r') r' \<and> av_id r' = i \<and> av_voice_validated r'"
    show "settles (held r') (store_update E (av_id r') mark_voice_validated) (\<lambda>r'' w. held r'' w \<and> ?\<Psi> r'')"
      by (rule settles_update[where k = "r'\<lparr>av_status := AcReady, av_voice_validated := True\<rparr>"])
        (use q r' in \<open>simp_all add: mark_voice_validated_def guard_status_def tidy_def\<close>)
    show "settles (\<lambda>w. held r'' w \<and> ?\<Psi> r'') (prepare_voice E r'') (done_with i)" for r''
      by (rule settles_fact[where b = "?\<Psi> r''"], simp, rule settles_pre[OF settles_prepare_voice[OF q]]) auto
  qed
  have "settles (\<lambda>w. held r' w \<and> ?\<Phi> r')
     (bind (validate_voice E (av_id r') voice) (\<lambda>result.
        let (usable, detail) = validation_result result in
        if usable then bind (store_update E (av_id r') mark_voice_validated) (prepare_voice E)
        else roll_back E r' (''Voice '' @ py_repr voice @ '' was not usable: '' @ detail))) (done_with i)" for r' voice
  proof (rule settles_fact[where b = "?\<Phi> r'"])
    assume r': "?\<Phi> r'"
    have "settles (held r')
       (let (usable, detail) = validation_result result in
        if usable then bind (store_update E (av_id r') mark_voice_validated) (prepare_voice E)
        else roll_back E r' (''Voice '' @ py_repr voice @ '' was not usable: '' @ detail)) (done_with i)" for result
      unfolding Let_def split_def
      by (intro settles_if good[OF r'] settles_roll_back[OF q]) (use r' in simp_all)
    from settles_bind[OF settles_validate[OF q] this] show ?thesis by (rule settles_pre) simp
  qed simp
  from settles_bind[OF begin_it this] show ?thesis
    unfolding check_voice_def using True
    by (auto split: setting_value.split intro!: settles_roll_back[OF q _ _ t i])
qed

lemma settles_check_config:
  assumes q: "undisturbed E" and st: "av_status r \<in> {AcReady, AcRestarting}" and t: "tidy (av_targets r) r"
    and i: "av_id r = i" and v: "voice_ok r"
  shows "settles (held r) (check_config E r) (done_with i)"
proof -
  have voice: "settles (held r) (check_voice E r) (done_with i)" by (rule settles_check_voice[OF assms])
  have changed: "settles (held r)
      (bind (if av_status r = AcReady then store_update E (av_id r) (begin_restart (av_outcomes r)) else ret r)
        (\<lambda>r. finish_record E r AcFailed ''The stored configuration changed before activation.'')) (done_with i)"
  proof (rule settles_bind)
    show "settles (held r)
        (if av_status r = AcReady then store_update E (av_id r) (begin_restart (av_outcomes r)) else ret r)
        (\<lambda>r' w. held r' w \<and> going AcRestarting r r')"
    proof (rule settles_if)
      assume "av_status r = AcReady"
      from settles_begin_restart[OF q this t refl]
      show "settles (held r) (store_update E (av_id r) (begin_restart (av_outcomes r)))
        (\<lambda>r' w. held r' w \<and> going AcRestarting r r')" .
    next
      assume "av_status r \<noteq> AcReady"
      then have "going AcRestarting r r" using going_refl[OF t] st by simp
      then show "settles (held r) (ret r) (\<lambda>r' w. held r' w \<and> going AcRestarting r r')"
        by (simp add: settles_def ret_def)
    qed
    show "settles (\<lambda>w. held r' w \<and> going AcRestarting r r')
        (finish_record E r' AcFailed ''The stored configuration changed before activation.'') (done_with i)" for r'
      by (rule settles_fact[where b = "going AcRestarting r r'"], simp, rule settles_pre[OF settles_finish[OF q]])
        (use i in \<open>auto simp: going_def\<close>)
  qed
  have undo: "is_voice r \<Longrightarrow> settles (held r) (roll_back E r d) (done_with i)" for d
    by (rule settles_roll_back[OF q _ _ t i]) (use st in auto)
  show ?thesis unfolding check_config_def
    by (rule settles_bind[OF settles_load[OF q]], rule settles_pre[where P = "held r"])
      (intro settles_if voice changed undo, simp_all)
qed

section \<open>An activation ends\<close>

lemma tidy_static: "static_ok r \<Longrightarrow> tidy (av_targets r) r"
proof -
  assume s: "static_ok r"
  have "so_service ` set (av_outcomes r) = set (av_targets r)"
    using s unfolding static_ok_def by (metis set_map)
  moreover have "so_service ` set (av_rollback_outcomes r) \<subseteq> set (av_targets r)"
    using static_ok_rollback[OF s] by (metis empty_set image_empty empty_subsetI set_map subset_refl)
  ultimately show ?thesis by (simp add: tidy_def)
qed

lemma undisturbed_current: "undisturbed E \<Longrightarrow> held r w \<Longrightarrow> \<exists>w'. current_record E w = (w', Inr (Some r)) \<and> held r w'"
  by (simp add: current_record_def undisturbed_call held_def)

lemma settles_execute:
  assumes q: "undisturbed E" and s: "static_ok r"
    and st: "av_status r \<in> {AcReady, AcValidating, AcRestarting, AcRollingBack}"
  shows "settles (held r) (execute_activation E (av_id r)) (done_with (av_id r))"
proof -
  note t = tidy_static[OF s]
  have v: "voice_ok r" using s by (simp add: static_ok_def)
  have n: "av_status r \<notin> FINAL_STATES" using st by (auto simp: FINAL_STATES_def)
  have back_again: "av_status r = AcRollingBack \<Longrightarrow>
      settles (held r) (execute_voice_rollback E r) (done_with (av_id r))"
    using settles_execute_rollback[OF q, of r r "av_id r"] going_refl[OF t] by simp
  have undo: "av_status r = AcValidating \<Longrightarrow> settles (held r) (roll_back E r d) (done_with (av_id r))" for d
    by (rule settles_roll_back[OF q _ _ t refl]) (use v in \<open>simp_all add: voice_ok_def\<close>)
  have go: "av_status r \<in> {AcReady, AcRestarting} \<Longrightarrow>
      settles (held r) (check_config E r) (done_with (av_id r))"
    by (rule settles_check_config[OF q _ t refl v])
  have "settles (held r) (current_record E) (\<lambda>x w. x = Some r \<and> held r w)"
    using undisturbed_current[OF q] unfolding settles_def by blast
  then show ?thesis unfolding execute_activation_def
  proof (rule settles_bind)
    fix x
    show "settles (\<lambda>w. x = Some r \<and> held r w)
      (case x of None \<Rightarrow> raise_error (ActivationStateError ''activation request no longer exists'')
       | Some r' \<Rightarrow>
           if av_id r' \<noteq> av_id r
           then raise_error (ActivationStateError ''activation request no longer exists'')
           else if av_status r' \<in> FINAL_STATES then ret r'
           else if av_status r' = AcRollingBack then execute_voice_rollback E r'
           else if av_status r' = AcValidating
           then roll_back E r'
             ''Voice usability validation was attempted, but its result was not durably recorded. Validation was not repeated.''
           else check_config E r') (done_with (av_id r))"
      by (rule settles_fact[where b = "x = Some r"], simp, rule settles_pre[where P = "held r"])
        (use n st back_again undo go in auto)
  qed
qed

text \<open>
  C23. After any executions, whatever interrupted them: an undisturbed execution of an activation that
  was accepted and announced brings it to a final status, with the record in the journal.
\<close>

theorem undisturbed_execution_settles:
  assumes "undisturbed E" "wd_journal (run_executions runs empty_world) = Some r"
    "av_status r \<in> {AcReady, AcValidating, AcRestarting, AcRollingBack}"
  shows "\<exists>w' r'. execute_activation E (av_id r) (run_executions runs empty_world) = (w', Inr r')
    \<and> wd_journal w' = Some r' \<and> av_id r' = av_id r \<and> av_status r' \<in> FINAL_STATES - {AcDeclined}"
proof -
  let ?w = "run_executions runs empty_world"
  have "rec_ok ?w r" using runs_are_safe[OF safe_empty, of runs] assms(2) unfolding safe_def
    by (simp add: all_records_Some)
  then have s: "static_ok r" by (rule rec_ok_static)
  have "held r ?w" using assms(2) by (simp add: held_def)
  from settlesD[OF settles_execute[OF assms(1) s assms(3)] this]
  show ?thesis by (auto simp: done_with_def ended_def held_def)
qed

end
