(* ===== verification/Activation_Codec.thy ===== *)
theory Activation_Codec imports Activation_Journal Py_Values begin

text \<open>
  The journal file of \<open>config_activation.py\<close>: \<open>asdict\<close> on the way out, \<open>_record_from_dict\<close> with its
  checks on the way in, and the round trip. Also what the user says to an offer.

  A document is what \<open>json.loads\<close> gives. How \<open>str\<close> prints a value that is not a string (\<open>shown\<close>) is
  an argument; \<open>float\<close> is modelled on finite numbers, not on strings that spell one.
\<close>

section \<open>Reading\<close>

definition journal_error :: "string \<Rightarrow> activation_error + 'a" where
  "journal_error m = Inl (ActivationStateError m)"

fun py_text :: "(py_value \<Rightarrow> string) \<Rightarrow> py_value \<Rightarrow> string" where
  "py_text shown (PyStr s) = s"
| "py_text shown v = shown v"

text \<open>\<open>value[key]\<close> under the handler of \<open>KeyError\<close>, and \<open>str(value.get(key) or '')\<close>.\<close>

definition need :: "string \<Rightarrow> py_dict \<Rightarrow> string \<Rightarrow> activation_error + py_value" where
  "need message d k = (case map_of d k of None \<Rightarrow> journal_error message | Some v \<Rightarrow> Inr v)"

definition text_or_empty :: "(py_value \<Rightarrow> string) \<Rightarrow> py_dict \<Rightarrow> string \<Rightarrow> string" where
  "text_or_empty shown d k = (if py_truth (py_get d k) then py_text shown (py_get d k) else '''')"

definition snapshot_from_dict ::
  "(py_value \<Rightarrow> string) \<Rightarrow> py_value \<Rightarrow> activation_error + service_snapshot option" where
  "snapshot_from_dict shown value =
     (let get = need ''activation snapshot is incomplete'' in
      case value of
        PyNone \<Rightarrow> Inr None
      | PyDict d \<Rightarrow>
          rbind (get d ''installed'') (\<lambda>installed.
          rbind (get d ''active_state'') (\<lambda>active.
          rbind (get d ''sub_state'') (\<lambda>sub.
          rbind (get d ''invocation_id'') (\<lambda>invocation.
          rbind (get d ''process_start'') (\<lambda>start.
          rbind (get d ''config_digest'') (\<lambda>digest.
            Inr (Some \<lparr>sn_installed = py_truth installed, sn_active_state = py_text shown active,
              sn_sub_state = py_text shown sub, sn_invocation_id = py_text shown invocation,
              sn_process_start = py_text shown start, sn_config_digest = py_text shown digest,
              sn_voice = text_or_empty shown d ''voice''\<rparr>)))))))
      | _ \<Rightarrow> journal_error ''activation snapshot must be an object'')"

definition parse_outcome_status :: "string \<Rightarrow> outcome_status option" where
  "parse_outcome_status s =
     (if s = ''pending'' then Some OutPending else if s = ''succeeded'' then Some OutSucceeded
      else if s = ''failed'' then Some OutFailed else None)"

definition outcome_from_dict :: "(py_value \<Rightarrow> string) \<Rightarrow> py_value \<Rightarrow> activation_error + service_outcome" where
  "outcome_from_dict shown value =
     (let get = need ''activation outcome is invalid'' in
      case value of
        PyDict d \<Rightarrow>
          rbind (get d ''service'') (\<lambda>service.
          rbind (get d ''status'') (\<lambda>status.
          case parse_outcome_status (py_text shown status) of
            None \<Rightarrow> journal_error ''activation outcome is invalid''
          | Some st \<Rightarrow>
              rbind (get d ''attempted'') (\<lambda>attempted.
              rbind (snapshot_from_dict shown (py_get d ''before'')) (\<lambda>before.
              rbind (snapshot_from_dict shown (py_get d ''after'')) (\<lambda>after.
                Inr \<lparr>so_service = py_text shown service, so_status = st, so_attempted = py_truth attempted,
                  so_before = before, so_after = after, so_detail = text_or_empty shown d ''detail''\<rparr>)))))
      | _ \<Rightarrow> journal_error ''activation outcome must be an object'')"

fun outcomes_from_list :: "(py_value \<Rightarrow> string) \<Rightarrow> py_value list \<Rightarrow> activation_error + service_outcome list" where
  "outcomes_from_list shown [] = Inr []"
| "outcomes_from_list shown (v # vs) =
     rbind (outcome_from_dict shown v) (\<lambda>o'. rbind (outcomes_from_list shown vs) (\<lambda>os. Inr (o' # os)))"

definition parse_activation_status :: "string \<Rightarrow> activation_status option" where
  "parse_activation_status s =
     map_of [(''offered'', AcOffered), (''accepted'', AcAccepted), (''ready'', AcReady),
       (''validating'', AcValidating), (''restarting'', AcRestarting), (''rolling_back'', AcRollingBack),
       (''succeeded'', AcSucceeded), (''partial'', AcPartial), (''failed'', AcFailed),
       (''declined'', AcDeclined)] s"

definition is_hex :: "string \<Rightarrow> bool" where
  "is_hex s = list_all (\<lambda>c. c \<in> set ''0123456789abcdef'') s"

fun as_setting :: "py_value \<Rightarrow> setting_value option" where
  "as_setting (PyStr s) = Some (TextValue s)"
| "as_setting (PyBool b) = Some (FlagValue b)"
| "as_setting _ = None"

fun as_float :: "py_value \<Rightarrow> time option" where
  "as_float (PyFloat (Finite x)) = Some x"
| "as_float (PyInt n) = Some (real_of_int n)"
| "as_float (PyBool b) = Some (if b then 1 else 0)"
| "as_float _ = None"

text \<open>The services named by the raw rollback outcomes that are objects.\<close>

fun raw_services :: "(py_value \<Rightarrow> string) \<Rightarrow> py_value list \<Rightarrow> string list" where
  "raw_services shown [] = []"
| "raw_services shown (PyDict d # vs) =
     (case map_of d ''service'' of None \<Rightarrow> '''' | Some v \<Rightarrow> py_text shown v) # raw_services shown vs"
| "raw_services shown (v # vs) = raw_services shown vs"

definition journal_identity_ok ::
  "(py_value \<Rightarrow> string) \<Rightarrow> string \<Rightarrow> string \<Rightarrow> string list \<Rightarrow> service_outcome list \<Rightarrow> py_value list \<Rightarrow> bool" where
  "journal_identity_ok shown record_id rollback_digest targets outcomes rollback \<longleftrightarrow>
     length record_id = 32 \<and> is_hex record_id \<and> (truthy rollback_digest \<longrightarrow> is_digest rollback_digest)
     \<and> targets \<noteq> [] \<and> list_all (\<lambda>s. s \<in> set SERVICE_FILES) targets
     \<and> map so_service outcomes = targets
     \<and> (rollback \<noteq> [] \<longrightarrow> raw_services shown rollback = targets)"

definition or_invalid :: "'a option \<Rightarrow> activation_error + 'a" where
  "or_invalid x = (case x of None \<Rightarrow> journal_error ''activation journal is invalid'' | Some y \<Rightarrow> Inr y)"

definition record_from_dict :: "(py_value \<Rightarrow> string) \<Rightarrow> py_value \<Rightarrow> activation_error + activation_record" where
  "record_from_dict shown value =
     (let get = need ''activation journal is invalid'' in
      case value of
        PyDict d \<Rightarrow>
          rbind (get d ''old_value'') (\<lambda>old_raw.
          rbind (get d ''new_value'') (\<lambda>new_raw.
          case (as_setting old_raw, as_setting new_raw) of
            (Some old, Some new) \<Rightarrow>
              rbind (get d ''targets'') (\<lambda>targets_raw.
              rbind (get d ''outcomes'') (\<lambda>outcomes_raw.
              case (targets_raw, outcomes_raw,
                    case map_of d ''rollback_outcomes'' of None \<Rightarrow> PyList [] | Some v \<Rightarrow> v) of
                (PyList ts, PyList os, PyList rs) \<Rightarrow>
                  rbind (get d ''id'') (\<lambda>id_raw.
                  rbind (outcomes_from_list shown os) (\<lambda>outcomes.
                  let record_id = py_text shown id_raw; targets = map (py_text shown) ts;
                      rollback_digest = text_or_empty shown d ''rollback_config_digest'' in
                  if \<not> journal_identity_ok shown record_id rollback_digest targets outcomes rs
                  then journal_error ''activation identity or targets are invalid''
                  else
                    rbind (get d ''setting_key'') (\<lambda>key.
                    rbind (get d ''expected_config_digest'') (\<lambda>digest.
                    rbind (get d ''status'') (\<lambda>status_raw.
                    rbind (or_invalid (parse_activation_status (py_text shown status_raw))) (\<lambda>status.
                    rbind (outcomes_from_list shown rs) (\<lambda>rollback.
                    rbind (get d ''created_at'') (\<lambda>created_raw.
                    rbind (or_invalid (as_float created_raw)) (\<lambda>created.
                    rbind (get d ''updated_at'') (\<lambda>updated_raw.
                    rbind (or_invalid (as_float updated_raw)) (\<lambda>updated.
                      Inr \<lparr>av_id = record_id, av_setting_key = py_text shown key, av_old_value = old,
                        av_new_value = new, av_expected_digest = py_text shown digest, av_targets = targets,
                        av_status = status, av_outcomes = outcomes,
                        av_offer_delivered = py_truth (py_get d ''offer_delivered''),
                        av_pre_restart_delivered = py_truth (py_get d ''pre_restart_delivered''),
                        av_acknowledged = py_truth (py_get d ''acknowledged''),
                        av_validation_attempted = py_truth (py_get d ''voice_validation_attempted''),
                        av_voice_validated = py_truth (py_get d ''voice_validated''),
                        av_rollback_restored = py_truth (py_get d ''rollback_config_restored''),
                        av_rollback_digest = rollback_digest, av_rollback_outcomes = rollback,
                        av_detail = text_or_empty shown d ''detail'', av_created_at = created,
                        av_updated_at = updated\<rparr>)))))))))))
              | _ \<Rightarrow> journal_error ''activation targets and outcomes must be arrays''))
          | _ \<Rightarrow> journal_error ''activation values must be strings or booleans''))
      | _ \<Rightarrow> journal_error ''activation journal must contain an object'')"

section \<open>Writing\<close>

fun snapshot_to_dict :: "service_snapshot option \<Rightarrow> py_value" where
  "snapshot_to_dict None = PyNone"
| "snapshot_to_dict (Some s) = PyDict
     [(''active_state'', PyStr (sn_active_state s)), (''config_digest'', PyStr (sn_config_digest s)),
      (''installed'', PyBool (sn_installed s)), (''invocation_id'', PyStr (sn_invocation_id s)),
      (''process_start'', PyStr (sn_process_start s)), (''sub_state'', PyStr (sn_sub_state s)),
      (''voice'', PyStr (sn_voice s))]"

fun outcome_status_text :: "outcome_status \<Rightarrow> string" where
  "outcome_status_text OutPending = ''pending''"
| "outcome_status_text OutSucceeded = ''succeeded''"
| "outcome_status_text OutFailed = ''failed''"

definition outcome_to_dict :: "service_outcome \<Rightarrow> py_value" where
  "outcome_to_dict o' = PyDict
     [(''after'', snapshot_to_dict (so_after o')), (''attempted'', PyBool (so_attempted o')),
      (''before'', snapshot_to_dict (so_before o')), (''detail'', PyStr (so_detail o')),
      (''service'', PyStr (so_service o')), (''status'', PyStr (outcome_status_text (so_status o')))]"

fun activation_status_text :: "activation_status \<Rightarrow> string" where
  "activation_status_text AcOffered = ''offered''"
| "activation_status_text AcAccepted = ''accepted''"
| "activation_status_text AcReady = ''ready''"
| "activation_status_text AcValidating = ''validating''"
| "activation_status_text AcRestarting = ''restarting''"
| "activation_status_text AcRollingBack = ''rolling_back''"
| "activation_status_text AcSucceeded = ''succeeded''"
| "activation_status_text AcPartial = ''partial''"
| "activation_status_text AcFailed = ''failed''"
| "activation_status_text AcDeclined = ''declined''"

fun setting_to_value :: "setting_value \<Rightarrow> py_value" where
  "setting_to_value (TextValue s) = PyStr s"
| "setting_to_value (FlagValue b) = PyBool b"

definition record_dict :: "activation_record \<Rightarrow> py_dict" where
  "record_dict r =
     [(''acknowledged'', PyBool (av_acknowledged r)), (''created_at'', PyFloat (Finite (av_created_at r))),
      (''detail'', PyStr (av_detail r)), (''expected_config_digest'', PyStr (av_expected_digest r)),
      (''id'', PyStr (av_id r)), (''new_value'', setting_to_value (av_new_value r)),
      (''offer_delivered'', PyBool (av_offer_delivered r)), (''old_value'', setting_to_value (av_old_value r)),
      (''outcomes'', PyList (map outcome_to_dict (av_outcomes r))),
      (''pre_restart_delivered'', PyBool (av_pre_restart_delivered r)),
      (''rollback_config_digest'', PyStr (av_rollback_digest r)),
      (''rollback_config_restored'', PyBool (av_rollback_restored r)),
      (''rollback_outcomes'', PyList (map outcome_to_dict (av_rollback_outcomes r))),
      (''setting_key'', PyStr (av_setting_key r)), (''status'', PyStr (activation_status_text (av_status r))),
      (''targets'', PyList (map PyStr (av_targets r))), (''updated_at'', PyFloat (Finite (av_updated_at r))),
      (''voice_validated'', PyBool (av_voice_validated r)),
      (''voice_validation_attempted'', PyBool (av_validation_attempted r))]"

definition record_to_dict :: "activation_record \<Rightarrow> py_value" where
  "record_to_dict r = PyDict (record_dict r)"

section \<open>What the user says\<close>

text \<open>\<open>" ".join(s.split())\<close>.\<close>

fun words_of :: "string \<Rightarrow> string \<Rightarrow> string list" where
  "words_of word [] = (if word = [] then [] else [word])"
| "words_of word (c # cs) =
     (if py_space c then (if word = [] then words_of [] cs else word # words_of [] cs)
      else words_of (word @ [c]) cs)"

fun join_words :: "string list \<Rightarrow> string" where
  "join_words [] = []"
| "join_words [w] = w"
| "join_words (w # ws) = w @ '' '' @ join_words ws"

definition resolve_activation_decision :: "string \<Rightarrow> activation_decision" where
  "resolve_activation_decision utterance =
     (let normalized = join_words (words_of [] (strip (casefold utterance))) in
      if normalized \<in> {''activate now'', ''restart it now''} then DecActivate
      else if normalized \<in> {''not now'', ''cancel activation'', ''do not restart''} then DecDecline
      else DecNone)"

section \<open>The round trip\<close>

lemma snapshot_round_trip: "snapshot_from_dict shown (snapshot_to_dict s) = Inr s"
  by (cases s) (auto simp: snapshot_from_dict_def need_def text_or_empty_def py_get_def Let_def truthy_def)

lemma outcome_status_round_trip: "parse_outcome_status (outcome_status_text st) = Some st"
  by (cases st) (simp_all add: parse_outcome_status_def)

lemma outcome_round_trip: "outcome_from_dict shown (outcome_to_dict o') = Inr o'"
  by (auto simp: outcome_from_dict_def outcome_to_dict_def need_def text_or_empty_def py_get_def Let_def
      truthy_def outcome_status_round_trip snapshot_round_trip)

lemma outcomes_round_trip: "outcomes_from_list shown (map outcome_to_dict os) = Inr os"
  by (induction os) (simp_all add: outcome_round_trip)

lemma status_round_trip: "parse_activation_status (activation_status_text st) = Some st"
  by (cases st) (simp_all add: parse_activation_status_def)

lemma setting_round_trip: "as_setting (setting_to_value v) = Some v"
  by (cases v) simp_all

lemma raw_services_written: "raw_services shown (map outcome_to_dict os) = map so_service os"
  by (induction os) (simp_all add: outcome_to_dict_def)

lemma texts_written: "map (py_text shown) (map PyStr ts) = ts"
  by (induction ts) simp_all

lemma record_dict_lookups:
  "map_of (record_dict r) ''acknowledged'' = Some (PyBool (av_acknowledged r))"
  "map_of (record_dict r) ''created_at'' = Some (PyFloat (Finite (av_created_at r)))"
  "map_of (record_dict r) ''detail'' = Some (PyStr (av_detail r))"
  "map_of (record_dict r) ''expected_config_digest'' = Some (PyStr (av_expected_digest r))"
  "map_of (record_dict r) ''id'' = Some (PyStr (av_id r))"
  "map_of (record_dict r) ''new_value'' = Some (setting_to_value (av_new_value r))"
  "map_of (record_dict r) ''offer_delivered'' = Some (PyBool (av_offer_delivered r))"
  "map_of (record_dict r) ''old_value'' = Some (setting_to_value (av_old_value r))"
  "map_of (record_dict r) ''outcomes'' = Some (PyList (map outcome_to_dict (av_outcomes r)))"
  "map_of (record_dict r) ''pre_restart_delivered'' = Some (PyBool (av_pre_restart_delivered r))"
  "map_of (record_dict r) ''rollback_config_digest'' = Some (PyStr (av_rollback_digest r))"
  "map_of (record_dict r) ''rollback_config_restored'' = Some (PyBool (av_rollback_restored r))"
  "map_of (record_dict r) ''rollback_outcomes'' = Some (PyList (map outcome_to_dict (av_rollback_outcomes r)))"
  "map_of (record_dict r) ''setting_key'' = Some (PyStr (av_setting_key r))"
  "map_of (record_dict r) ''status'' = Some (PyStr (activation_status_text (av_status r)))"
  "map_of (record_dict r) ''targets'' = Some (PyList (map PyStr (av_targets r)))"
  "map_of (record_dict r) ''updated_at'' = Some (PyFloat (Finite (av_updated_at r)))"
  "map_of (record_dict r) ''voice_validated'' = Some (PyBool (av_voice_validated r))"
  "map_of (record_dict r) ''voice_validation_attempted'' = Some (PyBool (av_validation_attempted r))"
  by (simp_all add: record_dict_def)

lemma need_lookup: "map_of d k = Some v \<Longrightarrow> need m d k = Inr v"
  by (simp add: need_def)

lemma get_lookup: "map_of d k = Some v \<Longrightarrow> py_get d k = v"
  by (simp add: py_get_def)

lemma text_lookup: "map_of d k = Some (PyStr s) \<Longrightarrow> text_or_empty shown d k = s"
  by (cases s) (simp_all add: text_or_empty_def py_get_def)

lemmas record_reads = record_dict_lookups[THEN need_lookup] record_dict_lookups[THEN get_lookup]
  record_dict_lookups(3,11)[THEN text_lookup] record_dict_lookups(13)

lemma or_invalid_Some: "or_invalid (Some x) = Inr x"
  by (simp add: or_invalid_def)

text \<open>
  C24. A record with a proper identity is read back as it was written, whatever else it holds.
\<close>

theorem activation_record_round_trip:
  assumes "length (av_id r) = 32" "is_hex (av_id r)"
    "av_rollback_digest r = '''' \<or> is_digest (av_rollback_digest r)"
    "av_targets r \<noteq> []" "set (av_targets r) \<subseteq> set SERVICE_FILES"
    "map so_service (av_outcomes r) = av_targets r"
    "av_rollback_outcomes r = [] \<or> map so_service (av_rollback_outcomes r) = av_targets r"
  shows "record_from_dict shown (record_to_dict r) = Inr r"
proof -
  have ok: "journal_identity_ok shown (av_id r) (av_rollback_digest r) (av_targets r) (av_outcomes r)
      (map outcome_to_dict (av_rollback_outcomes r))"
    using assms by (auto simp: journal_identity_ok_def raw_services_written list_all_iff)
  show ?thesis
    unfolding record_from_dict_def record_to_dict_def Let_def py_value.case record_reads
    by (simp only: rbind_simps prod.case option.case py_value.case setting_round_trip outcomes_round_trip
        texts_written py_text.simps py_truth.simps status_round_trip as_float.simps or_invalid_Some ok
        not_True_eq_False if_False activation_record.surjective[symmetric]) simp
qed

end
