(* ===== verification/Activation_Consent.thy ===== *)
theory Activation_Consent imports Activation_Machine begin

text \<open>
  Consent: the answers the journal took from the user against the restarts requested. An invariant
  of the records and the answers alone, kept by every change of the journal: those of the wake
  daemon and those of the executor, whose program is followed call by call.
\<close>

section \<open>The invariant\<close>

definition agreed :: "act_world \<Rightarrow> activation_record \<Rightarrow> bool" where
  "agreed w r \<longleftrightarrow> (av_id r, True) \<in> set (wd_answers w) \<and> (av_id r, False) \<notin> set (wd_answers w)"

definition unanswered :: "act_world \<Rightarrow> activation_record \<Rightarrow> bool" where
  "unanswered w r \<longleftrightarrow> av_id r \<notin> fst ` set (wd_answers w)"

definition record_consent :: "act_world \<Rightarrow> activation_record \<Rightarrow> bool" where
  "record_consent w r \<longleftrightarrow>
     (av_status r = AcAccepted \<or> av_pre_restart_delivered r \<longrightarrow> agreed w r)
     \<and> (av_status r = AcOffered \<longrightarrow> unanswered w r)"

definition consented :: "act_world \<Rightarrow> bool" where
  "consented w \<longleftrightarrow>
     (\<forall>r \<in> set (all_records w). record_consent w r)
     \<and> distinct (map av_id (all_records w)) \<and> distinct (map fst (wd_answers w))
     \<and> fst ` set (wd_answers w) \<subseteq> av_id ` set (all_records w)"

lemma consented_cong:
  assumes "all_records w' = all_records w" and "wd_answers w' = wd_answers w"
  shows "consented w' = consented w"
  using assms by (simp add: consented_def record_consent_def agreed_def unanswered_def)

lemma consented_calls [simp]: "consented (w\<lparr>wd_calls := n\<rparr>) = consented w"
  by (rule consented_cong) simp_all

section \<open>Changes of one record\<close>

text \<open>A transition that neither accepts nor offers, and announces only what was accepted.\<close>

definition bound_by_consent :: "transition \<Rightarrow> bool" where
  "bound_by_consent f \<longleftrightarrow>
     (\<forall>j k. f j = Inr k \<longrightarrow> av_id k = av_id j
        \<and> (av_status k = AcAccepted \<or> av_pre_restart_delivered k \<longrightarrow>
             av_status j = AcAccepted \<or> av_pre_restart_delivered j)
        \<and> (av_status k = AcOffered \<longrightarrow> av_status j = AcOffered))"

lemma bound_transitions:
  "bound_by_consent mark_offer_delivered"
  "bound_by_consent mark_pre_restart_delivered"
  "bound_by_consent (begin_rollback detail)"
  "bound_by_consent (fail_worker detail)"
  "bound_by_consent acknowledge_activation"
  "bound_by_consent begin_voice_validation"
  "bound_by_consent mark_voice_validated"
  "bound_by_consent (update_voice_activation_digest digest)"
  "bound_by_consent (mark_rollback_config_restored digest)"
  "bound_by_consent (update_rollback_outcome outcome)"
  "bound_by_consent (begin_restart outcomes)"
  "bound_by_consent (update_outcome outcome)"
  "bound_by_consent (finish_activation status detail)"
  by (auto simp: bound_by_consent_def mark_offer_delivered_def mark_pre_restart_delivered_def
      begin_rollback_def fail_worker_def acknowledge_activation_def begin_voice_validation_def
      mark_voice_validated_def update_voice_activation_digest_def mark_rollback_config_restored_def
      update_rollback_outcome_def begin_restart_def update_outcome_def finish_activation_def
      FINAL_STATES_def split: if_splits)

lemma journal_update_Inr:
  assumes "journal_update i f t w = Inr (w', r)"
  obtains j k where "wd_journal w = Some j" "av_id j = i" "f j = Inr k"
    "r = k\<lparr>av_updated_at := t\<rparr>" "w' = w\<lparr>wd_journal := Some r\<rparr>"
  using assms
  by (auto simp: journal_update_def update_record_def result_simps split: option.splits if_splits)

lemma update_consents:
  assumes "bound_by_consent f" and "consented w" and "journal_update i f t w = Inr (w', r)"
  shows "consented w'"
  using assms(3)
proof (cases rule: journal_update_Inr)
  case (1 j k)
  from assms(1) 1(3) have k: "av_id k = av_id j"
    "av_status k = AcAccepted \<or> av_pre_restart_delivered k \<longrightarrow>
       av_status j = AcAccepted \<or> av_pre_restart_delivered j"
    "av_status k = AcOffered \<longrightarrow> av_status j = AcOffered" unfolding bound_by_consent_def by blast+
  have "record_consent w j" using assms(2) 1(1) by (simp add: consented_def all_records_Some)
  then have "record_consent w r"
    using k unfolding record_consent_def agreed_def unanswered_def 1(4) by simp blast
  with assms(2) k(1) 1(4) show ?thesis
    unfolding 1(5) consented_def record_consent_def agreed_def unanswered_def
    by (simp add: all_records_Some [OF 1(1)])
qed

section \<open>The wake daemon\<close>

lemma other_update_consents:
  "bound_by_consent f \<Longrightarrow> consented w \<Longrightarrow> consented (other_update i f t w)"
  by (auto simp: other_update_def split: sum.splits dest: update_consents)

lemma other_answer_consents:
  assumes "consented w"
  shows "consented (other_answer i yes t w)"
proof (cases "journal_update i (if yes then accept_activation else decline_activation) t w")
  case (Inl e)
  with assms show ?thesis by (simp add: other_answer_def)
next
  case (Inr p)
  obtain w' r where p: "p = (w', r)" by (cases p)
  from Inr [unfolded p] show ?thesis
  proof (cases rule: journal_update_Inr)
    case (1 j k)
    have offered: "av_status j = AcOffered"
      and k: "av_id k = i" "av_pre_restart_delivered k = av_pre_restart_delivered j"
        "av_status k = (if yes then AcAccepted else AcDeclined)"
      using 1(2,3) by (auto simp: accept_activation_def decline_activation_def split: if_splits)
    have ids: "distinct (map av_id (j # wd_past w))" "distinct (map fst (wd_answers w))"
      "fst ` set (wd_answers w) \<subseteq> av_id ` set (j # wd_past w)"
      and all: "\<And>x. x \<in> set (j # wd_past w) \<Longrightarrow> record_consent w x"
      using assms unfolding consented_def all_records_Some [OF 1(1)] by blast+
    have j: "i \<notin> fst ` set (wd_answers w)" "\<not> av_pre_restart_delivered j"
      using all [of j] offered 1(2)
      by (auto simp: record_consent_def unanswered_def agreed_def intro: rev_image_eqI)
    let ?v = "w'\<lparr>wd_answers := wd_answers w @ [(i, yes)]\<rparr>"
    have a: "all_records ?v = r # wd_past w" and answers: "wd_answers ?v = wd_answers w @ [(i, yes)]"
      by (simp_all add: 1(5))
    have r: "av_id r = i" "av_status r = av_status k" "\<not> av_pre_restart_delivered r"
      using k j(2) by (simp_all add: 1(4))
    have "record_consent ?v r"
      using r k(3) j(1) by (force simp: record_consent_def agreed_def unanswered_def answers)
    moreover have "record_consent ?v x" if "x \<in> set (wd_past w)" for x
    proof -
      have "av_id x \<noteq> i" using ids(1) imageI [OF that, of av_id] 1(2) by auto
      with all [of x] that show ?thesis
        by (auto simp: record_consent_def agreed_def unanswered_def answers)
    qed
    ultimately have "consented ?v"
      using ids j(1) r(1) 1(2) unfolding consented_def a answers by auto
    then show ?thesis using Inr p by (simp add: other_answer_def)
  qed
qed

lemma other_offer_consents:
  assumes "consented w"
  shows "consented (other_offer pending services digest i t w)"
proof (cases "i \<notin> set (map av_id (all_records w)) \<and>
    (\<exists>r. create_offer pending services digest i t (wd_journal w) = Inr (Some r))")
  case False
  then have "other_offer pending services digest i t w = w"
    unfolding other_offer_def by (auto split: sum.splits option.splits)
  then show ?thesis using assms by simp
next
  case True
  then obtain r where i: "i \<notin> set (map av_id (all_records w))"
    and c: "create_offer pending services digest i t (wd_journal w) = Inr (Some r)" by blast
  let ?w = "w\<lparr>wd_journal := Some r, wd_past := all_records w\<rparr>"
  have u: "other_offer pending services digest i t w = ?w" unfolding other_offer_def using i c by auto
  have a: "all_records ?w = r # all_records w" by (simp add: all_records_def)
  have r: "av_id r = i" "av_status r = AcOffered" "\<not> av_pre_restart_delivered r"
    using c by (auto simp: create_offer_def offer_record_def Let_def split: if_splits)
  have "i \<notin> fst ` set (wd_answers w)" using assms i by (auto simp: consented_def)
  with r have "record_consent ?w r" by (simp add: record_consent_def unanswered_def)
  with assms i r(1) show ?thesis
    unfolding u consented_def a by (auto simp: record_consent_def agreed_def unanswered_def)
qed

lemma perform_consents: "consented w \<Longrightarrow> consented (perform now w op)"
  by (cases op)
     (simp_all add: other_update_consents bound_transitions other_answer_consents other_offer_consents)

lemma performs_consent: "consented w \<Longrightarrow> consented (foldl (perform now) w ops)"
  by (induction ops arbitrary: w) (simp_all add: perform_consents)

lemma interfere_consents: "consented w \<Longrightarrow> consented (interfere E w)"
  unfolding interfere_def by (simp add: performs_consent)

section \<open>The executor\<close>

definition consents :: "'a act \<Rightarrow> bool" where
  "consents m \<longleftrightarrow> (\<forall>w. consented w \<longrightarrow> consented (fst (m w)))"

lemma consents_ret: "consents (ret x)" and consents_raise: "consents (raise_error e)"
  by (simp_all add: consents_def ret_def raise_error_def)

lemma consents_bind:
  assumes "consents m" and "\<And>x. consents (f x)"
  shows "consents (bind m f)"
  unfolding consents_def
proof (intro allI impI)
  fix w assume "consented w"
  with assms(1) have c: "consented (fst (m w))" by (simp add: consents_def)
  obtain u r where m: "m w = (u, r)" by (cases "m w")
  with c assms(2) show "consented (fst (bind m f w))"
    by (cases r) (simp_all add: bind_def consents_def)
qed

lemma consents_call: "(\<And>n. consents (body n)) \<Longrightarrow> consents (call E body)"
  by (simp add: consents_def call_def interfere_consents)

lemma consents_answer: "consents (answer x)"
  by (cases x) (simp_all add: answer_def consents_ret consents_raise)

lemma consents_update: "bound_by_consent f \<Longrightarrow> consents (store_update E i f)"
  unfolding store_update_def
  by (rule consents_call) (auto simp: consents_def split: sum.splits dest: update_consents)

lemma consents_calls:
  "consents (load_config E)" "consents (take_snapshot E service)" "consents (current_record E)"
  "consents (restart_service E i rollback service)" "consents (validate_voice E i voice)"
  "consents (restore_voice E old new)"
  unfolding load_config_def take_snapshot_def current_record_def restart_service_def
    validate_voice_def restore_voice_def
  by (intro consents_call consents_answer;
      simp add: consents_def consented_def record_consent_def agreed_def unanswered_def all_records_def
        cong: option.case_cong)+

lemmas consents_rules = consents_ret consents_raise consents_bind consents_update [OF bound_transitions(3)]
  consents_update [OF bound_transitions(6)] consents_update [OF bound_transitions(7)]
  consents_update [OF bound_transitions(8)] consents_update [OF bound_transitions(9)]
  consents_update [OF bound_transitions(10)] consents_update [OF bound_transitions(11)]
  consents_update [OF bound_transitions(12)] consents_update [OF bound_transitions(13)] consents_calls

lemma consents_if: "consents m \<Longrightarrow> consents m' \<Longrightarrow> consents (if b then m else m')"
  by simp

lemma consents_observe: "consents (observe_restart E outcome digest voice)"
  unfolding observe_restart_def
  by (intro consents_bind consents_call consents_answer) (simp add: split_def consents_ret)

lemma consents_restart: "consents (restart_and_observe E i rollback prefix attempted digest voice)"
  unfolding restart_and_observe_def by (intro consents_rules consents_observe)

lemma consents_rollback_one: "consents (rollback_one E i digest outcome)"
  unfolding rollback_one_def Let_def
  by (auto intro!: consents_rules consents_observe consents_restart consents_if split: option.split)

lemma consents_rollback_loop: "consents (rollback_loop E digest r outcomes)"
  by (induction outcomes arbitrary: r) (auto intro!: consents_rules consents_rollback_one)

lemma consents_finish: "consents (finish_record E r status detail)"
  unfolding finish_record_def by (intro consents_rules)

lemma consents_rollback_services: "consents (rollback_services E r)"
  unfolding rollback_services_def Let_def
  by (intro consents_rules consents_rollback_loop consents_finish consents_if)

lemma consents_execute_rollback: "consents (execute_voice_rollback E r)"
  unfolding execute_voice_rollback_def
  by (auto intro!: consents_rules consents_rollback_services consents_finish
      split: setting_value.split sum.split)

lemma consents_roll_back: "consents (roll_back E r detail)"
  unfolding roll_back_def by (intro consents_rules consents_execute_rollback)

lemma consents_restart_one: "consents (restart_one E r voice outcome)"
  unfolding restart_one_def Let_def
  by (intro consents_rules consents_observe consents_restart consents_if)

lemma consents_restart_loop: "consents (restart_loop E voice r outcomes)"
  by (induction outcomes arbitrary: r) (auto intro!: consents_rules consents_restart_one)

lemma consents_conclude: "consents (conclude_activation E r)"
  unfolding conclude_activation_def Let_def
  by (intro consents_rules consents_roll_back consents_finish consents_if)

lemma consents_restart_services: "consents (restart_services E r)"
  unfolding restart_services_def
  by (intro consents_rules consents_restart_loop consents_conclude consents_if)

lemma consents_initial: "consents (initial_outcomes E outcomes)"
  by (induction outcomes) (auto intro!: consents_rules)

lemma consents_begin_services: "consents (begin_services E r)"
  unfolding begin_services_def
  by (intro consents_rules consents_initial consents_restart_services consents_if)

lemma consents_prepare_voice: "consents (prepare_voice E r)"
  unfolding prepare_voice_def
  by (intro consents_rules consents_roll_back consents_begin_services consents_if)

lemma consents_check_voice: "consents (check_voice E r)"
  unfolding check_voice_def Let_def
  by (auto intro!: consents_rules consents_roll_back consents_prepare_voice
      split: setting_value.split prod.split)

lemma consents_check_config: "consents (check_config E r)"
  unfolding check_config_def
  by (intro consents_rules consents_check_voice consents_roll_back consents_finish consents_if)

lemma consents_execute: "consents (execute_activation E record_id)"
  unfolding execute_activation_def
  by (auto intro!: consents_rules consents_execute_rollback consents_roll_back consents_check_config
      split: option.split)

lemma runs_consent: "consented w \<Longrightarrow> consented (run_executions runs w)"
proof (induction runs arbitrary: w)
  case (Cons run runs)
  obtain E i where r: "run = (E, i)" by (cases run)
  from Cons.IH [of "fst (execute_activation E i w)"] Cons.prems consents_execute [of E i] r
  show ?case by (simp add: consents_def)
qed simp

text \<open>
  C21. A restart was requested for a recorded activation, of one of its services, only after the user
  had heard the offer, had accepted it and had heard the announcement of the restart, and never
  had declined it; for a voice, unless it rolls back, after the voice was validated. The answers
  are the ones the journal took from the user. (An execution may stop before any of its calls, so
  what holds after every run holds at the time of each restart.)
\<close>

theorem restarts_have_consent:
  assumes "(i, rollback, service) \<in> set (wd_restarts (run_executions runs empty_world))"
  shows "(i, True) \<in> set (wd_answers (run_executions runs empty_world))
    \<and> (i, False) \<notin> set (wd_answers (run_executions runs empty_world))
    \<and> (\<exists>r \<in> set (all_records (run_executions runs empty_world)).
         av_id r = i \<and> service \<in> set (av_targets r) \<and> service \<in> set SERVICE_FILES
         \<and> av_offer_delivered r \<and> av_pre_restart_delivered r
         \<and> (is_voice r \<and> \<not> rollback \<longrightarrow> av_voice_validated r))"
proof -
  let ?w = "run_executions runs empty_world"
  have s: "safe ?w" by (rule runs_are_safe[OF safe_empty])
  then obtain r where r: "r \<in> set (all_records ?w)" "av_id r = i"
    using assms unfolding safe_def by force
  have ok: "rec_ok ?w r" using s r(1) unfolding safe_def by blast
  have "(rollback, service) \<in> logged ?w (av_id r)" using assms r(2) by (simp add: logged_def)
  then have l: "told r" "service \<in> set (av_targets r)" "\<not> rollback \<and> is_voice r \<longrightarrow> av_voice_validated r"
    using ok unfolding rec_ok_def log_ok_def by blast+
  have "set (av_targets r) \<subseteq> set SERVICE_FILES" using rec_ok_static[OF ok] by (simp add: static_ok_def)
  moreover have "consented ?w"
    by (rule runs_consent) (simp add: consented_def empty_world_def all_records_def)
  then have "agreed ?w r" using r(1) l(1) by (simp add: consented_def record_consent_def told_def)
  ultimately show ?thesis using r l by (auto simp: told_def agreed_def)
qed

end
