(* ===== verification/Activation_Examples.thy ===== *)
theory Activation_Examples imports Activation_Progress Activation_Codec Activation_Consent begin

text \<open>
  An activation evaluated: offered, accepted, announced, and executed once the first executor has
  died; the hypotheses of the theorems about activations can be met.
\<close>

definition demo_digest :: string where
  "demo_digest = ''0123456789abcdef0123456789abcdef0123456789abcdef0123456789abcdef''"

definition running :: "string \<Rightarrow> string \<Rightarrow> service_snapshot" where
  "running invocation digest = \<lparr>sn_installed = True, sn_active_state = ''active'', sn_sub_state = ''running'',
     sn_invocation_id = invocation, sn_process_start = '''', sn_config_digest = digest, sn_voice = ''''\<rparr>"

definition demo_change :: pending_change where
  "demo_change = \<lparr>pc_setting = ''vad.silence'', pc_old_value = TextValue ''1'', pc_new_value = TextValue ''2'',
     pc_affected_services = [''voice-harness-tts.service'']\<rparr>"

definition demo_dialogue :: "journal_op list" where
  "demo_dialogue =
     [CreateOffer demo_change [''voice-harness-tts.service''] demo_digest ''a1'', OfferDelivered ''a1'',
      AcceptOffer ''a1'', PreRestartDelivered ''a1'']"

definition activation_env :: "bool \<Rightarrow> act_env" where
  "activation_env first = \<lparr>en_others = (\<lambda>n. if first \<and> n = 0 then demo_dialogue else []),
     en_dies = (\<lambda>n. first \<and> n = 1), en_now = (\<lambda>_. 0),
     en_config = (\<lambda>_. Inr \<lparr>cf_digest = demo_digest, cf_voice = ''v''\<rparr>),
     en_snapshot = (\<lambda>_ _. Inr (running ''i1'' '''')), en_restart = (\<lambda>_ _. None),
     en_observed = (\<lambda>_ _. Inr (running ''i1'' '''', [running ''i2'' demo_digest])),
     en_validate = (\<lambda>_ _. Inr (True, '''')),
     en_restore = (\<lambda>_ _ _. Inr \<lparr>cf_digest = demo_digest, cf_voice = ''v''\<rparr>)\<rparr>"

abbreviation interrupted_run :: "(act_env \<times> string) list" where
  "interrupted_run \<equiv> [(activation_env True, ''a1'')]"

abbreviation demo_runs :: "(act_env \<times> string) list" where
  "demo_runs \<equiv> [(activation_env True, ''a1''), (activation_env False, ''a1'')]"

lemma demo_restarted:
  "wd_restarts (run_executions demo_runs empty_world) = [(''a1'', False, ''voice-harness-tts.service'')]"
  by code_simp

lemma demo_journal:
  "(case wd_journal (run_executions demo_runs empty_world) of
      None \<Rightarrow> False
    | Some r \<Rightarrow> av_status r = AcSucceeded
        \<and> map so_service (av_outcomes r) = [''voice-harness-tts.service''])"
  by code_simp

lemma interrupted_journal:
  "(case wd_journal (run_executions interrupted_run empty_world) of
      None \<Rightarrow> False | Some r \<Rightarrow> av_status r = AcReady \<and> av_id r = ''a1'')"
  by code_simp

lemma activation_env_undisturbed: "undisturbed (activation_env False)"
  by (simp add: undisturbed_def activation_env_def is_digest_def demo_digest_def)

lemma restarts_have_consent_witness:
  "(''a1'', True) \<in> set (wd_answers (run_executions demo_runs empty_world))
   \<and> (\<exists>r \<in> set (all_records (run_executions demo_runs empty_world)). av_id r = ''a1'' \<and> av_pre_restart_delivered r)"
proof -
  have "(''a1'', False, ''voice-harness-tts.service'') \<in> set (wd_restarts (run_executions demo_runs empty_world))"
    unfolding demo_restarted by simp
  from restarts_have_consent[OF this] show ?thesis by blast
qed

lemma recorded_success_was_observed_witness:
  "\<exists>r o' after. wd_journal (run_executions demo_runs empty_world) = Some r \<and> o' \<in> set (av_outcomes r)
     \<and> so_after o' = Some after \<and> sn_active_state after = ''active''"
proof -
  obtain r where r: "wd_journal (run_executions demo_runs empty_world) = Some r" "av_status r = AcSucceeded"
    "map so_service (av_outcomes r) = [''voice-harness-tts.service'']"
    using demo_journal by (cases "wd_journal (run_executions demo_runs empty_world)") auto
  then obtain o' where o': "o' \<in> set (av_outcomes r)" by (cases "av_outcomes r") auto
  have "r \<in> set (all_records (run_executions demo_runs empty_world))" using r(1) by (simp add: all_records_Some)
  from recorded_success_was_observed[OF this r(2) o'] r(1) o' show ?thesis by blast
qed

lemma undisturbed_execution_settles_witness:
  "\<exists>r w' r'. wd_journal (run_executions interrupted_run empty_world) = Some r
     \<and> execute_activation (activation_env False) (av_id r) (run_executions interrupted_run empty_world) = (w', Inr r')
     \<and> av_status r' \<in> FINAL_STATES"
proof -
  obtain r where r: "wd_journal (run_executions interrupted_run empty_world) = Some r" "av_status r = AcReady"
    using interrupted_journal by (cases "wd_journal (run_executions interrupted_run empty_world)") auto
  from undisturbed_execution_settles[OF activation_env_undisturbed r(1)] r show ?thesis by auto
qed

definition stored_offer :: activation_record where
  "stored_offer = offer_record demo_change [''voice-harness-tts.service''] demo_digest
     ''0123456789abcdef0123456789abcdef'' 0"

lemma activation_record_round_trip_witness:
  "record_from_dict (\<lambda>_. '''') (record_to_dict stored_offer) = Inr stored_offer"
proof (rule activation_record_round_trip)
  show "length (av_id stored_offer) = 32" by (simp add: stored_offer_def offer_record_def)
  show "is_hex (av_id stored_offer)" by (simp add: stored_offer_def offer_record_def is_hex_def)
qed (simp_all add: stored_offer_def offer_record_def SERVICE_FILES_def fresh_outcome_def)

end
