(* ===== verification/Playback_Queue.thy ===== *)
theory Playback_Queue imports Prelude begin

text \<open>
  \<open>tts/queue.py\<close>: the queue of announcements to be spoken, prefetched ahead and drained through one
  continuous audio process; which of them are reported as spoken, and which as interrupted.

  What happens while an item is played is an argument (\<open>item_env\<close>): what the prefetched stream
  yields, what the writes of each chunk meet, what other threads do to the queue, whether the prefetch
  worker stops; and at the end, how the audio process exits.
\<close>

section \<open>The queue\<close>

definition PREFETCH_LIMIT :: nat where "PREFETCH_LIMIT = 2"

text \<open>A request with its identity as an object, and its fields for the delivery.\<close>

record playback_request =
  pr_object :: nat
  pr_text :: string
  pr_job_id :: "string option"
  pr_delivery_token :: "string option"

text \<open>The items are requests, with or without a prefetch handle.\<close>

record playback_queue =
  pq_items :: "(playback_request \<times> bool) list"
  pq_draining :: bool

definition active_handles :: "(playback_request \<times> bool) list \<Rightarrow> nat" where
  "active_handles items = length (filter snd items)"

definition enqueue :: "playback_request \<Rightarrow> playback_queue \<Rightarrow> playback_queue" where
  "enqueue r q =
     (let prefetch = pq_draining q \<and> active_handles (pq_items q) < PREFETCH_LIMIT in
      q\<lparr>pq_items := pq_items q @ [(r, prefetch)]\<rparr>)"

fun start_handles :: "nat \<Rightarrow> nat \<Rightarrow> (playback_request \<times> bool) list \<Rightarrow> (playback_request \<times> bool) list" where
  "start_handles limit active [] = []"
| "start_handles limit active ((r, h) # items) =
     (if active \<ge> limit then (r, h) # items
      else if h then (r, h) # start_handles limit active items
      else (r, True) # start_handles limit (Suc active) items)"

definition start_prefetch :: "int \<Rightarrow> playback_queue \<Rightarrow> job_error + playback_queue" where
  "start_prefetch limit q =
     (if limit \<le> 0 then Inl (ValueError ''prefetch limit must be positive'')
      else Inr (q\<lparr>pq_items := start_handles (nat limit) (active_handles (pq_items q)) (pq_items q)\<rparr>))"

text \<open>Clearing discards the handles first; one whose worker does not stop raises.\<close>

definition clear_queue :: "(playback_request \<Rightarrow> bool) \<Rightarrow> playback_queue \<Rightarrow> string + playback_queue" where
  "clear_queue stops q =
     (if list_all (\<lambda>(r, h). h \<longrightarrow> stops r) (pq_items q) then Inr (q\<lparr>pq_items := []\<rparr>)
      else Inl ''TTS prefetch worker did not stop after cancellation'')"

definition peek_text :: "playback_queue \<Rightarrow> string" where
  "peek_text q = (case pq_items q of [] \<Rightarrow> '''' | (r, _) # _ \<Rightarrow> pr_text r)"

fun join_blank :: "string list \<Rightarrow> string" where
  "join_blank [] = []"
| "join_blank [x] = x"
| "join_blank (x # xs) = x @ '' '' @ join_blank xs"

definition queued_text :: "playback_queue \<Rightarrow> string" where
  "queued_text q = join_blank (map (pr_text \<circ> fst) (pq_items q))"

section \<open>One item\<close>

text \<open>What \<open>wait_progress\<close> yields: an error, an interruption, or the texts so far and whether they are all.\<close>

datatype progress = ProgressFailed string | ProgressInterrupted | Progress "string list" bool

text \<open>How a chunk, or an item, ends; failures of playback itself are marked.\<close>

datatype part_end = Complete | Interrupted | Failed bool string

text \<open>
  One round of \<open>_write_playback\<close>: an interruption, whether the audio process has exited, the time,
  what \<open>select\<close> and \<open>os.write\<close> answer (a failed \<open>select\<close> with whether the process had exited by
  then), and the time after a write.
\<close>

datatype write_answer = NotWritable | SelectFailed bool string | WouldBlock | BrokenPipe | Wrote int

record write_poll =
  wp_interrupt :: bool
  wp_exited :: bool
  wp_now :: time
  wp_answer :: write_answer
  wp_after :: time

definition PLAYBACK_PROGRESS_TIMEOUT_SECONDS :: time where
  "PLAYBACK_PROGRESS_TIMEOUT_SECONDS = 5"

text \<open>The bytes written and how it ended. The polls come one by one; after the last one it stalls.\<close>

fun write_playback :: "write_poll list \<Rightarrow> time \<Rightarrow> int list \<Rightarrow> int list \<times> part_end" where
  "write_playback polls deadline [] = ([], Complete)"
| "write_playback [] deadline (b # pending) = ([], Failed True ''pw-play write stalled'')"
| "write_playback (w # polls) deadline (b # pending) =
     (if wp_interrupt w then ([], Interrupted)
      else if wp_exited w then ([], Failed True ''pw-play exited before playback completed'')
      else if deadline - wp_now w \<le> 0 then ([], Failed True ''pw-play write stalled'')
      else case wp_answer w of
          SelectFailed exited m \<Rightarrow>
            ([], if exited then Failed True ''pw-play exited before playback completed'' else Failed False m)
        | NotWritable \<Rightarrow> write_playback polls deadline (b # pending)
        | WouldBlock \<Rightarrow> write_playback polls deadline (b # pending)
        | BrokenPipe \<Rightarrow> ([], Failed True ''pw-play closed stdin before playback completed'')
        | Wrote n \<Rightarrow>
            if n \<le> 0 then ([], Failed True ''pw-play made no write progress'')
            else let (written, e) = write_playback polls
                       (wp_after w + PLAYBACK_PROGRESS_TIMEOUT_SECONDS) (drop (nat n) (b # pending)) in
                 (take (nat n) (b # pending) @ written, e))"

text \<open>The frames of a chunk as they are read; the first empty read is the end of the file.\<close>

record frame_env =
  fr_interrupt :: bool
  fr_audio :: "int list"
  fr_started :: time
  fr_polls :: "write_poll list"

record chunk_env =
  ck_interrupt :: bool
  ck_output :: string
  ck_format :: bool
  ck_frames :: "frame_env list"

fun write_frames :: "frame_env list \<Rightarrow> int list \<times> part_end" where
  "write_frames [] = ([], Complete)"
| "write_frames (f # frames) =
     (if fr_interrupt f then ([], Interrupted)
      else if fr_audio f = [] then ([], Complete)
      else case write_playback (fr_polls f) (fr_started f + PLAYBACK_PROGRESS_TIMEOUT_SECONDS) (fr_audio f) of
          (written, Complete) \<Rightarrow> (let (ws, e) = write_frames frames in (written @ ws, e))
        | (written, e) \<Rightarrow> (written, e))"

definition write_chunk :: "chunk_env \<Rightarrow> int list \<times> part_end" where
  "write_chunk c =
     (if ck_interrupt c then ([], Interrupted)
      else if \<not> ck_format c
      then ([], Failed False (''unexpected streaming WAV format: '' @ ck_output c))
      else write_frames (ck_frames c))"

text \<open>\<open>ie_open\<close>: when opening the audio process fails, whether it had been created.\<close>

datatype queue_event = Enqueued playback_request | Cleared

record item_env =
  ie_progress :: "progress list"
  ie_chunk :: "nat \<Rightarrow> chunk_env"
  ie_open :: "(bool \<times> bool \<times> string) option"
  ie_events :: "queue_event list"
  ie_stops :: bool

fun write_chunks :: "(nat \<Rightarrow> chunk_env) \<Rightarrow> nat \<Rightarrow> string list \<Rightarrow> string list \<times> part_end" where
  "write_chunks chunk have_chunks [] = ([], Complete)"
| "write_chunks chunk have_chunks (x # xs) =
     (case snd (write_chunk (chunk have_chunks)) of
        Complete \<Rightarrow> (let (texts, e) = write_chunks chunk (Suc have_chunks) xs in (x # texts, e))
      | e \<Rightarrow> ([], e))"

text \<open>
  The texts written, how the item ended and whether the audio process is there. The results of
  \<open>wait_progress\<close> come one by one; after the last one it times out.
\<close>

fun item_loop :: "item_env \<Rightarrow> progress list \<Rightarrow> nat \<Rightarrow> bool \<Rightarrow> string list \<times> part_end \<times> bool" where
  "item_loop E [] have_chunks process = ([], Failed False ''TTS prefetch timed out'', process)"
| "item_loop E (ProgressFailed m # ps) have_chunks process = ([], Failed False m, process)"
| "item_loop E (ProgressInterrupted # ps) have_chunks process = ([], Interrupted, process)"
| "item_loop E (Progress texts finished # ps) have_chunks process =
     (if \<not> process \<and> have_chunks < length texts \<and> ie_open E \<noteq> None
      then (case the (ie_open E) of (created, playback, m) \<Rightarrow> ([], Failed playback m, created))
      else
        let process' = (process \<or> have_chunks < length texts);
            (written, e) = write_chunks (ie_chunk E) have_chunks (drop have_chunks texts) in
        if e \<noteq> Complete then (written, e, process')
        else if finished then (written, Complete, process')
        else let (more_texts, e', p) = item_loop E ps (max have_chunks (length texts)) process' in
             (written @ more_texts, e', p))"

section \<open>Draining\<close>

definition apply_event_queue :: "playback_queue \<Rightarrow> queue_event \<Rightarrow> playback_queue" where
  "apply_event_queue q e =
     (case e of Enqueued r \<Rightarrow> enqueue r q | Cleared \<Rightarrow> q\<lparr>pq_items := []\<rparr>)"

text \<open>The head is taken off when it is still the request that was played.\<close>

definition pop_played :: "playback_request \<Rightarrow> playback_queue \<Rightarrow> playback_queue" where
  "pop_played r q =
     (case pq_items q of
        [] \<Rightarrow> q
      | (r', _) # items \<Rightarrow> if pr_object r' = pr_object r then q\<lparr>pq_items := items\<rparr> else q)"

definition prefetched :: "playback_queue \<Rightarrow> playback_queue" where
  "prefetched q =
     q\<lparr>pq_items := start_handles PREFETCH_LIMIT (active_handles (pq_items q)) (pq_items q)\<rparr>"

definition prefetched_head :: "playback_queue \<Rightarrow> playback_queue" where
  "prefetched_head q =
     (case pq_items q of [] \<Rightarrow> q | (r, _) # items \<Rightarrow> q\<lparr>pq_items := (r, True) # items\<rparr>)"

text \<open>One entry of the batch: the text that was written, whether it was cut short, the request.\<close>

type_synonym played_item = "string \<times> bool \<times> playback_request"

datatype drain_end = QueueEmpty | DrainInterrupted | DrainFailed bool string | DrainRaised string

definition played_entry :: "string list \<Rightarrow> part_end \<Rightarrow> playback_request \<Rightarrow> played_item list" where
  "played_entry texts e r =
     (case e of
        Complete \<Rightarrow> [(strip (join_blank texts), False, r)]
      | Interrupted \<Rightarrow> [(strip (join_blank texts), True, r)]
      | Failed _ _ \<Rightarrow> if texts = [] then [] else [(strip (join_blank texts), True, r)])"

fun drain_items ::
  "item_env list \<Rightarrow> playback_queue \<Rightarrow> bool \<Rightarrow>
   (playback_queue \<times> bool \<times> played_item list \<times> drain_end) option" where
  "drain_items envs q process =
     (case pq_items (prefetched q) of
        [] \<Rightarrow> Some (prefetched q, process, [], QueueEmpty)
      | (r, _) # _ \<Rightarrow>
          (case envs of
             [] \<Rightarrow> None
           | E # rest \<Rightarrow>
               let q1 = prefetched_head (prefetched q);
                   (texts, e, process') = item_loop E (ie_progress E) 0 process;
                   q2 = prefetched (foldl apply_event_queue q1 (ie_events E)) in
               if \<not> ie_stops E
               then Some (q2, process', [], DrainRaised ''TTS prefetch worker did not stop after cancellation'')
               else
                 let q3 = pop_played r q2; entry = played_entry texts e r in
                 (case e of
                    Interrupted \<Rightarrow> Some (q3, process', entry, DrainInterrupted)
                  | Failed playback m \<Rightarrow> Some (q3, process', entry, DrainFailed playback m)
                  | Complete \<Rightarrow>
                      (case drain_items rest q3 process' of
                         None \<Rightarrow> None
                       | Some (q', p, played, ending) \<Rightarrow> Some (q', p, entry @ played, ending)))))"

declare drain_items.simps [simp del]

text \<open>How the audio process ends after its input was closed.\<close>

datatype sink_exit = SinkExit int string | SinkInterrupted | SinkStalled

text \<open>
  The batch that is reported and the error that is raised, if any. A failed or interrupted end of
  the audio process means that nobody knows what was heard: every entry counts as interrupted.
\<close>

definition cut_short :: "played_item list \<Rightarrow> played_item list" where
  "cut_short played = map (\<lambda>(text, _, r). (text, True, r)) played"

definition close_sink ::
  "sink_exit \<Rightarrow> bool \<Rightarrow> played_item list \<Rightarrow> drain_end \<Rightarrow> played_item list \<times> string option" where
  "close_sink sink process played ending =
     (let deferred = (case ending of DrainFailed _ m \<Rightarrow> Some m | _ \<Rightarrow> None) in
      case ending of
        DrainRaised m \<Rightarrow> ([], Some m)
      | _ \<Rightarrow>
          if \<not> process then (played, deferred)
          else if ending = DrainInterrupted then (played, deferred)
          else if (case ending of DrainFailed playback _ \<Rightarrow> playback | _ \<Rightarrow> False) then (cut_short played, deferred)
          else (case sink of
              SinkExit n detail \<Rightarrow>
                if n = 0 then (played, deferred)
                else ([], Some (''pw-play failed: '' @ (if truthy detail then detail else show_int n)))
            | SinkInterrupted \<Rightarrow> (cut_short played, deferred)
            | SinkStalled \<Rightarrow> ([], Some ''pw-play completion stalled'')))"

definition drain ::
  "item_env list \<Rightarrow> sink_exit \<Rightarrow> playback_queue \<Rightarrow>
   (playback_queue \<times> played_item list \<times> string option) option" where
  "drain envs sink q =
     (case drain_items envs (q\<lparr>pq_draining := True\<rparr>) False of
        None \<Rightarrow> None
      | Some (q', process, played, ending) \<Rightarrow>
          let (reported, err) = close_sink sink process played ending in
          Some (q'\<lparr>pq_draining := False\<rparr>, reported, err))"

text \<open>\<open>play_next\<close>: the first entry of a batch.\<close>

definition play_next ::
  "item_env list \<Rightarrow> sink_exit \<Rightarrow> playback_queue \<Rightarrow>
   (playback_queue \<times> (string + played_item option)) option" where
  "play_next envs sink q =
     (case drain envs sink q of
        None \<Rightarrow> None
      | Some (q', reported, Some m) \<Rightarrow> Some (q', Inl m)
      | Some (q', reported, None) \<Rightarrow> Some (q', Inr (case reported of [] \<Rightarrow> None | x # _ \<Rightarrow> Some x)))"

end
