(* ===== verification/Playback_Machine.thy ===== *)
theory Playback_Machine imports Playback_Queue begin

text \<open>
  What draining the playback queue keeps: requests leave in the order they were queued, none twice,
  none lost; and an entry reported as fully spoken had every chunk of its stream written.
\<close>

section \<open>The order of the queue\<close>

abbreviation waiting :: "playback_queue \<Rightarrow> playback_request list" where
  "waiting q \<equiv> map fst (pq_items q)"

definition enqueued :: "queue_event list \<Rightarrow> playback_request list" where
  "enqueued events = concat (map (\<lambda>e. case e of Enqueued r \<Rightarrow> [r] | Cleared \<Rightarrow> []) events)"

definition arrivals :: "item_env list \<Rightarrow> playback_request list" where
  "arrivals envs = concat (map (enqueued \<circ> ie_events) envs)"

definition never_cleared :: "item_env list \<Rightarrow> bool" where
  "never_cleared envs = list_all (\<lambda>E. Cleared \<notin> set (ie_events E)) envs"

lemma arrivals_simps [simp]:
  "arrivals [] = []"
  "arrivals (E # envs) = enqueued (ie_events E) @ arrivals envs"
  by (simp_all add: arrivals_def)

lemma never_cleared_Cons [simp]:
  "never_cleared (E # envs) \<longleftrightarrow> Cleared \<notin> set (ie_events E) \<and> never_cleared envs"
  by (simp add: never_cleared_def)

lemma start_handles_requests [simp]: "map fst (start_handles limit active items) = map fst items"
  by (induction limit active items rule: start_handles.induct) auto

lemma prefetched_requests [simp]: "waiting (prefetched q) = waiting q"
  by (simp add: prefetched_def)

lemma prefetched_head_requests [simp]: "waiting (prefetched_head q) = waiting q"
  by (auto simp: prefetched_head_def split: list.splits)

lemma enqueue_requests [simp]: "waiting (enqueue r q) = waiting q @ [r]"
  by (simp add: enqueue_def Let_def)

lemma events_requests:
  "Cleared \<notin> set events \<Longrightarrow>
   waiting (foldl apply_event_queue q events) = waiting q @ enqueued events"
proof (induction events arbitrary: q)
  case (Cons e events)
  then show ?case by (cases e) (simp_all add: apply_event_queue_def enqueued_def)
qed (simp add: enqueued_def)

lemma pop_played_requests:
  assumes "waiting q = r # rs"
  shows "waiting (pop_played r q) = rs"
  using assms by (auto simp: pop_played_def split: list.splits)

text \<open>The queue after the events of one item, whose head is still the item.\<close>

lemma item_requests:
  assumes "waiting q = r # rs" "Cleared \<notin> set events"
  shows "waiting (prefetched (foldl apply_event_queue (prefetched_head (prefetched q)) events))
    = r # rs @ enqueued events"
  using assms by (simp add: events_requests)

lemma played_entry_requests:
  "map (snd \<circ> snd) (played_entry texts e r) = [r]
   \<or> (played_entry texts e r = [] \<and> (\<exists>p m. e = Failed p m))"
  by (cases e) (auto simp: played_entry_def)

lemma played_entry_complete: "map (snd \<circ> snd) (played_entry texts Complete r) = [r]"
  by (simp add: played_entry_def)

text \<open>
  With nobody clearing the queue: what was taken off, followed by what is left, is what was queued
  followed by what arrived while the first \<open>n\<close> items were played. At most one request taken off is
  not reported, the last one, when it failed before a chunk of it was written.
\<close>

definition in_queue_order ::
  "playback_request list \<Rightarrow> item_env list \<Rightarrow> playback_request list \<Rightarrow> played_item list \<Rightarrow> drain_end \<Rightarrow> bool"
  where
  "in_queue_order queued envs left played ending =
     (\<exists>n \<le> length envs. \<exists>taken.
        queued @ arrivals (take n envs) = taken @ left
        \<and> (map (snd \<circ> snd) played = taken
           \<or> ((\<exists>p m. ending = DrainFailed p m) \<and> taken \<noteq> [] \<and> map (snd \<circ> snd) played = butlast taken)))"

lemma in_queue_order_zero: "in_queue_order queued envs queued [] ending"
  unfolding in_queue_order_def by (rule exI[of _ 0], rule conjI, simp, rule exI[of _ "[]"], simp)

lemma in_queue_order_raised:
  "in_queue_order queued (E # envs) (queued @ enqueued (ie_events E)) [] ending"
  unfolding in_queue_order_def by (rule exI[of _ 1], rule conjI, simp, rule exI[of _ "[]"], simp)

lemma in_queue_order_reported:
  assumes "queued = r # rs" "map (snd \<circ> snd) entry = [r]"
  shows "in_queue_order queued (E # envs) (rs @ enqueued (ie_events E)) entry ending"
  unfolding in_queue_order_def
  using assms by (intro exI[of _ 1] conjI, simp, intro exI[of _ "[r]"], simp)

lemma in_queue_order_failed:
  assumes "queued = r # rs"
  shows "in_queue_order queued (E # envs) (rs @ enqueued (ie_events E)) [] (DrainFailed p m)"
  unfolding in_queue_order_def
  using assms by (intro exI[of _ 1] conjI, simp, intro exI[of _ "[r]"], simp)

lemma in_queue_order_Cons:
  assumes q: "queued = r # rs" and e: "map (snd \<circ> snd) entry = [r]"
    and rest: "in_queue_order (rs @ enqueued (ie_events E)) envs left played ending"
  shows "in_queue_order queued (E # envs) left (entry @ played) ending"
proof -
  obtain n taken where n: "n \<le> length envs"
    and eq: "rs @ enqueued (ie_events E) @ arrivals (take n envs) = taken @ left"
    and pl: "map (snd \<circ> snd) played = taken
       \<or> ((\<exists>p m. ending = DrainFailed p m) \<and> taken \<noteq> [] \<and> map (snd \<circ> snd) played = butlast taken)"
    using rest unfolding in_queue_order_def by auto
  show ?thesis unfolding in_queue_order_def
  proof (intro exI[of _ "Suc n"] conjI exI[of _ "r # taken"])
    show "Suc n \<le> length (E # envs)" using n by simp
    show "queued @ arrivals (take (Suc n) (E # envs)) = (r # taken) @ left" using q eq by simp
    show "map (snd \<circ> snd) (entry @ played) = r # taken
       \<or> ((\<exists>p m. ending = DrainFailed p m) \<and> r # taken \<noteq> []
          \<and> map (snd \<circ> snd) (entry @ played) = butlast (r # taken))"
      using e pl by auto
  qed
qed

text \<open>One round of the loop, with the pieces named.\<close>

lemma drain_items_empty:
  "waiting q = [] \<Longrightarrow> drain_items envs q process = Some (prefetched q, process, [], QueueEmpty)"
  by (cases "pq_items (prefetched q)")
    (use prefetched_requests[of q] in \<open>auto simp: drain_items.simps[of envs q]\<close>)

lemma drain_items_nil:
  "drain_items [] q process = Some x \<Longrightarrow> x = (prefetched q, process, [], QueueEmpty)"
  by (cases "pq_items (prefetched q)") (auto simp: drain_items.simps[of "[]" q process])

definition after_item :: "item_env \<Rightarrow> playback_queue \<Rightarrow> playback_queue" where
  "after_item E q = prefetched (foldl apply_event_queue (prefetched_head (prefetched q)) (ie_events E))"

lemma drain_items_head:
  assumes "waiting q = r # rs"
  shows "drain_items (E # envs) q process =
    (case item_loop E (ie_progress E) 0 process of (texts, e, process') \<Rightarrow>
       if \<not> ie_stops E
       then Some (after_item E q, process', [],
         DrainRaised ''TTS prefetch worker did not stop after cancellation'')
       else
         case e of
           Interrupted \<Rightarrow>
             Some (pop_played r (after_item E q), process', played_entry texts e r, DrainInterrupted)
         | Failed playback m \<Rightarrow>
             Some (pop_played r (after_item E q), process', played_entry texts e r, DrainFailed playback m)
         | Complete \<Rightarrow>
             map_option (\<lambda>(q', p, played, ending). (q', p, played_entry texts e r @ played, ending))
               (drain_items envs (pop_played r (after_item E q)) process'))"
proof -
  obtain h items where i: "pq_items (prefetched q) = (r, h) # items"
    using assms prefetched_requests[of q] by (cases "pq_items (prefetched q)") auto
  show ?thesis
    unfolding drain_items.simps[of "E # envs" q process] i after_item_def map_option_case Let_def
    by (auto split: prod.split part_end.split option.split)
qed

lemma after_item_requests:
  assumes "waiting q = r # rs" "Cleared \<notin> set (ie_events E)"
  shows "waiting (after_item E q) = r # rs @ enqueued (ie_events E)"
    "waiting (pop_played r (after_item E q)) = rs @ enqueued (ie_events E)"
proof -
  show *: "waiting (after_item E q) = r # rs @ enqueued (ie_events E)"
    unfolding after_item_def by (rule item_requests[OF assms])
  show "waiting (pop_played r (after_item E q)) = rs @ enqueued (ie_events E)"
    by (rule pop_played_requests[OF *])
qed

lemma drain_items_order:
  assumes "never_cleared envs" "drain_items envs q process = Some (q', p, played, ending)"
  shows "in_queue_order (waiting q) envs (waiting q') played ending"
  using assms
proof (induction envs arbitrary: q process q' p played)
  case Nil
  have "waiting q' = waiting q" "played = []" using drain_items_nil[OF Nil(2)] by auto
  then show ?case using in_queue_order_zero[of "waiting q"] by simp
next
  case (Cons E envs)
  show ?case
  proof (cases "waiting q")
    case Nil
    have "waiting q' = waiting q" "played = []"
      using Cons.prems(2) drain_items_empty[OF Nil, of "E # envs" process] by auto
    then show ?thesis using in_queue_order_zero[of "waiting q"] by simp
  next
    case (Cons r rs)
    note q = this
    obtain texts e process' where l: "item_loop E (ie_progress E) 0 process = (texts, e, process')"
      by (cases "item_loop E (ie_progress E) 0 process") auto
    have c: "Cleared \<notin> set (ie_events E)" "never_cleared envs" using Cons.prems by simp_all
    note d = Cons.prems(2)[unfolded drain_items_head[OF q] l prod.case]
    note after = after_item_requests[OF q c(1)]
    show ?thesis
    proof (cases "ie_stops E")
      case False
      then have "q' = after_item E q" "played = []" using d by auto
      then show ?thesis using after(1) q in_queue_order_raised[of "r # rs"] by simp
    next
      case True
      then show ?thesis
      proof (cases e)
        case Complete
        then obtain played' where r: "drain_items envs (pop_played r (after_item E q)) process' =
            Some (q', p, played', ending)" and pl: "played = played_entry texts Complete r @ played'"
          using d True by (auto split: if_splits)
        show ?thesis unfolding pl
          by (rule in_queue_order_Cons[OF q played_entry_complete])
            (use Cons.IH[OF c(2) r] after(2) in simp)
      next
        case Interrupted
        then show ?thesis using d True after(2) q
          by (auto simp: played_entry_def intro!: in_queue_order_reported)
      next
        case (Failed playback m)
        then have x: "q' = pop_played r (after_item E q)" "played = played_entry texts e r"
          "ending = DrainFailed playback m" using d True by auto
        show ?thesis
          using played_entry_requests[of texts e r] x after(2)
            in_queue_order_reported[OF q, of "played_entry texts e r"] in_queue_order_failed[OF q]
          by auto
      qed
    qed
  qed
qed

lemma drain_items_returns:
  assumes "never_cleared envs" "length (waiting q) + length (arrivals envs) \<le> length envs"
  shows "drain_items envs q process \<noteq> None"
  using assms
proof (induction envs arbitrary: q process)
  case Nil
  then show ?case using drain_items_empty[of q "[]" process] by simp
next
  case (Cons E envs)
  show ?case
  proof (cases "waiting q")
    case Nil
    then show ?thesis by (simp add: drain_items_empty)
  next
    case (Cons r rs)
    note q = this
    have c: "Cleared \<notin> set (ie_events E)" "never_cleared envs" using Cons.prems by simp_all
    have "length (waiting (pop_played r (after_item E q))) + length (arrivals envs) \<le> length envs"
      using Cons.prems(2) q after_item_requests(2)[OF q c(1)] by simp
    then have "drain_items envs (pop_played r (after_item E q)) process' \<noteq> None" for process'
      by (rule Cons.IH[OF c(2)])
    then show ?thesis unfolding drain_items_head[OF q]
      by (auto simp del: not_None_eq split: prod.splits part_end.splits)
  qed
qed

section \<open>What was spoken\<close>

text \<open>The prefetch only ever appends to the texts it has.\<close>

fun grows :: "string list \<Rightarrow> progress list \<Rightarrow> bool" where
  "grows seen [] = True"
| "grows seen (Progress texts f # ps) = (take (length seen) texts = seen \<and> grows texts ps)"
| "grows seen (p # ps) = grows seen ps"

definition streams_grow :: "item_env list \<Rightarrow> bool" where
  "streams_grow envs = list_all (\<lambda>E. grows [] (ie_progress E)) envs"

lemma write_playback_complete:
  "write_playback polls deadline audio = (ws, Complete) \<Longrightarrow> ws = audio"
proof (induction polls deadline audio arbitrary: ws rule: write_playback.induct)
  case (3 w polls deadline b pending)
  then show ?case
    by (auto simp: Let_def append_take_drop_id simp del: take_Cons drop_Cons
        split: write_answer.splits prod.splits if_splits) (metis append_take_drop_id)
qed auto

text \<open>The audio of a chunk, up to the end of its file.\<close>

definition chunk_audio :: "chunk_env \<Rightarrow> int list" where
  "chunk_audio c = concat (takeWhile (\<lambda>a. a \<noteq> []) (map fr_audio (ck_frames c)))"

lemma write_frames_complete:
  "write_frames frames = (ws, Complete) \<Longrightarrow>
   ws = concat (takeWhile (\<lambda>a. a \<noteq> []) (map fr_audio frames))"
  by (induction frames arbitrary: ws)
    (auto dest: write_playback_complete split: prod.splits part_end.splits if_splits)

definition chunk_was_written :: "chunk_env \<Rightarrow> bool" where
  "chunk_was_written c \<longleftrightarrow> write_chunk c = (chunk_audio c, Complete)"

lemma write_chunk_complete: "snd (write_chunk c) = Complete \<Longrightarrow> chunk_was_written c"
  by (auto simp: write_chunk_def chunk_was_written_def chunk_audio_def prod_eq_iff
      intro!: write_frames_complete split: if_splits)

lemma write_chunks_complete:
  "write_chunks chunk n xs = (ws, Complete) \<Longrightarrow>
   ws = xs \<and> list_all (\<lambda>k. chunk_was_written (chunk k)) [n..<n + length xs]"
proof (induction xs arbitrary: n ws)
  case (Cons x xs)
  then have c: "snd (write_chunk (chunk n)) = Complete" by (auto split: part_end.splits)
  then obtain v where v: "write_chunks chunk (Suc n) xs = (v, Complete)" "ws = x # v"
    using Cons.prems by (auto split: prod.splits)
  have u: "[n..<n + length (x # xs)] = n # [Suc n..<Suc n + length xs]"
    using upt_conv_Cons[of n "n + length (x # xs)"] by (simp del: upt_Suc)
  show ?case unfolding u using Cons.IH[OF v(1)] v(2) write_chunk_complete[OF c] by simp
qed simp

lemma seen_and_rest: "take (length seen) texts = seen \<Longrightarrow> seen @ drop (length seen) texts = texts"
  using append_take_drop_id[of "length seen" texts] by simp

lemma seen_length: "take (length seen) texts = seen \<Longrightarrow> length seen \<le> length texts"
  by (metis length_take min.cobounded1)

lemma item_loop_process: "item_loop E ps n process = (ws, e, p) \<Longrightarrow> process \<Longrightarrow> p"
  by (induction E ps n process arbitrary: ws e p rule: item_loop.induct)
    (auto simp: Let_def split: prod.splits if_splits)

lemma item_loop_complete:
  assumes "grows seen ps" "item_loop E ps (length seen) process = (ws, Complete, p)"
  shows "Progress (seen @ ws) True \<in> set ps \<and> (ws \<noteq> [] \<longrightarrow> p)
    \<and> list_all (\<lambda>k. chunk_was_written (ie_chunk E k)) [length seen..<length (seen @ ws)]"
  using assms
proof (induction ps arbitrary: seen process ws)
  case (Cons a ps)
  show ?case
  proof (cases a)
    case (Progress texts f)
    define opened where "opened = (process \<or> length seen < length texts)"
    have pre: "take (length seen) texts = seen" and g: "grows texts ps"
      using Cons.prems(1) Progress by simp_all
    have mx: "max (length seen) (length texts) = length texts" using seen_length[OF pre] by simp
    obtain v e where w: "write_chunks (ie_chunk E) (length seen) (drop (length seen) texts) = (v, e)"
      by (cases "write_chunks (ie_chunk E) (length seen) (drop (length seen) texts)")
    note l = Cons.prems(2)[unfolded Progress item_loop.simps Let_def w prod.case mx,
        folded opened_def]
    have e: "e = Complete" using l by (auto split: if_splits prod.splits)
    have v: "v = drop (length seen) texts"
      and written: "list_all (\<lambda>k. chunk_was_written (ie_chunk E k)) [length seen..<length texts]"
      using write_chunks_complete[OF w[unfolded e]] seen_length[OF pre] by auto
    have sv: "seen @ v = texts" unfolding v by (rule seen_and_rest[OF pre])
    have op: "v \<noteq> [] \<Longrightarrow> opened" unfolding v opened_def by auto
    show ?thesis
    proof (cases f)
      case True
      then have "ws = v" "p = opened" using l e by (auto split: if_splits prod.splits)
      then show ?thesis using Progress True sv op written by simp
    next
      case False
      obtain rest where i: "item_loop E ps (length texts) opened = (rest, Complete, p)"
        and ws: "ws = v @ rest"
        using l e False by (auto split: if_splits prod.splits)
      have IH: "Progress (texts @ rest) True \<in> set ps \<and> (rest \<noteq> [] \<longrightarrow> p)
          \<and> list_all (\<lambda>k. chunk_was_written (ie_chunk E k)) [length texts..<length (texts @ rest)]"
        by (rule Cons.IH[OF g i])
      have u: "[length seen..<length (seen @ ws)] =
          [length seen..<length texts] @ [length texts..<length (texts @ rest)]"
        using upt_add_eq_append[of "length seen" "length texts" "length rest"] seen_length[OF pre]
        by (simp add: ws sv[symmetric] add.assoc)
      show ?thesis unfolding u using IH sv ws op written item_loop_process[OF i] by auto
    qed
  qed (use Cons.prems in auto)
qed simp

lemma drain_items_process:
  "drain_items envs q process = Some (q', p, played, ending) \<Longrightarrow> process \<Longrightarrow> p"
proof (induction envs arbitrary: q process q' p played)
  case Nil
  then show ?case
    by (auto dest: drain_items_nil)
next
  case (Cons E envs)
  show ?case
  proof (cases "waiting q")
    case Nil
    then show ?thesis using Cons.prems drain_items_empty[OF Nil, of "E # envs" process] by auto
  next
    case (Cons r rs)
    obtain texts e process' where l: "item_loop E (ie_progress E) 0 process = (texts, e, process')"
      by (cases "item_loop E (ie_progress E) 0 process") auto
    have "process'" by (rule item_loop_process[OF l Cons.prems(2)])
    then show ?thesis using Cons.prems(1) Cons.IH[of _ process']
      unfolding drain_items_head[OF Cons] l prod.case
      by (auto split: part_end.splits if_splits)
  qed
qed

text \<open>An interrupted drain reports the item that was cut short.\<close>

lemma drain_items_interrupted:
  "drain_items envs q process = Some (q', p, played, DrainInterrupted) \<Longrightarrow>
   \<exists>t r. (t, True, r) \<in> set played"
proof (induction envs arbitrary: q process q' p played)
  case Nil
  then show ?case
    by (auto dest: drain_items_nil)
next
  case (Cons E envs)
  show ?case
  proof (cases "waiting q")
    case Nil
    then show ?thesis using Cons.prems drain_items_empty[OF Nil, of "E # envs" process] by auto
  next
    case (Cons r rs)
    then show ?thesis using Cons.prems Cons.IH
      unfolding drain_items_head[OF Cons]
      by (fastforce simp: played_entry_def split: prod.splits part_end.splits if_splits)
  qed
qed

definition spoken_whole :: "item_env \<Rightarrow> string \<Rightarrow> bool \<Rightarrow> bool" where
  "spoken_whole E text process =
     (\<exists>texts. Progress texts True \<in> set (ie_progress E) \<and> text = strip (join_blank texts)
        \<and> list_all (\<lambda>k. chunk_was_written (ie_chunk E k)) [0..<length texts]
        \<and> (texts \<noteq> [] \<longrightarrow> process))"

lemma spoken_whole_mono: "spoken_whole E text process \<Longrightarrow> (process \<Longrightarrow> p) \<Longrightarrow> spoken_whole E text p"
  unfolding spoken_whole_def by blast

lemma drain_items_spoken:
  assumes "streams_grow envs" "drain_items envs q process = Some (q', p, played, ending)"
    "i < length played" "played ! i = (text, False, r)"
  shows "i < length envs \<and> spoken_whole (envs ! i) text p"
  using assms
proof (induction envs arbitrary: q process q' p played i)
  case Nil
  then show ?case
    by (auto dest: drain_items_nil)
next
  case (Cons E envs)
  have g: "grows [] (ie_progress E)" "streams_grow envs"
    using Cons.prems(1) by (simp_all add: streams_grow_def)
  show ?case
  proof (cases "waiting q")
    case Nil
    then show ?thesis using Cons.prems drain_items_empty[OF Nil, of "E # envs" process] by auto
  next
    case (Cons r' rs)
    note q = this
    obtain texts e process' where l: "item_loop E (ie_progress E) 0 process = (texts, e, process')"
      by (cases "item_loop E (ie_progress E) 0 process") auto
    note d = Cons.prems(2)[unfolded drain_items_head[OF q] l prod.case]
    show ?thesis
    proof (cases "ie_stops E \<and> e = Complete")
      case False
      then show ?thesis using d Cons.prems(3,4)
        by (auto simp: played_entry_def split: part_end.splits if_splits)
    next
      case True
      then obtain played' where r: "drain_items envs (pop_played r' (after_item E q)) process' =
            Some (q', p, played', ending)"
        and pl: "played = (strip (join_blank texts), False, r') # played'"
        using d by (auto simp: played_entry_def split: if_splits)
      show ?thesis
      proof (cases i)
        case 0
        have "Progress texts True \<in> set (ie_progress E) \<and> (texts \<noteq> [] \<longrightarrow> process')
            \<and> list_all (\<lambda>k. chunk_was_written (ie_chunk E k)) [0..<length texts]"
          using item_loop_complete[of "[]" "ie_progress E" E process texts process'] g(1) l True by simp
        then show ?thesis using 0 Cons.prems(4) pl drain_items_process[OF r]
          by (auto simp: spoken_whole_def)
      next
        case (Suc k)
        then show ?thesis using Cons.IH[OF g(2) r, of k] Cons.prems(3,4) pl by simp
      qed
    qed
  qed
qed

lemma close_sink_whole:
  assumes "close_sink sink process played ending = (reported, err)"
    "i < length reported" "reported ! i = (text, False, r)"
  shows "i < length played \<and> played ! i = (text, False, r)
    \<and> (process \<longrightarrow> (\<exists>detail. sink = SinkExit 0 detail) \<or> (ending = DrainInterrupted \<and> reported = played))"
  using assms unfolding close_sink_def
  by (auto simp: cut_short_def Let_def split: drain_end.splits sink_exit.splits if_splits prod.splits)

section \<open>The queue as its callers see it\<close>

text \<open>A drain in two steps.\<close>

lemma drain_parts:
  assumes "drain envs sink q = Some (q', reported, err)"
  obtains q1 process played ending where
    "drain_items envs (q\<lparr>pq_draining := True\<rparr>) False = Some (q1, process, played, ending)"
    "close_sink sink process played ending = (reported, err)" "waiting q' = waiting q1"
  using assms unfolding drain_def by (auto split: option.splits prod.splits)

lemma close_sink_requests:
  "close_sink sink process played ending = (reported, err) \<Longrightarrow>
   reported = [] \<or> map (snd \<circ> snd) reported = map (snd \<circ> snd) played"
  unfolding close_sink_def
  by (auto simp: cut_short_def Let_def split: drain_end.splits sink_exit.splits if_splits prod.splits)

lemma close_sink_quiet:
  "close_sink sink process played ending = (reported, None) \<Longrightarrow>
   map (snd \<circ> snd) reported = map (snd \<circ> snd) played \<and> (ending = QueueEmpty \<or> ending = DrainInterrupted)"
  unfolding close_sink_def
  by (auto simp: cut_short_def Let_def split: drain_end.splits sink_exit.splits if_splits prod.splits)

text \<open>
  C35. An entry that is reported as spoken to its end: the stream of that item was complete, the text is
  all of it, the audio of every chunk was written in full, and the audio process ended well, unless
  the drain was interrupted at a later entry.
\<close>

theorem reported_speech_was_played:
  assumes "streams_grow envs" "drain envs sink q = Some (q', reported, err)"
    "i < length reported" "reported ! i = (text, False, r)"
  shows "i < length envs \<and>
    (\<exists>texts. Progress texts True \<in> set (ie_progress (envs ! i)) \<and> text = strip (join_blank texts)
       \<and> list_all (\<lambda>k. write_chunk (ie_chunk (envs ! i) k) = (chunk_audio (ie_chunk (envs ! i) k), Complete))
            [0..<length texts]
       \<and> (texts \<noteq> [] \<longrightarrow>
            (\<exists>detail. sink = SinkExit 0 detail) \<or> (\<exists>t r'. (t, True, r') \<in> set reported)))"
proof -
  obtain q1 process played ending where
    d: "drain_items envs (q\<lparr>pq_draining := True\<rparr>) False = Some (q1, process, played, ending)"
    and c: "close_sink sink process played ending = (reported, err)"
    by (rule drain_parts[OF assms(2)])
  note w = close_sink_whole[OF c assms(3,4)]
  have "i < length envs \<and> spoken_whole (envs ! i) text process"
    by (rule drain_items_spoken[OF assms(1) d]) (use w in auto)
  moreover have "process \<Longrightarrow> (\<exists>detail. sink = SinkExit 0 detail) \<or> (\<exists>t r'. (t, True, r') \<in> set reported)"
    using w drain_items_interrupted d by blast
  ultimately show ?thesis unfolding spoken_whole_def chunk_was_written_def by blast
qed

text \<open>
  C36. A drain returns as soon as it has an outcome for every request; if it raises nothing and nobody
  clears the queue, it reports the requests in the order they were queued, each once, and the
  requests it does not report are still queued.
\<close>

theorem playback_is_first_in_first_out:
  assumes "never_cleared envs" "length (waiting q) + length (arrivals envs) \<le> length envs"
  shows "\<exists>q' reported err. drain envs sink q = Some (q', reported, err) \<and>
    (err = None \<longrightarrow>
       (\<exists>n \<le> length envs.
          waiting q @ arrivals (take n envs) = map (snd \<circ> snd) reported @ waiting q'))"
proof -
  have ne: "drain_items envs (q\<lparr>pq_draining := True\<rparr>) False \<noteq> None"
    by (rule drain_items_returns) (use assms in simp_all)
  obtain q1 process played ending where
    d: "drain_items envs (q\<lparr>pq_draining := True\<rparr>) False = Some (q1, process, played, ending)"
    using ne by auto
  obtain reported err where c: "close_sink sink process played ending = (reported, err)"
    by (cases "close_sink sink process played ending")
  have o: "in_queue_order (waiting (q\<lparr>pq_draining := True\<rparr>)) envs (waiting q1) played ending"
    by (rule drain_items_order[OF assms(1) d])
  have r: "drain envs sink q = Some (q1\<lparr>pq_draining := False\<rparr>, reported, err)"
    unfolding drain_def d by (simp add: c)
  have "\<exists>n \<le> length envs. waiting q @ arrivals (take n envs) = map (snd \<circ> snd) reported @ waiting q1"
    if e: "err = None"
    using o close_sink_quiet[OF c[unfolded e]] unfolding in_queue_order_def by auto
  then show ?thesis using r by fastforce
qed

section \<open>An example\<close>

definition demo_request :: "nat \<Rightarrow> string \<Rightarrow> playback_request" where
  "demo_request n t = \<lparr>pr_object = n, pr_text = t, pr_job_id = None, pr_delivery_token = None\<rparr>"

definition demo_wave :: "nat \<Rightarrow> chunk_env" where
  "demo_wave n = \<lparr>ck_interrupt = False, ck_output = ''chunk.wav'', ck_format = True,
     ck_frames = [\<lparr>fr_interrupt = False, fr_audio = [1, 2, 3, int n], fr_started = 0,
       fr_polls = [\<lparr>wp_interrupt = False, wp_exited = False, wp_now = 1, wp_answer = Wrote 3, wp_after = 1\<rparr>,
         \<lparr>wp_interrupt = False, wp_exited = False, wp_now = 5, wp_answer = NotWritable, wp_after = 5\<rparr>,
         \<lparr>wp_interrupt = False, wp_exited = False, wp_now = 5, wp_answer = Wrote 1, wp_after = 5\<rparr>]\<rparr>]\<rparr>"

definition demo_played :: "progress list \<Rightarrow> queue_event list \<Rightarrow> item_env" where
  "demo_played ps events = \<lparr>ie_progress = ps, ie_chunk = demo_wave, ie_open = None,
     ie_events = events, ie_stops = True\<rparr>"

definition demo_playback :: playback_queue where
  "demo_playback = \<lparr>pq_items = [(demo_request 1 ''a'', False)], pq_draining = False\<rparr>"

definition demo_envs :: "item_env list" where
  "demo_envs = [demo_played [Progress [''a''] False, Progress [''a'', ''b''] True] [Enqueued (demo_request 2 ''c'')],
     demo_played [ProgressInterrupted] []]"

lemma demo_spoken:
  "drain demo_envs (SinkExit 0 '''') demo_playback =
   Some (\<lparr>pq_items = [], pq_draining = False\<rparr>,
     [(''a b'', False, demo_request 1 ''a''), ('''', True, demo_request 2 ''c'')], None)"
  by code_simp

lemma demo_streams_grow: "streams_grow demo_envs"
  by code_simp

lemma demo_never_cleared: "never_cleared demo_envs"
  by code_simp

lemma reported_speech_was_played_witness:
  "\<exists>texts. Progress texts True \<in> set (ie_progress (demo_envs ! 0)) \<and> ''a b'' = strip (join_blank texts)"
  using reported_speech_was_played[OF demo_streams_grow demo_spoken, of 0 "''a b''" "demo_request 1 ''a''"]
  by auto

lemma playback_is_first_in_first_out_witness:
  "\<exists>q' reported err. drain demo_envs (SinkExit 0 '''') demo_playback = Some (q', reported, err)"
proof -
  have "length (waiting demo_playback) + length (arrivals demo_envs) \<le> length demo_envs"
    by code_simp
  from playback_is_first_in_first_out[OF demo_never_cleared this, of "SinkExit 0 ''''"]
  show ?thesis by blast
qed

end
