(* ===== verification/Question_Machine.thy ===== *)
theory Question_Machine imports Questions Prompt_Machine begin

text \<open>
  What \<open>questions/__init__.py\<close> guarantees: the content and the fence of a question never change
  and closed questions stay closed, an answer to a multiple-choice question is accepted exactly
  when it names one choice, the envelope survives storage up to surrounding blanks, and the
  prompt in a question's fields is a run of the prompt machine.
\<close>

section \<open>The operations as one machine\<close>

datatype question_op =
    MoveQuestion question_state question_identity "question_change list"
  | PlanAnswer prompt_identity
  | SubmitAnswer prompt_identity
  | ObserveAnswer prompt_identity
  | ResolveAnswer prompt_identity
  | ReplanAnswer prompt_identity

fun question_step :: "question \<Rightarrow> question_op \<Rightarrow> question_error + question" where
  "question_step q (MoveQuestion st i changes) = transition_question q st i changes"
| "question_step q (PlanAnswer i) = plan_question_prompt q i"
| "question_step q (SubmitAnswer i) = submit_question_prompt q i"
| "question_step q (ObserveAnswer i) = observe_question_prompt q i"
| "question_step q (ResolveAnswer i) = resolve_question_prompt q i"
| "question_step q (ReplanAnswer i) = replan_question_prompt q i"

lemma Question_check_iff [result_simps]:
  "Question_check q = Inr q' \<longleftrightarrow> validate_question q = Inr () \<and> q' = q"
  by (auto simp: Question_check_def result_simps)

lemma bind_question_prompt_Inr:
  "bind_question_prompt q p = Inr q' \<longleftrightarrow>
     validate_question q' = Inr () \<and>
     q' = (case prompt_operation_identity p of
             None \<Rightarrow> q\<lparr>qu_prompt_state := None, qu_prompt_turn := None,
                       qu_prompt_target := None, qu_prompt_agent_session := None\<rparr>
           | Some i \<Rightarrow> q\<lparr>qu_prompt_state := Some (prompt_operation_state p),
                          qu_prompt_turn := Some (pi_turn i),
                          qu_prompt_target := Some (pi_target i),
                          qu_prompt_agent_session := Some (pi_agent_session i)\<rparr>)"
  by (auto simp: bind_question_prompt_def Question_check_iff split: option.splits)

text \<open>What the user was asked, and by whom: the fields no operation may change.\<close>

definition question_contract ::
  "question \<Rightarrow> string \<times> string \<times> question_kind \<times> question_sensitivity \<times> question_origin
    \<times> choice list \<times> string \<times> py_float" where
  "question_contract q =
     (qu_id q, qu_text q, qu_kind q, qu_sensitivity q, qu_origin q, qu_choices q, qu_owner q,
      qu_asked_at q)"

lemma contract_state [simp]: "question_contract (q\<lparr>qu_state := st\<rparr>) = question_contract q"
  by (simp add: question_contract_def)

lemma contract_identity:
  "question_contract q = question_contract q' \<Longrightarrow> question_identity_of q = question_identity_of q'"
  by (simp add: question_contract_def question_identity_of_def)

lemma apply_change_state [simp]: "qu_state (apply_change c q) = qu_state q"
  by (cases c) simp_all

lemma fold_change_state [simp]: "qu_state (fold apply_change cs q) = qu_state q"
  by (induction cs arbitrary: q) simp_all

lemma apply_change_contract:
  "change_name c \<notin> set immutable_question_fields \<Longrightarrow>
   question_contract (apply_change c q) = question_contract q"
  by (cases c) (simp_all add: question_contract_def immutable_question_fields_def)

lemma fold_change_contract:
  assumes "\<forall>c \<in> set cs. change_name c \<notin> set immutable_question_fields"
  shows "question_contract (fold apply_change cs q) = question_contract q"
  using assms by (induction cs arbitrary: q) (simp_all add: apply_change_contract)

lemma no_immutable_iff:
  "filter (\<lambda>f. f \<in> change_name ` set cs) immutable_question_fields = [] \<longleftrightarrow>
   (\<forall>c \<in> set cs. change_name c \<notin> set immutable_question_fields)"
  by (auto simp: filter_empty_conv)

lemma transition_question_iff [result_simps]:
  "transition_question q st i cs = Inr q' \<longleftrightarrow>
     i = question_identity_of q \<and> (\<forall>c \<in> set cs. change_name c \<notin> set immutable_question_fields)
     \<and> st \<in> question_edges (qu_state q)
     \<and> (st = QsDispatching \<longrightarrow> otruthy (qu_answer q) \<and> qu_answered_at q \<noteq> None)
     \<and> Question_check (fold apply_change cs (q\<lparr>qu_state := st\<rparr>)) = Inr q'"
  by (auto simp: transition_question_def validate_question_identity_def no_immutable_iff Let_def
      if_Inl_Inr_iff rbind_def split: if_splits)

lemma on_question_prompt_iff [result_simps]:
  "on_question_prompt f q i = Inr q' \<longleftrightarrow>
     (\<exists>p p'. load_question_prompt q i = Inr p \<and> f p i = Inr p'
       \<and> bind_question_prompt q p' = Inr q')"
  by (auto simp: on_question_prompt_def result_simps)

lemma bind_question_prompt_kept:
  assumes "bind_question_prompt q p = Inr q'"
  shows "question_contract q' = question_contract q" and "qu_state q' = qu_state q"
    and "qu_prompt_baseline_seq q' = qu_prompt_baseline_seq q"
    and "qu_dispatch_token q' = qu_dispatch_token q"
  using assms
  by (auto simp: bind_question_prompt_Inr question_contract_def split: option.splits)

lemma bind_question_prompt_valid: "bind_question_prompt q p = Inr q' \<Longrightarrow> validate_question q' = Inr ()"
  using bind_question_prompt_Inr by blast

lemmas question_prompt_defs = plan_question_prompt_def submit_question_prompt_def
  observe_question_prompt_def resolve_question_prompt_def replan_question_prompt_def

text \<open>An operation is a transition or the write-back of a prompt.\<close>

lemma question_step_cases:
  assumes "question_step q a = Inr q'"
  obtains (move) st i cs where "a = MoveQuestion st i cs" "i = question_identity_of q"
      "st \<in> question_edges (qu_state q)" "qu_state q' = st"
      "question_contract q' = question_contract q" "validate_question q' = Inr ()"
    | (prompt) p where "bind_question_prompt q p = Inr q'" "\<And>st i cs. a \<noteq> MoveQuestion st i cs"
proof (cases a)
  case (MoveQuestion st i cs)
  with assms have t: "transition_question q st i cs = Inr q'" by simp
  show ?thesis
    by (rule move [OF MoveQuestion]) (use t in \<open>auto simp: result_simps fold_change_contract\<close>)
qed (use assms in \<open>auto simp: on_question_prompt_iff question_prompt_defs intro: prompt\<close>)

lemma question_step_facts:
  assumes "question_step q a = Inr q'"
  shows "question_contract q' = question_contract q"
    and "qu_state q' = qu_state q \<or> qu_state q' \<in> question_edges (qu_state q)"
    and "validate_question q' = Inr ()"
proof -
  have "question_contract q' = question_contract q
    \<and> (qu_state q' = qu_state q \<or> qu_state q' \<in> question_edges (qu_state q))
    \<and> validate_question q' = Inr ()"
    using assms
  proof (cases rule: question_step_cases)
    case (move st i cs)
    then show ?thesis by simp
  next
    case (prompt p)
    from bind_question_prompt_kept(1,2) [OF prompt(1)] bind_question_prompt_valid [OF prompt(1)]
    show ?thesis by simp
  qed
  then show "question_contract q' = question_contract q"
    and "qu_state q' = qu_state q \<or> qu_state q' \<in> question_edges (qu_state q)"
    and "validate_question q' = Inr ()" by blast+
qed

lemma question_move_facts:
  assumes "question_step q (MoveQuestion st i cs) = Inr q'"
  shows "i = question_identity_of q" and "st \<in> question_edges (qu_state q)" and "qu_state q' = st"
  using assms by (auto simp: transition_question_iff Question_check_iff)

interpretation questions: guarded_machine qu_state question_edges question_step
  by unfold_locales (rule question_step_facts(2))

lemma question_run_contract:
  "run_steps question_step q ops = Inr q' \<Longrightarrow> question_contract q' = question_contract q"
  by (rule run_steps_invariant [where P = "\<lambda>x. question_contract x = question_contract q"])
     (auto simp: question_step_facts(1))

lemma question_closed_run:
  assumes "run_steps question_step q ops = Inr q'" and "qu_state q \<in> {QsResolved, QsCancelled}"
  shows "qu_state q' = qu_state q" and "MoveQuestion st i cs \<notin> set ops"
proof -
  have none: "question_edges (qu_state q) = {}" using assms(2) by auto
  show "qu_state q' = qu_state q" by (rule questions.run_terminal [OF none assms(1)])
  show "MoveQuestion st i cs \<notin> set ops"
  proof
    assume "MoveQuestion st i cs \<in> set ops"
    from run_steps_member [OF assms(1) this] obtain u v bs where
      run: "run_steps question_step q bs = Inr u" and
      step: "question_step u (MoveQuestion st i cs) = Inr v" .
    from question_move_facts(2) [OF step] questions.run_terminal [OF none run] none
    show False by simp
  qed
qed

section \<open>Contract and closing\<close>

text \<open>
  No sequence of operations changes what a question asks, whom it came from or when it was
  asked; every transition in it carried the question's own fence; the state moves along the
  legal transitions, and a question that was resolved or cancelled admits no transition at all.
\<close>

theorem question_contract_is_fixed:
  assumes "run_steps question_step q ops = Inr q'"
  shows "question_contract q' = question_contract q
    \<and> (qu_state q, qu_state q') \<in> {(s, t). t \<in> question_edges s}\<^sup>*
    \<and> (MoveQuestion st i cs \<in> set ops \<longrightarrow>
        i = question_identity_of q \<and> qu_state q \<notin> {QsResolved, QsCancelled})"
proof (intro conjI impI)
  show "question_contract q' = question_contract q" by (rule question_run_contract [OF assms])
  show "(qu_state q, qu_state q') \<in> {(s, t). t \<in> question_edges s}\<^sup>*"
    by (rule questions.run_path [OF assms])
next
  assume member: "MoveQuestion st i cs \<in> set ops"
  from run_steps_member [OF assms this] obtain u v bs where
    run: "run_steps question_step q bs = Inr u" and
    step: "question_step u (MoveQuestion st i cs) = Inr v" .
  from question_move_facts(1) [OF step] contract_identity [OF question_run_contract [OF run]]
  show "i = question_identity_of q" by simp
  show "qu_state q \<notin> {QsResolved, QsCancelled}"
    using question_closed_run(2) [OF assms] member by blast
qed

definition sample_question :: question where
  "sample_question =
     \<lparr>qu_id = ''q1'', qu_text = ''Which branch?'', qu_kind = MultipleChoice,
      qu_sensitivity = SenSecurity,
      qu_origin = \<lparr>qo_provider = ''cursor'', qo_job_id = ''job'', qo_turn_token = ''tok''\<rparr>,
      qu_choices = [\<lparr>ch_id = ''main'', ch_label = ''Main branch''\<rparr>,
                    \<lparr>ch_id = ''dev'', ch_label = ''Development''\<rparr>],
      qu_owner = ''agent'', qu_state = QsPending, qu_asked_at = Finite 5, qu_answer = None,
      qu_trusted_answer = None, qu_answered_at = None, qu_dispatch_token = None,
      qu_prompt_state = None, qu_prompt_turn = None, qu_prompt_target = None,
      qu_prompt_agent_session = None, qu_prompt_baseline_seq = None,
      qu_prompt_submitted_at = None, qu_prompt_absent_observations = 0\<rparr>"

definition sample_answered :: question where
  "sample_answered = sample_question
     \<lparr>qu_state := QsAnswered, qu_answer := Some ''main'', qu_answered_at := Some (Finite 9)\<rparr>"

definition sample_fence :: question_identity where
  "sample_fence = \<lparr>qi_job_id = ''job'', qi_question_id = ''q1'', qi_turn_token = ''tok''\<rparr>"

lemma sample_answer_run:
  "run_steps question_step sample_question
     [MoveQuestion QsAnswered sample_fence
        [ChAnswer (Some ''main''), ChAnsweredAt (Some (Finite 9))]] = Inr sample_answered"
  by (simp add: sample_question_def sample_answered_def sample_fence_def) code_simp

lemma question_contract_is_fixed_witness:
  "question_contract sample_answered = question_contract sample_question
    \<and> sample_fence = question_identity_of sample_question"
  using question_contract_is_fixed [OF sample_answer_run, of QsAnswered sample_fence
      "[ChAnswer (Some ''main''), ChAnsweredAt (Some (Finite 9))]"]
  by simp

section \<open>Answers\<close>

lemma check_choices_Inr:
  "check_choices cs = Inr ids \<longleftrightarrow>
     ids = map (\<lambda>c. casefold (strip (ch_id c))) cs
     \<and> (\<forall>c \<in> set cs. strip (ch_id c) \<noteq> [] \<and> length (strip (ch_id c)) \<le> 80
          \<and> strip (ch_label c) \<noteq> [] \<and> length (strip (ch_label c)) \<le> 200)"
  by (induction cs arbitrary: ids)
     (auto simp: result_simps Let_def if_Inl_Inr_iff not_less split: if_splits)

lemma valid_choices_distinct:
  assumes "Question_check q = Inr q"
  shows "distinct (qu_choices q)"
proof -
  from assms have "validate_spec (spec_of_question q) = Inr ()"
    by (auto simp: result_simps validate_question_def QuestionSpec_init_def)
  then have "distinct (map (\<lambda>c. casefold (strip (ch_id c))) (qu_choices q))"
    by (auto simp: validate_spec_def spec_of_question_def check_choices_Inr result_simps
        split: if_splits)
  then show ?thesis by (rule distinct_map [THEN iffD1, THEN conjunct1])
qed

lemma distinct_choice_ordinals: "distinct (choice_ordinals v)"
  by (simp add: choice_ordinals_def split: option.splits)

text \<open>The text \<open>n\<close> names the choice \<open>c\<close> and contradicts it nowhere.\<close>

definition names_only :: "question \<Rightarrow> string \<Rightarrow> choice \<Rightarrow> bool" where
  "names_only q n c \<longleftrightarrow>
     c \<in> set (qu_choices q) \<and> (choice_matches n c \<or> choice_ordinals n \<noteq> [])
     \<and> (\<forall>d \<in> set (qu_choices q). choice_matches n d \<longrightarrow> d = c)
     \<and> (\<forall>k \<in> set (choice_ordinals n). k < length (qu_choices q) \<and> qu_choices q ! k = c)"

lemma filter_unique:
  assumes "distinct xs"
  shows "filter P xs = [c] \<longleftrightarrow> c \<in> set xs \<and> P c \<and> (\<forall>d \<in> set xs. P d \<longrightarrow> d = c)"
  using assms by (induction xs) (auto simp: filter_empty_conv)

lemma single_ordinal:
  assumes "distinct xs" and "\<forall>k \<in> set ks. k < length xs \<and> xs ! k = c" and "distinct ks"
  shows "ks = [] \<or> (\<exists>k. ks = [k])"
proof (cases ks)
  case (Cons k ks')
  have at_k: "k < length xs" "xs ! k = c" using assms(2) Cons by simp_all
  have "l = k" if "l \<in> set ks" for l
  proof -
    from that assms(2) have "l < length xs" "xs ! l = c" by simp_all
    with at_k assms(1) show ?thesis by (simp add: nth_eq_iff_index_eq [symmetric])
  qed
  then have "set ks' \<subseteq> {k}" using Cons by auto
  moreover have "k \<notin> set ks'" using assms(3) Cons by simp
  ultimately have "ks' = []" by (cases ks') auto
  with Cons show ?thesis by simp
qed simp

lemma append_named:
  assumes "c \<in> set xs" and that: "distinct xs"
  shows "(if c \<in> set (filter P xs) then filter P xs else filter P xs @ [c]) = [d]
    \<longleftrightarrow> d = c \<and> (\<forall>e \<in> set xs. P e \<longrightarrow> e = d)"
proof (cases "P c")
  case True
  with assms that show ?thesis by (auto simp: filter_unique simp del: filter_eq_Cons_iff)
next
  case False
  with assms have "(if c \<in> set (filter P xs) then filter P xs else filter P xs @ [c]) = [d]
      \<longleftrightarrow> filter P xs = [] \<and> c = d"
    by (simp del: filter_eq_Cons_iff)
  with False assms show ?thesis by (auto simp: filter_empty_conv)
qed

lemma named_choices_iff:
  assumes "distinct (qu_choices q)"
  shows "named_choices q n = Some [c] \<longleftrightarrow> names_only q n c"
proof -
  let ?ks = "choice_ordinals n" and ?ms = "filter (choice_matches n) (qu_choices q)"
  consider "?ks = []" | k where "?ks = [k]" | k l ks where "?ks = k # l # ks"
    by (cases ?ks rule: list.exhaust; cases "tl ?ks") auto
  then show ?thesis
  proof cases
    case 1
    then show ?thesis
      by (auto simp: named_choices_def names_only_def filter_unique [OF assms])
  next
    case 2
    show ?thesis
    proof (cases "k < length (qu_choices q)")
      case True
      then have mem: "qu_choices q ! k \<in> set (qu_choices q)" by simp
      have "named_choices q n = Some [c] \<longleftrightarrow>
          (if qu_choices q ! k \<in> set ?ms then ?ms else ?ms @ [qu_choices q ! k]) = [c]"
        using True 2 by (simp add: named_choices_def Let_def del: filter_eq_Cons_iff set_filter)
      with append_named [OF mem assms] True 2 mem show ?thesis
        by (auto simp: names_only_def)
    next
      case False
      with 2 show ?thesis by (simp add: named_choices_def names_only_def)
    qed
  next
    case 3
    then have "named_choices q n = None" by (simp add: named_choices_def)
    moreover have "\<not> names_only q n c"
      using single_ordinal [OF assms, of ?ks c] distinct_choice_ordinals [of n] 3
      by (auto simp: names_only_def)
    ultimately show ?thesis by simp
  qed
qed

definition may_answer :: "question \<Rightarrow> answer_provenance \<Rightarrow> bool" where
  "may_answer q prov \<longleftrightarrow> qu_sensitivity q = SenRoutine \<or> prov \<in> {UserVoice, UserText}"

lemma resolve_choice_accepted:
  assumes "Question_check q = Inr q" and "qu_kind q = MultipleChoice"
  shows "rn_outcome (resolve_answer q a t prov) = AnsAccepted
      \<and> rn_answer (resolve_answer q a t prov) = Some i
    \<longleftrightarrow> question_control (or_str t a) = None \<and> may_answer q prov
      \<and> (\<exists>c. ch_id c = i \<and> names_only q (normalize (or_str t a)) c)"
proof -
  let ?n = "normalize (or_str t a)"
  have named: "named_choices q ?n = Some [c] \<longleftrightarrow> names_only q ?n c" for c
    by (rule named_choices_iff [OF valid_choices_distinct [OF assms(1)]])
  have "rn_outcome (resolve_answer q a t prov) = AnsAccepted
      \<and> rn_answer (resolve_answer q a t prov) = Some i
    \<longleftrightarrow> question_control (or_str t a) = None \<and> may_answer q prov
      \<and> (\<exists>c. ch_id c = i \<and> named_choices q ?n = Some [c])"
    using assms(2)
    by (auto simp: resolve_answer_def only_outcome_def may_answer_def Let_def
        question_control_def split: option.splits list.splits)
  with named show ?thesis by simp
qed

lemma unasked_rejected:
  assumes "\<not> may_answer q prov"
  shows "rn_outcome (resolve_answer q a t prov) \<noteq> AnsAccepted"
proof (cases "question_control (or_str t a)")
  case None
  with assms show ?thesis by (simp add: resolve_answer_def may_answer_def only_outcome_def)
next
  case (Some o')
  then have "o' \<noteq> AnsAccepted" by (auto simp: question_control_def Let_def split: if_splits)
  with Some show ?thesis by (simp add: resolve_answer_def only_outcome_def)
qed

text \<open>
  C33. An answer to a checked multiple-choice question is accepted with a choice's identifier
  exactly when it is not a control phrase, the question is routine or a user spoke or typed it,
  and the normalised text names that choice by identifier, label or ordinal and names no other
  choice and no other position. An accepted answer to any question that is not routine came
  from a user.
\<close>

theorem choice_answer_is_exact:
  assumes "Question_check q = Inr q" and "qu_kind q = MultipleChoice"
  shows "(rn_outcome (resolve_answer q a t prov) = AnsAccepted
        \<and> rn_answer (resolve_answer q a t prov) = Some i
      \<longleftrightarrow> question_control (or_str t a) = None \<and> may_answer q prov
        \<and> (\<exists>c. ch_id c = i \<and> names_only q (normalize (or_str t a)) c))
    \<and> (rn_outcome (resolve_answer p a t prov) = AnsAccepted \<longrightarrow> may_answer p prov)"
proof (rule conjI)
  show "rn_outcome (resolve_answer q a t prov) = AnsAccepted
        \<and> rn_answer (resolve_answer q a t prov) = Some i
      \<longleftrightarrow> question_control (or_str t a) = None \<and> may_answer q prov
        \<and> (\<exists>c. ch_id c = i \<and> names_only q (normalize (or_str t a)) c)"
    by (rule resolve_choice_accepted [OF assms])
  show "rn_outcome (resolve_answer p a t prov) = AnsAccepted \<longrightarrow> may_answer p prov"
    using unasked_rejected [of p prov a t] by (cases "may_answer p prov") simp_all
qed

lemma sample_valid: "Question_check sample_question = Inr sample_question"
  unfolding sample_question_def by code_simp

lemma sample_resolution:
  "rn_outcome (resolve_answer sample_question ''2'' None UserVoice)
     = AnsAccepted
   \<and> rn_answer (resolve_answer sample_question ''2'' None UserVoice)
     = Some ''dev''"
  unfolding sample_question_def by code_simp

lemma choice_answer_is_exact_witness:
  "names_only sample_question (normalize (or_str None ''2''))
     \<lparr>ch_id = ''dev'', ch_label = ''Development''\<rparr>"
proof -
  have "qu_kind sample_question = MultipleChoice" by (simp add: sample_question_def)
  from choice_answer_is_exact [OF sample_valid this, of "''2''" None
      UserVoice "''dev''"] sample_resolution
  obtain c where c: "ch_id c = ''dev''"
    "names_only sample_question (normalize (or_str None ''2'')) c"
    by auto
  then have "c = \<lparr>ch_id = ''dev'', ch_label = ''Development''\<rparr>"
    by (auto simp: names_only_def sample_question_def)
  with c show ?thesis by simp
qed

section \<open>The stored envelope\<close>

lemma dropWhile_py_idem [simp]: "dropWhile P (dropWhile P s) = dropWhile P s"
  by (induction s) auto

lemma hd_dropWhile_not: "dropWhile P s \<noteq> [] \<Longrightarrow> \<not> P (hd (dropWhile P s))"
  by (rule hd_dropWhile)

lemma dropWhile_fixed: "s = [] \<or> \<not> P (hd s) \<Longrightarrow> dropWhile P s = s"
  by (cases s) auto

text \<open>Dropping at one end does not uncover anything at the other.\<close>

lemma lstrip_strip: "lstrip (strip s) = strip s"
proof -
  let ?t = "dropWhile py_space s" and ?u = "rev (dropWhile py_space (rev (dropWhile py_space s)))"
  have "?t = ?u @ rev (takeWhile py_space (rev ?t))"
    by (simp only: rev_append [symmetric] takeWhile_dropWhile_id rev_rev_ident)
  then have "?u \<noteq> [] \<Longrightarrow> hd ?u = hd ?t \<and> ?t \<noteq> []"
    by (metis append_is_Nil_conv hd_append2)
  then have "?u = [] \<or> \<not> py_space (hd ?u)" using hd_dropWhile_not [of py_space s] by metis
  then show ?thesis by (simp add: strip_def lstrip_def dropWhile_fixed)
qed

lemma strip_strip [simp]: "strip (strip s) = strip s"
proof -
  have "strip (strip s) = rev (dropWhile py_space (rev (strip s)))"
    by (simp only: strip_def [of "strip s"] lstrip_strip)
  also have "\<dots> = strip s" by (simp add: strip_def)
  finally show ?thesis .
qed

lemma length_strip: "length (strip s) \<le> length s"
  unfolding strip_def lstrip_def length_rev
  by (rule order_trans [OF length_dropWhile_le]) (simp add: length_dropWhile_le)

lemma blank_strip [simp]: "blank (strip s) \<longleftrightarrow> blank s"
  by (simp add: blank_def)

definition trim_choice :: "choice \<Rightarrow> choice" where
  "trim_choice c = \<lparr>ch_id = strip (ch_id c), ch_label = strip (ch_label c)\<rparr>"

definition trim_question :: "question \<Rightarrow> question" where
  "trim_question q = q
     \<lparr>qu_id := strip (qu_id q), qu_text := strip (qu_text q), qu_owner := strip (qu_owner q),
      qu_origin := \<lparr>qo_provider = strip (qo_provider (qu_origin q)),
                    qo_job_id = strip (qo_job_id (qu_origin q)),
                    qo_turn_token = strip (qo_turn_token (qu_origin q))\<rparr>,
      qu_choices := map trim_choice (qu_choices q)\<rparr>"

lemma check_choices_trim:
  "check_choices cs = Inr ids \<Longrightarrow> check_choices (map trim_choice cs) = Inr ids"
  by (auto simp: check_choices_Inr trim_choice_def)

lemma validate_trim:
  assumes "validate_question q = Inr ()"
  shows "validate_question (trim_question q) = Inr ()"
proof -
  from assms obtain ids where
    spec: "check_choices (qu_choices q) = Inr ids" "distinct ids" "strip (qu_text q) \<noteq> []"
    "length (qu_text q) \<le> 500" "\<not> (qu_kind q = MultipleChoice \<and> length (qu_choices q) < 2)"
    "length (qu_choices q) \<le> 10" "\<not> (qu_kind q = FreeText \<and> qu_choices q \<noteq> [])"
    by (auto simp: validate_question_def QuestionSpec_init_def validate_spec_def
        spec_of_question_def result_simps split: if_splits)
  have "QuestionSpec_init (spec_of_question (trim_question q))
      = Inr (spec_of_question (trim_question q))"
    using spec check_choices_trim [OF spec(1)] length_strip [of "qu_text q"]
    by (auto simp: QuestionSpec_init_def validate_spec_def spec_of_question_def trim_question_def)
  moreover have "QuestionSpec_init (spec_of_question q) = Inr (spec_of_question q)"
    using assms by (auto simp: validate_question_def QuestionSpec_init_def result_simps)
  ultimately show ?thesis
    using assms by (simp add: validate_question_def trim_question_def if_Inl_Inr_iff)
qed

lemma required_string_PyStr:
  "py_get d f = PyStr s \<Longrightarrow> \<not> blank s \<Longrightarrow> required_string d f = Inr (strip s)"
  by (simp add: required_string_def blank_def truthy_def)

lemma parse_question_kind_value [simp]: "parse_question_kind (question_kind_value k) = Some k"
  by (cases k) (simp_all add: parse_question_kind_def)

lemma parse_question_sensitivity_value [simp]:
  "parse_question_sensitivity (question_sensitivity_value s) = Some s"
  by (cases s) (simp_all add: parse_question_sensitivity_def)

lemma parse_question_state_value [simp]: "parse_question_state (question_state_value s) = Some s"
  by (cases s) (simp_all add: parse_question_state_def)

lemma valid_choice_text:
  assumes "validate_question q = Inr ()" and "c \<in> set (qu_choices q)"
  shows "\<not> blank (ch_id c)" and "\<not> blank (ch_label c)"
proof -
  from assms(1) obtain ids where "check_choices (qu_choices q) = Inr ids"
    by (auto simp: validate_question_def QuestionSpec_init_def validate_spec_def
        spec_of_question_def result_simps split: if_splits)
  with assms(2) show "\<not> blank (ch_id c)" and "\<not> blank (ch_label c)"
    by (auto simp: check_choices_Inr blank_def truthy_def)
qed

lemma choices_round_trip:
  assumes "\<forall>c \<in> set cs. \<not> blank (ch_id c) \<and> \<not> blank (ch_label c)"
  shows "choices_from_dicts (map (\<lambda>c. PyDict (choice_to_dict c)) cs) = Inr (map trim_choice cs)"
  using assms
  by (induction cs)
     (simp_all add: choice_to_dict_def required_string_PyStr py_get_def trim_choice_def)

lemma opt_string_value [simp]: "optional_string (of_opt_str x) f = Inr x"
  by (cases x) (simp_all add: optional_string_def)

lemma opt_int_value [simp]: "optional_int (of_opt_int i) f = Inr i"
  by (cases i) (simp_all add: optional_int_def integer_value_def)

lemma opt_number_value [simp]: "optional_number (of_opt_float y) f = Inr y"
  by (cases y) (simp_all add: optional_number_def number_value_def)

lemma prompt_state_trip [simp]:
  "prompt_state_from_value (of_opt_str (map_option prompt_state_value p)) = Inr p"
  by (cases p) (simp_all add: prompt_state_from_value_def)

lemma enum_member_value:
  "s \<noteq> [] \<Longrightarrow> parse s = Some e \<Longrightarrow> enum_member n parse d (PyStr s) = Inr e"
  by (simp add: enum_member_def truthy_def)

lemma question_kind_nonempty [simp]: "question_kind_value k \<noteq> []"
  by (cases k) simp_all

lemma question_sensitivity_nonempty [simp]: "question_sensitivity_value k \<noteq> []"
  by (cases k) simp_all

lemma question_state_nonempty [simp]: "question_state_value k \<noteq> []"
  by (cases k) simp_all

text \<open>The lookups in a written envelope.\<close>

lemma get_question_dict:
  "py_get (question_to_dict q) ''version'' = PyInt 1"
  "py_get (question_to_dict q) ''id'' = PyStr (qu_id q)"
  "py_get (question_to_dict q) ''text'' = PyStr (qu_text q)"
  "py_get (question_to_dict q) ''kind'' = PyStr (question_kind_value (qu_kind q))"
  "py_get (question_to_dict q) ''sensitivity''
     = PyStr (question_sensitivity_value (qu_sensitivity q))"
  "py_get (question_to_dict q) ''origin'' = PyDict (origin_to_dict (qu_origin q))"
  "py_get (question_to_dict q) ''owner'' = PyStr (qu_owner q)"
  "py_get (question_to_dict q) ''state'' = PyStr (question_state_value (qu_state q))"
  "py_get (question_to_dict q) ''asked_at'' = PyFloat (qu_asked_at q)"
  "py_get (question_to_dict q) ''answer'' = of_opt_str (qu_answer q)"
  "py_get (question_to_dict q) ''trusted_answer'' = of_opt_str (qu_trusted_answer q)"
  "py_get (question_to_dict q) ''answered_at'' = of_opt_float (qu_answered_at q)"
  "py_get (question_to_dict q) ''dispatch_token'' = of_opt_str (qu_dispatch_token q)"
  "py_get (question_to_dict q) ''prompt_state''
     = of_opt_str (map_option prompt_state_value (qu_prompt_state q))"
  "py_get (question_to_dict q) ''prompt_turn'' = of_opt_int (qu_prompt_turn q)"
  "py_get (question_to_dict q) ''prompt_target'' = of_opt_str (qu_prompt_target q)"
  "py_get (question_to_dict q) ''prompt_agent_session'' = of_opt_str (qu_prompt_agent_session q)"
  "py_get (question_to_dict q) ''prompt_baseline_seq'' = of_opt_int (qu_prompt_baseline_seq q)"
  "py_get (question_to_dict q) ''prompt_submitted_at''
     = of_opt_float (qu_prompt_submitted_at q)"
  "map_of (question_to_dict q) ''choices''
     = Some (PyList (map (\<lambda>c. PyDict (choice_to_dict c)) (qu_choices q)))"
  "map_of (question_to_dict q) ''prompt_absent_observations''
     = Some (PyInt (qu_prompt_absent_observations q))"
  by (simp_all add: py_get_def question_to_dict_def)

lemma origin_round_trip:
  assumes "\<not> blank (qo_provider o')" and "\<not> blank (qo_job_id o')" and "\<not> blank (qo_turn_token o')"
  shows "origin_from_dict (origin_to_dict o')
    = Inr \<lparr>qo_provider = strip (qo_provider o'), qo_job_id = strip (qo_job_id o'),
           qo_turn_token = strip (qo_turn_token o')\<rparr>"
  using assms
  by (simp add: origin_from_dict_def origin_to_dict_def required_string_PyStr py_get_def)

lemma fields_round_trip:
  assumes "\<not> blank (qu_id q)" and "\<not> blank (qu_text q)" and "\<not> blank (qu_owner q)"
  shows "question_from_fields (question_to_dict q) o' cs =
    Question_check (q\<lparr>qu_id := strip (qu_id q), qu_text := strip (qu_text q),
      qu_owner := strip (qu_owner q), qu_origin := o', qu_choices := cs\<rparr>)"
  using assms
  by (cases q) (simp add: question_from_fields_def get_question_dict required_string_PyStr
      enum_member_value number_value_def integer_value_def)

text \<open>
  A checked question that is written as its JSON envelope and read back is the same question
  with the blanks around its texts removed, and that trimmed question is itself written and read
  back unchanged.
\<close>

theorem question_envelope_round_trip:
  assumes "Question_check q = Inr q"
  shows "question_from_dict (PyDict (question_to_dict q)) = Inr (trim_question q)
    \<and> question_from_dict (PyDict (question_to_dict (trim_question q))) = Inr (trim_question q)"
proof -
  have trip: "question_from_dict (PyDict (question_to_dict p)) = Inr (trim_question p)"
    if valid: "validate_question p = Inr ()" for p
  proof -
    from valid have texts: "\<not> blank (qu_id p)" "\<not> blank (qu_text p)" "\<not> blank (qu_owner p)"
      "\<not> blank (qo_provider (qu_origin p))" "\<not> blank (qo_job_id (qu_origin p))"
      "\<not> blank (qo_turn_token (qu_origin p))"
      by (auto simp: validate_question_def QuestionSpec_init_def validate_spec_def
          spec_of_question_def result_simps blank_def truthy_def split: if_splits)
    have "choices_from_value (PyList (map (\<lambda>c. PyDict (choice_to_dict c)) (qu_choices p)))
        = Inr (map trim_choice (qu_choices p))"
      using choices_round_trip [of "qu_choices p"] valid_choice_text [OF valid]
      by (simp add: choices_from_value_def)
    with validate_trim [OF valid] texts show ?thesis
      by (simp add: question_from_dict_def get_question_dict origin_round_trip fields_round_trip
          trim_question_def Question_check_def)
  qed
  have "trim_question (trim_question q) = trim_question q"
    by (simp add: trim_question_def trim_choice_def)
  moreover from assms have "validate_question q = Inr ()" by (auto simp: result_simps)
  ultimately show ?thesis using trip [of q] trip [of "trim_question q"] validate_trim by simp
qed

lemma question_envelope_round_trip_witness:
  "question_from_dict (PyDict (question_to_dict sample_question)) = Inr (trim_question sample_question)"
  using question_envelope_round_trip [OF sample_valid] by simp

section \<open>The prompt in a question's fields\<close>

fun as_prompt_op :: "question_op \<Rightarrow> prompt_op option" where
  "as_prompt_op (MoveQuestion _ _ _) = None"
| "as_prompt_op (PlanAnswer i) = Some (PlanPrompt i)"
| "as_prompt_op (SubmitAnswer i) = Some (RecordSubmitted i)"
| "as_prompt_op (ObserveAnswer i) = Some (ObserveAccepted i)"
| "as_prompt_op (ResolveAnswer i) = Some (ResolvePrompt i)"
| "as_prompt_op (ReplanAnswer i) = Some (ReplanUnobserved i)"

text \<open>The operations under one fence, with the operations of the prompt machine they are.\<close>

definition under_fence :: "prompt_identity \<Rightarrow> question_op \<Rightarrow> bool" where
  "under_fence i a \<longleftrightarrow> map_option op_identity (as_prompt_op a) = Some i"

definition prompt_ops :: "question_op list \<Rightarrow> prompt_op list" where
  "prompt_ops ops = map (\<lambda>a. the (as_prompt_op a)) ops"

definition baseline_agrees :: "question \<Rightarrow> prompt_identity \<Rightarrow> bool" where
  "baseline_agrees q i \<longleftrightarrow> qu_prompt_baseline_seq q \<in> {None, Some (pi_baseline_sequence i)}"

lemma question_prompt_identity_ok:
  assumes "question_prompt_identity q j t g s = Inr i"
  shows "identity_ok i" and "baseline_agrees q i"
  using assms
  by (auto simp: question_prompt_identity_def result_simps identity_ok_def baseline_agrees_def
      split: option.splits)

lemma load_bound_prompt:
  assumes "bind_question_prompt q p = Inr q'" and "identity_ok i" and "baseline_agrees q i"
    and "p = IdlePrompt \<or> prompt_operation_identity p = Some i"
  shows "load_question_prompt q' i = Inr p"
proof (cases "p = IdlePrompt")
  case True
  with assms(1) show ?thesis by (auto simp: bind_question_prompt_Inr load_question_prompt_def)
next
  case False
  with assms(4) have p: "prompt_operation_identity p = Some i" by simp
  then have built: "prompt_constructor (prompt_operation_state p) i = p" by (cases p) auto
  have idle: "prompt_operation_state p \<noteq> PsIdle" using False by simp
  from assms(2) have i: "\<not> blank (pi_phase i)" "\<not> blank (pi_turn_token i)" "\<not> blank (pi_target i)"
    "\<not> blank (pi_agent_session i)"
    "PromptIdentity_init (pi_job_id i) (pi_phase i) (pi_turn i) (pi_turn_token i)
       (pi_target i) (pi_agent_session i) (pi_baseline_sequence i) = Inr i"
    by (auto simp: identity_ok_def result_simps)
  from assms(3) have base: "(case qu_prompt_baseline_seq q of
      None \<Rightarrow> Some (pi_baseline_sequence i) | Some b \<Rightarrow> Some b) = Some (pi_baseline_sequence i)"
    by (auto simp: baseline_agrees_def)
  from assms(1) p have q': "qu_prompt_state q' = Some (prompt_operation_state p)"
    "qu_prompt_baseline_seq q' = qu_prompt_baseline_seq q"
    by (auto simp: bind_question_prompt_Inr)
  show ?thesis
    using i idle built
    by (simp add: load_question_prompt_def q' base load_prompt_operation_def not_blank_truthy)
qed

lemma question_prompt_step:
  assumes "question_step q a = Inr q'" and "under_fence i a" and "load_question_prompt q i = Inr p"
    and "identity_ok i" and "baseline_agrees q i"
  shows "\<exists>p'. prompt_step p (the (as_prompt_op a)) = Inr p' \<and> load_question_prompt q' i = Inr p'
    \<and> baseline_agrees q' i"
proof -
  have "\<exists>p'. prompt_step p (the (as_prompt_op a)) = Inr p' \<and> bind_question_prompt q p' = Inr q'
      \<and> op_identity (the (as_prompt_op a)) = i"
    using assms(1-3) by (cases a) (auto simp: under_fence_def question_prompt_defs result_simps)
  then obtain p' where p': "prompt_step p (the (as_prompt_op a)) = Inr p'"
    "bind_question_prompt q p' = Inr q'" "op_identity (the (as_prompt_op a)) = i" by blast
  then have "prompt_operation_identity p' = Some i" using prompt_step_facts(2) by auto
  with load_bound_prompt [OF p'(2) assms(4,5)] have "load_question_prompt q' i = Inr p'" by simp
  moreover have "baseline_agrees q' i"
    using bind_question_prompt_kept(3) [OF p'(2)] assms(5) by (simp add: baseline_agrees_def)
  ultimately show ?thesis using p'(1) by blast
qed

lemma question_prompt_run:
  assumes "run_steps question_step q ops = Inr q'" and "\<forall>a \<in> set ops. under_fence i a"
    and "load_question_prompt q i = Inr p" and "identity_ok i" and "baseline_agrees q i"
  shows "\<exists>p'. run_steps prompt_step p (prompt_ops ops) = Inr p' \<and> load_question_prompt q' i = Inr p'"
  using assms
proof (induction ops arbitrary: q p)
  case Nil
  then show ?case by (simp add: prompt_ops_def)
next
  case (Cons a ops)
  from Cons.prems(1) obtain r where r: "question_step q a = Inr r"
    "run_steps question_step r ops = Inr q'" by (auto simp: result_simps)
  from question_prompt_step [OF r(1) _ Cons.prems(3-5)] Cons.prems(2) obtain s where s:
    "prompt_step p (the (as_prompt_op a)) = Inr s" "load_question_prompt r i = Inr s"
    "baseline_agrees r i" by auto
  from Cons.IH [OF r(2) _ s(2) Cons.prems(4) s(3)] Cons.prems(2) s(1) show ?case
    by (auto simp: prompt_ops_def)
qed

fun is_submit :: "prompt_op \<Rightarrow> bool" where
  "is_submit (RecordSubmitted i) = True"
| "is_submit _ = False"

fun submit_credit :: "prompt_state \<Rightarrow> nat" where
  "submit_credit PsIdle = 1"
| "submit_credit PsPlanned = 1"
| "submit_credit PsSubmitting = 1"
| "submit_credit _ = 0"

lemma submit_credit_step:
  assumes "prompt_step p b = Inr q" and "as_prompt_op a = Some b"
  shows "(if is_submit b then 1 else 0) + submit_credit (prompt_operation_state q)
         \<le> (if is_replan b then 1 else 0) + submit_credit (prompt_operation_state p)"
  using assms
  by (cases a; cases p) (auto simp: prompt_transition_defs result_simps split: if_splits)

lemma submits_bound:
  assumes "run_steps prompt_step p (prompt_ops ops) = Inr q" and "\<forall>a \<in> set ops. under_fence i a"
  shows "length (filter is_submit (prompt_ops ops)) + submit_credit (prompt_operation_state q)
    \<le> length (filter is_replan (prompt_ops ops)) + submit_credit (prompt_operation_state p)"
  using assms
proof (induction ops arbitrary: p)
  case Nil
  then show ?case by (simp add: prompt_ops_def)
next
  case (Cons a ops)
  then obtain b where b: "as_prompt_op a = Some b" by (auto simp: under_fence_def)
  with Cons.prems(1) obtain r where r: "prompt_step p b = Inr r"
    "run_steps prompt_step r (prompt_ops ops) = Inr q"
    by (auto simp: prompt_ops_def result_simps)
  from submit_credit_step [OF r(1) b] Cons.IH [OF r(2)] Cons.prems(2) b show ?case
    by (auto simp: prompt_ops_def split: if_splits)
qed

text \<open>
  Under one fence built from the question, the planning, submission, observation, resolution
  and replanning of an answer's prompt are exactly those operations of the prompt machine on the
  operation loaded from the question's fields; and the answer is submitted at most once more than
  it was replanned after an unobserved submission.
\<close>

theorem answer_prompt_refines_machine:
  assumes "question_prompt_identity q j t g s = Inr i" and "load_question_prompt q i = Inr p"
    and "run_steps question_step q ops = Inr q'" and "list_all (under_fence i) ops"
  shows "(\<exists>p'. run_steps prompt_step p (prompt_ops ops) = Inr p'
        \<and> load_question_prompt q' i = Inr p')
    \<and> length (filter is_submit (prompt_ops ops))
      \<le> length (filter is_replan (prompt_ops ops)) + 1"
proof -
  have fence: "\<forall>a \<in> set ops. under_fence i a" using assms(4) by (simp add: list_all_iff)
  from question_prompt_run [OF assms(3) fence assms(2)] question_prompt_identity_ok [OF assms(1)]
  obtain p' where p': "run_steps prompt_step p (prompt_ops ops) = Inr p'"
    "load_question_prompt q' i = Inr p'" by blast
  have "submit_credit (prompt_operation_state p) \<le> 1"
    by (cases "prompt_operation_state p") simp_all
  with submits_bound [OF p'(1) fence] p' show ?thesis by auto
qed

definition sample_prompt :: prompt_identity where
  "sample_prompt =
     \<lparr>pi_job_id = ''job'', pi_phase = ''question'', pi_turn = 1, pi_turn_token = ''tok'',
      pi_target = ''pane'', pi_agent_session = ''sess'', pi_baseline_sequence = 0\<rparr>"

lemma sample_prompt_identity:
  "question_prompt_identity sample_answered ''job'' 1 ''pane'' ''sess'' = Inr sample_prompt"
  unfolding sample_answered_def sample_question_def sample_prompt_def by code_simp

lemma sample_prompt_run:
  "run_steps question_step sample_answered [PlanAnswer sample_prompt, SubmitAnswer sample_prompt]
    = Inr (sample_answered\<lparr>qu_prompt_state := Some PsSubmitted, qu_prompt_turn := Some 1,
         qu_prompt_target := Some ''pane'', qu_prompt_agent_session := Some ''sess''\<rparr>)"
  unfolding sample_answered_def sample_question_def sample_prompt_def by code_simp

lemma answer_prompt_refines_machine_witness:
  "\<exists>p'. run_steps prompt_step IdlePrompt [PlanPrompt sample_prompt, RecordSubmitted sample_prompt]
    = Inr p'"
proof -
  have "load_question_prompt sample_answered sample_prompt = Inr IdlePrompt"
    by (simp add: load_question_prompt_def sample_answered_def sample_question_def)
  from answer_prompt_refines_machine [OF sample_prompt_identity this sample_prompt_run]
  show ?thesis by (auto simp: under_fence_def prompt_ops_def)
qed

end
