(* ===== verification/Inbox_Resolution.thy ===== *)
theory Inbox_Resolution imports Inbox begin

text \<open>
  What resolving a reference promises: the matches are exactly the jobs of the best tier any job
  reaches, a job is picked only when one match, one context identifier or one candidate is left,
  and the overview leaves no job out. One behaviour the code does not mean to have is shown, too:
  a reference that names a whole issue key also matches a job whose key is a part of it.
\<close>

section \<open>Tiers are ordered\<close>

fun tier_rank :: "reference_tier \<Rightarrow> nat" where
  "tier_rank TierNone = 0"
| "tier_rank TierWeak = 1"
| "tier_rank TierStrong = 2"
| "tier_rank TierExternalIdentity = 3"

lemma tier_rank_inj: "tier_rank s = tier_rank t \<longleftrightarrow> s = t"
  by (cases s; cases t) simp_all

instantiation reference_tier :: linorder
begin

definition less_eq_reference_tier :: "reference_tier \<Rightarrow> reference_tier \<Rightarrow> bool" where
  "s \<le> t \<longleftrightarrow> tier_rank s \<le> tier_rank t"

definition less_reference_tier :: "reference_tier \<Rightarrow> reference_tier \<Rightarrow> bool" where
  "s < t \<longleftrightarrow> tier_rank s < tier_rank t"

instance
  by standard (auto simp: less_eq_reference_tier_def less_reference_tier_def tier_rank_inj)

end

lemmas tier_order_defs = less_eq_reference_tier_def less_reference_tier_def

lemma tier_least [simp]: "TierNone \<le> t" "t \<le> TierNone \<longleftrightarrow> t = TierNone"
  by (cases t; simp add: tier_order_defs)+

definition tier_of :: "string \<Rightarrow> inbox_job \<Rightarrow> reference_tier" where
  "tier_of reference j = match_tier (summarize j) j (tokens reference) (casefold reference)"

definition best_tier :: "string \<Rightarrow> inbox_job list \<Rightarrow> reference_tier" where
  "best_tier reference jobs = Max (insert TierNone (tier_of reference ` set jobs))"

text \<open>The specification: the jobs of the best tier, in the order of the list.\<close>

definition best_matches :: "inbox_job list \<Rightarrow> string \<Rightarrow> job_summary list" where
  "best_matches jobs reference =
     (if tokens reference = [] \<or> best_tier reference jobs = TierNone then []
      else map summarize (filter (\<lambda>j. tier_of reference j = best_tier reference jobs) jobs))"

lemma best_tier_eqI:
  assumes "\<And>j. j \<in> set jobs \<Longrightarrow> tier_of r j \<le> t" and "t = TierNone \<or> (\<exists>j \<in> set jobs. tier_of r j = t)"
  shows "best_tier r jobs = t"
  unfolding best_tier_def by (rule Max_eqI) (use assms in auto)

lemma tier_none_weak: "t \<noteq> TierExternalIdentity \<Longrightarrow> t \<noteq> TierStrong \<Longrightarrow> t \<le> TierWeak"
  "t \<noteq> TierExternalIdentity \<Longrightarrow> t \<le> TierStrong" "t \<le> TierExternalIdentity"
  by (cases t; simp add: tier_order_defs)+

lemma resolve_reference_best:
  "resolve_reference jobs reference = best_matches jobs reference"
proof (cases "tokens reference = []")
  case True
  then show ?thesis by (simp add: resolve_reference_def best_matches_def)
next
  case False
  let ?m = "\<lambda>t. filter (\<lambda>j. tier_of reference j = t) jobs"
  have r: "resolve_reference jobs reference = map summarize
      (if ?m TierExternalIdentity \<noteq> [] then ?m TierExternalIdentity
       else if ?m TierStrong \<noteq> [] then ?m TierStrong else ?m TierWeak)"
    using False by (simp add: resolve_reference_def tier_of_def Let_def)
  consider "?m TierExternalIdentity \<noteq> []"
    | "?m TierExternalIdentity = []" "?m TierStrong \<noteq> []"
    | "?m TierExternalIdentity = []" "?m TierStrong = []" "?m TierWeak \<noteq> []"
    | "?m TierExternalIdentity = []" "?m TierStrong = []" "?m TierWeak = []" by blast
  then show ?thesis
  proof cases
    case 1
    then have "best_tier reference jobs = TierExternalIdentity"
      by (intro best_tier_eqI) (auto simp: filter_empty_conv tier_none_weak)
    with r 1 False show ?thesis by (simp add: best_matches_def)
  next
    case 2
    then have "best_tier reference jobs = TierStrong"
      by (intro best_tier_eqI) (auto simp: filter_empty_conv tier_none_weak)
    with r 2 False show ?thesis by (simp add: best_matches_def)
  next
    case 3
    then have "best_tier reference jobs = TierWeak"
      by (intro best_tier_eqI) (auto simp: filter_empty_conv tier_none_weak)
    with r 3 False show ?thesis by (simp add: best_matches_def)
  next
    case 4
    then have "tier_of reference j = TierNone" if "j \<in> set jobs" for j
      using that by (cases "tier_of reference j") (auto simp: filter_empty_conv)
    then have "best_tier reference jobs = TierNone" by (intro best_tier_eqI) auto
    with r 4 show ?thesis by (simp add: best_matches_def)
  qed
qed

text \<open>
  C34. A reference is resolved to exactly the jobs of the highest tier that any job reaches: a complete
  ticket handle outranks an identifier or number, which outranks words of a label; jobs of a lower
  tier are never among the matches.
\<close>

theorem reference_matches_best_tier:
  "resolve_reference jobs reference = best_matches jobs reference"
  by (rule resolve_reference_best)

section \<open>A job is never guessed\<close>

text \<open>
  A reference with its context is resolved to a job only when that job is a candidate and either
  the only textual match, or, without any textual match, the job the context names or the only
  candidate; in every other case the answer is a clarification.
\<close>

theorem job_is_never_guessed:
  assumes "resolve_job_reference store_jobs reference statuses action empty_message job_id session_id
    = ResolvedJob i"
  shows "let jobs = filter (\<lambda>j. aj_status j \<in> statuses) store_jobs;
             matches = resolve_reference jobs (or_str reference '''') in
    i \<in> aj_id ` set jobs
    \<and> (map js_id matches = [i]
       \<or> matches = [] \<and> (i \<in> set_option job_id \<union> set_option session_id \<or> map aj_id jobs = [i]))"
proof -
  let ?jobs = "filter (\<lambda>j. aj_status j \<in> statuses) store_jobs"
  let ?ms = "resolve_reference ?jobs (or_str reference '''')"
  have from_jobs: "js_id s \<in> aj_id ` set ?jobs" if "s \<in> set ?ms" for s
    using that by (auto simp: resolve_reference_best best_matches_def summarize_def split: if_splits)
  note r = assms [unfolded resolve_job_reference_def Let_def]
  show ?thesis
  proof (cases "unique_match ?ms")
    case (Some s)
    then obtain ms: "?ms = [s]" by (auto simp: unique_match_def length_Suc_conv split: if_splits)
    with r Some from_jobs [of s] show ?thesis by (simp add: Let_def)
  next
    case None
    with r have short: "\<not> 1 < length ?ms" by (auto split: if_splits)
    with None have ms: "?ms = []" by (cases "length ?ms") (auto simp: unique_match_def)
    let ?p = "\<lambda>c. otruthy c \<and> list_ex (\<lambda>j. Some (aj_id j) = c) ?jobs"
    show ?thesis
    proof (cases "find ?p [job_id, session_id]")
      case (Some c)
      then have "c \<in> {job_id, session_id}" "\<exists>j \<in> set ?jobs. Some (aj_id j) = c"
        by (auto simp: list_ex_iff split: if_splits)
      with r None ms Some show ?thesis by (auto simp: Let_def)
    next
      case no_context: None
      with r None ms have "length ?jobs = 1" "i = aj_id (hd ?jobs)" by (auto split: if_splits)
      then obtain j where "?jobs = [j]" "i = aj_id j" by (auto simp: length_Suc_conv)
      with ms show ?thesis by (simp add: Let_def)
    qed
  qed
qed

section \<open>The overview\<close>

text \<open>
  The six groups of the overview partition the jobs: every job is in exactly one of them, so none
  is left out and none is told twice.
\<close>

theorem overview_groups_partition_jobs:
  "sum_list (map (\<lambda>(label, key). length (group_of (map summarize jobs) key)) inbox_groups) = length jobs"
proof -
  have one: "category j \<in> {''awaiting_user'', ''active'', ''blocked'', ''completed'', ''failed'', ''cancelled''}"
    for j
    by (cases "aj_status j") (simp_all add: category_def ACTIVE_STATUSES_def)
  show ?thesis
  proof (induction jobs)
    case Nil
    then show ?case by (simp add: inbox_groups_def group_of_def)
  next
    case (Cons j jobs)
    then show ?case
      using one [of j] by (auto simp: inbox_groups_def group_of_def summarize_def)
  qed
qed

section \<open>Keys that are parts of other keys\<close>

lemma casefold_append: "casefold (a @ b) = casefold a @ casefold b"
  by (simp add: casefold_def)

lemma is_part_prefix: "is_part (casefold (k @ d)) s \<Longrightarrow> is_part (casefold k) s"
  by (auto simp: is_part_iff casefold_append)

definition not_identified_by_id :: "inbox_job \<Rightarrow> string \<Rightarrow> bool" where
  "not_identified_by_id j reference \<longleftrightarrow> short_id j \<notin> set (tokens reference) \<and> aj_id j \<notin> set (tokens reference)"

lemma key_part_is_external:
  assumes "ij_issue_key j = Some k" and "k \<noteq> []" and "is_part (casefold k) (casefold r)"
    and "not_identified_by_id j r"
  shows "tier_of r j = TierExternalIdentity"
  using assms
  by (simp add: tier_of_def match_tier_def summarize_def not_identified_by_id_def truthy_def Let_def)

text \<open>
  C39. The comparison of issue keys is by containment: a reference that names a job's whole key also
  matches, in the same highest tier, every job whose key is a beginning of that key, so the
  answer is never the one job that was named.
\<close>

theorem longer_key_matches_shorter_one:
  assumes "j \<in> set jobs" and "j' \<in> set jobs" and "aj_id j \<noteq> aj_id j'"
    and "ij_issue_key j = Some k" and "ij_issue_key j' = Some (k @ d)" and "k \<noteq> []"
    and "is_part (casefold (k @ d)) (casefold reference)" and "tokens reference \<noteq> []"
    and "not_identified_by_id j reference" and "not_identified_by_id j' reference"
  shows "{summarize j, summarize j'} \<subseteq> set (resolve_reference jobs reference)
    \<and> unique_match (resolve_reference jobs reference) = None"
proof -
  have t: "tier_of reference j = TierExternalIdentity"
    by (rule key_part_is_external [OF assms(4,6) is_part_prefix [OF assms(7)] assms(9)])
  have t': "tier_of reference j' = TierExternalIdentity"
    by (rule key_part_is_external [OF assms(5) _ assms(7) assms(10)]) (simp add: assms(6))
  have b: "best_tier reference jobs = TierExternalIdentity"
    by (rule best_tier_eqI) (use t assms(1) tier_none_weak(3) in auto)
  have sub: "{summarize j, summarize j'} \<subseteq> set (resolve_reference jobs reference)"
    using t t' b assms(1,2,8) by (auto simp: resolve_reference_best best_matches_def)
  have "summarize j \<noteq> summarize j'" using assms(3) by (auto simp: summarize_def)
  with sub have "length (resolve_reference jobs reference) \<noteq> 1"
    by (auto simp: length_Suc_conv)
  with sub show ?thesis by (simp add: unique_match_def)
qed

section \<open>Witnesses\<close>

definition demo_inbox_job :: "string \<Rightarrow> string option \<Rightarrow> inbox_job" where
  "demo_inbox_job i key = agent_job.extend (demo_queued\<lparr>aj_id := i\<rparr>)
     (inbox_job.fields None key None None None)"

lemma demo_inbox_simps [simp]:
  "aj_id (demo_inbox_job i key) = i" "ij_issue_key (demo_inbox_job i key) = key"
  "aj_status (demo_inbox_job i key) = JsQueued"
  by (simp_all add: demo_inbox_job_def demo_queued_def agent_job.defs inbox_job.defs)

definition demo_reference :: string where "demo_reference = ''what about APP-43''"

lemma demo_tokens: "tokens demo_reference = [''what'', ''about'', ''app'', ''43'']"
  unfolding demo_reference_def by code_simp

lemma demo_key_part: "is_part (casefold ''APP-43'') (casefold demo_reference)"
  unfolding demo_reference_def by code_simp

lemma longer_key_matches_shorter_one_witness:
  "unique_match (resolve_reference
     [demo_inbox_job ''aaaaaaaaaaaa'' (Some ''APP-4''), demo_inbox_job ''bbbbbbbbbbbb'' (Some ''APP-43'')]
     demo_reference) = None"
proof -
  have "not_identified_by_id (demo_inbox_job i key) demo_reference"
    if "i \<in> {''aaaaaaaaaaaa'', ''bbbbbbbbbbbb''}" for i key
    using that by (auto simp: not_identified_by_id_def demo_tokens short_id_def SHORT_ID_LENGTH_def)
  then show ?thesis
    by (intro longer_key_matches_shorter_one [where k = "''APP-4''" and d = "''3''"
        and j = "demo_inbox_job ''aaaaaaaaaaaa'' (Some ''APP-4'')"
        and j' = "demo_inbox_job ''bbbbbbbbbbbb'' (Some ''APP-43'')", THEN conjunct2])
       (use demo_key_part demo_tokens in auto)
qed

lemma job_is_never_guessed_witness:
  "let jobs = filter (\<lambda>j. aj_status j \<in> {JsQueued}) [demo_inbox_job ''aaaaaaaaaaaa'' None];
       matches = resolve_reference jobs (or_str (Some ''!'') '''') in
     ''aaaaaaaaaaaa'' \<in> aj_id ` set jobs
     \<and> (map js_id matches = [''aaaaaaaaaaaa'']
        \<or> matches = [] \<and> (''aaaaaaaaaaaa'' \<in> set_option None \<union> set_option None
                             \<or> map aj_id jobs = [''aaaaaaaaaaaa'']))"
proof (rule job_is_never_guessed)
  have "tokens ''!'' = []" by code_simp
  then show "resolve_job_reference [demo_inbox_job ''aaaaaaaaaaaa'' None] (Some ''!'') {JsQueued}
      ''cancel'' ''none'' None None = ResolvedJob ''aaaaaaaaaaaa''"
    by (simp add: resolve_job_reference_def resolve_reference_def unique_match_def)
qed

end
