(* ===== verification/Tts_Stream.thy ===== *)
theory Tts_Stream imports Py_Values begin

text \<open>
  \<open>tts/stream.py\<close>: the incremental parser of one newline-delimited stream of the speech backend.
  Bytes are characters. The parser is passed and returned explicitly, with the changes it keeps
  when a method raises; \<open>json.loads\<close> is an argument, \<open>None\<close> for its two exceptions.
\<close>

section \<open>The parser\<close>

text \<open>A \<open>HarnessError\<close>; the second form ends with \<open>str\<close> of a value of the event.\<close>

datatype harness_error = HarnessError string | HarnessErrorAbout string py_value

record tts_parser =
  tp_request_id :: string
  tp_buffer :: string
  tp_started :: bool
  tp_done :: bool
  tp_sample_rate :: int
  tp_expected_chunks :: int
  tp_chunks :: int
  tp_done_event :: "py_dict option"

definition TTSStreamParser_init :: "string \<Rightarrow> tts_parser" where
  "TTSStreamParser_init request_id =
     \<lparr>tp_request_id = request_id, tp_buffer = [], tp_started = False, tp_done = False,
      tp_sample_rate = 0, tp_expected_chunks = 0, tp_chunks = 0, tp_done_event = None\<rparr>"

definition stream_integer :: "py_value \<Rightarrow> string \<Rightarrow> bool \<Rightarrow> harness_error + int" where
  "stream_integer v field positive =
     (case v of
        PyInt i \<Rightarrow>
          if positive \<and> i \<le> 0 then Inl (HarnessError (''TTS stream '' @ field @ '' must be positive''))
          else if \<not> positive \<and> i < 0
          then Inl (HarnessError (''TTS stream '' @ field @ '' must not be negative''))
          else Inr i
      | _ \<Rightarrow> Inl (HarnessError (''TTS stream '' @ field @ '' must be an integer'')))"

definition done_event :: "tts_parser \<Rightarrow> harness_error + py_dict" where
  "done_event p =
     (case tp_done_event p of
        None \<Rightarrow> Inl (HarnessError ''TTS stream ended before completion'')
      | Some d \<Rightarrow> Inr d)"

section \<open>One event\<close>

definition start_event :: "tts_parser \<Rightarrow> py_dict \<Rightarrow> tts_parser \<times> (harness_error + unit)" where
  "start_event p event =
     (if tp_started p then (p, Inl (HarnessError ''TTS stream returned duplicate start events''))
      else case stream_integer (py_get event ''sample_rate'') ''start.sample_rate'' True of
        Inl e \<Rightarrow> (p, Inl e)
      | Inr rate \<Rightarrow>
          let p1 = p\<lparr>tp_sample_rate := rate\<rparr> in
          (case stream_integer (py_get event ''chunks'') ''start.chunks'' True of
             Inl e \<Rightarrow> (p1, Inl e)
           | Inr n \<Rightarrow> (p1\<lparr>tp_expected_chunks := n, tp_started := True\<rparr>, Inr ())))"

definition chunk_event :: "tts_parser \<Rightarrow> py_dict \<Rightarrow> tts_parser \<times> (harness_error + unit)" where
  "chunk_event p event =
     (if \<not> tp_started p then (p, Inl (HarnessError ''TTS stream returned a chunk before start''))
      else case stream_integer (py_get event ''index'') ''chunk.index'' False of
        Inl e \<Rightarrow> (p, Inl e)
      | Inr index \<Rightarrow>
          if index \<noteq> tp_chunks p
          then (p, Inl (HarnessError (''TTS stream chunk index '' @ show_int index
                 @ '' did not match '' @ show_int (tp_chunks p))))
          else if \<not> (case py_get event ''output'' of PyStr s \<Rightarrow> truthy s | _ \<Rightarrow> False)
          then (p, Inl (HarnessError ''TTS stream chunk.output must be a non-empty string''))
          else if \<not> (case py_get event ''text'' of PyStr s \<Rightarrow> True | _ \<Rightarrow> False)
          then (p, Inl (HarnessError ''TTS stream chunk.text must be a string''))
          else (p\<lparr>tp_chunks := tp_chunks p + 1\<rparr>, Inr ()))"

definition complete_event :: "tts_parser \<Rightarrow> py_dict \<Rightarrow> tts_parser \<times> (harness_error + unit)" where
  "complete_event p event =
     (if \<not> tp_started p then (p, Inl (HarnessError ''TTS stream completed before start''))
      else case py_get event ''cancelled'' of
        PyBool cancelled \<Rightarrow>
          (case stream_integer (py_get event ''chunks'') ''done.chunks'' False of
             Inl e \<Rightarrow> (p, Inl e)
           | Inr chunks \<Rightarrow>
               if chunks \<noteq> tp_chunks p
               then (p, Inl (HarnessError (''TTS stream completion count '' @ show_int chunks
                      @ '' did not match '' @ show_int (tp_chunks p))))
               else if \<not> cancelled \<and> chunks \<noteq> tp_expected_chunks p
               then (p, Inl (HarnessError
                      ''TTS stream completion count did not match the start event''))
               else (p\<lparr>tp_done := True, tp_done_event := Some event\<rparr>, Inr ()))
      | _ \<Rightarrow> (p, Inl (HarnessError ''TTS stream done.cancelled must be a boolean'')))"

definition validate_event :: "tts_parser \<Rightarrow> py_dict \<Rightarrow> tts_parser \<times> (harness_error + unit)" where
  "validate_event p event =
     (if py_get event ''ok'' \<noteq> PyBool True
      then (p, Inl (HarnessErrorAbout ''TTS backend failed: ''
                      (case map_of event ''error'' of None \<Rightarrow> PyStr ''unknown error'' | Some v \<Rightarrow> v)))
      else if tp_done p
      then (p, Inl (HarnessError ''TTS stream returned an event after completion''))
      else if py_get event ''request_id'' \<noteq> PyStr (tp_request_id p)
      then (p, Inl (HarnessError ''TTS stream request_id did not match the request''))
      else let kind = py_get event ''event'' in
        if kind = PyStr ''start'' then start_event p event
        else if kind = PyStr ''chunk'' then chunk_event p event
        else if kind = PyStr ''done'' then complete_event p event
        else (p, Inl (HarnessErrorAbout ''unknown TTS stream event: '' kind)))"

section \<open>Feeding bytes\<close>

definition newline :: char where
  "newline = char_of (10 :: nat)"

text \<open>One line without its newline: decoded, then checked.\<close>

definition read_line ::
  "(string \<Rightarrow> py_value option) \<Rightarrow> tts_parser \<Rightarrow> string \<Rightarrow> tts_parser \<times> (harness_error + py_dict)" where
  "read_line loads p line =
     (if line = [] then (p, Inl (HarnessError ''TTS backend returned an empty stream event''))
      else case loads line of
        None \<Rightarrow> (p, Inl (HarnessError ''TTS backend returned an invalid stream event''))
      | Some (PyDict event) \<Rightarrow>
          (case validate_event p event of
             (q, Inl e) \<Rightarrow> (q, Inl e)
           | (q, Inr _) \<Rightarrow> (q, Inr event))
      | Some _ \<Rightarrow> (p, Inl (HarnessError ''TTS backend returned a non-object stream event'')))"

text \<open>
  The loop of \<open>feed\<close> over the buffer, which \<open>partition\<close> shortens in every turn; events returned
  so far are lost when a later line raises.
\<close>

function feed_loop ::
  "(string \<Rightarrow> py_value option) \<Rightarrow> string \<Rightarrow> tts_parser \<Rightarrow>
   tts_parser \<times> (harness_error + py_dict list)" where
  "feed_loop loads buffer p =
     (if newline \<notin> set buffer then (p\<lparr>tp_buffer := buffer\<rparr>, Inr [])
      else
        let line = takeWhile (\<lambda>c. c \<noteq> newline) buffer;
            remainder = tl (dropWhile (\<lambda>c. c \<noteq> newline) buffer) in
        case read_line loads (p\<lparr>tp_buffer := remainder\<rparr>) line of
          (q, Inl e) \<Rightarrow> (q, Inl e)
        | (q, Inr event) \<Rightarrow>
            (case feed_loop loads remainder q of
               (r, Inl e) \<Rightarrow> (r, Inl e)
             | (r, Inr events) \<Rightarrow> (r, Inr (event # events))))"
  by pat_completeness auto

lemma remainder_shorter:
  "newline \<in> set b \<Longrightarrow> length (tl (dropWhile (\<lambda>c. c \<noteq> newline) b)) < length b"
proof -
  assume "newline \<in> set b"
  then have "dropWhile (\<lambda>c. c \<noteq> newline) b \<noteq> []" by (auto simp: dropWhile_eq_Nil_conv)
  then have "length (tl (dropWhile (\<lambda>c. c \<noteq> newline) b)) < length (dropWhile (\<lambda>c. c \<noteq> newline) b)"
    by (cases "dropWhile (\<lambda>c. c \<noteq> newline) b") simp_all
  also have "\<dots> \<le> length b" by (rule length_dropWhile_le)
  finally show ?thesis .
qed

termination feed_loop
  by (relation "measure (\<lambda>(loads, buffer, p). length buffer)") (auto simp: remainder_shorter [simplified])

declare feed_loop.simps [simp del]

definition feed ::
  "(string \<Rightarrow> py_value option) \<Rightarrow> tts_parser \<Rightarrow> string \<Rightarrow>
   tts_parser \<times> (harness_error + py_dict list)" where
  "feed loads p data = feed_loop loads (tp_buffer p @ data) p"

definition finish :: "tts_parser \<Rightarrow> harness_error + py_dict" where
  "finish p =
     (if truthy (tp_buffer p)
      then Inl (HarnessError ''TTS backend returned an incomplete stream event'')
      else if \<not> tp_done p then Inl (HarnessError ''TTS stream ended before completion'')
      else rbind (done_event p) (\<lambda>d.
        if py_truth (py_get d ''cancelled'') then Inl (HarnessError ''TTS stream was cancelled'')
        else Inr d))"

text \<open>The caller's loop: feed every piece the socket delivers, until one raises.\<close>

fun feed_all ::
  "(string \<Rightarrow> py_value option) \<Rightarrow> tts_parser \<Rightarrow> string list \<Rightarrow>
   tts_parser \<times> (harness_error + py_dict list)" where
  "feed_all loads p [] = (p, Inr [])"
| "feed_all loads p (data # rest) =
     (case feed loads p data of
        (q, Inl e) \<Rightarrow> (q, Inl e)
      | (q, Inr events) \<Rightarrow>
          (case feed_all loads q rest of
             (r, Inl e) \<Rightarrow> (r, Inl e)
           | (r, Inr more_events) \<Rightarrow> (r, Inr (events @ more_events))))"

end
