(* ===== verification/Tts_Machine.thy ===== *)
theory Tts_Machine imports Tts_Stream begin

text \<open>
  What the stream parser guarantees: its result does not depend on how the socket cuts the bytes,
  a stream it accepts follows the protocol (one start, numbered chunks, one completion that counts
  them), and every stream written by the protocol is accepted.
\<close>

section \<open>A whole stream\<close>

definition run_stream ::
  "(string \<Rightarrow> py_value option) \<Rightarrow> string \<Rightarrow> string list \<Rightarrow> harness_error + py_dict list \<times> py_dict" where
  "run_stream loads request_id pieces =
     (case feed_all loads (TTSStreamParser_init request_id) pieces of
        (q, Inl e) \<Rightarrow> Inl e
      | (q, Inr events) \<Rightarrow> rbind (finish q) (\<lambda>d. Inr (events, d)))"

section \<open>The cuts do not matter\<close>

lemma feed_loop_base [simp]: "newline \<notin> set b \<Longrightarrow> feed_loop loads b p = (p\<lparr>tp_buffer := b\<rparr>, Inr [])"
  by (simp add: feed_loop.simps)

lemma feed_loop_line:
  assumes "newline \<notin> set line"
  shows "feed_loop loads (line @ newline # rest) p =
    (case read_line loads (p\<lparr>tp_buffer := rest\<rparr>) line of
       (q, Inl e) \<Rightarrow> (q, Inl e)
     | (q, Inr event) \<Rightarrow>
         (case feed_loop loads rest q of
            (r, Inl e) \<Rightarrow> (r, Inl e)
          | (r, Inr events) \<Rightarrow> (r, Inr (event # events))))"
proof -
  have "takeWhile (\<lambda>c. c \<noteq> newline) (line @ newline # rest) = line"
    and "dropWhile (\<lambda>c. c \<noteq> newline) (line @ newline # rest) = newline # rest"
    using assms by (induction line) auto
  then show ?thesis by (subst feed_loop.simps) simp
qed

lemma line_cases:
  fixes b :: string
  obtains (no_line) "newline \<notin> set b"
  | (line) line rest where "b = line @ newline # rest" and "newline \<notin> set line"
  using split_list_first [of newline b] by blast

lemma feed_loop_buffer: "feed_loop loads b (p\<lparr>tp_buffer := x\<rparr>) = feed_loop loads b p"
  by (cases b rule: line_cases) (simp_all add: feed_loop_line)

definition with_buffer :: "string \<Rightarrow> tts_parser \<times> 'a \<Rightarrow> tts_parser \<times> 'a" where
  "with_buffer x r = (fst r\<lparr>tp_buffer := x\<rparr>, snd r)"

lemma one_event_buffer:
  "start_event (p\<lparr>tp_buffer := x\<rparr>) ev = with_buffer x (start_event p ev)"
  "chunk_event (p\<lparr>tp_buffer := x\<rparr>) ev = with_buffer x (chunk_event p ev)"
  "complete_event (p\<lparr>tp_buffer := x\<rparr>) ev = with_buffer x (complete_event p ev)"
  by (auto simp: start_event_def chunk_event_def complete_event_def with_buffer_def Let_def
      split: sum.split py_value.split)

lemma validate_event_buffer:
  "validate_event (p\<lparr>tp_buffer := x\<rparr>) ev = with_buffer x (validate_event p ev)"
  unfolding validate_event_def by (simp add: one_event_buffer Let_def) (simp add: with_buffer_def)

lemma read_line_buffer:
  "read_line loads (p\<lparr>tp_buffer := x\<rparr>) l = with_buffer x (read_line loads p l)"
  by (auto simp: read_line_def validate_event_buffer with_buffer_def
      split: option.splits py_value.splits sum.splits prod.splits)

text \<open>Feeding a piece and then another is feeding both at once.\<close>

definition feed_then ::
  "tts_parser \<times> (harness_error + py_dict list) \<Rightarrow>
   (tts_parser \<Rightarrow> tts_parser \<times> (harness_error + py_dict list)) \<Rightarrow>
   tts_parser \<times> (harness_error + py_dict list)" where
  "feed_then m k =
     (case m of
        (q, Inl e) \<Rightarrow> (q, Inl e)
      | (q, Inr events) \<Rightarrow>
          (case k q of (r, Inl e) \<Rightarrow> (r, Inl e) | (r, Inr rest) \<Rightarrow> (r, Inr (events @ rest))))"

lemma feed_then_simps [simp]:
  "feed_then (q, Inl e) k = (q, Inl e)"
  "feed_then (q, Inr []) k = k q"
  by (simp_all add: feed_then_def split: prod.splits sum.splits)

text \<open>Two results that agree but for the parser a raised error leaves behind.\<close>

definition same_result :: "tts_parser \<times> (harness_error + 'a) \<Rightarrow> tts_parser \<times> (harness_error + 'a) \<Rightarrow> bool" where
  "same_result m n \<longleftrightarrow> snd m = snd n \<and> (\<forall>x. snd m = Inr x \<longrightarrow> fst m = fst n)"

lemma same_result_refl [simp]: "same_result m m"
  by (simp add: same_result_def)

lemma same_result_errors [simp]: "same_result (q, Inl e) (r, Inl f) \<longleftrightarrow> e = f"
  by (auto simp: same_result_def)

definition cons_event ::
  "py_dict \<Rightarrow> tts_parser \<times> (harness_error + py_dict list) \<Rightarrow> tts_parser \<times> (harness_error + py_dict list)" where
  "cons_event ev m = (case m of (r, Inl e) \<Rightarrow> (r, Inl e) | (r, Inr evs) \<Rightarrow> (r, Inr (ev # evs)))"

lemma same_result_cons: "same_result m n \<Longrightarrow> same_result (cons_event ev m) (cons_event ev n)"
  by (cases m; cases n) (auto simp: same_result_def cons_event_def split: sum.splits)

lemma cons_event_then: "feed_then (cons_event ev m) k = cons_event ev (feed_then m k)"
  by (cases m) (auto simp: feed_then_def cons_event_def split: sum.splits prod.splits)

lemma feed_loop_next:
  assumes "newline \<notin> set line" and "read_line loads p line = (q, Inr ev)"
  shows "feed_loop loads (line @ newline # rest) p = cons_event ev (feed_loop loads rest q)"
  using assms
  by (simp add: feed_loop_line read_line_buffer with_buffer_def feed_loop_buffer cons_event_def)

lemma feed_loop_append:
  "same_result (feed_loop loads (b @ c) p)
     (feed_then (feed_loop loads b p) (\<lambda>q. feed_loop loads (tp_buffer q @ c) q))"
proof (induction "length b" arbitrary: b p rule: less_induct)
  case less
  show ?case
  proof (cases b rule: line_cases)
    case no_line
    then show ?thesis by (simp add: feed_loop_buffer)
  next
    case (line l rest)
    have cut: "b @ c = l @ newline # (rest @ c)" by (simp add: line(1))
    obtain q r where rl: "read_line loads p l = (q, r)" by fastforce
    show ?thesis
    proof (cases r)
      case (Inl e)
      with rl line(2) show ?thesis
        unfolding cut unfolding line(1)
        by (simp add: feed_loop_line read_line_buffer with_buffer_def)
    next
      case (Inr ev)
      note next' = feed_loop_next [OF line(2) rl [unfolded Inr]]
      have "same_result (feed_loop loads (rest @ c) q)
          (feed_then (feed_loop loads rest q) (\<lambda>q. feed_loop loads (tp_buffer q @ c) q))"
        by (rule less) (simp add: line(1))
      from same_result_cons [OF this] show ?thesis
        unfolding cut unfolding line(1) next' cons_event_then .
    qed
  qed
qed

lemma feed_append:
  "same_result (feed loads p (a @ b)) (feed_then (feed loads p a) (\<lambda>q. feed loads q b))"
  using feed_loop_append [of loads "tp_buffer p @ a" b p] by (simp add: feed_def)

lemma feed_all_then:
  "feed_all loads p (d # ds) = feed_then (feed loads p d) (\<lambda>q. feed_all loads q ds)"
  by (simp add: feed_then_def)

lemma feed_loop_rest: "feed_loop loads b p = (q, Inr evs) \<Longrightarrow> newline \<notin> set (tp_buffer q)"
proof (induction "length b" arbitrary: b p evs rule: less_induct)
  case less
  show ?case
  proof (cases b rule: line_cases)
    case no_line
    with less.prems show ?thesis by auto
  next
    case (line l rest)
    with less.prems obtain t ts where "feed_loop loads rest t = (q, Inr ts)"
      by (auto simp: feed_loop_line split: prod.splits sum.splits)
    from less.hyps [OF _ this] line(1) show ?thesis by simp
  qed
qed

lemma feed_rest: "feed loads p d = (q, Inr evs) \<Longrightarrow> newline \<notin> set (tp_buffer q)"
  unfolding feed_def by (rule feed_loop_rest)

lemma same_result_then:
  assumes "\<And>q evs. m = (q, Inr evs) \<Longrightarrow> same_result (k q) (k' q)"
  shows "same_result (feed_then m k) (feed_then m k')"
proof (cases m)
  case (Pair q r)
  show ?thesis
  proof (cases r)
    case (Inr evs)
    with assms Pair have "same_result (k q) (k' q)" by simp
    then show ?thesis
      unfolding Pair Inr
      by (cases "k q"; cases "k' q")
         (auto simp: feed_then_def same_result_def split: sum.splits)
  qed (simp add: Pair)
qed

lemma same_result_trans: "same_result a b \<Longrightarrow> same_result b c \<Longrightarrow> same_result a c"
  by (auto simp: same_result_def)

lemma feed_all_concat:
  assumes "newline \<notin> set (tp_buffer p)"
  shows "same_result (feed loads p (concat ds)) (feed_all loads p ds)"
  using assms
proof (induction ds arbitrary: p)
  case Nil
  then show ?case by (simp add: feed_def same_result_def)
next
  case (Cons d ds)
  have "same_result (feed_then (feed loads p d) (\<lambda>q. feed loads q (concat ds)))
      (feed_then (feed loads p d) (\<lambda>q. feed_all loads q ds))"
    by (rule same_result_then, rule Cons.IH, erule feed_rest)
  with feed_append [of loads p d "concat ds"] show ?case
    unfolding feed_all_then by (auto intro: same_result_trans)
qed

lemma run_stream_concat:
  "run_stream loads request_id pieces = run_stream loads request_id [concat pieces]"
proof -
  let ?p = "TTSStreamParser_init request_id"
  have "newline \<notin> set (tp_buffer ?p)" by (simp add: TTSStreamParser_init_def)
  from feed_all_concat [OF this, of loads pieces] feed_all_concat [OF this, of loads "[concat pieces]"]
  have "same_result (feed_all loads ?p pieces) (feed_all loads ?p [concat pieces])"
    by (auto simp: same_result_def)
  then show ?thesis
    unfolding run_stream_def same_result_def
    by (auto split: prod.splits sum.splits simp del: feed_all.simps)
qed

text \<open>
  C37. The outcome of a stream (its events and completion, or the error) depends on the bytes alone,
  not on how the socket cuts them into pieces: reading piece by piece is reading all at once.
\<close>

theorem stream_independent_of_cuts:
  "run_stream loads request_id pieces = run_stream loads request_id [concat pieces]"
  by (rule run_stream_concat)

section \<open>The protocol\<close>

definition event_of :: "string \<Rightarrow> string \<Rightarrow> py_dict \<Rightarrow> bool" where
  "event_of request_id kind ev \<longleftrightarrow>
     py_get ev ''ok'' = PyBool True \<and> py_get ev ''request_id'' = PyStr request_id
     \<and> py_get ev ''event'' = PyStr kind"

definition is_start :: "string \<Rightarrow> int \<Rightarrow> int \<Rightarrow> py_dict \<Rightarrow> bool" where
  "is_start request_id rate n ev \<longleftrightarrow>
     event_of request_id ''start'' ev
     \<and> py_get ev ''sample_rate'' = PyInt rate \<and> 0 < rate \<and> py_get ev ''chunks'' = PyInt n \<and> 0 < n"

definition is_chunk :: "string \<Rightarrow> int \<Rightarrow> py_dict \<Rightarrow> bool" where
  "is_chunk request_id i ev \<longleftrightarrow>
     event_of request_id ''chunk'' ev \<and> py_get ev ''index'' = PyInt i
     \<and> (case py_get ev ''output'' of PyStr s \<Rightarrow> truthy s | _ \<Rightarrow> False)
     \<and> (case py_get ev ''text'' of PyStr s \<Rightarrow> True | _ \<Rightarrow> False)"

definition is_done :: "string \<Rightarrow> bool \<Rightarrow> int \<Rightarrow> int \<Rightarrow> py_dict \<Rightarrow> bool" where
  "is_done request_id cancelled n count ev \<longleftrightarrow>
     event_of request_id ''done'' ev \<and> py_get ev ''cancelled'' = PyBool cancelled
     \<and> py_get ev ''chunks'' = PyInt count \<and> (cancelled \<or> count = n)"

fun chunks_from :: "string \<Rightarrow> int \<Rightarrow> py_dict list \<Rightarrow> bool" where
  "chunks_from request_id i [] = True"
| "chunks_from request_id i (ev # evs) \<longleftrightarrow>
     is_chunk request_id i ev \<and> chunks_from request_id (i + 1) evs"

text \<open>A completed stream: a start announcing its chunks, each of them, and the completion.\<close>

definition complete_stream :: "string \<Rightarrow> py_dict list \<Rightarrow> py_dict \<Rightarrow> bool" where
  "complete_stream request_id events d \<longleftrightarrow>
     (\<exists>s cs rate. events = s # cs @ [d] \<and> is_start request_id rate (int (length cs)) s
        \<and> chunks_from request_id 0 cs
        \<and> is_done request_id False (int (length cs)) (int (length cs)) d)"

lemma chunks_from_snoc:
  "chunks_from rid i (cs @ [c]) \<longleftrightarrow> chunks_from rid i cs \<and> is_chunk rid (i + int (length cs)) c"
  by (induction cs arbitrary: i) (auto simp: algebra_simps)

text \<open>What the parser knows after some accepted events.\<close>

definition parsed :: "string \<Rightarrow> py_dict list \<Rightarrow> tts_parser \<Rightarrow> bool" where
  "parsed rid evs p \<longleftrightarrow> tp_request_id p = rid
     \<and> (if \<not> tp_started p then evs = [] \<and> \<not> tp_done p \<and> tp_chunks p = 0
        else \<exists>s cs. is_start rid (tp_sample_rate p) (tp_expected_chunks p) s \<and> chunks_from rid 0 cs
          \<and> tp_chunks p = int (length cs)
          \<and> (if \<not> tp_done p then evs = s # cs
             else \<exists>d c. evs = s # cs @ [d] \<and> tp_done_event p = Some d
               \<and> is_done rid c (tp_expected_chunks p) (int (length cs)) d))"

lemma parsed_init: "parsed rid [] (TTSStreamParser_init rid)"
  by (simp add: parsed_def TTSStreamParser_init_def)

lemma parsed_buffer [simp]: "parsed rid evs (p\<lparr>tp_buffer := b\<rparr>) \<longleftrightarrow> parsed rid evs p"
  by (simp add: parsed_def)

lemma stream_integer_Inr [simp]:
  "stream_integer v f True = Inr i \<longleftrightarrow> v = PyInt i \<and> 0 < i"
  "stream_integer v f False = Inr i \<longleftrightarrow> v = PyInt i \<and> 0 \<le> i"
  by (auto simp: stream_integer_def split: py_value.splits if_splits)

lemma case_pair_Inr:
  "(case m of Inl e \<Rightarrow> (p, Inl e) | Inr i \<Rightarrow> k i) = (q, Inr u) \<longleftrightarrow> (\<exists>i. m = Inr i \<and> k i = (q, Inr u))"
  by (cases m) auto

lemma start_event_ok:
  "start_event p ev = (q, Inr ()) \<longleftrightarrow>
     \<not> tp_started p \<and> (\<exists>rate n. py_get ev ''sample_rate'' = PyInt rate \<and> 0 < rate
       \<and> py_get ev ''chunks'' = PyInt n \<and> 0 < n
       \<and> q = p\<lparr>tp_sample_rate := rate, tp_expected_chunks := n, tp_started := True\<rparr>)"
  by (auto simp: start_event_def case_pair_Inr Let_def)

lemma chunk_event_ok:
  "chunk_event p ev = (q, Inr ()) \<longleftrightarrow>
     tp_started p \<and> py_get ev ''index'' = PyInt (tp_chunks p) \<and> 0 \<le> tp_chunks p
     \<and> (case py_get ev ''output'' of PyStr s \<Rightarrow> truthy s | _ \<Rightarrow> False)
     \<and> (case py_get ev ''text'' of PyStr s \<Rightarrow> True | _ \<Rightarrow> False)
     \<and> q = p\<lparr>tp_chunks := tp_chunks p + 1\<rparr>"
  by (auto simp: chunk_event_def case_pair_Inr)

lemma complete_event_ok:
  "complete_event p ev = (q, Inr ()) \<longleftrightarrow>
     tp_started p \<and> (\<exists>c. py_get ev ''cancelled'' = PyBool c \<and> py_get ev ''chunks'' = PyInt (tp_chunks p)
       \<and> 0 \<le> tp_chunks p \<and> (c \<or> tp_chunks p = tp_expected_chunks p)
       \<and> q = p\<lparr>tp_done := True, tp_done_event := Some ev\<rparr>)"
  by (auto simp: complete_event_def case_pair_Inr split: py_value.splits)

lemma validate_event_ok:
  "validate_event p ev = (q, Inr ()) \<longleftrightarrow> \<not> tp_done p \<and>
     (event_of (tp_request_id p) ''start'' ev \<and> start_event p ev = (q, Inr ())
      \<or> event_of (tp_request_id p) ''chunk'' ev \<and> chunk_event p ev = (q, Inr ())
      \<or> event_of (tp_request_id p) ''done'' ev \<and> complete_event p ev = (q, Inr ()))"
  by (auto simp: validate_event_def event_of_def Let_def)

lemma parsed_step:
  assumes "parsed rid evs p" and "validate_event p ev = (q, Inr ())"
  shows "parsed rid (evs @ [ev]) q"
proof -
  have rid: "tp_request_id p = rid" using assms(1) by (simp add: parsed_def)
  from assms(2) have nd: "\<not> tp_done p" and cases:
    "event_of rid ''start'' ev \<and> start_event p ev = (q, Inr ())
      \<or> event_of rid ''chunk'' ev \<and> chunk_event p ev = (q, Inr ())
      \<or> event_of rid ''done'' ev \<and> complete_event p ev = (q, Inr ())"
    by (simp_all add: validate_event_ok rid)
  from cases show ?thesis
  proof (elim disjE conjE)
    assume "event_of rid ''start'' ev" "start_event p ev = (q, Inr ())"
    with assms(1) nd rid show ?thesis
      by (auto simp: start_event_ok parsed_def is_start_def)
  next
    assume e: "event_of rid ''chunk'' ev" "chunk_event p ev = (q, Inr ())"
    then obtain s cs where "is_start rid (tp_sample_rate p) (tp_expected_chunks p) s"
      "chunks_from rid 0 cs" "tp_chunks p = int (length cs)" "evs = s # cs"
      using assms(1) nd by (auto simp: chunk_event_ok parsed_def)
    moreover from this e have "chunks_from rid 0 (cs @ [ev])"
      by (simp add: chunks_from_snoc is_chunk_def chunk_event_ok)
    ultimately show ?thesis using e nd rid by (auto simp: chunk_event_ok parsed_def)
  next
    assume e: "event_of rid ''done'' ev" "complete_event p ev = (q, Inr ())"
    then obtain s cs where "is_start rid (tp_sample_rate p) (tp_expected_chunks p) s"
      "chunks_from rid 0 cs" "tp_chunks p = int (length cs)" "evs = s # cs"
      using assms(1) nd by (auto simp: complete_event_ok parsed_def)
    with e rid show ?thesis by (auto simp: complete_event_ok parsed_def is_done_def)
  qed
qed

lemma read_line_ok:
  "read_line loads p l = (q, Inr ev) \<longleftrightarrow>
     l \<noteq> [] \<and> loads l = Some (PyDict ev) \<and> validate_event p ev = (q, Inr ())"
  by (auto simp: read_line_def split: option.splits py_value.splits prod.splits sum.splits)

lemma parsed_loop:
  "feed_loop loads b p = (q, Inr evs) \<Longrightarrow> parsed rid pre p \<Longrightarrow> parsed rid (pre @ evs) q"
proof (induction "length b" arbitrary: b p pre evs rule: less_induct)
  case less
  show ?case
  proof (cases b rule: line_cases)
    case no_line
    with less.prems show ?thesis by auto
  next
    case (line l rest)
    with less.prems(1) obtain t ev ts where t: "read_line loads (p\<lparr>tp_buffer := rest\<rparr>) l = (t, Inr ev)"
      "feed_loop loads rest t = (q, Inr ts)" "evs = ev # ts"
      by (auto simp: feed_loop_line split: prod.splits sum.splits)
    from t(1) have "parsed rid (pre @ [ev]) t"
      by (intro parsed_step [of _ _ "p\<lparr>tp_buffer := rest\<rparr>"]) (simp_all add: less.prems(2) read_line_ok)
    from less.hyps [OF _ t(2) this] line(1) t(3) show ?thesis by simp
  qed
qed

text \<open>
  A stream that is accepted follows the protocol: it is a start event of the request that
  announces a positive number of chunks and a positive sample rate, exactly that many chunks
  numbered from zero, each with an output and a text, and a completion that counts them.
\<close>

theorem accepted_stream_is_well_typed:
  assumes "run_stream loads request_id pieces = Inr (events, d)"
  shows "complete_stream request_id events d"
proof -
  have "run_stream loads request_id [concat pieces] = Inr (events, d)"
    using assms run_stream_concat by metis
  then obtain q where f: "feed loads (TTSStreamParser_init request_id) (concat pieces) = (q, Inr events)"
    and fin: "finish q = Inr d"
    by (auto simp: run_stream_def result_simps split: prod.splits sum.splits)
  have p: "parsed request_id events q"
    using parsed_loop [OF f [unfolded feed_def] parsed_init] by simp
  from fin have "tp_done q" "tp_done_event q = Some d" "\<not> py_truth (py_get d ''cancelled'')"
    by (auto simp: finish_def done_event_def result_simps split: if_splits option.splits)
  with p show ?thesis
    unfolding parsed_def complete_stream_def by (auto simp: is_done_def is_start_def split: if_splits)
qed

section \<open>Streams the backend writes\<close>

definition written :: "(py_dict \<Rightarrow> string) \<Rightarrow> py_dict list \<Rightarrow> string" where
  "written dumps events = concat (map (\<lambda>ev. dumps ev @ [newline]) events)"

text \<open>What is relied on of \<open>json.dumps\<close> and \<open>json.loads\<close> for the events of a stream.\<close>

definition line_codec :: "(py_dict \<Rightarrow> string) \<Rightarrow> (string \<Rightarrow> py_value option) \<Rightarrow> py_dict list \<Rightarrow> bool" where
  "line_codec dumps loads events \<longleftrightarrow>
     list_all (\<lambda>ev. newline \<notin> set (dumps ev) \<and> dumps ev \<noteq> [] \<and> loads (dumps ev) = Some (PyDict ev)) events"

lemma written_next:
  assumes "line_codec dumps loads (ev # evs)" and "validate_event p ev = (q, Inr ())"
  shows "feed_loop loads (written dumps (ev # evs)) p = cons_event ev (feed_loop loads (written dumps evs) q)"
  using feed_loop_next [of "dumps ev" loads p q ev "written dumps evs"] assms
  by (simp add: written_def line_codec_def read_line_ok)

lemma written_chunks:
  assumes "line_codec dumps loads (cs @ [d])" and "chunks_from rid (tp_chunks p) cs"
    and "tp_started p" and "\<not> tp_done p" and "tp_request_id p = rid" and "0 \<le> tp_chunks p"
    and "is_done rid False n n d" and "n = tp_chunks p + int (length cs)" and "tp_expected_chunks p = n"
  shows "\<exists>q. feed_loop loads (written dumps (cs @ [d])) p = (q, Inr (cs @ [d])) \<and> finish q = Inr d"
  using assms
proof (induction cs arbitrary: p)
  case Nil
  let ?q = "p\<lparr>tp_done := True, tp_done_event := Some d\<rparr>"
  have "validate_event p d = (?q, Inr ())"
    using Nil.prems by (auto simp: validate_event_ok complete_event_ok is_done_def)
  from written_next [OF _ this, of dumps loads "[]"] Nil.prems(1,7) show ?case
    by (simp add: written_def cons_event_def finish_def done_event_def is_done_def)
next
  case (Cons c cs)
  let ?q = "p\<lparr>tp_chunks := tp_chunks p + 1\<rparr>"
  have v: "validate_event p c = (?q, Inr ())"
    using Cons.prems by (simp add: validate_event_ok chunk_event_ok is_chunk_def)
  have "\<exists>r. feed_loop loads (written dumps (cs @ [d])) ?q = (r, Inr (cs @ [d])) \<and> finish r = Inr d"
    by (rule Cons.IH) (use Cons.prems in \<open>simp_all add: line_codec_def\<close>)
  with written_next [OF _ v, of dumps loads "cs @ [d]"] Cons.prems(1) show ?case
    by (auto simp: cons_event_def)
qed

lemma written_stream_read:
  assumes "complete_stream request_id events d" and "line_codec dumps loads events"
    and "concat pieces = written dumps events"
  shows "run_stream loads request_id pieces = Inr (events, d)"
proof -
  from assms(1) obtain s cs rate where e: "events = s # cs @ [d]"
    "is_start request_id rate (int (length cs)) s" "chunks_from request_id 0 cs"
    "is_done request_id False (int (length cs)) (int (length cs)) d"
    unfolding complete_stream_def by blast
  let ?p = "TTSStreamParser_init request_id"
  let ?q = "?p\<lparr>tp_sample_rate := rate, tp_expected_chunks := int (length cs), tp_started := True\<rparr>"
  have v: "validate_event ?p s = (?q, Inr ())"
    using e(2) by (simp add: validate_event_ok start_event_ok is_start_def TTSStreamParser_init_def)
  have "\<exists>r. feed_loop loads (written dumps (cs @ [d])) ?q = (r, Inr (cs @ [d])) \<and> finish r = Inr d"
    by (rule written_chunks) (use e assms(2) in \<open>simp_all add: TTSStreamParser_init_def line_codec_def\<close>)
  with written_next [OF _ v, of dumps loads "cs @ [d]"] assms(2)
  obtain r where "feed_loop loads (written dumps events) ?p = (r, Inr events)" "finish r = Inr d"
    unfolding e(1) by (auto simp: cons_event_def)
  then have "run_stream loads request_id [concat pieces] = Inr (events, d)"
    by (simp add: run_stream_def feed_def TTSStreamParser_init_def assms(3))
  then show ?thesis using run_stream_concat by metis
qed

text \<open>
  C38. Every stream written by the protocol, one line per event, is accepted however it is cut, and
  read back as the events that were written.
\<close>

theorem written_stream_is_read_back:
  assumes "complete_stream request_id events d" and "line_codec dumps loads events"
    and "concat pieces = written dumps events"
  shows "run_stream loads request_id pieces = Inr (events, d)"
  using assms by (rule written_stream_read)

section \<open>Witnesses\<close>

definition demo_start :: py_dict where
  "demo_start = [(''ok'', PyBool True), (''request_id'', PyStr ''r1''), (''event'', PyStr ''start''),
     (''sample_rate'', PyInt 24000), (''chunks'', PyInt 1)]"

definition demo_chunk :: py_dict where
  "demo_chunk = [(''ok'', PyBool True), (''request_id'', PyStr ''r1''), (''event'', PyStr ''chunk''),
     (''index'', PyInt 0), (''output'', PyStr ''/run/0.wav''), (''text'', PyStr ''Done.'')]"

definition demo_done :: py_dict where
  "demo_done = [(''ok'', PyBool True), (''request_id'', PyStr ''r1''), (''event'', PyStr ''done''),
     (''cancelled'', PyBool False), (''chunks'', PyInt 1)]"

lemmas demo_stream_defs = demo_start_def demo_chunk_def demo_done_def

text \<open>A codec of these three events, one letter each.\<close>

definition demo_dumps :: "py_dict \<Rightarrow> string" where
  "demo_dumps ev = (if ev = demo_start then ''s'' else if ev = demo_chunk then ''c'' else ''d'')"

definition demo_loads :: "string \<Rightarrow> py_value option" where
  "demo_loads l = (if l = ''s'' then Some (PyDict demo_start)
     else if l = ''c'' then Some (PyDict demo_chunk)
     else if l = ''d'' then Some (PyDict demo_done) else None)"

lemma demo_complete: "complete_stream ''r1'' [demo_start, demo_chunk, demo_done] demo_done"
  unfolding complete_stream_def
  by (rule exI [of _ demo_start], rule exI [of _ "[demo_chunk]"], rule exI [of _ 24000])
     (simp add: is_start_def is_chunk_def is_done_def event_of_def py_get_def demo_stream_defs)

lemma newline_letters [simp]: "newline \<noteq> CHR ''s''" "newline \<noteq> CHR ''c''" "newline \<noteq> CHR ''d''"
  by code_simp+

lemma demo_codec: "line_codec demo_dumps demo_loads [demo_start, demo_chunk, demo_done]"
  by (simp add: line_codec_def demo_dumps_def demo_loads_def demo_stream_defs)

lemma written_stream_is_read_back_witness:
  "run_stream demo_loads ''r1'' [''s'', [newline, CHR ''c''], [newline, CHR ''d'', newline]]
     = Inr ([demo_start, demo_chunk, demo_done], demo_done)"
  by (rule written_stream_is_read_back [OF demo_complete demo_codec])
     (simp add: written_def demo_dumps_def demo_stream_defs)

lemma accepted_stream_is_well_typed_witness:
  "\<exists>events. run_stream demo_loads ''r1'' [''s'' @ [newline], ''c'' @ [newline], ''d'' @ [newline]]
     = Inr (events, demo_done) \<and> complete_stream ''r1'' events demo_done"
proof -
  have r: "run_stream demo_loads ''r1'' [''s'' @ [newline], ''c'' @ [newline], ''d'' @ [newline]]
     = Inr ([demo_start, demo_chunk, demo_done], demo_done)"
    by (rule written_stream_read [OF demo_complete demo_codec])
       (simp add: written_def demo_dumps_def demo_stream_defs)
  from accepted_stream_is_well_typed [OF r] r show ?thesis by blast
qed

end
