(* ===== verification/Vad.thy ===== *)
theory Vad imports Prelude "HOL-Library.Word" begin

text \<open>
  \<open>vad.py\<close>: reading 80 ms frames of 16-bit samples from the microphone process, the energy gate in
  front of the voice activity detector, and the loop that waits for speech and records until
  silence or the duration limit. The microphone is its byte stream and what each turn of the
  reading loop observes; \<open>webrtcvad\<close> is an argument. The mean of the squares is taken over the
  reals (the code computes in double precision).
\<close>

section \<open>Sizes\<close>

definition SAMPLE_RATE :: nat where "SAMPLE_RATE = 16000"
definition FRAME_MS :: nat where "FRAME_MS = 80"
definition FRAME_SAMPLES :: nat where "FRAME_SAMPLES = SAMPLE_RATE * FRAME_MS div 1000"
definition FRAME_BYTES :: nat where "FRAME_BYTES = FRAME_SAMPLES * 2"
definition VAD_CHUNK_MS :: nat where "VAD_CHUNK_MS = 20"
definition VAD_CHUNK_BYTES :: nat where
  "VAD_CHUNK_BYTES = SAMPLE_RATE * VAD_CHUNK_MS div 1000 * 2"

lemma frame_bytes: "FRAME_BYTES = 2560" "VAD_CHUNK_BYTES = 640"
  by (simp_all add: FRAME_BYTES_def FRAME_SAMPLES_def SAMPLE_RATE_def FRAME_MS_def
      VAD_CHUNK_BYTES_def VAD_CHUNK_MS_def)

type_synonym byte = "8 word"

record vad_settings =
  vs_end_silence_ms :: real
  vs_max_seconds :: real
  vs_minimum_rms :: real
  vs_start_speech_frames :: int

section \<open>The detector\<close>

text \<open>Little-endian signed samples of the buffer (\<open>dtype="<i2"\<close>).\<close>

fun samples :: "byte list \<Rightarrow> int list" where
  "samples (lo # hi # bs) = sint (word_cat hi lo :: 16 word) # samples bs"
| "samples _ = []"

definition frame_rms :: "byte list \<Rightarrow> real" where
  "frame_rms frame =
     (let s = samples frame in sqrt (real_of_int (sum_list (map (\<lambda>x. x * x) s)) / real (length s)))"

fun chunks_of :: "nat \<Rightarrow> nat \<Rightarrow> byte list \<Rightarrow> byte list list" where
  "chunks_of 0 width frame = []"
| "chunks_of (Suc n) width frame = take width frame # chunks_of n width (drop width frame)"

text \<open>A frame has four chunks of the detector, none of them cut short.\<close>

definition is_speech :: "(byte list \<Rightarrow> bool) \<Rightarrow> real \<Rightarrow> byte list \<Rightarrow> bool" where
  "is_speech vad minimum_rms frame =
     (if length frame \<noteq> FRAME_BYTES then False
      else if frame_rms frame < minimum_rms then False
      else length (filter (\<lambda>c. length c = VAD_CHUNK_BYTES \<and> vad c)
             (chunks_of (FRAME_BYTES div VAD_CHUNK_BYTES) VAD_CHUNK_BYTES frame)) \<ge> 2)"

section \<open>Reading a frame\<close>

text \<open>
  One turn of the reading loop: the stop event is set, the poll times out, or a read returns up
  to so many of the requested bytes (none of them at the end of the stream).
\<close>

datatype poll = StopSet | NotReady | Ready nat

datatype read_result =
    FrameRead "byte list" "byte list" "poll list"
  | ReadError string
  | ReadPending

definition cancelled_error :: string where
  "cancelled_error = ''VAD dictation was cancelled''"

text \<open>What the process wrote to its standard error, and its return code.\<close>

definition ended_error :: "string \<times> int option \<Rightarrow> string" where
  "ended_error process =
     ''microphone stream ended: ''
     @ (if truthy (strip (fst process)) then strip (fst process)
        else case snd process of None \<Rightarrow> ''None'' | Some rc \<Rightarrow> show_int rc)"

fun read_frame ::
  "string \<times> int option \<Rightarrow> byte list \<Rightarrow> byte list \<Rightarrow> poll list \<Rightarrow> read_result" where
  "read_frame process data source events =
     (if length data \<ge> FRAME_BYTES then FrameRead data source events
      else case events of
        [] \<Rightarrow> ReadPending
      | StopSet # es \<Rightarrow> ReadError cancelled_error
      | NotReady # es \<Rightarrow> read_frame process data source es
      | Ready n # es \<Rightarrow>
          let chunk = take (min n (FRAME_BYTES - length data)) source in
          if chunk = [] then ReadError (ended_error process)
          else read_frame process (data @ chunk) (drop (length chunk) source) es)"

declare read_frame.simps [simp del]

section \<open>The recording loop\<close>

record vad_state =
  vd_has_speech :: bool
  vd_candidates :: "byte list list"
  vd_silence_ms :: real
  vd_captured :: nat
  vd_written :: "byte list list"

definition vad_initial :: vad_state where
  "vad_initial = \<lparr>vd_has_speech = False, vd_candidates = [], vd_silence_ms = 0, vd_captured = 0,
     vd_written = []\<rparr>"

datatype vad_outcome = Silence | MaximumDuration

text \<open>The two ends of a recording, checked after every captured frame.\<close>

definition vad_stop :: "vad_settings \<Rightarrow> vad_state \<Rightarrow> vad_outcome option" where
  "vad_stop settings st =
     (let duration = real (vd_captured st * FRAME_MS) / 1000 in
      if vd_has_speech st \<and> vd_silence_ms st \<ge> vs_end_silence_ms settings then Some Silence
      else if vd_has_speech st \<and> duration \<ge> vs_max_seconds settings then Some MaximumDuration
      else None)"

text \<open>One frame; a candidate that is not yet enough goes on without the checks.\<close>

definition vad_frame ::
  "vad_settings \<Rightarrow> vad_state \<Rightarrow> byte list \<Rightarrow> bool \<Rightarrow> vad_state \<times> vad_outcome option" where
  "vad_frame settings st frame speech =
     (if \<not> vd_has_speech st then
        let candidates = (if speech then vd_candidates st @ [frame] else []) in
        if int (length candidates) < vs_start_speech_frames settings
        then (st\<lparr>vd_candidates := candidates\<rparr>, None)
        else
          let st' = st\<lparr>vd_has_speech := True, vd_written := vd_written st @ candidates,
                vd_captured := vd_captured st + length candidates, vd_candidates := [],
                vd_silence_ms := 0\<rparr> in (st', vad_stop settings st')
      else
        let st' = st\<lparr>vd_written := vd_written st @ [frame], vd_captured := vd_captured st + 1,
              vd_silence_ms := (if speech then 0 else vd_silence_ms st + real FRAME_MS)\<rparr> in
        (st', vad_stop settings st'))"

datatype vad_result =
    Recorded vad_outcome "byte list list"
  | VadError string
  | VadPending

lemma read_frame_progress:
  "read_frame process data source events = FrameRead f s es \<Longrightarrow> length data < FRAME_BYTES \<Longrightarrow>
   length es < length events"
proof (induction events arbitrary: data source)
  case Nil
  then show ?case by (simp add: read_frame.simps)
next
  case (Cons e events)
  have IH: "length es < length (e # events)"
    if "read_frame process d src events = FrameRead f s es" for d src
  proof (cases "length d < FRAME_BYTES")
    case True
    from Cons.IH [OF that this] show ?thesis by simp
  next
    case False
    with that show ?thesis by (simp add: read_frame.simps)
  qed
  show ?case
    using Cons.prems IH
    by (cases e) (auto simp: read_frame.simps [of process data source "e # events" for e] Let_def split: if_splits)
qed

text \<open>
  The loop of \<open>capture_vad_audio\<close>: it is pending while the microphone has delivered no more, and
  an error closes the recording wherever it was.
\<close>

function capture_loop ::
  "(byte list \<Rightarrow> bool) \<Rightarrow> string \<times> int option \<Rightarrow> vad_settings \<Rightarrow> vad_state \<Rightarrow> byte list \<Rightarrow>
   poll list \<Rightarrow> vad_result" where
  "capture_loop vad process settings st source events =
     (if (case events of StopSet # es \<Rightarrow> True | _ \<Rightarrow> False) then VadError cancelled_error
      else case read_frame process [] source events of
        ReadPending \<Rightarrow> VadPending
      | ReadError e \<Rightarrow> VadError e
      | FrameRead frame source' events' \<Rightarrow>
          (case vad_frame settings st frame (is_speech vad (vs_minimum_rms settings) frame) of
             (st', Some outcome) \<Rightarrow> Recorded outcome (vd_written st')
           | (st', None) \<Rightarrow> capture_loop vad process settings st' source' events'))"
  by pat_completeness auto

termination capture_loop
  by (relation "measure (\<lambda>(vad, process, settings, st, source, events). length events)")
     (auto dest: read_frame_progress simp: frame_bytes)

declare capture_loop.simps [simp del]

definition capture_vad_audio ::
  "(byte list \<Rightarrow> bool) \<Rightarrow> string \<times> int option \<Rightarrow> vad_settings \<Rightarrow> byte list \<Rightarrow> poll list \<Rightarrow> vad_result" where
  "capture_vad_audio vad process settings source events =
     capture_loop vad process settings vad_initial source events"

end
