(* ===== verification/Vad_Machine.thy ===== *)
theory Vad_Machine imports Vad "HOL-Library.Sublist" begin

text \<open>
  What a recording is: whole consecutive frames of the stream from the first run of enough speech
  frames on, closed by enough silence or by the duration limit, which it exceeds by less than a
  frame.
\<close>

section \<open>Frames of the stream\<close>

lemma take_drop_self: "take k xs @ drop (length (take k xs)) xs = xs"
  by (cases "k \<le> length xs") simp_all

lemma read_frame_next:
  assumes "\<not> FRAME_BYTES \<le> length data"
  shows "read_frame process data source (StopSet # es) = ReadError cancelled_error"
    and "read_frame process data source (NotReady # es) = read_frame process data source es"
    and "read_frame process data source (Ready n # es) =
      (let chunk = take (min n (FRAME_BYTES - length data)) source in
       if chunk = [] then ReadError (ended_error process)
       else read_frame process (data @ chunk) (drop (length chunk) source) es)"
  using assms by (simp_all add: read_frame.simps)

lemma read_frame_cuts:
  "read_frame process data source events = FrameRead f s es \<Longrightarrow> length data \<le> FRAME_BYTES \<Longrightarrow>
   length f = FRAME_BYTES \<and> (\<exists>c. f = data @ c \<and> source = c @ s)"
proof (induction events arbitrary: data source)
  case Nil
  then show ?case by (simp add: read_frame.simps split: if_splits)
next
  case (Cons e events)
  show ?case
  proof (cases "length data \<ge> FRAME_BYTES")
    case True
    with Cons.prems show ?thesis by (simp add: read_frame.simps)
  next
    case False
    show ?thesis
    proof (cases e)
      case NotReady
      with Cons.prems False Cons.IH [of data source] show ?thesis
        by (simp add: read_frame_next)
    next
      case (Ready n)
      let ?c = "take (min n (FRAME_BYTES - length data)) source"
      from Cons.prems False Ready
      have r: "read_frame process (data @ ?c) (drop (length ?c) source) events = FrameRead f s es"
        by (simp add: read_frame_next Let_def split: if_splits)
      have "length (data @ ?c) \<le> FRAME_BYTES" using False by simp
      from Cons.IH [OF r this] obtain c where
        "length f = FRAME_BYTES" "f = (data @ ?c) @ c" "drop (length ?c) source = c @ s" by blast
      moreover have "source = ?c @ drop (length ?c) source"
        by (rule take_drop_self [symmetric])
      ultimately show ?thesis by (metis append.assoc)
    qed (use Cons.prems False in \<open>simp add: read_frame_next\<close>)
  qed
qed

section \<open>The invariant of the loop\<close>

text \<open>The number of speech frames at the end of a list of frames.\<close>

definition speech_tail :: "('f \<Rightarrow> bool) \<Rightarrow> 'f list \<Rightarrow> nat" where
  "speech_tail sp fs = length (takeWhile sp (rev fs))"

lemma speech_tail_snoc [simp]:
  "speech_tail sp (fs @ [f]) = (if sp f then speech_tail sp fs + 1 else 0)"
  by (simp add: speech_tail_def)

text \<open>The frames up to the onset are the shortest beginning that ends in enough speech.\<close>

definition waits_for_onset :: "('f \<Rightarrow> bool) \<Rightarrow> nat \<Rightarrow> 'f list \<Rightarrow> bool" where
  "waits_for_onset sp n fs \<longleftrightarrow> (\<forall>p. prefix p fs \<longrightarrow> speech_tail sp p < n)"

definition first_onset :: "('f \<Rightarrow> bool) \<Rightarrow> nat \<Rightarrow> 'f list \<Rightarrow> bool" where
  "first_onset sp n fs \<longleftrightarrow> (\<forall>p. strict_prefix p fs \<longrightarrow> speech_tail sp p < n) \<and> speech_tail sp fs = n"

definition trailing_silence :: "('f \<Rightarrow> bool) \<Rightarrow> nat \<Rightarrow> 'f list \<Rightarrow> bool" where
  "trailing_silence sp k fs \<longleftrightarrow> (\<exists>us vs. fs = us @ vs \<and> length vs = k \<and> list_all (\<lambda>f. \<not> sp f) vs)"

definition recording ::
  "(byte list \<Rightarrow> bool) \<Rightarrow> nat \<Rightarrow> byte list list \<Rightarrow> byte list list \<Rightarrow> bool" where
  "recording sp n fs written \<longleftrightarrow>
     (\<exists>pre rest on. fs = pre @ written \<and> written = on @ rest \<and> length on = n
        \<and> first_onset sp n (pre @ on))"

definition vad_inv ::
  "(byte list \<Rightarrow> bool) \<Rightarrow> vad_settings \<Rightarrow> byte list list \<Rightarrow> vad_state \<Rightarrow> bool" where
  "vad_inv sp settings fs st \<longleftrightarrow>
     (let n = nat (vs_start_speech_frames settings) in
      if \<not> vd_has_speech st
      then vd_written st = [] \<and> vd_captured st = 0 \<and> waits_for_onset sp n fs
        \<and> vd_candidates st = rev (takeWhile sp (rev fs))
      else vd_captured st = length (vd_written st) \<and> recording sp n fs (vd_written st)
        \<and> (\<exists>k. vd_silence_ms st = real (k * FRAME_MS) \<and> trailing_silence sp k (vd_written st)))"

lemma candidates_suffix:
  "\<exists>pre. fs = pre @ rev (takeWhile sp (rev fs))"
  by (rule exI [of _ "rev (dropWhile sp (rev fs))"]) (metis rev_append rev_rev_ident takeWhile_dropWhile_id)

lemma waits_snoc:
  "waits_for_onset sp n (fs @ [f]) \<longleftrightarrow> waits_for_onset sp n fs \<and> speech_tail sp (fs @ [f]) < n"
  by (auto simp: waits_for_onset_def)

lemma recording_snoc: "recording sp n fs w \<Longrightarrow> recording sp n (fs @ [f]) (w @ [f])"
  unfolding recording_def by (metis append.assoc)

lemma silence_snoc:
  assumes "trailing_silence sp k w"
  shows "trailing_silence sp (if sp f then 0 else k + 1) (w @ [f])"
proof (cases "sp f")
  case True
  then show ?thesis by (auto simp: trailing_silence_def)
next
  case False
  from assms obtain us vs where "w = us @ vs" "length vs = k" "list_all (\<lambda>f. \<not> sp f) vs"
    unfolding trailing_silence_def by blast
  with False show ?thesis
    unfolding trailing_silence_def by (intro exI [of _ us] exI [of _ "vs @ [f]"]) simp
qed

lemma vad_inv_frame:
  assumes "vad_inv sp settings fs st" and "vad_frame settings st f (sp f) = (st', out)"
    and "1 \<le> vs_start_speech_frames settings"
  shows "vad_inv sp settings (fs @ [f]) st'"
proof -
  let ?n = "nat (vs_start_speech_frames settings)"
  show ?thesis
  proof (cases "vd_has_speech st")
    case True
    with assms(1) obtain k where "recording sp ?n fs (vd_written st)"
      "vd_silence_ms st = real (k * FRAME_MS)" "trailing_silence sp k (vd_written st)"
      "vd_captured st = length (vd_written st)"
      by (auto simp: vad_inv_def Let_def)
    moreover from assms(2) True have
      "vd_has_speech st'" "vd_written st' = vd_written st @ [f]" "vd_captured st' = vd_captured st + 1"
      "vd_silence_ms st' = (if sp f then 0 else vd_silence_ms st + real FRAME_MS)"
      by (auto simp: vad_frame_def Let_def)
    ultimately show ?thesis
      using silence_snoc [of sp k "vd_written st" f]
      by (auto simp: vad_inv_def Let_def recording_snoc algebra_simps
          intro!: exI [of _ "if sp f then 0 else k + 1"])
  next
    case False
    let ?c = "if sp f then vd_candidates st @ [f] else []"
    from assms(1) False have waits: "waits_for_onset sp ?n fs" and w: "vd_written st = []" "vd_captured st = 0"
      and c: "vd_candidates st = rev (takeWhile sp (rev fs))"
      by (simp_all add: vad_inv_def Let_def)
    have c': "?c = rev (takeWhile sp (rev (fs @ [f])))" by (simp add: c)
    have len: "length ?c = speech_tail sp (fs @ [f])" by (simp add: c speech_tail_def)
    have bound: "speech_tail sp (fs @ [f]) \<le> ?n"
      using waits assms(3) by (force simp: waits_for_onset_def)
    show ?thesis
    proof (cases "int (length ?c) < vs_start_speech_frames settings")
      case True
      then have "st' = st\<lparr>vd_candidates := ?c\<rparr>" using assms(2) False by (simp add: vad_frame_def Let_def)
      with True False w c' waits len show ?thesis
        by (simp add: vad_inv_def Let_def waits_snoc del: speech_tail_snoc)
    next
      case enough: False
      then have st': "st' = st\<lparr>vd_has_speech := True, vd_written := ?c, vd_captured := length ?c,
          vd_candidates := [], vd_silence_ms := 0\<rparr>"
        using assms(2) False w by (auto simp: vad_frame_def Let_def)
      from enough len bound have n: "length ?c = ?n" "speech_tail sp (fs @ [f]) = ?n" by linarith+
      obtain pre where pre: "fs @ [f] = pre @ ?c" using candidates_suffix [of "fs @ [f]" sp] c' by metis
      have "first_onset sp ?n (fs @ [f])"
        using waits n(2) unfolding first_onset_def waits_for_onset_def
        by (metis prefix_order.less_le prefix_snoc)
      then have "recording sp ?n (fs @ [f]) ?c"
        unfolding recording_def
        by (intro exI [of _ pre] exI [of _ "[]"] exI [of _ ?c]) (use pre n(1) in simp)
      moreover have "trailing_silence sp 0 ?c" by (simp add: trailing_silence_def)
      ultimately show ?thesis
        unfolding st' by (auto simp: vad_inv_def Let_def intro!: exI [of _ "0 :: nat"])
    qed
  qed
qed

section \<open>A finished recording\<close>

text \<open>What the checks after the last frame and before it say of a finished recording.\<close>

definition well_ended ::
  "(byte list \<Rightarrow> bool) \<Rightarrow> vad_settings \<Rightarrow> vad_outcome \<Rightarrow> byte list list \<Rightarrow> bool" where
  "well_ended sp settings outcome w \<longleftrightarrow>
     (case outcome of
        Silence \<Rightarrow> (\<exists>k. vs_end_silence_ms settings \<le> real (k * FRAME_MS) \<and> trailing_silence sp k w)
      | MaximumDuration \<Rightarrow> vs_max_seconds settings \<le> real (length w * FRAME_MS) / 1000)
     \<and> (length w = nat (vs_start_speech_frames settings)
        \<or> real ((length w - 1) * FRAME_MS) / 1000 < vs_max_seconds settings)"

lemma vad_stop_ended:
  assumes "vad_inv sp settings fs st" and "vd_has_speech st" and "vad_stop settings st = Some out"
  shows "case out of
      Silence \<Rightarrow> \<exists>k. vs_end_silence_ms settings \<le> real (k * FRAME_MS) \<and> trailing_silence sp k (vd_written st)
    | MaximumDuration \<Rightarrow> vs_max_seconds settings \<le> real (length (vd_written st) * FRAME_MS) / 1000"
  using assms by (auto simp: vad_inv_def vad_stop_def Let_def split: vad_outcome.splits if_splits)

lemma vad_frame_ended:
  assumes "vad_inv sp settings fs st" and "vad_frame settings st f (sp f) = (st', Some out)"
    and "1 \<le> vs_start_speech_frames settings" and "vad_stop settings st = None"
  shows "well_ended sp settings out (vd_written st')"
proof -
  note inv' = vad_inv_frame [OF assms(1-3)]
  have has: "vd_has_speech st'" and stop: "vad_stop settings st' = Some out"
    using assms(2) by (auto simp: vad_frame_def Let_def split: if_splits)
  have "length (vd_written st') = nat (vs_start_speech_frames settings)
      \<or> real ((length (vd_written st') - 1) * FRAME_MS) / 1000 < vs_max_seconds settings"
  proof (cases "vd_has_speech st")
    case True
    then have "vd_written st' = vd_written st @ [f]" using assms(2) by (auto simp: vad_frame_def Let_def)
    moreover have "vd_captured st = length (vd_written st)"
      using assms(1) True by (simp add: vad_inv_def Let_def)
    ultimately show ?thesis
      using assms(4) True by (auto simp: vad_stop_def Let_def split: if_splits)
  next
    case False
    let ?c = "if sp f then vd_candidates st @ [f] else []"
    from assms(1,2) False have w: "vd_written st' = ?c" "\<not> int (length ?c) < vs_start_speech_frames settings"
      by (auto simp: vad_frame_def vad_inv_def Let_def split: if_splits)
    from assms(1) False have "length (vd_candidates st) < nat (vs_start_speech_frames settings)"
      by (auto simp: vad_inv_def waits_for_onset_def speech_tail_def Let_def)
    with w assms(3) show ?thesis by (auto split: if_splits)
  qed
  with vad_stop_ended [OF inv' has stop] show ?thesis by (simp add: well_ended_def)
qed

lemma capture_loop_recorded:
  assumes "1 \<le> vs_start_speech_frames settings"
  shows "capture_loop vad process settings st source events = Recorded out w \<Longrightarrow>
    sp = is_speech vad (vs_minimum_rms settings) \<Longrightarrow>
    vad_inv sp settings fs st \<Longrightarrow> vad_stop settings st = None \<Longrightarrow>
    \<exists>gs post. source = concat gs @ post \<and> list_all (\<lambda>f. length f = FRAME_BYTES) gs
      \<and> recording sp (nat (vs_start_speech_frames settings)) (fs @ gs) w \<and> well_ended sp settings out w"
proof (induction "length events" arbitrary: st source events fs rule: less_induct)
  case less
  from less.prems(1) obtain f source' events' st' res where
    r: "read_frame process [] source events = FrameRead f source' events'"
    and v: "vad_frame settings st f (is_speech vad (vs_minimum_rms settings) f) = (st', res)"
    and next': "case res of Some o' \<Rightarrow> o' = out \<and> w = vd_written st'
      | None \<Rightarrow> capture_loop vad process settings st' source' events' = Recorded out w"
    by (subst (asm) capture_loop.simps) (auto split: if_splits read_result.splits prod.splits option.splits)
  note v' = v [folded less.prems(2)]
  from read_frame_cuts [OF r] have f: "length f = FRAME_BYTES" "source = f @ source'" by simp_all
  note inv' = vad_inv_frame [OF less.prems(3) v' assms]
  show ?case
  proof (cases res)
    case None
    have stop: "vad_stop settings st' = None"
      using v None by (auto simp: vad_frame_def vad_stop_def Let_def split: if_splits)
    have "length events' < length events" by (rule read_frame_progress [OF r]) (simp add: frame_bytes)
    from next' None have "capture_loop vad process settings st' source' events' = Recorded out w" by simp
    from less.hyps [OF \<open>length events' < length events\<close> this less.prems(2) inv' stop] obtain gs post where
      "source' = concat gs @ post" "list_all (\<lambda>f. length f = FRAME_BYTES) gs"
      "recording sp (nat (vs_start_speech_frames settings)) ((fs @ [f]) @ gs) w" "well_ended sp settings out w"
      by auto
    with f show ?thesis by (intro exI [of _ "f # gs"] exI [of _ post]) simp
  next
    case (Some o')
    with next' have o: "o' = out" "w = vd_written st'" by simp_all
    have "vd_has_speech st'" using v Some by (auto simp: vad_frame_def Let_def split: if_splits)
    with inv' o have "recording sp (nat (vs_start_speech_frames settings)) (fs @ [f]) w"
      by (simp add: vad_inv_def Let_def)
    moreover have "well_ended sp settings out w"
      using vad_frame_ended [OF less.prems(3) _ assms less.prems(4)] v' Some o by simp
    ultimately show ?thesis using f by (intro exI [of _ "[f]"] exI [of _ source']) simp
  qed
qed

lemma vad_initial_inv:
  "1 \<le> vs_start_speech_frames settings \<Longrightarrow> vad_inv sp settings [] vad_initial \<and> vad_stop settings vad_initial = None"
  by (simp add: vad_inv_def vad_initial_def Let_def waits_for_onset_def speech_tail_def vad_stop_def)

text \<open>
  A finished recording consists of whole consecutive frames of the microphone stream, cut at frame
  borders, from the first run of \<open>start_speech_frames\<close> speech frames of the stream on: no earlier
  frame ends such a run, and the recording begins with that run.
\<close>

theorem recording_starts_at_first_speech:
  assumes "capture_vad_audio vad process settings source events = Recorded outcome frames"
    and "1 \<le> vs_start_speech_frames settings"
  shows "\<exists>gs post. source = concat gs @ post \<and> list_all (\<lambda>f. length f = 2560) gs
    \<and> recording (is_speech vad (vs_minimum_rms settings)) (nat (vs_start_speech_frames settings)) gs frames"
  using capture_loop_recorded [OF assms(2) assms(1) [unfolded capture_vad_audio_def] refl, of "[]"]
    vad_initial_inv [OF assms(2)]
  by (auto simp: frame_bytes)

text \<open>
  A recording ends with the configured silence or has reached the duration limit, and it exceeds
  the limit by less than one frame (unless the onset alone is longer).
\<close>

theorem recording_is_bounded:
  assumes "capture_vad_audio vad process settings source events = Recorded outcome frames"
    and "1 \<le> vs_start_speech_frames settings"
  shows "well_ended (is_speech vad (vs_minimum_rms settings)) settings outcome frames"
  using capture_loop_recorded [OF assms(2) assms(1) [unfolded capture_vad_audio_def] refl, of "[]"]
    vad_initial_inv [OF assms(2)]
  by auto

section \<open>Witnesses\<close>

definition loud_frame :: "byte list" where "loud_frame = replicate 2560 1"
definition quiet_frame :: "byte list" where "quiet_frame = replicate 2560 0"

definition demo_vad :: "byte list \<Rightarrow> bool" where "demo_vad c \<longleftrightarrow> c \<noteq> [] \<and> hd c = 1"

definition demo_settings :: vad_settings where
  "demo_settings = \<lparr>vs_end_silence_ms = 80, vs_max_seconds = 10, vs_minimum_rms = 0,
     vs_start_speech_frames = 1\<rparr>"

lemma frame_rms_nonneg: "0 \<le> frame_rms frame"
proof -
  have "0 \<le> sum_list (map (\<lambda>x. x * x) xs)" for xs :: "int list" by (induction xs) simp_all
  then show ?thesis by (simp add: frame_rms_def Let_def)
qed

lemma chunks_of_replicate: "chunks_of n k (replicate (n * k) b) = replicate n (replicate k b)"
  by (induction n) (simp_all add: take_replicate drop_replicate)

lemma constant_frame_speech:
  "is_speech demo_vad 0 (replicate 2560 b) \<longleftrightarrow> b = 1"
proof -
  have c: "chunks_of 4 640 (replicate 2560 b) = replicate 4 (replicate 640 b)"
    using chunks_of_replicate [of 4 640 b] by simp
  have d: "demo_vad (replicate 640 b) \<longleftrightarrow> b = 1"
    by (simp add: demo_vad_def hd_replicate)
  have "length (filter (\<lambda>c. length c = 640 \<and> demo_vad c) (replicate 4 (replicate 640 b)))
      = (if b = 1 then 4 else 0)"
    by (subst filter_replicate) (simp add: d)
  with c frame_rms_nonneg [of "replicate 2560 b"] show ?thesis
    by (simp add: is_speech_def frame_bytes not_less)
qed

lemma demo_speech: "is_speech demo_vad 0 loud_frame" "\<not> is_speech demo_vad 0 quiet_frame"
  by (simp_all add: loud_frame_def quiet_frame_def constant_frame_speech)

lemma demo_reads:
  "read_frame ([], None) [] (loud_frame @ quiet_frame) [Ready 2560, Ready 2560]
     = FrameRead loud_frame quiet_frame [Ready 2560]"
  "read_frame ([], None) [] quiet_frame [Ready 2560] = FrameRead quiet_frame [] []"
  by (simp_all add: read_frame.simps frame_bytes loud_frame_def quiet_frame_def Let_def
     )

lemma demo_recorded:
  "capture_vad_audio demo_vad ([], None) demo_settings (loud_frame @ quiet_frame) [Ready 2560, Ready 2560]
     = Recorded Silence [loud_frame, quiet_frame]"
  unfolding capture_vad_audio_def
  apply (subst capture_loop.simps)
  apply (simp add: demo_reads demo_speech vad_frame_def vad_initial_def demo_settings_def vad_stop_def
      FRAME_MS_def Let_def)
  apply (subst capture_loop.simps)
  apply (simp add: demo_reads demo_speech vad_frame_def vad_stop_def FRAME_MS_def Let_def)
  done

lemma recording_starts_at_first_speech_witness:
  "\<exists>gs post. loud_frame @ quiet_frame = concat gs @ post
     \<and> recording (is_speech demo_vad 0) 1 gs [loud_frame, quiet_frame]"
  using recording_starts_at_first_speech [OF demo_recorded]
  by (auto simp: demo_settings_def)

lemma recording_is_bounded_witness:
  "well_ended (is_speech demo_vad 0) demo_settings Silence [loud_frame, quiet_frame]"
  using recording_is_bounded [OF demo_recorded] by (simp add: demo_settings_def)

end
