(* ===== verification/Spec2Isabelle.thy ===== *)
theory Spec2Isabelle
  imports Cleanup_Machine Delivery_Machine Operation_Gate Prompt_Machine Workflow_Machine
    Job_Soundness Drain_Machine Store_Op_Examples Announcement_Examples Activation_Examples Playback_Machine Question_Machine Inbox_Resolution Tts_Machine Vad_Machine
begin

text \<open>
  A development of the durable job core of local-voice-harness, a voice front end that runs
  coding-agent jobs over crashes, restarts and several processes. What makes it hard is that
  prompts, checkouts, forks, announcements and outbox effects have consequences outside the
  program and may be repeated by no retry, while every process may die at any moment: the code
  answers with durable state machines, identity and revision fences, leases and append-once
  tables. The theories translate these parts from the Python sources under
  \<open>src/src/local_voice_harness/\<close> and prove what the fences promise.

  Theories and the code they model:

  \<^item> \<open>Prelude\<close>: results of fallible code, runs of steps, Python's truth value, \<open>or\<close>, \<open>str.strip\<close>,
    \<open>repr\<close> and \<open>str\<close> of integers. \<open>Interfaces\<close>: the locales every component interprets on its own
    operations: a machine whose label moves along a table of edges (\<open>guarded_machine\<close>), the same
    with a rank every edge lowers (\<open>ranked_machine\<close>), and a codec between typed values and stored
    columns (\<open>flat_codec\<close>).
  \<^item> \<open>Lifecycle\<close>: \<open>cursor/lifecycle.py\<close>, terminal outcome, cleanup fence, announcement and delivery
    state. \<open>Cleanup_Machine\<close> and \<open>Delivery_Machine\<close> run its operations (the latter with the wrappers
    of \<open>cursor/model.py\<close>): token fences, take-over, leases, one completion per generation, liveness
    and the round trips through the columns.
  \<^item> \<open>Operations\<close>: \<open>cursor/operations.py\<close>, worker ownership and the checkout, fork, session and pane
    operations. \<open>Operation_Machines\<close> runs them and relates the fine tables to the collapsed one;
    \<open>Operation_Gate\<close> is \<open>_validate_operation_transitions\<close> of \<open>cursor/model.py\<close>, the gate on every update
    of a job, and the readers of older records; its properties range over whole histories.
  \<^item> \<open>Prompt_Operations\<close>, \<open>Prompt_Machine\<close>: \<open>prompt_operations.py\<close>, the submit fence of prompts.
  \<^item> \<open>Workflow\<close>, \<open>Workflow_Machine\<close>: \<open>cursor/workflow.py\<close>, risk tiers, phases, review rounds, artifact
    references, the plan approval gate and the creation of participants.
  \<^item> \<open>Job_Lifecycle\<close>, \<open>Job_Machine\<close>: \<open>job_lifecycle.py\<close>, the union of job states, \<open>apply_event\<close> with its
    revision and worker fences, follow-ups and session control. A job carries the prompt operation,
    workflow, cleanup state, terminal outcome and worker ownership of the theories before.
  \<^item> \<open>Outbox\<close>, \<open>Outbox_Machine\<close>: \<open>cursor/coordinator.py\<close> and the outbox of \<open>cursor/sqlite_store.py\<close> and
    \<open>cursor/store.py\<close>: SQL statements as operations on tables, transactions as functions, and a
    transition system of all their users in any interleaving. \<open>Outbox_Drain\<close>, \<open>Drain_Machine\<close>:
    \<open>cursor/outbox.py\<close>, claiming and handling effects, as a function of a schedule of what other
    processes do between its calls; the calls of every drain follow its protocol (\<open>handling\<close>,
    \<open>draining\<close>) and are a run of the outbox machine.
  \<^item> \<open>Job_Record\<close>, \<open>Job_Transition\<close>, \<open>Job_Gate\<close>: the job record of \<open>cursor/model.py\<close> with its typed
    readers and its view as a \<open>Job_Lifecycle\<close> job, \<open>validate_transition\<close>, the gate every update of
    a stored job passes, and what histories of gated updates keep; they are runs of \<open>Job_Machine\<close>.
    \<open>Reservations\<close>: \<open>validate_reservations\<close>, exclusive Herdr targets and worktrees across jobs.
    \<open>Job_Invariants\<close>, \<open>Job_Soundness\<close>: \<open>AgentJob.validate_invariants\<close>, the conditions between the
    fields of one record, what an accepted record is known to satisfy, and the gate with them.
  \<^item> \<open>Job_Update\<close>: \<open>from_dict\<close>, \<open>_updated\<close>, \<open>evolve\<close>, \<open>transition\<close> and the delivery methods of
    \<open>cursor/model.py\<close>, how the next revision of a record is built. \<open>Job_Store\<close>, \<open>Store_Machine\<close>: the
    transactions of \<open>cursor/store.py\<close> that update a stored job, with the reservation, delivery claim
    and worker claim tables of \<open>cursor/sqlite_store.py\<close>; commands are arbitrary functions, calls come
    from any processes in any order, failed ones are rolled back. Histories of stored jobs are
    histories of the gate, and the tables' uniqueness makes resources exclusive.
    \<open>Store_Operations\<close>, \<open>Store_Operations_Machine\<close>, \<open>Store_Guarantees\<close>: the other operations of the
    store, creating jobs and follow-ups, typed commands, admission up to the capacity, grouped
    answers, pruning and the maintenance lease under which all jobs are deleted. Every operation
    moves jobs one at a time (\<open>job_move\<close>), by updates the gate accepts, new rows or deletions; the
    guarantees for any sequence of operations are proved of these moves.
  \<^item> \<open>Delivery_Service\<close>, \<open>Delivery_Claims\<close>: \<open>cursor/delivery.py\<close>, clients of that store; what they do
    to a job by the requests the store accepts is a run of the delivery machine, live claims are exclusive, a result is spoken at
    most once, a scan returns distinct claims. \<open>Worker_Lifecycle\<close>, \<open>Worker_Claims\<close>:
    \<open>cursor/worker_lifecycle.py\<close>, reserving a queued job, handing it over to a child process and
    beginning it; a launch that fails leaves no reservation but in the cases named there. \<open>Store_Examples\<close>, \<open>Worker_Examples\<close>, \<open>Store_Op_Examples\<close>: an announcement, a launch, an
    admission and a deletion evaluated through the store, which also show that the hypotheses of these theorems can be met.
  \<^item> \<open>Announcements\<close>, \<open>Announcement_Claims\<close>, \<open>Announcement_Examples\<close>: \<open>cursor/announcements.py\<close>,
    the policy that speaks, shows or defers a result, and the drain that applies it to the due ones,
    a client of the delivery service; what it does not hand over to be spoken is kept for the digest.
  \<^item> \<open>Questions\<close>, \<open>Question_Machine\<close>: \<open>questions/__init__.py\<close>, the question contract, its envelope and
    marker, the resolution of spoken answers and the binding of a question to the prompt that
    delivers its answer. \<open>json.loads\<close> is an argument; \<open>casefold\<close> is exact below code point 256
    but for the micro sign.
  \<^item> \<open>Inbox\<close>, \<open>Inbox_Resolution\<close>: \<open>cursor/inbox.py\<close> and \<open>_resolve_reference\<close> of \<open>cursor/service.py\<close>, the
    spoken overview of jobs and the resolution of a spoken reference to one of them.
  \<^item> \<open>Tts_Stream\<close>, \<open>Tts_Machine\<close>: \<open>tts/stream.py\<close>, the parser of the speech server's event stream; it
    reads the same events however the socket cuts the bytes. \<open>Vad\<close>, \<open>Vad_Machine\<close>: \<open>vad.py\<close>, the
    recording of one utterance from a stream of audio frames; the speech classifier of webrtcvad
    is an argument.
    \<open>Playback_Queue\<close>, \<open>Playback_Machine\<close>: the queue of \<open>tts/queue.py\<close>, its drain through one audio
    process; what is reported as spoken was written in full, in queue order.
  \<^item> \<open>Activation_Journal\<close>, \<open>Activation_Codec\<close>, \<open>Activation_Worker\<close>: \<open>config_activation.py\<close>, the durable
    journal of a confirmed configuration change, its file format, and the executor that validates a
    voice, restarts services, observes them and rolls back. The executor is a program in which the
    process may die before any call while the wake daemon changes the journal.
    \<open>Activation_Invariant\<close>, \<open>Activation_Triples\<close>, \<open>Activation_Machine\<close>, \<open>Activation_Progress\<close>: an
    invariant over the log of requested restarts, a program logic that carries it through the
    executor, and what follows: no restart is repeated, success was observed, and an undisturbed
    execution ends. \<open>Activation_Consent\<close>: no restart lacks the answer of the user that agreed to it. \<open>Activation_Examples\<close>: an interrupted activation evaluated.

  Conventions. A raised exception is \<open>Inl\<close> of an error with its message, a returned value \<open>Inr\<close>. A
  class whose \<open>__post_init__\<close> checks its fields has a constructor \<open><Class>_init\<close> or \<open><Class>_check\<close>;
  \<open>dataclasses.replace\<close> runs it again. A union of data classes is a \<open>datatype\<close>, a single one a
  \<open>record\<close>; stored columns are records of options. Unbounded Python integers are \<open>int\<close>; times are
  \<open>real\<close> (the rounding of doubles is not modelled), except where the code tests for finiteness.
  Strings have the characters below code point 256. Generated identifiers and the clock are
  arguments; where the code relies on \<open>uuid4\<close> being new, the step relation says so. Runs stop at
  the first error (\<open>run_steps\<close>), or go on with the state unchanged where the store does.

  Bounds: a fork has at most five transitions, a review at most two revisions, an effect at most
  eight attempts; no fuel is used, all recursions are structural.

  Not modelled: speech recognition, synthesis and the prefetch of speech, the wake daemon, language-model calls, external services,
  configuration and systemd, the orchestration loops of provisioning and recovery, the fields of
  the job record that no modelled code reads, with \<open>to_dict\<close> and the migrations of older records,
  quarantine, artifact files, the queryable projection of the jobs table, and signals. How the
  store rewrites a record of an older version (\<open>legacy\<close>) and checks artifact files (\<open>artifacts\<close>) are
  arguments of its transactions; a scan of announcements happens at one time, as with its \<open>now\<close>
  parameter. \<open>validate_transition\<close> takes the field invariants of the new record as an
  argument, so what \<open>Job_Gate\<close> proves holds whatever they are; \<open>Job_Soundness\<close> puts
  \<open>validate_invariants\<close> in. In the command commit, the caller's decision and the validation of the
  candidate are arguments.
\<close>

end
